(* ===== verification/Rust_Prelude.thy ===== *)
theory Rust_Prelude
  imports Main "HOL-Library.Word" "HOL-Library.Code_Target_Nat"
begin

text \<open>
  Shared vocabulary of the development: the part of the Rust standard library the SIP stack
  uses (byte strings, trimming, splitting, decimal integers, UTF-8 validation, \<open>Result\<close>
  chaining, first-match search and in-place update in a vector) and the generic lemmas about it.

  A \<open>str\<close> or \<open>Vec<u8>\<close> is a \<open>string\<close>, the list of its UTF-8 bytes. White space is the
  ASCII white space of \<open>char::is_whitespace\<close> (tab, LF, VT, FF, CR, space); the non-ASCII
  white space that Rust also trims is outside the model.
\<close>

named_theorems rust_defs \<open>definitions unfolded together when a concrete input is evaluated\<close>

type_synonym bytes = string

section \<open>Characters\<close>

abbreviation byte :: "char \<Rightarrow> nat" where
  "byte c \<equiv> of_char c"

definition is_ws :: "char \<Rightarrow> bool" where
  "is_ws c \<longleftrightarrow> c = CHR 0x20 \<or> c = CHR 0x09 \<or> c = CHR 0x0A \<or> c = CHR 0x0B \<or> c = CHR 0x0C \<or> c = CHR 0x0D"

definition to_ascii_lowercase :: "char \<Rightarrow> char" where
  "to_ascii_lowercase c = (if 65 \<le> byte c \<and> byte c \<le> 90 then char_of (byte c + 32) else c)"

definition is_ascii_digit :: "char \<Rightarrow> bool" where
  "is_ascii_digit c \<longleftrightarrow> c \<in> set ''0123456789''"

definition is_ascii_alphabetic :: "char \<Rightarrow> bool" where
  "is_ascii_alphabetic c \<longleftrightarrow> 97 \<le> byte (to_ascii_lowercase c) \<and> byte (to_ascii_lowercase c) \<le> 122"

definition is_ascii_alphanumeric :: "char \<Rightarrow> bool" where
  "is_ascii_alphanumeric c \<longleftrightarrow> is_ascii_digit c \<or> is_ascii_alphabetic c"

definition is_ascii_hexdigit :: "char \<Rightarrow> bool" where
  "is_ascii_hexdigit c \<longleftrightarrow> c \<in> set ''0123456789abcdefABCDEF''"

lemma to_ascii_lowercase_Char [simp, code]:
  "to_ascii_lowercase (Char b0 b1 b2 b3 b4 b5 b6 b7) =
    (if \<not> b7 \<and> b6 \<and> \<not> b5 \<and> (b0 \<or> b1 \<or> b2 \<or> b3 \<or> b4) \<and> \<not> (b4 \<and> b3 \<and> b2) \<and> \<not> (b4 \<and> b3 \<and> b1 \<and> b0)
     then Char b0 b1 b2 b3 b4 True b6 b7 else Char b0 b1 b2 b3 b4 b5 b6 b7)"
  by (cases b0; cases b1; cases b2; cases b3; cases b4; cases b5; cases b6; cases b7)
    (simp_all add: to_ascii_lowercase_def char_of_def bit_Suc_0_iff)

lemma ascii_digit_not_ws [simp]: "is_ascii_digit c \<Longrightarrow> \<not> is_ws c"
  by (auto simp: is_ascii_digit_def is_ws_def)

section \<open>Results\<close>

text \<open>\<open>Result::and_then\<close>, which also is the \<open>?\<close> operator.\<close>

definition and_then :: "'e + 'a \<Rightarrow> ('a \<Rightarrow> 'e + 'b) \<Rightarrow> 'e + 'b" where
  "and_then r k = (case r of Inl e \<Rightarrow> Inl e | Inr x \<Rightarrow> k x)"

definition ok_or :: "'a option \<Rightarrow> 'e \<Rightarrow> 'e + 'a" where
  "ok_or x e = (case x of None \<Rightarrow> Inl e | Some a \<Rightarrow> Inr a)"

definition ok :: "'e + 'a \<Rightarrow> 'a option" where
  "ok r = (case r of Inl _ \<Rightarrow> None | Inr a \<Rightarrow> Some a)"

definition map_err :: "('e \<Rightarrow> 'f) \<Rightarrow> 'e + 'a \<Rightarrow> 'f + 'a" where
  "map_err f r = (case r of Inl e \<Rightarrow> Inl (f e) | Inr a \<Rightarrow> Inr a)"

definition unwrap_or :: "'a option \<Rightarrow> 'a \<Rightarrow> 'a" where
  "unwrap_or x d = (case x of None \<Rightarrow> d | Some a \<Rightarrow> a)"

lemma and_then_simps [simp]:
  "and_then (Inl e) k = Inl e" "and_then (Inr x) k = k x"
  by (simp_all add: and_then_def)

lemma ok_or_simps [simp]: "ok_or None e = Inl e" "ok_or (Some a) e = Inr a"
  by (simp_all add: ok_or_def)

lemma ok_simps [simp]: "ok (Inl e) = None" "ok (Inr a) = Some a"
  by (simp_all add: ok_def)

lemma map_err_simps [simp]: "map_err f (Inl e) = Inl (f e)" "map_err f (Inr a) = Inr a"
  by (simp_all add: map_err_def)

lemma unwrap_or_simps [simp]: "unwrap_or None d = d" "unwrap_or (Some a) d = a"
  by (simp_all add: unwrap_or_def)

lemma and_then_eq_Inr: "and_then r k = Inr y \<longleftrightarrow> (\<exists>x. r = Inr x \<and> k x = Inr y)"
  by (cases r) simp_all

lemma ok_or_eq_Inr [simp]: "ok_or x e = Inr a \<longleftrightarrow> x = Some a"
  by (cases x) simp_all

lemma ok_eq_Some [simp]: "ok r = Some a \<longleftrightarrow> r = Inr a"
  by (cases r) simp_all

text \<open>Collecting an iterator of results: the first error wins.\<close>

fun collect_results :: "('e + 'a) list \<Rightarrow> 'e + 'a list" where
  "collect_results [] = Inr []"
| "collect_results (r # rs) = and_then r (\<lambda>x. and_then (collect_results rs) (\<lambda>xs. Inr (x # xs)))"

section \<open>Vectors\<close>

fun find_map :: "('a \<Rightarrow> 'b option) \<Rightarrow> 'a list \<Rightarrow> 'b option" where
  "find_map f [] = None"
| "find_map f (x # xs) = (case f x of None \<Rightarrow> find_map f xs | Some y \<Rightarrow> Some y)"

fun replace_first :: "('a \<Rightarrow> bool) \<Rightarrow> 'a \<Rightarrow> 'a list \<Rightarrow> 'a list option" where
  "replace_first p v [] = None"
| "replace_first p v (x # xs) = (if p x then Some (v # xs) else map_option ((#) x) (replace_first p v xs))"

lemma find_map_append:
  "find_map f (xs @ ys) = (case find_map f xs of None \<Rightarrow> find_map f ys | Some y \<Rightarrow> Some y)"
  by (induction xs) (auto split: option.splits)

lemma find_map_None: "find_map f xs = None \<longleftrightarrow> (\<forall>x \<in> set xs. f x = None)"
  by (induction xs) (auto split: option.splits)

lemma find_map_filter:
  "(\<And>x. x \<in> set xs \<Longrightarrow> \<not> p x \<Longrightarrow> f x = None) \<Longrightarrow> find_map f (filter p xs) = find_map f xs"
  by (induction xs) (auto split: option.splits)

lemma find_map_replace_first:
  assumes "replace_first p v xs = Some ys" and "\<And>x. f x \<noteq> None \<longleftrightarrow> p x" and "f v = Some w"
  shows "find_map f ys = Some w"
  using assms(1)
proof (induction xs arbitrary: ys)
  case (Cons x xs)
  show ?case
  proof (cases "p x")
    case False
    with assms(2) have "f x = None" by blast
    with Cons False show ?thesis by auto
  qed (use Cons.prems assms(3) in auto)
qed simp

lemma replace_first_None: "replace_first p v xs = None \<longleftrightarrow> (\<forall>x \<in> set xs. \<not> p x)"
  by (induction xs) auto

section \<open>Strings\<close>

definition trim_start :: "string \<Rightarrow> string" where
  "trim_start s = dropWhile is_ws s"

definition trim_end :: "string \<Rightarrow> string" where
  "trim_end s = rev (dropWhile is_ws (rev s))"

definition trim :: "string \<Rightarrow> string" where
  "trim s = trim_end (trim_start s)"

definition trim_start_matches :: "(char \<Rightarrow> bool) \<Rightarrow> string \<Rightarrow> string" where
  "trim_start_matches p s = dropWhile p s"

definition trim_end_matches :: "(char \<Rightarrow> bool) \<Rightarrow> string \<Rightarrow> string" where
  "trim_end_matches p s = rev (dropWhile p (rev s))"

definition trim_matches :: "(char \<Rightarrow> bool) \<Rightarrow> string \<Rightarrow> string" where
  "trim_matches p s = trim_end_matches p (trim_start_matches p s)"

fun eq_ignore_ascii_case :: "string \<Rightarrow> string \<Rightarrow> bool" where
  "eq_ignore_ascii_case [] [] = True"
| "eq_ignore_ascii_case (a # as) (b # bs) =
     (if to_ascii_lowercase a = to_ascii_lowercase b then eq_ignore_ascii_case as bs else False)"
| "eq_ignore_ascii_case _ _ = False"

text \<open>\<open>str::find\<close> followed by the two slices around the match, and its \<open>rfind\<close> twin.\<close>

fun split_once :: "(char \<Rightarrow> bool) \<Rightarrow> string \<Rightarrow> (string \<times> string) option" where
  "split_once p [] = None"
| "split_once p (x # xs) =
     (if p x then Some ([], xs) else map_option (\<lambda>(a, b). (x # a, b)) (split_once p xs))"

definition rsplit_once :: "(char \<Rightarrow> bool) \<Rightarrow> string \<Rightarrow> (string \<times> string) option" where
  "rsplit_once p s = map_option (\<lambda>(b, a). (rev a, rev b)) (split_once p (rev s))"

fun split_on :: "(char \<Rightarrow> bool) \<Rightarrow> string \<Rightarrow> string list" where
  "split_on p [] = [[]]"
| "split_on p (x # xs) =
     (if p x then [] # split_on p xs
      else (case split_on p xs of [] \<Rightarrow> [[x]] | y # ys \<Rightarrow> (x # y) # ys))"

fun strip_prefix :: "string \<Rightarrow> string \<Rightarrow> string option" where
  "strip_prefix [] s = Some s"
| "strip_prefix (p # ps) [] = None"
| "strip_prefix (p # ps) (x # xs) = (if p = x then strip_prefix ps xs else None)"

definition starts_with :: "string \<Rightarrow> string \<Rightarrow> bool" where
  "starts_with s p \<longleftrightarrow> strip_prefix p s \<noteq> None"

fun join :: "string \<Rightarrow> string list \<Rightarrow> string" where
  "join sep [] = []"
| "join sep [s] = s"
| "join sep (s # t # ss) = s @ sep @ join sep (t # ss)"

lemma eq_ignore_ascii_case_refl [simp]: "eq_ignore_ascii_case s s"
  by (induction s) auto

lemma eq_ignore_ascii_case_map:
  "eq_ignore_ascii_case s t \<longleftrightarrow> map to_ascii_lowercase s = map to_ascii_lowercase t"
  by (induction s t rule: eq_ignore_ascii_case.induct) auto

lemma split_once_Some_iff:
  "split_once p s = Some (a, b) \<longleftrightarrow> (\<exists>c. s = a @ c # b \<and> p c \<and> (\<forall>x \<in> set a. \<not> p x))"
proof (induction s arbitrary: a)
  case (Cons x xs)
  show ?case by (cases a) (auto simp: Cons.IH)
qed simp

lemma split_once_None_iff: "split_once p s = None \<longleftrightarrow> (\<forall>x \<in> set s. \<not> p x)"
  by (induction s) auto

lemma split_once_hit: "p c \<Longrightarrow> (\<And>x. x \<in> set a \<Longrightarrow> \<not> p x) \<Longrightarrow> split_once p (a @ c # b) = Some (a, b)"
  by (auto simp: split_once_Some_iff)

lemma split_once_miss: "(\<And>x. x \<in> set s \<Longrightarrow> \<not> p x) \<Longrightarrow> split_once p s = None"
  by (auto simp: split_once_None_iff)

lemma rsplit_once_hit: "p c \<Longrightarrow> (\<And>x. x \<in> set b \<Longrightarrow> \<not> p x) \<Longrightarrow> rsplit_once p (a @ c # b) = Some (a, b)"
  using split_once_hit [of p c "rev b" "rev a"] by (simp add: rsplit_once_def)

lemma rsplit_once_miss: "(\<And>x. x \<in> set s \<Longrightarrow> \<not> p x) \<Longrightarrow> rsplit_once p s = None"
  using split_once_miss [of "rev s" p] by (simp add: rsplit_once_def)

lemma strip_prefix_append [simp]: "strip_prefix p (p @ s) = Some s"
  by (induction p) auto

lemma strip_prefix_Some: "strip_prefix p s = Some r \<longleftrightarrow> s = p @ r"
  by (induction p s rule: strip_prefix.induct) auto

lemma starts_with_append [simp]: "starts_with (p @ s) p"
  by (simp add: starts_with_def)

lemma trim_unchanged:
  assumes "s = [] \<or> \<not> is_ws (hd s) \<and> \<not> is_ws (last s)"
  shows "trim s = s"
proof (cases "s = []")
  case False
  with assms have "dropWhile is_ws s = s" and "dropWhile is_ws (rev s) = rev s"
    by (cases s; cases "rev s"; simp add: hd_rev [symmetric])+
  then show ?thesis by (simp add: trim_def trim_start_def trim_end_def)
qed (simp add: trim_def trim_start_def trim_end_def)

lemma trim_no_ws: "(\<And>c. c \<in> set s \<Longrightarrow> \<not> is_ws c) \<Longrightarrow> trim s = s"
  by (rule trim_unchanged) auto

lemma trim_Nil [simp]: "trim [] = []"
  by (simp add: trim_unchanged)

lemma set_trim: "set (trim s) \<subseteq> set s"
  by (fastforce simp: trim_def trim_start_def trim_end_def dest: set_dropWhileD)

lemma split_on_nonempty [simp]: "split_on p s \<noteq> []"
  by (induction s) (auto split: list.splits)

lemma split_on_none: "(\<And>x. x \<in> set s \<Longrightarrow> \<not> p x) \<Longrightarrow> split_on p s = [s]"
  by (induction s) auto

lemma split_on_hit:
  "p c \<Longrightarrow> (\<And>x. x \<in> set a \<Longrightarrow> \<not> p x) \<Longrightarrow> split_on p (a @ c # b) = a # split_on p b"
  by (induction a) auto

section \<open>Decimal integers\<close>

definition digit_char :: "nat \<Rightarrow> char" where
  "digit_char d = ''0123456789'' ! d"

definition digit_val :: "char \<Rightarrow> nat" where
  "digit_val c = byte c - 48"

fun show_nat :: "nat \<Rightarrow> string" where
  "show_nat n = (if n < 10 then [digit_char n] else show_nat (n div 10) @ [digit_char (n mod 10)])"

declare show_nat.simps [simp del]

datatype int_error = EmptyInt | InvalidDigit | PosOverflow

text \<open>\<open>str::parse\<close> for the unsigned type of \<open>w\<close> bits.\<close>

fun parse_digits :: "nat \<Rightarrow> nat \<Rightarrow> string \<Rightarrow> int_error + nat" where
  "parse_digits w acc [] = Inr acc"
| "parse_digits w acc (c # cs) =
     (if \<not> is_ascii_digit c then Inl InvalidDigit
      else if 2 ^ w \<le> acc * 10 + digit_val c then Inl PosOverflow
      else parse_digits w (acc * 10 + digit_val c) cs)"

definition parse_uint :: "nat \<Rightarrow> string \<Rightarrow> int_error + nat" where
  "parse_uint w s =
     (case s of
        [] \<Rightarrow> Inl EmptyInt
      | c # cs \<Rightarrow>
          if cs = [] \<and> (c = CHR ''+'' \<or> c = CHR ''-'') then Inl InvalidDigit
          else if c = CHR ''+'' then parse_digits w 0 cs
          else parse_digits w 0 s)"

fun show_int_error :: "int_error \<Rightarrow> string" where
  "show_int_error EmptyInt = ''cannot parse integer from empty string''"
| "show_int_error InvalidDigit = ''invalid digit found in string''"
| "show_int_error PosOverflow = ''number too large to fit in target type''"

lemma digit_cases:
  assumes "n < (10::nat)"
  obtains "n = 0" | "n = 1" | "n = 2" | "n = 3" | "n = 4" | "n = 5" | "n = 6" | "n = 7" | "n = 8" | "n = 9"
proof -
  from assms have "n = 0 \<or> n = 1 \<or> n = 2 \<or> n = 3 \<or> n = 4 \<or> n = 5 \<or> n = 6 \<or> n = 7 \<or> n = 8 \<or> n = 9"
    by presburger
  then show thesis using that by blast
qed

lemma digit_char_digit [simp]: "n < 10 \<Longrightarrow> is_ascii_digit (digit_char n)"
  by (erule digit_cases) (simp_all add: is_ascii_digit_def digit_char_def)

lemma digit_val_char [simp]: "n < 10 \<Longrightarrow> digit_val (digit_char n) = n"
  by (erule digit_cases) (simp_all add: digit_val_def digit_char_def)

lemma show_nat_digits: "c \<in> set (show_nat n) \<Longrightarrow> is_ascii_digit c"
proof (induction n rule: show_nat.induct)
  case (1 n)
  then show ?case by (cases "n < 10") (auto simp: show_nat.simps [of n])
qed

lemma show_nat_nonempty [simp]: "show_nat n \<noteq> []"
  by (subst show_nat.simps) simp

lemma parse_digits_append:
  "parse_digits w acc (s @ t) = and_then (parse_digits w acc s) (\<lambda>a. parse_digits w a t)"
  by (induction s arbitrary: acc) auto

lemma parse_digits_show: "n < 2 ^ w \<Longrightarrow> parse_digits w 0 (show_nat n) = Inr n"
proof (induction n rule: show_nat.induct)
  case (1 n)
  show ?case
  proof (cases "n < 10")
    case True
    with "1.prems" show ?thesis by (simp add: show_nat.simps [of n])
  next
    case False
    have "n div 10 < 2 ^ w" using "1.prems" div_le_dividend le_less_trans by blast
    with "1.IH" False have IH: "parse_digits w 0 (show_nat (n div 10)) = Inr (n div 10)" by simp
    have "n div 10 * 10 + n mod 10 = n" by simp
    with False "1.prems" show ?thesis
      by (simp add: show_nat.simps [of n] parse_digits_append IH)
  qed
qed

lemma parse_uint_show [simp]: "n < 2 ^ w \<Longrightarrow> parse_uint w (show_nat n) = Inr n"
proof -
  assume n: "n < 2 ^ w"
  obtain c cs where s: "show_nat n = c # cs" by (cases "show_nat n") auto
  then have "is_ascii_digit c" using show_nat_digits [of c n] by simp
  then have "c \<noteq> CHR ''+''" and "c \<noteq> CHR ''-''" by (auto simp: is_ascii_digit_def)
  then have "parse_uint w (show_nat n) = parse_digits w 0 (show_nat n)"
    by (simp add: parse_uint_def s)
  with n show ?thesis by (simp add: parse_digits_show)
qed

lemma parse_digits_bound: "parse_digits w acc s = Inr n \<Longrightarrow> acc < 2 ^ w \<Longrightarrow> n < 2 ^ w"
  by (induction s arbitrary: acc) (auto split: if_splits)

lemma parse_uint_bound: "parse_uint w s = Inr n \<Longrightarrow> n < 2 ^ w"
  by (auto simp: parse_uint_def split: list.splits if_splits dest: parse_digits_bound)

lemma show_nat_no_ws: "c \<in> set (show_nat n) \<Longrightarrow> \<not> is_ws c"
  by (simp add: show_nat_digits)

lemma trim_show_nat [simp]: "trim (show_nat n) = show_nat n"
  by (rule trim_no_ws) (rule show_nat_no_ws)

section \<open>UTF-8\<close>

definition is_cont :: "char \<Rightarrow> bool" where
  "is_cont c \<longleftrightarrow> 128 \<le> byte c \<and> byte c \<le> 191"

text \<open>\<open>core::str::from_utf8\<close> succeeds exactly on these byte strings.\<close>

fun utf8_valid :: "bytes \<Rightarrow> bool" where
  "utf8_valid [] = True"
| "utf8_valid (a # s) =
     (if byte a < 128 then utf8_valid s
      else (case s of
          [] \<Rightarrow> False
        | b # s1 \<Rightarrow>
            if 194 \<le> byte a \<and> byte a \<le> 223 then is_cont b \<and> utf8_valid s1
            else (case s1 of
                [] \<Rightarrow> False
              | c # s2 \<Rightarrow>
                  if byte a = 224 then 160 \<le> byte b \<and> byte b \<le> 191 \<and> is_cont c \<and> utf8_valid s2
                  else if byte a = 237 then 128 \<le> byte b \<and> byte b \<le> 159 \<and> is_cont c \<and> utf8_valid s2
                  else if 225 \<le> byte a \<and> byte a \<le> 239 then is_cont b \<and> is_cont c \<and> utf8_valid s2
                  else (case s2 of
                      [] \<Rightarrow> False
                    | d # s3 \<Rightarrow>
                        if byte a = 240 then 144 \<le> byte b \<and> byte b \<le> 191 \<and> is_cont c \<and> is_cont d \<and> utf8_valid s3
                        else if 241 \<le> byte a \<and> byte a \<le> 243 then is_cont b \<and> is_cont c \<and> is_cont d \<and> utf8_valid s3
                        else if byte a = 244 then 128 \<le> byte b \<and> byte b \<le> 143 \<and> is_cont c \<and> is_cont d \<and> utf8_valid s3
                        else False))))"

lemma utf8_valid_ascii: "(\<And>c. c \<in> set s \<Longrightarrow> byte c < 128) \<Longrightarrow> utf8_valid s"
  by (induction s) auto

lemmas string_defs [rust_defs] =
  trim_def trim_start_def trim_end_def is_ws_def trim_start_matches_def trim_end_matches_def
  trim_matches_def rsplit_once_def starts_with_def is_ascii_digit_def digit_char_def digit_val_def
  parse_uint_def

end
