(* ===== verification/Sip_Basics.thy ===== *)
theory Sip_Basics
  imports Rust_Prelude
begin

text \<open>
  The enumerations of the SIP grammar: \<open>sip/error.rs\<close>, \<open>sip/method.rs\<close>,
  \<open>sip/version.rs\<close> and \<open>sip/transport.rs\<close>, each with its \<open>Display\<close> and
  \<open>FromStr\<close>, and the lemmas that parsing what was printed gives the value back.
\<close>

section \<open>Errors (sip/error.rs)\<close>

text \<open>
  Messages the source builds with the \<open>{:?}\<close> format are written without its quoting.
\<close>

datatype sip_error =
    MissingHeader string
  | InvalidParam string
  | ParseError string
  | TokenizeError string
  | Utf8Error string
  | Unexpected string

section \<open>Methods (sip/method.rs)\<close>

datatype sip_method =
    Ack | Bye | Cancel | Info | Invite | Message | Notify | Options | PRack | Publish | Refer
  | Register | Subscribe | Update

fun show_method :: "sip_method \<Rightarrow> string" where
  "show_method Ack = ''ACK''"
| "show_method Bye = ''BYE''"
| "show_method Cancel = ''CANCEL''"
| "show_method Info = ''INFO''"
| "show_method Invite = ''INVITE''"
| "show_method Message = ''MESSAGE''"
| "show_method Notify = ''NOTIFY''"
| "show_method Options = ''OPTIONS''"
| "show_method PRack = ''PRACK''"
| "show_method Publish = ''PUBLISH''"
| "show_method Refer = ''REFER''"
| "show_method Register = ''REGISTER''"
| "show_method Subscribe = ''SUBSCRIBE''"
| "show_method Update = ''UPDATE''"

definition parse_method :: "string \<Rightarrow> sip_error + sip_method" where
  "parse_method s =
     (let m = trim s in
      if eq_ignore_ascii_case m ''ACK'' then Inr Ack
      else if eq_ignore_ascii_case m ''BYE'' then Inr Bye
      else if eq_ignore_ascii_case m ''CANCEL'' then Inr Cancel
      else if eq_ignore_ascii_case m ''INFO'' then Inr Info
      else if eq_ignore_ascii_case m ''INVITE'' then Inr Invite
      else if eq_ignore_ascii_case m ''MESSAGE'' then Inr Message
      else if eq_ignore_ascii_case m ''NOTIFY'' then Inr Notify
      else if eq_ignore_ascii_case m ''OPTIONS'' then Inr Options
      else if eq_ignore_ascii_case m ''PRACK'' then Inr PRack
      else if eq_ignore_ascii_case m ''PUBLISH'' then Inr Publish
      else if eq_ignore_ascii_case m ''REFER'' then Inr Refer
      else if eq_ignore_ascii_case m ''REGISTER'' then Inr Register
      else if eq_ignore_ascii_case m ''SUBSCRIBE'' then Inr Subscribe
      else if eq_ignore_ascii_case m ''UPDATE'' then Inr Update
      else Inl (ParseError (''invalid method: '' @ m)))"

definition all_methods :: "sip_method list" where
  "all_methods = [Ack, Bye, Cancel, Info, Invite, Message,
      Notify, Options, PRack, Publish, Refer, Register, Subscribe, Update]"

lemma all_methods_complete: "m \<in> set all_methods"
  by (cases m) (simp_all add: all_methods_def)

lemma show_method_no_ws: "c \<in> set (show_method m) \<Longrightarrow> \<not> is_ws c"
  by (cases m) (auto simp: is_ws_def)

lemma trim_show_method [simp]: "trim (show_method m) = show_method m"
  by (rule trim_no_ws) (rule show_method_no_ws)

lemma parse_show_method [simp]: "parse_method (show_method m) = Inr m"
  unfolding parse_method_def trim_show_method by (cases m) simp_all

lemma show_method_inject [simp]: "show_method m = show_method n \<longleftrightarrow> m = n"
  by (metis parse_show_method sum.inject(2))

lemma show_method_nonempty [simp]: "show_method m \<noteq> []"
  by (cases m) simp_all

section \<open>Versions (sip/version.rs)\<close>

datatype version = V2 | V nat nat

fun show_version :: "version \<Rightarrow> string" where
  "show_version V2 = ''SIP/2.0''"
| "show_version (V mj mn) = ''SIP/'' @ show_nat mj @ ''.'' @ show_nat mn"

definition int_parse_error :: "int_error \<Rightarrow> sip_error" where
  "int_parse_error e = ParseError (show_int_error e)"

definition parse_version :: "string \<Rightarrow> sip_error + version" where
  "parse_version str =
     (let s = trim str in
      case strip_prefix ''SIP/'' s of
        None \<Rightarrow> Inl (ParseError (''invalid SIP version: '' @ s))
      | Some inner \<Rightarrow>
          if inner = ''2.0'' then Inr V2
          else (case split_once (\<lambda>c. c = CHR ''.'') inner of
              None \<Rightarrow>
                and_then (map_err int_parse_error (parse_uint 8 inner)) (\<lambda>mj. Inr (V mj 0))
            | Some (a, b) \<Rightarrow>
                and_then (map_err int_parse_error (parse_uint 8 a)) (\<lambda>mj.
                and_then (map_err int_parse_error (parse_uint 8 b)) (\<lambda>mn. Inr (V mj mn)))))"

definition version_wf :: "version \<Rightarrow> bool" where
  "version_wf v \<longleftrightarrow> (case v of V2 \<Rightarrow> True | V mj mn \<Rightarrow> mj < 256 \<and> mn < 256 \<and> \<not> (mj = 2 \<and> mn = 0))"

lemma parse_version_V2 [simp]: "parse_version ''SIP/2.0'' = Inr V2"
  by code_simp

lemma show_nat_no_dot: "c \<in> set (show_nat n) \<Longrightarrow> c \<noteq> CHR ''.''"
  using show_nat_digits [of c n] by (auto simp: is_ascii_digit_def)

lemma show_version_trim [simp]: "trim (show_version v) = show_version v"
  by (rule trim_no_ws) (cases v; auto simp: is_ws_def dest!: show_nat_digits simp: is_ascii_digit_def)

lemma show_nat_20: "show_nat mj @ CHR ''.'' # show_nat mn = ''2.0'' \<Longrightarrow> mj < 256 \<Longrightarrow> mn < 256 \<Longrightarrow> mj = 2 \<and> mn = 0"
proof -
  assume eq: "show_nat mj @ CHR ''.'' # show_nat mn = ''2.0''" and b: "mj < 256" "mn < 256"
  have "split_once (\<lambda>c. c = CHR ''.'') (show_nat mj @ CHR ''.'' # show_nat mn) = Some (show_nat mj, show_nat mn)"
    by (rule split_once_hit) (auto dest: show_nat_no_dot)
  with eq have "show_nat mj = ''2''" and "show_nat mn = ''0''" by simp_all
  moreover have "parse_uint 8 ''2'' = Inr 2" and "parse_uint 8 ''0'' = Inr 0" by code_simp+
  ultimately show ?thesis using b parse_uint_show [of mj 8] parse_uint_show [of mn 8] by simp
qed

lemma parse_show_version: "version_wf v \<Longrightarrow> parse_version (show_version v) = Inr v"
proof (cases v)
  case V2
  then show ?thesis by simp
next
  case (V mj mn)
  assume "version_wf v"
  with V have wf: "mj < 256" "mn < 256" "\<not> (mj = 2 \<and> mn = 0)" by (auto simp: version_wf_def)
  then have ne: "show_nat mj @ CHR ''.'' # show_nat mn \<noteq> ''2.0''" using show_nat_20 by blast
  have so: "split_once (\<lambda>c. c = CHR ''.'') (show_nat mj @ CHR ''.'' # show_nat mn) = Some (show_nat mj, show_nat mn)"
    by (rule split_once_hit) (auto dest: show_nat_no_dot)
  have sp: "strip_prefix ''SIP/'' (show_version v) = Some (show_nat mj @ CHR ''.'' # show_nat mn)"
    using V by (simp add: strip_prefix_Some)
  show ?thesis
    unfolding parse_version_def show_version_trim Let_def sp using wf by (simp add: so ne V)
qed

lemma parse_version_wf: "parse_version s = Inr v \<Longrightarrow> v = V2 \<or> (\<exists>mj mn. v = V mj mn \<and> mj < 256 \<and> mn < 256)"
  by (auto simp: parse_version_def Let_def and_then_eq_Inr map_err_def
      split: option.splits if_splits sum.splits dest!: parse_uint_bound)

section \<open>Transports (sip/transport.rs)\<close>

datatype transport = Udp | Tcp | Tls | TlsSctp | Sctp | Ws | Wss

text \<open>A \<open>Port\<close> is its \<open>u16\<close> value.\<close>

type_synonym port = nat

fun default_port :: "transport \<Rightarrow> port" where
  "default_port Udp = 5060"
| "default_port Tcp = 5060"
| "default_port Sctp = 5060"
| "default_port TlsSctp = 5061"
| "default_port Tls = 5061"
| "default_port Ws = 80"
| "default_port Wss = 443"

fun transport_protocol :: "transport \<Rightarrow> transport" where
  "transport_protocol Tls = Tcp"
| "transport_protocol TlsSctp = Sctp"
| "transport_protocol Wss = Ws"
| "transport_protocol t = t"

definition transport_is_secure :: "transport \<Rightarrow> bool" where
  "transport_is_secure t \<longleftrightarrow> t = Tls \<or> t = TlsSctp \<or> t = Wss"

fun show_transport :: "transport \<Rightarrow> string" where
  "show_transport Udp = ''UDP''"
| "show_transport Tcp = ''TCP''"
| "show_transport Tls = ''TLS''"
| "show_transport Sctp = ''SCTP''"
| "show_transport TlsSctp = ''TLS-SCTP''"
| "show_transport Ws = ''WS''"
| "show_transport Wss = ''WSS''"

definition parse_transport :: "string \<Rightarrow> sip_error + transport" where
  "parse_transport str =
     (let s = trim str in
      if eq_ignore_ascii_case s ''UDP'' then Inr Udp
      else if eq_ignore_ascii_case s ''TCP'' then Inr Tcp
      else if eq_ignore_ascii_case s ''TLS'' then Inr Tls
      else if eq_ignore_ascii_case s ''SCTP'' then Inr Sctp
      else if eq_ignore_ascii_case s ''TLS-SCTP'' then Inr TlsSctp
      else if eq_ignore_ascii_case s ''WS'' then Inr Ws
      else if eq_ignore_ascii_case s ''WSS'' then Inr Wss
      else Inl (ParseError (''unknown transport: '' @ s)))"

lemma show_transport_no_ws: "c \<in> set (show_transport t) \<Longrightarrow> \<not> is_ws c"
  by (cases t) (auto simp: is_ws_def)

lemma trim_show_transport [simp]: "trim (show_transport t) = show_transport t"
  by (rule trim_no_ws) (rule show_transport_no_ws)

lemma parse_show_transport [simp]: "parse_transport (show_transport t) = Inr t"
  unfolding parse_transport_def trim_show_transport by (cases t) simp_all

lemma transport_protocol_not_secure: "\<not> transport_is_secure (transport_protocol t)"
  by (cases t) (simp_all add: transport_is_secure_def)

definition parse_port :: "string \<Rightarrow> sip_error + port" where
  "parse_port s = map_err int_parse_error (parse_uint 16 (trim s))"

lemma parse_show_port [simp]: "p < 65536 \<Longrightarrow> parse_port (show_nat p) = Inr p"
  by (simp add: parse_port_def)

end
