(* ===== verification/Sip_Uri.thy ===== *)
theory Sip_Uri
  imports Sip_Basics
begin

text \<open>
  \<open>sip/uri.rs\<close>: schemes, user info, hosts, URI parameters and URIs, with their \<open>Display\<close>,
  their parsers, and the parameter accessors of \<open>ParamsExt\<close>. The IP-address parser and
  printer are those of \<open>core::net\<close>. The string newtypes of the source (\<open>Tag\<close>,
  \<open>Branch\<close>, \<open>Domain\<close>, ...) are their strings.
\<close>

section \<open>IP addresses (core::net)\<close>

datatype ip_addr = V4 nat nat nat nat | V6 "nat list"

definition dec_digit :: "char \<Rightarrow> nat option" where
  "dec_digit c = (if is_ascii_digit c then Some (digit_val c) else None)"

definition hex_digit :: "char \<Rightarrow> nat option" where
  "hex_digit c =
     (if is_ascii_digit c then Some (digit_val c)
      else if is_ascii_hexdigit c then Some (byte (to_ascii_lowercase c) - 87) else None)"

definition read_number :: "(char \<Rightarrow> nat option) \<Rightarrow> nat \<Rightarrow> nat \<Rightarrow> nat \<Rightarrow> bool \<Rightarrow> string \<Rightarrow> (nat \<times> string) option" where
  "read_number dig radix bound max_digits allow_zero_prefix s =
     (let ds = takeWhile (\<lambda>c. dig c \<noteq> None) s;
          n = foldl (\<lambda>acc c. acc * radix + the (dig c)) 0 ds
      in if ds = [] \<or> max_digits < length ds \<or> bound \<le> n then None
         else if \<not> allow_zero_prefix \<and> hd ds = CHR ''0'' \<and> 1 < length ds then None
         else Some (n, drop (length ds) s))"

definition read_char :: "char \<Rightarrow> string \<Rightarrow> string option" where
  "read_char c s = (case s of [] \<Rightarrow> None | x # xs \<Rightarrow> if x = c then Some xs else None)"

definition read_octet :: "string \<Rightarrow> (nat \<times> string) option" where
  "read_octet = read_number dec_digit 10 256 3 False"

definition read_ipv4 :: "string \<Rightarrow> (nat \<times> nat \<times> nat \<times> nat \<times> string) option" where
  "read_ipv4 s =
     Option.bind (read_octet s) (\<lambda>(a, s). Option.bind (read_char CHR ''.'' s) (\<lambda>s.
     Option.bind (read_octet s) (\<lambda>(b, s). Option.bind (read_char CHR ''.'' s) (\<lambda>s.
     Option.bind (read_octet s) (\<lambda>(c, s). Option.bind (read_char CHR ''.'' s) (\<lambda>s.
     Option.bind (read_octet s) (\<lambda>(d, s). Some (a, b, c, d, s))))))))"

text \<open>A group separator is read before every group but the first.\<close>

definition read_sep :: "nat \<Rightarrow> string \<Rightarrow> string option" where
  "read_sep i s = (if i = 0 then Some s else read_char CHR '':'' s)"

fun read_groups :: "nat \<Rightarrow> nat \<Rightarrow> string \<Rightarrow> nat list \<times> bool \<times> string" where
  "read_groups i 0 s = ([], False, s)"
| "read_groups i (Suc left) s =
     (let v4 = (if 0 < left then Option.bind (read_sep i s) read_ipv4 else None) in
      case v4 of
        Some (a, b, c, d, s') \<Rightarrow> ([a * 256 + b, c * 256 + d], True, s')
      | None \<Rightarrow>
          (case Option.bind (read_sep i s) (read_number hex_digit 16 65536 4 True) of
             None \<Rightarrow> ([], False, s)
           | Some (g, s') \<Rightarrow>
               (case read_groups (Suc i) left s' of (gs, v, s'') \<Rightarrow> (g # gs, v, s''))))"

definition read_ipv6 :: "string \<Rightarrow> (nat list \<times> string) option" where
  "read_ipv6 s =
     (case read_groups 0 8 s of (head, head_v4, s1) \<Rightarrow>
        if length head = 8 then Some (head, s1)
        else if head_v4 then None
        else Option.bind (read_char CHR '':'' s1) (\<lambda>s2.
             Option.bind (read_char CHR '':'' s2) (\<lambda>s3.
               case read_groups 0 (8 - (length head + 1)) s3 of (tail, _, s4) \<Rightarrow>
                 Some (head @ replicate (8 - length head - length tail) 0 @ tail, s4))))"

definition parse_ip :: "string \<Rightarrow> ip_addr option" where
  "parse_ip s =
     (case (case read_ipv4 s of
              Some (a, b, c, d, r) \<Rightarrow> Some (V4 a b c d, r)
            | None \<Rightarrow> map_option (\<lambda>(gs, r). (V6 gs, r)) (read_ipv6 s)) of
        Some (ip, []) \<Rightarrow> Some ip
      | _ \<Rightarrow> None)"

definition hex_char :: "nat \<Rightarrow> char" where
  "hex_char d = ''0123456789abcdef'' ! d"

fun show_hex :: "nat \<Rightarrow> string" where
  "show_hex n = (if n < 16 then [hex_char n] else show_hex (n div 16) @ [hex_char (n mod 16)])"

declare show_hex.simps [simp del]

definition show_ipv4 :: "nat \<Rightarrow> nat \<Rightarrow> nat \<Rightarrow> nat \<Rightarrow> string" where
  "show_ipv4 a b c d = show_nat a @ ''.'' @ show_nat b @ ''.'' @ show_nat c @ ''.'' @ show_nat d"

text \<open>The first longest run of zero groups: its start and length.\<close>

fun longest_zeroes :: "nat \<Rightarrow> nat list \<Rightarrow> nat \<times> nat \<Rightarrow> nat \<times> nat \<Rightarrow> nat \<times> nat" where
  "longest_zeroes i [] cur best = best"
| "longest_zeroes i (g # gs) (cs, cl) (bs, bl) =
     (if g = 0 then
        (let cur = (if cl = 0 then (i, 1) else (cs, cl + 1)) in
         longest_zeroes (i + 1) gs cur (if bl < snd cur then cur else (bs, bl)))
      else longest_zeroes (i + 1) gs (0, 0) (bs, bl))"

definition show_ipv6 :: "nat list \<Rightarrow> string" where
  "show_ipv6 gs =
     (if take 6 gs = [0, 0, 0, 0, 0, 65535] then
        ''::ffff:'' @ show_ipv4 (gs ! 6 div 256) (gs ! 6 mod 256) (gs ! 7 div 256) (gs ! 7 mod 256)
      else (case longest_zeroes 0 gs (0, 0) (0, 0) of (st, len) \<Rightarrow>
        if 1 < len then
          join '':'' (map show_hex (take st gs)) @ ''::'' @ join '':'' (map show_hex (drop (st + len) gs))
        else join '':'' (map show_hex gs)))"

fun show_ip :: "ip_addr \<Rightarrow> string" where
  "show_ip (V4 a b c d) = show_ipv4 a b c d"
| "show_ip (V6 gs) = show_ipv6 gs"

fun ip_is_v6 :: "ip_addr \<Rightarrow> bool" where
  "ip_is_v6 (V4 _ _ _ _) = False"
| "ip_is_v6 (V6 _) = True"

definition addr_parse_error :: sip_error where
  "addr_parse_error = ParseError ''invalid IP address syntax''"

section \<open>Schemes and user info\<close>

datatype scheme = Sip | Sips | SchemeOther string

fun show_scheme :: "scheme \<Rightarrow> string" where
  "show_scheme Sip = ''sip''"
| "show_scheme Sips = ''sips''"
| "show_scheme (SchemeOther s) = s"

definition parse_scheme :: "string \<Rightarrow> sip_error + scheme" where
  "parse_scheme str =
     (let s = trim str in
      if eq_ignore_ascii_case s ''sip'' then Inr Sip
      else if eq_ignore_ascii_case s ''sips'' then Inr Sips
      else Inr (SchemeOther s))"

record auth =
  auth_user :: string
  auth_password :: "string option"

definition upper_hex :: "nat \<Rightarrow> char" where
  "upper_hex d = ''0123456789ABCDEF'' ! d"

fun percent_encode_component :: "string \<Rightarrow> string \<Rightarrow> string" where
  "percent_encode_component allowed [] = []"
| "percent_encode_component allowed (b # bs) =
     (if is_ascii_alphanumeric b \<or> b \<in> set allowed then b # percent_encode_component allowed bs
      else CHR ''%'' # upper_hex (byte b div 16) # upper_hex (byte b mod 16)
             # percent_encode_component allowed bs)"

definition percent_encode_user :: "string \<Rightarrow> string" where
  "percent_encode_user s = percent_encode_component (''-_.!~*'' @ [CHR 0x27] @ ''()&=+$,;?/'') s"

definition percent_encode_password :: "string \<Rightarrow> string" where
  "percent_encode_password s = percent_encode_component (''-_.!~*'' @ [CHR 0x27] @ ''()&=+$,'') s"

definition show_auth :: "auth \<Rightarrow> string" where
  "show_auth a =
     (case auth_password a of
        Some pw \<Rightarrow> percent_encode_user (auth_user a) @ '':'' @ percent_encode_password pw
      | None \<Rightarrow> percent_encode_user (auth_user a))"

definition auth_from :: "string \<Rightarrow> auth" where
  "auth_from s =
     (case split_once (\<lambda>c. c = CHR '':'') s of
        Some (u, p) \<Rightarrow> \<lparr>auth_user = u, auth_password = Some p\<rparr>
      | None \<Rightarrow> \<lparr>auth_user = s, auth_password = None\<rparr>)"

section \<open>Hosts and ports\<close>

datatype host = Domain string | IpAddr ip_addr

definition show_host :: "host \<Rightarrow> string" where
  "show_host h =
     (case h of
        Domain d \<Rightarrow> d
      | IpAddr ip \<Rightarrow> if ip_is_v6 ip then ''['' @ show_ip ip @ '']'' else show_ip ip)"

definition parse_host :: "string \<Rightarrow> sip_error + host" where
  "parse_host str =
     (let s = trim str in
      case parse_ip s of Some ip \<Rightarrow> Inr (IpAddr ip) | None \<Rightarrow> Inr (Domain s))"

record host_with_port =
  hwp_host :: host
  hwp_port :: "port option"

definition hwp_default :: host_with_port where
  "hwp_default = \<lparr>hwp_host = Domain ''localhost'', hwp_port = None\<rparr>"

definition show_hwp :: "host_with_port \<Rightarrow> string" where
  "show_hwp h =
     (case hwp_port h of
        Some p \<Rightarrow> show_host (hwp_host h) @ '':'' @ show_nat p
      | None \<Rightarrow> show_host (hwp_host h))"

definition parse_host_with_port :: "string \<Rightarrow> sip_error + host_with_port" where
  "parse_host_with_port s =
     (let plain =
        (case rsplit_once (\<lambda>c. c = CHR '':'') s of
           Some (host_str, after) \<Rightarrow>
             if list_all is_ascii_digit after then
               and_then (map_err (\<lambda>_. ParseError (''invalid port: '' @ after)) (parse_uint 16 after)) (\<lambda>port.
               and_then (parse_host host_str) (\<lambda>h. Inr \<lparr>hwp_host = h, hwp_port = Some port\<rparr>))
             else and_then (parse_host s) (\<lambda>h. Inr \<lparr>hwp_host = h, hwp_port = None\<rparr>)
         | None \<Rightarrow> and_then (parse_host s) (\<lambda>h. Inr \<lparr>hwp_host = h, hwp_port = None\<rparr>))
      in case s of
           CHR ''['' # inner \<Rightarrow>
             (case split_once (\<lambda>c. c = CHR '']'') inner of
                Some (ip_str, rest) \<Rightarrow>
                  and_then (ok_or (parse_ip ip_str) (ParseError (''invalid IPv6: '' @ ip_str))) (\<lambda>ip.
                  case rest of
                    CHR '':'' # p \<Rightarrow>
                      and_then (map_err int_parse_error (parse_uint 16 p)) (\<lambda>port.
                        Inr \<lparr>hwp_host = IpAddr ip, hwp_port = Some port\<rparr>)
                  | _ \<Rightarrow> Inr \<lparr>hwp_host = IpAddr ip, hwp_port = None\<rparr>)
              | None \<Rightarrow> plain)
         | _ \<Rightarrow> plain)"

definition hwp_try_from :: "string \<Rightarrow> sip_error + host_with_port" where
  "hwp_try_from s = parse_host_with_port (trim s)"

record socket_addr =
  sa_ip :: ip_addr
  sa_port :: port

definition hwp_of_socket_addr :: "socket_addr \<Rightarrow> host_with_port" where
  "hwp_of_socket_addr sa = \<lparr>hwp_host = IpAddr (sa_ip sa), hwp_port = Some (sa_port sa)\<rparr>"

definition socket_addr_of_hwp :: "host_with_port \<Rightarrow> sip_error + socket_addr" where
  "socket_addr_of_hwp h =
     (let port = unwrap_or (hwp_port h) 5060 in
      case hwp_host h of
        IpAddr ip \<Rightarrow> Inr \<lparr>sa_ip = ip, sa_port = port\<rparr>
      | Domain d \<Rightarrow>
          and_then (ok_or (parse_ip d) addr_parse_error) (\<lambda>ip. Inr \<lparr>sa_ip = ip, sa_port = port\<rparr>))"

section \<open>Parameters\<close>

datatype param =
    P_Transport transport
  | P_User string
  | P_Method sip_method
  | P_Ttl string
  | P_Maddr string
  | P_Lr
  | P_Ob
  | P_Rport "nat option"
  | P_Branch string
  | P_Received string
  | P_Tag string
  | P_Expires string
  | P_Q string
  | P_Other string "string option"

fun show_param :: "param \<Rightarrow> string" where
  "show_param (P_Transport t) = '';transport='' @ show_transport t"
| "show_param (P_User u) = '';user='' @ u"
| "show_param (P_Method m) = '';method='' @ show_method m"
| "show_param (P_Ttl t) = '';ttl='' @ t"
| "show_param (P_Maddr m) = '';maddr='' @ m"
| "show_param P_Lr = '';lr''"
| "show_param P_Ob = '';ob''"
| "show_param (P_Rport None) = '';rport''"
| "show_param (P_Rport (Some p)) = '';rport='' @ show_nat p"
| "show_param (P_Branch b) = '';branch='' @ b"
| "show_param (P_Received r) = '';received='' @ r"
| "show_param (P_Tag t) = '';tag='' @ t"
| "show_param (P_Expires e) = '';expires='' @ e"
| "show_param (P_Q q) = '';q='' @ q"
| "show_param (P_Other name (Some val)) = '';'' @ name @ ''='' @ val"
| "show_param (P_Other name None) = '';'' @ name"

definition show_params :: "param list \<Rightarrow> string" where
  "show_params ps = concat (map show_param ps)"

text \<open>\<open>Param::try_from((name, value))\<close>: the arms with a value, then the flags.\<close>

definition param_try_from :: "string \<Rightarrow> string option \<Rightarrow> sip_error + param" where
  "param_try_from n value =
     (case value of
        Some v \<Rightarrow>
          if eq_ignore_ascii_case n ''transport'' then and_then (parse_transport v) (\<lambda>t. Inr (P_Transport t))
          else if eq_ignore_ascii_case n ''user'' then Inr (P_User v)
          else if eq_ignore_ascii_case n ''method'' then and_then (parse_method v) (\<lambda>m. Inr (P_Method m))
          else if eq_ignore_ascii_case n ''ttl'' then Inr (P_Ttl v)
          else if eq_ignore_ascii_case n ''maddr'' then Inr (P_Maddr v)
          else if eq_ignore_ascii_case n ''branch'' then Inr (P_Branch v)
          else if eq_ignore_ascii_case n ''received'' then Inr (P_Received v)
          else if eq_ignore_ascii_case n ''tag'' then Inr (P_Tag v)
          else if eq_ignore_ascii_case n ''expires'' then Inr (P_Expires v)
          else if eq_ignore_ascii_case n ''q'' then Inr (P_Q v)
          else if eq_ignore_ascii_case n ''rport'' then
            and_then (map_err (\<lambda>_. ParseError (''invalid rport: '' @ v)) (parse_uint 16 v)) (\<lambda>port.
              Inr (P_Rport (Some port)))
          else Inr (P_Other n (Some v))
      | None \<Rightarrow>
          if eq_ignore_ascii_case n ''lr'' then Inr P_Lr
          else if eq_ignore_ascii_case n ''ob'' then Inr P_Ob
          else if eq_ignore_ascii_case n ''rport'' then Inr (P_Rport None)
          else Inr (P_Other n None))"

definition parse_param :: "string \<Rightarrow> sip_error + param" where
  "parse_param str =
     (let s = trim (trim_start_matches (\<lambda>c. c = CHR '';'') str) in
      case split_once (\<lambda>c. c = CHR ''='') s of
        Some (name, value) \<Rightarrow> param_try_from name (Some value)
      | None \<Rightarrow> param_try_from s None)"

fun parse_param_parts :: "string list \<Rightarrow> sip_error + param list" where
  "parse_param_parts [] = Inr []"
| "parse_param_parts (part # parts) =
     (if trim part = [] then parse_param_parts parts
      else and_then (parse_param (trim part)) (\<lambda>p.
           and_then (parse_param_parts parts) (\<lambda>ps. Inr (p # ps))))"

definition parse_params :: "string \<Rightarrow> sip_error + param list" where
  "parse_params s =
     (if s = [] then Inr [] else parse_param_parts (split_on (\<lambda>c. c = CHR '';'') s))"

section \<open>ParamsExt\<close>

fun tag_of :: "param \<Rightarrow> string option" where
  "tag_of (P_Tag t) = Some t" | "tag_of _ = None"

fun branch_of :: "param \<Rightarrow> string option" where
  "branch_of (P_Branch b) = Some b" | "branch_of _ = None"

fun transport_of :: "param \<Rightarrow> transport option" where
  "transport_of (P_Transport t) = Some t" | "transport_of _ = None"

fun received_of :: "param \<Rightarrow> string option" where
  "received_of (P_Received r) = Some r" | "received_of _ = None"

fun rport_of :: "param \<Rightarrow> nat option option" where
  "rport_of (P_Rport r) = Some r" | "rport_of _ = None"

fun expires_of :: "param \<Rightarrow> string option" where
  "expires_of (P_Expires e) = Some e" | "expires_of _ = None"

fun q_of :: "param \<Rightarrow> string option" where
  "q_of (P_Q q) = Some q" | "q_of _ = None"

fun other_of :: "string \<Rightarrow> param \<Rightarrow> string option" where
  "other_of name (P_Other n v) = (if eq_ignore_ascii_case n name then Some (unwrap_or v []) else None)"
| "other_of name _ = None"

definition params_tag :: "param list \<Rightarrow> string option" where "params_tag = find_map tag_of"
definition params_branch :: "param list \<Rightarrow> string option" where "params_branch = find_map branch_of"
definition params_transport :: "param list \<Rightarrow> transport option" where "params_transport = find_map transport_of"
definition params_received :: "param list \<Rightarrow> string option" where "params_received = find_map received_of"
definition params_rport :: "param list \<Rightarrow> nat option option" where "params_rport = find_map rport_of"
definition params_expires :: "param list \<Rightarrow> string option" where "params_expires = find_map expires_of"
definition params_q :: "param list \<Rightarrow> string option" where "params_q = find_map q_of"
definition other_param :: "string \<Rightarrow> param list \<Rightarrow> string option" where "other_param name = find_map (other_of name)"

fun is_lr :: "param \<Rightarrow> bool" where
  "is_lr P_Lr = True"
| "is_lr (P_Other name (Some value)) = (eq_ignore_ascii_case name ''lr'' \<and> eq_ignore_ascii_case value ''on'')"
| "is_lr _ = False"

definition has_lr :: "param list \<Rightarrow> bool" where
  "has_lr ps = list_ex is_lr ps"

text \<open>The setters replace the first parameter of the kind, or append one.\<close>

definition set_param :: "(param \<Rightarrow> bool) \<Rightarrow> param \<Rightarrow> param list \<Rightarrow> param list" where
  "set_param p new ps = (case replace_first p new ps of Some ps' \<Rightarrow> ps' | None \<Rightarrow> ps @ [new])"

definition set_tag :: "string \<Rightarrow> param list \<Rightarrow> param list" where
  "set_tag t = set_param (\<lambda>p. tag_of p \<noteq> None) (P_Tag t)"
definition set_branch :: "string \<Rightarrow> param list \<Rightarrow> param list" where
  "set_branch b = set_param (\<lambda>p. branch_of p \<noteq> None) (P_Branch b)"
definition set_transport :: "transport \<Rightarrow> param list \<Rightarrow> param list" where
  "set_transport t = set_param (\<lambda>p. transport_of p \<noteq> None) (P_Transport t)"
definition set_rport :: "nat option \<Rightarrow> param list \<Rightarrow> param list" where
  "set_rport r = set_param (\<lambda>p. rport_of p \<noteq> None) (P_Rport r)"
definition set_expires :: "string \<Rightarrow> param list \<Rightarrow> param list" where
  "set_expires e = set_param (\<lambda>p. expires_of p \<noteq> None) (P_Expires e)"
definition set_other_param :: "string \<Rightarrow> string option \<Rightarrow> param list \<Rightarrow> param list" where
  "set_other_param name v = set_param (\<lambda>p. other_of name p \<noteq> None) (P_Other name v)"

definition remove_tag :: "param list \<Rightarrow> param list" where
  "remove_tag = filter (\<lambda>p. tag_of p = None)"
definition remove_branch :: "param list \<Rightarrow> param list" where
  "remove_branch = filter (\<lambda>p. branch_of p = None)"
definition remove_transport :: "param list \<Rightarrow> param list" where
  "remove_transport = filter (\<lambda>p. transport_of p = None)"
definition remove_rport :: "param list \<Rightarrow> param list" where
  "remove_rport = filter (\<lambda>p. rport_of p = None)"
definition remove_lr :: "param list \<Rightarrow> param list" where
  "remove_lr = filter (\<lambda>p. p \<noteq> P_Lr)"
definition remove_param :: "string \<Rightarrow> param list \<Rightarrow> param list" where
  "remove_param name = filter (\<lambda>p. other_of name p = None)"

fun pop_param :: "(param \<Rightarrow> string option) \<Rightarrow> param list \<Rightarrow> string option \<times> param list" where
  "pop_param f [] = (None, [])"
| "pop_param f (p # ps) =
     (case f p of Some v \<Rightarrow> (Some v, ps) | None \<Rightarrow> (case pop_param f ps of (r, ps') \<Rightarrow> (r, p # ps')))"

definition pop_tag :: "param list \<Rightarrow> string option \<times> param list" where "pop_tag = pop_param tag_of"
definition pop_branch :: "param list \<Rightarrow> string option \<times> param list" where "pop_branch = pop_param branch_of"

section \<open>URIs\<close>

record uri =
  uri_scheme :: "scheme option"
  uri_auth :: "auth option"
  uri_hwp :: host_with_port
  uri_params :: "param list"
  uri_headers :: "(string \<times> string) list"

definition show_uri :: "uri \<Rightarrow> string" where
  "show_uri u =
     (case uri_scheme u of Some sc \<Rightarrow> show_scheme sc @ '':'' | None \<Rightarrow> [])
     @ (case uri_auth u of Some a \<Rightarrow> show_auth a @ ''@'' | None \<Rightarrow> [])
     @ show_hwp (uri_hwp u) @ show_params (uri_params u)
     @ (if uri_headers u = [] then []
        else ''?'' @ join ''&'' (map (\<lambda>(k, v). k @ ''='' @ v) (uri_headers u)))"

definition parse_uri_header :: "string \<Rightarrow> string \<times> string" where
  "parse_uri_header kv =
     (case split_once (\<lambda>c. c = CHR ''='') kv of Some (k, v) \<Rightarrow> (k, v) | None \<Rightarrow> (kv, []))"

definition parse_uri :: "string \<Rightarrow> sip_error + uri" where
  "parse_uri str =
     (let s = trim str;
          s = trim_start_matches (\<lambda>c. c = CHR ''<'') s;
          s = trim_end_matches (\<lambda>c. c = CHR ''>'') s;
          s = trim s;
          (main, hdrs_str) =
            (case split_once (\<lambda>c. c = CHR ''?'') s of Some (m, h) \<Rightarrow> (m, Some h) | None \<Rightarrow> (s, None));
          (host_part, params_str) =
            (case split_once (\<lambda>c. c = CHR '';'') main of Some (h, p) \<Rightarrow> (h, Some p) | None \<Rightarrow> (main, None))
      in and_then
           (case split_once (\<lambda>c. c = CHR '':'') host_part of
              Some (potential_scheme, rest) \<Rightarrow>
                if list_all is_ascii_alphabetic potential_scheme
                then and_then (parse_scheme potential_scheme) (\<lambda>sc. Inr (Some sc, rest))
                else Inr (None, host_part)
            | None \<Rightarrow> Inr (None, host_part)) (\<lambda>(scheme, user_host).
         let (auth, host_str) =
               (case rsplit_once (\<lambda>c. c = CHR ''@'') user_host of
                  Some (user, h) \<Rightarrow> (Some (auth_from user), h)
                | None \<Rightarrow> (None, user_host))
         in and_then (parse_host_with_port host_str) (\<lambda>hwp.
            and_then (parse_params (unwrap_or params_str [])) (\<lambda>params.
            Inr \<lparr>uri_scheme = scheme, uri_auth = auth, uri_hwp = hwp, uri_params = params,
                 uri_headers = (case hdrs_str of
                     Some h \<Rightarrow> map parse_uri_header (split_on (\<lambda>c. c = CHR ''&'') h)
                   | None \<Rightarrow> [])\<rparr>))))"

definition uri_try_from :: "string \<Rightarrow> sip_error + uri" where
  "uri_try_from s = parse_uri (trim s)"

definition uri_of_hwp :: "host_with_port \<Rightarrow> uri" where
  "uri_of_hwp h = \<lparr>uri_scheme = Some Sip, uri_auth = None, uri_hwp = h, uri_params = [], uri_headers = []\<rparr>"

definition uri_default :: uri where
  "uri_default = \<lparr>uri_scheme = None, uri_auth = None, uri_hwp = hwp_default, uri_params = [], uri_headers = []\<rparr>"

definition uri_user :: "uri \<Rightarrow> string option" where
  "uri_user u = map_option auth_user (uri_auth u)"

definition uri_host :: "uri \<Rightarrow> host" where
  "uri_host u = hwp_host (uri_hwp u)"

end
