(* ===== verification/Sip_Headers.thy ===== *)
theory Sip_Headers
  imports Sip_Basics
begin

text \<open>
  \<open>sip/headers/mod.rs\<close> and the macro-made newtypes of \<open>sip/headers/untyped.rs\<close>: the
  \<open>Header\<close> enum, its name, value and \<open>Display\<close>, \<open>make_header\<close>, and the \<open>Headers\<close>
  container. A constructor \<open>Header::X(X(v))\<close> is \<open>H_X v\<close>. The macros \<open>header_get!\<close>,
  \<open>header_opt!\<close>, \<open>all_headers!\<close> and \<open>sip_header_pop!\<close>, which take a variant, are
  functions of its constructor.
\<close>

section \<open>The enum\<close>

datatype (plugins only: code size) header =
    H_Accept string
  | H_AcceptEncoding string
  | H_AcceptLanguage string
  | H_AlertInfo string
  | H_Allow string
  | H_AuthenticationInfo string
  | H_Authorization string
  | H_CSeq string
  | H_CallId string
  | H_CallInfo string
  | H_Contact string
  | H_ContentDisposition string
  | H_ContentEncoding string
  | H_ContentLanguage string
  | H_ContentLength string
  | H_ContentType string
  | H_Date string
  | H_ErrorInfo string
  | H_Event string
  | H_Expires string
  | H_From string
  | H_InReplyTo string
  | H_MaxForwards string
  | H_MimeVersion string
  | H_MinExpires string
  | H_Organization string
  | H_Other string string
  | H_Priority string
  | H_ProxyAuthenticate string
  | H_ProxyAuthorization string
  | H_ProxyRequire string
  | H_RecordRoute string
  | H_ReplyTo string
  | H_Require string
  | H_RetryAfter string
  | H_Route string
  | H_ServiceRoute string
  | H_Server string
  | H_Subject string
  | H_SubscriptionState string
  | H_Supported string
  | H_Timestamp string
  | H_To string
  | H_Unsupported string
  | H_UserAgent string
  | H_Via string
  | H_Warning string
  | H_WwwAuthenticate string
  | H_Reason string
  | H_ReferTo string
  | H_ReferredBy string
  | H_SessionExpires string
  | H_MinSE string
  | H_PAssertedIdentity string
  | H_PPreferredIdentity string
  | H_Replaces string
  | H_RSeq string
  | H_RAck string
  | H_Privacy string
  | H_Path string
  | H_Identity string
  | H_UserToUser string
  | H_SessionId string
  | H_HistoryInfo string

text \<open>The macro-made \<open>Display\<close> of an untyped header.\<close>

definition untyped_display :: "string \<Rightarrow> string \<Rightarrow> string" where
  "untyped_display name value = name @ '': '' @ value"

primrec show_header :: "header \<Rightarrow> string" where
  "show_header (H_Accept v) = untyped_display ''Accept'' v"
| "show_header (H_AcceptEncoding v) = untyped_display ''Accept-Encoding'' v"
| "show_header (H_AcceptLanguage v) = untyped_display ''Accept-Language'' v"
| "show_header (H_AlertInfo v) = untyped_display ''Alert-Info'' v"
| "show_header (H_Allow v) = untyped_display ''Allow'' v"
| "show_header (H_AuthenticationInfo v) = untyped_display ''Authentication-Info'' v"
| "show_header (H_Authorization v) = untyped_display ''Authorization'' v"
| "show_header (H_CSeq v) = untyped_display ''CSeq'' v"
| "show_header (H_CallId v) = untyped_display ''Call-ID'' v"
| "show_header (H_CallInfo v) = untyped_display ''Call-Info'' v"
| "show_header (H_Contact v) = untyped_display ''Contact'' v"
| "show_header (H_ContentDisposition v) = untyped_display ''Content-Disposition'' v"
| "show_header (H_ContentEncoding v) = untyped_display ''Content-Encoding'' v"
| "show_header (H_ContentLanguage v) = untyped_display ''Content-Language'' v"
| "show_header (H_ContentLength v) = untyped_display ''Content-Length'' v"
| "show_header (H_ContentType v) = untyped_display ''Content-Type'' v"
| "show_header (H_Date v) = untyped_display ''Date'' v"
| "show_header (H_ErrorInfo v) = untyped_display ''Error-Info'' v"
| "show_header (H_Event v) = untyped_display ''Event'' v"
| "show_header (H_Expires v) = untyped_display ''Expires'' v"
| "show_header (H_From v) = untyped_display ''From'' v"
| "show_header (H_InReplyTo v) = untyped_display ''In-Reply-To'' v"
| "show_header (H_MaxForwards v) = untyped_display ''Max-Forwards'' v"
| "show_header (H_MimeVersion v) = untyped_display ''Mime-Version'' v"
| "show_header (H_MinExpires v) = untyped_display ''Min-Expires'' v"
| "show_header (H_Organization v) = untyped_display ''Organization'' v"
| "show_header (H_Other k v) = untyped_display k v"
| "show_header (H_Priority v) = untyped_display ''Priority'' v"
| "show_header (H_ProxyAuthenticate v) = untyped_display ''Proxy-Authenticate'' v"
| "show_header (H_ProxyAuthorization v) = untyped_display ''Proxy-Authorization'' v"
| "show_header (H_ProxyRequire v) = untyped_display ''Proxy-Require'' v"
| "show_header (H_RecordRoute v) = untyped_display ''Record-Route'' v"
| "show_header (H_ReplyTo v) = untyped_display ''Reply-To'' v"
| "show_header (H_Require v) = untyped_display ''Require'' v"
| "show_header (H_RetryAfter v) = untyped_display ''Retry-After'' v"
| "show_header (H_Route v) = untyped_display ''Route'' v"
| "show_header (H_ServiceRoute v) = untyped_display ''Service-Route'' v"
| "show_header (H_Server v) = untyped_display ''Server'' v"
| "show_header (H_Subject v) = untyped_display ''Subject'' v"
| "show_header (H_SubscriptionState v) = untyped_display ''Subscription-State'' v"
| "show_header (H_Supported v) = untyped_display ''Supported'' v"
| "show_header (H_Timestamp v) = untyped_display ''Timestamp'' v"
| "show_header (H_To v) = untyped_display ''To'' v"
| "show_header (H_Unsupported v) = untyped_display ''Unsupported'' v"
| "show_header (H_UserAgent v) = untyped_display ''User-Agent'' v"
| "show_header (H_Via v) = untyped_display ''Via'' v"
| "show_header (H_Warning v) = untyped_display ''Warning'' v"
| "show_header (H_WwwAuthenticate v) = untyped_display ''WWW-Authenticate'' v"
| "show_header (H_Reason v) = untyped_display ''Reason'' v"
| "show_header (H_ReferTo v) = untyped_display ''Refer-To'' v"
| "show_header (H_ReferredBy v) = untyped_display ''Referred-By'' v"
| "show_header (H_SessionExpires v) = untyped_display ''Session-Expires'' v"
| "show_header (H_MinSE v) = untyped_display ''Min-SE'' v"
| "show_header (H_PAssertedIdentity v) = untyped_display ''P-Asserted-Identity'' v"
| "show_header (H_PPreferredIdentity v) = untyped_display ''P-Preferred-Identity'' v"
| "show_header (H_Replaces v) = untyped_display ''Replaces'' v"
| "show_header (H_RSeq v) = untyped_display ''RSeq'' v"
| "show_header (H_RAck v) = untyped_display ''RAck'' v"
| "show_header (H_Privacy v) = untyped_display ''Privacy'' v"
| "show_header (H_Path v) = untyped_display ''Path'' v"
| "show_header (H_Identity v) = untyped_display ''Identity'' v"
| "show_header (H_UserToUser v) = untyped_display ''User-to-User'' v"
| "show_header (H_SessionId v) = untyped_display ''Session-ID'' v"
| "show_header (H_HistoryInfo v) = untyped_display ''History-Info'' v"

primrec header_name :: "header \<Rightarrow> string" where
  "header_name (H_Accept v) = ''Accept''"
| "header_name (H_AcceptEncoding v) = ''Accept-Encoding''"
| "header_name (H_AcceptLanguage v) = ''Accept-Language''"
| "header_name (H_AlertInfo v) = ''Alert-Info''"
| "header_name (H_Allow v) = ''Allow''"
| "header_name (H_AuthenticationInfo v) = ''Authentication-Info''"
| "header_name (H_Authorization v) = ''Authorization''"
| "header_name (H_CSeq v) = ''CSeq''"
| "header_name (H_CallId v) = ''Call-ID''"
| "header_name (H_CallInfo v) = ''Call-Info''"
| "header_name (H_Contact v) = ''Contact''"
| "header_name (H_ContentDisposition v) = ''Content-Disposition''"
| "header_name (H_ContentEncoding v) = ''Content-Encoding''"
| "header_name (H_ContentLanguage v) = ''Content-Language''"
| "header_name (H_ContentLength v) = ''Content-Length''"
| "header_name (H_ContentType v) = ''Content-Type''"
| "header_name (H_Date v) = ''Date''"
| "header_name (H_ErrorInfo v) = ''Error-Info''"
| "header_name (H_Event v) = ''Event''"
| "header_name (H_Expires v) = ''Expires''"
| "header_name (H_From v) = ''From''"
| "header_name (H_InReplyTo v) = ''In-Reply-To''"
| "header_name (H_MaxForwards v) = ''Max-Forwards''"
| "header_name (H_MimeVersion v) = ''Mime-Version''"
| "header_name (H_MinExpires v) = ''Min-Expires''"
| "header_name (H_Organization v) = ''Organization''"
| "header_name (H_Other k v) = k"
| "header_name (H_Priority v) = ''Priority''"
| "header_name (H_ProxyAuthenticate v) = ''Proxy-Authenticate''"
| "header_name (H_ProxyAuthorization v) = ''Proxy-Authorization''"
| "header_name (H_ProxyRequire v) = ''Proxy-Require''"
| "header_name (H_RecordRoute v) = ''Record-Route''"
| "header_name (H_ReplyTo v) = ''Reply-To''"
| "header_name (H_Require v) = ''Require''"
| "header_name (H_RetryAfter v) = ''Retry-After''"
| "header_name (H_Route v) = ''Route''"
| "header_name (H_ServiceRoute v) = ''Service-Route''"
| "header_name (H_Server v) = ''Server''"
| "header_name (H_Subject v) = ''Subject''"
| "header_name (H_SubscriptionState v) = ''Subscription-State''"
| "header_name (H_Supported v) = ''Supported''"
| "header_name (H_Timestamp v) = ''Timestamp''"
| "header_name (H_To v) = ''To''"
| "header_name (H_Unsupported v) = ''Unsupported''"
| "header_name (H_UserAgent v) = ''User-Agent''"
| "header_name (H_Via v) = ''Via''"
| "header_name (H_Warning v) = ''Warning''"
| "header_name (H_WwwAuthenticate v) = ''WWW-Authenticate''"
| "header_name (H_Reason v) = ''Reason''"
| "header_name (H_ReferTo v) = ''Refer-To''"
| "header_name (H_ReferredBy v) = ''Referred-By''"
| "header_name (H_SessionExpires v) = ''Session-Expires''"
| "header_name (H_MinSE v) = ''Min-SE''"
| "header_name (H_PAssertedIdentity v) = ''P-Asserted-Identity''"
| "header_name (H_PPreferredIdentity v) = ''P-Preferred-Identity''"
| "header_name (H_Replaces v) = ''Replaces''"
| "header_name (H_RSeq v) = ''RSeq''"
| "header_name (H_RAck v) = ''RAck''"
| "header_name (H_Privacy v) = ''Privacy''"
| "header_name (H_Path v) = ''Path''"
| "header_name (H_Identity v) = ''Identity''"
| "header_name (H_UserToUser v) = ''User-to-User''"
| "header_name (H_SessionId v) = ''Session-ID''"
| "header_name (H_HistoryInfo v) = ''History-Info''"

primrec header_value :: "header \<Rightarrow> string" where
  "header_value (H_Accept v) = v"
| "header_value (H_AcceptEncoding v) = v"
| "header_value (H_AcceptLanguage v) = v"
| "header_value (H_AlertInfo v) = v"
| "header_value (H_Allow v) = v"
| "header_value (H_AuthenticationInfo v) = v"
| "header_value (H_Authorization v) = v"
| "header_value (H_CSeq v) = v"
| "header_value (H_CallId v) = v"
| "header_value (H_CallInfo v) = v"
| "header_value (H_Contact v) = v"
| "header_value (H_ContentDisposition v) = v"
| "header_value (H_ContentEncoding v) = v"
| "header_value (H_ContentLanguage v) = v"
| "header_value (H_ContentLength v) = v"
| "header_value (H_ContentType v) = v"
| "header_value (H_Date v) = v"
| "header_value (H_ErrorInfo v) = v"
| "header_value (H_Event v) = v"
| "header_value (H_Expires v) = v"
| "header_value (H_From v) = v"
| "header_value (H_InReplyTo v) = v"
| "header_value (H_MaxForwards v) = v"
| "header_value (H_MimeVersion v) = v"
| "header_value (H_MinExpires v) = v"
| "header_value (H_Organization v) = v"
| "header_value (H_Other k v) = v"
| "header_value (H_Priority v) = v"
| "header_value (H_ProxyAuthenticate v) = v"
| "header_value (H_ProxyAuthorization v) = v"
| "header_value (H_ProxyRequire v) = v"
| "header_value (H_RecordRoute v) = v"
| "header_value (H_ReplyTo v) = v"
| "header_value (H_Require v) = v"
| "header_value (H_RetryAfter v) = v"
| "header_value (H_Route v) = v"
| "header_value (H_ServiceRoute v) = v"
| "header_value (H_Server v) = v"
| "header_value (H_Subject v) = v"
| "header_value (H_SubscriptionState v) = v"
| "header_value (H_Supported v) = v"
| "header_value (H_Timestamp v) = v"
| "header_value (H_To v) = v"
| "header_value (H_Unsupported v) = v"
| "header_value (H_UserAgent v) = v"
| "header_value (H_Via v) = v"
| "header_value (H_Warning v) = v"
| "header_value (H_WwwAuthenticate v) = v"
| "header_value (H_Reason v) = v"
| "header_value (H_ReferTo v) = v"
| "header_value (H_ReferredBy v) = v"
| "header_value (H_SessionExpires v) = v"
| "header_value (H_MinSE v) = v"
| "header_value (H_PAssertedIdentity v) = v"
| "header_value (H_PPreferredIdentity v) = v"
| "header_value (H_Replaces v) = v"
| "header_value (H_RSeq v) = v"
| "header_value (H_RAck v) = v"
| "header_value (H_Privacy v) = v"
| "header_value (H_Path v) = v"
| "header_value (H_Identity v) = v"
| "header_value (H_UserToUser v) = v"
| "header_value (H_SessionId v) = v"
| "header_value (H_HistoryInfo v) = v"

primrec discriminant :: "header \<Rightarrow> nat" where
  "discriminant (H_Accept v) = 0"
| "discriminant (H_AcceptEncoding v) = 1"
| "discriminant (H_AcceptLanguage v) = 2"
| "discriminant (H_AlertInfo v) = 3"
| "discriminant (H_Allow v) = 4"
| "discriminant (H_AuthenticationInfo v) = 5"
| "discriminant (H_Authorization v) = 6"
| "discriminant (H_CSeq v) = 7"
| "discriminant (H_CallId v) = 8"
| "discriminant (H_CallInfo v) = 9"
| "discriminant (H_Contact v) = 10"
| "discriminant (H_ContentDisposition v) = 11"
| "discriminant (H_ContentEncoding v) = 12"
| "discriminant (H_ContentLanguage v) = 13"
| "discriminant (H_ContentLength v) = 14"
| "discriminant (H_ContentType v) = 15"
| "discriminant (H_Date v) = 16"
| "discriminant (H_ErrorInfo v) = 17"
| "discriminant (H_Event v) = 18"
| "discriminant (H_Expires v) = 19"
| "discriminant (H_From v) = 20"
| "discriminant (H_InReplyTo v) = 21"
| "discriminant (H_MaxForwards v) = 22"
| "discriminant (H_MimeVersion v) = 23"
| "discriminant (H_MinExpires v) = 24"
| "discriminant (H_Organization v) = 25"
| "discriminant (H_Other k v) = 26"
| "discriminant (H_Priority v) = 27"
| "discriminant (H_ProxyAuthenticate v) = 28"
| "discriminant (H_ProxyAuthorization v) = 29"
| "discriminant (H_ProxyRequire v) = 30"
| "discriminant (H_RecordRoute v) = 31"
| "discriminant (H_ReplyTo v) = 32"
| "discriminant (H_Require v) = 33"
| "discriminant (H_RetryAfter v) = 34"
| "discriminant (H_Route v) = 35"
| "discriminant (H_ServiceRoute v) = 36"
| "discriminant (H_Server v) = 37"
| "discriminant (H_Subject v) = 38"
| "discriminant (H_SubscriptionState v) = 39"
| "discriminant (H_Supported v) = 40"
| "discriminant (H_Timestamp v) = 41"
| "discriminant (H_To v) = 42"
| "discriminant (H_Unsupported v) = 43"
| "discriminant (H_UserAgent v) = 44"
| "discriminant (H_Via v) = 45"
| "discriminant (H_Warning v) = 46"
| "discriminant (H_WwwAuthenticate v) = 47"
| "discriminant (H_Reason v) = 48"
| "discriminant (H_ReferTo v) = 49"
| "discriminant (H_ReferredBy v) = 50"
| "discriminant (H_SessionExpires v) = 51"
| "discriminant (H_MinSE v) = 52"
| "discriminant (H_PAssertedIdentity v) = 53"
| "discriminant (H_PPreferredIdentity v) = 54"
| "discriminant (H_Replaces v) = 55"
| "discriminant (H_RSeq v) = 56"
| "discriminant (H_RAck v) = 57"
| "discriminant (H_Privacy v) = 58"
| "discriminant (H_Path v) = 59"
| "discriminant (H_Identity v) = 60"
| "discriminant (H_UserToUser v) = 61"
| "discriminant (H_SessionId v) = 62"
| "discriminant (H_HistoryInfo v) = 63"

definition make_header :: "string \<Rightarrow> string \<Rightarrow> header" where
  "make_header n value =
     (if eq_ignore_ascii_case n ''Accept'' then H_Accept value
     else if eq_ignore_ascii_case n ''Accept-Encoding'' then H_AcceptEncoding value
     else if eq_ignore_ascii_case n ''Accept-Language'' then H_AcceptLanguage value
     else if eq_ignore_ascii_case n ''Alert-Info'' then H_AlertInfo value
     else if eq_ignore_ascii_case n ''Allow'' then H_Allow value
     else if eq_ignore_ascii_case n ''Authentication-Info'' then H_AuthenticationInfo value
     else if eq_ignore_ascii_case n ''Authorization'' then H_Authorization value
     else if eq_ignore_ascii_case n ''CSeq'' then H_CSeq value
     else if eq_ignore_ascii_case n ''Call-ID'' \<or> eq_ignore_ascii_case n ''i'' then H_CallId value
     else if eq_ignore_ascii_case n ''Call-Info'' then H_CallInfo value
     else if eq_ignore_ascii_case n ''Contact'' \<or> eq_ignore_ascii_case n ''m'' then H_Contact value
     else if eq_ignore_ascii_case n ''Content-Disposition'' then H_ContentDisposition value
     else if eq_ignore_ascii_case n ''Content-Encoding'' \<or> eq_ignore_ascii_case n ''e'' then H_ContentEncoding value
     else if eq_ignore_ascii_case n ''Content-Language'' then H_ContentLanguage value
     else if eq_ignore_ascii_case n ''Content-Length'' \<or> eq_ignore_ascii_case n ''l'' then H_ContentLength value
     else if eq_ignore_ascii_case n ''Content-Type'' \<or> eq_ignore_ascii_case n ''c'' then H_ContentType value
     else if eq_ignore_ascii_case n ''Date'' then H_Date value
     else if eq_ignore_ascii_case n ''Error-Info'' then H_ErrorInfo value
     else if eq_ignore_ascii_case n ''Event'' \<or> eq_ignore_ascii_case n ''o'' then H_Event value
     else if eq_ignore_ascii_case n ''Expires'' then H_Expires value
     else if eq_ignore_ascii_case n ''From'' \<or> eq_ignore_ascii_case n ''f'' then H_From value
     else if eq_ignore_ascii_case n ''In-Reply-To'' then H_InReplyTo value
     else if eq_ignore_ascii_case n ''Max-Forwards'' then H_MaxForwards value
     else if eq_ignore_ascii_case n ''Mime-Version'' then H_MimeVersion value
     else if eq_ignore_ascii_case n ''Min-Expires'' then H_MinExpires value
     else if eq_ignore_ascii_case n ''Organization'' then H_Organization value
     else if eq_ignore_ascii_case n ''Priority'' then H_Priority value
     else if eq_ignore_ascii_case n ''Proxy-Authenticate'' then H_ProxyAuthenticate value
     else if eq_ignore_ascii_case n ''Proxy-Authorization'' then H_ProxyAuthorization value
     else if eq_ignore_ascii_case n ''Proxy-Require'' then H_ProxyRequire value
     else if eq_ignore_ascii_case n ''Record-Route'' then H_RecordRoute value
     else if eq_ignore_ascii_case n ''Reply-To'' then H_ReplyTo value
     else if eq_ignore_ascii_case n ''Require'' then H_Require value
     else if eq_ignore_ascii_case n ''Retry-After'' then H_RetryAfter value
     else if eq_ignore_ascii_case n ''Route'' then H_Route value
     else if eq_ignore_ascii_case n ''Service-Route'' then H_ServiceRoute value
     else if eq_ignore_ascii_case n ''Server'' then H_Server value
     else if eq_ignore_ascii_case n ''Subject'' \<or> eq_ignore_ascii_case n ''s'' then H_Subject value
     else if eq_ignore_ascii_case n ''Subscription-State'' then H_SubscriptionState value
     else if eq_ignore_ascii_case n ''Supported'' \<or> eq_ignore_ascii_case n ''k'' then H_Supported value
     else if eq_ignore_ascii_case n ''Timestamp'' then H_Timestamp value
     else if eq_ignore_ascii_case n ''To'' \<or> eq_ignore_ascii_case n ''t'' then H_To value
     else if eq_ignore_ascii_case n ''Unsupported'' then H_Unsupported value
     else if eq_ignore_ascii_case n ''User-Agent'' then H_UserAgent value
     else if eq_ignore_ascii_case n ''Via'' \<or> eq_ignore_ascii_case n ''v'' then H_Via value
     else if eq_ignore_ascii_case n ''Warning'' then H_Warning value
     else if eq_ignore_ascii_case n ''WWW-Authenticate'' then H_WwwAuthenticate value
     else if eq_ignore_ascii_case n ''Reason'' then H_Reason value
     else if eq_ignore_ascii_case n ''Refer-To'' \<or> eq_ignore_ascii_case n ''r'' then H_ReferTo value
     else if eq_ignore_ascii_case n ''Referred-By'' \<or> eq_ignore_ascii_case n ''b'' then H_ReferredBy value
     else if eq_ignore_ascii_case n ''Session-Expires'' \<or> eq_ignore_ascii_case n ''x'' then H_SessionExpires value
     else if eq_ignore_ascii_case n ''Min-SE'' then H_MinSE value
     else if eq_ignore_ascii_case n ''P-Asserted-Identity'' then H_PAssertedIdentity value
     else if eq_ignore_ascii_case n ''P-Preferred-Identity'' then H_PPreferredIdentity value
     else if eq_ignore_ascii_case n ''Replaces'' then H_Replaces value
     else if eq_ignore_ascii_case n ''RSeq'' then H_RSeq value
     else if eq_ignore_ascii_case n ''RAck'' then H_RAck value
     else if eq_ignore_ascii_case n ''Privacy'' then H_Privacy value
     else if eq_ignore_ascii_case n ''Path'' then H_Path value
     else if eq_ignore_ascii_case n ''Identity'' then H_Identity value
     else if eq_ignore_ascii_case n ''User-to-User'' then H_UserToUser value
     else if eq_ignore_ascii_case n ''Session-ID'' then H_SessionId value
     else if eq_ignore_ascii_case n ''History-Info'' then H_HistoryInfo value
     else H_Other n value)"
lemma show_header_eq: "show_header h = header_name h @ '': '' @ header_value h"
  by (induction h) (simp_all add: untyped_display_def)

section \<open>Variants\<close>

text \<open>What \<open>if let Header::X(inner) = h\<close> matches, and the macros built on it.\<close>

definition variant :: "(string \<Rightarrow> header) \<Rightarrow> header \<Rightarrow> string option" where
  "variant mk h = (if discriminant h = discriminant (mk []) then Some (header_value h) else None)"

definition header_opt :: "(string \<Rightarrow> header) \<Rightarrow> header list \<Rightarrow> string option" where
  "header_opt mk hs = find_map (variant mk) hs"

definition header_get :: "(string \<Rightarrow> header) \<Rightarrow> string \<Rightarrow> header list \<Rightarrow> sip_error + string" where
  "header_get mk name hs = ok_or (header_opt mk hs) (MissingHeader name)"

definition all_headers :: "(string \<Rightarrow> header) \<Rightarrow> header list \<Rightarrow> string list" where
  "all_headers mk hs = List.map_filter (variant mk) hs"

text \<open>Writing through the reference that \<open>header_get_mut!\<close> returns.\<close>

definition header_replace :: "(string \<Rightarrow> header) \<Rightarrow> string \<Rightarrow> header list \<Rightarrow> header list" where
  "header_replace mk v hs =
     (case replace_first (\<lambda>h. variant mk h \<noteq> None) (mk v) hs of Some hs' \<Rightarrow> hs' | None \<Rightarrow> hs)"

section \<open>Headers\<close>

definition headers_push :: "header \<Rightarrow> header list \<Rightarrow> header list" where
  "headers_push h hs = hs @ [h]"

definition headers_push_front :: "header \<Rightarrow> header list \<Rightarrow> header list" where
  "headers_push_front h hs = h # hs"

definition unique_push :: "header \<Rightarrow> header list \<Rightarrow> header list" where
  "unique_push h hs = headers_push h (filter (\<lambda>s. discriminant s \<noteq> discriminant h) hs)"

definition headers_extend :: "header list \<Rightarrow> header list \<Rightarrow> header list" where
  "headers_extend i hs = hs @ i"

definition headers_retain :: "(header \<Rightarrow> bool) \<Rightarrow> header list \<Rightarrow> header list" where
  "headers_retain f hs = filter f hs"

definition remove_all_headers :: "(header \<Rightarrow> bool) \<Rightarrow> header list \<Rightarrow> header list" where
  "remove_all_headers p hs = filter (\<lambda>h. \<not> p h) hs"

fun remove_first_header :: "(header \<Rightarrow> bool) \<Rightarrow> header list \<Rightarrow> bool \<times> header list" where
  "remove_first_header p [] = (False, [])"
| "remove_first_header p (h # hs) =
     (if p h then (True, hs) else (case remove_first_header p hs of (b, hs') \<Rightarrow> (b, h # hs')))"

fun pop_first :: "(header \<Rightarrow> 'a option) \<Rightarrow> header list \<Rightarrow> 'a option \<times> header list" where
  "pop_first f [] = (None, [])"
| "pop_first f (h # hs) =
     (case f h of Some v \<Rightarrow> (Some v, hs) | None \<Rightarrow> (case pop_first f hs of (r, hs') \<Rightarrow> (r, h # hs')))"

text \<open>The macro \<open>sip_header_pop!\<close>: a \<open>retain\<close> that drops the first match only.\<close>

definition header_pop :: "(string \<Rightarrow> header) \<Rightarrow> header list \<Rightarrow> header list" where
  "header_pop mk hs = snd (remove_first_header (\<lambda>h. variant mk h \<noteq> None) hs)"

abbreviation crlf :: string where
  "crlf \<equiv> [CHR 0x0D, CHR 0x0A]"

definition show_headers :: "header list \<Rightarrow> string" where
  "show_headers hs = (if hs = [] then [] else join crlf (map show_header hs) @ crlf)"

section \<open>Properties\<close>

text \<open>The variant of a newtype header: its constructor keeps the value and fixes the discriminant.\<close>

locale header_variant =
  fixes mk :: "string \<Rightarrow> header"
  assumes value_mk: "header_value (mk v) = v"
    and discriminant_mk: "discriminant (mk v) = discriminant (mk [])"
begin

lemma variant_mk: "variant mk (mk v) = Some v"
  by (simp add: variant_def value_mk discriminant_mk [of v])

lemma variant_None: "variant mk h = None \<longleftrightarrow> discriminant h \<noteq> discriminant (mk [])"
  by (simp add: variant_def)

lemma opt_unique_push: "header_opt mk (unique_push (mk v) hs) = Some v"
proof -
  have "find_map (variant mk) (filter (\<lambda>s. discriminant s \<noteq> discriminant (mk v)) hs) = None"
    by (simp add: find_map_None variant_None discriminant_mk [of v])
  then show ?thesis by (simp add: header_opt_def unique_push_def headers_push_def find_map_append variant_mk)
qed

lemma all_unique_push: "all_headers mk (unique_push (mk v) hs) = [v]"
proof -
  have "List.map_filter (variant mk) (filter (\<lambda>s. discriminant s \<noteq> discriminant (mk v)) hs) = []"
    by (induction hs) (simp_all add: map_filter_simps variant_def discriminant_mk [of v])
  moreover have "List.map_filter (variant mk) (xs @ [mk v]) = List.map_filter (variant mk) xs @ [v]" for xs
    by (induction xs) (simp_all add: map_filter_simps variant_mk split: option.splits)
  ultimately show ?thesis by (simp add: all_headers_def unique_push_def headers_push_def)
qed

lemma replace_opt: "header_opt mk hs = Some w \<Longrightarrow> header_opt mk (header_replace mk v hs) = Some v"
proof (cases "replace_first (\<lambda>h. variant mk h \<noteq> None) (mk v) hs")
  case None
  moreover assume "header_opt mk hs = Some w"
  ultimately show ?thesis by (simp add: header_opt_def replace_first_None find_map_None [THEN iffD2])
next
  case (Some hs')
  have "find_map (variant mk) hs' = Some v"
    by (rule find_map_replace_first [where p = "\<lambda>h. variant mk h \<noteq> None"]) (use Some variant_mk in auto)
  with Some show ?thesis by (simp add: header_opt_def header_replace_def)
qed

lemma pop_all: "all_headers mk (header_pop mk hs) = tl (all_headers mk hs)"
  unfolding all_headers_def header_pop_def
  by (induction hs) (auto simp: map_filter_simps split: option.splits prod.splits)

lemma unique_push_others:
  "discriminant (mk' []) \<noteq> discriminant (mk []) \<Longrightarrow>
   all_headers mk' (unique_push (mk v) hs) = all_headers mk' hs"
proof -
  assume d: "discriminant (mk' []) \<noteq> discriminant (mk [])"
  have "List.map_filter (variant mk') (filter (\<lambda>s. discriminant s \<noteq> discriminant (mk v)) hs)
      = List.map_filter (variant mk') hs"
    by (induction hs) (use d in \<open>auto simp: map_filter_simps variant_def discriminant_mk [of v]\<close>)
  moreover have "List.map_filter (variant mk') (xs @ [mk v]) = List.map_filter (variant mk') xs" for xs
    by (induction xs) (use d in \<open>auto simp: map_filter_simps variant_def discriminant_mk [of v] split: option.splits\<close>)
  ultimately show ?thesis by (simp add: all_headers_def unique_push_def headers_push_def)
qed

end

interpretation via_variant: header_variant H_Via by unfold_locales simp_all
interpretation to_variant: header_variant H_To by unfold_locales simp_all
interpretation from_variant: header_variant H_From by unfold_locales simp_all
interpretation cseq_variant: header_variant H_CSeq by unfold_locales simp_all
interpretation call_id_variant: header_variant H_CallId by unfold_locales simp_all
interpretation max_forwards_variant: header_variant H_MaxForwards by unfold_locales simp_all
interpretation content_length_variant: header_variant H_ContentLength by unfold_locales simp_all
interpretation contact_variant: header_variant H_Contact by unfold_locales simp_all
interpretation route_variant: header_variant H_Route by unfold_locales simp_all
interpretation user_agent_variant: header_variant H_UserAgent by unfold_locales simp_all

lemma header_opt_simps [simp]:
  "header_opt mk [] = None"
  "header_opt mk (h # hs) = (case variant mk h of Some v \<Rightarrow> Some v | None \<Rightarrow> header_opt mk hs)"
  by (simp_all add: header_opt_def split: option.splits)

lemma all_headers_simps [simp]:
  "all_headers mk [] = []"
  "all_headers mk (h # hs) = (case variant mk h of Some v \<Rightarrow> v # all_headers mk hs | None \<Rightarrow> all_headers mk hs)"
  by (simp_all add: all_headers_def map_filter_simps split: option.splits)

lemma all_headers_append [simp]: "all_headers mk (xs @ ys) = all_headers mk xs @ all_headers mk ys"
  by (induction xs) (simp_all split: option.splits)

lemma header_opt_all: "header_opt mk hs = (case all_headers mk hs of [] \<Rightarrow> None | v # _ \<Rightarrow> Some v)"
  by (induction hs) (simp_all split: option.splits)

definition is_other :: "header \<Rightarrow> bool" where
  "is_other h \<longleftrightarrow> discriminant h = discriminant (H_Other [] [])"

text \<open>Rebuilding a header from its name and value gives the header
  back, for every standard header (\<open>Header::Other\<close> keeps the name it was given).\<close>

theorem make_header_inverse:
  "is_other h \<or> make_header (header_name h) (header_value h) = h"
  by (induction h) (simp_all add: is_other_def make_header_def)

text \<open>After \<open>unique_push\<close> of a Content-Length there is exactly that one,
  every header of another kind is still there in order, and popping it leaves none.\<close>

theorem unique_push_single:
  "all_headers H_ContentLength (unique_push (H_ContentLength v) hs) = [v]
   \<and> all_headers H_Via (unique_push (H_ContentLength v) hs) = all_headers H_Via hs
   \<and> all_headers H_ContentLength (header_pop H_ContentLength (unique_push (H_ContentLength v) hs)) = []"
  by (simp add: content_length_variant.all_unique_push content_length_variant.unique_push_others
      content_length_variant.pop_all)

end
