(* ===== verification/Sip_Typed.thy ===== *)
theory Sip_Typed
  imports Sip_Uri Sip_Headers
begin

text \<open>
  The typed headers: \<open>sip/headers/typed/{cseq,tokenizers,parse_helpers,via,from,to,contact,route,
  record_route}.rs\<close> and the methods the untyped \<open>Via\<close>, \<open>From\<close>, \<open>To\<close>, \<open>CSeq\<close> and
  \<open>SessionId\<close> of \<open>sip/headers/untyped.rs\<close> add to their string.
\<close>

section \<open>CSeq\<close>

record typed_cseq =
  cseq_seq :: nat
  cseq_method :: sip_method

definition cseq_tokenize :: "string \<Rightarrow> sip_error + (string \<times> string)" where
  "cseq_tokenize str =
     (case split_once is_ws (trim str) of
        None \<Rightarrow> Inl (TokenizeError ''CSeq: missing method'')
      | Some (seq, mth) \<Rightarrow> Inr (trim seq, trim mth))"

definition cseq_parse :: "string \<Rightarrow> sip_error + typed_cseq" where
  "cseq_parse s =
     and_then (cseq_tokenize s) (\<lambda>(seq_str, mth_str).
     and_then (map_err (\<lambda>_. ParseError ''CSeq: invalid seq'') (parse_uint 32 seq_str)) (\<lambda>seq.
     and_then (parse_method mth_str) (\<lambda>mth.
     Inr \<lparr>cseq_seq = seq, cseq_method = mth\<rparr>)))"

definition show_cseq :: "typed_cseq \<Rightarrow> string" where
  "show_cseq c = show_nat (cseq_seq c) @ '' '' @ show_method (cseq_method c)"

text \<open>The accessors of the untyped \<open>CSeq\<close>, on its value.\<close>

definition cseq_typed :: "string \<Rightarrow> sip_error + typed_cseq" where
  "cseq_typed v = cseq_parse (trim v)"

definition cseq_value_seq :: "string \<Rightarrow> sip_error + nat" where
  "cseq_value_seq v = and_then (cseq_typed v) (\<lambda>c. Inr (cseq_seq c))"

definition cseq_value_method :: "string \<Rightarrow> sip_error + sip_method" where
  "cseq_value_method v = and_then (cseq_typed v) (\<lambda>c. Inr (cseq_method c))"

definition cseq_mut_seq :: "nat \<Rightarrow> string \<Rightarrow> sip_error + string" where
  "cseq_mut_seq seq v =
     and_then (cseq_typed v) (\<lambda>c. Inr (show_cseq \<lparr>cseq_seq = seq, cseq_method = cseq_method c\<rparr>))"

definition cseq_mut_method :: "sip_method \<Rightarrow> string \<Rightarrow> sip_error + string" where
  "cseq_mut_method m v =
     and_then (cseq_typed v) (\<lambda>c. Inr (show_cseq \<lparr>cseq_seq = cseq_seq c, cseq_method = m\<rparr>))"

section \<open>Display name, URI and parameters\<close>

text \<open>\<open>typed::{From, To, Route, RecordRoute, Contact}\<close> are structs of the same shape.\<close>

record name_addr =
  na_display :: "string option"
  na_uri :: uri
  na_params :: "param list"

text \<open>The scan for the end of a URI without angle brackets: \<open>at\<close> is the offset of the first at sign,
  \<open>i\<close> the offset of the character read.\<close>

fun scan_uri_end :: "nat option \<Rightarrow> bool \<Rightarrow> nat \<Rightarrow> string \<Rightarrow> nat option" where
  "scan_uri_end at in_userinfo i [] = None"
| "scan_uri_end at in_userinfo i (b # bs) =
     (if b = CHR ''@'' then scan_uri_end at False (Suc i) bs
      else if b = CHR '':'' \<and> \<not> in_userinfo then
        scan_uri_end at (case at of Some p \<Rightarrow> i < p | None \<Rightarrow> False) (Suc i) bs
      else if b = CHR '';'' \<and> \<not> in_userinfo then Some i
      else scan_uri_end at in_userinfo (Suc i) bs)"

definition find_char :: "char \<Rightarrow> string \<Rightarrow> nat option" where
  "find_char c s = map_option (\<lambda>(a, _). length a) (split_once (\<lambda>x. x = c) s)"

definition parse_display_uri_params :: "string \<Rightarrow> sip_error + name_addr" where
  "parse_display_uri_params str =
     (let s = trim str in
      case split_once (\<lambda>c. c = CHR ''<'') s of
        Some (pre, rest) \<Rightarrow>
          (let display_name = trim_matches (\<lambda>c. c = CHR 0x22) (trim pre) in
           and_then (ok_or (split_once (\<lambda>c. c = CHR ''>'') rest) (ParseError (''missing '' @ [CHR 0x27] @ ''>'' @ [CHR 0x27] @ '' in: '' @ s))) (\<lambda>(uri_str, after).
           and_then (parse_uri uri_str) (\<lambda>u.
           and_then (parse_params (trim_start_matches (\<lambda>c. c = CHR '';'') (trim after))) (\<lambda>ps.
           Inr \<lparr>na_display = (if display_name = [] then None else Some display_name),
                na_uri = u, na_params = ps\<rparr>))))
      | None \<Rightarrow>
          (case scan_uri_end (find_char (CHR ''@'') s) False 0 s of
             Some e \<Rightarrow>
               and_then (parse_uri (take e s)) (\<lambda>u.
               and_then (parse_params (drop (Suc e) s)) (\<lambda>ps.
               Inr \<lparr>na_display = None, na_uri = u, na_params = ps\<rparr>))
           | None \<Rightarrow>
               and_then (parse_uri s) (\<lambda>u. Inr \<lparr>na_display = None, na_uri = u, na_params = []\<rparr>)))"

definition show_name_addr :: "name_addr \<Rightarrow> string" where
  "show_name_addr n =
     (case na_display n of
        Some name \<Rightarrow> [CHR 0x22] @ name @ [CHR 0x22] @ '' <'' @ show_uri (na_uri n) @ ''>''
      | None \<Rightarrow> ''<'' @ show_uri (na_uri n) @ ''>'')
     @ show_params (na_params n)"

definition name_addr_of_uri :: "uri \<Rightarrow> name_addr" where
  "name_addr_of_uri u = \<lparr>na_display = None, na_uri = u, na_params = []\<rparr>"

definition na_with_tag :: "string \<Rightarrow> name_addr \<Rightarrow> name_addr" where
  "na_with_tag t n = n\<lparr>na_params := remove_tag (na_params n) @ [P_Tag t]\<rparr>"

section \<open>From and To\<close>

definition from_parse :: "string \<Rightarrow> sip_error + name_addr" where
  "from_parse s = parse_display_uri_params s"

definition to_parse :: "string \<Rightarrow> sip_error + name_addr" where
  "to_parse s = parse_display_uri_params s"

definition from_tag :: "string \<Rightarrow> sip_error + string option" where
  "from_tag v = and_then (from_parse (trim v)) (\<lambda>n. Inr (params_tag (na_params n)))"

definition from_uri :: "string \<Rightarrow> sip_error + uri" where
  "from_uri v = and_then (from_parse (trim v)) (\<lambda>n. Inr (na_uri n))"

definition to_tag :: "string \<Rightarrow> sip_error + string option" where
  "to_tag v = and_then (to_parse (trim v)) (\<lambda>n. Inr (params_tag (na_params n)))"

definition to_uri :: "string \<Rightarrow> sip_error + uri" where
  "to_uri v = and_then (to_parse (trim v)) (\<lambda>n. Inr (na_uri n))"

definition to_mut_tag :: "string \<Rightarrow> string \<Rightarrow> sip_error + string" where
  "to_mut_tag t v =
     and_then (to_parse (trim v)) (\<lambda>n.
       Inr (show_name_addr (n\<lparr>na_params := filter (\<lambda>p. tag_of p = None) (na_params n) @ [P_Tag t]\<rparr>)))"

definition to_with_tag :: "string \<Rightarrow> string \<Rightarrow> string" where
  "to_with_tag t v =
     (case to_parse (trim v) of
        Inr n \<Rightarrow> show_name_addr (n\<lparr>na_params := filter (\<lambda>p. tag_of p = None) (na_params n) @ [P_Tag t]\<rparr>)
      | Inl _ \<Rightarrow> v)"

section \<open>Via\<close>

record typed_via =
  via_version :: version
  via_transport :: transport
  via_uri :: uri
  via_params :: "param list"

definition via_parse :: "string \<Rightarrow> sip_error + typed_via" where
  "via_parse str =
     and_then (ok_or (split_once (\<lambda>c. c = CHR ''/'') (trim str)) (ParseError ''Via: missing version'')) (\<lambda>(proto, s1).
     and_then (ok_or (split_once (\<lambda>c. c = CHR ''/'') s1) (ParseError ''Via: missing transport+host'')) (\<lambda>(ver, s2).
     and_then (ok_or (split_once is_ws (trim s2)) (ParseError ''Via: missing host after transport'')) (\<lambda>(tr_str, addr).
     and_then (parse_transport (trim tr_str)) (\<lambda>tr.
     let (addr_str, params_str) =
           (case split_once (\<lambda>c. c = CHR '';'') (trim addr) of
              Some (a, p) \<Rightarrow> (trim a, Some p)
            | None \<Rightarrow> (trim addr, None))
     in and_then (hwp_try_from addr_str) (\<lambda>hwp.
        and_then (case params_str of Some p \<Rightarrow> parse_params p | None \<Rightarrow> Inr []) (\<lambda>ps.
        Inr \<lparr>via_version = V2, via_transport = tr, via_uri = uri_of_hwp hwp, via_params = ps\<rparr>))))))"

definition via_branch :: "typed_via \<Rightarrow> string option" where
  "via_branch v = find_map branch_of (via_params v)"

definition via_received :: "typed_via \<Rightarrow> (sip_error + ip_addr) option" where
  "via_received v =
     find_map (\<lambda>p. map_option (\<lambda>r. ok_or (parse_ip r) addr_parse_error) (received_of p)) (via_params v)"

definition via_sent_by :: "typed_via \<Rightarrow> host_with_port" where
  "via_sent_by v = uri_hwp (via_uri v)"

definition via_with_branch :: "string \<Rightarrow> typed_via \<Rightarrow> typed_via" where
  "via_with_branch b v = v\<lparr>via_params := filter (\<lambda>p. branch_of p = None) (via_params v) @ [P_Branch b]\<rparr>"

definition via_with_received :: "string \<Rightarrow> typed_via \<Rightarrow> typed_via" where
  "via_with_received r v = v\<lparr>via_params := filter (\<lambda>p. received_of p = None) (via_params v) @ [P_Received r]\<rparr>"

definition via_rport :: "typed_via \<Rightarrow> nat option option" where
  "via_rport v = find_map rport_of (via_params v)"

definition via_with_rport :: "nat option \<Rightarrow> typed_via \<Rightarrow> typed_via" where
  "via_with_rport r v = v\<lparr>via_params := filter (\<lambda>p. rport_of p = None) (via_params v) @ [P_Rport r]\<rparr>"

definition show_via :: "typed_via \<Rightarrow> string" where
  "show_via v =
     ''SIP/2.0/'' @ show_transport (via_transport v) @ '' '' @ show_hwp (uri_hwp (via_uri v))
     @ show_params (via_params v)"

definition via_typed :: "string \<Rightarrow> sip_error + typed_via" where
  "via_typed value = via_parse (trim value)"

text \<open>\<open>Via::first_value_split\<close>: up to the first comma outside a quoted string. \<open>None\<close> is the
  unclosed quote.\<close>

fun via_scan :: "bool \<Rightarrow> bool \<Rightarrow> string \<Rightarrow> (string \<times> string option) option" where
  "via_scan in_quotes escaped [] = (if in_quotes then None else Some ([], None))"
| "via_scan in_quotes escaped (c # cs) =
     (if escaped then map_option (\<lambda>(a, r). (c # a, r)) (via_scan in_quotes False cs)
      else if c = CHR 0x5C \<and> in_quotes then map_option (\<lambda>(a, r). (c # a, r)) (via_scan in_quotes True cs)
      else if c = CHR 0x22 then map_option (\<lambda>(a, r). (c # a, r)) (via_scan (\<not> in_quotes) False cs)
      else if c = CHR '','' \<and> \<not> in_quotes then Some ([], Some (c # cs))
      else map_option (\<lambda>(a, r). (c # a, r)) (via_scan in_quotes False cs))"

definition first_value_split :: "string \<Rightarrow> sip_error + (string \<times> string option)" where
  "first_value_split value =
     (if value = [] then Inl (ParseError ''empty Via header'')
      else (case via_scan False False value of
          None \<Rightarrow> Inl (ParseError ''Via: unclosed quoted string'')
        | Some (a, Some rest) \<Rightarrow> Inr (trim a, Some rest)
        | Some (a, None) \<Rightarrow> Inr (value, None)))"

definition first_value :: "string \<Rightarrow> sip_error + string" where
  "first_value v =
     and_then (first_value_split (trim v)) (\<lambda>(first, _).
       if first = [] then Inl (ParseError ''empty Via header value'') else Inr first)"

definition update_first_value :: "(string \<Rightarrow> sip_error + string) \<Rightarrow> string \<Rightarrow> sip_error + string" where
  "update_first_value f v =
     and_then (first_value_split (trim v)) (\<lambda>(first, rest).
       if first = [] then Inl (ParseError ''empty Via header value'')
       else and_then (f first) (\<lambda>first'.
         if trim first' = [] then Inl (ParseError ''empty Via header value'')
         else Inr (case rest of Some r \<Rightarrow> first' @ r | None \<Rightarrow> first')))"

section \<open>Lists of routes and contacts\<close>

text \<open>The loop the three list splitters share: \<open>cur\<close> is the value being collected.\<close>

fun split_values_loop :: "string \<Rightarrow> nat \<Rightarrow> bool \<Rightarrow> string \<Rightarrow> string list" where
  "split_values_loop cur depth in_quotes [] = (if trim cur = [] then [] else [trim cur])"
| "split_values_loop cur depth in_quotes (ch # s) =
     (if ch = CHR 0x22 then split_values_loop (cur @ [ch]) depth (\<not> in_quotes) s
      else if ch = CHR ''<'' \<and> \<not> in_quotes then split_values_loop (cur @ [ch]) (depth + 1) in_quotes s
      else if ch = CHR ''>'' \<and> \<not> in_quotes then split_values_loop (cur @ [ch]) (depth - 1) in_quotes s
      else if ch = CHR '','' \<and> \<not> in_quotes \<and> depth = 0 then
        (if trim cur = [] then [] else [trim cur]) @ split_values_loop [] depth in_quotes s
      else split_values_loop (cur @ [ch]) depth in_quotes s)"

definition split_route_values :: "string \<Rightarrow> string list" where
  "split_route_values s = split_values_loop [] 0 False s"

definition route_parse :: "string \<Rightarrow> sip_error + name_addr" where
  "route_parse s = parse_display_uri_params s"

definition route_parse_header_list :: "string \<Rightarrow> sip_error + name_addr list" where
  "route_parse_header_list s = collect_results (map route_parse (split_route_values s))"

definition route_has_lr :: "name_addr \<Rightarrow> bool" where
  "route_has_lr r = has_lr (uri_params (na_uri r))"

definition route_has_ob :: "name_addr \<Rightarrow> bool" where
  "route_has_ob r = list_ex (\<lambda>p. p = P_Ob) (uri_params (na_uri r))"

definition split_rr_values :: "string \<Rightarrow> string list" where
  "split_rr_values s = split_values_loop [] 0 False s"

definition record_route_parse :: "string \<Rightarrow> sip_error + name_addr" where
  "record_route_parse s = parse_display_uri_params s"

definition record_route_parse_header_list :: "string \<Rightarrow> sip_error + name_addr list" where
  "record_route_parse_header_list s = collect_results (map record_route_parse (split_rr_values s))"

definition split_contact_header_values :: "string \<Rightarrow> sip_error + string list" where
  "split_contact_header_values line =
     (if trim line = [] then Inl (ParseError ''empty Contact header'')
      else (let values = split_values_loop [] 0 False (trim line) in
            if values = [] then Inl (ParseError ''empty Contact header'') else Inr values))"

definition split_uri_and_header_params :: "string \<Rightarrow> string \<times> string" where
  "split_uri_and_header_params input =
     (let path = (case split_once (\<lambda>c. c = CHR ''?'') input of Some (p, _) \<Rightarrow> p | None \<Rightarrow> input) in
      case find_char (CHR '';'') path of
        Some idx \<Rightarrow> (take idx input, drop idx input)
      | None \<Rightarrow> (input, []))"

definition parse_contact_header_params :: "string \<Rightarrow> sip_error + param list" where
  "parse_contact_header_params input =
     (if trim input = [] then Inr [] else parse_params (trim_start_matches (\<lambda>c. c = CHR '';'') (trim input)))"

definition contact_star :: name_addr where
  "contact_star =
     \<lparr>na_display = None,
      na_uri = \<lparr>uri_scheme = Some (SchemeOther ''*''), uri_auth = None,
                uri_hwp = \<lparr>hwp_host = Domain [], hwp_port = None\<rparr>, uri_params = [], uri_headers = []\<rparr>,
      na_params = []\<rparr>"

definition contact_parse :: "string \<Rightarrow> sip_error + name_addr" where
  "contact_parse str =
     (let s = trim str in
      if s = ''*'' then Inr contact_star
      else
        and_then
          (case split_once (\<lambda>c. c = CHR ''<'') s of
             Some (pre, rest) \<Rightarrow>
               and_then (ok_or (split_once (\<lambda>c. c = CHR ''>'') rest)
                           (ParseError (''invalid Contact header: missing '' @ [CHR 0x27] @ ''>'' @ [CHR 0x27]))) (\<lambda>(u, after).
               Inr (if trim pre = [] then None else Some (trim_matches (\<lambda>c. c = CHR 0x22) (trim pre)),
                    u, trim after))
           | None \<Rightarrow> (case split_uri_and_header_params s of (u, ps) \<Rightarrow> Inr (None, u, ps)))
          (\<lambda>(display, uri_part, header_params).
        and_then (parse_uri uri_part) (\<lambda>u.
        and_then (parse_contact_header_params header_params) (\<lambda>ps.
        Inr \<lparr>na_display = display,
             na_uri = u\<lparr>uri_params := filter (\<lambda>p. p \<noteq> P_Transport Udp) (uri_params u), uri_headers := []\<rparr>,
             na_params = ps\<rparr>))))"

definition contact_parse_header_list :: "string \<Rightarrow> sip_error + name_addr list" where
  "contact_parse_header_list line =
     and_then (split_contact_header_values line) (\<lambda>values. collect_results (map contact_parse values))"

definition contact_expires :: "name_addr \<Rightarrow> nat option" where
  "contact_expires c = find_map (\<lambda>p. Option.bind (expires_of p) (\<lambda>e. ok (parse_uint 32 e))) (na_params c)"

definition show_contact :: "name_addr \<Rightarrow> string" where
  "show_contact c =
     (if uri_scheme (na_uri c) = Some (SchemeOther ''*'') then ''*'' else show_name_addr c)"

section \<open>Session-ID (RFC 7989)\<close>

definition nil_uuid :: string where
  "nil_uuid = replicate 32 CHR ''0''"

definition uuid_is_valid :: "string \<Rightarrow> bool" where
  "uuid_is_valid v \<longleftrightarrow> length v = 32 \<and> list_all is_ascii_hexdigit v"

text \<open>\<open>trim_start_matches\<close> with a string drops every leading copy of it.\<close>

fun trim_urn :: "nat \<Rightarrow> string \<Rightarrow> string" where
  "trim_urn 0 s = s"
| "trim_urn (Suc n) s = (case strip_prefix ''urn:uuid:'' s of Some r \<Rightarrow> trim_urn n r | None \<Rightarrow> s)"

definition undash :: "string \<Rightarrow> string" where
  "undash s = map to_ascii_lowercase (filter (\<lambda>c. c \<noteq> CHR ''-'') s)"

definition session_normalize :: "string \<Rightarrow> sip_error + string" where
  "session_normalize raw =
     (let v = undash (trim_urn (length raw) (trim raw)) in
      if \<not> uuid_is_valid v \<or> v = nil_uuid then Inl (ParseError (''invalid Session-ID uuid: '' @ raw)) else Inr v)"

definition param_uuid :: "string \<Rightarrow> string \<Rightarrow> string option" where
  "param_uuid part key =
     Option.bind (split_once (\<lambda>c. c = CHR ''='') part) (\<lambda>(k, v).
       if \<not> eq_ignore_ascii_case (trim k) key then None
       else (let u = undash (trim v) in if uuid_is_valid u then Some u else None))"

definition normalize_or_nil :: "string \<Rightarrow> string" where
  "normalize_or_nil raw =
     (let v = undash (trim_urn (length raw) (trim raw)) in if uuid_is_valid v then v else nil_uuid)"

definition session_from_local :: "string \<Rightarrow> sip_error + string" where
  "session_from_local lcl = and_then (session_normalize lcl) (\<lambda>l. Inr (l @ '';remote='' @ nil_uuid))"

definition session_from_pair :: "string \<Rightarrow> string \<Rightarrow> sip_error + string" where
  "session_from_pair lcl remote =
     and_then (session_normalize lcl) (\<lambda>l. Inr (l @ '';remote='' @ normalize_or_nil remote))"

definition local_uuid :: "string \<Rightarrow> string option" where
  "local_uuid v =
     (let u = undash (trim (hd (split_on (\<lambda>c. c = CHR '';'') v))) in
      if uuid_is_valid u \<and> u \<noteq> nil_uuid then Some u else None)"

fun remote_scan :: "string option \<Rightarrow> string list \<Rightarrow> string option" where
  "remote_scan legacy [] = (case legacy of Some v \<Rightarrow> if v \<noteq> nil_uuid then Some v else None | None \<Rightarrow> None)"
| "remote_scan legacy (p # ps) =
     (let part = trim p in
      if part = [] then remote_scan legacy ps
      else (case param_uuid part ''remote'' of
          Some v \<Rightarrow> if v \<noteq> nil_uuid then Some v else None
        | None \<Rightarrow>
            if CHR ''='' \<notin> set part \<and> uuid_is_valid (undash part) then remote_scan (Some (undash part)) ps
            else remote_scan legacy ps))"

definition remote_uuid :: "string \<Rightarrow> string option" where
  "remote_uuid v = remote_scan None (tl (split_on (\<lambda>c. c = CHR '';'') v))"

definition session_is_valid_header :: "string \<Rightarrow> bool" where
  "session_is_valid_header v \<longleftrightarrow> local_uuid v \<noteq> None"

end
