(* ===== verification/Uri_Roundtrip.thy ===== *)
theory Uri_Roundtrip
  imports Sip_Uri
begin

text \<open>
  Properties of \<open>sip/uri.rs\<close>: the accessors of \<open>ParamsExt\<close> behave as a keyed store (one
  locale for a kind of parameter, one for two kinds that do not interfere), and what
  \<open>Display\<close> prints for a well-formed parameter list, host or URI parses back to it.
\<close>

section \<open>Parameter kinds\<close>

locale param_kind =
  fixes get :: "param \<Rightarrow> 'v option"
    and mk :: "'v \<Rightarrow> param"
  assumes get_mk: "get (mk v) = Some v"
begin

lemma get_set: "find_map get (set_param (\<lambda>p. get p \<noteq> None) (mk v) ps) = Some v"
proof (cases "replace_first (\<lambda>p. get p \<noteq> None) (mk v) ps")
  case None
  then have "find_map get ps = None" by (auto simp: replace_first_None find_map_None)
  with None show ?thesis by (simp add: set_param_def find_map_append get_mk)
next
  case (Some qs)
  have "find_map get qs = Some v"
    by (rule find_map_replace_first [where p = "\<lambda>p. get p \<noteq> None"]) (use Some get_mk in auto)
  with Some show ?thesis by (simp add: set_param_def)
qed

lemma get_remove: "find_map get (filter (\<lambda>p. get p = None) ps) = None"
  by (simp add: find_map_None)

lemma replace_twice:
  "replace_first (\<lambda>p. get p \<noteq> None) (mk v) ps = Some qs \<Longrightarrow>
   replace_first (\<lambda>p. get p \<noteq> None) (mk w) qs = replace_first (\<lambda>p. get p \<noteq> None) (mk w) ps"
  by (induction ps arbitrary: qs) (auto simp: get_mk split: if_splits)

lemma set_set:
  "set_param (\<lambda>p. get p \<noteq> None) (mk w) (set_param (\<lambda>p. get p \<noteq> None) (mk v) ps)
   = set_param (\<lambda>p. get p \<noteq> None) (mk w) ps"
proof (cases "replace_first (\<lambda>p. get p \<noteq> None) (mk v) ps")
  case None
  then have "replace_first (\<lambda>p. get p \<noteq> None) (mk w) ps = None"
    and "replace_first (\<lambda>p. get p \<noteq> None) (mk w) (ps @ [mk v]) = Some (ps @ [mk w])"
    by (simp_all add: replace_first_None) (induction ps; simp add: get_mk)
  with None show ?thesis by (simp add: set_param_def)
next
  case (Some qs)
  have "replace_first (\<lambda>p. get p \<noteq> None) (mk w) ps \<noteq> None"
  proof
    assume "replace_first (\<lambda>p. get p \<noteq> None) (mk w) ps = None"
    then have "\<forall>x \<in> set ps. \<not> get x \<noteq> None" by (simp only: replace_first_None)
    then have "replace_first (\<lambda>p. get p \<noteq> None) (mk v) ps = None" by (simp only: replace_first_None)
    with Some show False by simp
  qed
  then obtain rs where "replace_first (\<lambda>p. get p \<noteq> None) (mk w) ps = Some rs" by blast
  with Some replace_twice [OF Some] show ?thesis by (simp add: set_param_def)
qed

end

text \<open>Two kinds no parameter belongs to both of: setting one leaves the other alone.\<close>

locale two_param_kinds = param_kind get mk + other: param_kind get' mk'
  for get :: "param \<Rightarrow> 'v option" and mk :: "'v \<Rightarrow> param"
    and get' :: "param \<Rightarrow> 'w option" and mk' :: "'w \<Rightarrow> param" +
  assumes disjoint: "get p \<noteq> None \<Longrightarrow> get' p = None"
begin

lemma other_replace:
  "replace_first (\<lambda>p. get p \<noteq> None) (mk v) ps = Some qs \<Longrightarrow> find_map get' qs = find_map get' ps"
  using disjoint get_mk by (induction ps arbitrary: qs) (fastforce split: if_splits option.splits)+

lemma frame: "find_map get' (set_param (\<lambda>p. get p \<noteq> None) (mk v) ps) = find_map get' ps"
proof (cases "replace_first (\<lambda>p. get p \<noteq> None) (mk v) ps")
  case None
  have "get' (mk v) = None" using disjoint get_mk by simp
  with None show ?thesis by (simp add: set_param_def find_map_append split: option.splits)
next
  case (Some qs)
  then show ?thesis by (simp add: set_param_def other_replace [OF Some])
qed

lemma frame_remove: "find_map get' (filter (\<lambda>p. get p = None) ps) = find_map get' ps"
  by (rule find_map_filter) (use disjoint in blast)

end

lemma kind_of_simps [simp]:
  "tag_of p = Some t \<longleftrightarrow> p = P_Tag t"
  "branch_of p = Some b \<longleftrightarrow> p = P_Branch b"
  "transport_of p = Some tr \<longleftrightarrow> p = P_Transport tr"
  "rport_of p = Some r \<longleftrightarrow> p = P_Rport r"
  "expires_of p = Some e \<longleftrightarrow> p = P_Expires e"
  by (cases p; simp; fail)+

interpretation tag_kind: param_kind tag_of P_Tag by unfold_locales simp
interpretation branch_kind: param_kind branch_of P_Branch by unfold_locales simp
interpretation transport_kind: param_kind transport_of P_Transport by unfold_locales simp
interpretation rport_kind: param_kind rport_of P_Rport by unfold_locales simp
interpretation expires_kind: param_kind expires_of P_Expires by unfold_locales simp
interpretation tag_branch: two_param_kinds tag_of P_Tag branch_of P_Branch by unfold_locales auto
interpretation branch_tag: two_param_kinds branch_of P_Branch tag_of P_Tag by unfold_locales auto
interpretation rport_branch: two_param_kinds rport_of P_Rport branch_of P_Branch by unfold_locales auto
interpretation transport_tag: two_param_kinds transport_of P_Transport tag_of P_Tag by unfold_locales auto

text \<open>\<open>set_tag\<close> stores the tag it is given: \<open>tag()\<close> then returns it, a second
  \<open>set_tag\<close> overwrites the first, and \<open>branch()\<close> still returns what it returned.\<close>

theorem set_tag_store:
  "params_tag (set_tag t ps) = Some t \<and> set_tag t' (set_tag t ps) = set_tag t' ps
   \<and> params_branch (set_tag t ps) = params_branch ps"
  unfolding params_tag_def params_branch_def set_tag_def
  by (intro conjI tag_kind.get_set tag_kind.set_set tag_branch.frame)

section \<open>Strings that survive printing and parsing\<close>

definition plain :: "string \<Rightarrow> string \<Rightarrow> bool" where
  "plain bad s \<longleftrightarrow> list_all (\<lambda>c. \<not> is_ws c \<and> c \<notin> set bad) s"

lemma plain_simps [simp]:
  "plain bad []" "plain bad (c # s) \<longleftrightarrow> \<not> is_ws c \<and> c \<notin> set bad \<and> plain bad s"
  "plain bad (s @ t) \<longleftrightarrow> plain bad s \<and> plain bad t"
  by (auto simp: plain_def)

lemma plainD: "plain bad s \<Longrightarrow> c \<in> set s \<Longrightarrow> \<not> is_ws c" "plain bad s \<Longrightarrow> c \<in> set bad \<Longrightarrow> c \<notin> set s"
  by (auto simp: plain_def list_all_iff)

lemma trim_plain: "plain bad s \<Longrightarrow> trim s = s"
  by (rule trim_no_ws) (rule plainD(1))

lemma plain_mono: "plain bad s \<Longrightarrow> set bad' \<subseteq> set bad \<Longrightarrow> plain bad' s"
  by (auto simp: plain_def list_all_iff)

lemma plain_show_nat: "(\<And>c. c \<in> set bad \<Longrightarrow> \<not> is_ascii_digit c) \<Longrightarrow> plain bad (show_nat n)"
  by (auto simp: plain_def list_all_iff dest: show_nat_digits show_nat_no_ws)

lemma trim_start_matches_plain: "c \<in> set bad \<Longrightarrow> plain bad s \<Longrightarrow> trim_start_matches (\<lambda>x. x = c) s = s"
  by (cases s) (auto simp: trim_start_matches_def)

lemma trim_end_matches_plain: "c \<in> set bad \<Longrightarrow> plain bad s \<Longrightarrow> trim_end_matches (\<lambda>x. x = c) s = s"
  by (cases s rule: rev_cases) (auto simp: trim_end_matches_def)

lemma split_once_plain: "c \<in> set bad \<Longrightarrow> plain bad a \<Longrightarrow> split_once (\<lambda>x. x = c) (a @ c # b) = Some (a, b)"
  by (rule split_once_hit) (auto dest: plainD)

lemma split_once_plain_None: "c \<in> set bad \<Longrightarrow> plain bad a \<Longrightarrow> split_once (\<lambda>x. x = c) a = None"
  by (rule split_once_miss) (auto dest: plainD)

section \<open>Parameters\<close>

definition reserved_with_value :: "string \<Rightarrow> bool" where
  "reserved_with_value n \<longleftrightarrow>
     list_ex (eq_ignore_ascii_case n)
       [''transport'', ''user'', ''method'', ''ttl'', ''maddr'', ''branch'', ''received'', ''tag'',
        ''expires'', ''q'', ''rport'']"

definition reserved_flag :: "string \<Rightarrow> bool" where
  "reserved_flag n \<longleftrightarrow> list_ex (eq_ignore_ascii_case n) [''lr'', ''ob'', ''rport'']"

fun param_wf :: "string \<Rightarrow> param \<Rightarrow> bool" where
  "param_wf bad (P_User v) = plain bad v"
| "param_wf bad (P_Ttl v) = plain bad v"
| "param_wf bad (P_Maddr v) = plain bad v"
| "param_wf bad (P_Rport (Some p)) = (p < 65536)"
| "param_wf bad (P_Branch v) = plain bad v"
| "param_wf bad (P_Received v) = plain bad v"
| "param_wf bad (P_Tag v) = plain bad v"
| "param_wf bad (P_Expires v) = plain bad v"
| "param_wf bad (P_Q v) = plain bad v"
| "param_wf bad (P_Other n (Some v)) = (plain (CHR ''='' # bad) n \<and> plain bad v \<and> \<not> reserved_with_value n)"
| "param_wf bad (P_Other n None) = (n \<noteq> [] \<and> plain (CHR ''='' # bad) n \<and> \<not> reserved_flag n)"
| "param_wf bad _ = True"

definition param_body :: "param \<Rightarrow> string" where
  "param_body p = tl (show_param p)"

lemma show_param_body: "show_param p = CHR '';'' # param_body p"
  by (cases p rule: show_param.cases) (simp_all add: param_body_def)

lemma param_body_nonempty: "param_wf bad p \<Longrightarrow> param_body p \<noteq> []"
  by (cases p rule: show_param.cases) (simp_all add: param_body_def)

text \<open>The sets of bad characters used: they hold the semicolon, no letter or digit, neither \<open>=\<close> nor \<open>-\<close>.\<close>

definition param_bad :: "string \<Rightarrow> bool" where
  "param_bad bad \<longleftrightarrow> CHR '';'' \<in> set bad \<and>
     list_all (\<lambda>c. \<not> is_ascii_alphanumeric c \<and> c \<noteq> CHR ''='' \<and> c \<noteq> CHR ''-'') bad"

definition name_char :: "char \<Rightarrow> bool" where
  "name_char c \<longleftrightarrow> (is_ascii_alphanumeric c \<or> c = CHR ''='' \<or> c = CHR ''-'') \<and> \<not> is_ws c"

lemma param_bad_semi: "param_bad bad \<Longrightarrow> CHR '';'' \<in> set bad"
  by (simp add: param_bad_def)

lemma plain_alnum:
  assumes "param_bad bad" and "list_all name_char s"
  shows "plain bad s"
  using assms by (auto simp: plain_def list_all_iff param_bad_def name_char_def)

lemma plain_name:
  assumes "param_bad bad"
  shows "plain bad ''transport=''" "plain bad ''user=''" "plain bad ''method=''" "plain bad ''ttl=''"
    "plain bad ''maddr=''" "plain bad ''lr''" "plain bad ''ob''" "plain bad ''rport''" "plain bad ''rport=''"
    "plain bad ''branch=''" "plain bad ''received=''" "plain bad ''tag=''" "plain bad ''expires=''"
    "plain bad ''q=''" "plain bad ''=''"
  by (rule plain_alnum [OF assms]; code_simp)+

lemma name_chars: "list_all (\<lambda>m. list_all name_char (show_method m)) all_methods"
  "list_all (\<lambda>t. list_all name_char (show_transport t)) [Udp, Tcp, Tls, TlsSctp, Sctp, Ws, Wss]"
  by code_simp+

lemma plain_transport: "param_bad bad \<Longrightarrow> plain bad (show_transport t)"
  using name_chars(2) by (elim plain_alnum) (cases t; simp)

lemma plain_method: "param_bad bad \<Longrightarrow> plain bad (show_method m)"
  using name_chars(1) all_methods_complete [of m] by (auto simp: list_all_iff intro: plain_alnum)

lemma plain_number: "param_bad bad \<Longrightarrow> plain bad (show_nat k)"
  by (rule plain_show_nat) (auto simp: is_ascii_alphanumeric_def param_bad_def list_all_iff)

lemma plain_body:
  assumes wf: "param_wf bad p" and bad: "param_bad bad"
  shows "plain bad (param_body p)"
proof -
  note names = plain_name [OF bad, simplified]
  have weaken: "plain bad n" if "plain (CHR ''='' # bad) n" for n
    using that by (rule plain_mono) auto
  show ?thesis
    using wf
    by (cases p rule: show_param.cases)
      (simp_all add: param_body_def names plain_transport [OF bad] plain_method [OF bad] plain_number [OF bad] weaken
        del: plain_simps(3) plain_simps(2) add: plain_simps(2,3))
qed

lemma reserved_simps:
  "\<not> reserved_with_value n \<Longrightarrow> param_try_from n (Some v) = Inr (P_Other n (Some v))"
  "\<not> reserved_flag n \<Longrightarrow> param_try_from n None = Inr (P_Other n None)"
  by (simp_all add: reserved_with_value_def reserved_flag_def param_try_from_def)

lemma param_try_from_names:
  "param_try_from ''transport'' (Some v) = and_then (parse_transport v) (\<lambda>t. Inr (P_Transport t))"
  "param_try_from ''user'' (Some v) = Inr (P_User v)"
  "param_try_from ''method'' (Some v) = and_then (parse_method v) (\<lambda>m. Inr (P_Method m))"
  "param_try_from ''ttl'' (Some v) = Inr (P_Ttl v)"
  "param_try_from ''maddr'' (Some v) = Inr (P_Maddr v)"
  "param_try_from ''branch'' (Some v) = Inr (P_Branch v)"
  "param_try_from ''received'' (Some v) = Inr (P_Received v)"
  "param_try_from ''tag'' (Some v) = Inr (P_Tag v)"
  "param_try_from ''expires'' (Some v) = Inr (P_Expires v)"
  "param_try_from ''q'' (Some v) = Inr (P_Q v)"
  "param_try_from ''rport'' (Some v) =
     and_then (map_err (\<lambda>_. ParseError (''invalid rport: '' @ v)) (parse_uint 16 v)) (\<lambda>port. Inr (P_Rport (Some port)))"
  "param_try_from ''lr'' None = Inr P_Lr"
  "param_try_from ''ob'' None = Inr P_Ob"
  "param_try_from ''rport'' None = Inr (P_Rport None)"
  by (simp_all add: param_try_from_def)

lemma parse_param_body:
  assumes wf: "param_wf bad p" and bad: "param_bad bad"
  shows "parse_param (param_body p) = Inr p"
proof -
  have "plain bad (param_body p)" using wf bad by (rule plain_body)
  moreover have "CHR '';'' \<in> set bad" using bad by (rule param_bad_semi)
  ultimately have tr: "trim (trim_start_matches (\<lambda>c. c = CHR '';'') (param_body p)) = param_body p"
    by (simp add: trim_start_matches_plain trim_plain [of bad])
  have other: "split_once (\<lambda>c. c = CHR ''='') (n @ CHR ''='' # v) = Some (n, v)"
    if "plain (CHR ''='' # bad) n" for n v
    using that by (rule split_once_plain [rotated]) simp
  have flag: "split_once (\<lambda>c. c = CHR ''='') n = None" if "plain (CHR ''='' # bad) n" for n
    using that by (rule split_once_plain_None [rotated]) simp
  show ?thesis
    unfolding parse_param_def tr Let_def
    using wf
    by (cases p rule: show_param.cases)
      (simp_all add: param_body_def param_try_from_names reserved_simps other flag)
qed

lemma split_params:
  assumes bad: "param_bad bad" and wf: "list_all (param_wf bad) ps" and a: "CHR '';'' \<notin> set a"
  shows "split_on (\<lambda>c. c = CHR '';'') (a @ show_params ps) = a # map param_body ps"
  using wf a
proof (induction ps arbitrary: a)
  case Nil
  then show ?case by (simp add: show_params_def) (rule split_on_none, auto)
next
  case (Cons p ps)
  have "CHR '';'' \<notin> set (param_body p)"
    using Cons.prems(1) plain_body [OF _ bad, of p] param_bad_semi [OF bad] plainD(2) by simp
  with Cons have "split_on (\<lambda>c. c = CHR '';'') (param_body p @ show_params ps) = param_body p # map param_body ps"
    by simp
  moreover have "a @ show_params (p # ps) = a @ CHR '';'' # (param_body p @ show_params ps)"
    by (simp add: show_params_def show_param_body)
  moreover have "split_on (\<lambda>c. c = CHR '';'') (a @ CHR '';'' # (param_body p @ show_params ps))
      = a # split_on (\<lambda>c. c = CHR '';'') (param_body p @ show_params ps)"
    by (rule split_on_hit) (use Cons.prems in auto)
  ultimately show ?case by simp
qed

lemma parse_param_parts_body:
  "param_bad bad \<Longrightarrow> list_all (param_wf bad) ps \<Longrightarrow> parse_param_parts (map param_body ps) = Inr ps"
proof (induction ps)
  case (Cons p ps)
  then have "plain bad (param_body p)" by (simp add: plain_body)
  then have "trim (param_body p) = param_body p" by (rule trim_plain)
  moreover have "param_body p \<noteq> []" and "parse_param (param_body p) = Inr p"
    using Cons.prems param_body_nonempty [of bad p] parse_param_body [of bad p] by simp_all
  ultimately show ?case using Cons by simp
qed simp

lemma parse_show_params:
  assumes "param_bad bad" and "list_all (param_wf bad) ps"
  shows "parse_params (show_params ps) = Inr ps"
proof (cases ps)
  case (Cons p qs)
  have "split_on (\<lambda>c. c = CHR '';'') (show_params ps) = [] # map param_body ps"
    using split_params [OF assms, of "[]"] by simp
  moreover have "show_params ps \<noteq> []" by (simp add: Cons show_params_def show_param_body)
  ultimately show ?thesis
    using parse_param_parts_body [OF assms] by (simp add: parse_params_def)
qed (simp add: parse_params_def show_params_def)

text \<open>Inside a URI the first semicolon has already been taken off.\<close>

lemma parse_show_params_tail:
  assumes "param_bad bad" and "list_all (param_wf bad) (p # ps)"
  shows "parse_params (param_body p @ show_params ps) = Inr (p # ps)"
proof -
  have "split_on (\<lambda>c. c = CHR '';'') (param_body p @ show_params ps) = param_body p # map param_body ps"
    using assms plain_body [of bad p] plainD(2) [of bad "param_body p"] param_bad_semi
    by (intro split_params) auto
  moreover have "param_body p \<noteq> []" using assms param_body_nonempty by auto
  ultimately show ?thesis
    using parse_param_parts_body [OF assms] by (simp add: parse_params_def)
qed

section \<open>Hosts\<close>

definition host_bad :: string where
  "host_bad = '':@;?[]<>''"

fun host_wf :: "host \<Rightarrow> bool" where
  "host_wf (Domain d) = (plain host_bad d \<and> parse_ip d = None)"
| "host_wf (IpAddr (V4 a b c d)) = (a < 256 \<and> b < 256 \<and> c < 256 \<and> d < 256)"
| "host_wf (IpAddr (V6 gs)) = False"

lemma dec_digit_char [simp]: "n < 10 \<Longrightarrow> dec_digit (digit_char n) = Some n"
  by (simp add: dec_digit_def)

lemma dec_digits_show: "takeWhile (\<lambda>c. dec_digit c \<noteq> None) (show_nat n @ r) =
    show_nat n @ takeWhile (\<lambda>c. dec_digit c \<noteq> None) r"
  by (rule takeWhile_append2) (simp add: dec_digit_def show_nat_digits)

lemma foldl_show_nat:
  "foldl (\<lambda>acc c. acc * 10 + the (dec_digit c)) 0 (show_nat n) = n"
proof (induction n rule: show_nat.induct)
  case (1 n)
  then show ?case by (cases "n < 10") (simp_all add: show_nat.simps [of n])
qed

lemma show_octet_shape: "n < 256 \<Longrightarrow> length (show_nat n) \<le> 3"
  by (simp add: show_nat.simps [of n] show_nat.simps [of "n div 10"] show_nat.simps [of "n div 10 div 10"])

lemma show_nat_leading: "hd (show_nat n) = CHR ''0'' \<Longrightarrow> length (show_nat n) = 1"
proof (induction n rule: show_nat.induct)
  case (1 n)
  show ?case
  proof (cases "n < 10")
    case False
    then have "hd (show_nat n) = hd (show_nat (n div 10))" by (simp add: show_nat.simps [of n])
    with 1 False have "length (show_nat (n div 10)) = 1" "hd (show_nat (n div 10)) = CHR ''0''" by simp_all
    then have "show_nat (n div 10) = ''0''" by (cases "show_nat (n div 10)") auto
    then have "foldl (\<lambda>acc c. acc * 10 + the (dec_digit c)) 0 (show_nat (n div 10)) = 0"
      by (simp add: dec_digit_def is_ascii_digit_def digit_val_def)
    with False show ?thesis by (simp add: foldl_show_nat)
  qed (simp add: show_nat.simps [of n])
qed

lemma read_octet_show:
  assumes "n < 256" and "r = [] \<or> \<not> is_ascii_digit (hd r)"
  shows "read_octet (show_nat n @ r) = Some (n, r)"
proof -
  have "takeWhile (\<lambda>c. dec_digit c \<noteq> None) r = []"
    using assms(2) by (cases r) (auto simp: dec_digit_def)
  then have "takeWhile (\<lambda>c. dec_digit c \<noteq> None) (show_nat n @ r) = show_nat n"
    unfolding dec_digits_show by (simp only: append_Nil2)
  then show ?thesis
    using assms(1) show_octet_shape [of n] show_nat_leading [of n]
    by (auto simp: read_octet_def read_number_def Let_def foldl_show_nat)
qed

lemma read_ipv4_show:
  assumes "a < 256" "b < 256" "c < 256" "d < 256"
  shows "read_ipv4 (show_ipv4 a b c d) = Some (a, b, c, d, [])"
proof -
  have dot: "\<not> is_ascii_digit CHR ''.''" by (simp add: is_ascii_digit_def)
  show ?thesis
    using assms read_octet_show [of d "[]"]
    by (simp add: read_ipv4_def show_ipv4_def read_octet_show dot read_char_def)
qed

lemma parse_show_ipv4:
  "a < 256 \<Longrightarrow> b < 256 \<Longrightarrow> c < 256 \<Longrightarrow> d < 256 \<Longrightarrow> parse_ip (show_ipv4 a b c d) = Some (V4 a b c d)"
  by (simp add: parse_ip_def read_ipv4_show)

lemma plain_show_ipv4: "plain host_bad (show_ipv4 a b c d)"
proof -
  have "plain host_bad (show_nat n)" for n
    by (rule plain_show_nat) (auto simp: host_bad_def is_ascii_digit_def)
  then show ?thesis by (simp add: show_ipv4_def host_bad_def is_ws_def)
qed

lemma plain_show_host: "host_wf h \<Longrightarrow> plain host_bad (show_host h)"
  by (cases h rule: host_wf.cases) (simp_all add: show_host_def plain_show_ipv4)

lemma parse_show_host: "host_wf h \<Longrightarrow> parse_host (show_host h) = Inr h"
proof (cases h rule: host_wf.cases)
  case (1 d)
  assume "host_wf h"
  with 1 have "trim d = d" and "parse_ip d = None" by (auto intro: trim_plain)
  with 1 show ?thesis by (simp add: show_host_def parse_host_def)
qed (simp_all add: show_host_def parse_host_def trim_plain [OF plain_show_ipv4] parse_show_ipv4)

definition hwp_wf :: "host_with_port \<Rightarrow> bool" where
  "hwp_wf h \<longleftrightarrow> host_wf (hwp_host h) \<and> (case hwp_port h of None \<Rightarrow> True | Some p \<Rightarrow> p < 65536)"

lemma host_bad_mem: "CHR '':'' \<in> set host_bad" "CHR ''@'' \<in> set host_bad" "CHR '';'' \<in> set host_bad"
  "CHR ''?'' \<in> set host_bad" "CHR ''['' \<in> set host_bad" "CHR ''<'' \<in> set host_bad" "CHR ''>'' \<in> set host_bad"
  by (simp_all add: host_bad_def)

lemma parse_hwp_plain:
  "(\<And>t. s \<noteq> CHR ''['' # t) \<Longrightarrow> parse_host_with_port s =
     (case rsplit_once (\<lambda>c. c = CHR '':'') s of
        Some (host_str, after) \<Rightarrow>
          if list_all is_ascii_digit after then
            and_then (map_err (\<lambda>_. ParseError (''invalid port: '' @ after)) (parse_uint 16 after)) (\<lambda>port.
            and_then (parse_host host_str) (\<lambda>h. Inr \<lparr>hwp_host = h, hwp_port = Some port\<rparr>))
          else and_then (parse_host s) (\<lambda>h. Inr \<lparr>hwp_host = h, hwp_port = None\<rparr>)
      | None \<Rightarrow> and_then (parse_host s) (\<lambda>h. Inr \<lparr>hwp_host = h, hwp_port = None\<rparr>))"
  unfolding parse_host_with_port_def Let_def
  by (cases s) (auto split: char.splits bool.splits)

lemma show_hwp_no_bracket: "hwp_wf h \<Longrightarrow> show_hwp h \<noteq> CHR ''['' # t"
proof
  assume wf: "hwp_wf h" and eq: "show_hwp h = CHR ''['' # t"
  then have pl: "plain host_bad (show_host (hwp_host h))" by (simp add: hwp_wf_def plain_show_host)
  with eq show False
    by (cases "show_host (hwp_host h)") (auto simp: show_hwp_def host_bad_def split: option.splits)
qed

lemma parse_show_hwp:
  assumes "hwp_wf h"
  shows "parse_host_with_port (show_hwp h) = Inr h"
proof -
  have host: "parse_host (show_host (hwp_host h)) = Inr (hwp_host h)"
    and pl: "plain host_bad (show_host (hwp_host h))"
    using assms by (simp_all add: hwp_wf_def parse_show_host plain_show_host)
  show ?thesis
  proof (cases "hwp_port h")
    case None
    have "rsplit_once (\<lambda>c. c = CHR '':'') (show_host (hwp_host h)) = None"
      by (rule rsplit_once_miss) (use plainD(2) [OF pl host_bad_mem(1)] in auto)
    moreover have "show_hwp h = show_host (hwp_host h)" by (simp add: show_hwp_def None)
    moreover have "show_hwp h \<noteq> CHR ''['' # t" for t using assms by (rule show_hwp_no_bracket)
    ultimately show ?thesis using None host by (subst parse_hwp_plain) simp_all
  next
    case (Some p)
    have "rsplit_once (\<lambda>c. c = CHR '':'') (show_host (hwp_host h) @ CHR '':'' # show_nat p)
        = Some (show_host (hwp_host h), show_nat p)"
      by (rule rsplit_once_hit) (auto dest: show_nat_digits simp: is_ascii_digit_def)
    moreover have "show_hwp h = show_host (hwp_host h) @ CHR '':'' # show_nat p"
      by (simp add: show_hwp_def Some)
    moreover have "list_all is_ascii_digit (show_nat p)" by (simp add: list_all_iff show_nat_digits)
    moreover have "p < 2 ^ 16" using assms Some by (simp add: hwp_wf_def)
    moreover have "show_hwp h \<noteq> CHR ''['' # t" for t using assms by (rule show_hwp_no_bracket)
    ultimately show ?thesis using Some host by (subst parse_hwp_plain) simp_all
  qed
qed

section \<open>URIs\<close>

definition uri_bad :: string where
  "uri_bad = '';?<>''"

definition user_char :: "char \<Rightarrow> bool" where
  "user_char c \<longleftrightarrow> is_ascii_alphanumeric c \<or> c \<in> set (''-_.!~*'' @ [CHR 0x27] @ ''()&=+$,/'')"

definition password_char :: "char \<Rightarrow> bool" where
  "password_char c \<longleftrightarrow> is_ascii_alphanumeric c \<or> c \<in> set (''-_.!~*'' @ [CHR 0x27] @ ''()&=+$,'')"

definition scheme_wf :: "scheme \<Rightarrow> bool" where
  "scheme_wf sc \<longleftrightarrow> list_all is_ascii_alphabetic (show_scheme sc) \<and> parse_scheme (show_scheme sc) = Inr sc"

definition auth_wf :: "auth \<Rightarrow> bool" where
  "auth_wf a \<longleftrightarrow> list_all user_char (auth_user a) \<and>
     (case auth_password a of None \<Rightarrow> True | Some p \<Rightarrow> list_all password_char p)"

definition uri_wf :: "uri \<Rightarrow> bool" where
  "uri_wf u \<longleftrightarrow>
     (case uri_scheme u of None \<Rightarrow> False | Some sc \<Rightarrow> scheme_wf sc) \<and>
     (case uri_auth u of None \<Rightarrow> True | Some a \<Rightarrow> auth_wf a) \<and>
     hwp_wf (uri_hwp u) \<and> list_all (param_wf uri_bad) (uri_params u) \<and>
     list_all (\<lambda>(k, v). plain ''&=<>'' k \<and> plain ''&<>'' v) (uri_headers u)"

lemma not_alphabetic:
  "is_ascii_alphabetic c \<Longrightarrow> c \<notin> set '' :@;?[]<>%''" "is_ascii_alphabetic c \<Longrightarrow> \<not> is_ws c"
proof -
  have "list_all (\<lambda>x. \<not> is_ascii_alphabetic x) '' :@;?[]<>%''" by code_simp
  then show "is_ascii_alphabetic c \<Longrightarrow> c \<notin> set '' :@;?[]<>%''" unfolding list_all_iff by blast
  have "list_all (\<lambda>x. \<not> is_ascii_alphabetic x) [CHR 0x20, CHR 0x09, CHR 0x0A, CHR 0x0B, CHR 0x0C, CHR 0x0D]"
    by code_simp
  then show "is_ascii_alphabetic c \<Longrightarrow> \<not> is_ws c" by (auto simp: is_ws_def)
qed

lemma not_user_char: "user_char c \<Longrightarrow> c \<notin> set '':@;?<>''" "user_char c \<Longrightarrow> \<not> is_ws c"
proof -
  have "list_all (\<lambda>x. \<not> user_char x) '':@;?<>''" by code_simp
  then show "user_char c \<Longrightarrow> c \<notin> set '':@;?<>''" unfolding list_all_iff by blast
  have "list_all (\<lambda>x. \<not> user_char x) [CHR 0x20, CHR 0x09, CHR 0x0A, CHR 0x0B, CHR 0x0C, CHR 0x0D]"
    by code_simp
  then show "user_char c \<Longrightarrow> \<not> is_ws c" by (auto simp: is_ws_def)
qed

lemma password_user_char: "password_char c \<Longrightarrow> user_char c"
  by (auto simp: password_char_def user_char_def)

lemma encode_user_id: "list_all user_char s \<Longrightarrow> percent_encode_user s = s"
  unfolding percent_encode_user_def by (induction s) (auto simp: user_char_def)

lemma encode_password_id: "list_all password_char s \<Longrightarrow> percent_encode_password s = s"
  unfolding percent_encode_password_def by (induction s) (auto simp: password_char_def)

lemma plain_user: "list_all user_char s \<Longrightarrow> plain '':@;?<>'' s"
  unfolding plain_def list_all_iff using not_user_char by blast

lemma plain_auth:
  assumes "auth_wf a"
  shows "plain uri_bad (show_auth a)"
proof -
  have user: "plain uri_bad s" if "list_all user_char s" for s
    using plain_user [OF that] by (rule plain_mono) (auto simp: uri_bad_def)
  have "plain uri_bad s" if "list_all password_char s" for s
    using that by (intro user) (auto simp: list_all_iff password_user_char)
  with user assms show ?thesis
    by (auto simp: show_auth_def auth_wf_def encode_user_id encode_password_id split: option.splits)
      (simp_all add: uri_bad_def is_ws_def)
qed

lemma auth_from_show:
  assumes "auth_wf a"
  shows "auth_from (show_auth a) = a"
proof (cases "auth_password a")
  case None
  with assms have "percent_encode_user (auth_user a) = auth_user a" and "plain '':@;?<>'' (auth_user a)"
    by (simp_all add: auth_wf_def encode_user_id plain_user)
  with None show ?thesis
    by (simp add: auth_from_def show_auth_def split_once_plain_None [where bad = "'':@;?<>''"])
next
  case (Some p)
  with assms have "percent_encode_user (auth_user a) = auth_user a" "percent_encode_password p = p"
    and "plain '':@;?<>'' (auth_user a)"
    by (simp_all add: auth_wf_def encode_user_id encode_password_id plain_user)
  with Some show ?thesis
    by (simp add: auth_from_def show_auth_def split_once_plain [where bad = "'':@;?<>''"])
qed

lemma plain_show_hwp: "hwp_wf h \<Longrightarrow> plain ''@;?<>'' (show_hwp h)"
proof -
  assume "hwp_wf h"
  then have "plain host_bad (show_host (hwp_host h))" by (simp add: hwp_wf_def plain_show_host)
  then have "plain ''@;?<>'' (show_host (hwp_host h))" by (rule plain_mono) (auto simp: host_bad_def)
  moreover have "plain ''@;?<>'' (show_nat n)" for n
    by (rule plain_show_nat) (auto simp: is_ascii_digit_def)
  ultimately show ?thesis by (simp add: show_hwp_def is_ws_def split: option.splits)
qed

lemma parse_show_headers:
  assumes "list_all (\<lambda>(k, v). plain ''&=<>'' k \<and> plain ''&<>'' v) hs" and "hs \<noteq> []"
  shows "map parse_uri_header (split_on (\<lambda>c. c = CHR ''&'') (join ''&'' (map (\<lambda>(k, v). k @ ''='' @ v) hs))) = hs"
  using assms
proof (induction hs rule: induct_list012)
  case (2 kv)
  obtain k v where kv: "kv = (k, v)" by (cases kv)
  with 2 have pl: "plain ''&=<>'' k" "plain ''&<>'' v" by simp_all
  have "split_on (\<lambda>c. c = CHR ''&'') (k @ CHR ''='' # v) = [k @ CHR ''='' # v]"
    by (rule split_on_none) (use plainD(2) [OF pl(1)] plainD(2) [OF pl(2)] in auto)
  moreover have "split_once (\<lambda>c. c = CHR ''='') (k @ CHR ''='' # v) = Some (k, v)"
    using pl(1) by (rule split_once_plain [rotated]) simp
  ultimately show ?case by (simp add: kv parse_uri_header_def)
next
  case (3 kv kv' hs)
  obtain k v where kv: "kv = (k, v)" by (cases kv)
  with 3 have pl: "plain ''&=<>'' k" "plain ''&<>'' v" by simp_all
  have "split_on (\<lambda>c. c = CHR ''&'') ((k @ CHR ''='' # v) @ CHR ''&'' # r)
      = (k @ CHR ''='' # v) # split_on (\<lambda>c. c = CHR ''&'') r" for r
    by (rule split_on_hit) (use plainD(2) [OF pl(1)] plainD(2) [OF pl(2)] in auto)
  moreover have "split_once (\<lambda>c. c = CHR ''='') (k @ CHR ''='' # v) = Some (k, v)"
    using pl(1) by (rule split_once_plain [rotated]) simp
  ultimately show ?case using 3 by (simp add: kv parse_uri_header_def)
qed simp

text \<open>The address part of a printed URI (up to the first semicolon) splits into scheme, user and host.\<close>

definition show_uri_address :: "scheme \<Rightarrow> auth option \<Rightarrow> host_with_port \<Rightarrow> string" where
  "show_uri_address sc a h =
     show_scheme sc @ CHR '':'' # (case a of Some a \<Rightarrow> show_auth a @ ''@'' | None \<Rightarrow> []) @ show_hwp h"

definition show_uri_headers :: "(string \<times> string) list \<Rightarrow> string" where
  "show_uri_headers hs = join ''&'' (map (\<lambda>(k, v). k @ ''='' @ v) hs)"

lemma plain_scheme: "scheme_wf sc \<Longrightarrow> plain '':@;?<>'' (show_scheme sc)"
  unfolding plain_def scheme_wf_def list_all_iff using not_alphabetic by fastforce

lemma plain_address:
  assumes "scheme_wf sc" and "case a of None \<Rightarrow> True | Some a \<Rightarrow> auth_wf a" and "hwp_wf h"
  shows "plain uri_bad (show_uri_address sc a h)"
proof -
  have "plain uri_bad (show_scheme sc)"
    using plain_scheme [OF assms(1)] by (rule plain_mono) (auto simp: uri_bad_def)
  moreover have "plain uri_bad (show_hwp h)"
    using plain_show_hwp [OF assms(3)] by (rule plain_mono) (auto simp: uri_bad_def)
  moreover have "plain uri_bad (show_auth b)" if "a = Some b" for b
    using assms(2) that by (simp add: plain_auth)
  moreover have "plain uri_bad '':''" "plain uri_bad ''@''" by code_simp+
  ultimately show ?thesis by (auto simp: show_uri_address_def split: option.splits)
qed

lemma user_host_split:
  assumes "case a of None \<Rightarrow> True | Some a \<Rightarrow> auth_wf a" and "hwp_wf h"
  shows "(case rsplit_once (\<lambda>c. c = CHR ''@'') ((case a of Some a \<Rightarrow> show_auth a @ ''@'' | None \<Rightarrow> []) @ show_hwp h) of
            Some (user, r) \<Rightarrow> (Some (auth_from user), r)
          | None \<Rightarrow> (None, (case a of Some a \<Rightarrow> show_auth a @ ''@'' | None \<Rightarrow> []) @ show_hwp h)) = (a, show_hwp h)"
proof -
  have at: "x \<in> set (show_hwp h) \<Longrightarrow> x \<noteq> CHR ''@''" for x
    using plainD(2) [OF plain_show_hwp [OF assms(2)], of "CHR ''@''"] by auto
  show ?thesis
  proof (cases a)
    case None
    have "rsplit_once (\<lambda>c. c = CHR ''@'') (show_hwp h) = None" by (rule rsplit_once_miss) (use at in auto)
    with None show ?thesis by simp
  next
    case (Some b)
    have "rsplit_once (\<lambda>c. c = CHR ''@'') (show_auth b @ CHR ''@'' # show_hwp h) = Some (show_auth b, show_hwp h)"
      by (rule rsplit_once_hit) (use at in auto)
    with Some assms(1) show ?thesis by (simp add: auth_from_show)
  qed
qed

lemma plain_params: "list_all (param_wf bad) ps \<Longrightarrow> param_bad bad \<Longrightarrow>
    \<forall>c \<in> set (show_params ps). \<not> is_ws c \<and> (c \<in> set bad \<longrightarrow> c = CHR '';'')"
proof (induction ps)
  case (Cons p ps)
  then have "plain bad (param_body p)" by (simp add: plain_body)
  moreover have "show_params (p # ps) = CHR '';'' # param_body p @ show_params ps"
    by (simp add: show_params_def show_param_body)
  ultimately show ?case
    using Cons.IH Cons.prems by (simp add: plain_def list_all_iff ball_Un) (simp add: is_ws_def)
qed (simp add: show_params_def)

lemma plain_headers:
  "list_all (\<lambda>(k, v). plain ''&=<>'' k \<and> plain ''&<>'' v) hs \<Longrightarrow> plain ''<>'' (show_uri_headers hs)"
proof (induction hs rule: induct_list012)
  case (2 kv)
  obtain k v where kv: "kv = (k, v)" by (cases kv)
  with 2 have "plain ''<>'' k" "plain ''<>'' v" by (auto elim!: plain_mono)
  then show ?case by (simp add: kv show_uri_headers_def is_ws_def)
next
  case (3 kv kv' hs)
  obtain k v where kv: "kv = (k, v)" by (cases kv)
  with 3 have "plain ''<>'' k" "plain ''<>'' v" by (auto elim!: plain_mono)
  with 3 show ?case by (simp add: kv show_uri_headers_def is_ws_def)
qed (simp add: show_uri_headers_def)

lemma plain_show_uri:
  assumes "uri_wf u"
  shows "plain ''<>'' (show_uri u)"
proof -
  obtain sc where sc: "uri_scheme u = Some sc" "scheme_wf sc"
    using assms by (auto simp: uri_wf_def split: option.splits)
  have wf: "case uri_auth u of None \<Rightarrow> True | Some a \<Rightarrow> auth_wf a" "hwp_wf (uri_hwp u)"
      "list_all (param_wf uri_bad) (uri_params u)"
      "list_all (\<lambda>(k, v). plain ''&=<>'' k \<and> plain ''&<>'' v) (uri_headers u)"
    using assms by (auto simp: uri_wf_def)
  have "plain ''<>'' (show_uri_address sc (uri_auth u) (uri_hwp u))"
    using plain_address [OF sc(2) wf(1,2)] by (rule plain_mono) (auto simp: uri_bad_def)
  moreover have "param_bad uri_bad" by code_simp
  then have "plain ''<>'' (show_params (uri_params u))"
    using plain_params [OF wf(3)] by (auto simp: plain_def list_all_iff uri_bad_def)
  moreover have "show_uri u = show_uri_address sc (uri_auth u) (uri_hwp u) @ show_params (uri_params u)
      @ (if uri_headers u = [] then [] else CHR ''?'' # show_uri_headers (uri_headers u))"
    by (simp add: show_uri_def show_uri_address_def show_uri_headers_def sc)
  ultimately show ?thesis using plain_headers [OF wf(4)] by (simp add: is_ws_def)
qed

lemma parse_show_uri:
  assumes "uri_wf u"
  shows "parse_uri (show_uri u) = Inr u"
proof -
  obtain sc where sc: "uri_scheme u = Some sc" "scheme_wf sc"
    using assms by (auto simp: uri_wf_def split: option.splits)
  define A where "A = show_uri_address sc (uri_auth u) (uri_hwp u)"
  define P where "P = show_params (uri_params u)"
  define H where "H = show_uri_headers (uri_headers u)"
  have bad: "param_bad uri_bad" by code_simp
  have wf: "case uri_auth u of None \<Rightarrow> True | Some a \<Rightarrow> auth_wf a" "hwp_wf (uri_hwp u)"
      "list_all (param_wf uri_bad) (uri_params u)"
      "list_all (\<lambda>(k, v). plain ''&=<>'' k \<and> plain ''&<>'' v) (uri_headers u)"
    using assms by (auto simp: uri_wf_def)
  have A: "plain uri_bad A" unfolding A_def using sc wf by (intro plain_address)
  note P = plain_params [OF wf(3) bad, folded P_def]
  have shown: "show_uri u = A @ P @ (if uri_headers u = [] then [] else CHR ''?'' # H)"
    by (simp add: show_uri_def A_def P_def H_def show_uri_address_def show_uri_headers_def sc)
  have all: "plain ''<>'' (show_uri u)" using assms by (rule plain_show_uri)
  have clean: "trim (trim_end_matches (\<lambda>c. c = CHR ''>'') (trim_start_matches (\<lambda>c. c = CHR ''<'') (trim (show_uri u)))) = show_uri u"
    using trim_plain [OF all] trim_start_matches_plain [OF _ all] trim_end_matches_plain [OF _ all] by simp
  have q: "x \<in> set (A @ P) \<Longrightarrow> x \<noteq> CHR ''?''" for x
    using P plainD(2) [OF A, of "CHR ''?''"] by (auto simp: uri_bad_def)
  have hdr: "split_once (\<lambda>c. c = CHR ''?'') (show_uri u)
      = (if uri_headers u = [] then None else Some (A @ P, H))"
    using split_once_miss [of "A @ P" "\<lambda>c. c = CHR ''?''"] q
      split_once_hit [of "\<lambda>c. c = CHR ''?''" "CHR ''?''" "A @ P" H] by (simp add: shown)
  have semi: "x \<in> set A \<Longrightarrow> x \<noteq> CHR '';''" for x
    using plainD(2) [OF A, of "CHR '';''"] by (auto simp: uri_bad_def)
  have prm: "(case split_once (\<lambda>c. c = CHR '';'') (A @ P) of Some (h, p) \<Rightarrow> (h, Some p) | None \<Rightarrow> (A @ P, None))
      = (A, if uri_params u = [] then None else Some (tl P))" and "parse_params (tl P) = Inr (uri_params u)"
    using split_once_miss [of A "\<lambda>c. c = CHR '';''"] semi split_once_hit [of "\<lambda>c. c = CHR '';''" "CHR '';''" A] wf(3)
      parse_show_params_tail [OF bad]
    by (cases "uri_params u"; simp add: P_def show_params_def show_param_body parse_params_def)+
  then have prms: "parse_params (unwrap_or (if uri_params u = [] then None else Some (tl P)) []) = Inr (uri_params u)"
    by (simp add: parse_params_def split: if_splits)
  have "x \<in> set (show_scheme sc) \<Longrightarrow> x \<noteq> CHR '':''" for x
    using plainD(2) [OF plain_scheme [OF sc(2)], of "CHR '':''"] by auto
  then have col: "split_once (\<lambda>c. c = CHR '':'') A = Some (show_scheme sc,
      (case uri_auth u of Some a \<Rightarrow> show_auth a @ ''@'' | None \<Rightarrow> []) @ show_hwp (uri_hwp u))"
    unfolding A_def show_uri_address_def by (intro split_once_hit) auto
  have hs: "(case (if uri_headers u = [] then None else Some H) of
      Some h \<Rightarrow> map parse_uri_header (split_on (\<lambda>c. c = CHR ''&'') h) | None \<Rightarrow> []) = uri_headers u"
    using parse_show_headers [OF wf(4)] by (simp add: H_def show_uri_headers_def)
  have "list_all is_ascii_alphabetic (show_scheme sc)" and "parse_scheme (show_scheme sc) = Inr sc"
    using sc(2) by (simp_all add: scheme_wf_def)
  moreover have "(case split_once (\<lambda>c. c = CHR ''?'') (show_uri u) of Some (m, h) \<Rightarrow> (m, Some h) | None \<Rightarrow> (show_uri u, None))
      = (A @ P, if uri_headers u = [] then None else Some H)"
    by (simp add: hdr) (simp add: shown)
  ultimately show ?thesis
    unfolding parse_uri_def Let_def clean
    by (simp only: split prm col option.case prod.case and_then_simps if_True user_host_split [OF wf(1,2)]
        parse_show_hwp [OF wf(2)] prms hs) (simp add: sc)
qed

text \<open>The example has a part of each kind: user and password, port, URI parameters, headers.\<close>

definition example_uri :: uri where
  "example_uri =
     \<lparr>uri_scheme = Some Sip, uri_auth = Some \<lparr>auth_user = ''alice'', auth_password = Some ''pw''\<rparr>,
      uri_hwp = \<lparr>hwp_host = IpAddr (V4 192 0 2 10), hwp_port = Some 5070\<rparr>,
      uri_params = [P_Transport Tcp, P_Lr, P_Rport (Some 5070), P_Other ''x'' (Some ''1'')],
      uri_headers = [(''Replaces'', ''abc''), (''X'', [])]\<rparr>"

lemma example_uri_wf: "uri_wf example_uri"
  by code_simp

text \<open>C36: \<open>Uri::try_from\<close> reads a URI back from its printed form, when it has an alphabetic
  scheme, a user made of characters \<open>Display\<close> leaves alone, an IPv4 or domain host, and
  well-formed parameters and header pairs.\<close>

theorem uri_roundtrip:
  assumes "uri_wf u"
  shows "uri_try_from (show_uri u) = Inr u"
  unfolding uri_try_from_def trim_plain [OF plain_show_uri [OF assms]] using assms by (rule parse_show_uri)

lemma uri_roundtrip_witness: "uri_try_from (show_uri example_uri) = Inr example_uri"
  by (rule uri_roundtrip [OF example_uri_wf])

end
