(* ===== verification/Typed_Roundtrip.thy ===== *)
theory Typed_Roundtrip
  imports Sip_Typed Uri_Roundtrip
begin

text \<open>
  Properties of the typed headers: what \<open>Display\<close> prints for a CSeq, a Via and a
  From/To/Route value parses back to it, tags set on a To are read back, the first value of a
  comma-separated Via is the one that is updated, and a Session-ID built from two UUIDs yields
  them again.
\<close>

section \<open>CSeq\<close>

lemma cseq_parse_show: "n < 2 ^ 32 \<Longrightarrow>
    cseq_typed (show_cseq \<lparr>cseq_seq = n, cseq_method = m\<rparr>) = Inr \<lparr>cseq_seq = n, cseq_method = m\<rparr>"
proof -
  assume n: "n < 2 ^ 32"
  have sp: "is_ws CHR 0x20" by (simp add: is_ws_def)
  have "trim (show_nat n @ CHR 0x20 # show_method m) = show_nat n @ CHR 0x20 # show_method m"
    using show_nat_no_ws [of "hd (show_nat n)" n] show_method_no_ws [of "last (show_method m)" m]
    by (intro trim_unchanged) simp
  moreover have "split_once is_ws (show_nat n @ CHR 0x20 # show_method m) = Some (show_nat n, show_method m)"
    using sp by (rule split_once_hit) (rule show_nat_no_ws)
  ultimately show ?thesis
    using n by (simp add: cseq_typed_def cseq_parse_def cseq_tokenize_def show_cseq_def)
qed

text \<open>A CSeq with a 32-bit sequence number parses back from its printed
  form, and \<open>mut_seq\<close> and \<open>mut_method\<close> change one field of the value and keep the other.\<close>

theorem cseq_roundtrip:
  assumes "n < 2 ^ 32" and "k < 2 ^ 32"
  shows "cseq_typed (show_cseq \<lparr>cseq_seq = n, cseq_method = m\<rparr>) = Inr \<lparr>cseq_seq = n, cseq_method = m\<rparr>
    \<and> and_then (cseq_mut_seq k (show_cseq \<lparr>cseq_seq = n, cseq_method = m\<rparr>)) cseq_typed
        = Inr \<lparr>cseq_seq = k, cseq_method = m\<rparr>
    \<and> and_then (cseq_mut_method m' (show_cseq \<lparr>cseq_seq = n, cseq_method = m\<rparr>)) cseq_typed
        = Inr \<lparr>cseq_seq = n, cseq_method = m'\<rparr>"
  using assms
  by (simp add: cseq_parse_show cseq_mut_seq_def cseq_mut_method_def)

lemma cseq_roundtrip_witness:
  "cseq_typed (show_cseq \<lparr>cseq_seq = 314159, cseq_method = Invite\<rparr>) = Inr \<lparr>cseq_seq = 314159, cseq_method = Invite\<rparr>
    \<and> and_then (cseq_mut_seq 7 (show_cseq \<lparr>cseq_seq = 314159, cseq_method = Invite\<rparr>)) cseq_typed
        = Inr \<lparr>cseq_seq = 7, cseq_method = Invite\<rparr>
    \<and> and_then (cseq_mut_method Ack (show_cseq \<lparr>cseq_seq = 314159, cseq_method = Invite\<rparr>)) cseq_typed
        = Inr \<lparr>cseq_seq = 314159, cseq_method = Ack\<rparr>"
  by (rule cseq_roundtrip) simp_all

section \<open>Name-addr values\<close>

definition display_wf :: "string \<Rightarrow> bool" where
  "display_wf d \<longleftrightarrow> d \<noteq> [] \<and> CHR ''<'' \<notin> set d \<and> CHR 0x22 \<notin> set d"

definition name_addr_wf :: "name_addr \<Rightarrow> bool" where
  "name_addr_wf n \<longleftrightarrow>
     (case na_display n of None \<Rightarrow> True | Some d \<Rightarrow> display_wf d) \<and>
     uri_wf (na_uri n) \<and> list_all (param_wf '';'') (na_params n)"

lemma semi_bad: "param_bad '';''"
  by code_simp

lemma show_params_no_ws: "list_all (param_wf '';'') ps \<Longrightarrow> c \<in> set (show_params ps) \<Longrightarrow> \<not> is_ws c"
  using plain_params [OF _ semi_bad] by blast

lemma trim_semi_params:
  assumes "list_all (param_wf '';'') ps"
  shows "parse_params (trim_start_matches (\<lambda>c. c = CHR '';'') (trim (show_params ps))) = Inr ps"
proof -
  have tr: "trim (show_params ps) = show_params ps"
    by (rule trim_no_ws) (rule show_params_no_ws [OF assms])
  show ?thesis
  proof (cases ps)
    case (Cons p qs)
    have "plain '';'' (param_body p)" and "param_body p \<noteq> []"
      using assms plain_body [of "'';''" p] semi_bad param_body_nonempty [of "'';''" p] by (simp_all add: Cons)
    then have "trim_start_matches (\<lambda>c. c = CHR '';'') (show_params ps) = param_body p @ show_params qs"
      by (cases "param_body p") (simp_all add: Cons show_params_def show_param_body trim_start_matches_def)
    moreover have "parse_params (param_body p @ show_params qs) = Inr (p # qs)"
      using assms by (intro parse_show_params_tail [OF semi_bad]) (simp add: Cons)
    ultimately show ?thesis using tr by (simp only: Cons)
  qed (simp add: show_params_def parse_params_def trim_start_matches_def)
qed

lemma trim_quoted: "trim (CHR 0x22 # d @ [CHR 0x22, CHR 0x20]) = CHR 0x22 # d @ [CHR 0x22]"
  by (simp add: trim_def trim_start_def trim_end_def is_ws_def)

lemma trim_matches_Nil: "trim_matches p [] = []"
  by (simp add: trim_matches_def trim_start_matches_def trim_end_matches_def)

lemma dropWhile_head: "(\<And>x. x \<in> set s \<Longrightarrow> \<not> p x) \<Longrightarrow> dropWhile p s = s"
  by (cases s) auto

lemma unquote:
  assumes "CHR 0x22 \<notin> set d"
  shows "trim_matches (\<lambda>c. c = CHR 0x22) (CHR 0x22 # d @ [CHR 0x22]) = d"
proof (cases d)
  case (Cons a b)
  with assms have "dropWhile (\<lambda>c. c = CHR 0x22) (rev d) = rev d" by (intro dropWhile_head) auto
  with Cons assms not_sym show ?thesis by (auto simp: trim_matches_def trim_start_matches_def trim_end_matches_def)
qed (simp add: trim_matches_def trim_start_matches_def trim_end_matches_def)

definition show_display :: "string option \<Rightarrow> string" where
  "show_display d = (case d of Some d \<Rightarrow> CHR 0x22 # d @ [CHR 0x22, CHR 0x20] | None \<Rightarrow> [])"

lemma show_name_addr_parts:
  "show_name_addr n =
     show_display (na_display n) @ CHR ''<'' # show_uri (na_uri n) @ CHR ''>'' # show_params (na_params n)"
  by (simp add: show_name_addr_def show_display_def split: option.splits)

lemma trim_show_name_addr:
  assumes "name_addr_wf n"
  shows "trim (show_name_addr n) = show_name_addr n"
proof -
  have "list_all (param_wf '';'') (na_params n)" using assms by (simp add: name_addr_wf_def)
  then have "\<not> is_ws (last (CHR ''>'' # show_params (na_params n)))"
    using show_params_no_ws [of "na_params n" "last (show_params (na_params n))"]
    by (cases "show_params (na_params n) = []") (simp_all add: is_ws_def)
  moreover have "last (show_name_addr n) = last (CHR ''>'' # show_params (na_params n))"
    by (simp add: show_name_addr_parts)
  moreover have "\<not> is_ws (hd (show_name_addr n))"
    by (simp add: show_name_addr_parts show_display_def is_ws_def split: option.splits)
  ultimately show ?thesis by (intro trim_unchanged) simp
qed

lemma parse_show_name_addr:
  assumes "name_addr_wf n"
  shows "parse_display_uri_params (show_name_addr n) = Inr n"
proof -
  have wf: "case na_display n of None \<Rightarrow> True | Some d \<Rightarrow> display_wf d" "uri_wf (na_uri n)"
      "list_all (param_wf '';'') (na_params n)"
    using assms by (simp_all add: name_addr_wf_def)
  have "split_once (\<lambda>c. c = CHR ''<'') (show_name_addr n)
      = Some (show_display (na_display n), show_uri (na_uri n) @ CHR ''>'' # show_params (na_params n))"
    unfolding show_name_addr_parts
    by (rule split_once_hit) (use wf(1) in \<open>auto simp: show_display_def display_wf_def split: option.splits\<close>)
  moreover have "split_once (\<lambda>c. c = CHR ''>'') (show_uri (na_uri n) @ CHR ''>'' # show_params (na_params n))
      = Some (show_uri (na_uri n), show_params (na_params n))"
    by (rule split_once_hit) (use plainD(2) [OF plain_show_uri [OF wf(2)], of "CHR ''>''"] in auto)
  moreover have "(if trim_matches (\<lambda>c. c = CHR 0x22) (trim (show_display (na_display n))) = [] then None
      else Some (trim_matches (\<lambda>c. c = CHR 0x22) (trim (show_display (na_display n))))) = na_display n"
    using wf(1) by (cases "na_display n")
      (simp_all add: show_display_def display_wf_def trim_quoted unquote trim_matches_Nil)
  ultimately show ?thesis
    unfolding parse_display_uri_params_def Let_def trim_show_name_addr [OF assms]
    by (simp only: option.case prod.case and_then_simps ok_or_simps parse_show_uri [OF wf(2)] trim_semi_params [OF wf(3)])
      simp
qed

text \<open>Setting the tag of a printed To value (\<open>mut_tag\<close>, \<open>with_tag\<close>) gives a
  value whose tag is the new one and whose URI is unchanged, whatever tag it carried.\<close>

theorem to_tag_set:
  assumes "name_addr_wf n" and "plain '';'' t"
  shows "to_mut_tag t (show_name_addr n) = Inr (to_with_tag t (show_name_addr n))
    \<and> to_tag (to_with_tag t (show_name_addr n)) = Inr (Some t)
    \<and> to_uri (to_with_tag t (show_name_addr n)) = Inr (na_uri n)"
proof -
  define n' where "n' = n\<lparr>na_params := filter (\<lambda>p. tag_of p = None) (na_params n) @ [P_Tag t]\<rparr>"
  have n': "name_addr_wf n'" using assms by (auto simp: n'_def name_addr_wf_def list_all_iff)
  have "find_map tag_of (filter (\<lambda>p. tag_of p = None) (na_params n)) = None" by (simp add: find_map_None)
  then have "params_tag (na_params n') = Some t"
    by (simp add: params_tag_def n'_def find_map_append)
  moreover have "to_with_tag t (show_name_addr n) = show_name_addr n'" and
      "to_mut_tag t (show_name_addr n) = Inr (show_name_addr n')"
    using assms(1)
    by (simp_all add: to_with_tag_def to_mut_tag_def to_parse_def trim_show_name_addr parse_show_name_addr n'_def)
  moreover have "na_uri n' = na_uri n" by (simp add: n'_def)
  ultimately show ?thesis
    using n' by (simp add: to_tag_def to_uri_def to_parse_def trim_show_name_addr parse_show_name_addr)
qed

definition example_to :: name_addr where
  "example_to = \<lparr>na_display = Some ''Bob B.'', na_uri = example_uri, na_params = [P_Tag ''old'', P_Other ''x'' None]\<rparr>"

lemma example_to_wf: "name_addr_wf example_to"
  using example_uri_wf by (simp add: name_addr_wf_def example_to_def display_wf_def reserved_flag_def is_ws_def)

lemma to_tag_set_witness:
  "to_mut_tag ''a1b2'' (show_name_addr example_to) = Inr (to_with_tag ''a1b2'' (show_name_addr example_to))
    \<and> to_tag (to_with_tag ''a1b2'' (show_name_addr example_to)) = Inr (Some ''a1b2'')
    \<and> to_uri (to_with_tag ''a1b2'' (show_name_addr example_to)) = Inr (na_uri example_to)"
  by (rule to_tag_set [OF example_to_wf]) code_simp

section \<open>Via\<close>

definition via_wf :: "typed_via \<Rightarrow> bool" where
  "via_wf v \<longleftrightarrow> via_version v = V2 \<and> via_uri v = uri_of_hwp (uri_hwp (via_uri v)) \<and>
     hwp_wf (uri_hwp (via_uri v)) \<and> show_hwp (uri_hwp (via_uri v)) \<noteq> [] \<and> list_all (param_wf '';'') (via_params v)"

lemma via_transport_no_ws: "c \<in> set (show_transport t) \<Longrightarrow> \<not> is_ws c"
  by (cases t) (auto simp: is_ws_def)

lemma via_address_no_ws:
  assumes "via_wf v" and "c \<in> set (show_hwp (uri_hwp (via_uri v)) @ show_params (via_params v))"
  shows "\<not> is_ws c"
proof -
  have "plain ''@;?<>'' (show_hwp (uri_hwp (via_uri v)))" and "list_all (param_wf '';'') (via_params v)"
    using assms(1) by (simp_all add: via_wf_def plain_show_hwp)
  then show ?thesis using assms(2) plainD(1) show_params_no_ws by auto
qed

lemma via_split_params:
  assumes "via_wf v"
  defines "h \<equiv> show_hwp (uri_hwp (via_uri v))" and "ps \<equiv> show_params (via_params v)"
  shows "(case split_once (\<lambda>c. c = CHR '';'') (h @ ps) of Some (a, p) \<Rightarrow> (trim a, Some p) | None \<Rightarrow> (h @ ps, None))
      = (h, if via_params v = [] then None else Some (tl ps))"
    and "parse_params (tl ps) = Inr (via_params v)"
proof -
  have pl: "plain ''@;?<>'' h" and wf: "list_all (param_wf '';'') (via_params v)"
    using assms(1) by (simp_all add: via_wf_def plain_show_hwp h_def)
  have h: "x \<in> set h \<Longrightarrow> x \<noteq> CHR '';''" for x using plainD(2) [OF pl, of "CHR '';''"] by auto
  have tr: "trim h = h" using pl by (rule trim_plain)
  show "parse_params (tl ps) = Inr (via_params v)"
    using wf parse_show_params_tail [OF semi_bad]
    by (cases "via_params v") (simp_all add: ps_def show_params_def show_param_body parse_params_def)
  show "(case split_once (\<lambda>c. c = CHR '';'') (h @ ps) of Some (a, p) \<Rightarrow> (trim a, Some p) | None \<Rightarrow> (h @ ps, None))
      = (h, if via_params v = [] then None else Some (tl ps))"
    using split_once_miss [of h "\<lambda>c. c = CHR '';''"] h split_once_hit [of "\<lambda>c. c = CHR '';''" "CHR '';''" h] tr
    by (cases "via_params v") (simp_all add: ps_def show_params_def show_param_body)
qed

lemma trim_show_via:
  assumes "via_wf v"
  shows "trim (show_via v) = show_via v"
proof -
  define a where "a = show_hwp (uri_hwp (via_uri v)) @ show_params (via_params v)"
  have "a \<noteq> []" using assms by (simp add: via_wf_def a_def)
  moreover have "\<not> is_ws (last a)"
    using via_address_no_ws [OF assms, of "last a"] \<open>a \<noteq> []\<close> unfolding a_def [symmetric] by simp
  moreover have "show_via v = CHR ''S'' # ''IP/2.0/'' @ show_transport (via_transport v) @ CHR 0x20 # a"
    by (simp add: show_via_def a_def)
  ultimately show ?thesis by (intro trim_unchanged) (simp add: is_ws_def)
qed

lemma via_parse_show:
  assumes "via_wf v"
  shows "via_parse (show_via v) = Inr v"
proof -
  define h where "h = show_hwp (uri_hwp (via_uri v))"
  define ps where "ps = show_params (via_params v)"
  define t where "t = show_transport (via_transport v)"
  note no_ws = via_address_no_ws [OF assms, folded h_def ps_def]
  have ne: "h \<noteq> []" using assms by (simp add: via_wf_def h_def)
  have shown: "show_via v = ''SIP'' @ CHR ''/'' # ''2.0'' @ CHR ''/'' # t @ CHR 0x20 # h @ ps"
    by (simp add: show_via_def t_def h_def ps_def)
  have t: "t \<noteq> []" "\<And>x. x \<in> set t \<Longrightarrow> \<not> is_ws x"
    using via_transport_no_ws by (auto simp: t_def) (cases "via_transport v"; simp)
  have last: "\<not> is_ws (last (h @ ps))" using ne by (intro no_ws last_in_set) simp
  then have tr: "trim (show_via v) = show_via v" "trim (t @ CHR 0x20 # h @ ps) = t @ CHR 0x20 # h @ ps"
    using t ne trim_show_via [OF assms] by (auto intro!: trim_unchanged)
  have sp: "split_once (\<lambda>c. c = CHR ''/'') (''SIP'' @ CHR ''/'' # r) = Some (''SIP'', r)"
    "split_once (\<lambda>c. c = CHR ''/'') (''2.0'' @ CHR ''/'' # r) = Some (''2.0'', r)" for r by simp_all
  have ws: "split_once is_ws (t @ CHR 0x20 # h @ ps) = Some (t, h @ ps)"
    using t(2) by (intro split_once_hit) (auto simp: is_ws_def)
  have trs: "trim t = t" "trim (h @ ps) = h @ ps" using t(2) no_ws by (auto intro: trim_no_ws)
  have hwp: "hwp_try_from h = Inr (uri_hwp (via_uri v))"
    using assms trim_plain [OF plain_show_hwp] by (simp add: hwp_try_from_def h_def via_wf_def parse_show_hwp)
  have pr: "(case (if via_params v = [] then None else Some (tl ps)) of Some p \<Rightarrow> parse_params p | None \<Rightarrow> Inr [])
      = Inr (via_params v)"
    using via_split_params(2) [OF assms, folded ps_def] by simp
  have eq: "\<lparr>via_version = V2, via_transport = via_transport v, via_uri = uri_of_hwp (uri_hwp (via_uri v)),
      via_params = via_params v\<rparr> = v"
    using assms by (simp add: via_wf_def)
  show ?thesis
    unfolding via_parse_def tr(1) unfolding shown
    by (simp only: sp ws tr(2) trs ok_or_simps and_then_simps prod.case t_def [symmetric] Let_def
        via_split_params(1) [OF assms, folded ps_def h_def] hwp pr eq)
      (simp add: t_def eq)
qed

lemma find_map_filter_kind: "(\<And>x. \<not> q x \<Longrightarrow> f x = None) \<Longrightarrow> find_map f (filter q xs) = find_map f xs"
  by (rule find_map_filter)

lemma stamp_kinds: "rport_of q \<noteq> None \<Longrightarrow> branch_of q = None" "received_of q \<noteq> None \<Longrightarrow> branch_of q = None"
    "rport_of q \<noteq> None \<Longrightarrow> received_of q = None"
  by (cases q; simp)+

text \<open>A Via parses back from its printed form, and stamping \<open>received\<close> and
  \<open>rport\<close> on it (what the transport does to a request's top Via) survives the wire and leaves
  the branch, the transport and the sent-by address as they were.\<close>

definition stamped :: "string \<Rightarrow> nat option \<Rightarrow> typed_via \<Rightarrow> typed_via" where
  "stamped r p v = via_with_rport p (via_with_received r v)"

theorem via_roundtrip:
  assumes "via_wf v" and "plain '';'' r" and "case p of None \<Rightarrow> True | Some k \<Rightarrow> k < 65536"
  shows "via_typed (show_via v) = Inr v
    \<and> via_typed (show_via (stamped r p v)) = Inr (stamped r p v)
    \<and> via_rport (stamped r p v) = Some p
    \<and> via_received (stamped r p v) = Some (ok_or (parse_ip r) addr_parse_error)
    \<and> via_branch (stamped r p v) = via_branch v
    \<and> via_transport (stamped r p v) = via_transport v \<and> via_sent_by (stamped r p v) = via_sent_by v"
proof -
  have st: "via_params (stamped r p v) =
      filter (\<lambda>q. rport_of q = None) (filter (\<lambda>q. received_of q = None) (via_params v) @ [P_Received r]) @ [P_Rport p]"
    by (simp add: stamped_def via_with_rport_def via_with_received_def)
  have "param_wf '';'' (P_Rport p)" using assms(3) by (cases p) simp_all
  then have "list_all (param_wf '';'') (via_params (stamped r p v))"
    using assms(1,2) by (auto simp: st via_wf_def list_all_iff)
  moreover have same: "via_uri (stamped r p v) = via_uri v" "via_version (stamped r p v) = via_version v"
      "via_transport (stamped r p v) = via_transport v"
    by (simp_all add: stamped_def via_with_rport_def via_with_received_def)
  ultimately have "via_wf (stamped r p v)" using assms(1) by (simp add: via_wf_def)
  moreover have "via_rport (stamped r p v) = Some p"
    by (simp add: via_rport_def st find_map_append find_map_None [THEN iffD2])
  moreover have "via_branch (stamped r p v) = via_branch v"
  proof -
    have "find_map branch_of (filter (\<lambda>q. rport_of q = None) xs) = find_map branch_of xs"
      and "find_map branch_of (filter (\<lambda>q. received_of q = None) xs) = find_map branch_of xs" for xs
      by (rule find_map_filter_kind, use stamp_kinds in blast)+
    then show ?thesis
      unfolding via_branch_def st find_map_append by (simp add: find_map_append del: filter_append split: option.splits)
  qed
  moreover have "via_received (stamped r p v) = Some (ok_or (parse_ip r) addr_parse_error)"
    unfolding via_received_def st find_map_append
    by (simp add: find_map_filter_kind stamp_kinds find_map_append find_map_None [THEN iffD2])
  ultimately show ?thesis
    using assms(1) same
    by (simp add: via_typed_def via_sent_by_def trim_show_via via_parse_show)
qed

definition example_via :: typed_via where
  "example_via =
     \<lparr>via_version = V2, via_transport = Udp,
      via_uri = uri_of_hwp \<lparr>hwp_host = Domain ''client.example.com'', hwp_port = Some 5060\<rparr>,
      via_params = [P_Branch ''z9hG4bK-1'', P_Rport None]\<rparr>"

lemma example_via_wf: "via_wf example_via"
  by code_simp

lemma via_roundtrip_witness:
  "via_typed (show_via example_via) = Inr example_via
    \<and> via_typed (show_via (stamped ''192.0.2.7'' (Some 40000) example_via)) = Inr (stamped ''192.0.2.7'' (Some 40000) example_via)
    \<and> via_rport (stamped ''192.0.2.7'' (Some 40000) example_via) = Some (Some 40000)
    \<and> via_received (stamped ''192.0.2.7'' (Some 40000) example_via) = Some (ok_or (parse_ip ''192.0.2.7'') addr_parse_error)
    \<and> via_branch (stamped ''192.0.2.7'' (Some 40000) example_via) = via_branch example_via
    \<and> via_transport (stamped ''192.0.2.7'' (Some 40000) example_via) = via_transport example_via
    \<and> via_sent_by (stamped ''192.0.2.7'' (Some 40000) example_via) = via_sent_by example_via"
  by (rule via_roundtrip [OF example_via_wf]) (code_simp+)

section \<open>The first value of a Via line\<close>

lemma via_scan_plain:
  "CHR '','' \<notin> set s \<Longrightarrow> CHR 0x22 \<notin> set s \<Longrightarrow>
   via_scan False False (s @ r) = map_option (\<lambda>(a, x). (s @ a, x)) (via_scan False False r)"
  by (cases "via_scan False False r"; induction s) auto

lemma via_scan_Some: "via_scan q e s = Some (a, Some r) \<Longrightarrow> s = a @ r \<and> (\<exists>r'. r = CHR '','' # r')"
  by (induction s arbitrary: q e a) (auto split: if_splits)

lemma trim_last: "trim s = x @ [c] \<Longrightarrow> \<not> is_ws c"
proof -
  assume eq: "trim s = x @ [c]"
  then have "dropWhile is_ws (rev (trim_start s)) = c # rev x"
    by (simp add: trim_def trim_end_def rev_swap)
  then show ?thesis by (metis hd_dropWhile list.distinct(1) list.sel(1))
qed

lemma trim_hd: "trim s = c # x \<Longrightarrow> \<not> is_ws c"
proof -
  assume eq: "trim s = c # x"
  obtain t where t: "trim_start s = trim s @ t"
    by (metis trim_def trim_end_def rev_append rev_rev_ident takeWhile_dropWhile_id)
  with eq have "dropWhile is_ws s = c # x @ t" by (simp add: trim_start_def)
  then show ?thesis by (metis hd_dropWhile list.distinct(1) list.sel(1))
qed

text \<open>When a Via line has a first value, replacing it puts the new
  value in front of the untouched rest of the line, and it is the new first value.\<close>

theorem update_first_value_spec:
  assumes "first_value_split (trim v) = Inr (f, rest)" and "f \<noteq> []"
    and "g \<noteq> []" "trim g = g" "CHR '','' \<notin> set g" "CHR 0x22 \<notin> set g"
  shows "first_value v = Inr f
    \<and> update_first_value (\<lambda>x. if x = f then Inr g else Inl e) v = Inr (g @ unwrap_or rest [])
    \<and> first_value (g @ unwrap_or rest []) = Inr g"
proof -
  have "first_value (g @ unwrap_or rest []) = Inr g"
  proof (cases rest)
    case None
    with assms show ?thesis
      using via_scan_plain [of g "[]"] by (simp add: first_value_def first_value_split_def)
  next
    case (Some r)
    with assms(1) obtain a where "via_scan False False (trim v) = Some (a, Some r)"
      by (auto simp: first_value_split_def split: if_splits option.splits)
    then obtain r' where r: "trim v = a @ r" "r = CHR '','' # r'" using via_scan_Some by blast
    then have "trim v = (a @ butlast r) @ [last r]" by simp
    then have "\<not> is_ws (last r)" by (rule trim_last)
    moreover have "\<not> is_ws (hd g)"
      using assms(3,4) trim_hd [of g] by (cases g) auto
    ultimately have "trim (g @ r) = g @ r" using assms(3) r(2) by (intro trim_unchanged) auto
    moreover have "via_scan False False (g @ r) = Some (g, Some r)"
      using assms(5,6) r(2) by (simp add: via_scan_plain)
    ultimately show ?thesis
      using Some assms(3,4) by (simp add: first_value_def first_value_split_def)
  qed
  with assms show ?thesis
    by (cases rest) (simp_all add: first_value_def update_first_value_def)
qed

lemma update_first_value_spec_witness:
  "first_value ''SIP/2.0/UDP a;x=1 , SIP/2.0/TCP b'' = Inr ''SIP/2.0/UDP a;x=1''
    \<and> update_first_value (\<lambda>x. if x = ''SIP/2.0/UDP a;x=1'' then Inr ''SIP/2.0/UDP c'' else Inl (ParseError []))
        ''SIP/2.0/UDP a;x=1 , SIP/2.0/TCP b'' = Inr (''SIP/2.0/UDP c'' @ unwrap_or (Some '', SIP/2.0/TCP b'') [])
    \<and> first_value (''SIP/2.0/UDP c'' @ unwrap_or (Some '', SIP/2.0/TCP b'') []) = Inr ''SIP/2.0/UDP c''"
  by (rule update_first_value_spec) (code_simp+)

section \<open>Session-ID\<close>

lemma hexdigit_facts:
  "is_ascii_hexdigit c \<Longrightarrow> \<not> is_ws c" "is_ascii_hexdigit c \<Longrightarrow> c \<notin> set '';=-''"
  by (auto simp: is_ascii_hexdigit_def is_ws_def)

lemma lowercase_idem: "to_ascii_lowercase (to_ascii_lowercase c) = to_ascii_lowercase c"
  by (cases c) simp

lemma undash_idem: "undash (undash s) = undash s" if "uuid_is_valid (undash s)"
proof -
  have "filter (\<lambda>c. c \<noteq> CHR ''-'') (undash s) = undash s"
    using that hexdigit_facts(2) by (intro filter_True) (auto simp: uuid_is_valid_def list_all_iff)
  then show ?thesis by (simp add: undash_def lowercase_idem)
qed

lemma valid_plain: "uuid_is_valid v \<Longrightarrow> plain '';=-'' v"
  unfolding uuid_is_valid_def plain_def list_all_iff using hexdigit_facts by auto

text \<open>A Session-ID built from two UUIDs yields the normalized local
  UUID and, unless it is the nil UUID that stands for an unknown peer, the normalized remote one.\<close>

theorem session_pair_roundtrip:
  assumes "session_from_pair lcl remote = Inr v"
  shows "session_normalize lcl = Inr (the (local_uuid v)) \<and> session_is_valid_header v
    \<and> remote_uuid v = (if normalize_or_nil remote = nil_uuid then None else Some (normalize_or_nil remote))"
proof -
  obtain l where l: "session_normalize lcl = Inr l" and v: "v = l @ '';remote='' @ normalize_or_nil remote"
    using assms by (auto simp: session_from_pair_def and_then_eq_Inr)
  define r where "r = normalize_or_nil remote"
  have nil: "uuid_is_valid nil_uuid" "undash nil_uuid = nil_uuid" by code_simp+
  have lv: "uuid_is_valid l" "undash l = l" "l \<noteq> nil_uuid"
    using l undash_idem by (auto simp: session_normalize_def Let_def split: if_splits)
  have rv: "uuid_is_valid r" "undash r = r"
    using undash_idem nil by (auto simp: r_def normalize_or_nil_def Let_def)
  have sp: "split_on (\<lambda>c. c = CHR '';'') v = [l, ''remote='' @ r]"
  proof -
    have "split_on (\<lambda>c. c = CHR '';'') v = l # split_on (\<lambda>c. c = CHR '';'') (''remote='' @ r)"
      unfolding v r_def [symmetric] append_Cons append_Nil
      by (rule split_on_hit) (use plainD(2) [OF valid_plain [OF lv(1)], of "CHR '';''"] in auto)
    moreover have "split_on (\<lambda>c. c = CHR '';'') (''remote='' @ r) = [''remote='' @ r]"
      by (rule split_on_none) (use plainD(2) [OF valid_plain [OF rv(1)], of "CHR '';''"] in auto)
    ultimately show ?thesis by simp
  qed
  have tr: "trim l = l" "trim r = r" "trim (''remote='' @ r) = ''remote='' @ r"
  proof -
    show "trim l = l" "trim r = r" using lv rv trim_plain valid_plain by blast+
    show "trim (''remote='' @ r) = ''remote='' @ r"
      using plainD(1) [OF valid_plain [OF rv(1)]] by (intro trim_no_ws) (auto simp: is_ws_def)
  qed
  have "param_uuid (''remote='' @ r) ''remote'' = Some r"
  proof -
    have "split_once (\<lambda>c. c = CHR ''='') (''remote='' @ r) = Some (''remote'', r)" by simp
    moreover have "trim ''remote'' = ''remote''" by code_simp
    ultimately show ?thesis
      using rv tr(2) unfolding param_uuid_def by (simp only: bind.bind_lunit prod.case) simp
  qed
  then have "remote_uuid v = (if r = nil_uuid then None else Some r)"
    unfolding remote_uuid_def sp using tr by simp
  moreover have "local_uuid v = Some l" unfolding local_uuid_def sp using lv tr by simp
  ultimately show ?thesis by (simp add: l r_def session_is_valid_header_def)
qed

lemma session_pair_roundtrip_witness:
  "session_normalize ''AB30317F-1A78-4DC4-8FF8-24D0D3715D86'' =
     Inr (the (local_uuid ''ab30317f1a784dc48ff824d0d3715d86;remote=47755a9de7794ba387653f2099600ef2''))
   \<and> session_is_valid_header ''ab30317f1a784dc48ff824d0d3715d86;remote=47755a9de7794ba387653f2099600ef2''
   \<and> remote_uuid ''ab30317f1a784dc48ff824d0d3715d86;remote=47755a9de7794ba387653f2099600ef2'' =
      (if normalize_or_nil ''47755a9de7794ba387653f2099600ef2'' = nil_uuid then None
       else Some (normalize_or_nil ''47755a9de7794ba387653f2099600ef2''))"
  by (rule session_pair_roundtrip) code_simp

end
