(* ===== verification/Sip_Status.thy ===== *)
theory Sip_Status
  imports Sip_Basics
begin

text \<open>
  The status codes of \<open>sip/status_code.rs\<close>: the enumeration, its number, kind and reason
  phrase, and the table \<open>from_code\<close> back; the lemmas say the two tables are inverse.
\<close>

section \<open>Status codes (sip/status_code.rs)\<close>

text \<open>A \<open>u16\<close> code is a \<open>nat\<close>; only codes parsed as 16-bit numbers reach \<open>SC_Other\<close>.\<close>

datatype (plugins only: code size) status_code =
    SC_Trying | SC_Ringing | SC_CallIsBeingForwarded | SC_Queued | SC_SessionProgress
    | SC_EarlyDialogTerminated | SC_OK | SC_Accepted | SC_NoNotification | SC_MultipleChoices
    | SC_MovedPermanently | SC_MovedTemporarily | SC_UseProxy | SC_AlternativeService | SC_BadRequest
    | SC_Unauthorized | SC_PaymentRequired | SC_Forbidden | SC_NotFound | SC_MethodNotAllowed
    | SC_NotAcceptable | SC_ProxyAuthenticationRequired | SC_RequestTimeout | SC_Conflict | SC_Gone
    | SC_LengthRequired | SC_ConditionalRequestFailed | SC_RequestEntityTooLarge | SC_RequestUriTooLong
    | SC_UnsupportedMediaType | SC_UnsupportedUriScheme | SC_UnknownResourcePriority | SC_BadExtension
    | SC_ExtensionRequired | SC_SessionIntervalTooSmall | SC_IntervalTooBrief | SC_BadLocationInformation
    | SC_UseIdentityHeader | SC_ProvideReferrerIdentity | SC_AnonymityDisallowed | SC_BadIdentityInfo
    | SC_UnsupportedCertificate | SC_InvalidIdentityHeader | SC_FirstHopLacksOutboundSupport
    | SC_MaxBreadthExceeded | SC_BadInfoPackage | SC_ConsentNeeded | SC_TemporarilyUnavailable
    | SC_CallTransactionDoesNotExist | SC_LoopDetected | SC_TooManyHops | SC_AddressIncomplete
    | SC_Ambiguous | SC_BusyHere | SC_RequestTerminated | SC_NotAcceptableHere | SC_BadEvent
    | SC_RequestPending | SC_Undecipherable | SC_SecurityAgreementRequired | SC_ServerInternalError
    | SC_NotImplemented | SC_BadGateway | SC_ServiceUnavailable | SC_ServerTimeOut | SC_VersionNotSupported
    | SC_MessageTooLarge | SC_PreconditionFailure | SC_BusyEverywhere | SC_Decline | SC_DoesNotExistAnywhere
    | SC_NotAcceptableGlobal | SC_Unwanted | SC_Other nat string

primrec status_code_code :: "status_code \<Rightarrow> nat" where
  "status_code_code SC_Trying = 100"
| "status_code_code SC_Ringing = 180"
| "status_code_code SC_CallIsBeingForwarded = 181"
| "status_code_code SC_Queued = 182"
| "status_code_code SC_SessionProgress = 183"
| "status_code_code SC_EarlyDialogTerminated = 199"
| "status_code_code SC_OK = 200"
| "status_code_code SC_Accepted = 202"
| "status_code_code SC_NoNotification = 204"
| "status_code_code SC_MultipleChoices = 300"
| "status_code_code SC_MovedPermanently = 301"
| "status_code_code SC_MovedTemporarily = 302"
| "status_code_code SC_UseProxy = 305"
| "status_code_code SC_AlternativeService = 380"
| "status_code_code SC_BadRequest = 400"
| "status_code_code SC_Unauthorized = 401"
| "status_code_code SC_PaymentRequired = 402"
| "status_code_code SC_Forbidden = 403"
| "status_code_code SC_NotFound = 404"
| "status_code_code SC_MethodNotAllowed = 405"
| "status_code_code SC_NotAcceptable = 406"
| "status_code_code SC_ProxyAuthenticationRequired = 407"
| "status_code_code SC_RequestTimeout = 408"
| "status_code_code SC_Conflict = 409"
| "status_code_code SC_Gone = 410"
| "status_code_code SC_LengthRequired = 411"
| "status_code_code SC_ConditionalRequestFailed = 412"
| "status_code_code SC_RequestEntityTooLarge = 413"
| "status_code_code SC_RequestUriTooLong = 414"
| "status_code_code SC_UnsupportedMediaType = 415"
| "status_code_code SC_UnsupportedUriScheme = 416"
| "status_code_code SC_UnknownResourcePriority = 417"
| "status_code_code SC_BadExtension = 420"
| "status_code_code SC_ExtensionRequired = 421"
| "status_code_code SC_SessionIntervalTooSmall = 422"
| "status_code_code SC_IntervalTooBrief = 423"
| "status_code_code SC_BadLocationInformation = 424"
| "status_code_code SC_UseIdentityHeader = 428"
| "status_code_code SC_ProvideReferrerIdentity = 429"
| "status_code_code SC_AnonymityDisallowed = 433"
| "status_code_code SC_BadIdentityInfo = 436"
| "status_code_code SC_UnsupportedCertificate = 437"
| "status_code_code SC_InvalidIdentityHeader = 438"
| "status_code_code SC_FirstHopLacksOutboundSupport = 439"
| "status_code_code SC_MaxBreadthExceeded = 440"
| "status_code_code SC_BadInfoPackage = 469"
| "status_code_code SC_ConsentNeeded = 470"
| "status_code_code SC_TemporarilyUnavailable = 480"
| "status_code_code SC_CallTransactionDoesNotExist = 481"
| "status_code_code SC_LoopDetected = 482"
| "status_code_code SC_TooManyHops = 483"
| "status_code_code SC_AddressIncomplete = 484"
| "status_code_code SC_Ambiguous = 485"
| "status_code_code SC_BusyHere = 486"
| "status_code_code SC_RequestTerminated = 487"
| "status_code_code SC_NotAcceptableHere = 488"
| "status_code_code SC_BadEvent = 489"
| "status_code_code SC_RequestPending = 491"
| "status_code_code SC_Undecipherable = 493"
| "status_code_code SC_SecurityAgreementRequired = 494"
| "status_code_code SC_ServerInternalError = 500"
| "status_code_code SC_NotImplemented = 501"
| "status_code_code SC_BadGateway = 502"
| "status_code_code SC_ServiceUnavailable = 503"
| "status_code_code SC_ServerTimeOut = 504"
| "status_code_code SC_VersionNotSupported = 505"
| "status_code_code SC_MessageTooLarge = 513"
| "status_code_code SC_PreconditionFailure = 580"
| "status_code_code SC_BusyEverywhere = 600"
| "status_code_code SC_Decline = 603"
| "status_code_code SC_DoesNotExistAnywhere = 604"
| "status_code_code SC_NotAcceptableGlobal = 606"
| "status_code_code SC_Unwanted = 607"
| "status_code_code (SC_Other code reason) = code"

datatype status_code_kind =
    Provisional | Successful | Redirection | RequestFailure | ServerFailure | GlobalFailure | OtherKind

definition code_kind :: "nat \<Rightarrow> status_code_kind" where
  "code_kind code =
     (if 100 \<le> code \<and> code \<le> 199 then Provisional
      else if 200 \<le> code \<and> code \<le> 299 then Successful
      else if 300 \<le> code \<and> code \<le> 399 then Redirection
      else if 400 \<le> code \<and> code \<le> 499 then RequestFailure
      else if 500 \<le> code \<and> code \<le> 599 then ServerFailure
      else if 600 \<le> code \<and> code \<le> 699 then GlobalFailure
      else OtherKind)"

definition status_code_kind :: "status_code \<Rightarrow> status_code_kind" where
  "status_code_kind s = code_kind (status_code_code s)"

primrec status_code_text :: "status_code \<Rightarrow> string" where
  "status_code_text SC_Trying = ''Trying''"
| "status_code_text SC_Ringing = ''Ringing''"
| "status_code_text SC_CallIsBeingForwarded = ''Call Is Being Forwarded''"
| "status_code_text SC_Queued = ''Queued''"
| "status_code_text SC_SessionProgress = ''Session Progress''"
| "status_code_text SC_EarlyDialogTerminated = ''Early Dialog Terminated''"
| "status_code_text SC_OK = ''OK''"
| "status_code_text SC_Accepted = ''Accepted''"
| "status_code_text SC_NoNotification = ''No Notification''"
| "status_code_text SC_MultipleChoices = ''Multiple Choices''"
| "status_code_text SC_MovedPermanently = ''Moved Permanently''"
| "status_code_text SC_MovedTemporarily = ''Moved Temporarily''"
| "status_code_text SC_UseProxy = ''Use Proxy''"
| "status_code_text SC_AlternativeService = ''Alternative Service''"
| "status_code_text SC_BadRequest = ''Bad Request''"
| "status_code_text SC_Unauthorized = ''Unauthorized''"
| "status_code_text SC_PaymentRequired = ''Payment Required''"
| "status_code_text SC_Forbidden = ''Forbidden''"
| "status_code_text SC_NotFound = ''Not Found''"
| "status_code_text SC_MethodNotAllowed = ''Method Not Allowed''"
| "status_code_text SC_NotAcceptable = ''Not Acceptable''"
| "status_code_text SC_ProxyAuthenticationRequired = ''Proxy Authentication Required''"
| "status_code_text SC_RequestTimeout = ''Request Timeout''"
| "status_code_text SC_Conflict = ''Conflict''"
| "status_code_text SC_Gone = ''Gone''"
| "status_code_text SC_LengthRequired = ''Length Required''"
| "status_code_text SC_ConditionalRequestFailed = ''Conditional Request Failed''"
| "status_code_text SC_RequestEntityTooLarge = ''Request Entity Too Large''"
| "status_code_text SC_RequestUriTooLong = ''Request-URI Too Long''"
| "status_code_text SC_UnsupportedMediaType = ''Unsupported Media Type''"
| "status_code_text SC_UnsupportedUriScheme = ''Unsupported URI Scheme''"
| "status_code_text SC_UnknownResourcePriority = ''Unknown Resource-Priority''"
| "status_code_text SC_BadExtension = ''Bad Extension''"
| "status_code_text SC_ExtensionRequired = ''Extension Required''"
| "status_code_text SC_SessionIntervalTooSmall = ''Session Interval Too Small''"
| "status_code_text SC_IntervalTooBrief = ''Interval Too Brief''"
| "status_code_text SC_BadLocationInformation = ''Bad Location Information''"
| "status_code_text SC_UseIdentityHeader = ''Use Identity Header''"
| "status_code_text SC_ProvideReferrerIdentity = ''Provide Referrer Identity''"
| "status_code_text SC_AnonymityDisallowed = ''Anonymity Disallowed''"
| "status_code_text SC_BadIdentityInfo = ''Bad Identity-Info''"
| "status_code_text SC_UnsupportedCertificate = ''Unsupported Certificate''"
| "status_code_text SC_InvalidIdentityHeader = ''Invalid Identity Header''"
| "status_code_text SC_FirstHopLacksOutboundSupport = ''First Hop Lacks Outbound Support''"
| "status_code_text SC_MaxBreadthExceeded = ''Max-Breadth Exceeded''"
| "status_code_text SC_BadInfoPackage = ''Bad Info Package''"
| "status_code_text SC_ConsentNeeded = ''Consent Needed''"
| "status_code_text SC_TemporarilyUnavailable = ''Temporarily Unavailable''"
| "status_code_text SC_CallTransactionDoesNotExist = ''Call/Transaction Does Not Exist''"
| "status_code_text SC_LoopDetected = ''Loop Detected''"
| "status_code_text SC_TooManyHops = ''Too Many Hops''"
| "status_code_text SC_AddressIncomplete = ''Address Incomplete''"
| "status_code_text SC_Ambiguous = ''Ambiguous''"
| "status_code_text SC_BusyHere = ''Busy Here''"
| "status_code_text SC_RequestTerminated = ''Request Terminated''"
| "status_code_text SC_NotAcceptableHere = ''Not Acceptable Here''"
| "status_code_text SC_BadEvent = ''Bad Event''"
| "status_code_text SC_RequestPending = ''Request Pending''"
| "status_code_text SC_Undecipherable = ''Undecipherable''"
| "status_code_text SC_SecurityAgreementRequired = ''Security Agreement Required''"
| "status_code_text SC_ServerInternalError = ''Server Internal Error''"
| "status_code_text SC_NotImplemented = ''Not Implemented''"
| "status_code_text SC_BadGateway = ''Bad Gateway''"
| "status_code_text SC_ServiceUnavailable = ''Service Unavailable''"
| "status_code_text SC_ServerTimeOut = ''Server Time-out''"
| "status_code_text SC_VersionNotSupported = ''Version Not Supported''"
| "status_code_text SC_MessageTooLarge = ''Message Too Large''"
| "status_code_text SC_PreconditionFailure = ''Precondition Failure''"
| "status_code_text SC_BusyEverywhere = ''Busy Everywhere''"
| "status_code_text SC_Decline = ''Decline''"
| "status_code_text SC_DoesNotExistAnywhere = ''Does Not Exist Anywhere''"
| "status_code_text SC_NotAcceptableGlobal = ''Not Acceptable''"
| "status_code_text SC_Unwanted = ''Unwanted''"
| "status_code_text (SC_Other code reason) = reason"

definition from_code :: "nat \<Rightarrow> string \<Rightarrow> status_code" where
  "from_code c reason =
     (if c = 100 then SC_Trying
     else if c = 180 then SC_Ringing
     else if c = 181 then SC_CallIsBeingForwarded
     else if c = 182 then SC_Queued
     else if c = 183 then SC_SessionProgress
     else if c = 199 then SC_EarlyDialogTerminated
     else if c = 200 then SC_OK
     else if c = 202 then SC_Accepted
     else if c = 204 then SC_NoNotification
     else if c = 300 then SC_MultipleChoices
     else if c = 301 then SC_MovedPermanently
     else if c = 302 then SC_MovedTemporarily
     else if c = 305 then SC_UseProxy
     else if c = 380 then SC_AlternativeService
     else if c = 400 then SC_BadRequest
     else if c = 401 then SC_Unauthorized
     else if c = 402 then SC_PaymentRequired
     else if c = 403 then SC_Forbidden
     else if c = 404 then SC_NotFound
     else if c = 405 then SC_MethodNotAllowed
     else if c = 406 then SC_NotAcceptable
     else if c = 407 then SC_ProxyAuthenticationRequired
     else if c = 408 then SC_RequestTimeout
     else if c = 409 then SC_Conflict
     else if c = 410 then SC_Gone
     else if c = 411 then SC_LengthRequired
     else if c = 412 then SC_ConditionalRequestFailed
     else if c = 413 then SC_RequestEntityTooLarge
     else if c = 414 then SC_RequestUriTooLong
     else if c = 415 then SC_UnsupportedMediaType
     else if c = 416 then SC_UnsupportedUriScheme
     else if c = 417 then SC_UnknownResourcePriority
     else if c = 420 then SC_BadExtension
     else if c = 421 then SC_ExtensionRequired
     else if c = 422 then SC_SessionIntervalTooSmall
     else if c = 423 then SC_IntervalTooBrief
     else if c = 424 then SC_BadLocationInformation
     else if c = 428 then SC_UseIdentityHeader
     else if c = 429 then SC_ProvideReferrerIdentity
     else if c = 433 then SC_AnonymityDisallowed
     else if c = 436 then SC_BadIdentityInfo
     else if c = 437 then SC_UnsupportedCertificate
     else if c = 438 then SC_InvalidIdentityHeader
     else if c = 439 then SC_FirstHopLacksOutboundSupport
     else if c = 440 then SC_MaxBreadthExceeded
     else if c = 469 then SC_BadInfoPackage
     else if c = 470 then SC_ConsentNeeded
     else if c = 480 then SC_TemporarilyUnavailable
     else if c = 481 then SC_CallTransactionDoesNotExist
     else if c = 482 then SC_LoopDetected
     else if c = 483 then SC_TooManyHops
     else if c = 484 then SC_AddressIncomplete
     else if c = 485 then SC_Ambiguous
     else if c = 486 then SC_BusyHere
     else if c = 487 then SC_RequestTerminated
     else if c = 488 then SC_NotAcceptableHere
     else if c = 489 then SC_BadEvent
     else if c = 491 then SC_RequestPending
     else if c = 493 then SC_Undecipherable
     else if c = 494 then SC_SecurityAgreementRequired
     else if c = 500 then SC_ServerInternalError
     else if c = 501 then SC_NotImplemented
     else if c = 502 then SC_BadGateway
     else if c = 503 then SC_ServiceUnavailable
     else if c = 504 then SC_ServerTimeOut
     else if c = 505 then SC_VersionNotSupported
     else if c = 513 then SC_MessageTooLarge
     else if c = 580 then SC_PreconditionFailure
     else if c = 600 then SC_BusyEverywhere
     else if c = 603 then SC_Decline
     else if c = 604 then SC_DoesNotExistAnywhere
     else if c = 606 then SC_NotAcceptableGlobal
     else if c = 607 then SC_Unwanted
     else SC_Other c reason)"

definition is_other_code :: "status_code \<Rightarrow> bool" where
  "is_other_code s \<longleftrightarrow> s = SC_Other (status_code_code s) (status_code_text s)"

lemma from_code_code: "from_code (status_code_code s) reason = s \<or> is_other_code s"
  by (cases s) (simp_all add: from_code_def is_other_code_def)

lemma status_code_code_from_code [simp]: "status_code_code (from_code c reason) = c"
  unfolding from_code_def by (simp only: if_distrib [of status_code_code] status_code_code.simps) auto

text \<open>\<open>StatusCode::try_from((code, reason))\<close> and \<open>From<u16>\<close>.\<close>

definition status_code_try_from :: "nat \<Rightarrow> string \<Rightarrow> sip_error + status_code" where
  "status_code_try_from code reason = Inr (from_code code reason)"

definition show_status_code :: "status_code \<Rightarrow> string" where
  "show_status_code s = show_nat (status_code_code s) @ '' '' @ status_code_text s"

end
