(* ===== verification/Sip_Message.thy ===== *)
theory Sip_Message
  imports Sip_Typed Sip_Status
begin

text \<open>
  \<open>sip/message.rs\<close> and \<open>sip/parser.rs\<close>: requests and responses, the header accessors of
  \<open>HeadersExt\<close> (functions of the header list), serialization and the message parser. The
  accessors that only select a variant are instances of \<open>header_opt\<close>, \<open>header_get\<close> and
  \<open>all_headers\<close>.
\<close>

section \<open>HeadersExt\<close>

definition to_header :: "header list \<Rightarrow> sip_error + string" where "to_header = header_get H_To ''To''"
definition from_header :: "header list \<Rightarrow> sip_error + string" where "from_header = header_get H_From ''From''"
definition via_header :: "header list \<Rightarrow> sip_error + string" where "via_header = header_get H_Via ''Via''"
definition call_id_header :: "header list \<Rightarrow> sip_error + string" where "call_id_header = header_get H_CallId ''Call-ID''"
definition cseq_header :: "header list \<Rightarrow> sip_error + string" where "cseq_header = header_get H_CSeq ''CSeq''"
definition max_forwards_header :: "header list \<Rightarrow> sip_error + string" where
  "max_forwards_header = header_get H_MaxForwards ''Max-Forwards''"
definition contact_header :: "header list \<Rightarrow> sip_error + string" where
  "contact_header = header_get H_Contact ''Contact''"

definition top_via_header :: "header list \<Rightarrow> sip_error + string" where
  "top_via_header hs = and_then (via_header hs) first_value"

definition via_has_second_value :: "string \<Rightarrow> bool" where
  "via_has_second_value via =
     (case first_value via of
        Inl _ \<Rightarrow> False
      | Inr first \<Rightarrow>
          (case strip_prefix '','' (trim (drop (length first) (trim via))) of
             Some rest \<Rightarrow> trim rest \<noteq> []
           | None \<Rightarrow> False))"

fun multiple_vias_loop :: "bool \<Rightarrow> header list \<Rightarrow> bool" where
  "multiple_vias_loop seen [] = False"
| "multiple_vias_loop seen (h # hs) =
     (case variant H_Via h of
        Some via \<Rightarrow>
          if seen then True
          else if via_has_second_value via then True
          else multiple_vias_loop True hs
      | None \<Rightarrow> multiple_vias_loop seen hs)"

definition has_multiple_vias :: "header list \<Rightarrow> bool" where
  "has_multiple_vias hs = multiple_vias_loop False hs"

fun parse_all_headers :: "(string \<Rightarrow> sip_error + name_addr list) \<Rightarrow> string list \<Rightarrow> sip_error + name_addr list" where
  "parse_all_headers f [] = Inr []"
| "parse_all_headers f (v # vs) = and_then (f v) (\<lambda>xs. and_then (parse_all_headers f vs) (\<lambda>ys. Inr (xs @ ys)))"

definition typed_contact_headers :: "header list \<Rightarrow> sip_error + name_addr list" where
  "typed_contact_headers hs = parse_all_headers contact_parse_header_list (all_headers H_Contact hs)"

definition typed_record_route_headers :: "header list \<Rightarrow> sip_error + name_addr list" where
  "typed_record_route_headers hs = parse_all_headers record_route_parse_header_list (all_headers H_RecordRoute hs)"

definition typed_route_headers :: "header list \<Rightarrow> sip_error + name_addr list" where
  "typed_route_headers hs = parse_all_headers route_parse_header_list (all_headers H_Route hs)"

definition session_id_header :: "header list \<Rightarrow> string option" where
  "session_id_header hs = header_opt H_SessionId hs"

definition rseq_value :: "header list \<Rightarrow> nat option" where
  "rseq_value hs = find_map (\<lambda>h. Option.bind (variant H_RSeq h) (\<lambda>v. ok (parse_uint 32 (trim v)))) hs"

definition split_whitespace :: "string \<Rightarrow> string list" where
  "split_whitespace s = filter (\<lambda>p. p \<noteq> []) (split_on is_ws s)"

definition rack_of :: "string \<Rightarrow> (nat \<times> nat \<times> sip_method) option" where
  "rack_of v =
     (case split_whitespace v of
        a # b # c # _ \<Rightarrow>
          Option.bind (ok (parse_uint 32 a)) (\<lambda>rseq.
          Option.bind (ok (parse_uint 32 b)) (\<lambda>cseq.
          Option.bind (ok (parse_method c)) (\<lambda>m. Some (rseq, cseq, m))))
      | _ \<Rightarrow> None)"

definition rack_value :: "header list \<Rightarrow> (nat \<times> nat \<times> sip_method) option" where
  "rack_value hs = find_map (\<lambda>h. Option.bind (variant H_RAck h) rack_of) hs"

definition header_value_by_name :: "string \<Rightarrow> header list \<Rightarrow> string option" where
  "header_value_by_name name hs =
     find_map (\<lambda>h. if eq_ignore_ascii_case (header_name h) name then Some (trim (header_value h)) else None) hs"

definition list_has_token :: "string \<Rightarrow> string \<Rightarrow> bool" where
  "list_has_token token v = list_ex (\<lambda>item. eq_ignore_ascii_case (trim item) token) (split_on (\<lambda>c. c = CHR '','') v)"

definition header_contains_token :: "string \<Rightarrow> string \<Rightarrow> header list \<Rightarrow> bool" where
  "header_contains_token name token hs =
     list_ex (\<lambda>h.
       case variant H_Supported h of
         Some v \<Rightarrow> eq_ignore_ascii_case name ''Supported'' \<and> list_has_token token v
       | None \<Rightarrow>
           (case variant H_Require h of
              Some v \<Rightarrow> eq_ignore_ascii_case name ''Require'' \<and> list_has_token token v
            | None \<Rightarrow> False)) hs"

definition transaction_id :: "header list \<Rightarrow> sip_error + string option" where
  "transaction_id hs = and_then (and_then (top_via_header hs) via_typed) (\<lambda>v. Inr (via_branch v))"

section \<open>Requests and responses\<close>

record request =
  req_method :: sip_method
  req_uri :: uri
  req_version :: version
  req_headers :: "header list"
  req_body :: bytes

fun first_route :: "string list \<Rightarrow> uri option" where
  "first_route [] = None"
| "first_route (v # vs) =
     (case route_parse_header_list v of Inr (r # _) \<Rightarrow> Some (na_uri r) | _ \<Rightarrow> first_route vs)"

definition request_destination :: "request \<Rightarrow> uri" where
  "request_destination r = unwrap_or (first_route (all_headers H_Route (req_headers r))) (req_uri r)"

record received_from =
  rf_source :: socket_addr
  rf_request_destination :: "socket_addr option"

record response =
  resp_synthetic :: bool
  resp_received_from :: "received_from option"
  resp_wire_reason :: "string option"
  resp_status :: status_code
  resp_version :: version
  resp_headers :: "header list"
  resp_body :: bytes

definition response_default :: response where
  "response_default =
     \<lparr>resp_synthetic = False, resp_received_from = None, resp_wire_reason = None, resp_status = SC_OK,
      resp_version = V2, resp_headers = [], resp_body = []\<rparr>"

definition resp_reason_phrase :: "response \<Rightarrow> string option" where
  "resp_reason_phrase r = header_opt H_Reason (resp_headers r)"

definition resp_via_received :: "response \<Rightarrow> host_with_port option" where
  "resp_via_received r =
     Option.bind (ok (top_via_header (resp_headers r))) (\<lambda>via.
     Option.bind (ok (via_typed via)) (\<lambda>v.
       let received = find_map (\<lambda>p. Option.bind (received_of p) (\<lambda>s. map_option IpAddr (parse_ip s))) (via_params v);
           rport = find_map (\<lambda>p. Option.bind (rport_of p) id) (via_params v)
       in map_option (\<lambda>h. \<lparr>hwp_host = h, hwp_port = rport\<rparr>) received))"

datatype sip_message = Request request | Response response

fun is_request :: "sip_message \<Rightarrow> bool" where
  "is_request (Request _) = True" | "is_request (Response _) = False"

fun is_response :: "sip_message \<Rightarrow> bool" where
  "is_response (Request _) = False" | "is_response (Response _) = True"

fun message_headers :: "sip_message \<Rightarrow> header list" where
  "message_headers (Request r) = req_headers r"
| "message_headers (Response r) = resp_headers r"

fun start_line :: "sip_message \<Rightarrow> string" where
  "start_line (Request r) = show_method (req_method r) @ '' '' @ show_uri (req_uri r) @ '' '' @ show_version (req_version r)"
| "start_line (Response r) =
     show_version (resp_version r) @ '' '' @ show_nat (status_code_code (resp_status r)) @ '' '' @ status_code_text (resp_status r)"

definition request_to_bytes :: "request \<Rightarrow> bytes" where
  "request_to_bytes r =
     (show_method (req_method r) @ '' '' @ show_uri (req_uri r) @ '' '' @ show_version (req_version r) @ crlf
      @ show_headers (req_headers r) @ crlf) @ req_body r"

definition response_to_bytes :: "response \<Rightarrow> bytes" where
  "response_to_bytes r =
     (show_version (resp_version r) @ '' '' @ show_nat (status_code_code (resp_status r)) @ '' ''
      @ status_code_text (resp_status r) @ crlf @ show_headers (resp_headers r) @ crlf) @ resp_body r"

fun message_to_bytes :: "sip_message \<Rightarrow> bytes" where
  "message_to_bytes (Request r) = request_to_bytes r"
| "message_to_bytes (Response r) = response_to_bytes r"

section \<open>The parser\<close>

text \<open>\<open>find_double_crlf\<close> and the two slices around the match.\<close>

fun split_double_crlf :: "bytes \<Rightarrow> (bytes \<times> bytes) option" where
  "split_double_crlf data =
     (case strip_prefix (crlf @ crlf) data of
        Some rest \<Rightarrow> Some ([], rest)
      | None \<Rightarrow> (case data of [] \<Rightarrow> None | x # xs \<Rightarrow> map_option (\<lambda>(a, b). (x # a, b)) (split_double_crlf xs)))"

declare split_double_crlf.simps [simp del]

text \<open>A line ends before its line feed and before a carriage return in front of it. The iterator
  stops at the first line that is not UTF-8.\<close>

definition strip_cr :: "bytes \<Rightarrow> bytes" where
  "strip_cr l = (if l \<noteq> [] \<and> last l = CHR 0x0D then butlast l else l)"

function split_crlf_lines :: "bytes \<Rightarrow> string list" where
  "split_crlf_lines data =
     (if data = [] then []
      else (case split_once (\<lambda>c. c = CHR 0x0A) data of
          Some (l, rest) \<Rightarrow> if utf8_valid (strip_cr l) then strip_cr l # split_crlf_lines rest else []
        | None \<Rightarrow> if utf8_valid data then [data] else []))"
  by auto
termination
  by (relation "measure length") (auto simp: split_once_Some_iff)

declare split_crlf_lines.simps [simp del]

text \<open>The header loop: the collected headers, the last Content-Length and the header still open to
  folded continuation lines.\<close>

definition flush_header :: "(string \<times> string) option \<Rightarrow> header list \<times> nat \<Rightarrow> header list \<times> nat" where
  "flush_header pending st =
     (case pending of
        None \<Rightarrow> st
      | Some (name, val) \<Rightarrow>
          (headers_push (make_header name val) (fst st),
           if eq_ignore_ascii_case name ''content-length'' \<or> eq_ignore_ascii_case name ''l''
           then unwrap_or (ok (parse_uint 64 (trim val))) 0 else snd st))"

fun parse_header_lines :: "(string \<times> string) option \<Rightarrow> header list \<times> nat \<Rightarrow> string list \<Rightarrow> header list \<times> nat" where
  "parse_header_lines pending st [] = flush_header pending st"
| "parse_header_lines pending st (line # ls) =
     (if line = [] then flush_header pending st
      else if hd line = CHR 0x20 \<or> hd line = CHR 0x09 then
        parse_header_lines (map_option (\<lambda>(name, val). (name, val @ '' '' @ trim line)) pending) st ls
      else
        parse_header_lines
          (map_option (\<lambda>(name, val). (trim name, trim val)) (split_once (\<lambda>c. c = CHR '':'') line))
          (flush_header pending st) ls)"

definition space_or_tab :: "char \<Rightarrow> bool" where
  "space_or_tab c \<longleftrightarrow> c = CHR 0x20 \<or> c = CHR 0x09"

definition parse_request_line :: "string \<Rightarrow> header list \<Rightarrow> bytes \<Rightarrow> sip_error + sip_message" where
  "parse_request_line line hs body =
     and_then (ok_or (split_once space_or_tab line) (ParseError ''Request-Line: missing URI'')) (\<lambda>(method_str, rest).
     and_then (ok_or (split_once space_or_tab rest) (ParseError ''Request-Line: missing version'')) (\<lambda>(uri_str, version_str).
     and_then (parse_method method_str) (\<lambda>m.
     and_then (parse_uri (trim uri_str)) (\<lambda>u.
     and_then (parse_version (trim version_str)) (\<lambda>v.
     Inr (Request \<lparr>req_method = m, req_uri = u, req_version = v, req_headers = hs, req_body = body\<rparr>))))))"

definition wire_reason :: "status_code \<Rightarrow> string \<Rightarrow> string option" where
  "wire_reason sc reason =
     (if reason = [] \<or> is_other_code sc \<or> eq_ignore_ascii_case reason (status_code_text sc) then None
      else Some reason)"

definition parse_response_line :: "string \<Rightarrow> header list \<Rightarrow> bytes \<Rightarrow> sip_error + sip_message" where
  "parse_response_line line hs body =
     and_then (ok_or (split_once space_or_tab line) (ParseError ''Status-Line: missing status code'')) (\<lambda>(version_str, rest).
     let (code_str, reason) =
           (case split_once space_or_tab rest of Some (c, r) \<Rightarrow> (c, trim r) | None \<Rightarrow> (rest, []))
     in and_then (parse_version version_str) (\<lambda>v.
        and_then (map_err (\<lambda>_. ParseError (''Status-Line: invalid code '' @ code_str)) (parse_uint 16 code_str)) (\<lambda>code.
        and_then (status_code_try_from code reason) (\<lambda>sc.
        Inr (Response \<lparr>resp_synthetic = False, resp_received_from = None,
          resp_wire_reason = wire_reason sc reason, resp_status = sc, resp_version = v,
          resp_headers = hs, resp_body = body\<rparr>)))))"

text \<open>The four characters backslash, r, backslash, n of an error text.\<close>

abbreviation escaped_crlf :: string where
  "escaped_crlf \<equiv> [CHR 0x5C, CHR ''r'', CHR 0x5C, CHR ''n'']"

definition parse_message :: "bytes \<Rightarrow> sip_error + sip_message" where
  "parse_message data =
     and_then (ok_or (split_double_crlf data) (ParseError (''SIP message: missing '' @ escaped_crlf @ escaped_crlf @ '' separator''))) (\<lambda>(header_section, after).
     case split_crlf_lines header_section of
       [] \<Rightarrow> Inl (ParseError ''SIP message: empty start line'')
     | start # ls \<Rightarrow>
         (let (hs, content_length) = parse_header_lines None ([], 0) ls;
              body = take (min (length after) content_length) after
          in if starts_with start ''SIP/'' then parse_response_line start hs body
             else parse_request_line start hs body))"

end
