(* ===== verification/Stack_Error.thy ===== *)
theory Stack_Error
  imports Sip_Message
begin

text \<open>
  \<open>transport/sip_addr.rs\<close> (addresses with an optional transport), the identifiers the errors
  carry (\<open>TransactionKey\<close> of \<open>transaction/key.rs\<close>, \<open>DialogId\<close> of \<open>dialog/mod.rs\<close>) and
  the crate's error type of \<open>error.rs\<close>.
\<close>

section \<open>Addresses\<close>

record sip_addr =
  sa_type :: "transport option"
  sa_addr :: host_with_port

definition show_sip_addr :: "sip_addr \<Rightarrow> string" where
  "show_sip_addr a =
     (case sa_type a of
        Some t \<Rightarrow> show_transport t @ '' '' @ show_hwp (sa_addr a)
      | None \<Rightarrow> show_hwp (sa_addr a))"

definition sip_addr_new :: "transport \<Rightarrow> host_with_port \<Rightarrow> sip_addr" where
  "sip_addr_new t h = \<lparr>sa_type = Some t, sa_addr = h\<rparr>"

definition sip_addr_of_socket :: "socket_addr \<Rightarrow> sip_addr" where
  "sip_addr_of_socket s = \<lparr>sa_type = None, sa_addr = hwp_of_socket_addr s\<rparr>"

definition sip_addr_of_hwp :: "host_with_port \<Rightarrow> sip_addr" where
  "sip_addr_of_hwp h = \<lparr>sa_type = None, sa_addr = h\<rparr>"

definition sip_addr_of_uri :: "uri \<Rightarrow> sip_addr" where
  "sip_addr_of_uri u = \<lparr>sa_type = params_transport (uri_params u), sa_addr = uri_hwp u\<rparr>"

definition uri_of_sip_addr :: "sip_addr \<Rightarrow> uri" where
  "uri_of_sip_addr a =
     uri_default\<lparr>
       uri_scheme := Some (case sa_type a of
           Some Wss \<Rightarrow> Sips | Some Tls \<Rightarrow> Sips | Some TlsSctp \<Rightarrow> Sips | _ \<Rightarrow> Sip),
       uri_hwp := sa_addr a,
       uri_params := (case sa_type a of
           Some Tcp \<Rightarrow> [P_Transport Tcp] | Some Tls \<Rightarrow> [P_Transport Tls] | Some Ws \<Rightarrow> [P_Transport Ws]
         | Some Wss \<Rightarrow> [P_Transport Wss] | Some TlsSctp \<Rightarrow> [P_Transport TlsSctp]
         | Some Sctp \<Rightarrow> [P_Transport Sctp] | _ \<Rightarrow> [])\<rparr>"

section \<open>Identifiers and errors\<close>

type_synonym transaction_key = string

record dialog_id =
  did_call_id :: string
  did_local_tag :: string
  did_remote_tag :: string

datatype error =
    SipMessageError sip_error
  | DnsResolutionError string
  | TransportLayerError string sip_addr
  | TransactionError string transaction_key
  | EndpointError string
  | DialogError string dialog_id status_code
  | IoError string
  | AddrParseError
  | WebSocketError string
  | Error string

text \<open>The \<open>?\<close> operator on a \<open>sip::Result\<close> in code that returns the crate's \<open>Result\<close>.\<close>

definition sip_try :: "sip_error + 'a \<Rightarrow> (error + 'a)" where
  "sip_try r = map_err SipMessageError r"

lemma sip_try_simps [simp]: "sip_try (Inl e) = Inl (SipMessageError e)" "sip_try (Inr x) = Inr x"
  by (simp_all add: sip_try_def)

lemma sip_try_eq_Inr [simp]: "sip_try r = Inr x \<longleftrightarrow> r = Inr x"
  by (cases r) simp_all

definition get_socketaddr :: "sip_addr \<Rightarrow> error + socket_addr" where
  "get_socketaddr a =
     (case hwp_host (sa_addr a) of
        Domain d \<Rightarrow> Inl (Error (''Cannot convert domain '' @ d @ '' to SocketAddr''))
      | IpAddr ip \<Rightarrow> Inr \<lparr>sa_ip = ip, sa_port = (case hwp_port (sa_addr a) of None \<Rightarrow> 5060 | Some p \<Rightarrow> p)\<rparr>)"

section \<open>Properties\<close>

text \<open>An address turned into a URI and back keeps host and port, keeps
  every transport but UDP, and is never given a \<open>sips\<close> URI unless the transport is secure.\<close>

theorem sip_addr_uri_roundtrip:
  "sip_addr_of_uri (uri_of_sip_addr a) = (if sa_type a = Some Udp then a\<lparr>sa_type := None\<rparr> else a)
   \<and> (uri_scheme (uri_of_sip_addr a) = Some Sips) = (sa_type a \<in> {Some Wss, Some Tls, Some TlsSctp})"
  by (cases a; cases "sa_type a")
    (auto simp: sip_addr_of_uri_def uri_of_sip_addr_def params_transport_def uri_default_def split: transport.splits)

lemma get_socketaddr_of_socket: "get_socketaddr (sip_addr_of_socket s) = Inr s"
  by (simp add: get_socketaddr_def sip_addr_of_socket_def hwp_of_socket_addr_def)

end
