(* ===== verification/Message_Roundtrip.thy ===== *)
theory Message_Roundtrip
  imports Sip_Message Typed_Roundtrip
begin

text \<open>
  The parser reads back what \<open>to_bytes\<close> writes: a request or response whose headers are
  well formed and whose last Content-Length is the length of its body parses to itself, a response
  without the three fields that are never serialized. Also: the body the parser takes never
  exceeds what is there or what Content-Length says.
\<close>

section \<open>Lines\<close>

definition line_wf :: "string \<Rightarrow> bool" where
  "line_wf l \<longleftrightarrow> l \<noteq> [] \<and> CHR 0x0D \<notin> set l \<and> CHR 0x0A \<notin> set l \<and> utf8_valid l"

lemma line_wfD: "line_wf l \<Longrightarrow> l \<noteq> []" "line_wf l \<Longrightarrow> CHR 0x0D \<notin> set l" "line_wf l \<Longrightarrow> CHR 0x0A \<notin> set l"
    "line_wf l \<Longrightarrow> utf8_valid l"
  by (simp_all add: line_wf_def)

lemma split_double_line:
  assumes "CHR 0x0D \<notin> set l" and "x \<noteq> CHR 0x0D"
  shows "split_double_crlf (l @ CHR 0x0D # CHR 0x0A # x # r)
    = map_option (\<lambda>(a, b). (l @ CHR 0x0D # CHR 0x0A # a, b)) (split_double_crlf (x # r))"
  using assms(1)
proof (induction l)
  case Nil
  have "split_double_crlf (CHR 0x0A # x # r) = map_option (\<lambda>(a, b). (CHR 0x0A # a, b)) (split_double_crlf (x # r))"
    by (subst split_double_crlf.simps) simp
  with assms(2) show ?case
    by (subst split_double_crlf.simps) (cases "split_double_crlf (x # r)"; auto)
next
  case (Cons c l)
  then show ?case
    by (subst append_Cons, subst split_double_crlf.simps)
      (cases "split_double_crlf (x # r)"; auto)
qed

lemma split_double_last:
  "CHR 0x0D \<notin> set l \<Longrightarrow> split_double_crlf (l @ crlf @ crlf @ body) = Some (l, body)"
proof (induction l)
  case Nil
  show ?case by (subst split_double_crlf.simps) simp
next
  case (Cons c l)
  then show ?case by (subst append_Cons, subst split_double_crlf.simps) simp
qed

lemma join_Cons_ne: "ls \<noteq> [] \<Longrightarrow> join sep (l # ls) = l @ sep @ join sep ls"
  by (cases ls) simp_all

lemma split_double_lines:
  "list_all line_wf ls \<Longrightarrow> ls \<noteq> [] \<Longrightarrow> split_double_crlf (join crlf ls @ crlf @ crlf @ body) = Some (join crlf ls, body)"
proof (induction ls)
  case (Cons l ls)
  then have l: "CHR 0x0D \<notin> set l" by (simp add: line_wf_def)
  show ?case
  proof (cases ls)
    case Nil
    with l show ?thesis by (simp add: split_double_last [simplified])
  next
    case (Cons m ms)
    have m: "m \<noteq> []" "CHR 0x0D \<notin> set m" using Cons.prems local.Cons by (simp_all add: line_wf_def)
    obtain x r where x: "join crlf ls @ crlf @ crlf @ body = x # r" "x \<noteq> CHR 0x0D"
      using m by (cases m; cases ms) (auto simp: local.Cons)
    have "join crlf (l # ls) @ crlf @ crlf @ body = l @ CHR 0x0D # CHR 0x0A # (join crlf ls @ crlf @ crlf @ body)"
      by (simp add: local.Cons)
    moreover have "split_double_crlf (l @ CHR 0x0D # CHR 0x0A # (join crlf ls @ crlf @ crlf @ body))
        = map_option (\<lambda>(a, b). (l @ CHR 0x0D # CHR 0x0A # a, b)) (split_double_crlf (join crlf ls @ crlf @ crlf @ body))"
      unfolding x(1) by (rule split_double_line [OF l x(2)])
    moreover have "split_double_crlf (join crlf ls @ crlf @ crlf @ body) = Some (join crlf ls, body)"
      using Cons.IH Cons.prems by (simp add: local.Cons)
    moreover have "join crlf (l # ls) = l @ CHR 0x0D # CHR 0x0A # join crlf ls" by (simp add: local.Cons)
    ultimately show ?thesis by (simp only: option.map prod.case)
  qed
qed simp

lemma strip_cr_line: "line_wf l \<Longrightarrow> strip_cr (l @ [CHR 0x0D]) = l" "line_wf l \<Longrightarrow> strip_cr l = l"
  by (simp add: strip_cr_def) (metis strip_cr_def line_wfD(1,2) last_in_set)

lemma split_lines_join: "list_all line_wf ls \<Longrightarrow> split_crlf_lines (join crlf ls) = ls"
proof (induction ls)
  case (Cons l ls)
  then have l: "line_wf l" by simp
  show ?case
  proof (cases ls)
    case Nil
    have "split_once (\<lambda>c. c = CHR 0x0A) l = None" by (rule split_once_miss) (use l in \<open>auto simp: line_wf_def\<close>)
    with l Nil show ?thesis by (simp add: split_crlf_lines.simps [of l] line_wf_def)
  next
    case (Cons m ms)
    have "split_once (\<lambda>c. c = CHR 0x0A) ((l @ [CHR 0x0D]) @ CHR 0x0A # join crlf ls) = Some (l @ [CHR 0x0D], join crlf ls)"
      by (rule split_once_hit) (use l in \<open>auto simp: line_wf_def\<close>)
    moreover have "join crlf (l # ls) = (l @ [CHR 0x0D]) @ CHR 0x0A # join crlf ls" by (simp add: local.Cons)
    moreover have "split_crlf_lines (join crlf ls) = ls" using Cons.IH Cons.prems by simp
    ultimately show ?thesis
      using strip_cr_line(1) [OF l] line_wfD(4) [OF l] by (subst split_crlf_lines.simps) simp
  qed
qed (simp add: split_crlf_lines.simps)

section \<open>Headers\<close>

definition header_wf :: "header \<Rightarrow> bool" where
  "header_wf h \<longleftrightarrow> line_wf (show_header h) \<and> CHR '':'' \<notin> set (header_name h) \<and> header_name h \<noteq> [] \<and>
     \<not> is_ws (hd (header_name h)) \<and> \<not> is_ws (last (header_name h)) \<and>
     trim (header_value h) = header_value h \<and> make_header (header_name h) (header_value h) = h"

definition header_length :: "nat \<Rightarrow> header \<Rightarrow> nat" where
  "header_length n h =
     (if eq_ignore_ascii_case (header_name h) ''content-length'' \<or> eq_ignore_ascii_case (header_name h) ''l''
      then unwrap_or (ok (parse_uint 64 (header_value h))) 0 else n)"

lemma flush_header_wf:
  "header_wf h \<Longrightarrow> flush_header (Some (header_name h, header_value h)) (hs, n) = (hs @ [h], header_length n h)"
  by (simp add: flush_header_def header_wf_def headers_push_def header_length_def)

lemma trim_space: "trim (CHR 0x20 # v) = trim v"
  by (simp add: trim_def trim_start_def is_ws_def)

lemma header_line_parts:
  assumes "header_wf h"
  shows "show_header h \<noteq> []" "hd (show_header h) \<noteq> CHR 0x20" "hd (show_header h) \<noteq> CHR 0x09"
    and "map_option (\<lambda>(name, val). (trim name, trim val)) (split_once (\<lambda>c. c = CHR '':'') (show_header h))
      = Some (header_name h, header_value h)"
proof -
  have wf: "header_name h \<noteq> []" "\<not> is_ws (hd (header_name h))" "\<not> is_ws (last (header_name h))"
      "CHR '':'' \<notin> set (header_name h)" "trim (header_value h) = header_value h"
    using assms by (simp_all add: header_wf_def)
  have shown: "show_header h = header_name h @ CHR '':'' # CHR 0x20 # header_value h" by (simp add: show_header_eq)
  show "show_header h \<noteq> []" "hd (show_header h) \<noteq> CHR 0x20" "hd (show_header h) \<noteq> CHR 0x09"
    using wf by (auto simp: shown is_ws_def)
  have "split_once (\<lambda>c. c = CHR '':'') (show_header h) = Some (header_name h, CHR 0x20 # header_value h)"
    unfolding shown by (rule split_once_hit) (use wf in auto)
  moreover have "trim (header_name h) = header_name h" by (rule trim_unchanged) (use wf in simp)
  ultimately show "map_option (\<lambda>(name, val). (trim name, trim val)) (split_once (\<lambda>c. c = CHR '':'') (show_header h))
      = Some (header_name h, header_value h)"
    using wf by (simp add: trim_space)
qed

lemma header_step:
  assumes "header_wf h"
  shows "parse_header_lines pending st (show_header h # ls)
    = parse_header_lines (Some (header_name h, header_value h)) (flush_header pending st) ls"
  unfolding parse_header_lines.simps header_line_parts(4) [OF assms]
  using header_line_parts(1-3) [OF assms] by simp

lemma parse_show_headers_from:
  "list_all header_wf (h # hs) \<Longrightarrow>
   parse_header_lines (Some (header_name h, header_value h)) (acc, n) (map show_header hs)
   = (acc @ h # hs, foldl header_length n (h # hs))"
proof (induction hs arbitrary: h acc n)
  case (Cons g hs)
  then show ?case
    by (simp add: header_step flush_header_wf del: parse_header_lines.simps(2))
qed (simp add: flush_header_wf)

lemma parse_show_header_lines:
  assumes "list_all header_wf hs"
  shows "parse_header_lines None ([], 0) (map show_header hs) = (hs, foldl header_length 0 hs)"
proof (cases hs)
  case (Cons h hs')
  then show ?thesis
    using assms parse_show_headers_from [of h hs' "[]" 0]
    by (simp add: header_step flush_header_def del: parse_header_lines.simps(2))
qed (simp add: flush_header_def)

lemma message_bytes_lines:
  "(start @ crlf @ show_headers hs @ crlf) @ body = join crlf (start # map show_header hs) @ crlf @ crlf @ body"
  by (cases hs) (simp_all add: show_headers_def)

lemma parse_message_lines:
  assumes "line_wf start" and "list_all header_wf hs"
  shows "parse_message ((start @ crlf @ show_headers hs @ crlf) @ body) =
    (let body' = take (min (length body) (foldl header_length 0 hs)) body in
     if starts_with start ''SIP/'' then parse_response_line start hs body' else parse_request_line start hs body')"
proof -
  have ls: "list_all line_wf (start # map show_header hs)"
    using assms by (auto simp: list_all_iff header_wf_def)
  show ?thesis
    unfolding parse_message_def message_bytes_lines
    by (simp only: split_double_lines [OF ls list.distinct(2)] split_lines_join [OF ls] parse_show_header_lines [OF assms(2)]
        ok_or_simps and_then_simps prod.case list.case Let_def)
qed

section \<open>Requests\<close>

definition request_wf :: "request \<Rightarrow> bool" where
  "request_wf r \<longleftrightarrow>
     uri_wf (req_uri r) \<and> version_wf (req_version r) \<and> line_wf (start_line (Request r)) \<and>
     list_all header_wf (req_headers r) \<and> foldl header_length 0 (req_headers r) = length (req_body r)"

lemma space_split:
  assumes "\<And>c. c \<in> set a \<Longrightarrow> \<not> is_ws c"
  shows "split_once space_or_tab (a @ CHR 0x20 # b) = Some (a, b)"
  by (rule split_once_hit) (use assms in \<open>auto simp: space_or_tab_def is_ws_def\<close>)

lemma method_not_sip: "\<not> starts_with (show_method m @ CHR 0x20 # r) ''SIP/''"
  by (cases m) (simp_all add: starts_with_def)

lemma show_version_no_ws: "c \<in> set (show_version v) \<Longrightarrow> \<not> is_ws c"
  by (cases v) (auto simp: is_ws_def dest!: show_nat_digits simp: is_ascii_digit_def)

lemma show_uri_no_ws: "uri_wf u \<Longrightarrow> c \<in> set (show_uri u) \<Longrightarrow> \<not> is_ws c"
  using plainD(1) [OF plain_show_uri] by blast

lemma parse_show_request_line:
  assumes "uri_wf (req_uri r)" and "version_wf (req_version r)"
  shows "parse_request_line (start_line (Request r)) (req_headers r) (req_body r) = Inr (Request r)"
proof -
  have "split_once space_or_tab (start_line (Request r))
      = Some (show_method (req_method r), show_uri (req_uri r) @ CHR 0x20 # show_version (req_version r))"
    using space_split show_method_no_ws by simp
  moreover have "split_once space_or_tab (show_uri (req_uri r) @ CHR 0x20 # show_version (req_version r))
      = Some (show_uri (req_uri r), show_version (req_version r))"
    using assms(1) by (intro space_split show_uri_no_ws)
  moreover have "trim (show_uri (req_uri r)) = show_uri (req_uri r)"
    using assms(1) by (intro trim_no_ws show_uri_no_ws)
  ultimately show ?thesis
    using assms by (simp add: parse_request_line_def parse_show_uri parse_show_version)
qed

lemma parse_request_bytes:
  assumes "request_wf r"
  shows "parse_message (request_to_bytes r) = Inr (Request r)"
proof -
  have wf: "uri_wf (req_uri r)" "version_wf (req_version r)" "line_wf (start_line (Request r))"
      "list_all header_wf (req_headers r)" "foldl header_length 0 (req_headers r) = length (req_body r)"
    using assms by (simp_all add: request_wf_def)
  have "request_to_bytes r = (start_line (Request r) @ crlf @ show_headers (req_headers r) @ crlf) @ req_body r"
    by (simp add: request_to_bytes_def)
  moreover have "\<not> starts_with (start_line (Request r)) ''SIP/''"
    using method_not_sip by simp
  ultimately show ?thesis
    using parse_message_lines [OF wf(3,4), of "req_body r"] parse_show_request_line [OF wf(1,2)]
    by (simp only: wf(5) Let_def if_False min.idem take_all le_refl)
qed

text \<open>C30: the parser reads a well-formed request back from the bytes it is
  sent as: method, URI, version, headers in order, and a body of arbitrary bytes.\<close>

theorem request_roundtrip:
  assumes "request_wf r"
  shows "parse_message (request_to_bytes r) = Inr (Request r)"
  using assms by (rule parse_request_bytes)

definition example_request :: request where
  "example_request =
     \<lparr>req_method = Invite, req_uri = example_uri, req_version = V2,
      req_headers = [H_Via ''SIP/2.0/UDP client.example.com:5060;branch=z9hG4bK-1'', H_MaxForwards ''70'',
        H_From ''<sip:alice@example.com>;tag=a'', H_To ''<sip:bob@example.com>'', H_CallId ''c1'',
        H_CSeq ''1 INVITE'', H_Other ''X-Trace'' [], H_ContentLength ''4''],
      req_body = [CHR 0x00, CHR 0xFF, CHR 0x0D, CHR 0x0A]\<rparr>"

lemma request_roundtrip_witness: "parse_message (request_to_bytes example_request) = Inr (Request example_request)"
proof (rule request_roundtrip)
  show "request_wf example_request" by code_simp
qed

section \<open>Responses\<close>

definition status_wf :: "status_code \<Rightarrow> bool" where
  "status_wf sc \<longleftrightarrow> status_code_code sc < 65536 \<and> from_code (status_code_code sc) (status_code_text sc) = sc \<and>
     trim (status_code_text sc) = status_code_text sc"

definition response_wf :: "response \<Rightarrow> bool" where
  "response_wf r \<longleftrightarrow>
     version_wf (resp_version r) \<and> status_wf (resp_status r) \<and> line_wf (start_line (Response r)) \<and>
     list_all header_wf (resp_headers r) \<and> foldl header_length 0 (resp_headers r) = length (resp_body r)"

lemma parse_show_response_line:
  assumes "version_wf (resp_version r)" and "status_wf (resp_status r)"
  shows "parse_response_line (start_line (Response r)) (resp_headers r) (resp_body r)
    = Inr (Response (r\<lparr>resp_synthetic := False, resp_received_from := None, resp_wire_reason := None\<rparr>))"
proof -
  let ?c = "status_code_code (resp_status r)" and ?t = "status_code_text (resp_status r)"
  have "split_once space_or_tab (start_line (Response r)) = Some (show_version (resp_version r), show_nat ?c @ CHR 0x20 # ?t)"
    using space_split show_version_no_ws by simp
  moreover have "split_once space_or_tab (show_nat ?c @ CHR 0x20 # ?t) = Some (show_nat ?c, ?t)"
    by (intro space_split show_nat_no_ws)
  moreover have "trim ?t = ?t" "from_code ?c ?t = resp_status r" "?c < 2 ^ 16"
    using assms(2) by (simp_all add: status_wf_def)
  moreover have "wire_reason (resp_status r) ?t = None" by (simp add: wire_reason_def)
  ultimately show ?thesis
    using assms(1) by (simp add: parse_response_line_def parse_show_version status_code_try_from_def)
qed

lemma parse_response_bytes:
  assumes "response_wf r"
  shows "parse_message (response_to_bytes r)
    = Inr (Response (r\<lparr>resp_synthetic := False, resp_received_from := None, resp_wire_reason := None\<rparr>))"
proof -
  have wf: "version_wf (resp_version r)" "status_wf (resp_status r)" "line_wf (start_line (Response r))"
      "list_all header_wf (resp_headers r)" "foldl header_length 0 (resp_headers r) = length (resp_body r)"
    using assms by (simp_all add: response_wf_def)
  have "response_to_bytes r = (start_line (Response r) @ crlf @ show_headers (resp_headers r) @ crlf) @ resp_body r"
    by (simp add: response_to_bytes_def)
  moreover have "starts_with (start_line (Response r)) ''SIP/''"
    by (cases "resp_version r") (simp_all add: starts_with_def)
  ultimately show ?thesis
    using parse_message_lines [OF wf(3,4), of "resp_body r"] parse_show_response_line [OF wf(1,2)]
    by (simp only: wf(5) Let_def if_True min.idem take_all le_refl)
qed

text \<open>The parser reads a well-formed response back from its bytes, with
  \<open>synthetic\<close>, \<open>received_from\<close> and \<open>wire_reason\<close> at their defaults: they are never
  serialized.\<close>

theorem response_roundtrip:
  assumes "response_wf r"
  shows "parse_message (response_to_bytes r)
    = Inr (Response (r\<lparr>resp_synthetic := False, resp_received_from := None, resp_wire_reason := None\<rparr>))"
  using assms by (rule parse_response_bytes)

definition example_response :: response where
  "example_response =
     \<lparr>resp_synthetic = True, resp_received_from = None, resp_wire_reason = Some ''Odd'', resp_status = SC_BusyHere,
      resp_version = V2,
      resp_headers = [H_Via ''SIP/2.0/UDP client.example.com:5060;branch=z9hG4bK-1'',
        H_From ''<sip:alice@example.com>;tag=a'', H_To ''<sip:bob@example.com>;tag=b'', H_CallId ''c1'',
        H_CSeq ''1 INVITE'', H_ContentLength ''2''],
      resp_body = ''ok''\<rparr>"

lemma response_roundtrip_witness: "parse_message (response_to_bytes example_response) =
    Inr (Response (example_response\<lparr>resp_synthetic := False, resp_received_from := None, resp_wire_reason := None\<rparr>))"
proof (rule response_roundtrip)
  show "response_wf example_response" by code_simp
qed

end
