(* ===== verification/Stream_Codec.thy ===== *)
theory Stream_Codec
  imports Stack_Error Message_Roundtrip
begin

text \<open>
  The framing of stream transports (\<open>transport/stream.rs\<close>): the keep-alives, the search for
  Content-Length, the message boundary and the loop that drains a buffer. A \<open>usize\<close> is 64 bits
  wide and its addition wraps, as it does in a release build.
\<close>

section \<open>Decoding\<close>

datatype codec_item = CodecMessage sip_message | KeepaliveRequest | KeepaliveResponse

definition MAX_SIP_MESSAGE_SIZE :: nat where
  "MAX_SIP_MESSAGE_SIZE = 65535"

definition is_content_length_name :: "bytes \<Rightarrow> bool" where
  "is_content_length_name hdr \<longleftrightarrow>
     map to_ascii_lowercase hdr = ''content-length'' \<or> map to_ascii_lowercase hdr = ''l''"

text \<open>The loop over the lines of the header section: the first header with one of the two names
  decides, 0 when there is none.\<close>

fun scan_content_length :: "bytes list \<Rightarrow> error + nat" where
  "scan_content_length [] = Inr 0"
| "scan_content_length (l # ls) =
     (case split_once (\<lambda>c. c = CHR '':'') (strip_cr l) of
        Some (hdr, value_buf) \<Rightarrow>
          if is_content_length_name hdr then
            (if \<not> utf8_valid value_buf then Inl (Error ''Invalid Content-Length'')
             else map_err (\<lambda>_. Error ''Invalid Content-Length value'') (parse_uint 64 (trim value_buf)))
          else scan_content_length ls
      | None \<Rightarrow> scan_content_length ls)"

definition total_length :: "nat \<Rightarrow> nat \<Rightarrow> nat" where
  "total_length headers_end content_length =
     unat (word_of_nat headers_end + 4 + word_of_nat content_length :: 64 word)"

definition decode :: "bytes \<Rightarrow> (error + codec_item option) \<times> bytes" where
  "decode src =
     (let idle = (if MAX_SIP_MESSAGE_SIZE < length src then Inl (Error ''SIP message too large'') else Inr None) in
      if starts_with src (crlf @ crlf) then (Inr (Some KeepaliveRequest), drop 4 src)
      else if starts_with src crlf then (Inr (Some KeepaliveResponse), drop 2 src)
      else (case split_double_crlf src of
          None \<Rightarrow> (idle, src)
        | Some (hdrs, _) \<Rightarrow>
            (case scan_content_length (split_on (\<lambda>c. c = CHR 0x0A) (hdrs @ crlf @ crlf)) of
               Inl e \<Rightarrow> (Inl e, src)
             | Inr content_length \<Rightarrow>
                 (let total_len = total_length (length hdrs) content_length in
                  if total_len \<le> length src then
                    (and_then (sip_try (parse_message (take total_len src))) (\<lambda>m. Inr (Some (CodecMessage m))),
                     drop total_len src)
                  else (idle, src)))))"

definition encode :: "sip_message \<Rightarrow> bytes \<Rightarrow> bytes" where
  "encode item dst = dst @ message_to_bytes item"

lemma strip_prefix_length: "strip_prefix p s = Some r \<Longrightarrow> length s = length p + length r"
  by (auto simp: strip_prefix_Some)

lemma parse_message_Nil: "parse_message [] = Inl (ParseError (''SIP message: missing '' @ escaped_crlf @ escaped_crlf @ '' separator''))"
  by code_simp

text \<open>Every decoded item takes at least one byte off the front of the buffer.\<close>

lemma decode_shrinks:
  assumes "decode src = (Inr (Some item), src')"
  shows "\<exists>used. used \<noteq> [] \<and> src = used @ src'"
proof -
  have drop: "\<exists>used. used \<noteq> [] \<and> src = used @ src'" if "src' = drop n src" "0 < n" "n \<le> length src" for n
    using that by (intro exI [of _ "take n src"]) auto
  consider "starts_with src (crlf @ crlf)" | "\<not> starts_with src (crlf @ crlf)" "starts_with src crlf"
    | hdrs b n where "\<not> starts_with src (crlf @ crlf)" "\<not> starts_with src crlf" "split_double_crlf src = Some (hdrs, b)"
        "scan_content_length (split_on (\<lambda>c. c = CHR 0x0A) (hdrs @ crlf @ crlf)) = Inr n" "total_length (length hdrs) n \<le> length src"
    using assms by (auto simp: decode_def Let_def split: if_splits option.splits sum.splits)
  then show ?thesis
  proof cases
    case 1
    then have "4 \<le> length src" by (auto simp: starts_with_def dest!: strip_prefix_length)
    with 1 assms show ?thesis by (intro drop [of 4]) (simp_all add: decode_def Let_def)
  next
    case 2
    then have "2 \<le> length src" by (auto simp: starts_with_def dest!: strip_prefix_length)
    with 2 assms show ?thesis by (intro drop [of 2]) (simp_all add: decode_def Let_def)
  next
    case 3
    with assms have eq: "and_then (sip_try (parse_message (take (total_length (length hdrs) n) src)))
        (\<lambda>m. Inr (Some (CodecMessage m))) = Inr (Some item)" "src' = drop (total_length (length hdrs) n) src"
      by (simp_all add: decode_def Let_def)
    then have "total_length (length hdrs) n \<noteq> 0"
      using parse_message_Nil by (cases "total_length (length hdrs) n") auto
    with 3 eq show ?thesis by (intro drop [of "total_length (length hdrs) n"]) simp_all
  qed
qed

section \<open>Draining a buffer\<close>

text \<open>The inner loop of \<open>serve_loop\<close>: the items decoded from the bytes read so far, the bytes
  left over, and the error that ends the connection.\<close>

function decode_all :: "bytes \<Rightarrow> codec_item list \<times> bytes \<times> error option" where
  "decode_all src =
     (case decode src of
        (Inl e, src') \<Rightarrow> ([], src', Some e)
      | (Inr None, src') \<Rightarrow> ([], src', None)
      | (Inr (Some item), src') \<Rightarrow> (case decode_all src' of (items, r) \<Rightarrow> (item # items, r)))"
  by auto
termination
proof (relation "measure length", goal_cases)
  case (2 src x src' y item)
  then have "decode src = (Inr (Some item), src')" by simp
  then show ?case using decode_shrinks by fastforce
qed simp

declare decode_all.simps [simp del]

text \<open>What the connection answers on its own: every keep-alive request is answered with CRLF.\<close>

fun keepalive_replies :: "codec_item list \<Rightarrow> bytes list" where
  "keepalive_replies [] = []"
| "keepalive_replies (KeepaliveRequest # is) = crlf # keepalive_replies is"
| "keepalive_replies (_ # is) = keepalive_replies is"

definition feed :: "bytes \<Rightarrow> bytes \<Rightarrow> codec_item list \<times> bytes \<times> error option" where
  "feed buffer chunk = decode_all (buffer @ chunk)"

section \<open>Properties\<close>

lemma total_length_exact: "n + 4 + k < 2 ^ 64 \<Longrightarrow> total_length n k = n + 4 + k"
proof -
  assume "n + 4 + k < 2 ^ 64"
  moreover have "(word_of_nat n + 4 + word_of_nat k :: 64 word) = word_of_nat (n + 4 + k)" by simp
  ultimately show ?thesis
    unfolding total_length_def by (simp only: unat_of_nat) simp
qed

lemma split_double_SomeD: "split_double_crlf s = Some (a, b) \<Longrightarrow> s = a @ crlf @ crlf @ b"
proof (induction s arbitrary: a)
  case Nil
  then show ?case by (simp add: split_double_crlf.simps [of "[]"])
next
  case (Cons x s)
  then show ?case
    by (subst (asm) (2) split_double_crlf.simps)
      (auto simp del: strip_prefix.simps simp: strip_prefix_Some split: option.splits)
qed

lemma split_double_Cons: "strip_prefix (crlf @ crlf) (x # s) = None \<Longrightarrow>
    split_double_crlf (x # s) = map_option (\<lambda>(a, b). (x # a, b)) (split_double_crlf s)"
  by (simp add: split_double_crlf.simps [of "x # s"] del: strip_prefix.simps)

lemma split_double_extend: "split_double_crlf s = Some (a, b) \<Longrightarrow> split_double_crlf (s @ t) = Some (a, b @ t)"
proof (induction s arbitrary: a)
  case Nil
  then show ?case by (simp add: split_double_crlf.simps [of "[]"])
next
  case (Cons x s)
  show ?case
  proof (cases "strip_prefix (crlf @ crlf) (x # s)")
    case (Some r)
    then have "x # s = crlf @ crlf @ r" by (simp only: strip_prefix_Some append_assoc)
    moreover from Some Cons.prems have "a = []" "b = r"
      by (simp_all add: split_double_crlf.simps [of "x # s"] del: strip_prefix.simps)
    ultimately show ?thesis by (simp add: split_double_crlf.simps)
  next
    case None
    with Cons.prems obtain a' where a: "a = x # a'" "split_double_crlf s = Some (a', b)"
      by (auto simp: split_double_crlf.simps [of "x # s"] simp del: strip_prefix.simps)
    have "strip_prefix (crlf @ crlf) ((x # s) @ t) = None"
    proof (rule ccontr)
      assume "strip_prefix (crlf @ crlf) ((x # s) @ t) \<noteq> None"
      moreover have "s = a' @ crlf @ crlf @ b" using a(2) by (rule split_double_SomeD)
      ultimately have "\<exists>r. strip_prefix (crlf @ crlf) (x # s) = Some r"
        by (cases a'; cases "tl a'"; cases "tl (tl a')") (auto split: if_splits)
      with None show False by simp
    qed
    then have "strip_prefix (crlf @ crlf) (x # s @ t) = None" by (simp only: append_Cons)
    then have "split_double_crlf (x # s @ t) = map_option (\<lambda>(a, b). (x # a, b)) (split_double_crlf (s @ t))"
      by (rule split_double_Cons)
    with a Cons.IH [OF a(2)] show ?thesis by simp
  qed
qed

lemma split_double_truncated:
  assumes "split_double_crlf src = Some (h, b)" and "k < length h + 4"
  shows "split_double_crlf (take k src) = None"
proof (rule ccontr)
  assume "split_double_crlf (take k src) \<noteq> None"
  then obtain a c where ac: "split_double_crlf (take k src) = Some (a, c)" by auto
  then have "split_double_crlf (take k src @ drop k src) = Some (a, c @ drop k src)" by (rule split_double_extend)
  with assms(1) have "a = h" by simp
  moreover have "length (take k src) = length a + 4 + length c" using split_double_SomeD [OF ac] by simp
  ultimately show False using assms(2) by simp
qed

lemma parse_truncated:
  "split_double_crlf src = Some (h, b) \<Longrightarrow> k < length h + 4 \<Longrightarrow>
   parse_message (take k src) = Inl (ParseError (''SIP message: missing '' @ escaped_crlf @ escaped_crlf @ '' separator''))"
  by (simp add: parse_message_def split_double_truncated)

lemma total_length_wrapped:
  assumes "n + 4 < 2 ^ 64" and "k < 2 ^ 64" and "2 ^ 64 \<le> n + 4 + k"
  shows "total_length n k < n + 4"
proof -
  have "total_length n k = (n + 4 + k) mod 2 ^ 64"
  proof -
    have "(word_of_nat n + 4 + word_of_nat k :: 64 word) = word_of_nat (n + 4 + k)" by simp
    then show ?thesis unfolding total_length_def by (simp only: unat_of_nat) simp
  qed
  also have "\<dots> = n + 4 + k - 2 ^ 64" using assms by (simp add: mod_if)
  finally show ?thesis using assms by simp
qed

lemma scan_bound: "scan_content_length ls = Inr n \<Longrightarrow> n < 2 ^ 64"
  by (induction ls)
    (auto split: option.splits if_splits sum.splits simp: map_err_def dest!: parse_uint_bound [where w = 64])

text \<open>A decoded message takes exactly its header section, the empty line
  and Content-Length bytes off the buffer, and is what the parser makes of those bytes; a
  Content-Length that overflows \<open>usize\<close> never yields a message.\<close>

theorem decode_message_frame:
  assumes "decode src = (Inr (Some (CodecMessage m)), src')" and "length src + 4 < 2 ^ 64"
  shows "\<exists>hdrs n used. split_double_crlf src = Some (hdrs, drop (length hdrs + 4) src)
    \<and> scan_content_length (split_on (\<lambda>c. c = CHR 0x0A) (hdrs @ crlf @ crlf)) = Inr n
    \<and> src = used @ src' \<and> length used = length hdrs + 4 + n \<and> parse_message used = Inr m"
proof -
  obtain hdrs b n where h: "split_double_crlf src = Some (hdrs, b)"
      "scan_content_length (split_on (\<lambda>c. c = CHR 0x0A) (hdrs @ crlf @ crlf)) = Inr n"
      "total_length (length hdrs) n \<le> length src" "src' = drop (total_length (length hdrs) n) src"
      "parse_message (take (total_length (length hdrs) n) src) = Inr m"
    using assms(1) by (auto simp: decode_def Let_def and_then_eq_Inr split: if_splits option.splits sum.splits)
  have src: "src = hdrs @ crlf @ crlf @ b" using h(1) by (rule split_double_SomeD)
  have "length hdrs + 4 + n < 2 ^ 64"
  proof (rule ccontr)
    assume "\<not> length hdrs + 4 + n < 2 ^ 64"
    then have "total_length (length hdrs) n < length hdrs + 4"
      using assms(2) scan_bound [OF h(2)] src by (intro total_length_wrapped) auto
    with h(1,5) parse_truncated show False by fastforce
  qed
  then have len: "total_length (length hdrs) n = length hdrs + 4 + n" by (rule total_length_exact)
  moreover have "b = drop (length hdrs + 4) src" using src by simp
  ultimately show ?thesis
    using h by (intro exI [of _ hdrs] exI [of _ n] exI [of _ "take (length hdrs + 4 + n) src"]) auto
qed

section \<open>Decoding what was encoded\<close>

lemma split_lf_lines: "list_all line_wf ls \<Longrightarrow> ls \<noteq> [] \<Longrightarrow>
    split_on (\<lambda>c. c = CHR 0x0A) (join crlf ls @ crlf @ crlf) = map (\<lambda>l. l @ [CHR 0x0D]) ls @ [[CHR 0x0D], []]"
proof (induction ls)
  case (Cons l ls)
  have hit: "split_on (\<lambda>c. c = CHR 0x0A) ((l @ [CHR 0x0D]) @ CHR 0x0A # r) = (l @ [CHR 0x0D]) # split_on (\<lambda>c. c = CHR 0x0A) r" for r
    by (rule split_on_hit) (use Cons.prems in \<open>auto simp: line_wf_def\<close>)
  show ?case
  proof (cases ls)
    case Nil
    with hit [of crlf] show ?thesis by simp
  next
    case (Cons m ms)
    have "join crlf (l # ls) @ crlf @ crlf = (l @ [CHR 0x0D]) @ CHR 0x0A # (join crlf ls @ crlf @ crlf)"
      by (simp add: local.Cons)
    moreover have "split_on (\<lambda>c. c = CHR 0x0A) (join crlf ls @ crlf @ crlf) = map (\<lambda>l. l @ [CHR 0x0D]) ls @ [[CHR 0x0D], []]"
      using Cons.IH Cons.prems local.Cons by simp
    ultimately show ?thesis using hit by (simp only: list.map append_Cons)
  qed
qed simp

text \<open>Every Content-Length header of the message says the length of its body.\<close>

definition lengths_agree :: "nat \<Rightarrow> header list \<Rightarrow> bool" where
  "lengths_agree n hs \<longleftrightarrow>
     list_all (\<lambda>h. is_content_length_name (header_name h) \<longrightarrow> header_value h = show_nat n) hs"

lemma content_length_names: "is_content_length_name n \<longleftrightarrow>
    eq_ignore_ascii_case n ''content-length'' \<or> eq_ignore_ascii_case n ''l''"
  by (simp add: is_content_length_name_def eq_ignore_ascii_case_map)

lemma digits_utf8: "utf8_valid (show_nat n)" "utf8_valid (CHR 0x20 # show_nat n)"
  by (rule utf8_valid_ascii, auto dest!: show_nat_digits simp: is_ascii_digit_def)+

lemma header_colon: "header_wf h \<Longrightarrow> split_once (\<lambda>c. c = CHR '':'') (strip_cr (show_header h @ [CHR 0x0D]))
    = Some (header_name h, CHR 0x20 # header_value h)"
proof -
  assume wf: "header_wf h"
  have "strip_cr (show_header h @ [CHR 0x0D]) = show_header h"
    using wf by (intro strip_cr_line) (simp add: header_wf_def)
  moreover have "split_once (\<lambda>c. c = CHR '':'') (header_name h @ CHR '':'' # CHR 0x20 # header_value h)
      = Some (header_name h, CHR 0x20 # header_value h)"
    by (rule split_once_hit) (use wf in \<open>auto simp: header_wf_def\<close>)
  ultimately show ?thesis by (simp add: show_header_eq)
qed

lemma scan_headers:
  assumes "list_all header_wf hs" and "lengths_agree n hs" and "n < 2 ^ 64"
  shows "scan_content_length (map (\<lambda>h. show_header h @ [CHR 0x0D]) hs @ [[CHR 0x0D], []])
    = Inr (if list_ex (\<lambda>h. is_content_length_name (header_name h)) hs then n else 0)"
  using assms(1,2)
proof (induction hs)
  case Nil
  show ?case by (simp add: strip_cr_def)
next
  case (Cons h hs)
  show ?case
  proof (cases "is_content_length_name (header_name h)")
    case True
    with Cons.prems have "header_value h = show_nat n" by (simp add: lengths_agree_def)
    with True Cons.prems assms(3) show ?thesis by (simp add: header_colon digits_utf8 trim_space)
  next
    case False
    with Cons show ?thesis by (simp add: header_colon lengths_agree_def)
  qed
qed

lemma foldl_length_agree:
  assumes "lengths_agree n hs" and "n < 2 ^ 64"
  shows "foldl header_length k hs = (if list_ex (\<lambda>h. is_content_length_name (header_name h)) hs then n else k)"
  using assms(1)
  by (induction hs arbitrary: k)
    (use assms(2) in \<open>auto simp: lengths_agree_def header_length_def content_length_names\<close>)

lemma stream_shape:
  assumes "line_wf start" and "list_all header_wf hs"
  shows "split_double_crlf ((start @ crlf @ show_headers hs @ crlf) @ body) = Some (join crlf (start # map show_header hs), body)"
    and "split_on (\<lambda>c. c = CHR 0x0A) (join crlf (start # map show_header hs) @ crlf @ crlf)
      = (start @ [CHR 0x0D]) # map (\<lambda>h. show_header h @ [CHR 0x0D]) hs @ [[CHR 0x0D], []]"
proof -
  have ls: "list_all line_wf (start # map show_header hs)"
    using assms by (auto simp: list_all_iff header_wf_def)
  show "split_double_crlf ((start @ crlf @ show_headers hs @ crlf) @ body) = Some (join crlf (start # map show_header hs), body)"
    unfolding message_bytes_lines using ls by (rule split_double_lines) simp
  show "split_on (\<lambda>c. c = CHR 0x0A) (join crlf (start # map show_header hs) @ crlf @ crlf)
      = (start @ [CHR 0x0D]) # map (\<lambda>h. show_header h @ [CHR 0x0D]) hs @ [[CHR 0x0D], []]"
    using split_lf_lines [OF ls] by simp
qed

text \<open>The text before the first colon of a start line holds a space, so it is no header name.\<close>

lemma scan_start_line:
  assumes "line_wf start" and "CHR 0x20 \<in> set (takeWhile (\<lambda>c. c \<noteq> CHR '':'') start)"
  shows "scan_content_length ((start @ [CHR 0x0D]) # ls) = scan_content_length ls"
proof (cases "split_once (\<lambda>c. c = CHR '':'') start")
  case None
  with assms(1) show ?thesis by (simp add: strip_cr_line)
next
  case (Some ab)
  then obtain a b where ab: "split_once (\<lambda>c. c = CHR '':'') start = Some (a, b)" by (cases ab) auto
  then have "takeWhile (\<lambda>c. c \<noteq> CHR '':'') start = a"
    by (auto simp: split_once_Some_iff takeWhile_append2)
  with assms(2) have "CHR 0x20 \<in> set a" by simp
  then have "to_ascii_lowercase CHR 0x20 \<in> set (map to_ascii_lowercase a)" by (metis image_eqI set_map)
  then have "\<not> is_content_length_name a" by (auto simp: is_content_length_name_def)
  with ab assms(1) show ?thesis by (simp add: strip_cr_line)
qed

lemma decode_lines:
  assumes "line_wf start" and "list_all header_wf hs" and "CHR 0x20 \<in> set (takeWhile (\<lambda>c. c \<noteq> CHR '':'') start)"
    and "lengths_agree (length body) hs" and "foldl header_length 0 hs = length body"
    and "length ((start @ crlf @ show_headers hs @ crlf) @ body) < 2 ^ 64"
  defines "msg \<equiv> (start @ crlf @ show_headers hs @ crlf) @ body"
  shows "decode (msg @ rest) = (and_then (sip_try (parse_message msg)) (\<lambda>m. Inr (Some (CodecMessage m))), rest)"
proof -
  define J where "J = join crlf (start # map show_header hs)"
  have sp: "split_double_crlf (msg @ rest) = Some (J, body @ rest)"
    using stream_shape(1) [OF assms(1,2), of "body @ rest"] by (simp add: msg_def J_def)
  then have "msg @ rest = J @ crlf @ crlf @ body @ rest" by (rule split_double_SomeD)
  then have "length (msg @ rest) = length (J @ crlf @ crlf @ body @ rest)" by (rule arg_cong)
  then have len: "length msg = length J + 4 + length body" by simp
  have small: "length body < 2 ^ 64" using len assms(6) unfolding msg_def by simp
  have "scan_content_length (split_on (\<lambda>c. c = CHR 0x0A) (J @ crlf @ crlf))
      = Inr (if list_ex (\<lambda>h. is_content_length_name (header_name h)) hs then length body else 0)"
    unfolding J_def stream_shape(2) [OF assms(1,2)] scan_start_line [OF assms(1,3)]
    by (rule scan_headers [OF assms(2,4) small])
  also have "(if list_ex (\<lambda>h. is_content_length_name (header_name h)) hs then length body else 0) = length body"
    using foldl_length_agree [OF assms(4) small, of 0] assms(5) by simp
  finally have scan: "scan_content_length (split_on (\<lambda>c. c = CHR 0x0A) (J @ crlf @ crlf)) = Inr (length body)" .
  have tot: "total_length (length J) (length body) = length msg"
    using total_length_exact [of "length J" "length body"] len assms(6) unfolding msg_def by simp
  obtain c cs where s: "start = c # cs" "c \<noteq> CHR 0x0D" using assms(1) by (cases start) (auto simp: line_wf_def)
  then have "\<not> starts_with (msg @ rest) (crlf @ crlf)" and "\<not> starts_with (msg @ rest) crlf"
    by (simp_all add: msg_def starts_with_def)
  then show ?thesis
    unfolding decode_def Let_def using sp scan tot by simp
qed

definition message_wf :: "sip_message \<Rightarrow> bool" where
  "message_wf m \<longleftrightarrow>
     (case m of
        Request r \<Rightarrow> request_wf r \<and> lengths_agree (length (req_body r)) (req_headers r)
      | Response r \<Rightarrow> response_wf r \<and> lengths_agree (length (resp_body r)) (resp_headers r)
          \<and> resp_synthetic r = False \<and> resp_received_from r = None \<and> resp_wire_reason r = None) \<and>
     length (message_to_bytes m) < 2 ^ 64"

lemma takeWhile_space: "CHR '':'' \<notin> set a \<Longrightarrow> CHR 0x20 \<in> set (takeWhile (\<lambda>c. c \<noteq> CHR '':'') (a @ CHR 0x20 # r))"
  by (induction a) auto

lemma start_line_space: "CHR 0x20 \<in> set (takeWhile (\<lambda>c. c \<noteq> CHR '':'') (start_line m))"
proof (cases m)
  case (Request r)
  have "CHR '':'' \<notin> set (show_method (req_method r))" by (cases "req_method r") simp_all
  then show ?thesis using takeWhile_space by (simp add: Request)
next
  case (Response r)
  have "CHR '':'' \<notin> set (show_version (resp_version r))"
    by (cases "resp_version r") (auto dest!: show_nat_digits simp: is_ascii_digit_def)
  then show ?thesis using takeWhile_space by (simp add: Response)
qed

lemma decode_encoded:
  assumes "message_wf m"
  shows "decode (encode m [] @ rest) = (Inr (Some (CodecMessage m)), rest)"
proof (cases m)
  case (Request r)
  then have "request_wf r" and "lengths_agree (length (req_body r)) (req_headers r)"
    and "length (request_to_bytes r) < 2 ^ 64"
    using assms by (simp_all add: message_wf_def)
  moreover have "request_to_bytes r = (start_line m @ crlf @ show_headers (req_headers r) @ crlf) @ req_body r"
    by (simp add: request_to_bytes_def Request)
  ultimately show ?thesis
    using decode_lines [of "start_line m" "req_headers r" "req_body r" rest] start_line_space [of m] parse_request_bytes [of r]
    by (simp add: encode_def Request request_wf_def)
next
  case (Response r)
  then have "response_wf r" and "lengths_agree (length (resp_body r)) (resp_headers r)"
    and "length (response_to_bytes r) < 2 ^ 64"
    and "r\<lparr>resp_synthetic := False, resp_received_from := None, resp_wire_reason := None\<rparr> = r"
    using assms by (simp_all add: message_wf_def)
  moreover have "response_to_bytes r = (start_line m @ crlf @ show_headers (resp_headers r) @ crlf) @ resp_body r"
    by (simp add: response_to_bytes_def Response)
  ultimately show ?thesis
    using decode_lines [of "start_line m" "resp_headers r" "resp_body r" rest] start_line_space [of m] parse_response_bytes [of r]
    by (simp add: encode_def Response response_wf_def)
qed

text \<open>Decoding gives back the message that was encoded and leaves exactly the
  bytes that follow it, so messages written back to back on a stream are separated again.\<close>

theorem decode_encode:
  assumes "message_wf m"
  shows "decode (encode m [] @ rest) = (Inr (Some (CodecMessage m)), rest)"
  using assms by (rule decode_encoded)

lemma decode_encode_witness:
  "decode (encode (Request example_request) [] @ ''SIP/2.0'') = (Inr (Some (CodecMessage (Request example_request))), ''SIP/2.0'')"
proof (rule decode_encode)
  show "message_wf (Request example_request)" by code_simp
qed

text \<open>Draining a buffer that holds encoded messages back to back and then
  an incomplete tail yields the messages in order, keeps the tail and reports no error.\<close>

theorem decode_all_pipeline:
  assumes "list_all message_wf ms" and "decode rest = (Inr None, rest)"
  shows "decode_all (concat (map (\<lambda>m. encode m []) ms) @ rest) = (map CodecMessage ms, rest, None)"
  using assms(1)
proof (induction ms)
  case Nil
  then show ?case using assms(2) by (simp add: decode_all.simps)
next
  case (Cons m ms)
  then have "decode (encode m [] @ (concat (map (\<lambda>m. encode m []) ms) @ rest))
      = (Inr (Some (CodecMessage m)), concat (map (\<lambda>m. encode m []) ms) @ rest)"
    by (intro decode_encoded) simp
  with Cons show ?case by (subst decode_all.simps) simp
qed

lemma decode_all_pipeline_witness:
  "decode_all (concat (map (\<lambda>m. encode m []) [Request example_request, Request example_request]) @ ''SIP/2.0 2'')
   = (map CodecMessage [Request example_request, Request example_request], ''SIP/2.0 2'', None)"
proof (rule decode_all_pipeline)
  show "list_all message_wf [Request example_request, Request example_request]" by code_simp
  show "decode ''SIP/2.0 2'' = (Inr None, ''SIP/2.0 2'')" by code_simp
qed

lemma decode_message_frame_witness:
  "\<exists>hdrs n used. split_double_crlf (encode (Request example_request) [] @ ''x'') =
      Some (hdrs, drop (length hdrs + 4) (encode (Request example_request) [] @ ''x''))
    \<and> scan_content_length (split_on (\<lambda>c. c = CHR 0x0A) (hdrs @ crlf @ crlf)) = Inr n
    \<and> encode (Request example_request) [] @ ''x'' = used @ ''x'' \<and> length used = length hdrs + 4 + n
    \<and> parse_message used = Inr (Request example_request)"
proof (rule decode_message_frame)
  show "decode (encode (Request example_request) [] @ ''x'') = (Inr (Some (CodecMessage (Request example_request))), ''x'')"
    by (rule decode_encoded) code_simp
  show "length (encode (Request example_request) [] @ ''x'') + 4 < 2 ^ 64" by code_simp
qed

section \<open>Where framing and parsing disagree\<close>

text \<open>A double-CRLF keep-alive is answered when its four bytes are read
  together, and is taken for two keep-alive responses, so not answered, when they are read in
  two parts.\<close>

theorem keepalive_split:
  "feed [] (crlf @ crlf) = ([KeepaliveRequest], [], None)
   \<and> feed [] crlf = ([KeepaliveResponse], [], None)
   \<and> keepalive_replies [KeepaliveRequest] = [crlf] \<and> keepalive_replies [KeepaliveResponse, KeepaliveResponse] = []"
  by (simp add: feed_def) code_simp

text \<open>A request with a space before the colon of its Content-Length header.\<close>

definition spaced_length_head :: bytes where
  "spaced_length_head = ''INFO sip:a@b SIP/2.0'' @ crlf @ ''Content-Length : 4'' @ crlf @ crlf"

text \<open>The parser trims the name of a Content-Length header and takes
  the body; the stream decoder does not, delivers the message without its body and leaves the body in
  the buffer as the start of the next message.\<close>

theorem spaced_length_disagree:
  "(case parse_message (spaced_length_head @ ''BODY'') of Inr (Request r) \<Rightarrow> req_body r = ''BODY'' | _ \<Rightarrow> False)
   \<and> (case decode (spaced_length_head @ ''BODY'') of
        (Inr (Some (CodecMessage (Request r))), rest) \<Rightarrow> req_body r = [] \<and> rest = ''BODY'' | _ \<Rightarrow> False)"
  by code_simp

end
