(* ===== verification/Timer_Queue.thy ===== *)
theory Timer_Queue
  imports Rust_Prelude
begin

text \<open>
  \<open>transaction/timer.rs\<close>: the timer queue of the endpoint. Its \<open>BTreeMap\<close> from keys to tasks
  is an association list kept in key order, the map from ids to deadlines a partial function, an
  \<open>Instant\<close> a number of milliseconds and the id counter a 64-bit counter that wraps. What an
  operation tells the waiting task (\<open>notify_waiters\<close> or \<open>notify_one\<close>) is part of its result.
\<close>

section \<open>Keys\<close>

datatype timer_key = TimerKey (tk_execute_at: nat) (tk_task_id: nat)

definition timer_key_le :: "timer_key \<Rightarrow> timer_key \<Rightarrow> bool" where
  "timer_key_le a b \<longleftrightarrow> tk_execute_at a < tk_execute_at b
     \<or> tk_execute_at a = tk_execute_at b \<and> tk_task_id a \<le> tk_task_id b"

instantiation timer_key :: linorder
begin

definition less_eq_timer_key :: "timer_key \<Rightarrow> timer_key \<Rightarrow> bool" where
  "a \<le> b \<longleftrightarrow> timer_key_le a b"

definition less_timer_key :: "timer_key \<Rightarrow> timer_key \<Rightarrow> bool" where
  "a < b \<longleftrightarrow> tk_execute_at a < tk_execute_at b
     \<or> tk_execute_at a = tk_execute_at b \<and> tk_task_id a < tk_task_id b"

instance
  by standard (auto simp: less_eq_timer_key_def timer_key_le_def less_timer_key_def timer_key.expand)

end

section \<open>Ordered maps\<close>

fun btree_insert :: "'k::linorder \<Rightarrow> 'v \<Rightarrow> ('k \<times> 'v) list \<Rightarrow> ('k \<times> 'v) list" where
  "btree_insert k v [] = [(k, v)]"
| "btree_insert k v ((k', v') # xs) =
     (if k < k' then (k, v) # (k', v') # xs
      else if k = k' then (k, v) # xs
      else (k', v') # btree_insert k v xs)"

fun btree_remove :: "'k \<Rightarrow> ('k \<times> 'v) list \<Rightarrow> 'v option \<times> ('k \<times> 'v) list" where
  "btree_remove k [] = (None, [])"
| "btree_remove k ((k', v') # xs) =
     (if k = k' then (Some v', xs)
      else (case btree_remove k xs of (r, xs') \<Rightarrow> (r, (k', v') # xs')))"

definition btree_ok :: "('k::linorder \<times> 'v) list \<Rightarrow> bool" where
  "btree_ok xs \<longleftrightarrow> sorted_wrt (<) (map fst xs)"

lemma set_btree_insert: "fst ` set (btree_insert k v xs) = insert k (fst ` set xs)"
proof (induction xs)
  case (Cons x xs)
  then show ?case by (cases x) auto
qed simp

lemma btree_insert_keys: "y \<in> set (btree_insert k v xs) \<Longrightarrow> fst y = k \<or> fst y \<in> fst ` set xs"
  using set_btree_insert [of k v xs] by blast

lemma btree_ok_Cons: "btree_ok ((k, v) # xs) \<longleftrightarrow> btree_ok xs \<and> (\<forall>k' \<in> fst ` set xs. k < k')"
  by (auto simp: btree_ok_def)

lemma btree_ok_insert: "btree_ok xs \<Longrightarrow> btree_ok (btree_insert k v xs)"
proof (induction k v xs rule: btree_insert.induct)
  case (2 k v k' v' xs)
  show ?case
  proof (cases "k < k' \<or> k = k'")
    case True
    with 2 show ?thesis by (auto simp: btree_ok_Cons)
  next
    case False
    then have "k' < k" by auto
    with False 2 show ?thesis by (simp add: btree_ok_Cons set_btree_insert)
  qed
qed (simp add: btree_ok_def)

lemma map_of_btree_insert: "btree_ok xs \<Longrightarrow> map_of (btree_insert k v xs) = (map_of xs)(k \<mapsto> v)"
proof (induction xs)
  case (Cons x xs)
  obtain k' v' where x: "x = (k', v')" by (cases x)
  show ?case
  proof (cases "k < k'")
    case True
    with x show ?thesis by auto
  next
    case False
    with Cons x show ?thesis by (auto simp: btree_ok_def)
  qed
qed simp

lemma btree_remove_spec: "btree_ok xs \<Longrightarrow>
    fst (btree_remove k xs) = map_of xs k \<and> map_of (snd (btree_remove k xs)) = (map_of xs)(k := None)
    \<and> set (snd (btree_remove k xs)) \<subseteq> set xs \<and> btree_ok (snd (btree_remove k xs))"
proof (induction xs)
  case (Cons x xs)
  obtain k' v' where x: "x = (k', v')" by (cases x)
  have ok: "btree_ok xs" using Cons.prems by (simp add: btree_ok_def)
  have above: "\<forall>y \<in> set xs. k' < fst y" using Cons.prems x by (simp add: btree_ok_def)
  show ?case
  proof (cases "k = k'")
    case True
    have "map_of xs k' = None"
      using above by (auto simp: map_of_eq_None_iff)
    then show ?thesis using True x ok by (auto simp: fun_eq_iff)
  next
    case False
    have "\<forall>y \<in> set (snd (btree_remove k xs)). k' < fst y" using Cons.IH [OF ok] above by blast
    with False x Cons.IH [OF ok] show ?thesis
      by (cases "btree_remove k xs") (auto simp: btree_ok_def fun_eq_iff)
  qed
qed (simp add: btree_ok_def)

lemma map_of_btree: "btree_ok xs \<Longrightarrow> (k, v) \<in> set xs \<longleftrightarrow> map_of xs k = Some v"
proof -
  assume "btree_ok xs"
  then have "distinct (map fst xs)"
    unfolding btree_ok_def by (simp add: strict_sorted_iff)
  then show ?thesis by simp
qed

section \<open>The queue\<close>

record 'a timer =
  t_tasks :: "(timer_key \<times> 'a) list"
  t_ids :: "nat \<rightharpoonup> nat"
  t_last_task_id :: nat

datatype wake = NotifyWaiters | NotifyOne

definition timer_new :: "'a timer" where
  "timer_new = \<lparr>t_tasks = [], t_ids = Map.empty, t_last_task_id = 1\<rparr>"

definition timer_len :: "'a timer \<Rightarrow> nat" where
  "timer_len q = length (t_tasks q)"

definition timeout_at :: "nat \<Rightarrow> 'a \<Rightarrow> 'a timer \<Rightarrow> nat \<times> wake \<times> 'a timer" where
  "timeout_at execute_at v q =
     (let task_id = t_last_task_id q;
          key = TimerKey execute_at task_id;
          should_notify = (case t_tasks q of (hd_key, _) # _ \<Rightarrow> key < hd_key | [] \<Rightarrow> True)
      in (task_id, if should_notify then NotifyWaiters else NotifyOne,
          q\<lparr>t_tasks := btree_insert key v (t_tasks q), t_ids := (t_ids q)(task_id \<mapsto> execute_at),
            t_last_task_id := (task_id + 1) mod 2 ^ 64\<rparr>))"

definition timer_timeout :: "nat \<Rightarrow> nat \<Rightarrow> 'a \<Rightarrow> 'a timer \<Rightarrow> nat \<times> wake \<times> 'a timer" where
  "timer_timeout now duration v q = timeout_at (now + duration) v q"

definition timer_cancel :: "nat \<Rightarrow> 'a timer \<Rightarrow> 'a option \<times> wake option \<times> 'a timer" where
  "timer_cancel task_id q =
     (case t_ids q task_id of
        None \<Rightarrow> (None, None, q)
      | Some execute_at \<Rightarrow>
          (let key = TimerKey execute_at task_id;
               was_head = (case t_tasks q of (hd_key, _) # _ \<Rightarrow> hd_key = key | [] \<Rightarrow> False);
               (removed, rest) = btree_remove key (t_tasks q)
           in (removed,
               if removed = None then None else Some (if was_head then NotifyWaiters else NotifyOne),
               q\<lparr>t_tasks := rest, t_ids := (t_ids q)(task_id := None)\<rparr>)))"

fun collect_ready :: "nat \<Rightarrow> (timer_key \<times> 'a) list \<Rightarrow> (nat \<rightharpoonup> nat) \<Rightarrow>
    'a list \<times> (timer_key \<times> 'a) list \<times> (nat \<rightharpoonup> nat)" where
  "collect_ready now [] ids = ([], [], ids)"
| "collect_ready now ((k, v) # xs) ids =
     (if now < tk_execute_at k then ([], (k, v) # xs, ids)
      else (case collect_ready now xs (ids(tk_task_id k := None)) of (ready, r) \<Rightarrow> (v # ready, r)))"

definition timer_poll :: "nat \<Rightarrow> 'a timer \<Rightarrow> 'a list \<times> 'a timer" where
  "timer_poll now q =
     (case collect_ready now (t_tasks q) (t_ids q) of
        (ready, tasks, ids) \<Rightarrow> (ready, q\<lparr>t_tasks := tasks, t_ids := ids\<rparr>))"

definition next_deadline :: "'a timer \<Rightarrow> nat option" where
  "next_deadline q = (case t_tasks q of [] \<Rightarrow> None | (k, _) # _ \<Rightarrow> Some (tk_execute_at k))"

text \<open>One round of \<open>wait_for_ready\<close>: the values to return, or how long to sleep.\<close>

datatype 'a wait_round = Ready "'a list" | SleepFor nat | SleepUntilNotified

definition wait_for_ready_round :: "nat \<Rightarrow> 'a timer \<Rightarrow> 'a wait_round \<times> 'a timer" where
  "wait_for_ready_round now q =
     (case timer_poll now q of (ready, q') \<Rightarrow>
        if ready \<noteq> [] then (Ready ready, q')
        else (case next_deadline q' of
            Some deadline \<Rightarrow> (SleepFor (deadline - now), q')
          | None \<Rightarrow> (SleepUntilNotified, q')))"

section \<open>The interface\<close>

text \<open>
  What the transaction layer relies on. \<open>pending q id\<close> is the deadline and value of a timer that
  has neither fired nor been cancelled; \<open>room q\<close> says the id counter has not run out.
\<close>

locale timer_service =
  fixes inv :: "'q \<Rightarrow> bool" and room :: "'q \<Rightarrow> bool"
    and pending :: "'q \<Rightarrow> nat \<rightharpoonup> (nat \<times> 'a)"
    and schedule :: "nat \<Rightarrow> 'a \<Rightarrow> 'q \<Rightarrow> nat \<times> 'q"
    and cancel :: "nat \<Rightarrow> 'q \<Rightarrow> 'a option \<times> 'q"
    and poll :: "nat \<Rightarrow> 'q \<Rightarrow> 'a list \<times> 'q"
  assumes schedule_inv: "inv q \<Longrightarrow> room q \<Longrightarrow> inv (snd (schedule t v q))"
    and schedule_fresh: "inv q \<Longrightarrow> room q \<Longrightarrow> pending q (fst (schedule t v q)) = None"
    and schedule_pending: "inv q \<Longrightarrow> room q \<Longrightarrow>
          pending (snd (schedule t v q)) = (pending q)(fst (schedule t v q) \<mapsto> (t, v))"
    and cancel_inv: "inv q \<Longrightarrow> inv (snd (cancel i q))"
    and cancel_value: "inv q \<Longrightarrow> fst (cancel i q) = map_option snd (pending q i)"
    and cancel_pending: "inv q \<Longrightarrow> pending (snd (cancel i q)) = (pending q)(i := None)"
    and poll_inv: "inv q \<Longrightarrow> inv (snd (poll now q))"
    and poll_values: "inv q \<Longrightarrow> set (fst (poll now q)) = {v. \<exists>i t. pending q i = Some (t, v) \<and> t \<le> now}"
    and poll_pending: "inv q \<Longrightarrow> pending (snd (poll now q)) i =
          (case pending q i of Some (t, v) \<Rightarrow> if t \<le> now then None else Some (t, v) | None \<Rightarrow> None)"
begin

lemma cancel_scheduled:
  "inv q \<Longrightarrow> room q \<Longrightarrow> fst (cancel (fst (schedule t v q)) (snd (schedule t v q))) = Some v"
  by (simp add: cancel_value schedule_inv schedule_pending)

lemma cancel_restores:
  "inv q \<Longrightarrow> room q \<Longrightarrow> pending (snd (cancel (fst (schedule t v q)) (snd (schedule t v q)))) = pending q"
  using schedule_fresh [of q t v] by (simp add: cancel_pending schedule_inv schedule_pending fun_upd_idem)

lemma cancelled_never_fires:
  "inv q \<Longrightarrow> v \<in> set (fst (poll now (snd (cancel i q)))) \<Longrightarrow> \<exists>j t. j \<noteq> i \<and> pending q j = Some (t, v) \<and> t \<le> now"
  by (auto simp: poll_values cancel_inv cancel_pending split: if_splits)

lemma fires_on_time:
  "inv q \<Longrightarrow> pending q i = Some (t, v) \<Longrightarrow>
   (t \<le> now \<longrightarrow> v \<in> set (fst (poll now q)) \<and> pending (snd (poll now q)) i = None)
   \<and> (now < t \<longrightarrow> pending (snd (poll now q)) i = Some (t, v))"
  by (auto simp: poll_values poll_pending)

lemma poll_twice: "inv q \<Longrightarrow> fst (poll now (snd (poll now q))) = []"
proof -
  assume inv: "inv q"
  have "set (fst (poll now (snd (poll now q)))) = {}"
    using inv by (auto simp: poll_values poll_inv poll_pending split: option.splits if_splits)
  then show ?thesis by simp
qed

end

section \<open>The queue provides the interface\<close>

definition timer_inv :: "'a timer \<Rightarrow> bool" where
  "timer_inv q \<longleftrightarrow> btree_ok (t_tasks q)
     \<and> (\<forall>i t. t_ids q i = Some t \<longleftrightarrow> TimerKey t i \<in> fst ` set (t_tasks q))
     \<and> (\<forall>i t. t_ids q i = Some t \<longrightarrow> i < t_last_task_id q) \<and> t_last_task_id q < 2 ^ 64"

definition timer_room :: "'a timer \<Rightarrow> bool" where
  "timer_room q \<longleftrightarrow> t_last_task_id q + 1 < 2 ^ 64"

definition timer_pending :: "'a timer \<Rightarrow> nat \<rightharpoonup> (nat \<times> 'a)" where
  "timer_pending q i = Option.bind (t_ids q i) (\<lambda>t. map_option (Pair t) (map_of (t_tasks q) (TimerKey t i)))"

definition queue_schedule :: "nat \<Rightarrow> 'a \<Rightarrow> 'a timer \<Rightarrow> nat \<times> 'a timer" where
  "queue_schedule t v q = (case timeout_at t v q of (i, _, q') \<Rightarrow> (i, q'))"

definition queue_cancel :: "nat \<Rightarrow> 'a timer \<Rightarrow> 'a option \<times> 'a timer" where
  "queue_cancel i q = (case timer_cancel i q of (v, _, q') \<Rightarrow> (v, q'))"

lemma pending_iff: "timer_inv q \<Longrightarrow> timer_pending q i = Some (t, v) \<longleftrightarrow> (TimerKey t i, v) \<in> set (t_tasks q)"
  unfolding timer_inv_def timer_pending_def
  by (auto simp: map_of_btree bind_eq_Some_conv) (metis fst_conv image_eqI map_of_btree)


lemma option_pair_eqI: "(\<And>t v. x = Some (t, v) \<longleftrightarrow> y = Some (t, v)) \<Longrightarrow> x = y"
  by (cases x; cases y) auto

lemma schedule_eq: "queue_schedule t v q = (t_last_task_id q,
    q\<lparr>t_tasks := btree_insert (TimerKey t (t_last_task_id q)) v (t_tasks q),
      t_ids := (t_ids q)(t_last_task_id q \<mapsto> t), t_last_task_id := (t_last_task_id q + 1) mod 2 ^ 64\<rparr>)"
  by (simp add: queue_schedule_def timeout_at_def Let_def)

lemma timer_inv_new: "timer_inv timer_new"
  by (simp add: timer_inv_def timer_new_def btree_ok_def)

lemma timer_invD:
  assumes "timer_inv q"
  shows "btree_ok (t_tasks q)" and "t_ids q i = Some t \<longleftrightarrow> TimerKey t i \<in> fst ` set (t_tasks q)"
    and "t_ids q i = Some t \<Longrightarrow> i < t_last_task_id q" and "t_last_task_id q < 2 ^ 64"
  using assms unfolding timer_inv_def by blast+

lemma fresh_id: "timer_inv q \<Longrightarrow> TimerKey s (t_last_task_id q) \<notin> fst ` set (t_tasks q)"
  using timer_invD(2,3) by (metis less_irrefl)

lemma timer_inv_schedule:
  assumes inv: "timer_inv q" and room: "timer_room q"
  shows "timer_inv (snd (queue_schedule t v q))"
proof -
  let ?n = "t_last_task_id q" and ?q = "snd (queue_schedule t v q)"
  have q: "t_tasks ?q = btree_insert (TimerKey t ?n) v (t_tasks q)" "t_ids ?q = (t_ids q)(?n \<mapsto> t)"
      "t_last_task_id ?q = ?n + 1"
    using room by (simp_all add: schedule_eq timer_room_def)
  have "t_ids ?q i = Some s \<longleftrightarrow> TimerKey s i \<in> fst ` set (t_tasks ?q)" for i s
    using fresh_id [OF inv, of s] timer_invD(2) [OF inv, of i s]
    by (cases "i = ?n") (auto simp: q set_btree_insert simp del: fun_upd_apply set_map simp add: fun_upd_def)
  moreover have "i < ?n + 1" if "t_ids ?q i = Some s" for i s
    using that timer_invD(3) [OF inv, of i s] by (cases "i = ?n") (simp_all add: q)
  moreover have "btree_ok (t_tasks ?q)" by (simp add: q btree_ok_insert timer_invD(1) [OF inv])
  ultimately show ?thesis unfolding timer_inv_def using room by (simp add: q(3) timer_room_def)
qed

lemma set_insert_fresh: "k \<notin> fst ` set xs \<Longrightarrow> set (btree_insert k v xs) = insert (k, v) (set xs)"
  by (induction k v xs rule: btree_insert.induct) auto

lemma schedule_pending_eq: "timer_inv q \<Longrightarrow> timer_room q \<Longrightarrow>
    timer_pending (snd (queue_schedule t v q)) = (timer_pending q)(fst (queue_schedule t v q) \<mapsto> (t, v))"
proof (rule ext, rule option_pair_eqI)
  fix i s w
  assume inv: "timer_inv q" and room: "timer_room q"
  let ?n = "t_last_task_id q"
  note fresh = fresh_id [OF inv]
  have "timer_pending (snd (queue_schedule t v q)) i = Some (s, w) \<longleftrightarrow>
      (TimerKey s i, w) \<in> insert (TimerKey t ?n, v) (set (t_tasks q))"
    using set_insert_fresh [OF fresh] inv
    by (simp add: pending_iff [OF timer_inv_schedule [OF inv room]]) (simp add: schedule_eq timer_inv_def)
  also have "\<dots> \<longleftrightarrow> ((timer_pending q)(fst (queue_schedule t v q) \<mapsto> (t, v))) i = Some (s, w)"
    using fresh [of s] pending_iff [OF inv] by (auto simp: schedule_eq image_iff)
  finally show "timer_pending (snd (queue_schedule t v q)) i = Some (s, w) \<longleftrightarrow>
      ((timer_pending q)(fst (queue_schedule t v q) \<mapsto> (t, v))) i = Some (s, w)" .
qed

lemma cancel_eq: "queue_cancel i q = (case t_ids q i of None \<Rightarrow> (None, q)
    | Some t \<Rightarrow> (fst (btree_remove (TimerKey t i) (t_tasks q)),
                 q\<lparr>t_tasks := snd (btree_remove (TimerKey t i) (t_tasks q)), t_ids := (t_ids q)(i := None)\<rparr>))"
  by (simp add: queue_cancel_def timer_cancel_def Let_def case_prod_beta split: option.splits)

lemma set_remove: "btree_ok xs \<Longrightarrow> set (snd (btree_remove k xs)) = {x \<in> set xs. fst x \<noteq> k}"
proof -
  assume ok: "btree_ok xs"
  have "(k', v') \<in> set (snd (btree_remove k xs)) \<longleftrightarrow> (k', v') \<in> set xs \<and> k' \<noteq> k" for k' v'
    using btree_remove_spec [OF ok, of k] map_of_btree [OF ok] map_of_btree [of "snd (btree_remove k xs)"] by auto
  then show ?thesis by auto
qed

lemma timer_inv_cancel: "timer_inv q \<Longrightarrow> timer_inv (snd (queue_cancel i q))"
proof (cases "t_ids q i")
  case (Some t)
  assume inv: "timer_inv q"
  have key: "t_ids q j = Some s \<longleftrightarrow> TimerKey s j \<in> fst ` set (t_tasks q)" for j s
    using inv by (simp add: timer_inv_def)
  have "((t_ids q)(i := None)) j = Some s \<longleftrightarrow> TimerKey s j \<in> fst ` {x \<in> set (t_tasks q). fst x \<noteq> TimerKey t i}" for j s
  proof -
    have "TimerKey s j \<in> fst ` {x \<in> set (t_tasks q). fst x \<noteq> TimerKey t i}
        \<longleftrightarrow> TimerKey s j \<in> fst ` set (t_tasks q) \<and> TimerKey s j \<noteq> TimerKey t i" by force
    then show ?thesis using key [of j s] Some by auto
  qed
  moreover have "btree_ok (snd (btree_remove (TimerKey t i) (t_tasks q)))"
    and "set (snd (btree_remove (TimerKey t i) (t_tasks q))) = {x \<in> set (t_tasks q). fst x \<noteq> TimerKey t i}"
    using inv btree_remove_spec [of "t_tasks q"] set_remove [of "t_tasks q"] by (simp_all add: timer_inv_def)
  moreover have "\<forall>j s. ((t_ids q)(i := None)) j = Some s \<longrightarrow> j < t_last_task_id q"
    using inv by (simp add: timer_inv_def)
  moreover have "snd (queue_cancel i q) =
      q\<lparr>t_tasks := snd (btree_remove (TimerKey t i) (t_tasks q)), t_ids := (t_ids q)(i := None)\<rparr>"
    by (simp add: cancel_eq Some)
  moreover have "t_last_task_id q < 2 ^ 64" using inv by (simp add: timer_inv_def)
  ultimately show ?thesis unfolding timer_inv_def by (simp del: fun_upd_apply)
qed (simp add: cancel_eq)

lemma cancel_pending_eq: "timer_inv q \<Longrightarrow> timer_pending (snd (queue_cancel i q)) = (timer_pending q)(i := None)"
proof (rule ext, rule option_pair_eqI)
  fix j s w
  assume inv: "timer_inv q"
  show "timer_pending (snd (queue_cancel i q)) j = Some (s, w) \<longleftrightarrow> ((timer_pending q)(i := None)) j = Some (s, w)"
  proof (cases "t_ids q i")
    case None
    then show ?thesis by (simp add: cancel_eq timer_pending_def)
  next
    case (Some t)
    have "TimerKey s i \<in> fst ` set (t_tasks q) \<Longrightarrow> s = t" for s
      using inv Some unfolding timer_inv_def by (metis option.inject)
    then have "(TimerKey s i, w) \<in> set (t_tasks q) \<Longrightarrow> s = t" by (metis fst_conv image_eqI)
    moreover have "timer_pending (snd (queue_cancel i q)) j = Some (s, w) \<longleftrightarrow>
        (TimerKey s j, w) \<in> set (t_tasks q) \<and> TimerKey s j \<noteq> TimerKey t i"
      using inv by (simp add: pending_iff [OF timer_inv_cancel [OF inv]]) (simp add: cancel_eq Some set_remove timer_inv_def)
    ultimately show ?thesis using pending_iff [OF inv] by auto
  qed
qed

lemma cancel_value_eq: "timer_inv q \<Longrightarrow> fst (queue_cancel i q) = map_option snd (timer_pending q i)"
proof (cases "t_ids q i")
  case (Some t)
  assume "timer_inv q"
  then have "fst (btree_remove (TimerKey t i) (t_tasks q)) = map_of (t_tasks q) (TimerKey t i)"
    using btree_remove_spec by (auto simp: timer_inv_def)
  with Some show ?thesis
    by (cases "map_of (t_tasks q) (TimerKey t i)") (simp_all add: cancel_eq timer_pending_def)
qed (simp add: cancel_eq timer_pending_def)

definition due :: "nat \<Rightarrow> timer_key \<times> 'a \<Rightarrow> bool" where
  "due now x \<longleftrightarrow> tk_execute_at (fst x) \<le> now"

lemma due_pair [simp]: "due now (k, v) \<longleftrightarrow> tk_execute_at k \<le> now"
  by (simp add: due_def)

lemma collect_ready_eq: "collect_ready now xs ids =
    (map snd (takeWhile (due now) xs), dropWhile (due now) xs,
     \<lambda>i. if i \<in> (tk_task_id \<circ> fst) ` set (takeWhile (due now) xs) then None else ids i)"
proof (induction now xs ids rule: collect_ready.induct)
  case (2 now k v xs ids)
  show ?case
  proof (cases "now < tk_execute_at k")
    case False
    then have "collect_ready now ((k, v) # xs) ids =
        (case collect_ready now xs (ids(tk_task_id k := None)) of (ready, r) \<Rightarrow> (v # ready, r))" by simp
    also have "\<dots> = (map snd (takeWhile (due now) ((k, v) # xs)), dropWhile (due now) ((k, v) # xs),
        \<lambda>i. if i \<in> (tk_task_id \<circ> fst) ` set (takeWhile (due now) ((k, v) # xs)) then None else ids i)"
      using False by (simp only: 2 [OF False]) (simp add: fun_eq_iff)
    finally show ?thesis .
  qed simp
qed simp

lemma btree_filter_due:
  assumes "btree_ok xs"
  shows "takeWhile (due now) xs = filter (due now) xs" and "dropWhile (due now) xs = filter (\<lambda>x. \<not> due now x) xs"
proof -
  have "takeWhile (due now) xs = filter (due now) xs \<and> dropWhile (due now) xs = filter (\<lambda>x. \<not> due now x) xs"
    using assms
  proof (induction xs)
    case (Cons x xs)
    show ?case
    proof (cases "due now x")
      case False
      then have "\<not> due now y" if "y \<in> set xs" for y
        using Cons.prems that by (force simp: btree_ok_def due_def less_timer_key_def)
      with False show ?thesis by (auto simp: filter_empty_conv filter_id_conv)
    qed (use Cons in \<open>simp add: btree_ok_def\<close>)
  qed simp
  then show "takeWhile (due now) xs = filter (due now) xs" "dropWhile (due now) xs = filter (\<lambda>x. \<not> due now x) xs"
    by simp_all
qed

lemma poll_eq: "timer_inv q \<Longrightarrow> timer_poll now q = (map snd (filter (due now) (t_tasks q)),
    q\<lparr>t_tasks := filter (\<lambda>x. \<not> due now x) (t_tasks q),
      t_ids := (\<lambda>i. if i \<in> (tk_task_id \<circ> fst) ` set (filter (due now) (t_tasks q)) then None else t_ids q i)\<rparr>)"
  by (simp add: timer_poll_def collect_ready_eq btree_filter_due timer_inv_def del: set_filter)

lemma due_id: "timer_inv q \<Longrightarrow> t_ids q i = Some t \<Longrightarrow>
    i \<in> (tk_task_id \<circ> fst) ` set (filter (due now) (t_tasks q)) \<longleftrightarrow> t \<le> now"
proof -
  assume inv: "timer_inv q" and it: "t_ids q i = Some t"
  have key: "t_ids q j = Some s \<longleftrightarrow> TimerKey s j \<in> fst ` set (t_tasks q)" for j s
    using inv by (simp add: timer_inv_def)
  have "x \<in> set (t_tasks q) \<Longrightarrow> tk_task_id (fst x) = i \<Longrightarrow> fst x = TimerKey t i" for x
    using key [of i "tk_execute_at (fst x)"] it by (metis image_eqI option.inject timer_key.collapse)
  then have same: "tk_execute_at (fst x) = t" if "x \<in> set (t_tasks q)" "tk_task_id (fst x) = i" for x
    using that by (metis timer_key.sel(1))
  obtain x where x: "x \<in> set (t_tasks q)" "fst x = TimerKey t i" using key it by force
  have "i \<in> (tk_task_id \<circ> fst) ` set (filter (due now) (t_tasks q)) \<longleftrightarrow>
      (\<exists>x \<in> set (t_tasks q). tk_execute_at (fst x) \<le> now \<and> tk_task_id (fst x) = i)"
    by (auto simp: due_def)
  also have "\<dots> \<longleftrightarrow> t \<le> now"
  proof
    assume "t \<le> now"
    with x show "\<exists>x \<in> set (t_tasks q). tk_execute_at (fst x) \<le> now \<and> tk_task_id (fst x) = i"
      by (intro bexI [of _ x]) simp_all
  qed (use same in blast)
  finally show ?thesis .
qed

lemma timer_inv_poll: "timer_inv q \<Longrightarrow> timer_inv (snd (timer_poll now q))"
proof -
  assume inv: "timer_inv q"
  have key: "t_ids q j = Some s \<longleftrightarrow> TimerKey s j \<in> fst ` set (t_tasks q)" for j s
    using inv by (simp add: timer_inv_def)
  have "(if i \<in> (tk_task_id \<circ> fst) ` set (filter (due now) (t_tasks q)) then None else t_ids q i) = Some t
      \<longleftrightarrow> TimerKey t i \<in> fst ` set (filter (\<lambda>x. \<not> due now x) (t_tasks q))" for i t
  proof (cases "t_ids q i = Some t")
    case True
    then show ?thesis using due_id [OF inv True, of now] key [of i t] by (auto simp: due_def image_iff)
  next
    case False
    then show ?thesis using key [of i t] by (auto simp: image_iff)
  qed
  moreover have "btree_ok (filter (\<lambda>x. \<not> due now x) (t_tasks q))"
    using inv by (auto simp: timer_inv_def btree_ok_def sorted_wrt_map intro: sorted_wrt_filter)
  moreover have "\<forall>i t. (if i \<in> (tk_task_id \<circ> fst) ` set (filter (due now) (t_tasks q)) then None else t_ids q i) = Some t
      \<longrightarrow> i < t_last_task_id q"
    using inv by (simp add: timer_inv_def)
  moreover have "t_last_task_id q < 2 ^ 64" using inv by (simp add: timer_inv_def)
  ultimately show ?thesis unfolding timer_inv_def poll_eq [OF inv] by simp
qed

lemma poll_pending_eq: "timer_inv q \<Longrightarrow> timer_pending (snd (timer_poll now q)) i =
    (case timer_pending q i of Some (t, v) \<Rightarrow> if t \<le> now then None else Some (t, v) | None \<Rightarrow> None)"
proof (rule option_pair_eqI)
  fix s w
  assume inv: "timer_inv q"
  have "timer_pending (snd (timer_poll now q)) i = Some (s, w) \<longleftrightarrow> (TimerKey s i, w) \<in> set (t_tasks q) \<and> now < s"
    by (simp add: pending_iff [OF timer_inv_poll [OF inv]]) (auto simp: poll_eq [OF inv] due_def)
  then show "timer_pending (snd (timer_poll now q)) i = Some (s, w) \<longleftrightarrow>
      (case timer_pending q i of Some (t, v) \<Rightarrow> if t \<le> now then None else Some (t, v) | None \<Rightarrow> None) = Some (s, w)"
    unfolding pending_iff [OF inv, symmetric] by (auto split: option.splits)
qed

lemma poll_values_eq: "timer_inv q \<Longrightarrow> set (fst (timer_poll now q)) = {v. \<exists>i t. timer_pending q i = Some (t, v) \<and> t \<le> now}"
proof -
  assume inv: "timer_inv q"
  have "(\<exists>k. (k, v) \<in> set (t_tasks q) \<and> tk_execute_at k \<le> now) \<longleftrightarrow>
      (\<exists>i t. (TimerKey t i, v) \<in> set (t_tasks q) \<and> t \<le> now)" for v
    by (metis timer_key.collapse timer_key.sel(1))
  moreover have "set (fst (timer_poll now q)) = {v. \<exists>k. (k, v) \<in> set (t_tasks q) \<and> tk_execute_at k \<le> now}"
    by (force simp: poll_eq [OF inv])
  ultimately show ?thesis by (simp add: pending_iff [OF inv])
qed

interpretation tq: timer_service timer_inv timer_room timer_pending queue_schedule queue_cancel timer_poll
proof unfold_locales
  fix q :: "'a timer" and t v
  assume "timer_inv q"
  then have "t_ids q (t_last_task_id q) = None" unfolding timer_inv_def by (metis less_irrefl not_Some_eq)
  then show "timer_pending q (fst (queue_schedule t v q)) = None" by (simp add: schedule_eq timer_pending_def)
qed (simp_all add: timer_inv_schedule schedule_pending_eq timer_inv_cancel cancel_value_eq cancel_pending_eq
      timer_inv_poll poll_values_eq poll_pending_eq)

section \<open>Properties\<close>

text \<open>A pending timer is returned by the first poll at or after its
  deadline and by no earlier one; polling removes exactly the due timers, and polling again at the same
  time returns nothing.\<close>

theorem timer_fires_on_time:
  assumes "timer_inv q" and "timer_pending q i = Some (t, v)"
  shows "(t \<le> now \<longrightarrow> v \<in> set (fst (timer_poll now q)) \<and> timer_pending (snd (timer_poll now q)) i = None)
    \<and> (now < t \<longrightarrow> timer_pending (snd (timer_poll now q)) i = Some (t, v))
    \<and> fst (timer_poll now (snd (timer_poll now q))) = []
    \<and> timer_inv (snd (timer_poll now q))"
  using tq.fires_on_time [OF assms] tq.poll_twice [OF assms(1)] tq.poll_inv [OF assms(1)] by blast

definition example_timer :: "string timer" where
  "example_timer = snd (queue_schedule 500 ''A'' (snd (queue_schedule 900 ''B'' timer_new)))"

lemma example_timer_inv: "timer_inv example_timer"
  unfolding example_timer_def
  by (intro timer_inv_schedule timer_inv_new) (simp_all add: timer_room_def schedule_eq timer_new_def)

lemma example_pending: "timer_pending example_timer 2 = Some (500, ''A'')"
  by (simp add: example_timer_def timer_pending_def schedule_eq timer_new_def less_timer_key_def)

lemma timer_fires_on_time_witness:
  "''A'' \<in> set (fst (timer_poll 600 example_timer)) \<and> timer_pending (snd (timer_poll 600 example_timer)) 2 = None
    \<and> fst (timer_poll 600 (snd (timer_poll 600 example_timer))) = []
    \<and> timer_pending (snd (timer_poll 400 example_timer)) 2 = Some (500, ''A'')"
  using timer_fires_on_time [OF example_timer_inv example_pending, of 600]
    timer_fires_on_time [OF example_timer_inv example_pending, of 400] by simp

text \<open>Scheduling a timer and cancelling the id it got returns its value and
  restores the pending timers; no later poll returns a timer that was cancelled unless another timer with
  the same value is due.\<close>

theorem timer_cancel_stops:
  assumes "timer_inv q" and "timer_room q"
  shows "fst (queue_cancel (fst (queue_schedule t v q)) (snd (queue_schedule t v q))) = Some v
    \<and> timer_pending (snd (queue_cancel (fst (queue_schedule t v q)) (snd (queue_schedule t v q)))) = timer_pending q
    \<and> (w \<in> set (fst (timer_poll now (snd (queue_cancel i q)))) \<longrightarrow>
        (\<exists>j s. j \<noteq> i \<and> timer_pending q j = Some (s, w) \<and> s \<le> now))"
  using tq.cancel_scheduled [OF assms] tq.cancel_restores [OF assms] tq.cancelled_never_fires [OF assms(1)] by blast

lemma example_timer_room: "timer_room example_timer"
  by (simp add: example_timer_def timer_room_def schedule_eq timer_new_def)

lemma timer_cancel_stops_witness:
  "fst (queue_cancel (fst (queue_schedule 700 ''C'' example_timer)) (snd (queue_schedule 700 ''C'' example_timer))) = Some ''C''
    \<and> timer_pending (snd (queue_cancel (fst (queue_schedule 700 ''C'' example_timer)) (snd (queue_schedule 700 ''C'' example_timer))))
      = timer_pending example_timer"
  using timer_cancel_stops [OF example_timer_inv example_timer_room, of 700 "''C''"] by blast

lemma btree_sorted_values: "btree_ok xs \<Longrightarrow> sorted (map (tk_execute_at \<circ> fst) xs)"
  unfolding btree_ok_def sorted_wrt_map
  by (rule sorted_wrt_mono_rel) (auto simp: less_timer_key_def)

text \<open>The values a poll returns come in the order of their deadlines, timers with
  the same deadline in the order they were scheduled, and every timer left is due later.\<close>

theorem timer_poll_order:
  assumes "timer_inv q"
  shows "\<exists>fired. fst (timer_poll now q) = map snd fired \<and> sorted_wrt (<) (map fst fired)
    \<and> t_tasks q = fired @ t_tasks (snd (timer_poll now q))
    \<and> list_all (\<lambda>x. now < tk_execute_at (fst x)) (t_tasks (snd (timer_poll now q)))
    \<and> (case next_deadline (snd (timer_poll now q)) of None \<Rightarrow> True | Some d \<Rightarrow> now < d)"
proof (intro exI conjI)
  let ?f = "filter (due now) (t_tasks q)" and ?r = "filter (\<lambda>x. \<not> due now x) (t_tasks q)"
  have ok: "btree_ok (t_tasks q)" using assms by (simp add: timer_inv_def)
  show "fst (timer_poll now q) = map snd ?f" by (simp add: poll_eq [OF assms])
  show "sorted_wrt (<) (map fst ?f)" using ok by (auto simp: btree_ok_def sorted_wrt_map intro: sorted_wrt_filter)
  show "t_tasks q = ?f @ t_tasks (snd (timer_poll now q))"
    using btree_filter_due [OF ok, of now, symmetric] by (simp add: poll_eq [OF assms])
  show late: "list_all (\<lambda>x. now < tk_execute_at (fst x)) (t_tasks (snd (timer_poll now q)))"
    by (auto simp: poll_eq [OF assms] list_all_iff due_def)
  then show "case next_deadline (snd (timer_poll now q)) of None \<Rightarrow> True | Some d \<Rightarrow> now < d"
    by (auto simp: next_deadline_def split: list.splits)
qed

lemma timer_poll_order_witness:
  "\<exists>fired. fst (timer_poll 1000 example_timer) = map snd fired \<and> sorted_wrt (<) (map fst fired)
    \<and> t_tasks example_timer = fired @ t_tasks (snd (timer_poll 1000 example_timer))
    \<and> list_all (\<lambda>x. 1000 < tk_execute_at (fst x)) (t_tasks (snd (timer_poll 1000 example_timer)))
    \<and> (case next_deadline (snd (timer_poll 1000 example_timer)) of None \<Rightarrow> True | Some d \<Rightarrow> 1000 < d)"
  by (rule timer_poll_order [OF example_timer_inv])

end
