(* ===== verification/Sip_Connection.thy ===== *)
theory Sip_Connection
  imports Stack_Error Message_Roundtrip
begin

text \<open>
  \<open>transport/connection.rs\<close>: the kinds of connection with what the transaction layer asks of
  them, the \<open>received\<close>/\<open>rport\<close> stamping of a request's top Via (RFC 3581) and the address a
  response is sent to. A connection value is its kind, the identity of the shared state behind the
  handle, and its addresses; its sockets are outside the model.
\<close>

section \<open>Connections\<close>

datatype conn_kind =
    ConnChannel | ConnUdp | ConnTcp | ConnTcpListener | ConnTls | ConnTlsListener | ConnWebSocket
  | ConnWebSocketListener

record sip_connection =
  conn_kind :: conn_kind
  conn_inner :: nat
  conn_addr :: sip_addr
  conn_remote :: "sip_addr option"

definition conn_transport :: "sip_connection \<Rightarrow> transport" where
  "conn_transport c =
     (case conn_kind c of
        ConnUdp \<Rightarrow> Udp
      | ConnTcp \<Rightarrow> Tcp | ConnTcpListener \<Rightarrow> Tcp
      | ConnTls \<Rightarrow> Tls | ConnTlsListener \<Rightarrow> Tls
      | ConnWebSocket \<Rightarrow> Ws
      | ConnWebSocketListener \<Rightarrow> Wss
      | ConnChannel \<Rightarrow> Udp)"

definition is_reliable :: "sip_connection \<Rightarrow> bool" where
  "is_reliable c \<longleftrightarrow> conn_kind c \<noteq> ConnUdp"

definition is_stream :: "sip_connection \<Rightarrow> bool" where
  "is_stream c \<longleftrightarrow> (case conn_kind c of ConnTcp \<Rightarrow> True | ConnTls \<Rightarrow> True | ConnWebSocket \<Rightarrow> True | _ \<Rightarrow> False)"

definition is_same_stream :: "sip_connection \<Rightarrow> sip_connection \<Rightarrow> bool" where
  "is_same_stream a b \<longleftrightarrow>
     (case (conn_kind a, conn_kind b) of
        (ConnTcp, ConnTcp) \<Rightarrow> conn_inner a = conn_inner b
      | (ConnTls, ConnTls) \<Rightarrow> conn_inner a = conn_inner b
      | (ConnWebSocket, ConnWebSocket) \<Rightarrow> conn_inner a = conn_inner b
      | _ \<Rightarrow> False)"

definition get_remote_addr :: "sip_connection \<Rightarrow> sip_addr option" where
  "get_remote_addr c =
     (case conn_kind c of
        ConnTcpListener \<Rightarrow> None | ConnTlsListener \<Rightarrow> None | ConnWebSocketListener \<Rightarrow> None
      | _ \<Rightarrow> conn_remote c)"

section \<open>Via stamping\<close>

definition socket_is_v6 :: "socket_addr \<Rightarrow> bool" where
  "socket_is_v6 a = ip_is_v6 (sa_ip a)"

definition is_rport :: "param \<Rightarrow> bool" where "is_rport p \<longleftrightarrow> rport_of p \<noteq> None"
definition is_received :: "param \<Rightarrow> bool" where "is_received p \<longleftrightarrow> received_of p \<noteq> None"

text \<open>The closure of \<open>build_via_received\<close>, on the first Via value.\<close>

definition received_value :: "socket_addr \<Rightarrow> transport \<Rightarrow> string \<Rightarrow> sip_error + string" where
  "received_value addr tr via =
     and_then (via_typed via) (\<lambda>v.
       let received = hwp_of_socket_addr addr;
           rport_requested = list_ex is_rport (via_params v);
           ps = filter (\<lambda>p. \<not> (is_rport p \<or> is_received p)) (via_params v);
           with_rport = show_via (v\<lparr>via_params := ps @ [P_Rport (Some (sa_port addr))]\<rparr>)
       in if uri_hwp (via_uri v) = received then
            (if rport_requested then Inr with_rport else Inr via)
          else if \<not> (tr = Udp \<or> hwp_host (uri_hwp (via_uri v)) \<noteq> hwp_host received) then
            (if rport_requested then Inr with_rport else Inr via)
          else
            (let ps = (if tr \<noteq> Udp \<and> via_transport v \<noteq> tr then ps @ [P_Transport tr] else ps);
                 received_str = (if socket_is_v6 addr then ''['' @ show_host (hwp_host received) @ '']''
                                 else show_host (hwp_host received))
             in Inr (show_via (v\<lparr>via_params := ps @ [P_Received received_str, P_Rport (Some (sa_port addr))]\<rparr>))))"

definition build_via_received :: "socket_addr \<Rightarrow> transport \<Rightarrow> string \<Rightarrow> error + string" where
  "build_via_received addr tr via = sip_try (update_first_value (received_value addr tr) via)"

definition update_msg_received :: "sip_message \<Rightarrow> socket_addr \<Rightarrow> transport \<Rightarrow> error + sip_message" where
  "update_msg_received msg addr tr =
     (case msg of
        Request req \<Rightarrow>
          and_then (sip_try (via_header (req_headers req))) (\<lambda>via.
          and_then (build_via_received addr tr via) (\<lambda>via'.
          Inr (Request (req\<lparr>req_headers := header_replace H_Via via' (req_headers req)\<rparr>))))
      | Response _ \<Rightarrow> Inr msg)"

text \<open>The loop over the parameters of the Via that sets host, transport and port of the target.\<close>

definition target_param :: "transport \<times> host_with_port \<Rightarrow> param \<Rightarrow> transport \<times> host_with_port" where
  "target_param st p =
     (case p of
        P_Received r \<Rightarrow>
          (case parse_ip r of Some ip \<Rightarrow> (fst st, (snd st)\<lparr>hwp_host := IpAddr ip\<rparr>) | None \<Rightarrow> st)
      | P_Transport t \<Rightarrow> (t, snd st)
      | P_Rport (Some port) \<Rightarrow> (fst st, (snd st)\<lparr>hwp_port := Some port\<rparr>)
      | _ \<Rightarrow> st)"

definition parse_target_from_via :: "string \<Rightarrow> error + (transport \<times> host_with_port)" where
  "parse_target_from_via via =
     and_then (sip_try (first_value via)) (\<lambda>first.
     and_then (sip_try (via_typed first)) (\<lambda>v.
     Inr (foldl target_param (via_transport v, uri_hwp (via_uri v)) (via_params v))))"

definition get_destination :: "sip_message \<Rightarrow> error + socket_addr" where
  "get_destination msg =
     and_then (case msg of
         Request req \<Rightarrow> Inr (uri_hwp (req_uri req))
       | Response res \<Rightarrow>
           and_then (sip_try (via_header (resp_headers res))) (\<lambda>via.
           and_then (parse_target_from_via via) (\<lambda>(_, h). Inr h)))
       (\<lambda>h. sip_try (socket_addr_of_hwp h))"

section \<open>Properties\<close>

lemma is_same_stream_sym: "is_same_stream a b = is_same_stream b a"
  by (cases "conn_kind a"; cases "conn_kind b"; auto simp: is_same_stream_def)

lemma same_stream_streams: "is_same_stream a b \<Longrightarrow> is_stream a \<and> is_stream b"
  by (cases "conn_kind a"; cases "conn_kind b"; simp add: is_same_stream_def is_stream_def)

lemma stream_reliable: "is_stream c \<Longrightarrow> is_reliable c"
  by (cases "conn_kind c") (simp_all add: is_stream_def is_reliable_def)

definition no_separator :: "string \<Rightarrow> bool" where
  "no_separator s \<longleftrightarrow> CHR '','' \<notin> set s \<and> CHR 0x22 \<notin> set s"

lemma no_separator_append [simp]: "no_separator (a @ b) \<longleftrightarrow> no_separator a \<and> no_separator b"
  by (auto simp: no_separator_def)

lemma show_via_params: "show_via (v\<lparr>via_params := qs\<rparr>) = show_via (v\<lparr>via_params := []\<rparr>) @ show_params qs"
  by (simp add: show_via_def show_params_def)

lemma show_params_append [simp]: "show_params (ps @ qs) = show_params ps @ show_params qs"
  by (simp add: show_params_def)

lemma no_separator_filter: "no_separator (show_params ps) \<Longrightarrow> no_separator (show_params (filter q ps))"
  by (induction ps) (auto simp: show_params_def no_separator_def)

lemma first_value_show_via:
  assumes "via_wf v" and "no_separator (show_via v)"
  shows "first_value_split (trim (show_via v)) = Inr (show_via v, None)" and "show_via v \<noteq> []"
proof -
  show "show_via v \<noteq> []" by (simp add: show_via_def)
  then show "first_value_split (trim (show_via v)) = Inr (show_via v, None)"
    using assms via_scan_plain [of "show_via v" "[]"]
    by (simp add: first_value_split_def trim_show_via no_separator_def)
qed

lemma build_via_received_show:
  assumes "via_wf v" and "no_separator (show_via v)"
  shows "build_via_received addr tr (show_via v) =
    and_then (sip_try (received_value addr tr (show_via v))) (\<lambda>x.
      if trim x = [] then Inl (SipMessageError (ParseError ''empty Via header value'')) else Inr x)"
  using first_value_show_via [OF assms]
  by (cases "received_value addr tr (show_via v)") (simp_all add: build_via_received_def update_first_value_def)

lemma parse_target_show:
  assumes "via_wf v" and "no_separator (show_via v)"
  shows "parse_target_from_via (show_via v) =
    Inr (foldl target_param (via_transport v, uri_hwp (via_uri v)) (via_params v))"
  using first_value_show_via [OF assms] assms(1)
  by (simp add: parse_target_from_via_def first_value_def via_typed_def trim_show_via via_parse_show)

lemma target_param_plain:
  "list_all (\<lambda>p. transport_of p = None \<and> \<not> is_rport p \<and> \<not> is_received p) ps \<Longrightarrow> foldl target_param st ps = st"
proof (induction ps arbitrary: st)
  case (Cons p ps)
  have "target_param st p = st"
    using Cons.prems by (cases p) (simp_all add: target_param_def is_rport_def is_received_def)
  with Cons show ?case by simp
qed simp

lemma no_separator_nat: "no_separator (show_nat n)"
  by (auto simp: no_separator_def dest!: show_nat_digits simp: is_ascii_digit_def)

lemma no_separator_v4: "no_separator (show_ipv4 a b c d)"
  using no_separator_nat by (simp add: show_ipv4_def no_separator_def)

text \<open>The parameters a stamped Via carries over.\<close>

definition kept_params :: "typed_via \<Rightarrow> param list" where
  "kept_params v = filter (\<lambda>p. \<not> (is_rport p \<or> is_received p)) (via_params v)"

lemma stamped_via:
  assumes "via_wf v" and "no_separator (show_via v)" and "list_all (\<lambda>p. transport_of p = None) (via_params v)"
    and "list_all (param_wf '';'') qs" and "no_separator (show_params qs)"
  defines "w \<equiv> v\<lparr>via_params := kept_params v @ qs\<rparr>"
  shows "via_wf w" and "trim (show_via w) \<noteq> []"
    and "parse_target_from_via (show_via w) = Inr (foldl target_param (via_transport v, uri_hwp (via_uri v)) qs)"
proof -
  show wf: "via_wf w"
    using assms(1,4) by (auto simp: w_def kept_params_def via_wf_def list_all_iff)
  then show "trim (show_via w) \<noteq> []" by (simp add: trim_show_via) (simp add: show_via_def)
  have "no_separator (show_via (v\<lparr>via_params := []\<rparr>))" and "no_separator (show_params (via_params v))"
    using assms(2) show_via_params [where v = v and qs = "via_params v"] by (simp_all)
  then have "no_separator (show_via w)"
    using assms(5) show_via_params [where v = v and qs = "kept_params v @ qs"]
    by (simp add: w_def kept_params_def no_separator_filter)
  with wf have "parse_target_from_via (show_via w) =
      Inr (foldl target_param (via_transport w, uri_hwp (via_uri w)) (via_params w))"
    by (rule parse_target_show)
  moreover have "foldl target_param st (kept_params v) = st" for st
    using assms(3) by (intro target_param_plain) (auto simp: kept_params_def list_all_iff)
  ultimately show "parse_target_from_via (show_via w) = Inr (foldl target_param (via_transport v, uri_hwp (via_uri v)) qs)"
    by (simp add: w_def)
qed

text \<open>For a UDP request from an IPv4 address, the address taken from the
  stamped Via is the address the request came from. The exception is a request whose Via has the
  source as sent-by, no \<open>rport\<close>, and a \<open>received\<close> of its own.\<close>

theorem reply_reaches_source:
  assumes "via_wf v" and "no_separator (show_via v)" and "list_all (\<lambda>p. transport_of p = None) (via_params v)"
    and "hwp_wf (hwp_of_socket_addr addr)"
    and "uri_hwp (via_uri v) \<noteq> hwp_of_socket_addr addr \<or> list_ex is_rport (via_params v) \<or> \<not> list_ex is_received (via_params v)"
  shows "and_then (build_via_received addr Udp (show_via v)) parse_target_from_via
    = Inr (via_transport v, hwp_of_socket_addr addr)"
proof -
  obtain a b c d p where addr: "addr = \<lparr>sa_ip = V4 a b c d, sa_port = p\<rparr>" and lim: "a < 256" "b < 256" "c < 256" "d < 256" "p < 65536"
    using assms(4) by (cases addr; cases "sa_ip addr") (auto simp: hwp_wf_def hwp_of_socket_addr_def)
  let ?src = "hwp_of_socket_addr addr"
  have typed: "via_typed (show_via v) = Inr v" using assms(1) by (simp add: via_typed_def trim_show_via via_parse_show)
  have rp: "list_all (param_wf '';'') [P_Rport (Some p)]" "no_separator (show_params [P_Rport (Some p)])"
    using lim(5) no_separator_nat by (simp_all add: show_params_def no_separator_def)
  have rr: "list_all (param_wf '';'') [P_Received (show_ipv4 a b c d), P_Rport (Some p)]"
      "no_separator (show_params [P_Received (show_ipv4 a b c d), P_Rport (Some p)])"
    using lim(5) no_separator_nat no_separator_v4 plain_mono [OF plain_show_ipv4]
    by (simp_all add: show_params_def no_separator_def host_bad_def)
  note build = build_via_received_show [OF assms(1,2)]
  show ?thesis
  proof (cases "uri_hwp (via_uri v) = ?src")
    case True
    show ?thesis
    proof (cases "list_ex is_rport (via_params v)")
      case rport: True
      then have "received_value addr Udp (show_via v) = Inr (show_via (v\<lparr>via_params := kept_params v @ [P_Rport (Some p)]\<rparr>))"
        using True by (simp add: received_value_def typed kept_params_def addr)
      then show ?thesis
        using stamped_via [OF assms(1-3) rp] True
        by (simp add: build target_param_def hwp_of_socket_addr_def addr)
    next
      case False
      then have "received_value addr Udp (show_via v) = Inr (show_via v)"
        using True by (simp add: received_value_def typed)
      moreover have "foldl target_param (via_transport v, uri_hwp (via_uri v)) (via_params v) = (via_transport v, ?src)"
        using False True assms(3,5) target_param_plain [of "via_params v"] by (auto simp: list_all_iff list_ex_iff)
      moreover have "trim (show_via v) \<noteq> []"
        using first_value_show_via(2) [OF assms(1,2)] trim_show_via [OF assms(1)] by simp
      ultimately show ?thesis using parse_target_show [OF assms(1,2)] by (simp add: build)
    qed
  next
    case False
    then have "received_value addr Udp (show_via v) =
        Inr (show_via (v\<lparr>via_params := kept_params v @ [P_Received (show_ipv4 a b c d), P_Rport (Some p)]\<rparr>))"
      by (simp add: received_value_def typed kept_params_def addr socket_is_v6_def hwp_of_socket_addr_def show_host_def)
    then show ?thesis
      using stamped_via [OF assms(1-3) rr] parse_show_ipv4 [OF lim(1-4)]
      by (simp add: build target_param_def hwp_of_socket_addr_def addr)
  qed
qed

definition example_source :: socket_addr where
  "example_source = \<lparr>sa_ip = V4 203 0 113 9, sa_port = 40000\<rparr>"

lemma reply_reaches_source_witness:
  "and_then (build_via_received example_source Udp (show_via example_via)) parse_target_from_via
    = Inr (via_transport example_via, hwp_of_socket_addr example_source)"
  by (rule reply_reaches_source [OF example_via_wf]) (code_simp+)

section \<open>Where the reply goes elsewhere\<close>

definition v6_source :: socket_addr where
  "v6_source = \<lparr>sa_ip = V6 [8193, 3512, 0, 0, 0, 0, 0, 1], sa_port = 40000\<rparr>"

text \<open>For an IPv6 source the \<open>received\<close> value gets two pairs of
  brackets, does not parse as an address, and the reply is addressed to the sent-by host of the Via with the
  source's port.\<close>

theorem v6_received_lost:
  "build_via_received v6_source Udp ''SIP/2.0/UDP pc.example.com:5060;branch=z9hG4bK1''
     = Inr ''SIP/2.0/UDP pc.example.com:5060;branch=z9hG4bK1;received=[[2001:db8::1]];rport=40000''
   \<and> and_then (build_via_received v6_source Udp ''SIP/2.0/UDP pc.example.com:5060;branch=z9hG4bK1'') parse_target_from_via
     = Inr (Udp, \<lparr>hwp_host = Domain ''pc.example.com'', hwp_port = Some 40000\<rparr>)"
  by (intro conjI) code_simp+

text \<open>A request from the very address its Via names, without
  \<open>rport\<close>, keeps a \<open>received\<close> parameter it brought along, and the reply is addressed to that
  third host.\<close>

theorem forged_received_kept:
  "and_then (build_via_received example_source Udp
       ''SIP/2.0/UDP 203.0.113.9:40000;branch=z9hG4bK1;received=198.51.100.77'') parse_target_from_via
   = Inr (Udp, \<lparr>hwp_host = IpAddr (V4 198 51 100 77), hwp_port = Some 40000\<rparr>)"
  by code_simp

end
