(* ===== verification/Transaction_Key.thy ===== *)
theory Transaction_Key
  imports Stack_Error Typed_Roundtrip
begin

text \<open>
  \<open>transaction/key.rs\<close>, the keys that match messages to transactions, and the dialog identifiers
  of \<open>dialog/mod.rs\<close>.
\<close>

section \<open>Keys\<close>

datatype transaction_role = ClientRole | ServerRole

fun show_role :: "transaction_role \<Rightarrow> string" where
  "show_role ClientRole = ''c''"
| "show_role ServerRole = ''s''"

definition build_key :: "transaction_role \<Rightarrow> typed_via \<Rightarrow> sip_method \<Rightarrow> nat \<Rightarrow> string \<Rightarrow> string \<Rightarrow> error + transaction_key" where
  "build_key role via mth cseq ftag call_id =
     (case via_branch via of
        Some branch \<Rightarrow>
          Inr (show_role role @ ''.'' @ show_method mth @ ''_'' @ show_nat cseq @ ''_'' @ call_id @ ''_'' @ ftag
               @ ''_'' @ branch)
      | None \<Rightarrow>
          Inr (show_role role @ ''.'' @ show_method mth @ ''_'' @ show_nat cseq @ ''_'' @ call_id @ ''_'' @ ftag
               @ ''_'' @ show_hwp (uri_hwp (via_uri via)) @ ''.2543''))"

definition key_method :: "transaction_role \<Rightarrow> sip_method \<Rightarrow> sip_method" where
  "key_method role mth = (if (mth = Ack \<or> mth = Cancel) \<and> role = ServerRole then Invite else mth)"

definition key_from_request :: "request \<Rightarrow> transaction_role \<Rightarrow> error + transaction_key" where
  "key_from_request req role =
     and_then (sip_try (and_then (top_via_header (req_headers req)) via_typed)) (\<lambda>via.
     and_then (sip_try (and_then (from_header (req_headers req)) from_tag)) (\<lambda>tag.
     and_then (ok_or tag (Error ''from tags missing'')) (\<lambda>ftag.
     and_then (sip_try (call_id_header (req_headers req))) (\<lambda>call_id.
     and_then (sip_try (and_then (cseq_header (req_headers req)) cseq_value_seq)) (\<lambda>cseq.
     build_key role via (key_method role (req_method req)) cseq ftag call_id)))))"

definition key_from_response :: "response \<Rightarrow> transaction_role \<Rightarrow> error + transaction_key" where
  "key_from_response resp role =
     and_then (sip_try (and_then (top_via_header (resp_headers resp)) via_typed)) (\<lambda>via.
     and_then (sip_try (cseq_header (resp_headers resp))) (\<lambda>cseq.
     and_then (sip_try (cseq_value_method cseq)) (\<lambda>mth.
     and_then (sip_try (and_then (from_header (resp_headers resp)) from_tag)) (\<lambda>tag.
     and_then (ok_or tag (Error ''from tags missing'')) (\<lambda>ftag.
     and_then (sip_try (call_id_header (resp_headers resp))) (\<lambda>call_id.
     and_then (sip_try (cseq_value_seq cseq)) (\<lambda>seq.
     build_key role via mth seq ftag call_id)))))))"

section \<open>Dialog identifiers\<close>

definition dialog_id_for :: "transaction_role \<Rightarrow> string \<Rightarrow> string \<Rightarrow> string \<Rightarrow> dialog_id" where
  "dialog_id_for role call_id ftag ttag =
     (case role of
        ClientRole \<Rightarrow> \<lparr>did_call_id = call_id, did_local_tag = ftag, did_remote_tag = ttag\<rparr>
      | ServerRole \<Rightarrow> \<lparr>did_call_id = call_id, did_local_tag = ttag, did_remote_tag = ftag\<rparr>)"

definition dialog_id_of_request :: "request \<Rightarrow> transaction_role \<Rightarrow> error + dialog_id" where
  "dialog_id_of_request req role =
     and_then (sip_try (call_id_header (req_headers req))) (\<lambda>call_id.
     and_then (sip_try (and_then (from_header (req_headers req)) from_tag)) (\<lambda>ft.
     and_then (ok_or ft (Error ''from tag not found'')) (\<lambda>ftag.
     and_then (sip_try (and_then (to_header (req_headers req)) to_tag)) (\<lambda>tt.
     Inr (dialog_id_for role call_id ftag (unwrap_or tt []))))))"

definition dialog_id_of_response :: "response \<Rightarrow> transaction_role \<Rightarrow> error + dialog_id" where
  "dialog_id_of_response resp role =
     and_then (sip_try (call_id_header (resp_headers resp))) (\<lambda>call_id.
     and_then (sip_try (and_then (from_header (resp_headers resp)) from_tag)) (\<lambda>ft.
     and_then (ok_or ft (Error ''from tag not found'')) (\<lambda>ftag.
     and_then (sip_try (and_then (to_header (resp_headers resp)) to_tag)) (\<lambda>tt.
     and_then (ok_or tt (Error ''to tag not found'')) (\<lambda>ttag.
     Inr (dialog_id_for role call_id ftag ttag))))))"

definition show_dialog_id :: "dialog_id \<Rightarrow> string" where
  "show_dialog_id d = did_call_id d @ ''-'' @ did_local_tag d @ ''-'' @ did_remote_tag d"

section \<open>Properties\<close>

text \<open>Only these headers decide a key, and only the To header more an identifier.\<close>

lemma key_from_request_cong:
  assumes "header_opt H_Via hs = header_opt H_Via (req_headers req)"
    and "header_opt H_From hs = header_opt H_From (req_headers req)"
    and "header_opt H_CallId hs = header_opt H_CallId (req_headers req)"
    and "header_opt H_CSeq hs = header_opt H_CSeq (req_headers req)"
  shows "key_from_request (req\<lparr>req_headers := hs\<rparr>) role = key_from_request req role"
  using assms by (simp add: key_from_request_def top_via_header_def via_header_def from_header_def call_id_header_def
      cseq_header_def header_get_def)

lemma dialog_id_for_inject:
  "dialog_id_for role c f t = dialog_id_for role c' f' t' \<longleftrightarrow> c = c' \<and> f = f' \<and> t = t'"
  by (cases role) (auto simp: dialog_id_for_def)

lemma dialog_id_other_side: "dialog_id_for ServerRole c f t = dialog_id_for ClientRole c t f"
  by (simp add: dialog_id_for_def)

definition no_underscore :: "string \<Rightarrow> bool" where
  "no_underscore s \<longleftrightarrow> CHR ''_'' \<notin> set s"

lemma no_underscore_split:
  "no_underscore a \<Longrightarrow> no_underscore b \<Longrightarrow> a @ CHR ''_'' # x = b @ CHR ''_'' # y \<longleftrightarrow> a = b \<and> x = y"
proof (induction a arbitrary: b)
  case Nil
  then show ?case by (cases b) (auto simp: no_underscore_def)
next
  case (Cons c a)
  then show ?case by (cases b) (auto simp: no_underscore_def)
qed

lemma no_underscore_method: "no_underscore (show_method m)"
  by (cases m) (simp_all add: no_underscore_def)

lemma no_underscore_nat: "no_underscore (show_nat n)"
  by (auto simp: no_underscore_def is_ascii_digit_def dest!: show_nat_digits)

lemma show_nat_inject: "show_nat m = show_nat n \<longleftrightarrow> m = n"
proof
  assume eq: "show_nat m = show_nat n"
  have bound: "k < 2 ^ w" if "k \<le> w" for k w :: nat
    by (rule less_le_trans [OF less_exp]) (use that in simp)
  have "parse_uint (m + n) (show_nat m) = Inr m" "parse_uint (m + n) (show_nat n) = Inr n"
    by (rule parse_uint_show, rule bound, simp)+
  then have "(Inr m :: int_error + nat) = Inr n" unfolding eq by (rule trans [OF sym])
  then show "m = n" by blast
qed simp

text \<open>Two keys with a branch are equal only when role, method, CSeq number,
  Call-ID, From tag and branch agree, as long as neither the Call-IDs nor the tags hold an underscore,
  the character that separates the fields.\<close>

theorem build_key_inject:
  assumes "via_branch v = Some b" and "via_branch v' = Some b'"
    and "list_all no_underscore [c, c', t, t']"
  shows "build_key r v m n t c = build_key r' v' m' n' t' c' \<longleftrightarrow>
    (r, m, n, c, t, b) = (r', m', n', c', t', b')"
proof -
  have roles: "show_role r @ CHR ''.'' # x = show_role r' @ CHR ''.'' # y \<longleftrightarrow> r = r' \<and> x = y" for x y
    by (cases r; cases r') simp_all
  show ?thesis
    using assms by (simp add: build_key_def roles no_underscore_split no_underscore_method no_underscore_nat
        show_method_inject show_nat_inject)
qed

definition example_key_via :: "string \<Rightarrow> typed_via" where
  "example_key_via b = \<lparr>via_version = V2, via_transport = Udp, via_uri = uri_default, via_params = [P_Branch b]\<rparr>"

lemma build_key_inject_witness:
  "build_key ClientRole (example_key_via ''z9hG4bK1'') Invite 1 ''t'' ''c'' \<noteq>
   build_key ClientRole (example_key_via ''z9hG4bK1'') Invite 2 ''t'' ''c''"
  using build_key_inject [of "example_key_via ''z9hG4bK1''" "''z9hG4bK1''" "example_key_via ''z9hG4bK1''" "''z9hG4bK1''"
      "''c''" "''c''" "''t''" "''t''"]
  by (simp add: example_key_via_def via_branch_def no_underscore_def)

end
