(* ===== verification/Message_Factory.thy ===== *)
theory Message_Factory
  imports Transaction_Key "HOL-Library.Word"
begin

unbundle bit_operations_syntax

text \<open>
  \<open>transaction/message.rs\<close> and the identifier generators at the end of \<open>transaction/mod.rs\<close>: the
  requests, responses and ACKs an endpoint builds. Random text is an argument; the generator of the
  builds without the standard library, which is code of the crate, is modelled on 64-bit words.
\<close>

section \<open>Options\<close>

datatype call_id_format = UuidWithSuffix | Uuid | Random22

text \<open>Durations are milliseconds.\<close>

record endpoint_option =
  opt_t1 :: nat
  opt_t2 :: nat
  opt_t4 :: nat
  opt_t1x64 :: nat
  opt_timerc :: nat
  opt_callid_suffix :: "string option"
  opt_callid_format :: call_id_format
  opt_history_info_enabled :: bool
  opt_auto_ack_2xx :: bool

definition endpoint_option_default :: endpoint_option where
  "endpoint_option_default =
     \<lparr>opt_t1 = 500, opt_t2 = 4000, opt_t4 = 5000, opt_t1x64 = 64 * 500, opt_timerc = 180000,
      opt_callid_suffix = None, opt_callid_format = UuidWithSuffix, opt_history_info_enabled = False,
      opt_auto_ack_2xx = True\<rparr>"

section \<open>Identifiers\<close>

definition xorshift :: "64 word \<Rightarrow> 64 word" where
  "xorshift x0 =
     (let x1 = x0 XOR drop_bit 12 x0;
          x2 = x1 XOR push_bit 25 x1
      in x2 XOR drop_bit 27 x2)"

definition le_bytes :: "64 word \<Rightarrow> 8 word list" where
  "le_bytes w = map (\<lambda>i. ucast (drop_bit (8 * i) w)) [0..<8]"

function fill_random_bytes :: "nat \<Rightarrow> 64 word \<Rightarrow> 8 word list \<times> 64 word" where
  "fill_random_bytes n x =
     (if n = 0 then ([], x)
      else (let x' = xorshift x; k = min n 8 in
        case fill_random_bytes (n - k) x' of
          (rest, x'') \<Rightarrow> (take k (le_bytes (x' * 0x2545F4914F6CDD1D)) @ rest, x'')))"
  by auto
termination
  by (relation "measure fst") auto

declare fill_random_bytes.simps [simp del]

definition alnum :: string where
  "alnum = ''0123456789ABCDEFGHIJKLMNOPQRSTUVWXYZabcdefghijklmnopqrstuvwxyz''"

definition random_text :: "nat \<Rightarrow> 64 word \<Rightarrow> string \<times> 64 word" where
  "random_text count x =
     (case fill_random_bytes count x of (bs, x') \<Rightarrow> (map (\<lambda>b. alnum ! (unat b mod 62)) bs, x'))"

definition show_hex2 :: "8 word \<Rightarrow> string" where
  "show_hex2 b = [hex_char (unat b div 16), hex_char (unat b mod 16)]"

definition make_uuid_v4 :: "8 word list \<Rightarrow> string" where
  "make_uuid_v4 b =
     (let b = b[6 := ((b ! 6) AND 0x0f) OR 0x40];
          b = b[8 := ((b ! 8) AND 0x3f) OR 0x80]
      in concat (map show_hex2 b))"

definition TO_TAG_LEN :: nat where "TO_TAG_LEN = 8"
definition BRANCH_LEN :: nat where "BRANCH_LEN = 12"
definition CALL_ID_LEN :: nat where "CALL_ID_LEN = 22"

definition make_via_branch :: "64 word \<Rightarrow> param \<times> 64 word" where
  "make_via_branch x = (case random_text BRANCH_LEN x of (t, x') \<Rightarrow> (P_Branch (''z9hG4bK'' @ t), x'))"

definition make_tag :: "64 word \<Rightarrow> string \<times> 64 word" where
  "make_tag x = random_text TO_TAG_LEN x"

definition make_call_id :: "string option \<Rightarrow> call_id_format \<Rightarrow> 64 word \<Rightarrow> string \<times> 64 word" where
  "make_call_id suffix fmt x =
     (case fmt of
        UuidWithSuffix \<Rightarrow>
          (case fill_random_bytes 16 x of
             (b, x') \<Rightarrow> (make_uuid_v4 b @ ''@'' @ unwrap_or suffix ''restsend.com'', x'))
      | Uuid \<Rightarrow> (case fill_random_bytes 16 x of (b, x') \<Rightarrow> (make_uuid_v4 b, x'))
      | Random22 \<Rightarrow>
          (case random_text CALL_ID_LEN x of (t, x') \<Rightarrow> (t @ ''@'' @ unwrap_or suffix ''restsend.com'', x')))"

section \<open>Requests and responses\<close>

definition show_u32 :: "nat \<Rightarrow> string" where
  "show_u32 n = show_nat (n mod 2 ^ 32)"

text \<open>The Call-ID is the caller's or the generated one.\<close>

definition make_request ::
    "string \<Rightarrow> sip_method \<Rightarrow> uri \<Rightarrow> typed_via \<Rightarrow> name_addr \<Rightarrow> name_addr \<Rightarrow> nat \<Rightarrow> string \<Rightarrow> request" where
  "make_request user_agent mth target via from_na to_na seq call_id =
     \<lparr>req_method = mth, req_uri = target, req_version = V2,
      req_headers =
        [H_Via (show_via via), H_CallId call_id, H_From (show_name_addr from_na), H_To (show_name_addr to_na),
         H_CSeq (show_cseq \<lparr>cseq_seq = seq, cseq_method = mth\<rparr>), H_MaxForwards ''70'', H_UserAgent user_agent],
      req_body = []\<rparr>"

text \<open>\<open>matches!(h, Header::A(_) | Header::B(_) ...)\<close>.\<close>

definition matches_header :: "(string \<Rightarrow> header) list \<Rightarrow> header \<Rightarrow> bool" where
  "matches_header mks h = list_ex (\<lambda>mk. variant mk h \<noteq> None) mks"

definition make_response :: "string \<Rightarrow> request \<Rightarrow> status_code \<Rightarrow> bytes option \<Rightarrow> response" where
  "make_response user_agent req status body =
     (let headers = headers_retain (matches_header [H_Via, H_CallId, H_From, H_To, H_CSeq]) (req_headers req);
          headers = headers_push (H_ContentLength (show_u32 (case body of None \<Rightarrow> 0 | Some b \<Rightarrow> length b))) headers;
          headers = unique_push (H_UserAgent user_agent) headers
      in \<lparr>resp_synthetic = False, resp_received_from = None, resp_wire_reason = None, resp_status = status,
          resp_version = req_version req, resp_headers = headers, resp_body = unwrap_or body []\<rparr>)"

section \<open>ACK\<close>

text \<open>The closure that gives the ACK of a 2xx a Via with nothing but a new branch.\<close>

definition fresh_via :: "param \<Rightarrow> string \<Rightarrow> sip_error + string" where
  "fresh_via branch v = and_then (via_typed v) (\<lambda>t. Inr (show_via (t\<lparr>via_params := [branch]\<rparr>)))"

definition renew_top_via :: "param \<Rightarrow> header list \<Rightarrow> header list" where
  "renew_top_via branch hs =
     (case header_opt H_Via hs of
        Some v \<Rightarrow> (case update_first_value (fresh_via branch) v of
            Inr v' \<Rightarrow> header_replace H_Via v' hs
          | Inl _ \<Rightarrow> hs)
      | None \<Rightarrow> hs)"

definition response_route_set :: "response \<Rightarrow> uri list" where
  "response_route_set resp =
     rev (concat (map (\<lambda>v. case record_route_parse_header_list v of Inr rs \<Rightarrow> map na_uri rs | Inl _ \<Rightarrow> [])
       (all_headers H_RecordRoute (resp_headers resp))))"

definition contact_typed :: "string \<Rightarrow> sip_error + name_addr" where
  "contact_typed v = contact_parse (trim v)"

text \<open>Request-URI and Route values from the route set and the remote target: loose routing when the
  first route has \<open>lr\<close>, strict routing otherwise.\<close>

definition apply_route_set :: "uri list \<Rightarrow> uri \<Rightarrow> uri \<times> uri list" where
  "apply_route_set route_set remote_target =
     (case route_set of
        [] \<Rightarrow> (remote_target, [])
      | first # rest \<Rightarrow>
          if has_lr (uri_params first) then (remote_target, route_set)
          else (first\<lparr>uri_headers := []\<rparr>, rest @ [remote_target]))"

definition route_header :: "uri \<Rightarrow> header" where
  "route_header u = H_Route (show_name_addr (name_addr_of_uri u))"

text \<open>The Session-ID of an ACK (RFC 7989): the INVITE's own UUID and the peer's.\<close>

definition set_session_ids :: "string \<Rightarrow> string \<Rightarrow> header list \<Rightarrow> header list" where
  "set_session_ids lcl peer hs =
     map (\<lambda>h. if variant H_SessionId h \<noteq> None
              then (case session_from_pair lcl peer of Inr v \<Rightarrow> H_SessionId v | Inl _ \<Rightarrow> h) else h) hs"

definition ack_session_id :: "request \<Rightarrow> response \<Rightarrow> header list \<Rightarrow> header list" where
  "ack_session_id invite resp hs =
     (case (Option.bind (session_id_header (req_headers invite)) local_uuid,
            Option.bind (session_id_header (resp_headers resp)) local_uuid) of
        (Some lcl, Some peer) \<Rightarrow> set_session_ids lcl peer hs
      | (Some lcl, None) \<Rightarrow>
          if session_id_header (resp_headers resp) = None then
            (case session_from_local lcl of Inr v \<Rightarrow> headers_push (H_SessionId v) hs | Inl _ \<Rightarrow> hs)
          else hs
      | _ \<Rightarrow> hs)"

definition cseq_to_ack :: "header \<Rightarrow> header" where
  "cseq_to_ack h =
     (case variant H_CSeq h of
        Some v \<Rightarrow> (case cseq_mut_method Ack v of Inr v' \<Rightarrow> H_CSeq v' | Inl _ \<Rightarrow> h)
      | None \<Rightarrow> h)"

text \<open>Request-URI and headers before the common part: a non-2xx ACK stays in the transaction of the
  INVITE, a 2xx ACK is a request of the dialog.\<close>

definition ack_target :: "param \<Rightarrow> request \<Rightarrow> response \<Rightarrow> error + (uri \<times> header list)" where
  "ack_target branch invite resp =
     (if status_code_kind (resp_status resp) \<noteq> Successful then
        Inr (req_uri invite,
             headers_extend (filter (\<lambda>h. variant H_Route h \<noteq> None) (req_headers invite)) (resp_headers resp))
      else
        and_then (sip_try (and_then (contact_header (resp_headers resp)) contact_typed)) (\<lambda>contact.
        case apply_route_set (response_route_set resp) (na_uri contact) of
          (u, routes) \<Rightarrow> Inr (u, headers_extend (map route_header routes) (renew_top_via branch (resp_headers resp)))))"

definition make_ack :: "string \<Rightarrow> param \<Rightarrow> request \<Rightarrow> response \<Rightarrow> error + request" where
  "make_ack user_agent branch invite resp =
     and_then (ack_target branch invite resp) (\<lambda>(target, headers).
     let headers = headers_retain (matches_header [H_Via, H_CallId, H_From, H_To, H_CSeq, H_Route, H_SessionId]) headers;
         headers = ack_session_id invite resp headers;
         headers = headers_push (H_MaxForwards ''70'') headers;
         headers = map cseq_to_ack headers;
         headers = headers_push (H_ContentLength ''0'') headers;
         headers = unique_push (H_UserAgent user_agent) headers
     in Inr \<lparr>req_method = Ack, req_uri = target, req_version = V2, req_headers = headers, req_body = []\<rparr>)"

section \<open>Headers through the constructors\<close>

lemma matches_header_Cons: "matches_header (mk # mks) h \<longleftrightarrow> variant mk h \<noteq> None \<or> matches_header mks h"
  by (simp add: matches_header_def)

lemma header_opt_retain: "mk \<in> set mks \<Longrightarrow> header_opt mk (headers_retain (matches_header mks) hs) = header_opt mk hs"
  unfolding header_opt_def headers_retain_def
  by (rule find_map_filter) (auto simp: matches_header_def list_ex_iff)

lemma header_opt_push: "header_opt mk (headers_push h hs) = (case header_opt mk hs of Some v \<Rightarrow> Some v | None \<Rightarrow> variant mk h)"
  by (induction hs) (simp_all add: headers_push_def split: option.splits)

lemma header_opt_map:
  assumes "\<And>h. variant mk (f h) = map_option g (variant mk h)"
  shows "header_opt mk (map f hs) = map_option g (header_opt mk hs)"
  by (induction hs) (simp_all add: assms split: option.splits)

lemma header_opt_unique_push_other:
  "discriminant (mk []) \<noteq> discriminant (H_UserAgent []) \<Longrightarrow> header_opt mk (unique_push (H_UserAgent v) hs) = header_opt mk hs"
  by (simp add: header_opt_all user_agent_variant.unique_push_others)

text \<open>The headers that identify a transaction and a dialog.\<close>

definition key_headers :: "(string \<Rightarrow> header) set" where
  "key_headers = {H_Via, H_From, H_To, H_CallId}"

lemma key_headers_cases: "mk \<in> key_headers \<Longrightarrow> mk = H_Via \<or> mk = H_From \<or> mk = H_To \<or> mk = H_CallId"
  by (auto simp: key_headers_def)

lemma make_response_headers:
  "mk \<in> key_headers \<or> mk = H_CSeq \<Longrightarrow> header_opt mk (resp_headers (make_response ua req sc body)) = header_opt mk (req_headers req)"
  unfolding make_response_def Let_def
  by (auto simp: key_headers_def header_opt_unique_push_other header_opt_push header_opt_retain variant_def
      split: option.splits)

lemma variant_cseq_to_ack:
  "mk \<in> key_headers \<Longrightarrow> variant mk (cseq_to_ack h) = variant mk h"
  "variant H_CSeq (cseq_to_ack h) = map_option (\<lambda>v. unwrap_or (ok (cseq_mut_method Ack v)) v) (variant H_CSeq h)"
  by (auto simp: cseq_to_ack_def variant_def key_headers_def split: option.splits sum.splits)

lemma variant_set_session_ids:
  "mk \<in> key_headers \<or> mk = H_CSeq \<Longrightarrow> header_opt mk (set_session_ids l p hs) = header_opt mk hs"
  unfolding set_session_ids_def
  by (subst header_opt_map [where g = id])
    (auto simp: key_headers_def variant_def option.map_id split: sum.splits)

lemma ack_session_id_headers:
  "mk \<in> key_headers \<or> mk = H_CSeq \<Longrightarrow> header_opt mk (ack_session_id invite resp hs) = header_opt mk hs"
  unfolding ack_session_id_def
  by (auto simp: variant_set_session_ids header_opt_push key_headers_def variant_def split: option.splits sum.splits)

lemma header_opt_map_ack: "mk \<in> key_headers \<Longrightarrow> header_opt mk (map cseq_to_ack hs) = header_opt mk hs"
  by (subst header_opt_map [where g = id]) (simp_all add: variant_cseq_to_ack option.map_id)

lemma make_ack_headers:
  assumes "ack_target branch invite resp = Inr (u, hs)" and "make_ack ua branch invite resp = Inr ack"
  shows "mk \<in> key_headers \<Longrightarrow> header_opt mk (req_headers ack) = header_opt mk hs"
    and "header_opt H_CSeq (req_headers ack) = map_option (\<lambda>v. unwrap_or (ok (cseq_mut_method Ack v)) v) (header_opt H_CSeq hs)"
    and "req_method ack = Ack" and "req_uri ack = u"
proof -
  let ?hs = "headers_retain (matches_header [H_Via, H_CallId, H_From, H_To, H_CSeq, H_Route, H_SessionId]) hs"
  let ?m = "map cseq_to_ack (headers_push (H_MaxForwards ''70'') (ack_session_id invite resp ?hs))"
  have ack: "ack = \<lparr>req_method = Ack, req_uri = u, req_version = V2,
      req_headers = unique_push (H_UserAgent ua) (headers_push (H_ContentLength ''0'') ?m), req_body = []\<rparr>"
    using assms by (simp add: make_ack_def Let_def)
  then show "req_method ack = Ack" "req_uri ack = u" by simp_all
  show "header_opt mk (req_headers ack) = header_opt mk hs" if "mk \<in> key_headers"
    using key_headers_cases [OF that] that
    by (auto simp: ack header_opt_unique_push_other header_opt_push header_opt_map_ack ack_session_id_headers
        header_opt_retain variant_def split: option.splits)
  have "header_opt H_CSeq ?m = map_option (\<lambda>v. unwrap_or (ok (cseq_mut_method Ack v)) v) (header_opt H_CSeq hs)"
    by (subst header_opt_map [OF variant_cseq_to_ack(2)])
      (simp add: header_opt_push ack_session_id_headers header_opt_retain variant_def split: option.splits)
  then show "header_opt H_CSeq (req_headers ack) = map_option (\<lambda>v. unwrap_or (ok (cseq_mut_method Ack v)) v) (header_opt H_CSeq hs)"
    by (simp add: ack header_opt_unique_push_other header_opt_push variant_def split: option.splits)
qed

section \<open>Properties\<close>

lemma cseq_typed_bound: "cseq_typed v = Inr c \<Longrightarrow> cseq_seq c < 2 ^ 32"
proof -
  assume "cseq_typed v = Inr c"
  then obtain s where "map_err (\<lambda>_. ParseError ''CSeq: invalid seq'') (parse_uint 32 s) = Inr (cseq_seq c)"
    by (auto simp: cseq_typed_def cseq_parse_def and_then_eq_Inr split: prod.splits)
  then have "parse_uint 32 s = Inr (cseq_seq c)" by (cases "parse_uint 32 s") simp_all
  then show ?thesis by (rule parse_uint_bound)
qed

lemma cseq_to_ack_seq:
  assumes "cseq_value_seq v = Inr n"
  shows "cseq_value_seq (unwrap_or (ok (cseq_mut_method Ack v)) v) = Inr n"
proof -
  obtain c where c: "cseq_typed v = Inr c" "n = cseq_seq c"
    using assms by (auto simp: cseq_value_seq_def and_then_eq_Inr)
  then show ?thesis
    using cseq_parse_show [OF cseq_typed_bound [OF c(1)], of Ack] by (simp add: cseq_mut_method_def cseq_value_seq_def)
qed

lemma key_from_request_iff: "key_from_request req role = Inr k \<longleftrightarrow>
    (\<exists>v t f ft cid s n. header_opt H_Via (req_headers req) = Some v \<and> and_then (first_value v) via_typed = Inr t
      \<and> header_opt H_From (req_headers req) = Some f \<and> from_tag f = Inr (Some ft)
      \<and> header_opt H_CallId (req_headers req) = Some cid
      \<and> header_opt H_CSeq (req_headers req) = Some s \<and> cseq_value_seq s = Inr n
      \<and> build_key role t (key_method role (req_method req)) n ft cid = Inr k)"
  by (auto simp: key_from_request_def top_via_header_def via_header_def from_header_def call_id_header_def
      cseq_header_def header_get_def and_then_eq_Inr)

lemma key_from_response_iff: "key_from_response resp role = Inr k \<longleftrightarrow>
    (\<exists>v t f ft cid s m n. header_opt H_Via (resp_headers resp) = Some v \<and> and_then (first_value v) via_typed = Inr t
      \<and> header_opt H_From (resp_headers resp) = Some f \<and> from_tag f = Inr (Some ft)
      \<and> header_opt H_CallId (resp_headers resp) = Some cid
      \<and> header_opt H_CSeq (resp_headers resp) = Some s \<and> cseq_value_method s = Inr m \<and> cseq_value_seq s = Inr n
      \<and> build_key role t m n ft cid = Inr k)"
  by (auto simp: key_from_response_def top_via_header_def via_header_def from_header_def call_id_header_def
      cseq_header_def header_get_def and_then_eq_Inr)

lemma make_response_key:
  assumes "key_from_request req role = Inr k" and "key_method role (req_method req) = req_method req"
    and "and_then (cseq_header (req_headers req)) cseq_value_method = Inr (req_method req)"
  shows "key_from_response (make_response ua req status body) role = Inr k"
  using assms unfolding key_from_request_iff key_from_response_iff
  by (auto simp: make_response_headers key_headers_def cseq_header_def header_get_def)

lemma make_ack_key:
  assumes "key_from_response resp ServerRole = Inr k" and "status_code_kind (resp_status resp) \<noteq> Successful"
    and "and_then (cseq_header (resp_headers resp)) cseq_value_method = Inr Invite"
    and "make_ack ua branch invite resp = Inr ack"
  shows "key_from_request ack ServerRole = Inr k"
proof -
  obtain hs where target: "ack_target branch invite resp = Inr (req_uri invite, resp_headers resp @ hs)"
    and hs: "hs = filter (\<lambda>h. variant H_Route h \<noteq> None) (req_headers invite)"
    using assms(2) by (simp add: ack_target_def headers_extend_def)
  have no: "header_opt mk hs = None" if "mk \<in> key_headers \<or> mk = H_CSeq" for mk
    using that by (auto simp: hs header_opt_def find_map_None key_headers_def variant_def)
  have opt: "header_opt mk (resp_headers resp @ hs) = header_opt mk (resp_headers resp)"
    if "mk \<in> key_headers \<or> mk = H_CSeq" for mk
    using no [OF that] by (simp add: header_opt_def find_map_append split: option.splits)
  note ack = make_ack_headers [OF target assms(4)]
  show ?thesis
    using assms(1,3) unfolding key_from_request_iff key_from_response_iff
    by (auto simp: ack opt key_headers_def cseq_header_def header_get_def key_method_def) (metis cseq_to_ack_seq)
qed

lemma all_headers_retain: "mk \<in> set mks \<Longrightarrow> all_headers mk (headers_retain (matches_header mks) hs) = all_headers mk hs"
  unfolding all_headers_def headers_retain_def
  by (induction hs) (auto simp: map_filter_simps matches_header_def list_ex_iff split: option.splits)

lemma all_headers_map:
  "(\<And>h. variant mk (f h) = variant mk h) \<Longrightarrow> all_headers mk (map f hs) = all_headers mk hs"
  by (induction hs) (simp_all split: option.splits)

lemma all_routes_renew: "all_headers H_Route (renew_top_via branch hs) = all_headers H_Route hs"
proof -
  have "replace_first (\<lambda>h. variant H_Via h \<noteq> None) (H_Via v) hs = Some hs' \<Longrightarrow> all_headers H_Route hs' = all_headers H_Route hs" for v hs'
  proof (induction hs arbitrary: hs')
    case (Cons h hs)
    then show ?case by (auto simp: variant_def split: if_splits)
  qed simp
  then show ?thesis by (auto simp: renew_top_via_def header_replace_def split: option.splits sum.splits)
qed

lemma ack_routes:
  assumes "ack_target branch invite resp = Inr (u, hs)" and "make_ack ua branch invite resp = Inr ack"
  shows "all_headers H_Route (req_headers ack) = all_headers H_Route hs"
proof -
  have "all_headers H_Route (ack_session_id invite resp hs) = all_headers H_Route hs" for hs
    unfolding ack_session_id_def set_session_ids_def
    by (auto simp: headers_push_def variant_def intro!: all_headers_map split: option.splits sum.splits)
  moreover have "all_headers H_Route (map cseq_to_ack hs) = all_headers H_Route hs" for hs
    by (rule all_headers_map) (auto simp: cseq_to_ack_def variant_def split: option.splits sum.splits)
  ultimately show ?thesis
    using assms by (auto simp: make_ack_def Let_def user_agent_variant.unique_push_others headers_push_def
        all_headers_retain variant_def cseq_to_ack_def)
qed

lemma make_response_status [simp]: "resp_status (make_response ua req status body) = status"
  by (simp add: make_response_def Let_def)

lemma make_ack_total:
  "status_code_kind (resp_status resp) \<noteq> Successful \<Longrightarrow> \<exists>ack. make_ack ua branch invite resp = Inr ack"
  by (simp add: make_ack_def ack_target_def Let_def)

lemma make_ack_2xx_total:
  assumes "header_opt H_Contact (resp_headers resp) = Some v" and "contact_typed v = Inr c"
  shows "\<exists>ack. make_ack ua branch invite resp = Inr ack"
  using assms by (simp add: make_ack_def ack_target_def Let_def contact_header_def header_get_def split: prod.splits)

text \<open>A response built from a request carries the key of the request:
  it finds the client transaction of the sender, and on the server the transaction the request created.
  The method of the CSeq header has to be the request's own.\<close>

theorem response_matches_request:
  assumes "key_from_request req role = Inr k"
    and "and_then (cseq_header (req_headers req)) cseq_value_method = Inr (req_method req)"
    and "role = ClientRole \<or> req_method req \<noteq> Ack \<and> req_method req \<noteq> Cancel"
  shows "key_from_response (make_response ua req status body) role = Inr k"
  using assms by (intro make_response_key) (auto simp: key_method_def)

text \<open>The ACK a client builds for a non-2xx answer to its INVITE has, on the
  server, the key of the INVITE, and goes to the Request-URI of the INVITE.\<close>

theorem ack_matches_invite:
  assumes "key_from_request invite ServerRole = Inr k" and "req_method invite = Invite"
    and "and_then (cseq_header (req_headers invite)) cseq_value_method = Inr Invite"
    and "status_code_kind status \<noteq> Successful"
    and "make_ack ua branch sent (make_response ua' invite status body) = Inr ack"
  shows "key_from_request ack ServerRole = Inr k \<and> req_method ack = Ack \<and> req_uri ack = req_uri sent"
proof -
  let ?resp = "make_response ua' invite status body"
  have resp: "key_from_response ?resp ServerRole = Inr k" "status_code_kind (resp_status ?resp) \<noteq> Successful"
      "and_then (cseq_header (resp_headers ?resp)) cseq_value_method = Inr Invite"
    using make_response_key [OF assms(1)] assms(2-4)
    by (simp_all add: key_method_def make_response_headers cseq_header_def header_get_def)
  moreover have "\<exists>hs. ack_target branch sent ?resp = Inr (req_uri sent, hs)"
    using resp(2) by (simp add: ack_target_def)
  ultimately show ?thesis using make_ack_key [OF _ _ _ assms(5)] make_ack_headers(3,4) [OF _ assms(5)] by blast
qed

text \<open>C35: the ACK of a 2xx goes to the remote target along the Record-Route set in
  reverse. When the first of these is a strict router, its URI becomes the Request-URI and the remote
  target the last route.\<close>

theorem ack_2xx_routing:
  assumes "status_code_kind (resp_status resp) = Successful"
    and "make_ack ua branch invite resp = Inr ack"
  shows "\<exists>contact v. header_opt H_Contact (resp_headers resp) = Some v \<and> contact_typed v = Inr contact \<and>
    (let routes = response_route_set resp;
         sent = map (\<lambda>u. show_name_addr (name_addr_of_uri u))
     in all_headers H_Route (req_headers ack) = all_headers H_Route (resp_headers resp) @
          (case routes of [] \<Rightarrow> [] | r # rs \<Rightarrow> if has_lr (uri_params r) then sent routes else sent (rs @ [na_uri contact]))
        \<and> req_uri ack = (case routes of
             r # rs \<Rightarrow> if has_lr (uri_params r) then na_uri contact else r\<lparr>uri_headers := []\<rparr>
           | [] \<Rightarrow> na_uri contact))"
proof -
  obtain contact v where c: "header_opt H_Contact (resp_headers resp) = Some v" "contact_typed v = Inr contact"
    using assms by (auto simp: make_ack_def ack_target_def and_then_eq_Inr contact_header_def header_get_def)
  obtain u routes where ur: "apply_route_set (response_route_set resp) (na_uri contact) = (u, routes)" by fastforce
  then have target: "ack_target branch invite resp =
      Inr (u, headers_extend (map route_header routes) (renew_top_via branch (resp_headers resp)))"
    using assms(1) c by (simp add: ack_target_def contact_header_def header_get_def)
  have "all_headers H_Route (map route_header routes) = map (\<lambda>u. show_name_addr (name_addr_of_uri u)) routes" for routes
    by (induction routes) (simp_all add: route_header_def route_variant.variant_mk)
  then have "all_headers H_Route (req_headers ack) = all_headers H_Route (resp_headers resp) @
      map (\<lambda>u. show_name_addr (name_addr_of_uri u)) routes" and "req_uri ack = u"
    using make_ack_headers(4) [OF target assms(2)] ack_routes [OF target assms(2)]
    by (simp_all add: headers_extend_def all_routes_renew)
  moreover obtain rs where rs: "response_route_set resp = rs" by blast
  ultimately show ?thesis
    using c ur unfolding rs Let_def
    by (intro exI [of _ contact] exI [of _ v]) (cases rs; auto simp: apply_route_set_def split: if_splits)
qed

text \<open>A concrete exchange.\<close>

definition example_invite :: request where
  "example_invite =
     \<lparr>req_method = Invite, req_uri = uri_of_hwp \<lparr>hwp_host = Domain ''b.example'', hwp_port = None\<rparr>, req_version = V2,
      req_headers = [H_Via ''SIP/2.0/UDP a.example:5060;branch=z9hG4bK776'', H_From ''<sip:alice@a.example>;tag=88'',
        H_To ''<sip:bob@b.example>'', H_CallId ''call1@a.example'', H_CSeq ''7 INVITE'', H_MaxForwards ''70''],
      req_body = []\<rparr>"

definition example_key :: transaction_key where
  "example_key = ''s.INVITE_7_call1@a.example_88_z9hG4bK776''"

definition example_ok :: response where
  "example_ok =
     \<lparr>resp_synthetic = False, resp_received_from = None, resp_wire_reason = None, resp_status = SC_OK, resp_version = V2,
      resp_headers = [H_Via ''SIP/2.0/UDP a.example:5060;branch=z9hG4bK776'', H_From ''<sip:alice@a.example>;tag=88'',
        H_To ''<sip:bob@b.example>;tag=99'', H_CallId ''call1@a.example'', H_CSeq ''7 INVITE'',
        H_Contact ''<sip:bob@10.0.0.9:5070>'', H_RecordRoute ''<sip:p1.example;lr>, <sip:p2.example;lr>''],
      resp_body = []\<rparr>"

lemma example_invite_key: "key_from_request example_invite ServerRole = Inr example_key"
  by code_simp

lemma example_invite_cseq: "and_then (cseq_header (req_headers example_invite)) cseq_value_method = Inr (req_method example_invite)"
  by code_simp

lemma response_matches_request_witness:
  "key_from_response (make_response ''ua'' example_invite SC_Ringing None) ServerRole = Inr example_key"
  by (rule response_matches_request [OF example_invite_key example_invite_cseq]) (simp add: example_invite_def)

definition example_busy :: response where
  "example_busy = make_response ''uas'' example_invite SC_BusyHere None"

lemma ack_matches_invite_witness:
  "\<exists>ack. make_ack ''ua'' (P_Branch ''z9hG4bKx'') example_invite (make_response ''uas'' example_invite SC_BusyHere None) = Inr ack
    \<and> key_from_request ack ServerRole = Inr example_key"
proof -
  obtain ack where ack: "make_ack ''ua'' (P_Branch ''z9hG4bKx'') example_invite (make_response ''uas'' example_invite SC_BusyHere None) = Inr ack"
    using make_ack_total [of "make_response ''uas'' example_invite SC_BusyHere None" "''ua''" "P_Branch ''z9hG4bKx''" example_invite]
    by (auto simp: status_code_kind_def code_kind_def)
  have "req_method example_invite = Invite" "status_code_kind SC_BusyHere \<noteq> Successful"
    by (simp_all add: example_invite_def status_code_kind_def code_kind_def)
  then show ?thesis
    using ack_matches_invite [OF example_invite_key _ _ _ ack] example_invite_cseq ack by auto
qed

lemma ack_2xx_routing_witness:
  "\<exists>ack. make_ack ''ua'' (P_Branch ''z9hG4bKx'') example_invite example_ok = Inr ack
    \<and> all_headers H_Route (req_headers ack) = [''<sip:p2.example;lr>'', ''<sip:p1.example;lr>'']"
proof -
  have ok: "status_code_kind (resp_status example_ok) = Successful"
    by (simp add: example_ok_def status_code_kind_def code_kind_def)
  have routes: "response_route_set example_ok = map (\<lambda>d. \<lparr>uri_scheme = Some Sip, uri_auth = None,
      uri_hwp = \<lparr>hwp_host = Domain d, hwp_port = None\<rparr>, uri_params = [P_Lr], uri_headers = []\<rparr>) [''p2.example'', ''p1.example'']"
    by code_simp
  have "header_opt H_Contact (resp_headers example_ok) = Some ''<sip:bob@10.0.0.9:5070>''"
    by (simp add: example_ok_def variant_def)
  moreover have "\<exists>c. contact_typed ''<sip:bob@10.0.0.9:5070>'' = Inr c" by (rule exI) code_simp
  ultimately obtain ack where ack: "make_ack ''ua'' (P_Branch ''z9hG4bKx'') example_invite example_ok = Inr ack"
    using make_ack_2xx_total by blast
  have "show_name_addr (name_addr_of_uri \<lparr>uri_scheme = Some Sip, uri_auth = None,
      uri_hwp = \<lparr>hwp_host = Domain d, hwp_port = None\<rparr>, uri_params = [P_Lr], uri_headers = []\<rparr>) = ''<sip:'' @ d @ '';lr>''" for d
    by (simp add: show_name_addr_def name_addr_of_uri_def show_uri_def show_hwp_def show_host_def show_params_def)
  moreover have "all_headers H_Route (resp_headers example_ok) = []" by (simp add: example_ok_def variant_def)
  ultimately show ?thesis
    using ack_2xx_routing [OF ok ack] ack routes by (auto simp: Let_def has_lr_def)
qed

section \<open>Generated identifiers\<close>

lemma word_xor_zero: "x XOR y = 0 \<Longrightarrow> x = (y :: 64 word)"
proof (rule bit_word_eqI)
  fix i
  assume "x XOR y = 0"
  then have "\<not> bit (x XOR y) i" by simp
  then show "bit x i \<longleftrightarrow> bit y i" by (simp add: bit_xor_iff)
qed

lemma xor_drop_zero: "x XOR drop_bit n x = 0 \<Longrightarrow> 0 < n \<Longrightarrow> x = (0 :: 64 word)"
proof -
  assume "x XOR drop_bit n x = 0" and n: "0 < n"
  then have eq: "x = drop_bit n x" by (blast dest: word_xor_zero)
  have "unat x = unat (drop_bit n x)" by (rule arg_cong [OF eq])
  also have "\<dots> = unat x div 2 ^ n" by (simp add: unat_drop_bit_eq) (simp add: drop_bit_eq_div)
  finally have "unat x = unat x div 2 ^ n" .
  moreover have "unat x div 2 ^ n < unat x" if "0 < unat x"
    using that n by (intro div_less_dividend one_less_power) simp_all
  ultimately show "x = 0" by (metis bot_nat_0.not_eq_extremum less_irrefl unat_eq_0)
qed

lemma xor_push_zero: "x XOR push_bit n x = 0 \<Longrightarrow> 0 < n \<Longrightarrow> x = (0 :: 64 word)"
proof (rule bit_word_eqI)
  fix i
  assume "x XOR push_bit n x = 0" and n: "0 < n"
  then have eq: "x = push_bit n x" by (blast dest: word_xor_zero)
  have "\<not> bit x i"
  proof (induction i rule: less_induct)
    case (less i)
    have "bit x i \<longleftrightarrow> bit (push_bit n x) i" using eq by simp
    also have "\<dots> \<longleftrightarrow> n \<le> i \<and> i < 64 \<and> bit x (i - n)" by (auto simp: bit_push_bit_iff)
    also have "\<dots> \<longleftrightarrow> False" using less [of "i - n"] n by auto
    finally show ?case by simp
  qed
  then show "bit x i \<longleftrightarrow> bit (0 :: 64 word) i" by simp
qed

lemma xorshift_nonzero: "xorshift x \<noteq> 0 \<longleftrightarrow> x \<noteq> 0"
  unfolding xorshift_def Let_def
  by (metis (no_types) xor_drop_zero xor_push_zero drop_bit_of_0 push_bit_of_0 xor.right_neutral zero_less_numeral)

lemma length_le_bytes [simp]: "length (le_bytes w) = 8"
  by (simp add: le_bytes_def)

lemma fill_random_bytes_spec:
  "length (fst (fill_random_bytes n x)) = n \<and> (snd (fill_random_bytes n x) = 0 \<longleftrightarrow> x = 0)"
proof (induction n x rule: fill_random_bytes.induct)
  case (1 n x)
  show ?case
  proof (cases "n = 0")
    case False
    then have "length (fst (fill_random_bytes (n - min n 8) (xorshift x))) = n - min n 8
        \<and> (snd (fill_random_bytes (n - min n 8) (xorshift x)) = 0 \<longleftrightarrow> xorshift x = 0)"
      using 1 [OF False refl refl] by blast
    then show ?thesis
      using False xorshift_nonzero [of x] by (subst (1 2) fill_random_bytes.simps) (auto simp: Let_def split: prod.splits)
  qed (simp add: fill_random_bytes.simps)
qed

lemma alnum_char: "k < 62 \<Longrightarrow> is_ascii_alphanumeric (alnum ! k)"
proof -
  have "list_all is_ascii_alphanumeric alnum" by code_simp
  moreover assume "k < 62"
  moreover have "length alnum = 62" by (simp add: alnum_def)
  ultimately show ?thesis by (simp add: list_all_length)
qed

lemma random_text_spec:
  "length (fst (random_text n x)) = n \<and> list_all is_ascii_alphanumeric (fst (random_text n x))
   \<and> (snd (random_text n x) = 0 \<longleftrightarrow> x = 0)"
  using fill_random_bytes_spec [of n x]
  by (auto simp: random_text_def list_all_iff alnum_char split: prod.splits)

lemma hex_char_hexdigit: "k < 16 \<Longrightarrow> is_ascii_hexdigit (hex_char k)"
proof -
  have "list_all is_ascii_hexdigit ''0123456789abcdef''" by code_simp
  moreover assume "k < 16"
  ultimately show ?thesis by (simp add: list_all_length hex_char_def)
qed

lemma high_nibble: "unat W div 16 = unat (drop_bit 4 W)"
proof -
  have "unat (drop_bit 4 W) = drop_bit 4 (unat W)" by (rule unat_drop_bit_eq)
  then show ?thesis by (simp add: drop_bit_eq_div)
qed

lemma version_nibble: "unat ((w AND 0x0F) OR 0x40 :: 8 word) div 16 = 4"
proof -
  have "drop_bit 4 ((w AND 0x0F) OR 0x40 :: 8 word) = (drop_bit 4 w AND drop_bit 4 0x0F) OR drop_bit 4 0x40"
    by (simp only: drop_bit_or drop_bit_and)
  also have "\<dots> = 4" by simp
  finally show ?thesis unfolding high_nibble by simp
qed

lemma two_bits: "(u AND 3 :: 8 word) \<in> {0, 1, 2, 3}"
proof -
  have "unat (u AND 3) \<le> 3"
    using word_and_le1 [of u 3] by (simp add: word_le_nat_alt)
  then have "unat (u AND 3) = 0 \<or> unat (u AND 3) = 1 \<or> unat (u AND 3) = 2 \<or> unat (u AND 3) = 3" by arith
  moreover have "u AND 3 = word_of_nat k" if "unat (u AND 3) = k" for k
    unfolding that [symmetric] by simp
  ultimately show ?thesis by fastforce
qed

lemma variant_nibble: "unat ((w AND 0x3F) OR 0x80 :: 8 word) div 16 \<in> {8, 9, 10, 11}"
proof -
  have "drop_bit 4 ((w AND 0x3F) OR 0x80 :: 8 word) = (drop_bit 4 w AND drop_bit 4 0x3F) OR drop_bit 4 0x80"
    by (simp only: drop_bit_or drop_bit_and)
  also have "\<dots> = (drop_bit 4 w AND 3) OR 8" by simp
  finally show ?thesis using two_bits [of "drop_bit 4 w"] unfolding high_nibble by auto
qed

lemma show_hex2_hex: "list_all is_ascii_hexdigit (show_hex2 b)" "length (show_hex2 b) = 2"
proof -
  have "unat b < 256" using unsigned_less [of b] by simp
  then show "list_all is_ascii_hexdigit (show_hex2 b)"
    by (simp add: show_hex2_def hex_char_hexdigit less_mult_imp_div_less)
qed (simp add: show_hex2_def)

lemma hex_bytes: "list_all is_ascii_hexdigit (concat (map show_hex2 bs)) \<and> length (concat (map show_hex2 bs)) = 2 * length bs"
  by (induction bs) (simp_all add: show_hex2_hex)

lemma hex_bytes_nth: "i < length bs \<Longrightarrow> concat (map show_hex2 bs) ! (2 * i) = hex_char (unat (bs ! i) div 16)"
proof (induction bs arbitrary: i)
  case (Cons b bs)
  then show ?case by (cases i) (simp_all add: show_hex2_def)
qed simp



text \<open>Branches carry the magic cookie of RFC 3261 and twelve alphanumeric
  characters, tags eight; neither holds the underscore that separates the fields of a transaction key;
  and the generator never falls into its only fixed point, the state 0.\<close>

theorem generated_ids:
  "(\<exists>t. fst (make_via_branch x) = P_Branch (''z9hG4bK'' @ t) \<and> length t = 12 \<and> list_all is_ascii_alphanumeric t
      \<and> no_underscore (''z9hG4bK'' @ t))
   \<and> length (fst (make_tag x)) = 8 \<and> no_underscore (fst (make_tag x))
   \<and> (snd (make_via_branch x) = 0 \<longleftrightarrow> x = 0) \<and> (snd (make_tag x) = 0 \<longleftrightarrow> x = 0)"
proof -
  have plain: "list_all is_ascii_alphanumeric t \<Longrightarrow> no_underscore t" for t
    by (induction t) (auto simp: no_underscore_def is_ascii_alphanumeric_def is_ascii_digit_def is_ascii_alphabetic_def)
  show ?thesis
    using random_text_spec [of 12 x] random_text_spec [of 8 x] plain [of "fst (random_text 12 x)"] plain [of "fst (random_text 8 x)"]
    by (auto simp: make_via_branch_def make_tag_def BRANCH_LEN_def TO_TAG_LEN_def no_underscore_def split: prod.splits)
qed

end
