(* ===== verification/Transaction_State.thy ===== *)
theory Transaction_State
  imports Message_Factory Timer_Queue Sip_Connection
begin

text \<open>
  The data of the transaction layer: the states, types and timers of \<open>transaction/mod.rs\<close>, the
  \<open>Transaction\<close> of \<open>transaction/transaction.rs\<close>, the shared state of \<open>EndpointInner\<close> in
  \<open>transaction/endpoint.rs\<close> and the small operations the handlers are composed of.

  A handler runs on a transaction and the endpoint it belongs to. What lies outside (sockets, lookup
  and name resolution, the application's inspector and locator, random text) is the \<open>env\<close> argument
  of the operations that use it; a new one may be passed to every step. The clock, the log of what was
  written and the channels of the transaction users are part of the endpoint's state.
\<close>

section \<open>States, types and timers\<close>

datatype tx_state = Nothing | Calling | Trying | Proceeding | Accepted | Completed | Confirmed | Terminated

fun show_tx_state :: "tx_state \<Rightarrow> string" where
  "show_tx_state Nothing = ''Nothing''"
| "show_tx_state Calling = ''Calling''"
| "show_tx_state Trying = ''Trying''"
| "show_tx_state Proceeding = ''Proceeding''"
| "show_tx_state Accepted = ''Accepted''"
| "show_tx_state Completed = ''Completed''"
| "show_tx_state Confirmed = ''Confirmed''"
| "show_tx_state Terminated = ''Terminated''"

datatype tx_type = ClientInvite | ClientNonInvite | ServerInvite | ServerNonInvite

fun show_tx_type :: "tx_type \<Rightarrow> string" where
  "show_tx_type ClientInvite = ''ClientInvite''"
| "show_tx_type ClientNonInvite = ''ClientNonInvite''"
| "show_tx_type ServerInvite = ''ServerInvite''"
| "show_tx_type ServerNonInvite = ''ServerNonInvite''"

definition is_client :: "tx_type \<Rightarrow> bool" where
  "is_client t \<longleftrightarrow> t = ClientInvite \<or> t = ClientNonInvite"

definition is_server :: "tx_type \<Rightarrow> bool" where
  "is_server t \<longleftrightarrow> t = ServerInvite \<or> t = ServerNonInvite"

definition role_of_type :: "tx_type \<Rightarrow> transaction_role" where
  "role_of_type t = (if is_client t then ClientRole else ServerRole)"

datatype tx_timer =
    TimerA transaction_key nat
  | TimerB transaction_key
  | TimerC transaction_key
  | TimerD transaction_key
  | TimerK transaction_key
  | TimerG transaction_key nat
  | TimerL transaction_key
  | TimerM transaction_key
  | TimerCleanup transaction_key

fun timer_key_of :: "tx_timer \<Rightarrow> transaction_key" where
  "timer_key_of (TimerA k _) = k"
| "timer_key_of (TimerB k) = k"
| "timer_key_of (TimerC k) = k"
| "timer_key_of (TimerD k) = k"
| "timer_key_of (TimerG k _) = k"
| "timer_key_of (TimerK k) = k"
| "timer_key_of (TimerL k) = k"
| "timer_key_of (TimerM k) = k"
| "timer_key_of (TimerCleanup k) = k"

datatype tx_event =
    Received sip_message "sip_connection option"
  | TimerFired tx_timer
  | Respond response
  | Terminate transaction_key

section \<open>Environment\<close>

text \<open>The inspector is one object with two methods; the connection's \<open>send\<close> fails with an error or
  succeeds.\<close>

record env =
  env_inspector :: "((sip_message \<Rightarrow> sip_addr option \<Rightarrow> sip_message) \<times> (sip_message \<Rightarrow> sip_addr option \<Rightarrow> sip_message)) option"
  env_locator :: "(uri \<Rightarrow> error + sip_addr) option"
  env_lookup :: "sip_addr \<Rightarrow> transaction_key option \<Rightarrow> error + (sip_connection \<times> sip_addr)"
  env_resolve :: "sip_addr \<Rightarrow> error + sip_addr"
  env_send_error :: "sip_connection \<Rightarrow> sip_message \<Rightarrow> sip_addr option \<Rightarrow> error option"
  env_tag :: string
  env_branch :: param

definition before_send :: "env \<Rightarrow> sip_message \<Rightarrow> sip_addr option \<Rightarrow> sip_message" where
  "before_send env msg dest = (case env_inspector env of Some (f, _) \<Rightarrow> f msg dest | None \<Rightarrow> msg)"

definition after_received :: "env \<Rightarrow> sip_message \<Rightarrow> sip_addr option \<Rightarrow> sip_message" where
  "after_received env msg from = (case env_inspector env of Some (_, f) \<Rightarrow> f msg from | None \<Rightarrow> msg)"

section \<open>Transactions\<close>

text \<open>\<open>tx_channel\<close> names the channel whose two ends \<open>tu_sender\<close> and \<open>tu_receiver\<close> are.
  \<open>tx_first_write_hook\<close> says a hook is registered.\<close>

record transaction =
  tx_type :: tx_type
  tx_key :: transaction_key
  tx_original :: request
  tx_destination :: "sip_addr option"
  tx_state :: tx_state
  tx_connection :: "sip_connection option"
  tx_last_response :: "response option"
  tx_last_ack :: "request option"
  tx_ack_body :: "bytes option"
  tx_sent_ack :: "request option"
  tx_channel :: nat
  tx_timer_a :: "nat option"
  tx_timer_b :: "nat option"
  tx_timer_c :: "nat option"
  tx_timer_d :: "nat option"
  tx_timer_k :: "nat option"
  tx_timer_g :: "nat option"
  tx_timer_l :: "nat option"
  tx_timer_m :: "nat option"
  tx_retransmission :: bool
  tx_is_cleaned_up :: bool
  tx_first_write_hook :: bool

definition tx_role :: "transaction \<Rightarrow> transaction_role" where
  "tx_role t = role_of_type (tx_type t)"

definition is_terminated :: "transaction \<Rightarrow> bool" where
  "is_terminated t \<longleftrightarrow> tx_state t = Terminated"

section \<open>The endpoint\<close>

text \<open>\<open>ep_queues\<close> holds the events sent to a channel and not yet received, \<open>ep_closed\<close> the channels
  whose transaction was dropped. \<open>ep_sent\<close> and \<open>ep_hooks\<close> are logs: the messages written, in order,
  and the transactions whose first-write hook ran.\<close>

record endpoint =
  ep_option :: endpoint_option
  ep_user_agent :: string
  ep_now :: nat
  ep_timers :: "tx_timer timer"
  ep_transactions :: "transaction_key \<rightharpoonup> nat"
  ep_finished :: "transaction_key \<rightharpoonup> sip_message option"
  ep_waiting_ack :: "dialog_id \<rightharpoonup> transaction_key"
  ep_waiting_ack_cseq :: "dialog_id \<times> nat \<rightharpoonup> transaction_key"
  ep_next_channel :: nat
  ep_queues :: "nat \<Rightarrow> tx_event list"
  ep_closed :: "nat set"
  ep_incoming :: "transaction list"
  ep_retired :: "sip_connection list"
  ep_sent :: "(sip_connection \<times> sip_message \<times> sip_addr option) list"
  ep_hooks :: "transaction_key list"

definition endpoint_new :: "string \<Rightarrow> endpoint_option option \<Rightarrow> endpoint" where
  "endpoint_new user_agent opt =
     \<lparr>ep_option = unwrap_or opt endpoint_option_default, ep_user_agent = user_agent, ep_now = 0, ep_timers = timer_new,
      ep_transactions = Map.empty, ep_finished = Map.empty, ep_waiting_ack = Map.empty, ep_waiting_ack_cseq = Map.empty,
      ep_next_channel = 0, ep_queues = (\<lambda>_. []), ep_closed = {}, ep_incoming = [], ep_retired = [], ep_sent = [],
      ep_hooks = []\<rparr>"

text \<open>Sending to a channel fails when its receiver is gone.\<close>

definition channel_send :: "nat \<Rightarrow> tx_event \<Rightarrow> endpoint \<Rightarrow> bool \<times> endpoint" where
  "channel_send ch ev e =
     (if ch \<in> ep_closed e then (False, e) else (True, e\<lparr>ep_queues := (ep_queues e)(ch := ep_queues e ch @ [ev])\<rparr>))"

definition conn_send :: "env \<Rightarrow> sip_connection \<Rightarrow> sip_message \<Rightarrow> sip_addr option \<Rightarrow> endpoint \<Rightarrow> error option \<times> endpoint" where
  "conn_send env c msg dest e =
     (case env_send_error env c msg dest of
        Some err \<Rightarrow> (Some err, e)
      | None \<Rightarrow> (None, e\<lparr>ep_sent := ep_sent e @ [(c, msg, dest)]\<rparr>))"

definition ep_timeout :: "nat \<Rightarrow> tx_timer \<Rightarrow> endpoint \<Rightarrow> nat \<times> endpoint" where
  "ep_timeout d v e =
     (case timer_timeout (ep_now e) d v (ep_timers e) of (i, _, q) \<Rightarrow> (i, e\<lparr>ep_timers := q\<rparr>))"

definition ep_cancel :: "nat option \<Rightarrow> endpoint \<Rightarrow> endpoint" where
  "ep_cancel i e =
     (case i of
        Some i \<Rightarrow> (case timer_cancel i (ep_timers e) of (_, _, q) \<Rightarrow> e\<lparr>ep_timers := q\<rparr>)
      | None \<Rightarrow> e)"

definition ep_make_response :: "endpoint \<Rightarrow> request \<Rightarrow> status_code \<Rightarrow> bytes option \<Rightarrow> response" where
  "ep_make_response e req status body = make_response (ep_user_agent e) req status body"

definition attach_transaction :: "transaction_key \<Rightarrow> nat \<Rightarrow> endpoint \<Rightarrow> endpoint" where
  "attach_transaction k ch e = e\<lparr>ep_transactions := (ep_transactions e)(k \<mapsto> ch)\<rparr>"

definition detach_transaction :: "transaction_key \<Rightarrow> sip_message option \<Rightarrow> endpoint \<Rightarrow> endpoint" where
  "detach_transaction k last_message e =
     (let e = e\<lparr>ep_transactions := (ep_transactions e)(k := None)\<rparr> in
      case last_message of
        Some msg \<Rightarrow>
          (let e = snd (ep_timeout (opt_t1x64 (ep_option e)) (TimerCleanup k) e)
           in e\<lparr>ep_finished := (ep_finished e)(k \<mapsto> Some msg)\<rparr>)
      | None \<Rightarrow> e)"

definition cseq_seq_of :: "header list \<Rightarrow> nat option" where
  "cseq_seq_of hs = ok (and_then (cseq_header hs) cseq_value_seq)"

definition forget_waiting_ack :: "dialog_id \<Rightarrow> request \<Rightarrow> transaction_key \<Rightarrow> endpoint \<Rightarrow> endpoint" where
  "forget_waiting_ack d req k e =
     (let e = (case cseq_seq_of (req_headers req) of
            Some seq \<Rightarrow>
              if ep_waiting_ack_cseq e (d, seq) = Some k
              then e\<lparr>ep_waiting_ack_cseq := (ep_waiting_ack_cseq e)((d, seq) := None)\<rparr> else e
          | None \<Rightarrow> e)
      in if ep_waiting_ack e d = Some k then e\<lparr>ep_waiting_ack := (ep_waiting_ack e)(d := None)\<rparr> else e)"

section \<open>A transaction on its endpoint\<close>

type_synonym st = "transaction \<times> endpoint"

text \<open>\<open>take\<close> of a timer field with the cancellation of the id in it, and \<open>replace\<close> of it by the id of a
  new timer. The field is given by its selector and its update function.\<close>

definition take_timer :: "(transaction \<Rightarrow> nat option) \<Rightarrow> ((nat option \<Rightarrow> nat option) \<Rightarrow> transaction \<Rightarrow> transaction) \<Rightarrow> st \<Rightarrow> st" where
  "take_timer get upd s = (upd (\<lambda>_. None) (fst s), ep_cancel (get (fst s)) (snd s))"

definition start_timer :: "((nat option \<Rightarrow> nat option) \<Rightarrow> transaction \<Rightarrow> transaction) \<Rightarrow> nat \<Rightarrow> tx_timer \<Rightarrow> st \<Rightarrow> st" where
  "start_timer upd d v s = (case ep_timeout d v (snd s) of (i, e) \<Rightarrow> (upd (\<lambda>_. Some i) (fst s), e))"

definition tx_send :: "tx_event \<Rightarrow> st \<Rightarrow> bool \<times> st" where
  "tx_send ev s = (case channel_send (tx_channel (fst s)) ev (snd s) of (b, e) \<Rightarrow> (b, (fst s, e)))"

text \<open>\<open>Transaction::new\<close> with its attachment to the endpoint.\<close>

definition tx_new :: "tx_type \<Rightarrow> transaction_key \<Rightarrow> request \<Rightarrow> sip_connection option \<Rightarrow> endpoint \<Rightarrow> st" where
  "tx_new ty k original connection e =
     (let ch = ep_next_channel e;
          t = \<lparr>tx_type = ty, tx_key = k, tx_original = original, tx_destination = None,
               tx_state = (if is_server ty then Trying else Nothing), tx_connection = connection,
               tx_last_response = None, tx_last_ack = None, tx_ack_body = None, tx_sent_ack = None, tx_channel = ch,
               tx_timer_a = None, tx_timer_b = None, tx_timer_c = None, tx_timer_d = None, tx_timer_k = None,
               tx_timer_g = None, tx_timer_l = None, tx_timer_m = None, tx_retransmission = True,
               tx_is_cleaned_up = False, tx_first_write_hook = False\<rparr>
      in (t, attach_transaction k ch (e\<lparr>ep_next_channel := ch + 1\<rparr>)))"

definition new_client :: "transaction_key \<Rightarrow> request \<Rightarrow> sip_connection option \<Rightarrow> endpoint \<Rightarrow> st" where
  "new_client k original connection e =
     tx_new (case req_method original of Invite \<Rightarrow> ClientInvite | _ \<Rightarrow> ClientNonInvite) k original connection e"

definition new_server :: "transaction_key \<Rightarrow> request \<Rightarrow> sip_connection option \<Rightarrow> endpoint \<Rightarrow> st" where
  "new_server k original connection e =
     tx_new (case req_method original of Invite \<Rightarrow> ServerInvite | Ack \<Rightarrow> ServerInvite | _ \<Rightarrow> ServerNonInvite)
       k original connection e"

end
