(* ===== verification/Transaction.thy ===== *)
theory Transaction
  imports Transaction_State
begin

text \<open>
  The operations of \<open>transaction/transaction.rs\<close>. Each takes the transaction on its endpoint and
  returns its result with the state it leaves; an early return leaves the effects made so far.
\<close>

section \<open>State changes\<close>

definition can_transition :: "tx_state \<Rightarrow> transaction \<Rightarrow> error + unit" where
  "can_transition target t =
     (if (tx_state t, target) \<in>
          {(Nothing, Calling), (Nothing, Trying), (Nothing, Proceeding), (Nothing, Terminated),
           (Calling, Calling), (Calling, Trying), (Calling, Proceeding), (Calling, Accepted), (Calling, Completed),
           (Calling, Terminated),
           (Trying, Trying), (Trying, Proceeding), (Trying, Accepted), (Trying, Completed), (Trying, Confirmed),
           (Trying, Terminated),
           (Proceeding, Proceeding), (Proceeding, Accepted), (Proceeding, Completed), (Proceeding, Confirmed),
           (Proceeding, Terminated),
           (Accepted, Accepted), (Accepted, Terminated),
           (Completed, Confirmed), (Completed, Terminated),
           (Confirmed, Terminated)}
      then Inr ()
      else Inl (TransactionError
        (''invalid state transition from '' @ show_tx_state (tx_state t) @ '' to '' @ show_tx_state target) (tx_key t)))"

definition take_timer_a :: "st \<Rightarrow> st" where "take_timer_a = take_timer tx_timer_a tx_timer_a_update"
definition take_timer_b :: "st \<Rightarrow> st" where "take_timer_b = take_timer tx_timer_b tx_timer_b_update"
definition take_timer_c :: "st \<Rightarrow> st" where "take_timer_c = take_timer tx_timer_c tx_timer_c_update"

definition cleanup_timer :: "st \<Rightarrow> st" where
  "cleanup_timer s =
     (let s = take_timer_a s;
          s = take_timer_b s;
          s = take_timer_c s;
          s = take_timer tx_timer_d tx_timer_d_update s;
          s = take_timer tx_timer_k tx_timer_k_update s;
          s = take_timer tx_timer_g tx_timer_g_update s;
          s = take_timer tx_timer_l tx_timer_l_update s
      in take_timer tx_timer_m tx_timer_m_update s)"

text \<open>The message a finished transaction leaves behind for retransmissions of its peer.\<close>

definition last_message :: "env \<Rightarrow> st \<Rightarrow> sip_message option \<times> transaction" where
  "last_message env s =
     (let t = fst s in
      case tx_type t of
        ClientInvite \<Rightarrow>
          (let t = (if (tx_state t = Proceeding \<or> tx_state t = Trying) \<and> tx_last_ack t = None then
                 (case tx_last_response t of
                    Some resp \<Rightarrow>
                      if opt_auto_ack_2xx (ep_option (snd s)) \<or> status_code_kind (resp_status resp) \<noteq> Successful then
                        (case make_ack (ep_user_agent (snd s)) (env_branch env) (tx_original t) resp of
                           Inr ack \<Rightarrow> t\<lparr>tx_last_ack := Some ack\<rparr>
                         | Inl _ \<Rightarrow> t)
                      else t
                  | None \<Rightarrow> t)
               else t)
           in (map_option Request (tx_last_ack t), t\<lparr>tx_last_ack := None\<rparr>))
      | ServerNonInvite \<Rightarrow> (map_option Response (tx_last_response t), t\<lparr>tx_last_response := None\<rparr>)
      | ServerInvite \<Rightarrow> (map_option Response (tx_last_response t), t)
      | ClientNonInvite \<Rightarrow> (None, t))"

definition forget_own_ack :: "st \<Rightarrow> endpoint" where
  "forget_own_ack s =
     (case tx_last_response (fst s) of
        Some resp \<Rightarrow>
          (case dialog_id_of_response resp (tx_role (fst s)) of
             Inr d \<Rightarrow> forget_waiting_ack d (tx_original (fst s)) (tx_key (fst s)) (snd s)
           | Inl _ \<Rightarrow> snd s)
      | None \<Rightarrow> snd s)"

definition cleanup :: "env \<Rightarrow> st \<Rightarrow> st" where
  "cleanup env s =
     (if tx_is_cleaned_up (fst s) then s
      else
        (let s = ((fst s)\<lparr>tx_is_cleaned_up := True\<rparr>, snd s);
             s = cleanup_timer s;
             e = (if tx_type (fst s) = ServerInvite \<and> tx_state (fst s) = Completed then snd s else forget_own_ack s);
             (msg, t) = last_message env (fst s, e)
         in (t, detach_transaction (tx_key t) msg e)))"

text \<open>The arms of \<open>transition\<close>, one per target state. The two that can fail return their error and
  leave the timers they armed.\<close>

definition enter_calling :: "st \<Rightarrow> st" where
  "enter_calling s =
     (if is_client (tx_type (fst s)) then
        (let t1 = opt_t1 (ep_option (snd s)); k = tx_key (fst s);
             s = (if (case tx_connection (fst s) of Some c \<Rightarrow> \<not> is_reliable c | None \<Rightarrow> True)
                  then start_timer tx_timer_a_update t1 (TimerA k t1) s else s)
         in start_timer tx_timer_b_update (opt_t1x64 (ep_option (snd s))) (TimerB k) s)
      else s)"

definition enter_provisional :: "st \<Rightarrow> st" where
  "enter_provisional s =
     (let s = take_timer_a s in
      if tx_type (fst s) = ClientInvite then
        (let s = take_timer_b s in
         if tx_timer_c (fst s) = None
         then start_timer tx_timer_c_update (opt_timerc (ep_option (snd s))) (TimerC (tx_key (fst s))) s
         else s)
      else s)"

definition enter_accepted :: "st \<Rightarrow> (error + unit) \<times> st" where
  "enter_accepted s =
     (let s = take_timer_c (take_timer_b (take_timer_a s)); k = tx_key (fst s); opt = ep_option (snd s) in
      case tx_type (fst s) of
        ServerInvite \<Rightarrow>
          (let s = start_timer tx_timer_l_update (opt_t1x64 opt) (TimerL k) s;
               s = start_timer tx_timer_g_update (opt_t1 opt) (TimerG k (opt_t1 opt)) s
           in case tx_last_response (fst s) of
                Some resp \<Rightarrow>
                  (case dialog_id_of_response resp ServerRole of
                     Inl err \<Rightarrow> (Inl err, s)
                   | Inr d \<Rightarrow>
                       (let e = snd s;
                            e = (case cseq_seq_of (req_headers (tx_original (fst s))) of
                                   Some seq \<Rightarrow> e\<lparr>ep_waiting_ack_cseq := (ep_waiting_ack_cseq e)((d, seq) \<mapsto> k)\<rparr>
                                 | None \<Rightarrow> e)
                        in (Inr (), (fst s, e\<lparr>ep_waiting_ack := (ep_waiting_ack e)(d \<mapsto> k)\<rparr>))))
              | None \<Rightarrow> (Inr (), s))
      | ClientInvite \<Rightarrow> (Inr (), start_timer tx_timer_m_update (opt_t1x64 opt) (TimerM k) s)
      | ty \<Rightarrow>
          (Inl (TransactionError
             (''Accepted state is INVITE-only (transaction type was '' @ show_tx_type ty @ '')'') k), s))"

definition enter_completed :: "st \<Rightarrow> (error + unit) \<times> st" where
  "enter_completed s =
     (let s = take_timer_c (take_timer_b (take_timer_a s)); k = tx_key (fst s); opt = ep_option (snd s);
          arm_d = start_timer tx_timer_d_update (opt_t1x64 opt) (TimerD k) in
      if tx_type (fst s) = ServerInvite then
        (case tx_connection (fst s) of
           None \<Rightarrow> (Inl (TransactionError ''no connection found'' k), s)
         | Some c \<Rightarrow>
             (let s = (if is_reliable c then s else start_timer tx_timer_g_update (opt_t1 opt) (TimerG k (opt_t1 opt)) s)
              in case tx_last_response (fst s) of
                   Some resp \<Rightarrow>
                     (case dialog_id_of_response resp ServerRole of
                        Inl err \<Rightarrow> (Inl err, s)
                      | Inr d \<Rightarrow>
                          (Inr (), arm_d (fst s, (snd s)\<lparr>ep_waiting_ack := (ep_waiting_ack (snd s))(d \<mapsto> k)\<rparr>)))
                 | None \<Rightarrow> (Inr (), arm_d s)))
      else (Inr (), arm_d s))"

definition enter_confirmed :: "st \<Rightarrow> st" where
  "enter_confirmed s =
     (let s = cleanup_timer s;
          s = (fst s, if tx_type (fst s) = ServerInvite then forget_own_ack s else snd s)
      in start_timer tx_timer_k_update (opt_t4 (ep_option (snd s))) (TimerK (tx_key (fst s))) s)"

definition enter_terminated :: "env \<Rightarrow> st \<Rightarrow> st" where
  "enter_terminated env s = snd (tx_send (Terminate (tx_key (fst s))) (cleanup env s))"

definition enter_state :: "env \<Rightarrow> tx_state \<Rightarrow> st \<Rightarrow> (error + unit) \<times> st" where
  "enter_state env target s =
     (case target of
        Nothing \<Rightarrow> (Inr (), s)
      | Calling \<Rightarrow> (Inr (), enter_calling s)
      | Trying \<Rightarrow> (Inr (), enter_provisional s)
      | Proceeding \<Rightarrow> (Inr (), enter_provisional s)
      | Accepted \<Rightarrow> enter_accepted s
      | Completed \<Rightarrow> enter_completed s
      | Confirmed \<Rightarrow> (Inr (), enter_confirmed s)
      | Terminated \<Rightarrow> (Inr (), enter_terminated env s))"

definition set_state :: "tx_state \<Rightarrow> st \<Rightarrow> st" where
  "set_state target s = ((fst s)\<lparr>tx_state := target\<rparr>, snd s)"

definition transition :: "env \<Rightarrow> tx_state \<Rightarrow> st \<Rightarrow> (error + tx_state) \<times> st" where
  "transition env target s =
     (if tx_state (fst s) = target then (Inr target, s)
      else (case enter_state env target s of
          (Inl err, s') \<Rightarrow> (Inl err, s')
        | (Inr _, s') \<Rightarrow> (Inr target, set_state target s')))"

text \<open>\<open>transition(...).ok()\<close> and \<open>transition(...).map(|_| ())\<close>.\<close>

definition try_transition :: "env \<Rightarrow> tx_state \<Rightarrow> st \<Rightarrow> st" where
  "try_transition env target s = snd (transition env target s)"

definition do_transition :: "env \<Rightarrow> tx_state \<Rightarrow> st \<Rightarrow> (error + unit) \<times> st" where
  "do_transition env target s =
     (case transition env target s of (r, s') \<Rightarrow> (and_then r (\<lambda>_. Inr ()), s'))"

section \<open>Sending requests\<close>

definition note_request_written :: "st \<Rightarrow> st" where
  "note_request_written s =
     (if tx_first_write_hook (fst s)
      then ((fst s)\<lparr>tx_first_write_hook := False\<rparr>, (snd s)\<lparr>ep_hooks := ep_hooks (snd s) @ [tx_key (fst s)]\<rparr>)
      else s)"

definition inform_tu_response :: "env \<Rightarrow> response \<Rightarrow> st \<Rightarrow> (error + unit) \<times> st" where
  "inform_tu_response env resp s =
     (case tx_send (Received (after_received env (Response resp) None) None) s of
        (True, s') \<Rightarrow> (Inr (), s')
      | (False, s') \<Rightarrow> (Inl (TransactionError ''channel closed'' (tx_key (fst s))), s'))"

text \<open>A local response for the transaction user, made from the request that was sent.\<close>

definition synthetic_response :: "status_code \<Rightarrow> st \<Rightarrow> response" where
  "synthetic_response status s = (ep_make_response (snd s) (tx_original (fst s)) status None)\<lparr>resp_synthetic := True\<rparr>"

definition on_stream_send_failure :: "env \<Rightarrow> st \<Rightarrow> (error + unit) \<times> st" where
  "on_stream_send_failure env s =
     (let s = (fst s, case tx_connection (fst s) of
                  Some c \<Rightarrow> (snd s)\<lparr>ep_retired := ep_retired (snd s) @ [c]\<rparr>
                | None \<Rightarrow> snd s)
      in inform_tu_response env (synthetic_response SC_ServiceUnavailable s) s)"

definition resolve_target_uri :: "env \<Rightarrow> transaction \<Rightarrow> error + sip_addr" where
  "resolve_target_uri env t =
     (case tx_destination t of
        Some a \<Rightarrow> Inr a
      | None \<Rightarrow>
          (let dest = request_destination (tx_original t) in
           case env_locator env of Some locate \<Rightarrow> locate dest | None \<Rightarrow> Inr (sip_addr_of_uri dest)))"

definition connect :: "error + (sip_connection \<times> sip_addr) \<Rightarrow> transaction \<Rightarrow> transaction" where
  "connect found t =
     (case found of
        Inr (c, a) \<Rightarrow> t\<lparr>tx_connection := Some c, tx_destination := Some a\<rparr>
      | Inl _ \<Rightarrow> t)"

definition affinity_destination :: "transaction \<Rightarrow> transaction" where
  "affinity_destination t =
     (case (tx_destination t, tx_connection t) of
        (None, Some c) \<Rightarrow>
          if is_reliable c then
            (case get_remote_addr c of Some a \<Rightarrow> t\<lparr>tx_destination := Some a\<rparr> | None \<Rightarrow> t)
          else t
      | _ \<Rightarrow> t)"

definition set_content_length :: "transaction \<Rightarrow> transaction" where
  "set_content_length t =
     t\<lparr>tx_original := (tx_original t)\<lparr>req_headers :=
         unique_push (H_ContentLength (show_u32 (length (req_body (tx_original t))))) (req_headers (tx_original t))\<rparr>\<rparr>"

text \<open>One write of the request: whether it was written, and whether a stream failed.\<close>

definition write_request :: "env \<Rightarrow> st \<Rightarrow> bool \<times> bool \<times> st" where
  "write_request env s =
     (let msg = before_send env (Request (tx_original (fst s))) (tx_destination (fst s)) in
      case tx_connection (fst s) of
        Some c \<Rightarrow>
          (case conn_send env c msg (tx_destination (fst s)) (snd s) of
             (None, e) \<Rightarrow> (True, False, (fst s, e))
           | (Some _, e) \<Rightarrow> (False, is_stream c, (fst s, e)))
      | None \<Rightarrow> (False, False, s))"

definition start_request :: "env \<Rightarrow> st \<Rightarrow> (error + unit) \<times> st" where
  "start_request env s =
     (let s = (set_content_length (affinity_destination (fst s)), snd s) in
      case write_request env s of
        (written, stream_failed, s) \<Rightarrow>
          (case do_transition env Calling s of
             (Inl err, s) \<Rightarrow> (Inl err, s)
           | (Inr _, s) \<Rightarrow>
               (let s = (if written then note_request_written s else s) in
                if stream_failed then on_stream_send_failure env s else (Inr (), s))))"

definition send :: "env \<Rightarrow> st \<Rightarrow> (error + unit) \<times> st" where
  "send env s =
     (let t = fst s in
      if \<not> is_client (tx_type t) then
        (Inl (TransactionError ''send is only valid for client transactions'' (tx_key t)), s)
      else if tx_connection t = None then
        (case resolve_target_uri env t of
           Inl err \<Rightarrow> (Inl err, s)
         | Inr target \<Rightarrow> start_request env (connect (env_lookup env target (Some (tx_key t))) t, snd s))
      else start_request env s)"

definition on_first_write :: "transaction \<Rightarrow> transaction" where
  "on_first_write t = t\<lparr>tx_first_write_hook := True\<rparr>"

definition stop_retransmissions :: "st \<Rightarrow> st" where
  "stop_retransmissions s = take_timer_a ((fst s)\<lparr>tx_retransmission := False\<rparr>, snd s)"

definition send_cancel :: "env \<Rightarrow> request \<Rightarrow> st \<Rightarrow> (error + unit) \<times> st" where
  "send_cancel env cancel s =
     (let t = fst s in
      if tx_type t \<noteq> ClientInvite then
        (Inl (TransactionError ''send_cancel is only valid for client invite transactions'' (tx_key t)), s)
      else if tx_state t = Calling \<or> tx_state t = Trying \<or> tx_state t = Proceeding then
        (case tx_connection t of
           Some c \<Rightarrow>
             (case conn_send env c (before_send env (Request cancel) (tx_destination t)) (tx_destination t) (snd s) of
                (Some err, e) \<Rightarrow> (Inl err, (t, e))
              | (None, e) \<Rightarrow> (Inr (), (t, e)))
         | None \<Rightarrow> (Inr (), s))
      else (Inl (TransactionError (''invalid state for sending CANCEL '' @ show_tx_state (tx_state t)) (tx_key t)), s))"

section \<open>Responding\<close>

definition response_state :: "tx_type \<Rightarrow> response \<Rightarrow> tx_state" where
  "response_state ty resp =
     (case status_code_kind (resp_status resp) of
        Provisional \<Rightarrow> (if resp_status resp = SC_Trying then Trying else Proceeding)
      | Successful \<Rightarrow> (if ty = ServerInvite then Accepted else Terminated)
      | _ \<Rightarrow> (if ty = ServerInvite then Completed else Terminated))"

definition respond :: "env \<Rightarrow> response \<Rightarrow> st \<Rightarrow> (error + unit) \<times> st" where
  "respond env resp s =
     (let t = fst s; target = response_state (tx_type t) resp in
      if \<not> is_server (tx_type t) then
        (Inl (TransactionError ''respond is only valid for server transactions'' (tx_key t)), s)
      else (case can_transition target t of
          Inl err \<Rightarrow> (Inl err, s)
        | Inr _ \<Rightarrow>
            (case tx_connection t of
               None \<Rightarrow> (Inl (TransactionError ''no connection found'' (tx_key t)), s)
             | Some c \<Rightarrow>
                 (let msg = before_send env (Response resp) (tx_destination t);
                      t = (case msg of Response r \<Rightarrow> t\<lparr>tx_last_response := Some r\<rparr> | Request _ \<Rightarrow> t)
                  in case conn_send env c msg (tx_destination t) (snd s) of
                       (Some err, e) \<Rightarrow> (Inl err, (t, e))
                     | (None, e) \<Rightarrow> do_transition env target (t, e)))))"

text \<open>A final reply gives the To header of the stored request a tag when it has none.\<close>

definition ensure_to_tag :: "env \<Rightarrow> transaction \<Rightarrow> error + transaction" where
  "ensure_to_tag env t =
     and_then (sip_try (to_header (req_headers (tx_original t)))) (\<lambda>to.
     and_then (sip_try (to_tag to)) (\<lambda>tag.
     Inr (if tag = None
          then t\<lparr>tx_original := (tx_original t)\<lparr>req_headers :=
                   unique_push (H_To (to_with_tag (env_tag env) to)) (req_headers (tx_original t))\<rparr>\<rparr>
          else t)))"

definition reply_with :: "env \<Rightarrow> status_code \<Rightarrow> header list \<Rightarrow> bytes option \<Rightarrow> st \<Rightarrow> (error + unit) \<times> st" where
  "reply_with env status headers body s =
     (case (if status_code_kind status = Provisional then Inr (fst s) else ensure_to_tag env (fst s)) of
        Inl err \<Rightarrow> (Inl err, s)
      | Inr t \<Rightarrow>
          (let resp = ep_make_response (snd s) (tx_original t) status body;
               resp = resp\<lparr>resp_headers := headers_extend headers (resp_headers resp)\<rparr>
           in respond env resp (t, snd s)))"

definition reply :: "env \<Rightarrow> status_code \<Rightarrow> st \<Rightarrow> (error + unit) \<times> st" where
  "reply env status s = reply_with env status [] None s"

definition send_trying :: "env \<Rightarrow> st \<Rightarrow> (error + unit) \<times> st" where
  "send_trying env s = respond env (ep_make_response (snd s) (tx_original (fst s)) SC_Trying None) s"

section \<open>Sending the ACK\<close>

definition header_to_tag :: "header list \<Rightarrow> string option" where
  "header_to_tag hs = Option.bind (ok (and_then (to_header hs) to_tag)) id"

definition cached_ack_matches_response :: "request \<Rightarrow> response option \<Rightarrow> bool" where
  "cached_ack_matches_response ack resp =
     (case resp of
        None \<Rightarrow> True
      | Some resp \<Rightarrow>
          (case (header_to_tag (req_headers ack), header_to_tag (resp_headers resp)) of
             (Some a, Some b) \<Rightarrow> a = b
           | _ \<Rightarrow> True))"

definition ack_request :: "env \<Rightarrow> st \<Rightarrow> error + request" where
  "ack_request env s =
     (let t = fst s;
          build = and_then (ok_or (tx_last_response t)
                     (TransactionError ''no last response found to send ACK'' (tx_key t)))
                   (make_ack (ep_user_agent (snd s)) (env_branch env) (tx_original t))
      in case tx_last_ack t of
           Some ack \<Rightarrow> if cached_ack_matches_response ack (tx_last_response t) then Inr ack else build
         | None \<Rightarrow> build)"

definition last_is_2xx :: "transaction \<Rightarrow> bool" where
  "last_is_2xx t \<longleftrightarrow>
     (case tx_last_response t of Some resp \<Rightarrow> status_code_kind (resp_status resp) = Successful | None \<Rightarrow> False)"

text \<open>The ACK of a 2xx takes the body the dialog layer armed.\<close>

definition arm_ack_body :: "transaction \<Rightarrow> request \<Rightarrow> transaction \<times> request" where
  "arm_ack_body t ack =
     (if last_is_2xx t \<and> req_body ack = [] then
        (case tx_ack_body t of
           Some body \<Rightarrow>
             (t\<lparr>tx_ack_body := None\<rparr>,
              ack\<lparr>req_headers := headers_push (H_ContentLength (show_u32 (length body)))
                     (headers_push (H_ContentType ''application/sdp'')
                       (headers_retain (\<lambda>h. \<not> matches_header [H_ContentLength, H_ContentType] h) (req_headers ack))),
                  req_body := body\<rparr>)
         | None \<Rightarrow> (t, ack))
      else (t, ack))"

text \<open>The connection of the ACK: the flow of the response when it is reliable, for a 2xx a lookup of the
  ACK's own target otherwise.\<close>

definition ack_connection :: "env \<Rightarrow> request \<Rightarrow> sip_connection option \<Rightarrow> transaction \<Rightarrow> transaction \<times> sip_connection option" where
  "ack_connection env ack connection t =
     (if \<not> last_is_2xx t \<or> (case connection of Some c \<Rightarrow> is_reliable c | None \<Rightarrow> False) then (t, connection)
      else
        (let target = request_destination ack;
             addr = (case env_locator env of Some locate \<Rightarrow> ok (locate target) | None \<Rightarrow> Some (sip_addr_of_uri target))
         in case addr of
              None \<Rightarrow> (t, connection)
            | Some a \<Rightarrow>
                (case env_lookup env a (Some (tx_key t)) of
                   Inr (c, resolved) \<Rightarrow> (if is_reliable c then t else t\<lparr>tx_destination := Some resolved\<rparr>, Some c)
                 | Inl _ \<Rightarrow> (t, connection))))"

definition send_ack :: "env \<Rightarrow> sip_connection option \<Rightarrow> st \<Rightarrow> (error + unit) \<times> st" where
  "send_ack env connection s =
     (let t = fst s in
      if tx_type t \<noteq> ClientInvite then
        (Inl (TransactionError ''send_ack is only valid for client invite transactions'' (tx_key t)), s)
      else if tx_state t \<noteq> Completed \<and> tx_state t \<noteq> Accepted then
        (Inl (TransactionError (''invalid state for sending ACK '' @ show_tx_state (tx_state t)) (tx_key t)), s)
      else (case ack_request env s of
          Inl err \<Rightarrow> (Inl err, s)
        | Inr ack \<Rightarrow>
            (let (t, ack) = arm_ack_body t ack;
                 (t, connection) = ack_connection env ack connection t;
                 msg = before_send env (Request ack) (tx_destination t);
                 t = (case msg of Request r \<Rightarrow> t\<lparr>tx_sent_ack := Some r, tx_last_ack := Some r\<rparr> | Response _ \<Rightarrow> t);
                 e = (case connection of
                        Some c \<Rightarrow> snd (conn_send env c msg (tx_destination t) (snd s))
                      | None \<Rightarrow> snd s)
             in if tx_state t = Completed then do_transition env Terminated (t, e) else (Inr (), (t, e)))))"

section \<open>Received requests\<close>

text \<open>Answers to a CANCEL are written to the transaction's connection and failures are ignored.\<close>

definition answer_cancel :: "env \<Rightarrow> request \<Rightarrow> status_code \<Rightarrow> st \<Rightarrow> st" where
  "answer_cancel env req status s =
     (case tx_connection (fst s) of
        Some c \<Rightarrow>
          (let dest = tx_destination (fst s);
               msg = before_send env (Response (ep_make_response (snd s) req status None)) dest
           in (fst s, snd (conn_send env c msg dest (snd s))))
      | None \<Rightarrow> s)"

definition adopt_connection :: "sip_connection option \<Rightarrow> transaction \<Rightarrow> transaction" where
  "adopt_connection connection t =
     (if tx_connection t = None \<and> connection \<noteq> None then t\<lparr>tx_connection := connection\<rparr> else t)"

definition on_received_request :: "env \<Rightarrow> request \<Rightarrow> sip_connection option \<Rightarrow> st \<Rightarrow> sip_message option \<times> st" where
  "on_received_request env req connection s =
     (if is_client (tx_type (fst s)) then (None, s)
      else
        (let s = (adopt_connection connection (fst s), snd s); t = fst s in
         if req_method req = Cancel then
           (case tx_state t of
              Proceeding \<Rightarrow> (Some (Request req), answer_cancel env req SC_OK s)
            | Trying \<Rightarrow> (Some (Request req), answer_cancel env req SC_OK s)
            | Completed \<Rightarrow> (None, answer_cancel env req SC_OK s)
            | _ \<Rightarrow> (None, answer_cancel env req SC_CallTransactionDoesNotExist s))
         else (let same_cseq = (cseq_seq_of (req_headers req) = cseq_seq_of (req_headers (tx_original t))) in
           case tx_state t of
             Trying \<Rightarrow> (None, case tx_last_response t of Some r \<Rightarrow> snd (respond env r s) | None \<Rightarrow> s)
           | Proceeding \<Rightarrow> (None, case tx_last_response t of Some r \<Rightarrow> snd (respond env r s) | None \<Rightarrow> s)
           | Accepted \<Rightarrow>
               if req_method req = Ack \<and> same_cseq then (Some (Request req), try_transition env Terminated s)
               else (None, s)
           | Completed \<Rightarrow>
               if req_method req = Ack \<and> same_cseq then (Some (Request req), try_transition env Confirmed s)
               else (None, s)
           | Confirmed \<Rightarrow>
               if req_method req = Ack \<and> same_cseq then (Some (Request req), try_transition env Confirmed s)
               else (None, s)
           | _ \<Rightarrow> (None, s))))"

section \<open>Received responses\<close>

definition stamp_destination :: "transaction \<Rightarrow> response \<Rightarrow> response" where
  "stamp_destination t resp =
     resp\<lparr>resp_received_from := map_option (\<lambda>p. p\<lparr>rf_request_destination :=
        Option.bind (tx_destination t) (\<lambda>d. ok (get_socketaddr d))\<rparr>) (resp_received_from resp)\<rparr>"

definition client_response_state :: "bool \<Rightarrow> tx_type \<Rightarrow> response \<Rightarrow> tx_state" where
  "client_response_state auto_ack_2xx ty resp =
     (case status_code_kind (resp_status resp) of
        Provisional \<Rightarrow> (if resp_status resp = SC_Trying then Trying else Proceeding)
      | Successful \<Rightarrow> (if ty = ClientInvite then (if auto_ack_2xx then Accepted else Terminated) else Terminated)
      | _ \<Rightarrow> (if ty = ClientInvite then Completed else Terminated))"

definition set_last_response :: "response \<Rightarrow> st \<Rightarrow> st" where
  "set_last_response resp s = ((fst s)\<lparr>tx_last_response := Some resp\<rparr>, snd s)"

text \<open>A 2xx with another Via hop: its transaction user forwards every copy and the originator owns the
  ACK.\<close>

definition forward_2xx :: "env \<Rightarrow> response \<Rightarrow> st \<Rightarrow> sip_message option \<times> st" where
  "forward_2xx env resp s =
     (if tx_state (fst s) = Accepted then (Some (Response resp), set_last_response resp s)
      else (case can_transition Accepted (fst s) of
          Inl _ \<Rightarrow> (None, s)
        | Inr _ \<Rightarrow>
            (case transition env Accepted s of
               (Inl _, s) \<Rightarrow> (None, s)
             | (Inr _, s) \<Rightarrow> (Some (Response resp), set_last_response resp s))))"

definition is_duplicate :: "tx_state \<Rightarrow> response \<Rightarrow> transaction \<Rightarrow> bool" where
  "is_duplicate target resp t \<longleftrightarrow>
     \<not> (tx_type t = ClientInvite \<and> target = Accepted) \<and> tx_state t = target
     \<and> (case tx_last_response t of
          Some r \<Rightarrow> resp_status r = resp_status resp \<and> resp_body r = resp_body resp
        | None \<Rightarrow> False)"

definition on_received_response :: "env \<Rightarrow> response \<Rightarrow> sip_connection option \<Rightarrow> st \<Rightarrow> sip_message option \<times> st" where
  "on_received_response env resp0 connection s =
     (let t = fst s; resp = stamp_destination t resp0 in
      if is_server (tx_type t) then (None, s)
      else if tx_type t = ClientInvite \<and> status_code_kind (resp_status resp) = Successful
              \<and> has_multiple_vias (resp_headers resp) then forward_2xx env resp s
      else
        (let target = client_response_state (opt_auto_ack_2xx (ep_option (snd s))) (tx_type t) resp in
         case can_transition target t of
           Inl _ \<Rightarrow> (None, s)
         | Inr _ \<Rightarrow>
             if is_duplicate target resp t then (None, s)
             else
               (let s = try_transition env target (set_last_response resp s);
                    s = (if tx_type t = ClientInvite \<and> (target = Completed \<or> target = Accepted)
                         then snd (send_ack env connection s) else s)
                in (Some (Response resp), s))))"

section \<open>Timers\<close>

definition retransmit_last_response :: "env \<Rightarrow> transaction_key \<Rightarrow> nat \<Rightarrow> st \<Rightarrow> (error + unit) \<times> st" where
  "retransmit_last_response env k d s =
     (let t = fst s;
          (err, e) = (case (tx_last_response t, tx_connection t) of
              (Some r, Some c) \<Rightarrow>
                conn_send env c (before_send env (Response r) (tx_destination t)) (tx_destination t) (snd s)
            | _ \<Rightarrow> (None, snd s));
          d' = min (d * 2) (opt_t2 (ep_option e))
      in case err of
           Some err \<Rightarrow> (Inl err, (t, e))
         | None \<Rightarrow> (Inr (), start_timer tx_timer_g_update d' (TimerG k d') (t, e)))"

text \<open>Timer A looks a missing connection up again, writes the request and starts over with twice the
  interval.\<close>

definition reconnect :: "env \<Rightarrow> transaction \<Rightarrow> transaction" where
  "reconnect env t =
     (if tx_connection t = None then
        (case resolve_target_uri env t of
           Inr target \<Rightarrow> connect (env_lookup env target (Some (tx_key t))) t
         | Inl _ \<Rightarrow> t)
      else t)"

definition on_timer_a :: "env \<Rightarrow> transaction_key \<Rightarrow> nat \<Rightarrow> st \<Rightarrow> (error + unit) \<times> st" where
  "on_timer_a env k d s =
     (if \<not> tx_retransmission (fst s) then (Inr (), s)
      else
        (let s = (reconnect env (fst s), snd s) in
         case write_request env s of
           (written, stream_failed, s) \<Rightarrow>
             (let s = (if written then note_request_written s else s) in
              if stream_failed then on_stream_send_failure env s
              else (let d' = min (d * 2) (opt_t1x64 (ep_option (snd s)))
                    in (Inr (), start_timer tx_timer_a_update d' (TimerA k d') s)))))"

definition on_request_timeout :: "env \<Rightarrow> st \<Rightarrow> (error + unit) \<times> st" where
  "on_request_timeout env s = inform_tu_response env (synthetic_response SC_RequestTimeout s) s"

definition on_timer :: "env \<Rightarrow> tx_timer \<Rightarrow> st \<Rightarrow> (error + unit) \<times> st" where
  "on_timer env timer s =
     (let ty = tx_type (fst s) in
      case tx_state (fst s) of
        Calling \<Rightarrow>
          (if is_client ty then
             (case timer of TimerA k d \<Rightarrow> on_timer_a env k d s | TimerB _ \<Rightarrow> on_request_timeout env s | _ \<Rightarrow> (Inr (), s))
           else (Inr (), s))
      | Trying \<Rightarrow>
          (if is_client ty then
             (case timer of TimerA k d \<Rightarrow> on_timer_a env k d s | TimerB _ \<Rightarrow> on_request_timeout env s | _ \<Rightarrow> (Inr (), s))
           else (Inr (), s))
      | Proceeding \<Rightarrow>
          (case timer of
             TimerC _ \<Rightarrow> on_request_timeout env s
           | TimerB _ \<Rightarrow> if ty = ClientNonInvite then on_request_timeout env s else (Inr (), s)
           | _ \<Rightarrow> (Inr (), s))
      | Completed \<Rightarrow>
          (case timer of
             TimerG k d \<Rightarrow> retransmit_last_response env k d s
           | TimerD _ \<Rightarrow> do_transition env Terminated s
           | TimerK _ \<Rightarrow> do_transition env Terminated s
           | _ \<Rightarrow> (Inr (), s))
      | Accepted \<Rightarrow>
          (case timer of
             TimerL _ \<Rightarrow> if ty = ServerInvite then do_transition env Terminated s else (Inr (), s)
           | TimerM _ \<Rightarrow> if ty = ClientInvite then do_transition env Terminated s else (Inr (), s)
           | TimerG k d \<Rightarrow> if ty = ServerInvite then retransmit_last_response env k d s else (Inr (), s)
           | _ \<Rightarrow> (Inr (), s))
      | Confirmed \<Rightarrow> (case timer of TimerK _ \<Rightarrow> do_transition env Terminated s | _ \<Rightarrow> (Inr (), s))
      | _ \<Rightarrow> (Inr (), s))"

section \<open>The receive loop\<close>

text \<open>What one event of the loop comes to: a message for the transaction user, the end of the loop, or
  the next turn.\<close>

datatype received = Deliver sip_message | Ended | Again

definition handle_event :: "env \<Rightarrow> tx_event \<Rightarrow> st \<Rightarrow> received \<times> st" where
  "handle_event env ev s =
     (case ev of
        Received msg connection \<Rightarrow>
          (case (case msg of
                   Request req \<Rightarrow> on_received_request env req connection s
                 | Response resp \<Rightarrow> on_received_response env resp connection s) of
             (Some m, s) \<Rightarrow> (Deliver m, s)
           | (None, s) \<Rightarrow> (Again, s))
      | TimerFired timer \<Rightarrow> (Again, snd (on_timer env timer s))
      | Respond resp \<Rightarrow> (Again, snd (respond env resp s))
      | Terminate _ \<Rightarrow> (Ended, s))"

text \<open>Dropping the transaction cleans it up and closes its channel.\<close>

definition drop_transaction :: "env \<Rightarrow> st \<Rightarrow> endpoint" where
  "drop_transaction env s =
     (let s = cleanup env s in (snd s)\<lparr>ep_closed := insert (tx_channel (fst s)) (ep_closed (snd s))\<rparr>)"

end
