(* ===== verification/Transaction_Inv.thy ===== *)
theory Transaction_Inv
  imports Transaction
begin

text \<open>
  The state machine of a transaction: which states a type of transaction can be in, what holds of its
  timer fields in each, and that every operation keeps this and never moves backwards. The operations
  are gathered in a step relation whose environment may change the endpoint at will between two steps,
  so the results hold however the other transactions run.
\<close>

section \<open>What the helpers leave of a transaction\<close>

named_theorems tx_frame \<open>the transaction after an operation, field by field\<close>

lemma fst_take_timer [tx_frame]: "fst (take_timer get upd s) = upd (\<lambda>_. None) (fst s)"
  by (simp add: take_timer_def)

lemma fst_start_timer [tx_frame]:
  "fst (start_timer upd d v s) = upd (\<lambda>_. Some (t_last_task_id (ep_timers (snd s)))) (fst s)"
  by (simp add: start_timer_def ep_timeout_def timer_timeout_def timeout_at_def Let_def)

lemma fst_take_abc [tx_frame]:
  "fst (take_timer_a s) = (fst s)\<lparr>tx_timer_a := None\<rparr>"
  "fst (take_timer_b s) = (fst s)\<lparr>tx_timer_b := None\<rparr>"
  "fst (take_timer_c s) = (fst s)\<lparr>tx_timer_c := None\<rparr>"
  by (simp_all add: take_timer_a_def take_timer_b_def take_timer_c_def fst_take_timer)

lemma fst_cleanup_timer [tx_frame]:
  "fst (cleanup_timer s) = (fst s)\<lparr>tx_timer_a := None, tx_timer_b := None, tx_timer_c := None, tx_timer_d := None,
     tx_timer_k := None, tx_timer_g := None, tx_timer_l := None, tx_timer_m := None\<rparr>"
  by (simp add: cleanup_timer_def Let_def tx_frame)

lemma fst_tx_send [tx_frame]: "fst (snd (tx_send ev s)) = fst s"
  by (simp add: tx_send_def split: prod.splits)

lemma fst_note_request_written [tx_frame]:
  "fst (note_request_written s) = (fst s)\<lparr>tx_first_write_hook := False\<rparr>"
  by (simp add: note_request_written_def)

lemma fst_inform [tx_frame]: "fst (snd (inform_tu_response env resp s)) = fst s"
  using fst_tx_send [of "Received (after_received env (Response resp) None) None" s]
  by (auto simp: inform_tu_response_def split: prod.splits bool.splits)

lemma fst_stream_failure [tx_frame]: "fst (snd (on_stream_send_failure env s)) = fst s"
  by (simp add: on_stream_send_failure_def Let_def fst_inform)

lemma fst_write_request [tx_frame]: "fst (snd (snd (write_request env s))) = fst s"
  by (simp add: write_request_def Let_def split: option.splits prod.splits)

lemma fst_answer_cancel [tx_frame]: "fst (answer_cancel env req status s) = fst s"
  by (simp add: answer_cancel_def Let_def split: option.splits)

section \<open>The invariant\<close>

definition type_states :: "tx_type \<Rightarrow> tx_state set" where
  "type_states ty =
     (case ty of
        ClientInvite \<Rightarrow> {Nothing, Calling, Trying, Proceeding, Accepted, Completed, Terminated}
      | ClientNonInvite \<Rightarrow> {Nothing, Calling, Trying, Proceeding, Terminated}
      | ServerInvite \<Rightarrow> {Trying, Proceeding, Accepted, Completed, Confirmed, Terminated}
      | ServerNonInvite \<Rightarrow> {Trying, Proceeding, Terminated})"

text \<open>The timer field that bounds the stay in a state. A server waits for its user in Trying and
  Proceeding, and a client that has sent nothing for nothing.\<close>

definition deadline_timer :: "transaction \<Rightarrow> (transaction \<Rightarrow> nat option) option" where
  "deadline_timer t =
     (case tx_state t of
        Calling \<Rightarrow> if is_client (tx_type t) then Some tx_timer_b else None
      | Trying \<Rightarrow> (case tx_type t of ClientInvite \<Rightarrow> Some tx_timer_c | ClientNonInvite \<Rightarrow> Some tx_timer_b | _ \<Rightarrow> None)
      | Proceeding \<Rightarrow> (case tx_type t of ClientInvite \<Rightarrow> Some tx_timer_c | ClientNonInvite \<Rightarrow> Some tx_timer_b | _ \<Rightarrow> None)
      | Accepted \<Rightarrow> (if tx_type t = ClientInvite then Some tx_timer_m else Some tx_timer_l)
      | Completed \<Rightarrow> Some tx_timer_d
      | Confirmed \<Rightarrow> Some tx_timer_k
      | _ \<Rightarrow> None)"

definition has_deadline :: "transaction \<Rightarrow> bool" where
  "has_deadline t \<longleftrightarrow> (case deadline_timer t of Some f \<Rightarrow> f t \<noteq> None | None \<Rightarrow> True)"

definition no_timers :: "transaction \<Rightarrow> bool" where
  "no_timers t \<longleftrightarrow> tx_timer_a t = None \<and> tx_timer_b t = None \<and> tx_timer_c t = None \<and> tx_timer_d t = None
     \<and> tx_timer_k t = None \<and> tx_timer_g t = None \<and> tx_timer_l t = None \<and> tx_timer_m t = None"

definition tx_inv :: "transaction \<Rightarrow> bool" where
  "tx_inv t \<longleftrightarrow> tx_state t \<in> type_states (tx_type t) \<and> has_deadline t
     \<and> (tx_is_cleaned_up t \<longleftrightarrow> tx_state t = Terminated) \<and> (tx_state t = Terminated \<longrightarrow> no_timers t)"

fun state_rank :: "tx_state \<Rightarrow> nat" where
  "state_rank Nothing = 0"
| "state_rank Calling = 1"
| "state_rank Trying = 2"
| "state_rank Proceeding = 3"
| "state_rank Accepted = 4"
| "state_rank Completed = 4"
| "state_rank Confirmed = 5"
| "state_rank Terminated = 6"

lemma can_transition_rank: "can_transition target t = Inr () \<Longrightarrow> state_rank (tx_state t) \<le> state_rank target"
  by (auto simp: can_transition_def split: if_splits)

lemmas inv_defs = tx_inv_def has_deadline_def deadline_timer_def type_states_def is_client_def

text \<open>Fields the invariant does not read.\<close>

lemma tx_inv_unread [simp]:
  "tx_inv (t\<lparr>tx_original := req\<rparr>) = tx_inv t" "tx_inv (t\<lparr>tx_destination := d\<rparr>) = tx_inv t"
  "tx_inv (t\<lparr>tx_connection := c\<rparr>) = tx_inv t" "tx_inv (t\<lparr>tx_last_response := r\<rparr>) = tx_inv t"
  "tx_inv (t\<lparr>tx_last_ack := a\<rparr>) = tx_inv t" "tx_inv (t\<lparr>tx_ack_body := b\<rparr>) = tx_inv t"
  "tx_inv (t\<lparr>tx_sent_ack := a\<rparr>) = tx_inv t" "tx_inv (t\<lparr>tx_retransmission := x\<rparr>) = tx_inv t"
  "tx_inv (t\<lparr>tx_first_write_hook := x\<rparr>) = tx_inv t"
  by (cases t; simp add: inv_defs no_timers_def split: tx_state.splits tx_type.splits)+

section \<open>Transitions\<close>

definition same_identity :: "transaction \<Rightarrow> transaction \<Rightarrow> bool" where
  "same_identity t t' \<longleftrightarrow> tx_type t' = tx_type t \<and> tx_key t' = tx_key t \<and> tx_channel t' = tx_channel t"

lemma same_identity_refl [simp]: "same_identity t t"
  by (simp add: same_identity_def)

lemma same_identity_trans: "same_identity t u \<Longrightarrow> same_identity u v \<Longrightarrow> same_identity t v"
  by (simp add: same_identity_def)

lemma last_message_frame:
  "let t = snd (last_message env s) in same_identity (fst s) t \<and> tx_state t = tx_state (fst s)
     \<and> no_timers t = no_timers (fst s) \<and> tx_is_cleaned_up t = tx_is_cleaned_up (fst s)"
  by (cases "tx_type (fst s)")
    (auto simp: last_message_def Let_def same_identity_def no_timers_def split: option.splits sum.splits)

lemma cleanup_frame:
  assumes "\<not> tx_is_cleaned_up (fst s)"
  shows "no_timers (fst (cleanup env s))" "tx_is_cleaned_up (fst (cleanup env s))"
    "same_identity (fst s) (fst (cleanup env s))" "tx_state (fst (cleanup env s)) = tx_state (fst s)"
proof -
  let ?s = "cleanup_timer ((fst s)\<lparr>tx_is_cleaned_up := True\<rparr>, snd s)"
  let ?e = "if tx_type (fst ?s) = ServerInvite \<and> tx_state (fst ?s) = Completed then snd ?s else forget_own_ack ?s"
  have "fst (cleanup env s) = snd (last_message env (fst ?s, ?e))"
    using assms by (simp add: cleanup_def Let_def split: prod.splits)
  then obtain u where u: "fst (cleanup env s) = snd (last_message env u)" "fst u = fst ?s"
    by (rule that) simp
  then have "no_timers (fst u)" "tx_is_cleaned_up (fst u)" "same_identity (fst s) (fst u)" "tx_state (fst u) = tx_state (fst s)"
    by (simp_all add: tx_frame no_timers_def same_identity_def)
  then show "no_timers (fst (cleanup env s))" "tx_is_cleaned_up (fst (cleanup env s))"
    "same_identity (fst s) (fst (cleanup env s))" "tx_state (fst (cleanup env s)) = tx_state (fst s)"
    using last_message_frame [of env u] same_identity_trans by (simp_all add: Let_def u(1))
qed

text \<open>A transition ends in its target or, when the entry fails, where it started.\<close>

lemma enter_state_frame:
  "same_identity (fst s) (fst (snd (enter_state env target s)))
   \<and> tx_state (fst (snd (enter_state env target s))) = tx_state (fst s)" if "target \<noteq> Terminated"
  using that
  by (cases target; cases "tx_type (fst s)")
    (auto simp: enter_state_def enter_calling_def enter_provisional_def enter_accepted_def enter_completed_def
      enter_confirmed_def Let_def tx_frame same_identity_def split: option.splits sum.splits)

lemma enter_terminated_frame:
  "\<not> tx_is_cleaned_up (fst s) \<Longrightarrow> no_timers (fst (enter_terminated env s)) \<and> tx_is_cleaned_up (fst (enter_terminated env s))
   \<and> same_identity (fst s) (fst (enter_terminated env s)) \<and> tx_state (fst (enter_terminated env s)) = tx_state (fst s)"
  by (simp add: enter_terminated_def fst_tx_send cleanup_frame)

lemma cleanup_cleaned: "tx_is_cleaned_up (fst s) \<Longrightarrow> cleanup env s = s"
  by (simp add: cleanup_def)

lemma enter_state_identity: "same_identity (fst s) (fst (snd (enter_state env target s)))"
proof (cases "target = Terminated")
  case True
  show ?thesis
  proof (cases "tx_is_cleaned_up (fst s)")
    case True
    with \<open>target = Terminated\<close> show ?thesis
      by (simp add: enter_state_def enter_terminated_def fst_tx_send cleanup_cleaned)
  next
    case False
    with \<open>target = Terminated\<close> show ?thesis by (simp add: enter_state_def enter_terminated_frame)
  qed
qed (simp add: enter_state_frame)

lemma enter_state_state: "tx_state (fst (snd (enter_state env target s))) = tx_state (fst s)"
proof (cases "target = Terminated")
  case True
  then show ?thesis
    by (cases "tx_is_cleaned_up (fst s)")
      (simp_all add: enter_state_def enter_terminated_frame, simp add: enter_terminated_def fst_tx_send cleanup_cleaned)
qed (simp add: enter_state_frame)

lemma transition_frame:
  "same_identity (fst s) (fst (snd (transition env target s)))"
  "tx_state (fst (snd (transition env target s))) = (case fst (transition env target s) of Inr _ \<Rightarrow> target | Inl _ \<Rightarrow> tx_state (fst s))"
  using enter_state_identity [of s env target] enter_state_state [of env target s]
  by (auto simp: transition_def set_state_def same_identity_def split: sum.splits prod.splits)

lemma enter_calling_deadline:
  "is_client (tx_type (fst s)) \<Longrightarrow> tx_timer_b (fst (enter_calling s)) \<noteq> None"
  "tx_is_cleaned_up (fst (enter_calling s)) = tx_is_cleaned_up (fst s)"
  by (simp_all add: enter_calling_def Let_def tx_frame)

lemma enter_provisional_deadline:
  "tx_type (fst s) = ClientInvite \<Longrightarrow> tx_timer_c (fst (enter_provisional s)) \<noteq> None"
  "tx_type (fst s) \<noteq> ClientInvite \<Longrightarrow> tx_timer_b (fst (enter_provisional s)) = tx_timer_b (fst s)"
  "tx_is_cleaned_up (fst (enter_provisional s)) = tx_is_cleaned_up (fst s)"
  by (simp_all add: enter_provisional_def Let_def tx_frame)

lemma enter_accepted_server:
  assumes "tx_type (fst s) = ServerInvite"
  shows "tx_timer_l (fst (snd (enter_accepted s))) \<noteq> None \<and> tx_timer_g (fst (snd (enter_accepted s))) \<noteq> None
    \<and> tx_is_cleaned_up (fst (snd (enter_accepted s))) = tx_is_cleaned_up (fst s)"
proof (cases "tx_last_response (fst s)")
  case (Some resp)
  with assms show ?thesis
    by (cases "dialog_id_of_response resp ServerRole") (simp_all add: enter_accepted_def Let_def tx_frame)
qed (use assms in \<open>simp add: enter_accepted_def Let_def tx_frame\<close>)

lemma enter_accepted_client:
  assumes "tx_type (fst s) = ClientInvite"
  shows "fst (enter_accepted s) = Inr () \<and> tx_timer_m (fst (snd (enter_accepted s))) \<noteq> None
    \<and> tx_is_cleaned_up (fst (snd (enter_accepted s))) = tx_is_cleaned_up (fst s)"
  using assms by (simp add: enter_accepted_def Let_def tx_frame)

lemma enter_completed_client:
  assumes "tx_type (fst s) \<noteq> ServerInvite"
  shows "fst (enter_completed s) = Inr () \<and> tx_timer_d (fst (snd (enter_completed s))) \<noteq> None
    \<and> tx_is_cleaned_up (fst (snd (enter_completed s))) = tx_is_cleaned_up (fst s)"
  using assms by (simp add: enter_completed_def Let_def tx_frame)

lemma enter_completed_server:
  assumes "tx_type (fst s) = ServerInvite"
  shows "(fst (enter_completed s) = Inr () \<longrightarrow> tx_timer_d (fst (snd (enter_completed s))) \<noteq> None)
    \<and> tx_is_cleaned_up (fst (snd (enter_completed s))) = tx_is_cleaned_up (fst s)"
proof (cases "tx_connection (fst s)")
  case None
  with assms show ?thesis by (simp add: enter_completed_def Let_def tx_frame)
next
  case (Some c)
  show ?thesis
  proof (cases "tx_last_response (fst s)")
    case None
    with Some assms show ?thesis
      by (cases "is_reliable c") (simp_all add: enter_completed_def Let_def tx_frame)
  next
    case (Some resp)
    with \<open>tx_connection (fst s) = Some c\<close> assms show ?thesis
      by (cases "is_reliable c"; cases "dialog_id_of_response resp ServerRole")
        (simp_all add: enter_completed_def Let_def tx_frame)
  qed
qed

lemma enter_confirmed_deadline:
  "tx_timer_k (fst (enter_confirmed s)) \<noteq> None"
  "tx_is_cleaned_up (fst (enter_confirmed s)) = tx_is_cleaned_up (fst s)"
  by (simp_all add: enter_confirmed_def Let_def tx_frame)

lemmas enter_deadlines = enter_calling_deadline enter_provisional_deadline enter_accepted_client enter_accepted_server
  enter_completed_client enter_completed_server enter_confirmed_deadline

lemma server_early_inv:
  assumes "tx_state t \<in> {Trying, Proceeding}" and "tx_type t = ServerInvite" and "\<not> tx_is_cleaned_up t"
  shows "tx_inv t"
  using assms by (auto simp: inv_defs)

lemma inv_of_target:
  assumes "tx_state t = target" and "target \<in> type_states (tx_type t)" and "target \<noteq> Terminated" and "\<not> tx_is_cleaned_up t"
    and "has_deadline t"
  shows "tx_inv t"
  using assms by (simp add: tx_inv_def)

lemma has_deadline_set_state: "has_deadline (t\<lparr>tx_state := target\<rparr>) \<longleftrightarrow>
    (case target of
        Calling \<Rightarrow> is_client (tx_type t) \<longrightarrow> tx_timer_b t \<noteq> None
      | Trying \<Rightarrow> (tx_type t = ClientInvite \<longrightarrow> tx_timer_c t \<noteq> None) \<and> (tx_type t = ClientNonInvite \<longrightarrow> tx_timer_b t \<noteq> None)
      | Proceeding \<Rightarrow> (tx_type t = ClientInvite \<longrightarrow> tx_timer_c t \<noteq> None) \<and> (tx_type t = ClientNonInvite \<longrightarrow> tx_timer_b t \<noteq> None)
      | Accepted \<Rightarrow> (if tx_type t = ClientInvite then tx_timer_m t \<noteq> None else tx_timer_l t \<noteq> None)
      | Completed \<Rightarrow> tx_timer_d t \<noteq> None
      | Confirmed \<Rightarrow> tx_timer_k t \<noteq> None
      | _ \<Rightarrow> True)"
  by (cases target; cases "tx_type t"; simp add: has_deadline_def deadline_timer_def is_client_def)

text \<open>The moves the handlers make.\<close>

definition may_enter :: "tx_state \<Rightarrow> transaction \<Rightarrow> bool" where
  "may_enter target t \<longleftrightarrow> target \<in> type_states (tx_type t) \<and> tx_state t \<noteq> Terminated \<and> target \<noteq> Nothing
     \<and> (target = Calling \<longrightarrow> tx_state t = Nothing)
     \<and> (target \<noteq> Calling \<longrightarrow> tx_state t \<noteq> Nothing)
     \<and> state_rank (tx_state t) \<le> state_rank target
     \<and> {tx_state t, target} \<noteq> {Accepted, Completed}"

lemma early_client_timer_b:
  assumes "tx_inv t" "tx_type t = ClientNonInvite" "tx_state t \<in> {Calling, Trying, Proceeding}"
  shows "tx_timer_b t \<noteq> None"
  using assms by (auto simp: inv_defs)

lemma entered_deadline:
  assumes inv: "tx_inv (fst s)" and may: "may_enter target (fst s)" and "target \<noteq> Terminated"
    and res: "enter_state env target s = (Inr u, s')" and ty: "tx_type (fst s') = tx_type (fst s)"
  shows "has_deadline ((fst s')\<lparr>tx_state := target\<rparr>)"
proof (cases target)
  case Calling
  then show ?thesis
    using res ty may enter_calling_deadline [of s]
    by (simp add: has_deadline_set_state enter_state_def)
next
  case Accepted
  then show ?thesis
    using res ty may enter_accepted_client [of s] enter_accepted_server [of s]
    by (auto simp: has_deadline_set_state enter_state_def may_enter_def type_states_def split: tx_type.splits)
next
  case Completed
  then show ?thesis
    using res ty enter_completed_client [of s] enter_completed_server [of s]
    by (cases "tx_type (fst s) = ServerInvite") (auto simp: has_deadline_set_state enter_state_def)
next
  case Confirmed
  then show ?thesis
    using res ty enter_confirmed_deadline [of s] by (auto simp: has_deadline_set_state enter_state_def)
next
  case Trying
  then have "tx_state (fst s) \<in> {Calling, Trying, Proceeding}" if "tx_type (fst s) = ClientNonInvite"
    using may inv that by (cases "tx_state (fst s)") (auto simp: may_enter_def tx_inv_def type_states_def)
  then show ?thesis
    using Trying res ty enter_provisional_deadline [of s] early_client_timer_b [OF inv]
    by (auto simp: has_deadline_set_state enter_state_def)
next
  case Proceeding
  then have "tx_state (fst s) \<in> {Calling, Trying, Proceeding}" if "tx_type (fst s) = ClientNonInvite"
    using may inv that by (cases "tx_state (fst s)") (auto simp: may_enter_def tx_inv_def type_states_def)
  then show ?thesis
    using Proceeding res ty enter_provisional_deadline [of s] early_client_timer_b [OF inv]
    by (auto simp: has_deadline_set_state enter_state_def)
qed (use may \<open>target \<noteq> Terminated\<close> in \<open>simp_all add: may_enter_def\<close>)

lemma enter_state_inv:
  assumes inv: "tx_inv (fst s)" and may: "may_enter target (fst s)" and new: "tx_state (fst s) \<noteq> target"
    and res: "enter_state env target s = (r, s')"
  shows "case r of Inr _ \<Rightarrow> tx_inv ((fst s')\<lparr>tx_state := target\<rparr>) | Inl _ \<Rightarrow> tx_inv (fst s')"
proof -
  have id: "tx_type (fst s') = tx_type (fst s)" "tx_state (fst s') = tx_state (fst s)"
    using enter_state_identity [of s env target] enter_state_state [of env target s] res by (simp_all add: same_identity_def)
  have clean: "\<not> tx_is_cleaned_up (fst s)" using inv may by (simp add: tx_inv_def may_enter_def)
  show ?thesis
  proof (cases "target = Terminated")
    case True
    then show ?thesis
      using clean id res enter_terminated_frame [of s env] may
      by (auto simp: enter_state_def inv_defs no_timers_def may_enter_def split: tx_type.splits)
  next
    case False
    have c: "\<not> tx_is_cleaned_up (fst s')"
      using clean res False may enter_deadlines [of s]
      by (cases target; cases "tx_type (fst s)"; simp add: enter_state_def may_enter_def type_states_def)
    show ?thesis
    proof (cases r)
      case (Inr u)
      have "has_deadline ((fst s')\<lparr>tx_state := target\<rparr>)"
        using entered_deadline [OF inv may False] res Inr id by simp
      then show ?thesis
        using Inr c False may id by (auto simp: tx_inv_def may_enter_def)
    next
      case (Inl err)
      then have "tx_type (fst s) = ServerInvite" "target = Accepted \<or> target = Completed"
        using res False may enter_deadlines [of s]
        by (cases target; cases "tx_type (fst s)"; auto simp: enter_state_def may_enter_def type_states_def)+
      moreover from this have "tx_state (fst s) \<in> {Trying, Proceeding}"
        using may new inv by (cases "tx_state (fst s)") (auto simp: may_enter_def tx_inv_def type_states_def insert_commute)
      ultimately show ?thesis using Inl c id server_early_inv by simp
    qed
  qed
qed

section \<open>Moves\<close>

text \<open>What every operation does to a transaction that satisfies the invariant: it satisfies it
  afterwards, is still the same transaction, and has not gone back.\<close>

definition moves :: "transaction \<Rightarrow> transaction \<Rightarrow> bool" where
  "moves t t' \<longleftrightarrow> (tx_inv t \<longrightarrow> tx_inv t' \<and> same_identity t t' \<and> state_rank (tx_state t) \<le> state_rank (tx_state t'))"

lemma movesI: "(tx_inv t \<Longrightarrow> moves t t') \<Longrightarrow> moves t t'"
  by (simp add: moves_def)

lemma moves_refl [simp]: "moves t t"
  by (simp add: moves_def)

lemma moves_trans: "moves t u \<Longrightarrow> moves u v \<Longrightarrow> moves t v"
  by (auto simp: moves_def same_identity_def)

lemma moves_unread [simp]:
  "moves t (t\<lparr>tx_original := req\<rparr>)" "moves t (t\<lparr>tx_destination := d\<rparr>)" "moves t (t\<lparr>tx_connection := c\<rparr>)"
  "moves t (t\<lparr>tx_last_response := r\<rparr>)" "moves t (t\<lparr>tx_last_ack := a\<rparr>)" "moves t (t\<lparr>tx_ack_body := b\<rparr>)"
  "moves t (t\<lparr>tx_sent_ack := a\<rparr>)" "moves t (t\<lparr>tx_retransmission := x\<rparr>)" "moves t (t\<lparr>tx_first_write_hook := x\<rparr>)"
  by (simp_all add: moves_def same_identity_def)

lemma moves_timers:
  "tx_state t \<noteq> Terminated \<Longrightarrow> moves t (t\<lparr>tx_timer_g := i\<rparr>)"
  "tx_state t \<noteq> Terminated \<Longrightarrow> moves t (t\<lparr>tx_timer_a := i\<rparr>)"
  "moves t (t\<lparr>tx_timer_a := None\<rparr>)"
  by (cases "tx_state t"; cases "tx_type t"; simp add: moves_def same_identity_def inv_defs no_timers_def)+

lemma moves_transition:
  assumes "may_enter target (fst s) \<or> tx_state (fst s) = target"
  shows "moves (fst s) (fst (snd (transition env target s)))"
proof (rule movesI)
  assume inv: "tx_inv (fst s)"
  show ?thesis
  proof (cases "tx_state (fst s) = target")
    case True
    then show ?thesis by (simp add: transition_def)
  next
    case False
    obtain r s' where r: "enter_state env target s = (r, s')" by (rule prod.exhaust)
    have may: "may_enter target (fst s)" using assms False by simp
    have "tx_inv (fst (snd (transition env target s)))"
      using enter_state_inv [OF inv may False r] False r
      by (cases r) (auto simp: transition_def set_state_def)
    then show ?thesis
      using transition_frame(1) [of s env target] transition_frame(2) [of env target s] may
      by (auto simp: moves_def may_enter_def split: sum.splits)
  qed
qed

lemma fst_do_transition: "snd (do_transition env target s) = snd (transition env target s)"
  by (simp add: do_transition_def split: prod.splits)

lemma moves_do_transition:
  "may_enter target (fst s) \<or> tx_state (fst s) = target \<Longrightarrow> moves (fst s) (fst (snd (do_transition env target s)))"
  "may_enter target (fst s) \<or> tx_state (fst s) = target \<Longrightarrow> moves (fst s) (fst (try_transition env target s))"
  using moves_transition by (simp_all add: fst_do_transition try_transition_def)

lemma may_enter_checked:
  assumes "can_transition target t = Inr ()" "target \<in> type_states (tx_type t)" "target \<noteq> Nothing" "target \<noteq> Calling"
    "tx_state t \<noteq> Nothing"
  shows "may_enter target t"
  using assms can_transition_rank [OF assms(1)]
  by (auto simp: may_enter_def can_transition_def doubleton_eq_iff split: if_splits)

lemma can_transition_unread [simp]: "can_transition target (t\<lparr>tx_last_response := r\<rparr>) = can_transition target t"
  by (simp add: can_transition_def)

lemma response_state_types:
  "is_server ty \<Longrightarrow> response_state ty resp \<in> type_states ty - {Nothing, Calling}"
  "is_client ty \<Longrightarrow> client_response_state auto_ack ty resp \<in> type_states ty - {Nothing, Calling}"
  by (cases ty; auto simp: response_state_def client_response_state_def type_states_def is_server_def is_client_def
      split: status_code_kind.splits)+

lemma server_started: "tx_inv t \<Longrightarrow> is_server (tx_type t) \<Longrightarrow> tx_state t \<noteq> Nothing"
  by (auto simp: tx_inv_def type_states_def is_server_def)

lemma client_or_server: "is_client ty \<noteq> is_server ty"
  by (cases ty) (simp_all add: is_client_def is_server_def)

section \<open>The operations of the transaction user\<close>

lemma moves_respond: "moves (fst s) (fst (snd (respond env resp s)))"
proof (rule movesI)
  assume inv: "tx_inv (fst s)"
  let ?t = "fst s" and ?target = "response_state (tx_type (fst s)) resp"
  show ?thesis
  proof (cases "is_server (tx_type ?t) \<and> can_transition ?target ?t = Inr () \<and> tx_connection ?t \<noteq> None")
    case False
    then show ?thesis by (auto simp: respond_def Let_def split: sum.splits option.splits)
  next
    case True
    then obtain c where c: "tx_connection ?t = Some c" by auto
    let ?msg = "before_send env (Response resp) (tx_destination ?t)"
    let ?t' = "case ?msg of Response r \<Rightarrow> ?t\<lparr>tx_last_response := Some r\<rparr> | Request _ \<Rightarrow> ?t"
    have t': "moves ?t ?t'" "may_enter ?target ?t'"
      using True may_enter_checked [of ?target ?t'] response_state_types(1) [of "tx_type ?t" resp] server_started [OF inv]
      by (auto split: sip_message.splits)
    obtain err e where e: "conn_send env c ?msg (tx_destination ?t') (snd s) = (err, e)" by (rule prod.exhaust)
    have "moves ?t' (fst (snd (do_transition env ?target (?t', e))))"
      using moves_do_transition(1) [of ?target "(?t', e)" env] t'(2) by simp
    then have "moves ?t (fst (snd (do_transition env ?target (?t', e))))"
      using t'(1) moves_trans by blast
    then show ?thesis
      using True c e t'(1) by (simp add: respond_def Let_def split: option.splits)
  qed
qed

lemma moves_ensure_to_tag: "ensure_to_tag env t = Inr t' \<Longrightarrow> moves t t'"
  by (auto simp: ensure_to_tag_def and_then_def split: sum.splits if_splits)

lemma moves_reply_with: "moves (fst s) (fst (snd (reply_with env status headers body s)))"
proof (cases "if status_code_kind status = Provisional then Inr (fst s) else ensure_to_tag env (fst s)")
  case (Inr t)
  then have "moves (fst s) t" using moves_ensure_to_tag by (auto split: if_splits)
  then show ?thesis
    using Inr moves_respond [of "(t, snd s)"] by (simp add: reply_with_def Let_def) (blast intro: moves_trans)
qed (simp add: reply_with_def)

lemma moves_send_trying: "moves (fst s) (fst (snd (send_trying env s)))"
  by (simp add: send_trying_def moves_respond)

lemma moves_send_cancel: "moves (fst s) (fst (snd (send_cancel env cancel s)))"
  by (auto simp: send_cancel_def Let_def split: option.splits prod.splits)

lemma moves_stop_retransmissions: "moves (fst s) (fst (stop_retransmissions s))"
  by (simp add: stop_retransmissions_def fst_take_abc moves_trans [OF moves_unread(8) moves_timers(3)])

lemma moves_on_first_write: "moves t (on_first_write t)"
  by (simp add: on_first_write_def)

lemma moves_connect: "moves t (connect found t)"
  by (auto simp: connect_def split: sum.splits intro: moves_trans [OF moves_unread(3) moves_unread(2)])

lemma moves_affinity: "moves t (affinity_destination t)"
  by (auto simp: affinity_destination_def split: option.splits)

lemma same_state_prepared:
  "tx_state (set_content_length (affinity_destination t)) = tx_state t"
  "tx_type (set_content_length (affinity_destination t)) = tx_type t"
  "tx_state (connect found t) = tx_state t" "tx_type (connect found t) = tx_type t"
  by (auto simp: set_content_length_def affinity_destination_def connect_def split: option.splits sum.splits)

lemma moves_start_request:
  assumes "is_client (tx_type (fst s))" "tx_state (fst s) = Nothing"
  shows "moves (fst s) (fst (snd (start_request env s)))"
proof -
  let ?t = "set_content_length (affinity_destination (fst s))"
  obtain written failed s1 where w: "write_request env (?t, snd s) = (written, failed, s1)" by (metis prod_cases3)
  have s1: "fst s1 = ?t" using fst_write_request [of env "(?t, snd s)"] w by simp
  have t: "moves (fst s) ?t"
    using moves_trans [OF moves_affinity] by (simp add: set_content_length_def)
  have "may_enter Calling (fst s1)"
    using assms by (auto simp: s1 may_enter_def same_state_prepared type_states_def is_client_def)
  then have m: "moves ?t (fst (snd (do_transition env Calling s1)))" using moves_do_transition(1) s1 by fastforce
  have n: "moves u (u\<lparr>tx_first_write_hook := False\<rparr>)" for u by simp
  show ?thesis
    using moves_trans [OF t m] moves_trans [OF moves_trans [OF t m] n]
    by (auto simp: start_request_def Let_def w tx_frame split: prod.splits sum.splits)
qed

lemma moves_send:
  assumes "tx_state (fst s) = Nothing"
  shows "moves (fst s) (fst (snd (send env s)))"
proof -
  have "moves (fst s) (fst (snd (start_request env (connect found (fst s), snd s))))" if "is_client (tx_type (fst s))" for found
    using moves_start_request [of "(connect found (fst s), snd s)" env] that assms
    by (simp add: same_state_prepared) (blast intro: moves_trans moves_connect)
  then show ?thesis
    using moves_start_request [of s env] assms by (auto simp: send_def Let_def split: sum.splits)
qed

end
