(* ===== verification/Transaction_Steps.thy ===== *)
theory Transaction_Steps
  imports Transaction_Inv
begin

text \<open>
  The event handlers of a transaction keep the invariant; the step relation that gathers every
  operation; the invariant of the reachable transactions, what ends one, and how long it may last.
\<close>

section \<open>The event handlers\<close>

lemma moves_arm_ack_body: "moves t (fst (arm_ack_body t ack))"
  by (auto simp: arm_ack_body_def split: option.splits)

lemma moves_ack_connection: "moves t (fst (ack_connection env ack connection t))"
  by (auto simp: ack_connection_def Let_def split: option.splits sum.splits)

lemma ack_state:
  "tx_state (fst (arm_ack_body t ack)) = tx_state t" "tx_type (fst (arm_ack_body t ack)) = tx_type t"
  "tx_state (fst (ack_connection env ack connection t)) = tx_state t"
  "tx_type (fst (ack_connection env ack connection t)) = tx_type t"
  by (auto simp: arm_ack_body_def ack_connection_def Let_def split: option.splits sum.splits)

lemma moves_keep_ack: "moves t (t\<lparr>tx_sent_ack := a, tx_last_ack := b\<rparr>)"
  by (rule moves_trans [OF moves_unread(7) moves_unread(5)])

lemma moves_send_ack: "moves (fst s) (fst (snd (send_ack env connection s)))"
proof (rule movesI)
  assume inv: "tx_inv (fst s)"
  let ?t = "fst s"
  show ?thesis
  proof (cases "tx_type ?t = ClientInvite \<and> (tx_state ?t = Completed \<or> tx_state ?t = Accepted)")
    case False
    then show ?thesis by (auto simp: send_ack_def Let_def)
  next
    case True
    show ?thesis
    proof (cases "ack_request env s")
      case (Inl err)
      with True show ?thesis by (auto simp: send_ack_def Let_def)
    next
      case (Inr ack)
      obtain t1 ack1 where 1: "arm_ack_body ?t ack = (t1, ack1)" by (rule prod.exhaust)
      obtain t2 c where 2: "ack_connection env ack1 connection t1 = (t2, c)" by (rule prod.exhaust)
      let ?msg = "before_send env (Request ack1) (tx_destination t2)"
      let ?t3 = "case ?msg of Request r \<Rightarrow> t2\<lparr>tx_sent_ack := Some r, tx_last_ack := Some r\<rparr> | Response _ \<Rightarrow> t2"
      have t2: "moves ?t t2" "tx_state t2 = tx_state ?t" "tx_type t2 = tx_type ?t"
        using moves_trans [OF moves_arm_ack_body [of ?t ack]] moves_ack_connection [of t1 env ack1 connection]
          ack_state(1,2) [of ?t ack] ack_state(3,4) [of env ack1 connection t1] 1 2
        by auto
      then have t3: "moves ?t ?t3" "tx_state ?t3 = tx_state ?t" "tx_type ?t3 = tx_type ?t"
        using moves_trans [OF t2(1) moves_keep_ack] by (auto split: sip_message.splits)
      have "moves ?t3 (fst (snd (do_transition env Terminated (?t3, e))))" for e
        using moves_do_transition(1) [of Terminated "(?t3, e)" env] True t3
        by (auto simp: may_enter_def type_states_def doubleton_eq_iff)
      then have "moves ?t (fst (snd (do_transition env Terminated (?t3, e))))" for e
        using t3(1) moves_trans by blast
      then show ?thesis
        using True t3 Inr by (auto simp: send_ack_def Let_def 1 2)
    qed
  qed
qed

lemma moves_adopt_connection: "moves t (adopt_connection connection t)"
  by (simp add: adopt_connection_def)

lemma adopt_connection_state [simp]:
  "tx_state (adopt_connection connection t) = tx_state t" "tx_type (adopt_connection connection t) = tx_type t"
  "tx_original (adopt_connection connection t) = tx_original t"
  "tx_last_response (adopt_connection connection t) = tx_last_response t"
  by (simp_all add: adopt_connection_def)

lemma moves_server_transition:
  assumes "is_server (tx_type (fst s))" "(tx_state (fst s), target) \<in> {(Accepted, Terminated), (Completed, Confirmed), (Confirmed, Confirmed)}"
  shows "moves (fst s) (fst (try_transition env target s))"
proof (rule movesI)
  assume "tx_inv (fst s)"
  then have "may_enter target (fst s) \<or> tx_state (fst s) = target"
    using assms by (auto simp: may_enter_def tx_inv_def type_states_def is_server_def doubleton_eq_iff)
  then show ?thesis by (rule moves_do_transition(2))
qed

lemma moves_on_received_request: "moves (fst s) (fst (snd (on_received_request env req connection s)))"
proof (cases "is_client (tx_type (fst s))")
  case True
  then show ?thesis by (simp add: on_received_request_def)
next
  case False
  let ?s = "(adopt_connection connection (fst s), snd s)"
  have server: "is_server (tx_type (fst ?s))" using False client_or_server by auto
  have "moves (fst ?s) (fst (snd (on_received_request env req connection s)))"
    using False moves_respond [of ?s env] moves_server_transition [OF server, of _ env]
    by (auto simp: on_received_request_def Let_def fst_answer_cancel split: tx_state.splits option.splits)
  then show ?thesis using moves_adopt_connection moves_trans by fastforce
qed

lemma moves_set_last_response: "moves (fst s) (fst (set_last_response resp s))"
  by (simp add: set_last_response_def)

lemma moves_checked_transition:
  assumes "can_transition target (fst s) = Inr ()" "target \<in> type_states (tx_type (fst s)) - {Nothing, Calling}"
    "tx_state (fst s) \<noteq> Nothing"
  shows "moves (fst s) (fst (try_transition env target s))"
  using assms moves_do_transition(2) may_enter_checked by simp

lemma moves_forward_2xx:
  assumes "tx_type (fst s) = ClientInvite" "tx_state (fst s) \<noteq> Nothing"
  shows "moves (fst s) (fst (snd (forward_2xx env resp s)))"
proof (cases "tx_state (fst s) = Accepted \<or> can_transition Accepted (fst s) \<noteq> Inr ()")
  case True
  then show ?thesis by (auto simp: forward_2xx_def moves_set_last_response split: sum.splits)
next
  case False
  then have "moves (fst s) (fst (try_transition env Accepted s))"
    using moves_checked_transition assms by (simp add: type_states_def)
  then show ?thesis
    using False moves_trans [OF _ moves_set_last_response]
    by (auto simp: forward_2xx_def try_transition_def split: sum.splits prod.splits)
qed

lemma moves_on_received_response:
  assumes "tx_state (fst s) \<noteq> Nothing"
  shows "moves (fst s) (fst (snd (on_received_response env resp connection s)))"
proof -
  let ?r = "stamp_destination (fst s) resp"
  let ?target = "client_response_state (opt_auto_ack_2xx (ep_option (snd s))) (tx_type (fst s)) ?r"
  let ?s = "set_last_response ?r s"
  consider (ignored) "is_server (tx_type (fst s))"
    | (forked) "tx_type (fst s) = ClientInvite \<and> status_code_kind (resp_status ?r) = Successful \<and> has_multiple_vias (resp_headers ?r)"
    | (own) "is_client (tx_type (fst s))" "\<not> (tx_type (fst s) = ClientInvite \<and> status_code_kind (resp_status ?r) = Successful
        \<and> has_multiple_vias (resp_headers ?r))"
    using client_or_server by blast
  then show ?thesis
  proof cases
    case ignored
    then show ?thesis by (simp add: on_received_response_def Let_def)
  next
    case forked
    then show ?thesis
      using moves_forward_2xx assms by (simp add: on_received_response_def Let_def is_server_def)
  next
    case own
    have "moves (fst s) (fst (try_transition env ?target ?s))" if "can_transition ?target (fst s) = Inr ()"
      using moves_checked_transition [of ?target ?s env] that assms response_state_types(2) [OF own(1)]
        moves_trans [OF moves_set_last_response [of s ?r]]
      by (simp add: set_last_response_def)
    then have "moves (fst s) (fst (snd (send_ack env connection (try_transition env ?target ?s))))
        \<and> moves (fst s) (fst (try_transition env ?target ?s))" if "can_transition ?target (fst s) = Inr ()"
      using that moves_send_ack moves_trans by blast
    then show ?thesis
      using own client_or_server by (auto simp: on_received_response_def Let_def split: sum.splits)
  qed
qed

lemma moves_retransmit:
  "tx_state (fst s) \<noteq> Terminated \<Longrightarrow> moves (fst s) (fst (snd (retransmit_last_response env k d s)))"
  by (auto simp: retransmit_last_response_def Let_def fst_start_timer moves_timers split: option.splits prod.splits)

lemma reconnect_state [simp]: "tx_state (reconnect env t) = tx_state t" "tx_type (reconnect env t) = tx_type t"
  by (auto simp: reconnect_def same_state_prepared split: sum.splits)

lemma moves_reconnect: "moves t (reconnect env t)"
  by (auto simp: reconnect_def moves_connect split: sum.splits)

lemma moves_on_timer_a:
  assumes "tx_state (fst s) \<noteq> Terminated"
  shows "moves (fst s) (fst (snd (on_timer_a env k d s)))"
proof (cases "tx_retransmission (fst s)")
  case True
  let ?t = "reconnect env (fst s)"
  obtain written failed s1 where w: "write_request env (?t, snd s) = (written, failed, s1)" by (metis prod_cases3)
  have s1: "fst s1 = ?t" using fst_write_request [of env "(?t, snd s)"] w by simp
  have n: "moves (fst s) (?t\<lparr>tx_first_write_hook := False\<rparr>)" "moves (fst s) ?t"
    using moves_trans [OF moves_reconnect moves_unread(9)] moves_reconnect by auto
  have g: "moves (fst s) (u\<lparr>tx_timer_a := i\<rparr>)" if "moves (fst s) u" "tx_state u = tx_state (fst s)" for u i
    using moves_trans [OF that(1) moves_timers(2)] that(2) assms by simp
  show ?thesis
    using n g [OF n(1)] g [OF n(2)] True by (simp add: on_timer_a_def Let_def w tx_frame s1)
qed (simp add: on_timer_a_def)

lemma moves_on_timer: "moves (fst s) (fst (snd (on_timer env timer s)))"
proof (rule movesI)
  assume inv: "tx_inv (fst s)"
  have m: "moves (fst s) (fst (snd (do_transition env Terminated s)))" if "tx_state (fst s) \<in> {Accepted, Completed, Confirmed}"
  proof (rule moves_do_transition(1), rule disjI1)
    show "may_enter Terminated (fst s)"
      using that by (cases "tx_type (fst s)") (auto simp: may_enter_def type_states_def doubleton_eq_iff)
  qed
  show ?thesis
    using m moves_retransmit [of s env] moves_on_timer_a [of s env]
    by (auto simp: on_timer_def Let_def on_request_timeout_def fst_inform split: tx_state.splits tx_timer.splits)
qed

lemma snd_handle_event:
  "snd (handle_event env ev s) =
     (case ev of
        Received (Request req) connection \<Rightarrow> snd (on_received_request env req connection s)
      | Received (Response resp) connection \<Rightarrow> snd (on_received_response env resp connection s)
      | TimerFired timer \<Rightarrow> snd (on_timer env timer s)
      | Respond resp \<Rightarrow> snd (respond env resp s)
      | Terminate _ \<Rightarrow> s)"
  by (auto simp: handle_event_def split: tx_event.splits sip_message.splits prod.splits option.splits)

lemma moves_handle_event:
  assumes "tx_state (fst s) \<noteq> Nothing"
  shows "moves (fst s) (fst (snd (handle_event env ev s)))"
  using assms moves_on_received_request [of s env] moves_on_received_response [of s env] moves_on_timer [of s env]
    moves_respond [of s env]
  by (auto simp: snd_handle_event split: tx_event.splits sip_message.splits)

section \<open>Steps\<close>

text \<open>The calls the transaction user makes on its transaction and the events its receive loop takes.
  \<open>Elsewhere\<close> is anything the other tasks do to the endpoint.\<close>

datatype tx_op =
    Send
  | Event tx_event
  | RespondWith response
  | ReplyWith status_code "header list" "bytes option"
  | SendTrying
  | SendCancel request
  | SendAck "sip_connection option"
  | StopRetransmissions
  | OnFirstWrite
  | ArmAckBody bytes
  | Elsewhere

fun perform :: "env \<Rightarrow> tx_op \<Rightarrow> st \<Rightarrow> st" where
  "perform env Send s = snd (send env s)"
| "perform env (Event ev) s = snd (handle_event env ev s)"
| "perform env (RespondWith resp) s = snd (respond env resp s)"
| "perform env (ReplyWith status headers body) s = snd (reply_with env status headers body s)"
| "perform env SendTrying s = snd (send_trying env s)"
| "perform env (SendCancel cancel) s = snd (send_cancel env cancel s)"
| "perform env (SendAck connection) s = snd (send_ack env connection s)"
| "perform env StopRetransmissions s = stop_retransmissions s"
| "perform env OnFirstWrite s = (on_first_write (fst s), snd s)"
| "perform env (ArmAckBody body) s = ((fst s)\<lparr>tx_ack_body := Some body\<rparr>, snd s)"
| "perform env Elsewhere s = s"

text \<open>A client transaction is sent once, and its receive loop runs after that.\<close>

fun in_order :: "tx_op \<Rightarrow> transaction \<Rightarrow> bool" where
  "in_order Send t \<longleftrightarrow> is_client (tx_type t) \<longrightarrow> tx_state t = Nothing"
| "in_order (Event _) t \<longleftrightarrow> tx_state t \<noteq> Nothing"
| "in_order _ t \<longleftrightarrow> True"

inductive tx_step :: "tx_op \<Rightarrow> st \<Rightarrow> st \<Rightarrow> bool" where
  call: "in_order op (fst s) \<Longrightarrow> tx_step op s (perform env op s)"
| elsewhere: "tx_step Elsewhere (t, e) (t, e')"

inductive_cases tx_stepE: "tx_step op s s'"

inductive tx_run :: "st \<Rightarrow> st \<Rightarrow> bool" where
  stay: "tx_run s s"
| step: "tx_run s u \<Longrightarrow> tx_step op u s' \<Longrightarrow> tx_run s s'"

inductive tx_reachable :: "st \<Rightarrow> bool" where
  client: "tx_run (new_client k req connection e) s \<Longrightarrow> tx_reachable s"
| server: "tx_run (new_server k req connection e) s \<Longrightarrow> tx_reachable s"

lemma moves_perform:
  assumes "in_order op (fst s)"
  shows "moves (fst s) (fst (perform env op s))"
proof (cases op)
  case Send
  show ?thesis
  proof (cases "is_client (tx_type (fst s))")
    case True
    then show ?thesis using Send assms moves_send [of s env] by simp
  next
    case False
    then show ?thesis using Send by (simp add: send_def Let_def)
  qed
next
  case (Event ev)
  then show ?thesis using assms moves_handle_event [of s env ev] by simp
qed (simp_all add: moves_respond moves_reply_with moves_send_trying moves_send_cancel moves_send_ack
      moves_stop_retransmissions moves_on_first_write)

lemma moves_step: "tx_step op s s' \<Longrightarrow> moves (fst s) (fst s')"
  by (erule tx_stepE) (auto simp: moves_perform)

lemma moves_run: "tx_run s s' \<Longrightarrow> moves (fst s) (fst s')"
  by (induction rule: tx_run.induct) (auto intro: moves_trans moves_step)

lemma tx_inv_new: "tx_inv (fst (tx_new ty k req connection e))"
  by (cases ty) (auto simp: tx_new_def Let_def inv_defs is_server_def)

lemma tx_inv_created: "tx_inv (fst (new_client k req connection e))" "tx_inv (fst (new_server k req connection e))"
  by (simp_all add: new_client_def new_server_def tx_inv_new)

lemma reachable_tx_inv: "tx_reachable s \<Longrightarrow> tx_inv (fst s)"
  by (erule tx_reachable.cases) (metis moves_def moves_run tx_inv_created)+



section \<open>A transaction followed through\<close>

definition example_conn :: sip_connection where
  "example_conn = \<lparr>conn_kind = ConnUdp, conn_inner = 0,
     conn_addr = \<lparr>sa_type = Some Udp, sa_addr = \<lparr>hwp_host = Domain ''a.example'', hwp_port = Some 5060\<rparr>\<rparr>, conn_remote = None\<rparr>"

definition example_env :: env where
  "example_env = \<lparr>env_inspector = None, env_locator = None, env_lookup = (\<lambda>a _. Inr (example_conn, a)),
     env_resolve = Inr, env_send_error = (\<lambda>_ _ _. None), env_tag = ''t1'', env_branch = P_Branch ''z9hG4bKa''\<rparr>"

definition example_endpoint :: endpoint where
  "example_endpoint = endpoint_new ''ua'' None"

definition example_client :: st where
  "example_client = new_client example_key example_invite (Some example_conn) example_endpoint"

definition example_server :: st where
  "example_server = new_server example_key example_invite (Some example_conn) example_endpoint"

fun perform_all :: "env \<Rightarrow> tx_op list \<Rightarrow> st \<Rightarrow> st" where
  "perform_all env [] s = s"
| "perform_all env (op # ops) s = perform_all env ops (perform env op s)"

fun all_in_order :: "env \<Rightarrow> tx_op list \<Rightarrow> st \<Rightarrow> bool" where
  "all_in_order env [] s \<longleftrightarrow> True"
| "all_in_order env (op # ops) s \<longleftrightarrow> in_order op (fst s) \<and> all_in_order env ops (perform env op s)"

lemma run_trans: "tx_run u s' \<Longrightarrow> tx_run s u \<Longrightarrow> tx_run s s'"
  by (induction rule: tx_run.induct) (auto intro: tx_run.intros)

lemma run_performed: "all_in_order env ops s \<Longrightarrow> tx_run s (perform_all env ops s)"
proof (induction ops arbitrary: s)
  case (Cons op ops)
  then have "tx_run s (perform env op s)" by (auto intro: tx_run.intros tx_step.intros)
  then show ?case using Cons.IH [of "perform env op s"] Cons.prems run_trans by auto
qed (simp add: tx_run.stay)

lemma reachable_performed:
  "all_in_order env ops example_client \<Longrightarrow> tx_reachable (perform_all env ops example_client)"
  "all_in_order env ops example_server \<Longrightarrow> tx_reachable (perform_all env ops example_server)"
  using run_performed tx_reachable.client tx_reachable.server unfolding example_client_def example_server_def by blast+

definition example_call :: "tx_op list" where
  "example_call = [Send, Event (Received (Response example_ok) (Some example_conn)), Event (TimerFired (TimerM example_key))]"



end
