(* ===== verification/Transaction_Spec.thy ===== *)
theory Transaction_Spec
  imports Transaction_Steps
begin

text \<open>
  The state machines of RFC 3261 section 17 and RFC 6026 section 7 as the stack reads them, stated
  without timers, connections or messages, and the proof that the handlers refine them.
\<close>

section \<open>The abstract machines\<close>

text \<open>What may make a transaction move: the request is sent, the peer repeats a request, the ACK is
  received or sent, a response of some class is received or sent, or a timer fires.\<close>

datatype cause = Sent | Repeated | Acked | Responded status_code_kind | Timed | Other_cause

fun cause_of :: "tx_op \<Rightarrow> cause" where
  "cause_of Send = Sent"
| "cause_of (Event (Received (Request req) _)) = (if req_method req = Ack then Acked else Repeated)"
| "cause_of (Event (Received (Response resp) _)) = Responded (status_code_kind (resp_status resp))"
| "cause_of (Event (TimerFired _)) = Timed"
| "cause_of (Event (Respond resp)) = Responded (status_code_kind (resp_status resp))"
| "cause_of (RespondWith resp) = Responded (status_code_kind (resp_status resp))"
| "cause_of (ReplyWith status _ _) = Responded (status_code_kind status)"
| "cause_of SendTrying = Responded Provisional"
| "cause_of (SendAck _) = Acked"
| "cause_of _ = Other_cause"

definition early :: "tx_state \<Rightarrow> bool" where
  "early st \<longleftrightarrow> st = Calling \<or> st = Trying \<or> st = Proceeding"

text \<open>The state a class of response leads to, from a state that still waits for one.\<close>

fun answered :: "tx_type \<Rightarrow> status_code_kind \<Rightarrow> tx_state set" where
  "answered ty Provisional = {Trying, Proceeding}"
| "answered ClientInvite Successful = {Accepted, Terminated}"
| "answered ServerInvite Successful = {Accepted}"
| "answered ClientInvite _ = {Completed, Terminated}"
| "answered ServerInvite _ = {Completed}"
| "answered _ _ = {Terminated}"

definition spec_move :: "tx_type \<Rightarrow> cause \<Rightarrow> tx_state \<Rightarrow> tx_state \<Rightarrow> bool" where
  "spec_move ty c st st' \<longleftrightarrow>
     st' = st \<or> (st \<noteq> Terminated \<and> state_rank st < state_rank st' \<and>
      (case c of
         Sent \<Rightarrow> is_client ty \<and> st = Nothing \<and> st' = Calling
       | Responded kind \<Rightarrow>
           (early st \<and> st' \<in> answered ty kind)
           \<or> (ty = ClientInvite \<and> kind = Successful \<and> st \<in> {Accepted, Completed} \<and> st' = Terminated)
       | Repeated \<Rightarrow> is_server ty \<and> early st \<and> (\<exists>kind \<in> {Provisional, Successful, RequestFailure}. st' \<in> answered ty kind)
       | Acked \<Rightarrow>
           (is_server ty \<and> early st \<and> (\<exists>kind \<in> {Provisional, Successful, RequestFailure}. st' \<in> answered ty kind))
           \<or> (ty = ServerInvite \<and> (st, st') \<in> {(Accepted, Terminated), (Completed, Confirmed)})
           \<or> (ty = ClientInvite \<and> (st, st') = (Completed, Terminated))
       | Timed \<Rightarrow> st \<in> {Accepted, Completed, Confirmed} \<and> st' = Terminated
       | Other_cause \<Rightarrow> False))"

section \<open>The state after each operation\<close>

lemma state_transition: "tx_state (fst (snd (transition env target s))) \<in> {tx_state (fst s), target}"
  using transition_frame(2) [of env target s] by (auto split: sum.splits)

lemma state_do_transition:
  "tx_state (fst (snd (do_transition env target s))) \<in> {tx_state (fst s), target}"
  "tx_state (fst (try_transition env target s)) \<in> {tx_state (fst s), target}"
  using state_transition [of env target s] by (simp_all add: fst_do_transition try_transition_def)

definition checked :: "tx_state \<Rightarrow> tx_state \<Rightarrow> transaction \<Rightarrow> bool" where
  "checked st' target t \<longleftrightarrow> st' = tx_state t \<or> (st' = target \<and> can_transition target t = Inr ())"

lemma state_respond:
  "checked (tx_state (fst (snd (respond env resp s)))) (response_state (tx_type (fst s)) resp) (fst s)"
proof -
  let ?t = "fst s" and ?target = "response_state (tx_type (fst s)) resp"
  show ?thesis
  proof (cases "is_server (tx_type ?t) \<and> can_transition ?target ?t = Inr () \<and> tx_connection ?t \<noteq> None")
    case False
    then show ?thesis by (auto simp: respond_def Let_def checked_def split: sum.splits option.splits)
  next
    case True
    then obtain c where c: "tx_connection ?t = Some c" by auto
    let ?msg = "before_send env (Response resp) (tx_destination ?t)"
    define t' where "t' = (case ?msg of Response r \<Rightarrow> ?t\<lparr>tx_last_response := Some r\<rparr> | Request _ \<Rightarrow> ?t)"
    have t': "tx_state t' = tx_state ?t" by (simp add: t'_def split: sip_message.splits)
    obtain err e where e: "conn_send env c ?msg (tx_destination t') (snd s) = (err, e)" by (rule prod.exhaust)
    have "snd (respond env resp s) = (t', e) \<or> snd (respond env resp s) = snd (do_transition env ?target (t', e))"
      using True c e by (cases err) (simp_all add: respond_def Let_def t'_def)
    then show ?thesis
      using state_do_transition(1) [of env ?target "(t', e)"] True t' by (auto simp: checked_def)
  qed
qed

lemma respond_client: "is_client (tx_type (fst s)) \<Longrightarrow> snd (respond env resp s) = s"
  using client_or_server by (auto simp: respond_def Let_def)

lemma ensure_to_tag_frame:
  "ensure_to_tag env t = Inr t' \<Longrightarrow> tx_state t' = tx_state t \<and> tx_type t' = tx_type t
     \<and> can_transition target t' = can_transition target t"
  by (auto simp: ensure_to_tag_def and_then_def can_transition_def split: sum.splits if_splits)

lemma ep_response_status [simp]: "resp_status (ep_make_response e req status body) = status"
  by (simp add: ep_make_response_def make_response_def Let_def)

lemma response_state_status:
  "resp_status resp = resp_status resp' \<Longrightarrow> response_state ty resp = response_state ty resp'"
  by (simp add: response_state_def)

lemma state_reply_with:
  assumes "resp_status resp = status"
  shows "checked (tx_state (fst (snd (reply_with env status headers body s)))) (response_state (tx_type (fst s)) resp) (fst s)"
proof (cases "if status_code_kind status = Provisional then Inr (fst s) else ensure_to_tag env (fst s)")
  case (Inl err)
  then show ?thesis by (simp add: reply_with_def checked_def)
next
  case (Inr t)
  let ?r = "ep_make_response (snd s) (tx_original t) status body"
  let ?resp = "?r\<lparr>resp_headers := headers_extend headers (resp_headers ?r)\<rparr>"
  have t: "tx_state t = tx_state (fst s)" "tx_type t = tx_type (fst s)"
      "can_transition target t = can_transition target (fst s)" for target
    using Inr ensure_to_tag_frame [of env "fst s" t target] by (auto split: if_splits)
  have r: "response_state (tx_type (fst s)) ?resp = response_state (tx_type (fst s)) resp"
    using assms by (intro response_state_status) simp
  show ?thesis
    using state_respond [of env ?resp "(t, snd s)"] Inr unfolding checked_def by (simp add: reply_with_def Let_def t r)
qed

lemma state_send: "tx_state (fst (snd (send env s))) \<in> {tx_state (fst s), Calling}"
proof -
  have "tx_state (fst (snd (start_request env (t, e)))) \<in> {tx_state t, Calling}" for t e
  proof -
    let ?t = "set_content_length (affinity_destination t)"
    obtain written failed s1 where w: "write_request env (?t, e) = (written, failed, s1)" by (metis prod_cases3)
    have "fst s1 = ?t" using fst_write_request [of env "(?t, e)"] w by simp
    then show ?thesis
      using state_do_transition(1) [of env Calling s1]
      by (auto simp: start_request_def Let_def w tx_frame same_state_prepared split: prod.splits sum.splits)
  qed
  from this [of "fst s" "snd s"] this [of "connect found (fst s)" "snd s" for found] show ?thesis
    by (auto simp: send_def Let_def same_state_prepared split: sum.splits)
qed

lemma state_send_ack:
  "tx_state (fst (snd (send_ack env connection s))) = tx_state (fst s)
   \<or> (tx_type (fst s) = ClientInvite \<and> tx_state (fst s) = Completed
      \<and> tx_state (fst (snd (send_ack env connection s))) = Terminated)"
proof (cases "tx_type (fst s) = ClientInvite \<and> (tx_state (fst s) = Completed \<or> tx_state (fst s) = Accepted)")
  case True
  show ?thesis
  proof (cases "ack_request env s")
    case (Inr ack)
    obtain t1 ack1 where 1: "arm_ack_body (fst s) ack = (t1, ack1)" by (rule prod.exhaust)
    obtain t2 c where 2: "ack_connection env ack1 connection t1 = (t2, c)" by (rule prod.exhaust)
    have t2: "tx_state t2 = tx_state (fst s)"
      using ack_state(1) [of "fst s" ack] ack_state(3) [of env ack1 connection t1] 1 2 by simp
    let ?msg = "before_send env (Request ack1) (tx_destination t2)"
    let ?t3 = "case ?msg of Request r \<Rightarrow> t2\<lparr>tx_sent_ack := Some r, tx_last_ack := Some r\<rparr> | Response _ \<Rightarrow> t2"
    let ?e = "case c of Some c \<Rightarrow> snd (conn_send env c ?msg (tx_destination ?t3) (snd s)) | None \<Rightarrow> snd s"
    have final: "snd (send_ack env connection s) =
        (if tx_state ?t3 = Completed then snd (do_transition env Terminated (?t3, ?e)) else (?t3, ?e))"
      using True Inr by (elim conjE disjE; simp add: send_ack_def Let_def 1 2)
    show ?thesis
      unfolding final using True t2 state_do_transition(1) [of env Terminated "(?t3, ?e)"]
      by (auto split: sip_message.splits)
  qed (use True in \<open>auto simp: send_ack_def Let_def\<close>)
qed (auto simp: send_ack_def Let_def)

lemma state_stop: "tx_state (fst (stop_retransmissions s)) = tx_state (fst s)"
  by (simp add: stop_retransmissions_def fst_take_abc)

lemma state_send_cancel: "fst (snd (send_cancel env cancel s)) = fst s"
  by (auto simp: send_cancel_def Let_def split: option.splits prod.splits)

lemma state_retransmit: "tx_state (fst (snd (retransmit_last_response env k d s))) = tx_state (fst s)"
  by (auto simp: retransmit_last_response_def Let_def fst_start_timer split: option.splits prod.splits)

lemma state_on_timer_a: "tx_state (fst (snd (on_timer_a env k d s))) = tx_state (fst s)"
proof -
  obtain written failed s1 where w: "write_request env (reconnect env (fst s), snd s) = (written, failed, s1)" by (metis prod_cases3)
  have "fst s1 = reconnect env (fst s)" using fst_write_request [of env "(reconnect env (fst s), snd s)"] w by simp
  then show ?thesis by (auto simp: on_timer_a_def Let_def w tx_frame)
qed

lemma state_on_timer:
  "tx_state (fst (snd (on_timer env timer s))) = tx_state (fst s)
   \<or> (tx_state (fst s) \<in> {Accepted, Completed, Confirmed} \<and> tx_state (fst (snd (on_timer env timer s))) = Terminated)"
  using state_do_transition(1) [of env Terminated s]
  by (auto simp: on_timer_def Let_def on_request_timeout_def fst_inform state_retransmit state_on_timer_a
      split: tx_state.splits tx_timer.splits)

text \<open>A request that repeats the original makes the server repeat its last response, whatever that was.\<close>

lemma state_on_received_request:
  assumes "is_server (tx_type (fst s))" and new: "tx_state (fst (snd (on_received_request env req connection s))) \<noteq> tx_state (fst s)"
  shows "(early (tx_state (fst s)) \<and> (\<exists>resp. checked (tx_state (fst (snd (on_received_request env req connection s))))
             (response_state (tx_type (fst s)) resp) (fst s)))
   \<or> (req_method req = Ack \<and> (tx_state (fst s), tx_state (fst (snd (on_received_request env req connection s))))
        \<in> {(Accepted, Terminated), (Completed, Confirmed)})"
proof -
  let ?s = "(adopt_connection connection (fst s), snd s)"
  have c: "can_transition target (fst ?s) = can_transition target (fst s)" for target
    by (simp add: can_transition_def adopt_connection_def)
  have "checked (tx_state (fst (snd (respond env resp ?s)))) (response_state (tx_type (fst s)) resp) (fst s)" for resp
    using state_respond [of env resp ?s] c [of "response_state (tx_type (fst s)) resp"] by (simp add: checked_def)
  moreover have "tx_state (fst (try_transition env target ?s)) \<in> {tx_state (fst s), target}" for target
    using state_do_transition(2) [of env target ?s] by simp
  moreover have "\<not> is_client (tx_type (fst s))" using assms(1) client_or_server by auto
  ultimately show ?thesis
    using new by (cases "tx_state (fst s)") (auto simp: on_received_request_def Let_def fst_answer_cancel early_def
        split: option.splits if_splits)
qed

lemma state_forward_2xx:
  "checked (tx_state (fst (snd (forward_2xx env resp s)))) Accepted (fst s)"
  using state_transition [of env Accepted s]
  by (auto simp: forward_2xx_def checked_def set_last_response_def split: sum.splits prod.splits)

lemma state_on_received_response:
  fixes s env resp connection
  defines "st' \<equiv> tx_state (fst (snd (on_received_response env resp connection s)))"
    and "target \<equiv> client_response_state (opt_auto_ack_2xx (ep_option (snd s))) (tx_type (fst s)) (stamp_destination (fst s) resp)"
  assumes client: "is_client (tx_type (fst s))"
  shows "(tx_type (fst s) = ClientInvite \<and> status_code_kind (resp_status resp) = Successful \<and> checked st' Accepted (fst s))
    \<or> checked st' target (fst s)
    \<or> (tx_type (fst s) = ClientInvite \<and> target = Completed \<and> can_transition Completed (fst s) = Inr () \<and> st' = Terminated)"
proof -
  let ?r = "stamp_destination (fst s) resp"
  have kind: "resp_status ?r = resp_status resp" by (simp add: stamp_destination_def)
  show ?thesis
  proof (cases "tx_type (fst s) = ClientInvite \<and> status_code_kind (resp_status ?r) = Successful \<and> has_multiple_vias (resp_headers ?r)")
    case True
    then show ?thesis
      using state_forward_2xx [of env ?r s] client client_or_server
      by (auto simp: st'_def kind on_received_response_def Let_def)
  next
    case False
    let ?s = "try_transition env target (set_last_response ?r s)"
    have s: "tx_state (fst ?s) \<in> {tx_state (fst s), target}" "tx_type (fst ?s) = tx_type (fst s)"
      using state_do_transition(2) [of env target "set_last_response ?r s"]
        transition_frame(1) [of "set_last_response ?r s" env target]
      by (simp_all add: set_last_response_def same_identity_def try_transition_def)
    have "st' = tx_state (fst s) \<or> (can_transition target (fst s) = Inr () \<and> (st' = tx_state (fst ?s)
        \<or> (tx_type (fst s) = ClientInvite \<and> (target = Completed \<or> target = Accepted)
           \<and> st' = tx_state (fst (snd (send_ack env connection ?s))))))"
      using False client client_or_server
      by (auto simp: st'_def target_def on_received_response_def Let_def split: sum.splits)
    moreover have "\<not> (tx_state (fst s) = Completed \<and> can_transition target (fst s) = Inr () \<and> (target = Completed \<or> target = Accepted))"
      by (auto simp: can_transition_def)
    ultimately show ?thesis
      using s state_send_ack [of env connection ?s] by (auto simp: checked_def)
  qed
qed

section \<open>Refinement\<close>

lemma checked_answered:
  assumes "checked st' target t" "st' \<noteq> tx_state t" "target \<noteq> Nothing" "tx_state t \<noteq> Nothing"
  shows "tx_state t \<noteq> Terminated \<and> state_rank (tx_state t) < state_rank st' \<and> st' = target
    \<and> (early (tx_state t) \<or> target = Terminated \<or> target = Confirmed)"
  using assms by (auto simp: checked_def can_transition_def early_def split: if_splits)

lemma response_state_answered:
  "is_server ty \<Longrightarrow> response_state ty resp \<in> answered ty (status_code_kind (resp_status resp))"
  "is_client ty \<Longrightarrow> client_response_state auto_ack ty resp \<in> answered ty (status_code_kind (resp_status resp))"
  by (cases ty; cases "status_code_kind (resp_status resp)";
      simp add: response_state_def client_response_state_def is_server_def is_client_def)+

lemma answered_repeated: "x \<in> answered ty kind \<Longrightarrow> \<exists>k \<in> {Provisional, Successful, RequestFailure}. x \<in> answered ty k"
  by (cases kind; cases ty) auto

lemma spec_move_respond:
  assumes inv: "tx_inv (fst s)" and c: "checked st' (response_state (tx_type (fst s)) resp) (fst s)"
    and server: "is_server (tx_type (fst s))"
  shows "spec_move (tx_type (fst s)) (Responded (status_code_kind (resp_status resp))) (tx_state (fst s)) st'"
proof (cases "st' = tx_state (fst s)")
  case False
  have t: "response_state (tx_type (fst s)) resp \<in> type_states (tx_type (fst s)) - {Nothing, Calling}"
    using response_state_types(1) [OF server] .
  have "early (tx_state (fst s))"
    using checked_answered [OF c False _ server_started [OF inv server]] inv server t
    by (auto simp: tx_inv_def type_states_def is_server_def early_def response_state_def split: status_code_kind.splits if_splits)
  then show ?thesis
    using checked_answered [OF c False _ server_started [OF inv server]] t response_state_answered(1) [OF server, of resp]
    by (auto simp: spec_move_def)
qed (simp add: spec_move_def)

lemma spec_move_client_response:
  assumes inv: "tx_inv (fst s)" and started: "tx_state (fst s) \<noteq> Nothing" and client: "is_client (tx_type (fst s))"
    and res: "st' = tx_state (fst (snd (on_received_response env resp connection s)))"
  shows "spec_move (tx_type (fst s)) (Responded (status_code_kind (resp_status resp))) (tx_state (fst s)) st'"
proof (cases "st' = tx_state (fst s)")
  case False
  let ?r = "stamp_destination (fst s) resp"
  let ?target = "client_response_state (opt_auto_ack_2xx (ep_option (snd s))) (tx_type (fst s)) ?r"
  have kind: "status_code_kind (resp_status ?r) = status_code_kind (resp_status resp)" by (simp add: stamp_destination_def)
  have t: "?target \<in> answered (tx_type (fst s)) (status_code_kind (resp_status resp)) \<and> ?target \<in> type_states (tx_type (fst s)) - {Nothing, Calling}"
    using response_state_types(2) [OF client] response_state_answered(2) [OF client, of _ ?r] by (simp add: kind)
  from state_on_received_response [where env = env and resp = resp and connection = connection, OF client] res
  consider (forked) "tx_type (fst s) = ClientInvite" "status_code_kind (resp_status resp) = Successful" "checked st' Accepted (fst s)"
    | (own) "checked st' ?target (fst s)"
    | (acked) "tx_type (fst s) = ClientInvite" "?target = Completed" "can_transition Completed (fst s) = Inr ()" "st' = Terminated"
    by blast
  then show ?thesis
  proof cases
    case forked
    then show ?thesis
      using checked_answered [OF forked(3) False _ started] by (auto simp: spec_move_def)
  next
    case own
    have st: "?target \<noteq> Nothing" using t by auto
    have "early (tx_state (fst s)) \<or> (tx_type (fst s) = ClientInvite \<and> status_code_kind (resp_status resp) = Successful
        \<and> tx_state (fst s) \<in> {Accepted, Completed} \<and> st' = Terminated)"
      using checked_answered [OF own False st started] inv client t started
      by (cases "tx_type (fst s)"; cases "tx_state (fst s)";
          auto simp: tx_inv_def type_states_def is_client_def early_def client_response_state_def kind split: status_code_kind.splits if_splits)
    then show ?thesis
      using checked_answered [OF own False st started] t by (auto simp: spec_move_def)
  next
    case acked
    have "early (tx_state (fst s)) \<and> state_rank (tx_state (fst s)) < state_rank st' \<and> tx_state (fst s) \<noteq> Terminated"
      using acked by (auto simp: can_transition_def early_def split: if_splits)
    moreover have "st' \<in> answered (tx_type (fst s)) (status_code_kind (resp_status resp))"
      using acked t by (cases "status_code_kind (resp_status resp)") auto
    ultimately show ?thesis by (auto simp: spec_move_def)
  qed
qed (simp add: spec_move_def)

lemma spec_move_server_request:
  assumes inv: "tx_inv (fst s)" and server: "is_server (tx_type (fst s))"
    and res: "st' = tx_state (fst (snd (on_received_request env req connection s)))"
  shows "spec_move (tx_type (fst s)) (if req_method req = Ack then Acked else Repeated) (tx_state (fst s)) st'"
proof (cases "st' = tx_state (fst s)")
  case False
  have new: "tx_state (fst (snd (on_received_request env req connection s))) \<noteq> tx_state (fst s)" using False res by simp
  from state_on_received_request [OF server new] res
  consider (repeated) resp where "early (tx_state (fst s))" "checked st' (response_state (tx_type (fst s)) resp) (fst s)"
    | (acked) "req_method req = Ack" "(tx_state (fst s), st') \<in> {(Accepted, Terminated), (Completed, Confirmed)}"
    by blast
  then show ?thesis
  proof cases
    case (repeated resp)
    have "response_state (tx_type (fst s)) resp \<noteq> Nothing" using response_state_types(1) [OF server] by auto
    note c = checked_answered [OF repeated(2) False this server_started [OF inv server]]
    have "\<exists>kind \<in> {Provisional, Successful, RequestFailure}. st' \<in> answered (tx_type (fst s)) kind"
      using answered_repeated [OF response_state_answered(1) [OF server, of resp]] c by simp
    then show ?thesis
      using c repeated(1) server by (auto simp: spec_move_def)
  next
    case acked
    then have "tx_type (fst s) = ServerInvite"
      using inv server by (auto simp: tx_inv_def type_states_def is_server_def)
    then show ?thesis using acked by (auto simp: spec_move_def)
  qed
qed (simp add: spec_move_def)

lemma spec_move_stay [simp]: "spec_move ty c st st"
  by (simp add: spec_move_def)

lemma spec_move_send_ack:
  "spec_move (tx_type (fst s)) Acked (tx_state (fst s)) (tx_state (fst (snd (send_ack env connection s))))"
  using state_send_ack [of env connection s] by (auto simp: spec_move_def)

lemma spec_move_timer:
  "spec_move (tx_type (fst s)) Timed (tx_state (fst s)) (tx_state (fst (snd (on_timer env timer s))))"
  using state_on_timer [of env timer s] by (auto simp: spec_move_def)

lemma spec_move_send:
  assumes "is_client (tx_type (fst s)) \<longrightarrow> tx_state (fst s) = Nothing"
  shows "spec_move (tx_type (fst s)) Sent (tx_state (fst s)) (tx_state (fst (snd (send env s))))"
proof (cases "is_client (tx_type (fst s))")
  case True
  then show ?thesis using assms state_send [of env s] by (auto simp: spec_move_def)
qed (simp add: send_def Let_def)

lemma spec_move_answer:
  assumes "tx_inv (fst s)"
  shows "spec_move (tx_type (fst s)) (Responded (status_code_kind (resp_status resp))) (tx_state (fst s))
    (tx_state (fst (snd (respond env resp s))))"
proof (cases "is_server (tx_type (fst s))")
  case True
  then show ?thesis using spec_move_respond [OF assms state_respond] by blast
next
  case False
  then show ?thesis by (simp add: respond_def Let_def)
qed

lemma spec_move_reply:
  assumes "tx_inv (fst s)"
  shows "spec_move (tx_type (fst s)) (Responded (status_code_kind status)) (tx_state (fst s))
    (tx_state (fst (snd (reply_with env status headers body s))))"
proof (cases "is_server (tx_type (fst s))")
  case True
  have "resp_status (ep_make_response (snd s) (tx_original (fst s)) status None) = status" by simp
  from spec_move_respond [OF assms state_reply_with [OF this] True] show ?thesis by simp
next
  case False
  show ?thesis
  proof (cases "if status_code_kind status = Provisional then Inr (fst s) else ensure_to_tag env (fst s)")
    case (Inr t)
    have t: "tx_state t = tx_state (fst s)" "tx_type t = tx_type (fst s)"
      using Inr ensure_to_tag_frame [of env "fst s" t] by (auto split: if_splits)
    have "respond env resp (t, e) = (fst (respond env resp (t, e)), (t, e))" for resp e
      using False t by (simp add: respond_def Let_def)
    then have "fst (snd (reply_with env status headers body s)) = t"
      using Inr by (simp add: reply_with_def Let_def) (metis fst_conv snd_conv)
    then show ?thesis by (simp add: t)
  qed (simp add: reply_with_def)
qed

lemma spec_move_event:
  assumes inv: "tx_inv (fst s)" and started: "tx_state (fst s) \<noteq> Nothing"
  shows "spec_move (tx_type (fst s)) (cause_of (Event ev)) (tx_state (fst s)) (tx_state (fst (snd (handle_event env ev s))))"
proof (cases ev)
  case (Received msg connection)
  show ?thesis
  proof (cases msg)
    case (Request req)
    show ?thesis
    proof (cases "is_server (tx_type (fst s))")
      case True
      then show ?thesis
        using Received Request spec_move_server_request [where env = env and req = req and connection = connection, OF inv True refl] by (simp add: snd_handle_event)
    next
      case False
      then have "is_client (tx_type (fst s))" using client_or_server by blast
      then show ?thesis using Received Request by (simp add: snd_handle_event on_received_request_def)
    qed
  next
    case (Response resp)
    show ?thesis
    proof (cases "is_client (tx_type (fst s))")
      case True
      then show ?thesis
        using Received Response spec_move_client_response [where env = env and resp = resp and connection = connection, OF inv started True refl] by (simp add: snd_handle_event)
    next
      case False
      then have "is_server (tx_type (fst s))" using client_or_server by blast
      then show ?thesis using Received Response by (simp add: snd_handle_event on_received_response_def Let_def)
    qed
  qed
next
  case (Respond resp)
  then show ?thesis using spec_move_answer [OF inv] by (simp add: snd_handle_event)
qed (simp_all add: snd_handle_event spec_move_timer)

lemma spec_move_perform:
  assumes inv: "tx_inv (fst s)" and "in_order op (fst s)"
  shows "spec_move (tx_type (fst s)) (cause_of op) (tx_state (fst s)) (tx_state (fst (perform env op s)))"
proof (cases op)
  case Send
  then show ?thesis using assms(2) spec_move_send [of s env] by simp
next
  case (Event ev)
  then show ?thesis using assms spec_move_event [OF inv, of ev env] by simp
next
  case SendTrying
  have "status_code_kind (resp_status (ep_make_response (snd s) (tx_original (fst s)) SC_Trying None)) = Provisional"
    by (simp add: status_code_kind_def code_kind_def)
  from spec_move_answer [OF inv, of "ep_make_response (snd s) (tx_original (fst s)) SC_Trying None" env, unfolded this]
  show ?thesis using SendTrying by (simp add: send_trying_def)
qed (simp_all add: spec_move_answer [OF inv] spec_move_reply [OF inv] spec_move_send_ack state_send_cancel state_stop
    on_first_write_def)



end
