(* ===== verification/Transaction_Behaviour.thy ===== *)
theory Transaction_Behaviour
  imports Transaction_Spec
begin

text \<open>
  What the handlers do to the endpoint: the timers they arm and when those fire, the messages they
  write, the routes and the cached messages they leave for later packets.
\<close>

section \<open>What the helpers leave of the endpoint\<close>

named_theorems ep_frame \<open>the endpoint after an operation\<close>

definition cancelled :: "nat option \<Rightarrow> 'a timer \<Rightarrow> 'a timer" where
  "cancelled i q = (case i of Some i \<Rightarrow> snd (queue_cancel i q) | None \<Rightarrow> q)"

lemma ep_cancel_eq: "ep_cancel i e = e\<lparr>ep_timers := cancelled i (ep_timers e)\<rparr>"
  by (simp add: ep_cancel_def cancelled_def queue_cancel_def split: option.splits prod.splits)

lemma ep_timeout_eq:
  "ep_timeout d v e = (t_last_task_id (ep_timers e),
     e\<lparr>ep_timers := snd (queue_schedule (ep_now e + d) v (ep_timers e))\<rparr>)"
  by (simp add: ep_timeout_def queue_schedule_def timer_timeout_def timeout_at_def Let_def)

lemma snd_take_timer [ep_frame]:
  "snd (take_timer get upd s) = (snd s)\<lparr>ep_timers := cancelled (get (fst s)) (ep_timers (snd s))\<rparr>"
  by (simp add: take_timer_def ep_cancel_eq)

lemma snd_start_timer [ep_frame]:
  "snd (start_timer upd d v s) = (snd s)\<lparr>ep_timers := snd (queue_schedule (ep_now (snd s) + d) v (ep_timers (snd s)))\<rparr>"
  by (simp add: start_timer_def ep_timeout_eq)

lemma snd_take_abc [ep_frame]:
  "snd (take_timer_a s) = (snd s)\<lparr>ep_timers := cancelled (tx_timer_a (fst s)) (ep_timers (snd s))\<rparr>"
  "snd (take_timer_b s) = (snd s)\<lparr>ep_timers := cancelled (tx_timer_b (fst s)) (ep_timers (snd s))\<rparr>"
  "snd (take_timer_c s) = (snd s)\<lparr>ep_timers := cancelled (tx_timer_c (fst s)) (ep_timers (snd s))\<rparr>"
  by (simp_all add: take_timer_a_def take_timer_b_def take_timer_c_def snd_take_timer)

lemma timer_inv_cancelled: "timer_inv q \<Longrightarrow> timer_inv (cancelled i q)"
  by (simp add: cancelled_def timer_inv_cancel split: option.splits)

lemma pending_cancelled: "timer_inv q \<Longrightarrow> timer_pending (cancelled i q) = (case i of Some i \<Rightarrow> (timer_pending q)(i := None) | None \<Rightarrow> timer_pending q)"
  by (simp add: cancelled_def cancel_pending_eq split: option.splits)

lemma last_id_cancelled [simp]: "t_last_task_id (cancelled i q) = t_last_task_id q"
  by (simp add: cancelled_def cancel_eq split: option.splits)

lemma room_cancelled [simp]: "timer_room (cancelled i q) = timer_room q"
  by (simp add: timer_room_def)

section \<open>The client's retransmissions\<close>

text \<open>One timer of a transaction fires: the queue hands its entry out and the receive loop takes it.\<close>

definition fire :: "env \<Rightarrow> nat \<Rightarrow> st \<Rightarrow> st" where
  "fire env i s =
     (case timer_pending (ep_timers (snd s)) i of
        Some (t, v) \<Rightarrow>
          snd (handle_event env (TimerFired v) (fst s, (snd s)\<lparr>ep_now := t, ep_timers := snd (queue_cancel i (ep_timers (snd s)))\<rparr>))
      | None \<Rightarrow> s)"

fun fire_a :: "env \<Rightarrow> nat \<Rightarrow> st \<Rightarrow> st" where
  "fire_a env 0 s = s"
| "fire_a env (Suc n) s = (case tx_timer_a (fst (fire_a env n s)) of Some i \<Rightarrow> fire env i (fire_a env n s) | None \<Rightarrow> fire_a env n s)"

text \<open>The transaction waits for Timer A with interval \<open>d\<close>.\<close>

definition awaits_a :: "nat \<Rightarrow> st \<Rightarrow> bool" where
  "awaits_a d s \<longleftrightarrow>
     (\<exists>i. tx_timer_a (fst s) = Some i
       \<and> timer_pending (ep_timers (snd s)) i = Some (ep_now (snd s) + d, TimerA (tx_key (fst s)) d))"

definition retransmitting :: "env \<Rightarrow> sip_connection \<Rightarrow> st \<Rightarrow> bool" where
  "retransmitting env c s \<longleftrightarrow> is_client (tx_type (fst s)) \<and> (tx_state (fst s) = Calling \<or> tx_state (fst s) = Trying)
     \<and> tx_retransmission (fst s) \<and> tx_connection (fst s) = Some c
     \<and> timer_inv (ep_timers (snd s))
     \<and> env_send_error env c (before_send env (Request (tx_original (fst s))) (tx_destination (fst s))) (tx_destination (fst s)) = None"

text \<open>The copy of the request a write sends.\<close>

definition request_copy :: "env \<Rightarrow> sip_connection \<Rightarrow> transaction \<Rightarrow> sip_connection \<times> sip_message \<times> sip_addr option" where
  "request_copy env c t = (c, before_send env (Request (tx_original t)) (tx_destination t), tx_destination t)"

lemma armed_pending:
  assumes "timer_inv q" "timer_room q"
  shows "timer_pending (snd (queue_schedule t v q)) = (timer_pending q)(t_last_task_id q \<mapsto> (t, v))"
  using schedule_pending_eq [OF assms] by (simp add: schedule_eq)

lemma last_id_schedule: "timer_room q \<Longrightarrow> t_last_task_id (snd (queue_schedule t v q)) = t_last_task_id q + 1"
  by (simp add: schedule_eq timer_room_def)

lemma timer_a_round:
  assumes r: "retransmitting env c s" and room: "timer_room (ep_timers (snd s))"
  shows "case snd (on_timer env (TimerA (tx_key (fst s)) d) s) of s' \<Rightarrow>
    retransmitting env c s' \<and> awaits_a (min (d * 2) (opt_t1x64 (ep_option (snd s)))) s'
    \<and> tx_original (fst s') = tx_original (fst s) \<and> tx_destination (fst s') = tx_destination (fst s)
    \<and> tx_key (fst s') = tx_key (fst s)
    \<and> ep_sent (snd s') = ep_sent (snd s) @ [request_copy env c (fst s)] \<and> ep_option (snd s') = ep_option (snd s)
    \<and> t_last_task_id (ep_timers (snd s')) = t_last_task_id (ep_timers (snd s)) + 1"
proof -
  obtain t e where s: "s = (t, e)" by (cases s)
  have "write_request env (reconnect env t, e) = (True, False, (t, e\<lparr>ep_sent := ep_sent e @ [request_copy env c t]\<rparr>))"
    using r by (simp add: s retransmitting_def reconnect_def write_request_def conn_send_def request_copy_def Let_def)
  moreover have "on_timer env (TimerA (tx_key t) d) s = on_timer_a env (tx_key t) d s"
    using r by (auto simp: s on_timer_def retransmitting_def Let_def)
  moreover have "timer_inv (ep_timers e)" "tx_retransmission t" using r by (simp_all add: s retransmitting_def)
  ultimately show ?thesis
    using room r armed_pending [of "ep_timers e"] timer_inv_schedule [of "ep_timers e"]
    by (auto simp: s on_timer_a_def Let_def note_request_written_def start_timer_def ep_timeout_eq awaits_a_def retransmitting_def
        last_id_schedule request_copy_def)
qed

lemma retransmitting_clock:
  "retransmitting env c (t, e) \<Longrightarrow> retransmitting env c (t, e\<lparr>ep_now := n, ep_timers := snd (queue_cancel i (ep_timers e))\<rparr>)"
  by (simp add: retransmitting_def timer_inv_cancel)

lemma room_queue_cancel [simp]: "t_last_task_id (snd (queue_cancel i q)) = t_last_task_id q"
  by (simp add: cancel_eq split: option.splits)

lemma fire_a_round:
  assumes r: "retransmitting env c s" and a: "awaits_a d s" and i: "tx_timer_a (fst s) = Some i"
    and room: "timer_room (ep_timers (snd s))"
  shows "case fire env i s of s' \<Rightarrow>
    retransmitting env c s' \<and> awaits_a (min (d * 2) (opt_t1x64 (ep_option (snd s)))) s'
    \<and> request_copy env c (fst s') = request_copy env c (fst s)
    \<and> ep_sent (snd s') = ep_sent (snd s) @ [request_copy env c (fst s)] \<and> ep_option (snd s') = ep_option (snd s)
    \<and> t_last_task_id (ep_timers (snd s')) = t_last_task_id (ep_timers (snd s)) + 1"
proof -
  obtain t e where s: "s = (t, e)" by (cases s)
  let ?e = "e\<lparr>ep_now := ep_now e + d, ep_timers := snd (queue_cancel i (ep_timers e))\<rparr>"
  have "fire env i s = snd (on_timer env (TimerA (tx_key t) d) (t, ?e))"
    using a i by (simp add: s fire_def awaits_a_def snd_handle_event)
  moreover have "timer_room (ep_timers ?e)" using room by (simp add: s timer_room_def)
  ultimately show ?thesis
    using timer_a_round [OF retransmitting_clock [OF r [unfolded s]], of i "ep_now e + d" d]
    by (simp add: s request_copy_def)
qed

lemma min_double: "min (min (d * 2 ^ n) cap * 2) cap = min (d * 2 ^ Suc n) (cap :: nat)"
  by (simp add: min_def)

lemma fire_a_rounds:
  assumes "retransmitting env c s" and "awaits_a d s" and "d \<le> opt_t1x64 (ep_option (snd s))"
    and "t_last_task_id (ep_timers (snd s)) + n < 2 ^ 64"
  shows "retransmitting env c (fire_a env n s) \<and> awaits_a (min (d * 2 ^ n) (opt_t1x64 (ep_option (snd s)))) (fire_a env n s)
    \<and> request_copy env c (fst (fire_a env n s)) = request_copy env c (fst s)
    \<and> ep_sent (snd (fire_a env n s)) = ep_sent (snd s) @ replicate n (request_copy env c (fst s))
    \<and> ep_option (snd (fire_a env n s)) = ep_option (snd s)
    \<and> t_last_task_id (ep_timers (snd (fire_a env n s))) = t_last_task_id (ep_timers (snd s)) + n"
  using assms(4)
proof (induction n)
  case 0
  then show ?case using assms by (simp add: min_absorb1)
next
  case (Suc n)
  let ?s = "fire_a env n s"
  have IH: "retransmitting env c ?s" "awaits_a (min (d * 2 ^ n) (opt_t1x64 (ep_option (snd s)))) ?s"
    "request_copy env c (fst ?s) = request_copy env c (fst s)"
    "ep_sent (snd ?s) = ep_sent (snd s) @ replicate n (request_copy env c (fst s))"
    "ep_option (snd ?s) = ep_option (snd s)" "t_last_task_id (ep_timers (snd ?s)) = t_last_task_id (ep_timers (snd s)) + n"
    using Suc by simp_all
  obtain i where i: "tx_timer_a (fst ?s) = Some i" using IH(2) by (auto simp: awaits_a_def)
  have room: "timer_room (ep_timers (snd ?s))" using Suc.prems IH(6) by (simp add: timer_room_def)
  show ?case
    using fire_a_round [OF IH(1,2) i room] i IH(3-6) by (simp add: min_double replicate_append_same del: power_Suc)
qed

text \<open>A new request over a connection that takes it.\<close>

definition ready_to_send :: "env \<Rightarrow> sip_connection \<Rightarrow> st \<Rightarrow> bool" where
  "ready_to_send env c s \<longleftrightarrow> is_client (tx_type (fst s)) \<and> tx_state (fst s) = Nothing \<and> tx_connection (fst s) = Some c
     \<and> tx_retransmission (fst s) \<and> timer_inv (ep_timers (snd s))
     \<and> (\<forall>msg dest. env_send_error env c msg dest = None)"

definition prepared :: "transaction \<Rightarrow> transaction" where
  "prepared t = set_content_length (affinity_destination t)"

lemma prepared_fields:
  "tx_state (prepared t) = tx_state t" "tx_type (prepared t) = tx_type t" "tx_connection (prepared t) = tx_connection t"
  "tx_retransmission (prepared t) = tx_retransmission t" "tx_key (prepared t) = tx_key t"
  by (auto simp: prepared_def set_content_length_def affinity_destination_def split: option.splits)

lemma send_starts:
  assumes r: "ready_to_send env c s" and unreliable: "\<not> is_reliable c"
    and room: "t_last_task_id (ep_timers (snd s)) + 2 < 2 ^ 64"
  shows "case send env s of (r, s') \<Rightarrow> r = Inr () \<and> tx_state (fst s') = Calling
    \<and> retransmitting env c s' \<and> awaits_a (opt_t1 (ep_option (snd s))) s' \<and> ep_option (snd s') = ep_option (snd s)
    \<and> request_copy env c (fst s') = request_copy env c (prepared (fst s))
    \<and> ep_sent (snd s') = ep_sent (snd s) @ [request_copy env c (prepared (fst s))]
    \<and> t_last_task_id (ep_timers (snd s')) = t_last_task_id (ep_timers (snd s)) + 2"
proof -
  obtain t e where s: "s = (t, e)" by (cases s)
  have f: "is_client (tx_type t)" "tx_state t = Nothing" "tx_connection t = Some c" "tx_retransmission t" "timer_inv (ep_timers e)"
    "\<And>msg dest. env_send_error env c msg dest = None"
    using r by (auto simp: s ready_to_send_def)
  let ?e = "e\<lparr>ep_sent := ep_sent e @ [request_copy env c (prepared t)]\<rparr>"
  have w: "write_request env (prepared t, e) = (True, False, (prepared t, ?e))"
    using f by (simp add: write_request_def conn_send_def request_copy_def prepared_fields Let_def)
  let ?q1 = "snd (queue_schedule (ep_now e + opt_t1 (ep_option e)) (TimerA (tx_key t) (opt_t1 (ep_option e))) (ep_timers e))"
  let ?q2 = "snd (queue_schedule (ep_now e + opt_t1x64 (ep_option e)) (TimerB (tx_key t)) ?q1)"
  let ?i = "t_last_task_id (ep_timers e)"
  let ?t = "(prepared t)\<lparr>tx_timer_a := Some ?i, tx_timer_b := Some (t_last_task_id ?q1), tx_state := Calling\<rparr>"
  have "do_transition env Calling (prepared t, ?e) = (Inr (), (?t, ?e\<lparr>ep_timers := ?q2\<rparr>))"
    using f unreliable
    by (simp add: do_transition_def transition_def enter_state_def enter_calling_def prepared_fields Let_def start_timer_def
        ep_timeout_eq set_state_def and_then_def)
  then have send: "send env s = (Inr (), note_request_written (?t, ?e\<lparr>ep_timers := ?q2\<rparr>))"
    using f by (simp add: s send_def start_request_def Let_def w [unfolded prepared_def] prepared_def)
  have rooms: "timer_room (ep_timers e)" "timer_room ?q1"
    using room by (simp_all add: s timer_room_def last_id_schedule)
  have q: "timer_pending ?q2 ?i = Some (ep_now e + opt_t1 (ep_option e), TimerA (tx_key t) (opt_t1 (ep_option e)))" "timer_inv ?q2"
    "t_last_task_id ?q2 = ?i + 2"
    using rooms f(5) timer_inv_schedule [of "ep_timers e"] by (simp_all add: armed_pending timer_inv_schedule last_id_schedule)
  show ?thesis
    unfolding send using f q
    by (cases "tx_first_write_hook (prepared t)")
      (simp_all add: s note_request_written_def retransmitting_def awaits_a_def prepared_fields request_copy_def)
qed

text \<open>C18: a client request sent over an unreliable connection is written once at once
  and once more each time Timer A fires while it is unanswered, always the same bytes; the interval is T1
  at first, doubles every time and stays at 64*T1 once it has reached it.\<close>

theorem timer_a_backoff:
  assumes "ready_to_send env c s" and "\<not> is_reliable c" and "opt_t1 (ep_option (snd s)) \<le> opt_t1x64 (ep_option (snd s))"
    and "t_last_task_id (ep_timers (snd s)) + 2 + n < 2 ^ 64"
  shows "ep_sent (snd (fire_a env n (snd (send env s)))) = ep_sent (snd s) @ replicate (Suc n) (request_copy env c (prepared (fst s)))
    \<and> awaits_a (min (opt_t1 (ep_option (snd s)) * 2 ^ n) (opt_t1x64 (ep_option (snd s)))) (fire_a env n (snd (send env s)))"
proof -
  obtain r s1 where s1: "send env s = (r, s1)" by (rule prod.exhaust)
  have "retransmitting env c s1" "awaits_a (opt_t1 (ep_option (snd s))) s1" "ep_option (snd s1) = ep_option (snd s)"
    "request_copy env c (fst s1) = request_copy env c (prepared (fst s))"
    "ep_sent (snd s1) = ep_sent (snd s) @ [request_copy env c (prepared (fst s))]"
    "t_last_task_id (ep_timers (snd s1)) = t_last_task_id (ep_timers (snd s)) + 2"
    using send_starts [OF assms(1,2)] assms(4) s1 by auto
  then show ?thesis
    using fire_a_rounds [of env c s1 "opt_t1 (ep_option (snd s))" n] assms(3,4) s1 by simp
qed

lemma example_ready: "ready_to_send example_env example_conn example_client"
  by (simp add: ready_to_send_def example_client_def new_client_def tx_new_def attach_transaction_def example_endpoint_def
      endpoint_new_def timer_inv_new example_env_def example_invite_def is_server_def is_client_def Let_def)

lemma timer_a_backoff_witness:
  "length (ep_sent (snd (fire_a example_env 3 (snd (send example_env example_client))))) = 4
   \<and> awaits_a 4000 (fire_a example_env 3 (snd (send example_env example_client)))"
proof -
  have "\<not> is_reliable example_conn \<and> opt_t1 (ep_option (snd example_client)) = 500 \<and> opt_t1x64 (ep_option (snd example_client)) = 32000
      \<and> t_last_task_id (ep_timers (snd example_client)) = 1 \<and> ep_sent (snd example_client) = []" by code_simp
  then show ?thesis using timer_a_backoff [OF example_ready, of 3] by simp
qed

section \<open>Cleaning up\<close>

lemma snd_cleanup_timer: "\<exists>q. snd (cleanup_timer s) = (snd s)\<lparr>ep_timers := q\<rparr>"
  by (simp add: cleanup_timer_def Let_def ep_frame tx_frame, blast)

lemma snd_forget_waiting_ack:
  "forget_waiting_ack d req k e = e\<lparr>ep_waiting_ack_cseq := (\<lambda>r. if fst r = d \<and> Some (snd r) = cseq_seq_of (req_headers req)
        \<and> ep_waiting_ack_cseq e r = Some k then None else ep_waiting_ack_cseq e r),
     ep_waiting_ack := (\<lambda>d'. if d' = d \<and> ep_waiting_ack e d' = Some k then None else ep_waiting_ack e d')\<rparr>"
  by (auto simp: forget_waiting_ack_def Let_def fun_eq_iff split: option.splits)

lemma snd_detach_transaction:
  "detach_transaction k (Some msg) e =
     e\<lparr>ep_transactions := (ep_transactions e)(k := None), ep_finished := (ep_finished e)(k \<mapsto> Some msg),
       ep_timers := snd (queue_schedule (ep_now e + opt_t1x64 (ep_option e)) (TimerCleanup k) (ep_timers e))\<rparr>"
  by (simp add: detach_transaction_def Let_def ep_timeout_eq)

text \<open>What a finished transaction leaves behind for a key: no channel, no ACK route of the dialog, and a
  message for the peer's retransmissions.\<close>

definition retired :: "transaction_key \<Rightarrow> sip_message \<Rightarrow> endpoint \<Rightarrow> bool" where
  "retired k msg e \<longleftrightarrow> ep_transactions e k = None \<and> ep_finished e k = Some (Some msg)"

text \<open>The writes of a step succeed and are not rewritten.\<close>

definition plain_env :: "env \<Rightarrow> sip_connection \<Rightarrow> bool" where
  "plain_env env c \<longleftrightarrow> env_inspector env = None \<and> (\<forall>msg dest. env_send_error env c msg dest = None)"

lemma plain_send: "plain_env env c \<Longrightarrow> conn_send env c msg dest e = (None, e\<lparr>ep_sent := ep_sent e @ [(c, msg, dest)]\<rparr>)"
  by (simp add: plain_env_def conn_send_def)

lemma plain_before: "plain_env env c \<Longrightarrow> before_send env msg dest = msg"
  by (simp add: plain_env_def before_send_def)

section \<open>The server's 2xx and its ACK\<close>

definition answering :: "sip_connection \<Rightarrow> st \<Rightarrow> bool" where
  "answering c s \<longleftrightarrow> tx_type (fst s) = ServerInvite \<and> (tx_state (fst s) = Trying \<or> tx_state (fst s) = Proceeding)
     \<and> tx_connection (fst s) = Some c \<and> \<not> tx_is_cleaned_up (fst s)"

lemma respond_2xx:
  assumes a: "answering c s" and env: "plain_env env c"
    and ok: "status_code_kind (resp_status resp) = Successful" and d: "dialog_id_of_response resp ServerRole = Inr d"
    and seq: "cseq_seq_of (req_headers (tx_original (fst s))) = Some seq"
  shows "case respond env resp s of (r, s') \<Rightarrow> r = Inr () \<and> tx_state (fst s') = Accepted
    \<and> tx_type (fst s') = ServerInvite \<and> tx_original (fst s') = tx_original (fst s) \<and> tx_key (fst s') = tx_key (fst s)
    \<and> tx_channel (fst s') = tx_channel (fst s)
    \<and> tx_connection (fst s') = Some c \<and> \<not> tx_is_cleaned_up (fst s') \<and> tx_last_response (fst s') = Some resp
    \<and> tx_timer_g (fst s') \<noteq> None \<and> tx_timer_l (fst s') \<noteq> None
    \<and> ep_sent (snd s') = ep_sent (snd s) @ [(c, Response resp, tx_destination (fst s))]
    \<and> ep_closed (snd s') = ep_closed (snd s) \<and> ep_queues (snd s') = ep_queues (snd s)
    \<and> ep_transactions (snd s') = ep_transactions (snd s) \<and> ep_finished (snd s') = ep_finished (snd s)
    \<and> ep_waiting_ack_cseq (snd s') (d, seq) = Some (tx_key (fst s)) \<and> ep_waiting_ack (snd s') d = Some (tx_key (fst s))"
proof -
  obtain t e where s: "s = (t, e)" by (cases s)
  have f: "tx_type t = ServerInvite" "tx_state t = Trying \<or> tx_state t = Proceeding" "tx_connection t = Some c" "\<not> tx_is_cleaned_up t"
    using a by (simp_all add: s answering_def)
  have target: "response_state ServerInvite resp = Accepted" using ok by (simp add: response_state_def)
  have can: "can_transition Accepted t = Inr ()" using f(2) by (auto simp: can_transition_def)
  let ?s1 = "(t\<lparr>tx_last_response := Some resp\<rparr>, e\<lparr>ep_sent := ep_sent e @ [(c, Response resp, tx_destination t)]\<rparr>)"
  have r: "respond env resp s = do_transition env Accepted ?s1"
    using f can by (simp add: s respond_def Let_def target is_server_def plain_send [OF env] plain_before [OF env])
  show ?thesis
    unfolding r using f d seq
    by (auto simp: s do_transition_def transition_def enter_state_def enter_accepted_def Let_def start_timer_def ep_timeout_eq
        take_timer_a_def take_timer_b_def take_timer_c_def take_timer_def ep_cancel_eq set_state_def and_then_def)
qed

lemma ack_of_2xx:
  assumes st: "tx_type (fst s) = ServerInvite" "tx_state (fst s) = Accepted" "\<not> tx_is_cleaned_up (fst s)"
    and conn: "tx_connection (fst s) = Some c" and last: "tx_last_response (fst s) = Some resp"
    and ack: "req_method ack = Ack" "cseq_seq_of (req_headers ack) = Some seq" "cseq_seq_of (req_headers (tx_original (fst s))) = Some seq"
    and d: "dialog_id_of_response resp ServerRole = Inr d"
    and routed: "ep_waiting_ack_cseq (snd s) (d, seq) = Some (tx_key (fst s))" "ep_waiting_ack (snd s) d = Some (tx_key (fst s))"
    and alive: "tx_channel (fst s) \<notin> ep_closed (snd s)"
  shows "case on_received_request env ack connection s of (m, s') \<Rightarrow> m = Some (Request ack)
    \<and> is_terminated (fst s') \<and> no_timers (fst s') \<and> retired (tx_key (fst s)) (Response resp) (snd s')
    \<and> ep_waiting_ack_cseq (snd s') (d, seq) = None \<and> ep_waiting_ack (snd s') d = None
    \<and> ep_queues (snd s') (tx_channel (fst s)) = ep_queues (snd s) (tx_channel (fst s)) @ [Terminate (tx_key (fst s))]"
proof -
  obtain t e where s: "s = (t, e)" by (cases s)
  let ?u = "t\<lparr>tx_is_cleaned_up := True\<rparr>"
  obtain q where q: "snd (cleanup_timer (?u, e)) = e\<lparr>ep_timers := q\<rparr>" using snd_cleanup_timer [of "(?u, e)"] by auto
  have u: "fst (cleanup_timer (?u, e)) = ?u\<lparr>tx_timer_a := None, tx_timer_b := None, tx_timer_c := None, tx_timer_d := None,
     tx_timer_k := None, tx_timer_g := None, tx_timer_l := None, tx_timer_m := None\<rparr>" by (simp add: fst_cleanup_timer)
  obtain v e' where v: "cleanup_timer (?u, e) = (v, e')" by (rule prod.exhaust)
  note ve = u [unfolded v fst_conv] q [unfolded v snd_conv]
  have adopt: "adopt_connection connection t = t" using conn by (simp add: s adopt_connection_def)
  have "on_received_request env ack connection s = (Some (Request ack), try_transition env Terminated (t, e))"
    using st ack by (simp add: s on_received_request_def is_client_def adopt Let_def)
  then show ?thesis
    using st last d routed alive ack(3)
    by (simp add: s try_transition_def transition_def enter_state_def enter_terminated_def cleanup_def v ve Let_def
        forget_own_ack_def tx_role_def role_of_type_def is_client_def snd_forget_waiting_ack last_message_def snd_detach_transaction
        tx_send_def channel_send_def set_state_def is_terminated_def no_timers_def retired_def)
qed

text \<open>C15: a server INVITE transaction that answers with a 2xx writes it, becomes
  Accepted, arms Timer G (retransmission) and Timer L (its end), and routes the ACK of its dialog and
  CSeq to itself. An ACK with that CSeq is delivered to the transaction user and finishes the
  transaction: no timer is left, the routes are gone, the 2xx stays cached for the retransmissions of the
  INVITE, and the receive loop is told to end.\<close>

theorem server_2xx_until_ack:
  assumes "answering c s" and "plain_env env c"
    and "status_code_kind (resp_status resp) = Successful" and "dialog_id_of_response resp ServerRole = Inr d"
    and "cseq_seq_of (req_headers (tx_original (fst s))) = Some seq"
    and "req_method ack = Ack" and "cseq_seq_of (req_headers ack) = Some seq"
    and "tx_channel (fst s) \<notin> ep_closed (snd s)"
  shows "case respond env resp s of (r, s1) \<Rightarrow>
      r = Inr () \<and> tx_state (fst s1) = Accepted \<and> tx_timer_g (fst s1) \<noteq> None \<and> tx_timer_l (fst s1) \<noteq> None
      \<and> ep_sent (snd s1) = ep_sent (snd s) @ [(c, Response resp, tx_destination (fst s))]
      \<and> ep_waiting_ack_cseq (snd s1) (d, seq) = Some (tx_key (fst s))
      \<and> (case on_received_request env ack connection s1 of (m, s2) \<Rightarrow>
           m = Some (Request ack) \<and> is_terminated (fst s2) \<and> no_timers (fst s2)
           \<and> retired (tx_key (fst s)) (Response resp) (snd s2) \<and> ep_waiting_ack_cseq (snd s2) (d, seq) = None
           \<and> last (ep_queues (snd s2) (tx_channel (fst s))) = Terminate (tx_key (fst s)))"
proof -
  obtain r s1 where r: "respond env resp s = (r, s1)" by (rule prod.exhaust)
  note 1 = respond_2xx [OF assms(1-5), unfolded r prod.case]
  obtain m s2 where m: "on_received_request env ack connection s1 = (m, s2)" by (rule prod.exhaust)
  from 1 ack_of_2xx [of s1 c resp ack seq d env connection] assms(4-8) m show ?thesis by (simp add: r)
qed

definition example_ack :: request where
  "example_ack = example_invite\<lparr>req_method := Ack\<rparr>"

definition example_dialog :: dialog_id where
  "example_dialog = dialog_id_for ServerRole ''call1@a.example'' ''88'' ''99''"

lemma example_plain: "plain_env example_env c"
  by (simp add: plain_env_def example_env_def)

lemma server_2xx_until_ack_witness:
  "case respond example_env example_ok example_server of (r, s1) \<Rightarrow>
     r = Inr () \<and> ep_waiting_ack_cseq (snd s1) (example_dialog, 7) = Some example_key
     \<and> (case on_received_request example_env example_ack None s1 of (m, s2) \<Rightarrow>
          is_terminated (fst s2) \<and> retired example_key (Response example_ok) (snd s2)
          \<and> ep_waiting_ack_cseq (snd s2) (example_dialog, 7) = None)"
proof -
  have f: "tx_type (fst example_server) = ServerInvite \<and> tx_state (fst example_server) = Trying
      \<and> tx_connection (fst example_server) = Some example_conn \<and> \<not> tx_is_cleaned_up (fst example_server)
      \<and> tx_key (fst example_server) = example_key \<and> tx_channel (fst example_server) \<notin> ep_closed (snd example_server)"
    by code_simp
  then have a: "answering example_conn example_server" by (simp add: answering_def)
  have d: "dialog_id_of_response example_ok ServerRole = Inr example_dialog" by code_simp
  have ok: "status_code_kind (resp_status example_ok) = Successful"
    by (simp add: example_ok_def status_code_kind_def code_kind_def)
  have seq: "cseq_seq_of (req_headers (tx_original (fst example_server))) = Some 7" "req_method example_ack = Ack"
      "cseq_seq_of (req_headers example_ack) = Some 7"
    by (code_simp+)
  from server_2xx_until_ack [OF a example_plain ok d seq, of None] f show ?thesis
    by (simp add: case_prod_beta)
qed

section \<open>The client's failure and its ACK\<close>

definition calling :: "st \<Rightarrow> bool" where
  "calling s \<longleftrightarrow> tx_type (fst s) = ClientInvite \<and> early (tx_state (fst s)) \<and> \<not> tx_is_cleaned_up (fst s) \<and> tx_last_ack (fst s) = None"

definition is_failure :: "response \<Rightarrow> bool" where
  "is_failure resp \<longleftrightarrow> status_code_kind (resp_status resp) \<noteq> Provisional \<and> status_code_kind (resp_status resp) \<noteq> Successful"

lemma is_failure_stamped [simp]: "is_failure (stamp_destination t resp) = is_failure resp"
  by (simp add: is_failure_def stamp_destination_def)

lemma fst_enter_completed_client:
  assumes "tx_type (fst s) \<noteq> ServerInvite"
  shows "\<exists>i q. enter_completed s = (Inr (), ((fst s)\<lparr>tx_timer_a := None, tx_timer_b := None, tx_timer_c := None, tx_timer_d := i\<rparr>,
      (snd s)\<lparr>ep_timers := q\<rparr>))"
  using assms
  by (simp add: enter_completed_def Let_def start_timer_def ep_timeout_eq take_timer_a_def take_timer_b_def take_timer_c_def
      take_timer_def ep_cancel_eq) blast

lemma failure_completes:
  assumes c: "calling s" and f: "is_failure resp"
  shows "\<exists>i q. on_received_response env resp connection s =
     (Some (Response (stamp_destination (fst s) resp)),
      snd (send_ack env connection ((fst s)\<lparr>tx_last_response := Some (stamp_destination (fst s) resp), tx_timer_a := None,
        tx_timer_b := None, tx_timer_c := None, tx_timer_d := i, tx_state := Completed\<rparr>, (snd s)\<lparr>ep_timers := q\<rparr>)))"
proof -
  obtain t e where s: "s = (t, e)" by (cases s)
  let ?r = "stamp_destination t resp"
  let ?s1 = "(t\<lparr>tx_last_response := Some ?r\<rparr>, e)"
  have f': "is_failure ?r" using f by simp
  have ty: "tx_type t = ClientInvite" "early (tx_state t)" using c by (simp_all add: s calling_def)
  obtain i q where e: "enter_completed ?s1 = (Inr (), ((fst ?s1)\<lparr>tx_timer_a := None, tx_timer_b := None, tx_timer_c := None, tx_timer_d := i\<rparr>,
      (snd ?s1)\<lparr>ep_timers := q\<rparr>))"
    using fst_enter_completed_client [of ?s1] ty by auto
  have target: "client_response_state b ClientInvite ?r = Completed" for b
    using f' by (auto simp: client_response_state_def is_failure_def split: status_code_kind.splits)
  have can: "can_transition Completed t = Inr ()" "tx_state t \<noteq> Completed" using ty(2) by (auto simp: can_transition_def early_def)
  have "try_transition env Completed ?s1 = ((t\<lparr>tx_last_response := Some ?r, tx_timer_a := None, tx_timer_b := None,
      tx_timer_c := None, tx_timer_d := i, tx_state := Completed\<rparr>), e\<lparr>ep_timers := q\<rparr>)"
    using can e by (simp add: try_transition_def transition_def enter_state_def set_state_def)
  moreover have "status_code_kind (resp_status ?r) \<noteq> Successful" using f' by (simp add: is_failure_def)
  ultimately have "on_received_response env resp connection s = (Some (Response ?r),
      snd (send_ack env connection ((t\<lparr>tx_last_response := Some ?r, tx_timer_a := None, tx_timer_b := None,
        tx_timer_c := None, tx_timer_d := i, tx_state := Completed\<rparr>), e\<lparr>ep_timers := q\<rparr>)))"
    using ty can by (simp add: s on_received_response_def Let_def is_server_def target is_duplicate_def set_last_response_def)
  then show ?thesis by (auto simp: s)
qed

lemma send_ack_terminates:
  assumes t: "tx_type t = ClientInvite" "tx_state t = Completed" "tx_last_ack t = None" "\<not> tx_is_cleaned_up t"
    and last: "tx_last_response t = Some resp" and f: "is_failure resp" and env: "plain_env env c"
    and ack: "make_ack (ep_user_agent e) (env_branch env) (tx_original t) resp = Inr ack"
  shows "case send_ack env (Some c) (t, e) of (r, s') \<Rightarrow> r = Inr () \<and> is_terminated (fst s') \<and> no_timers (fst s')
    \<and> ep_sent (snd s') = ep_sent e @ [(c, Request ack, tx_destination t)] \<and> retired (tx_key t) (Request ack) (snd s')"
proof -
  have n2: "\<not> last_is_2xx u" if "tx_last_response u = Some resp" for u
    using that f by (simp add: last_is_2xx_def is_failure_def)
  let ?t = "t\<lparr>tx_sent_ack := Some ack, tx_last_ack := Some ack\<rparr>"
  let ?e = "e\<lparr>ep_sent := ep_sent e @ [(c, Request ack, tx_destination t)]\<rparr>"
  have s: "send_ack env (Some c) (t, e) = do_transition env Terminated (?t, ?e)"
    using t last ack n2 [OF last]
    by (simp add: send_ack_def Let_def ack_request_def and_then_def ok_or_def arm_ack_body_def ack_connection_def
        plain_before [OF env] plain_send [OF env])
  let ?u = "?t\<lparr>tx_is_cleaned_up := True\<rparr>"
  obtain v e' where v: "cleanup_timer (?u, ?e) = (v, e')" by (rule prod.exhaust)
  obtain q where q: "e' = ?e\<lparr>ep_timers := q\<rparr>" using snd_cleanup_timer [of "(?u, ?e)"] v by auto
  have u: "v = ?u\<lparr>tx_timer_a := None, tx_timer_b := None, tx_timer_c := None, tx_timer_d := None,
     tx_timer_k := None, tx_timer_g := None, tx_timer_l := None, tx_timer_m := None\<rparr>"
    using fst_cleanup_timer [of "(?u, ?e)"] v by simp
  obtain wa wc where w: "forget_own_ack (v, e') = e'\<lparr>ep_waiting_ack_cseq := wc, ep_waiting_ack := wa\<rparr>"
    by (rule that [of "ep_waiting_ack (forget_own_ack (v, e'))" "ep_waiting_ack_cseq (forget_own_ack (v, e'))"])
      (simp add: forget_own_ack_def snd_forget_waiting_ack split: option.splits sum.splits)
  have "cleanup env (?t, ?e) = (v\<lparr>tx_last_ack := None\<rparr>, detach_transaction (tx_key t) (Some (Request ack)) (forget_own_ack (v, e')))"
    using t by (simp add: cleanup_def Let_def v) (simp add: u last_message_def)
  with w have "cleanup env (?t, ?e) = (v\<lparr>tx_last_ack := None\<rparr>, detach_transaction (tx_key t) (Some (Request ack))
      (e'\<lparr>ep_waiting_ack_cseq := wc, ep_waiting_ack := wa\<rparr>))" by simp
  then show ?thesis
    unfolding s do_transition_def transition_def enter_state_def enter_terminated_def using t
    by (simp add: q u snd_detach_transaction tx_send_def channel_send_def set_state_def is_terminated_def no_timers_def
        retired_def and_then_def)
qed

text \<open>C14: a client INVITE transaction that receives a final failure hands it to the
  transaction user, writes the ACK for it over the connection it came from, and is finished: no timer is
  left and the ACK stays cached to answer retransmissions of the failure.\<close>

theorem client_failure_acked:
  assumes "calling s" and "is_failure resp" and "plain_env env c"
    and "make_ack (ep_user_agent (snd s)) (env_branch env) (tx_original (fst s)) (stamp_destination (fst s) resp) = Inr ack"
  shows "case on_received_response env resp (Some c) s of (m, s') \<Rightarrow>
      m = Some (Response (stamp_destination (fst s) resp)) \<and> is_terminated (fst s') \<and> no_timers (fst s')
      \<and> ep_sent (snd s') = ep_sent (snd s) @ [(c, Request ack, tx_destination (fst s))]
      \<and> retired (tx_key (fst s)) (Request ack) (snd s')"
proof -
  let ?r = "stamp_destination (fst s) resp"
  obtain i q where r: "on_received_response env resp (Some c) s =
     (Some (Response ?r), snd (send_ack env (Some c) ((fst s)\<lparr>tx_last_response := Some ?r, tx_timer_a := None,
        tx_timer_b := None, tx_timer_c := None, tx_timer_d := i, tx_state := Completed\<rparr>, (snd s)\<lparr>ep_timers := q\<rparr>)))"
    using failure_completes [OF assms(1,2), of env "Some c"] by auto
  let ?t = "(fst s)\<lparr>tx_last_response := Some ?r, tx_timer_a := None, tx_timer_b := None, tx_timer_c := None,
      tx_timer_d := i, tx_state := Completed\<rparr>"
  have "is_failure ?r" "tx_type ?t = ClientInvite" "tx_last_ack ?t = None" "\<not> tx_is_cleaned_up ?t"
    using assms(1,2) by (simp_all add: calling_def)
  from send_ack_terminates [OF this(2) _ this(3,4) _ this(1) assms(3), of "(snd s)\<lparr>ep_timers := q\<rparr>"] assms(4)
  show ?thesis by (simp add: r split: prod.splits)
qed

lemma client_failure_acked_witness:
  "case on_received_response example_env (make_response ''uas'' example_invite SC_BusyHere None) (Some example_conn)
      (perform example_env Send example_client) of (m, s') \<Rightarrow>
    is_terminated (fst s') \<and> no_timers (fst s') \<and> ep_transactions (snd s') example_key = None"
proof -
  let ?s = "perform example_env Send example_client" and ?r = "make_response ''uas'' example_invite SC_BusyHere None"
  have f: "tx_type (fst ?s) = ClientInvite \<and> tx_state (fst ?s) = Calling \<and> \<not> tx_is_cleaned_up (fst ?s)
      \<and> tx_last_ack (fst ?s) = None \<and> tx_key (fst ?s) = example_key" by code_simp
  then have c: "calling ?s" by (simp add: calling_def early_def)
  have r: "is_failure ?r" by code_simp
  have "case make_ack (ep_user_agent (snd ?s)) (env_branch example_env) (tx_original (fst ?s)) (stamp_destination (fst ?s) ?r) of
      Inr _ \<Rightarrow> True | Inl _ \<Rightarrow> False" by code_simp
  then obtain ack where "make_ack (ep_user_agent (snd ?s)) (env_branch example_env) (tx_original (fst ?s))
      (stamp_destination (fst ?s) ?r) = Inr ack" by (auto split: sum.splits)
  from client_failure_acked [OF c r example_plain [of example_conn] this] f show ?thesis
    by (simp add: retired_def case_prod_beta)
qed

section \<open>Timeouts\<close>

text \<open>The timers that give up on a request, by the state they are awaited in.\<close>

definition gives_up :: "transaction \<Rightarrow> tx_timer \<Rightarrow> bool" where
  "gives_up t v \<longleftrightarrow>
     (case tx_state t of
        Calling \<Rightarrow> v = TimerB (tx_key t)
      | Trying \<Rightarrow> v = TimerB (tx_key t)
      | Proceeding \<Rightarrow> v = TimerC (tx_key t) \<or> (tx_type t = ClientNonInvite \<and> v = TimerB (tx_key t))
      | _ \<Rightarrow> False)"

lemma synthetic_fields:
  "resp_status (synthetic_response status s) = status" "resp_received_from (synthetic_response status s) = None"
  by (simp_all add: synthetic_response_def ep_make_response_def make_response_def Let_def)

lemma noninvite_failure_terminates:
  assumes "tx_type (fst s) = ClientNonInvite" "early (tx_state (fst s))" "\<not> tx_is_cleaned_up (fst s)" "is_failure resp"
  shows "case on_received_response env resp connection s of (m, s') \<Rightarrow>
    m = Some (Response (stamp_destination (fst s) resp)) \<and> is_terminated (fst s')"
proof -
  let ?r = "stamp_destination (fst s) resp"
  have "is_failure ?r" using assms(4) by simp
  then have target: "client_response_state b ClientNonInvite ?r = Terminated" for b
    by (auto simp: client_response_state_def is_failure_def split: status_code_kind.splits)
  have can: "can_transition Terminated (fst s) = Inr ()" "tx_state (fst s) \<noteq> Terminated"
    using assms(2) by (auto simp: can_transition_def early_def)
  then have "is_terminated (fst (try_transition env Terminated (set_last_response ?r s)))"
    by (simp add: try_transition_def transition_def enter_state_def set_state_def is_terminated_def set_last_response_def)
  then show ?thesis
    using assms(1) can by (simp add: on_received_response_def Let_def is_server_def target is_duplicate_def)
qed

text \<open>When the timer that gives up on a client request fires while the request is
  unanswered, a 408 is put into the transaction's own channel; when the receive loop takes it, it is
  handed to the transaction user like a response from the wire and the wait is over: a non-INVITE is
  Terminated, an INVITE at least Completed.\<close>

theorem timeout_reported:
  assumes "is_client (tx_type t)" and "early (tx_state t)" and "\<not> tx_is_cleaned_up t" and "tx_last_ack t = None"
    and "gives_up t v" and "env_inspector env = None" and "tx_channel t \<notin> ep_closed e"
  shows "case on_timer env v (t, e) of (r, s1) \<Rightarrow> r = Inr () \<and> fst s1 = t
    \<and> ep_queues (snd s1) (tx_channel t) = ep_queues e (tx_channel t) @ [Received (Response (synthetic_response SC_RequestTimeout (t, e))) None]
    \<and> (case handle_event env (Received (Response (synthetic_response SC_RequestTimeout (t, e))) None) s1 of (d, s2) \<Rightarrow>
         d = Deliver (Response (synthetic_response SC_RequestTimeout (t, e)))
         \<and> (if tx_type t = ClientInvite then tx_state (fst s2) \<in> {Completed, Terminated} else tx_state (fst s2) = Terminated))"
proof -
  let ?r = "synthetic_response SC_RequestTimeout (t, e)"
  have fail: "is_failure ?r" by (simp add: is_failure_def synthetic_fields status_code_kind_def code_kind_def)
  have same: "stamp_destination t ?r = ?r" by (simp add: stamp_destination_def synthetic_fields)
  obtain e1 where e1: "channel_send (tx_channel t) (Received (Response ?r) None) e = (True, e1)"
    "ep_queues e1 (tx_channel t) = ep_queues e (tx_channel t) @ [Received (Response ?r) None]"
    using assms(7) by (simp add: channel_send_def)
  have fired: "on_timer env v (t, e) = (Inr (), (t, e1))"
    using assms(1,2,5,6) e1(1)
    by (auto simp: on_timer_def Let_def gives_up_def early_def on_request_timeout_def inform_tu_response_def tx_send_def
        after_received_def)
  obtain m s2 where m: "on_received_response env ?r None (t, e1) = (m, s2)" by (rule prod.exhaust)
  have "m = Some (Response ?r) \<and> (if tx_type t = ClientInvite then tx_state (fst s2) \<in> {Completed, Terminated} else tx_state (fst s2) = Terminated)"
  proof (cases "tx_type t = ClientInvite")
    case True
    then have c: "calling (t, e1)" using assms(2-4) by (simp add: calling_def)
    obtain i q where "on_received_response env ?r None (t, e1) = (Some (Response ?r),
      snd (send_ack env None (t\<lparr>tx_last_response := Some ?r, tx_timer_a := None,
        tx_timer_b := None, tx_timer_c := None, tx_timer_d := i, tx_state := Completed\<rparr>, e1\<lparr>ep_timers := q\<rparr>)))"
      using failure_completes [OF c fail, of env None] by (auto simp: same)
    then show ?thesis using m True state_send_ack [of env None "(t\<lparr>tx_last_response := Some ?r, tx_timer_a := None,
        tx_timer_b := None, tx_timer_c := None, tx_timer_d := i, tx_state := Completed\<rparr>, e1\<lparr>ep_timers := q\<rparr>)"] by auto
  next
    case False
    then have "tx_type (fst (t, e1)) = ClientNonInvite" using assms(1) by (auto simp: is_client_def)
    from noninvite_failure_terminates [OF this _ _ fail, of env None] assms(2,3) m False show ?thesis
      by (simp add: same is_terminated_def)
  qed
  then show ?thesis by (auto simp: fired e1(2) handle_event_def m)
qed

lemma timeout_reported_witness:
  "case perform example_env Send example_client of (t, e) \<Rightarrow>
     (case on_timer example_env (TimerB example_key) (t, e) of (r, s1) \<Rightarrow> r = Inr () \<and> fst s1 = t)"
proof -
  obtain t e where s: "perform example_env Send example_client = (t, e)" by (rule prod.exhaust)
  have f: "tx_type (fst (perform example_env Send example_client)) = ClientInvite
      \<and> tx_state (fst (perform example_env Send example_client)) = Calling
      \<and> \<not> tx_is_cleaned_up (fst (perform example_env Send example_client))
      \<and> tx_last_ack (fst (perform example_env Send example_client)) = None
      \<and> tx_key (fst (perform example_env Send example_client)) = example_key
      \<and> tx_channel (fst (perform example_env Send example_client)) \<notin> ep_closed (snd (perform example_env Send example_client))"
    by code_simp
  have "env_inspector example_env = None" by (simp add: example_env_def)
  moreover have "is_client (tx_type t)" "early (tx_state t)" "\<not> tx_is_cleaned_up t" "tx_last_ack t = None"
    "gives_up t (TimerB example_key)" "tx_channel t \<notin> ep_closed e"
    using f unfolding s by (simp_all add: is_client_def early_def gives_up_def)
  ultimately show ?thesis
    using timeout_reported [of t "TimerB example_key" example_env e] unfolding s by (simp add: case_prod_beta)
qed

section \<open>ACKs that are not the transaction's\<close>

text \<open>An ACK whose CSeq number is not the one of the INVITE does not touch a
  transaction that waits for its ACK and is not shown to the transaction user; neither is any other
  request but CANCEL.\<close>

theorem foreign_ack_ignored:
  assumes "tx_type (fst s) = ServerInvite" and "tx_state (fst s) \<in> {Accepted, Completed, Confirmed}"
    and "tx_connection (fst s) \<noteq> None" and "req_method req \<noteq> Cancel"
    and "req_method req \<noteq> Ack \<or> cseq_seq_of (req_headers req) \<noteq> cseq_seq_of (req_headers (tx_original (fst s)))"
  shows "on_received_request env req connection s = (None, s)"
  using assms by (auto simp: on_received_request_def Let_def is_client_def adopt_connection_def)

lemma foreign_ack_ignored_witness:
  "on_received_request example_env (example_ack\<lparr>req_headers := unique_push (H_CSeq ''6 ACK'') (req_headers example_ack)\<rparr>) None
     (perform example_env (RespondWith example_ok) example_server)
   = (None, perform example_env (RespondWith example_ok) example_server)"
proof (rule foreign_ack_ignored)
  show "tx_type (fst (perform example_env (RespondWith example_ok) example_server)) = ServerInvite"
    "tx_state (fst (perform example_env (RespondWith example_ok) example_server)) \<in> {Accepted, Completed, Confirmed}"
    by (code_simp+)
  show "tx_connection (fst (perform example_env (RespondWith example_ok) example_server)) \<noteq> None" by code_simp
  show "req_method (example_ack\<lparr>req_headers := unique_push (H_CSeq ''6 ACK'') (req_headers example_ack)\<rparr>) \<noteq> Cancel"
    by (simp add: example_ack_def)
  have "cseq_seq_of (req_headers (example_ack\<lparr>req_headers := unique_push (H_CSeq ''6 ACK'') (req_headers example_ack)\<rparr>)) = Some 6
    \<and> cseq_seq_of (req_headers (tx_original (fst (perform example_env (RespondWith example_ok) example_server)))) = Some 7"
    by code_simp
  then show "req_method (example_ack\<lparr>req_headers := unique_push (H_CSeq ''6 ACK'') (req_headers example_ack)\<rparr>) \<noteq> Ack \<or>
    cseq_seq_of (req_headers (example_ack\<lparr>req_headers := unique_push (H_CSeq ''6 ACK'') (req_headers example_ack)\<rparr>)) \<noteq>
    cseq_seq_of (req_headers (tx_original (fst (perform example_env (RespondWith example_ok) example_server))))"
    by simp
qed

section \<open>A final response without To tag\<close>

text \<open>\<open>respond\<close> writes a 2xx before it derives the dialog from it. When the
  To header has no tag the write has happened and Timers L and G run, but the call fails, the state does
  not change and no ACK route is registered, so neither timer has an effect in the state it fires in.\<close>

theorem untagged_final_stuck:
  assumes "answering c s" and "plain_env env c" and "status_code_kind (resp_status resp) = Successful"
    and "dialog_id_of_response resp ServerRole = Inl err"
  shows "case respond env resp s of (r, s') \<Rightarrow> r = Inl err
    \<and> ep_sent (snd s') = ep_sent (snd s) @ [(c, Response resp, tx_destination (fst s))]
    \<and> tx_state (fst s') = tx_state (fst s) \<and> tx_timer_l (fst s') \<noteq> None \<and> tx_timer_g (fst s') \<noteq> None
    \<and> ep_waiting_ack (snd s') = ep_waiting_ack (snd s)
    \<and> on_timer env (TimerL (tx_key (fst s))) s' = (Inr (), s')
    \<and> on_timer env (TimerG (tx_key (fst s)) d) s' = (Inr (), s')"
proof -
  obtain t e where s: "s = (t, e)" by (cases s)
  have f: "tx_type t = ServerInvite" "tx_state t = Trying \<or> tx_state t = Proceeding" "tx_connection t = Some c"
    using assms(1) by (simp_all add: s answering_def)
  have target: "response_state ServerInvite resp = Accepted" using assms(3) by (simp add: response_state_def)
  have can: "can_transition Accepted t = Inr ()" using f(2) by (auto simp: can_transition_def)
  let ?s1 = "(t\<lparr>tx_last_response := Some resp\<rparr>, e\<lparr>ep_sent := ep_sent e @ [(c, Response resp, tx_destination t)]\<rparr>)"
  have r: "respond env resp s = do_transition env Accepted ?s1"
    using f can by (simp add: s respond_def Let_def target is_server_def plain_send [OF assms(2)] plain_before [OF assms(2)])
  show ?thesis
    unfolding r using f assms(4)
    by (auto simp: s do_transition_def transition_def enter_state_def enter_accepted_def Let_def start_timer_def ep_timeout_eq
        take_timer_a_def take_timer_b_def take_timer_c_def take_timer_def ep_cancel_eq and_then_def on_timer_def is_client_def)
qed

lemma untagged_final_stuck_witness:
  "tx_state (fst (snd (respond example_env (make_response ''uas'' example_invite SC_OK None) example_server))) = Trying"
proof -
  have f: "tx_type (fst example_server) = ServerInvite \<and> tx_state (fst example_server) = Trying
      \<and> tx_connection (fst example_server) = Some example_conn \<and> \<not> tx_is_cleaned_up (fst example_server)" by code_simp
  then have a: "answering example_conn example_server" by (simp add: answering_def)
  have ok: "status_code_kind (resp_status (make_response ''uas'' example_invite SC_OK None)) = Successful" by code_simp
  have "dialog_id_of_response (make_response ''uas'' example_invite SC_OK None) ServerRole = Inl (Error ''to tag not found'')"
    by code_simp
  from untagged_final_stuck [OF a example_plain ok this, of 500] f show ?thesis by (simp add: case_prod_beta)
qed

end
