(* ===== verification/Transaction_Receive.thy ===== *)
theory Transaction_Receive
  imports Transaction_Behaviour
begin

text \<open>
  The loop of \<open>Transaction::receive\<close>. A handler may put an event into the transaction's own channel (a
  synthetic response, the end of the loop); the loop still ends, because what a handler puts back
  weighs less than the event it took.
\<close>

section \<open>What the handlers put into the channel\<close>

fun cost :: "tx_event \<Rightarrow> nat" where
  "cost (Terminate _) = 1"
| "cost (Received _ _) = 2"
| "cost (Respond _) = 2"
| "cost (TimerFired _) = 3"

definition load :: "st \<Rightarrow> nat" where
  "load s = sum_list (map cost (ep_queues (snd s) (tx_channel (fst s))))"

definition adds :: "nat \<Rightarrow> st \<Rightarrow> st \<Rightarrow> bool" where
  "adds n s s' \<longleftrightarrow> tx_channel (fst s') = tx_channel (fst s) \<and> load s' \<le> load s + n"

lemma adds_trans: "adds n s u \<Longrightarrow> adds m u v \<Longrightarrow> n + m \<le> k \<Longrightarrow> adds k s v"
  by (auto simp: adds_def)

lemma adds_refl [simp]: "adds n s s"
  by (simp add: adds_def)

lemma adds_mono: "adds n s s' \<Longrightarrow> n \<le> m \<Longrightarrow> adds m s s'"
  by (auto simp: adds_def)

lemma adds_same: "tx_channel (fst s') = tx_channel (fst s) \<Longrightarrow> ep_queues (snd s') = ep_queues (snd s) \<Longrightarrow> adds n s s'"
  by (simp add: adds_def load_def)

lemma queues_timers [simp]:
  "ep_queues (snd (take_timer get upd s)) = ep_queues (snd s)" "ep_queues (snd (start_timer upd d v s)) = ep_queues (snd s)"
  "ep_queues (snd (take_timer_a s)) = ep_queues (snd s)" "ep_queues (snd (take_timer_b s)) = ep_queues (snd s)"
  "ep_queues (snd (take_timer_c s)) = ep_queues (snd s)" "ep_queues (snd (cleanup_timer s)) = ep_queues (snd s)"
  by (simp_all add: ep_frame cleanup_timer_def Let_def)

lemma queues_forget [simp]: "ep_queues (forget_own_ack s) = ep_queues (snd s)"
  by (simp add: forget_own_ack_def snd_forget_waiting_ack split: option.splits sum.splits)

lemma queues_detach [simp]: "ep_queues (detach_transaction k msg e) = ep_queues e"
  by (cases msg) (simp_all add: snd_detach_transaction, simp add: detach_transaction_def)

lemma queues_conn_send [simp]: "ep_queues (snd (conn_send env c msg dest e)) = ep_queues e"
  by (simp add: conn_send_def split: option.splits)

lemma adds_tx_send: "adds (cost ev) s (snd (tx_send ev s))"
  by (auto simp: adds_def load_def tx_send_def channel_send_def)

lemma queues_cleanup: "ep_queues (snd (cleanup env s)) = ep_queues (snd s)"
  by (simp add: cleanup_def Let_def split: prod.splits)

lemma channel_cleanup: "tx_channel (fst (cleanup env s)) = tx_channel (fst s)"
  using cleanup_frame(3) [of s env] by (cases "tx_is_cleaned_up (fst s)") (simp_all add: cleanup_cleaned same_identity_def)

lemma adds_terminated: "adds 1 s (enter_terminated env s)"
proof -
  have "adds 0 s (cleanup env s)" by (rule adds_same) (simp_all add: queues_cleanup channel_cleanup)
  then show ?thesis
    using adds_tx_send [of "Terminate (tx_key (fst s))" "cleanup env s"] adds_trans
    by (auto simp: enter_terminated_def intro: adds_trans)
qed

lemma queues_enter_accepted: "ep_queues (snd (snd (enter_accepted s))) = ep_queues (snd s)"
proof (cases "tx_type (fst s)")
  case ServerInvite
  then show ?thesis
  proof (cases "tx_last_response (fst s)")
    case (Some resp)
    with ServerInvite show ?thesis
      by (cases "dialog_id_of_response resp ServerRole") (simp_all add: enter_accepted_def Let_def tx_frame split: option.splits)
  qed (simp add: enter_accepted_def Let_def tx_frame)
qed (simp_all add: enter_accepted_def Let_def tx_frame)

lemma queues_enter_completed: "ep_queues (snd (snd (enter_completed s))) = ep_queues (snd s)"
proof (cases "tx_type (fst s) = ServerInvite \<and> tx_connection (fst s) \<noteq> None")
  case True
  then obtain c where c: "tx_connection (fst s) = Some c" by auto
  show ?thesis
  proof (cases "tx_last_response (fst s)")
    case None
    with True c show ?thesis by (cases "is_reliable c") (simp_all add: enter_completed_def Let_def tx_frame)
  next
    case (Some resp)
    with True c show ?thesis
      by (cases "is_reliable c"; cases "dialog_id_of_response resp ServerRole") (simp_all add: enter_completed_def Let_def tx_frame)
  qed
qed (auto simp: enter_completed_def Let_def tx_frame)

lemma queues_enter_state: "target \<noteq> Terminated \<Longrightarrow> ep_queues (snd (snd (enter_state env target s))) = ep_queues (snd s)"
  by (cases target)
    (simp_all add: enter_state_def enter_calling_def enter_provisional_def enter_confirmed_def Let_def queues_enter_accepted
      queues_enter_completed)

lemma adds_transition: "adds (if target = Terminated then 1 else 0) s (snd (transition env target s))"
proof (cases "tx_state (fst s) = target")
  case False
  obtain r u where e: "enter_state env target s = (r, u)" by (rule prod.exhaust)
  have u: "adds (if target = Terminated then 1 else 0) s u"
    using adds_terminated [of s env] queues_enter_state [of target env s] enter_state_identity [of s env target] e
    by (auto simp: enter_state_def same_identity_def intro: adds_same)
  have "adds 0 u (set_state target u)" by (rule adds_same) (simp_all add: set_state_def)
  then have "adds (if target = Terminated then 1 else 0) s (set_state target u)" using u adds_trans by fastforce
  then show ?thesis using u False e by (auto simp: transition_def split: sum.splits if_splits)
qed (simp add: transition_def)

lemma adds_do_transition: "adds 1 s (snd (do_transition env target s))" "adds 1 s (try_transition env target s)"
  "target \<noteq> Terminated \<Longrightarrow> adds 0 s (try_transition env target s)"
  using adds_transition [of target s env] adds_mono by (auto simp: fst_do_transition try_transition_def split: if_splits)

lemma adds_respond: "adds 1 s (snd (respond env resp s))"
proof -
  let ?t = "fst s" and ?target = "response_state (tx_type (fst s)) resp"
  show ?thesis
  proof (cases "is_server (tx_type ?t) \<and> can_transition ?target ?t = Inr () \<and> tx_connection ?t \<noteq> None")
    case False
    then show ?thesis by (auto simp: respond_def Let_def split: sum.splits option.splits)
  next
    case True
    then obtain c where c: "tx_connection ?t = Some c" by auto
    let ?msg = "before_send env (Response resp) (tx_destination ?t)"
    define t' where "t' = (case ?msg of Response r \<Rightarrow> ?t\<lparr>tx_last_response := Some r\<rparr> | Request _ \<Rightarrow> ?t)"
    obtain err e where e: "conn_send env c ?msg (tx_destination t') (snd s) = (err, e)" by (rule prod.exhaust)
    have "ep_queues e = ep_queues (snd s)"
      using queues_conn_send [of env c ?msg "tx_destination t'" "snd s"] unfolding e by simp
    then have a: "adds 0 s (t', e)"
      by (intro adds_same) (simp_all add: t'_def split: sip_message.splits)
    have "snd (respond env resp s) = (t', e) \<or> snd (respond env resp s) = snd (do_transition env ?target (t', e))"
      using True c e by (cases err) (simp_all add: respond_def Let_def t'_def)
    then show ?thesis
      using adds_mono [OF a, of 1] adds_trans [OF a adds_do_transition(1), of 1] by auto
  qed
qed

lemma adds_send_ack: "adds (if tx_state (fst s) = Completed then 1 else 0) s (snd (send_ack env connection s))"
proof (cases "tx_type (fst s) = ClientInvite \<and> (tx_state (fst s) = Completed \<or> tx_state (fst s) = Accepted)")
  case True
  show ?thesis
  proof (cases "ack_request env s")
    case (Inr ack)
    obtain t1 ack1 where 1: "arm_ack_body (fst s) ack = (t1, ack1)" by (rule prod.exhaust)
    obtain t2 c where 2: "ack_connection env ack1 connection t1 = (t2, c)" by (rule prod.exhaust)
    let ?msg = "before_send env (Request ack1) (tx_destination t2)"
    let ?t3 = "case ?msg of Request r \<Rightarrow> t2\<lparr>tx_sent_ack := Some r, tx_last_ack := Some r\<rparr> | Response _ \<Rightarrow> t2"
    let ?e = "case c of Some c \<Rightarrow> snd (conn_send env c ?msg (tx_destination ?t3) (snd s)) | None \<Rightarrow> snd s"
    have final: "snd (send_ack env connection s) =
        (if tx_state ?t3 = Completed then snd (do_transition env Terminated (?t3, ?e)) else (?t3, ?e))"
      using True Inr by (elim conjE disjE; simp add: send_ack_def Let_def 1 2)
    have "tx_channel (fst (arm_ack_body (fst s) ack)) = tx_channel (fst s)"
      "tx_channel (fst (ack_connection env ack1 connection t1)) = tx_channel t1"
      by (auto simp: arm_ack_body_def ack_connection_def Let_def split: option.splits sum.splits)
    then have t2: "tx_channel t2 = tx_channel (fst s)" "tx_state t2 = tx_state (fst s)"
      using 1 2 ack_state(1) [of "fst s" ack] ack_state(3) [of env ack1 connection t1] by simp_all
    have st: "tx_state ?t3 = tx_state (fst s)" using t2 by (simp split: sip_message.splits)
    have a: "adds 0 s (?t3, ?e)"
      using t2 by (intro adds_same) (simp_all split: sip_message.splits option.splits)
    show ?thesis
      unfolding final st using a adds_trans [OF a adds_do_transition(1)] by auto
  qed (use True in \<open>auto simp: send_ack_def Let_def\<close>)
qed (auto simp: send_ack_def Let_def)

lemma adds_on_received_request: "adds 1 s (snd (on_received_request env req connection s))"
proof -
  let ?s = "(adopt_connection connection (fst s), snd s)"
  have a: "adds 0 s ?s" by (rule adds_same) (simp_all add: adopt_connection_def)
  have b: "adds 0 ?s (answer_cancel env req status ?s)" for status
    by (rule adds_same) (simp_all add: fst_answer_cancel answer_cancel_def Let_def split: option.splits)
  have c: "adds 1 s (snd (respond env r ?s))" "adds 1 s (try_transition env target ?s)" "adds 1 s ?s"
    "adds 1 s (answer_cancel env req status ?s)" for r target status
    using adds_trans [OF a adds_respond] adds_trans [OF a adds_do_transition(2)] adds_mono [OF a] adds_trans [OF a b] by auto
  then show ?thesis
    by (auto simp: on_received_request_def Let_def split: tx_state.splits option.splits)
qed

lemma adds_forward_2xx: "adds 1 s (snd (forward_2xx env resp s))"
proof -
  have a: "adds 0 u (set_last_response resp u)" for u by (rule adds_same) (simp_all add: set_last_response_def)
  obtain r u where t: "transition env Accepted s = (r, u)" by (rule prod.exhaust)
  have "adds 0 s u" using adds_transition [of Accepted s env] t by simp
  then show ?thesis
    using adds_mono [OF a] adds_trans [OF _ a, of 0 s u 1] adds_mono [of 0 s u 1]
    by (auto simp: forward_2xx_def t split: sum.splits)
qed

lemma adds_on_received_response: "adds 1 s (snd (on_received_response env resp connection s))"
proof -
  let ?r = "stamp_destination (fst s) resp"
  let ?target = "client_response_state (opt_auto_ack_2xx (ep_option (snd s))) (tx_type (fst s)) ?r"
  let ?s = "try_transition env ?target (set_last_response ?r s)"
  have a: "adds 0 s (set_last_response ?r s)" by (rule adds_same) (simp_all add: set_last_response_def)
  have b: "adds 1 s ?s" using adds_trans [OF a adds_do_transition(2)] by simp
  have "adds 1 s (snd (send_ack env connection ?s))" if "?target = Completed \<or> ?target = Accepted"
  proof -
    have "adds 0 s ?s" using that adds_trans [OF a adds_do_transition(3)] by auto
    moreover have "adds 1 ?s (snd (send_ack env connection ?s))" using adds_send_ack [of ?s env connection] adds_mono by (auto split: if_splits)
    ultimately show ?thesis using adds_trans by fastforce
  qed
  then show ?thesis
    using b adds_forward_2xx [of s env ?r] by (auto simp: on_received_response_def Let_def split: sum.splits)
qed

lemma adds_inform: "adds 2 s (snd (inform_tu_response env resp s))"
proof -
  let ?ev = "Received (after_received env (Response resp) None) None"
  obtain b u where t: "tx_send ?ev s = (b, u)" by (rule prod.exhaust)
  then show ?thesis using adds_tx_send [of ?ev s] by (cases b) (simp_all add: inform_tu_response_def)
qed

lemma adds_stream_failure: "adds 2 s (snd (on_stream_send_failure env s))"
proof -
  obtain e where e: "(case tx_connection (fst s) of Some c \<Rightarrow> (snd s)\<lparr>ep_retired := ep_retired (snd s) @ [c]\<rparr> | None \<Rightarrow> snd s) = e" by simp
  have "adds 0 s (fst s, e)" by (rule adds_same) (simp_all add: e [symmetric] split: option.splits)
  then show ?thesis
    using adds_trans [OF _ adds_inform] by (simp add: on_stream_send_failure_def Let_def e)
qed

lemma adds_retransmit: "adds 0 s (snd (retransmit_last_response env k d s))"
proof -
  let ?t = "fst s"
  obtain err e where e: "(case (tx_last_response ?t, tx_connection ?t) of
      (Some r, Some c) \<Rightarrow> conn_send env c (before_send env (Response r) (tx_destination ?t)) (tx_destination ?t) (snd s)
    | _ \<Rightarrow> (None, snd s)) = (err, e)" by (rule prod.exhaust)
  have q: "ep_queues e = ep_queues (snd s)"
    using e by (auto simp: conn_send_def split: option.splits)
  have "adds 0 s (?t, e)" using q by (intro adds_same) simp_all
  moreover have "adds 0 s (start_timer upd d v (?t, e))" if "upd = tx_timer_g_update" for upd d v
    using q that by (intro adds_same) (simp_all add: fst_start_timer)
  ultimately show ?thesis
    by (cases err) (simp_all add: retransmit_last_response_def e [simplified] Let_def)
qed

lemma adds_on_timer_a: "adds 2 s (snd (on_timer_a env k d s))"
proof (cases "tx_retransmission (fst s)")
  case True
  let ?t = "reconnect env (fst s)"
  obtain written failed s1 where w: "write_request env (?t, snd s) = (written, failed, s1)" by (metis prod_cases3)
  have t: "tx_channel ?t = tx_channel (fst s)"
    by (auto simp: reconnect_def connect_def split: sum.splits)
  have q: "ep_queues (snd s1) = ep_queues (snd s)"
    using arg_cong [OF w, of "\<lambda>x. ep_queues (snd (snd (snd x)))"]
    by (auto simp: write_request_def Let_def conn_send_def split: option.splits prod.splits)
  obtain s2 where s2: "(if written then note_request_written s1 else s1) = s2" by simp
  have "fst s1 = ?t" using fst_write_request [of env "(?t, snd s)"] w by simp
  then have a: "adds 0 s s2"
    using q t s2 by (intro adds_same) (auto simp: note_request_written_def)
  have "adds 0 s2 (start_timer tx_timer_a_update d' v s2)" for d' v
    by (rule adds_same) (simp_all add: fst_start_timer)
  then have "adds 2 s (start_timer tx_timer_a_update d' v s2)" for d' v
    using adds_trans [OF a] by fastforce
  then show ?thesis
    using adds_trans [OF a adds_stream_failure [of s2 env]] True by (simp add: on_timer_a_def Let_def w s2)
qed (simp add: on_timer_a_def)

lemma adds_on_timer: "adds 2 s (snd (on_timer env timer s))"
  using adds_on_timer_a [of s env] adds_inform [of s env] adds_mono [OF adds_retransmit [of s env], of 2]
    adds_mono [OF adds_do_transition(1) [of s env Terminated], of 2]
  by (auto simp: on_timer_def on_request_timeout_def Let_def split: tx_state.splits tx_timer.splits)

lemma adds_handle_event: "adds (cost ev - 1) s (snd (handle_event env ev s))"
proof (cases ev)
  case (Received msg connection)
  then show ?thesis
    using adds_on_received_request adds_on_received_response by (cases msg) (simp_all add: snd_handle_event)
qed (use adds_respond adds_on_timer in \<open>simp_all add: snd_handle_event numeral_2_eq_2 [symmetric]\<close>)

section \<open>The loop\<close>

datatype outcome = Obtained sip_message | Loop_ended | Blocked

definition pop_event :: "tx_event list \<Rightarrow> st \<Rightarrow> st" where
  "pop_event evs s = (fst s, (snd s)\<lparr>ep_queues := (ep_queues (snd s))(tx_channel (fst s) := evs)\<rparr>)"

lemma load_popped:
  assumes "ep_queues (snd s) (tx_channel (fst s)) = ev # evs"
  shows "load (snd (handle_event env ev (pop_event evs s))) < load s"
proof -
  have "load s = cost ev + load (pop_event evs s)" using assms by (simp add: load_def pop_event_def)
  moreover have "load (snd (handle_event env ev (pop_event evs s))) \<le> load (pop_event evs s) + (cost ev - 1)"
    using adds_handle_event [of ev "pop_event evs s" env] by (simp add: adds_def)
  moreover have "0 < cost ev" by (cases ev) simp_all
  ultimately show ?thesis by simp
qed

function receive :: "env \<Rightarrow> st \<Rightarrow> outcome \<times> st" where
  "receive env s =
     (case ep_queues (snd s) (tx_channel (fst s)) of
        [] \<Rightarrow> (Blocked, s)
      | ev # evs \<Rightarrow>
          (case handle_event env ev (pop_event evs s) of
             (Deliver m, s') \<Rightarrow> (Obtained m, s')
           | (Ended, s') \<Rightarrow> (Loop_ended, s')
           | (Again, s') \<Rightarrow> receive env s'))"
  by pat_completeness auto

termination
proof (relation "measure (\<lambda>(env, s). load s)")
  fix env s ev evs x s'
  assume "ep_queues (snd s) (tx_channel (fst s)) = ev # evs" and "(x, s') = handle_event env ev (pop_event evs s)"
  then show "((env, s'), env, s) \<in> measure (\<lambda>(env, s). load s)"
    using load_popped [of s ev evs env] by (metis in_measure case_prod_conv snd_conv)
qed simp

declare receive.simps [simp del]

text \<open>The loop cut off after a number of events.\<close>

fun receive_within :: "env \<Rightarrow> nat \<Rightarrow> st \<Rightarrow> (outcome \<times> st) option" where
  "receive_within env 0 s = None"
| "receive_within env (Suc n) s =
     (case ep_queues (snd s) (tx_channel (fst s)) of
        [] \<Rightarrow> Some (Blocked, s)
      | ev # evs \<Rightarrow>
          (case handle_event env ev (pop_event evs s) of
             (Deliver m, s') \<Rightarrow> Some (Obtained m, s')
           | (Ended, s') \<Rightarrow> Some (Loop_ended, s')
           | (Again, s') \<Rightarrow> receive_within env n s'))"

lemma receive_within_load: "load s < n \<Longrightarrow> receive_within env n s = Some (receive env s)"
proof (induction env n s rule: receive_within.induct)
  case (2 env n s)
  show ?case
  proof (cases "ep_queues (snd s) (tx_channel (fst s))")
    case Nil
    then show ?thesis by (subst receive.simps) simp
  next
    case (Cons ev evs)
    obtain x s' where x: "handle_event env ev (pop_event evs s) = (x, s')" by (rule prod.exhaust)
    have "load s' < n" using load_popped [OF Cons, of env] 2(2) x by simp
    then have "x = Again \<Longrightarrow> receive_within env n s' = Some (receive env s')"
      using 2(1) [OF Cons x [symmetric]] by simp
    then show ?thesis using Cons x by (subst receive.simps) (simp split: received.splits)
  qed
qed simp

lemma receive_blocked: "fst (receive env s) = Blocked \<Longrightarrow> ep_queues (snd (snd (receive env s))) (tx_channel (fst (snd (receive env s)))) = []"
proof (induction env s rule: receive.induct)
  case (1 env s)
  show ?case
  proof (cases "ep_queues (snd s) (tx_channel (fst s))")
    case Nil
    then show ?thesis by (subst receive.simps, subst (2) receive.simps) simp
  next
    case (Cons ev evs)
    obtain x s' where x: "handle_event env ev (pop_event evs s) = (x, s')" by (rule prod.exhaust)
    have r: "receive env s = (case x of Deliver m \<Rightarrow> (Obtained m, s') | Ended \<Rightarrow> (Loop_ended, s') | Again \<Rightarrow> receive env s')"
      using Cons x by (subst receive.simps) simp
    show ?thesis
      using 1(1) [OF Cons x [symmetric]] 1(2) unfolding r by (auto split: received.splits)
  qed
qed

text \<open>C17: the receive loop always comes back: it handles at most as many events as the
  queued ones can give rise to (a timer at most two more, a message or a response to send at most one),
  and it waits for another event only when its channel is empty.\<close>

theorem receive_returns:
  "receive_within env (Suc (load s)) s = Some (receive env s)
   \<and> (fst (receive env s) = Blocked \<longrightarrow> ep_queues (snd (snd (receive env s))) (tx_channel (fst (snd (receive env s)))) = [])"
  using receive_within_load [of s "Suc (load s)" env] receive_blocked [of env s] by (simp del: receive_within.simps)

section \<open>The end of a transaction\<close>

text \<open>The timer that ends the wait of a transaction that has its final response.\<close>

definition lingers :: "transaction \<Rightarrow> tx_timer \<Rightarrow> bool" where
  "lingers t v \<longleftrightarrow>
     (tx_state t = Accepted \<and> tx_type t = ServerInvite \<and> v = TimerL (tx_key t))
     \<or> (tx_state t = Accepted \<and> tx_type t = ClientInvite \<and> v = TimerM (tx_key t))
     \<or> (tx_state t = Completed \<and> v = TimerD (tx_key t))
     \<or> (tx_state t = Confirmed \<and> v = TimerK (tx_key t))"

lemma closed_timers [simp]: "ep_closed (snd (cleanup_timer s)) = ep_closed (snd s)"
  using snd_cleanup_timer [of s] by auto

lemma closed_forget [simp]: "ep_closed (forget_own_ack s) = ep_closed (snd s)"
  by (simp add: forget_own_ack_def snd_forget_waiting_ack split: option.splits sum.splits)

lemma closed_detach [simp]: "ep_closed (detach_transaction k msg e) = ep_closed e"
  by (cases msg) (simp_all add: snd_detach_transaction, simp add: detach_transaction_def)

lemma closed_cleanup: "ep_closed (snd (cleanup env s)) = ep_closed (snd s)"
  by (simp add: cleanup_def Let_def split: prod.splits)

lemma lingering_timer: "lingers (fst s) v \<Longrightarrow> snd (on_timer env v s) = set_state Terminated (enter_terminated env s)"
  by (auto simp: lingers_def on_timer_def do_transition_def transition_def enter_state_def Let_def)

text \<open>C16: when the timer that bounds the stay in Accepted, Completed or Confirmed is all a
  reachable transaction has in its channel, its receive loop terminates the transaction, leaves no timer
  behind, and ends.\<close>

theorem linger_ends:
  assumes "tx_reachable s" and "lingers (fst s) v" and "ep_queues (snd s) (tx_channel (fst s)) = [TimerFired v]"
    and "tx_channel (fst s) \<notin> ep_closed (snd s)"
  shows "case receive env s of (r, s') \<Rightarrow> r = Loop_ended \<and> is_terminated (fst s') \<and> tx_is_cleaned_up (fst s') \<and> no_timers (fst s')"
proof -
  let ?s = "pop_event [] s"
  have l: "lingers (fst ?s) v" using assms(2) by (simp add: pop_event_def)
  have "tx_state (fst s) \<noteq> Terminated" using assms(2) by (auto simp: lingers_def)
  then have clean: "\<not> tx_is_cleaned_up (fst ?s)" using reachable_tx_inv [OF assms(1)] by (simp add: tx_inv_def pop_event_def)
  let ?u = "enter_terminated env ?s"
  have u: "no_timers (fst ?u)" "tx_is_cleaned_up (fst ?u)" "tx_channel (fst ?u) = tx_channel (fst s)"
    using enter_terminated_frame [OF clean] by (simp_all add: same_identity_def pop_event_def)
  have q: "ep_queues (snd ?u) (tx_channel (fst s)) = [Terminate (tx_key (fst s))]"
    using assms(4) channel_cleanup [of env ?s] queues_cleanup [of env ?s] closed_cleanup [of env ?s]
    by (simp add: enter_terminated_def tx_send_def channel_send_def pop_event_def)
  let ?v = "set_state Terminated ?u"
  have "receive env s = receive env ?v"
    using assms(3) lingering_timer [OF l, of env] by (subst receive.simps) (simp add: handle_event_def)
  also have "\<dots> = (Loop_ended, pop_event [] ?v)"
    using q u(3) by (subst receive.simps) (simp add: set_state_def handle_event_def)
  finally show ?thesis
    using u by (simp add: pop_event_def set_state_def is_terminated_def no_timers_def)
qed

lemma reachable_step: "tx_reachable s \<Longrightarrow> tx_step op s s' \<Longrightarrow> tx_reachable s'"
  by (erule tx_reachable.cases) (metis tx_run.step tx_reachable.client, metis tx_run.step tx_reachable.server)

definition queue_event :: "tx_event \<Rightarrow> st \<Rightarrow> st" where
  "queue_event ev s = (fst s, snd (channel_send (tx_channel (fst s)) ev (snd s)))"

lemma receive_returns_witness:
  "fst (receive example_env example_client) = Blocked
   \<and> ep_queues (snd (snd (receive example_env example_client))) (tx_channel (fst (snd (receive example_env example_client)))) = []"
proof -
  have "ep_queues (snd example_client) (tx_channel (fst example_client)) = []" by code_simp
  then have "fst (receive example_env example_client) = Blocked" by (subst receive.simps) simp
  then show ?thesis using receive_returns [of example_env example_client] by simp
qed

lemma linger_ends_witness:
  "fst (receive example_env (queue_event (TimerFired (TimerL example_key)) (perform example_env (RespondWith example_ok) example_server)))
   = Loop_ended"
proof -
  let ?u = "perform_all example_env [RespondWith example_ok] example_server"
  let ?s = "queue_event (TimerFired (TimerL example_key)) ?u"
  have "all_in_order example_env [RespondWith example_ok] example_server" by code_simp
  from reachable_performed(2) [OF this] have "tx_reachable ?u" .
  moreover have "tx_step Elsewhere ?u ?s" unfolding queue_event_def by (metis prod.collapse tx_step.elsewhere)
  ultimately have r: "tx_reachable ?s" by (rule reachable_step)
  have "tx_state (fst ?u) = Accepted \<and> tx_type (fst ?u) = ServerInvite \<and> tx_key (fst ?u) = example_key
      \<and> ep_queues (snd ?u) (tx_channel (fst ?u)) = [] \<and> tx_channel (fst ?u) \<notin> ep_closed (snd ?u)" by code_simp
  then have l: "lingers (fst ?s) (TimerL example_key)"
      "ep_queues (snd ?s) (tx_channel (fst ?s)) = [TimerFired (TimerL example_key)]" "tx_channel (fst ?s) \<notin> ep_closed (snd ?s)"
    by (simp_all add: queue_event_def lingers_def channel_send_def)
  show ?thesis using linger_ends [OF r l, of example_env] by (simp add: case_prod_beta)
qed

end
