(* ===== verification/Endpoint.thy ===== *)
theory Endpoint
  imports Transaction_Receive
begin

text \<open>
  The endpoint of \<open>transaction/endpoint.rs\<close>: what it does with a message from the transport layer, with a
  timer that fires, and the Via and Record-Route values it makes. Messages go to the transaction of
  their key, to a new server transaction, or are answered from what finished transactions left.
\<close>

section \<open>Received messages\<close>

definition get_destination_from_request :: "env \<Rightarrow> request \<Rightarrow> sip_addr option" where
  "get_destination_from_request env req =
     (case and_then (sip_try (via_header (req_headers req))) parse_target_from_via of
        Inl _ \<Rightarrow> None
      | Inr (t, h) \<Rightarrow>
          (let a = \<lparr>sa_type = Some t, sa_addr = h\<rparr> in
           case hwp_host h of Domain _ \<Rightarrow> ok (env_resolve env a) | IpAddr _ \<Rightarrow> Some a))"

text \<open>Where a reply to a request that belongs to no transaction goes.\<close>

definition stateless_destination :: "env \<Rightarrow> sip_connection \<Rightarrow> request \<Rightarrow> sip_addr option" where
  "stateless_destination env c req = (if is_reliable c then None else get_destination_from_request env req)"

definition send_result :: "error option \<times> endpoint \<Rightarrow> (error + unit) \<times> endpoint" where
  "send_result r = (case r of (Some err, e) \<Rightarrow> (Inl err, e) | (None, e) \<Rightarrow> (Inr (), e))"

text \<open>The ACK of a 2xx has a branch of its own; it is routed by dialog and CSeq number.\<close>

definition request_key :: "request \<Rightarrow> transaction_key \<Rightarrow> endpoint \<Rightarrow> transaction_key" where
  "request_key req k e =
     (if req_method req = Ack then
        (case dialog_id_of_request req ServerRole of
           Inr d \<Rightarrow>
             (case cseq_seq_of (req_headers req) of
                Some seq \<Rightarrow> unwrap_or (ep_waiting_ack_cseq e (d, seq)) k
              | None \<Rightarrow> k)
         | Inl _ \<Rightarrow> k)
      else k)"

definition cached_message :: "transaction_key \<Rightarrow> endpoint \<Rightarrow> sip_message option" where
  "cached_message k e = Option.bind (ep_finished e k) id"

definition answer_finished_request :: "env \<Rightarrow> request \<Rightarrow> transaction_key \<Rightarrow> sip_message \<Rightarrow> sip_connection \<Rightarrow> endpoint \<Rightarrow> (error + unit) \<times> endpoint" where
  "answer_finished_request env req k cached c e =
     (if req_method req = Ack then
        (Inr (), case dialog_id_of_request req ServerRole of Inr d \<Rightarrow> forget_waiting_ack d req k e | Inl _ \<Rightarrow> e)
      else send_result (conn_send env c cached (stateless_destination env c req) e))"

definition cached_ack_for :: "response \<Rightarrow> transaction_key \<Rightarrow> endpoint \<Rightarrow> sip_message option" where
  "cached_ack_for resp k e =
     (if status_code_kind (resp_status resp) = Successful \<and> has_multiple_vias (resp_headers resp) then None
      else cached_message k e)"

text \<open>The tag of the response goes into the To header of the cached ACK.\<close>

definition retag_ack :: "response \<Rightarrow> request \<Rightarrow> request" where
  "retag_ack resp ack =
     (case and_then (to_header (resp_headers resp)) to_tag of
        Inr (Some tag) \<Rightarrow>
          (case and_then (to_header (req_headers ack)) (to_mut_tag tag) of
             Inr v \<Rightarrow> ack\<lparr>req_headers := header_replace H_To v (req_headers ack)\<rparr>
           | Inl _ \<Rightarrow> ack)
      | _ \<Rightarrow> ack)"

definition ack_again :: "env \<Rightarrow> response \<Rightarrow> request \<Rightarrow> sip_connection \<Rightarrow> sip_addr \<Rightarrow> endpoint \<Rightarrow> (error + unit) \<times> endpoint" where
  "ack_again env resp ack c from_addr e =
     (let ack = retag_ack resp ack in
      if status_code_kind (resp_status resp) = RequestFailure then
        send_result (conn_send env c (Request ack) (Some from_addr) e)
      else
        (let addr = sip_addr_of_uri (request_destination ack);
             dest = (case hwp_host (sa_addr addr) of Domain _ \<Rightarrow> ok (env_resolve env addr) | IpAddr _ \<Rightarrow> Some addr)
         in send_result (conn_send env c (Request ack) dest e)))"

definition answer_finished_response :: "env \<Rightarrow> response \<Rightarrow> sip_message \<Rightarrow> sip_connection \<Rightarrow> sip_addr \<Rightarrow> endpoint \<Rightarrow> (error + unit) \<times> endpoint" where
  "answer_finished_response env resp cached c from_addr e =
     (case cached of
        Request ack \<Rightarrow>
          if req_method ack = Ack then
            (case status_code_kind (resp_status resp) of
               Provisional \<Rightarrow> (Inr (), e)
             | Successful \<Rightarrow>
                 (case sip_try (to_header (req_headers ack)) of
                    Inl err \<Rightarrow> (Inl err, e)
                  | Inr to \<Rightarrow> if ok (to_tag to) = None then (Inr (), e) else ack_again env resp ack c from_addr e)
             | _ \<Rightarrow> ack_again env resp ack c from_addr e)
          else (Inr (), e)
      | Response _ \<Rightarrow> (Inr (), e))"

definition stamp_source :: "sip_addr \<Rightarrow> sip_message \<Rightarrow> sip_message" where
  "stamp_source from_addr msg =
     (case msg of
        Response resp \<Rightarrow>
          Response (resp\<lparr>resp_received_from :=
            map_option (\<lambda>s. \<lparr>rf_source = s, rf_request_destination = None\<rparr>) (ok (get_socketaddr from_addr))\<rparr>)
      | Request req \<Rightarrow> Request req)"

text \<open>A message for which there is no transaction.\<close>

definition without_transaction :: "env \<Rightarrow> sip_message \<Rightarrow> transaction_key \<Rightarrow> sip_connection \<Rightarrow> endpoint \<Rightarrow> (error + unit) \<times> endpoint" where
  "without_transaction env msg k c e =
     (case msg of
        Response resp \<Rightarrow> (and_then (sip_try (and_then (cseq_header (resp_headers resp)) cseq_value_method)) (\<lambda>_. Inr ()), e)
      | Request req \<Rightarrow>
          if req_method req = Cancel then
            (let resp = before_send env (Response (ep_make_response e req SC_CallTransactionDoesNotExist None)) None
             in send_result (conn_send env c resp (stateless_destination env c req) e))
          else if req_method req = Ack then (Inr (), e)
          else (case new_server k req (Some c) e of (t, e) \<Rightarrow> (Inr (), e\<lparr>ep_incoming := ep_incoming e @ [t]\<rparr>)))"

definition dispatch :: "env \<Rightarrow> sip_message \<Rightarrow> transaction_key \<Rightarrow> sip_connection \<Rightarrow> sip_addr \<Rightarrow> endpoint \<Rightarrow> (error + unit) \<times> endpoint" where
  "dispatch env msg k c from_addr e =
     (let msg = stamp_source from_addr (after_received env msg (Some from_addr)) in
      case ep_transactions e k of
        Some ch \<Rightarrow>
          (case channel_send ch (Received msg (Some c)) e of
             (True, e) \<Rightarrow> (Inr (), e)
           | (False, e) \<Rightarrow> (Inl (TransactionError ''channel closed'' k), e))
      | None \<Rightarrow> without_transaction env msg k c e)"

definition on_received_message :: "env \<Rightarrow> sip_message \<Rightarrow> sip_connection \<Rightarrow> sip_addr \<Rightarrow> endpoint \<Rightarrow> (error + unit) \<times> endpoint" where
  "on_received_message env msg c from_addr e =
     (case msg of
        Request req \<Rightarrow>
          (case key_from_request req ServerRole of
             Inl err \<Rightarrow> (Inl err, e)
           | Inr k0 \<Rightarrow>
               (let k = request_key req k0 e in
                case cached_message k e of
                  Some cached \<Rightarrow> answer_finished_request env req k cached c e
                | None \<Rightarrow> dispatch env msg k c from_addr e))
      | Response resp \<Rightarrow>
          (case key_from_response resp ClientRole of
             Inl err \<Rightarrow> (Inl err, e)
           | Inr k \<Rightarrow>
               (case cached_ack_for resp k e of
                  Some cached \<Rightarrow> answer_finished_response env resp cached c from_addr e
                | None \<Rightarrow> dispatch env msg k c from_addr e)))"

section \<open>Timers\<close>

definition process_fired :: "tx_timer \<Rightarrow> endpoint \<Rightarrow> endpoint" where
  "process_fired v e =
     (case v of
        TimerCleanup k \<Rightarrow>
          e\<lparr>ep_transactions := (ep_transactions e)(k := None), ep_finished := (ep_finished e)(k := None),
            ep_waiting_ack := (\<lambda>d. if ep_waiting_ack e d = Some k then None else ep_waiting_ack e d),
            ep_waiting_ack_cseq := (\<lambda>r. if ep_waiting_ack_cseq e r = Some k then None else ep_waiting_ack_cseq e r)\<rparr>
      | _ \<Rightarrow>
          (case ep_transactions e (timer_key_of v) of
             Some ch \<Rightarrow>
               (case channel_send ch (TimerFired v) e of
                  (True, e) \<Rightarrow> e
                | (False, e) \<Rightarrow> detach_transaction (timer_key_of v) None e)
           | None \<Rightarrow> e))"

text \<open>One round of \<open>process_timer\<close> at the clock of the endpoint: the timers that are ready, in order.\<close>

definition process_timer_round :: "endpoint \<Rightarrow> endpoint" where
  "process_timer_round e =
     (case wait_for_ready_round (ep_now e) (ep_timers e) of
        (Ready vs, q) \<Rightarrow> fold process_fired vs (e\<lparr>ep_timers := q\<rparr>)
      | (_, q) \<Rightarrow> e\<lparr>ep_timers := q\<rparr>)"

section \<open>Via and Record-Route values\<close>

definition get_record_route_with_addr :: "sip_addr \<Rightarrow> name_addr" where
  "get_record_route_with_addr addr =
     (let u = uri_of_sip_addr addr in
      \<lparr>na_display = None, na_uri = u\<lparr>uri_params := uri_params u @ [P_Lr]\<rparr>, na_params = []\<rparr>)"

definition get_record_route :: "sip_addr list \<Rightarrow> error + name_addr" where
  "get_record_route addrs =
     (case addrs of
        a # _ \<Rightarrow> Inr (get_record_route_with_addr a)
      | [] \<Rightarrow> Inl (EndpointError ''not sipaddrs''))"

definition get_via :: "env \<Rightarrow> sip_addr list \<Rightarrow> sip_addr option \<Rightarrow> param option \<Rightarrow> error + typed_via" where
  "get_via env addrs addr branch =
     and_then (case addr of
         Some a \<Rightarrow> Inr a
       | None \<Rightarrow> (case addrs of a # _ \<Rightarrow> Inr a | [] \<Rightarrow> Inl (EndpointError ''not sipaddrs'')))
     (\<lambda>a. let t = unwrap_or (sa_type a) Udp;
              params = [unwrap_or branch (env_branch env), P_Rport None];
              params = (if t = Tcp \<or> t = Tls then params @ [P_Other ''alias'' None] else params)
          in Inr \<lparr>via_version = V2, via_transport = t, via_uri = uri_of_hwp (sa_addr a), via_params = params\<rparr>)"

end
