(* ===== verification/Endpoint_Props.thy ===== *)
theory Endpoint_Props
  imports Endpoint
begin

text \<open>
  What the endpoint does with packets over the life of a transaction: a new request makes one
  transaction, its copies go to that transaction while it runs and are answered from the cache when it
  is finished, ACKs find the transaction they acknowledge, and the cleanup timer forgets it all.
\<close>

section \<open>Routing\<close>

lemma plain_received: "env_inspector env = None \<Longrightarrow> after_received env msg src = msg"
  by (simp add: after_received_def)

lemma dispatch_request:
  assumes "env_inspector env = None" and "ep_transactions e k = Some ch" and "ch \<notin> ep_closed e"
  shows "dispatch env (Request req) k c src e
    = (Inr (), e\<lparr>ep_queues := (ep_queues e)(ch := ep_queues e ch @ [Received (Request req) (Some c)])\<rparr>)"
  using assms by (simp add: dispatch_def plain_received stamp_source_def channel_send_def)

lemma request_key_other: "req_method req \<noteq> Ack \<Longrightarrow> request_key req k e = k"
  by (simp add: request_key_def)

text \<open>C19: a request that belongs to nothing makes one server transaction, attached
  under its key and handed to the application; a copy of it goes into that transaction's channel and
  makes no second one.\<close>

theorem request_served_once:
  assumes "key_from_request req ServerRole = Inr k" and "req_method req \<notin> {Ack, Cancel}" and "env_inspector env = None"
    and "ep_transactions e k = None" and "cached_message k e = None" and "ep_next_channel e \<notin> ep_closed e"
  shows "\<exists>t e1. on_received_message env (Request req) c src e = (Inr (), e1)
    \<and> ep_incoming e1 = ep_incoming e @ [t] \<and> tx_key t = k \<and> tx_original t = req \<and> tx_state t = Trying
    \<and> is_server (tx_type t) \<and> ep_transactions e1 = (ep_transactions e)(k \<mapsto> tx_channel t)
    \<and> (case on_received_message env (Request req) c' src' e1 of (r, e2) \<Rightarrow>
         r = Inr () \<and> ep_incoming e2 = ep_incoming e1 \<and> ep_transactions e2 = ep_transactions e1
         \<and> ep_queues e2 (tx_channel t) = ep_queues e1 (tx_channel t) @ [Received (Request req) (Some c')])"
proof -
  obtain t e0 where new: "new_server k req (Some c) e = (t, e0)" by (rule prod.exhaust)
  have t: "tx_key t = k" "tx_original t = req" "tx_state t = Trying" "is_server (tx_type t)" "tx_channel t = ep_next_channel e"
    "ep_transactions e0 = (ep_transactions e)(k \<mapsto> ep_next_channel e)" "ep_incoming e0 = ep_incoming e"
    "ep_closed e0 = ep_closed e" "ep_finished e0 = ep_finished e" "ep_waiting_ack_cseq e0 = ep_waiting_ack_cseq e"
    using new assms(2)
    by (auto simp: new_server_def tx_new_def attach_transaction_def Let_def is_server_def split: sip_method.splits)
  let ?e1 = "e0\<lparr>ep_incoming := ep_incoming e0 @ [t]\<rparr>"
  have "on_received_message env (Request req) c src e = (Inr (), ?e1)"
    using assms new
    by (simp add: on_received_message_def request_key_other dispatch_def plain_received stamp_source_def without_transaction_def)
  moreover have "on_received_message env (Request req) c' src' ?e1 = dispatch env (Request req) k c' src' ?e1"
    using assms(1,2,5) t by (simp add: on_received_message_def request_key_other cached_message_def)
  moreover note dispatch_request [of env ?e1 k "tx_channel t" req c' src']
  ultimately show ?thesis using assms(3,6) t by (intro exI [of _ t] exI [of _ ?e1]) simp
qed

lemma request_served_once_witness:
  "\<exists>t e1. on_received_message example_env (Request example_invite) example_conn (conn_addr example_conn) example_endpoint = (Inr (), e1)
     \<and> ep_incoming e1 = [t] \<and> tx_key t = example_key"
proof -
  have f: "ep_transactions example_endpoint example_key = None" "cached_message example_key example_endpoint = None"
    "ep_next_channel example_endpoint \<notin> ep_closed example_endpoint" "ep_incoming example_endpoint = []"
    by (simp_all add: example_endpoint_def endpoint_new_def cached_message_def)
  have m: "req_method example_invite \<notin> {Ack, Cancel}" "env_inspector example_env = None"
    by (simp_all add: example_invite_def example_env_def)
  from request_served_once [OF example_invite_key m f(1-3), of example_conn "conn_addr example_conn" example_conn "conn_addr example_conn"] f(4)
  show ?thesis by auto
qed

text \<open>A copy of a request whose transaction is finished is answered with the message
  the transaction left; no transaction, route or timer changes, and nothing reaches the application.\<close>

theorem cached_answer:
  assumes "key_from_request req ServerRole = Inr k" and "req_method req \<noteq> Ack" and "retired k msg e"
    and "env_send_error env c msg (stateless_destination env c req) = None"
  shows "on_received_message env (Request req) c src e
    = (Inr (), e\<lparr>ep_sent := ep_sent e @ [(c, msg, stateless_destination env c req)]\<rparr>)"
  using assms
  by (simp add: on_received_message_def request_key_other cached_message_def retired_def answer_finished_request_def
      conn_send_def send_result_def)

lemma cached_answer_witness:
  "fst (on_received_message example_env (Request example_invite) example_conn (conn_addr example_conn)
     (detach_transaction example_key (Some (Response example_busy)) example_endpoint)) = Inr ()"
proof -
  have r: "retired example_key (Response example_busy) (detach_transaction example_key (Some (Response example_busy)) example_endpoint)"
    by (simp add: snd_detach_transaction retired_def)
  have "req_method example_invite \<noteq> Ack" by (simp add: example_invite_def)
  from cached_answer [OF example_invite_key this r, of example_env example_conn "conn_addr example_conn"]
  show ?thesis by (simp add: example_env_def)
qed

section \<open>The life of a server INVITE\<close>

lemma ack_delivered:
  assumes "key_from_request ack ServerRole = Inr k0" and "req_method ack = Ack"
    and "dialog_id_of_request ack ServerRole = Inr d" and "cseq_seq_of (req_headers ack) = Some seq"
    and "ep_waiting_ack_cseq e (d, seq) = Some k" and "cached_message k e = None"
    and "env_inspector env = None" and "ep_transactions e k = Some ch" and "ch \<notin> ep_closed e"
  shows "on_received_message env (Request ack) c src e
    = (Inr (), e\<lparr>ep_queues := (ep_queues e)(ch := ep_queues e ch @ [Received (Request ack) (Some c)])\<rparr>)"
  using assms by (simp add: on_received_message_def request_key_def dispatch_request)

text \<open>C13: a server INVITE transaction answers with a 2xx; the ACK, which is a request of
  its own with another branch, reaches it through the dialog and CSeq of the answer; its receive loop hands
  the ACK to the transaction user and the transaction is finished; a copy of the INVITE that arrives
  afterwards gets the same 2xx again and creates nothing.\<close>

theorem invite_2xx_life:
  assumes "answering c s" and "plain_env env c" and "key_from_request invite ServerRole = Inr (tx_key (fst s))" and "req_method invite = Invite"
    and "status_code_kind (resp_status resp) = Successful" and "dialog_id_of_response resp ServerRole = Inr d"
    and "cseq_seq_of (req_headers (tx_original (fst s))) = Some seq"
    and "key_from_request ack ServerRole = Inr k0" and "req_method ack = Ack"
    and "dialog_id_of_request ack ServerRole = Inr d" and "cseq_seq_of (req_headers ack) = Some seq"
    and "ep_transactions (snd s) (tx_key (fst s)) = Some (tx_channel (fst s))" and "tx_channel (fst s) \<notin> ep_closed (snd s)"
    and "ep_queues (snd s) (tx_channel (fst s)) = []" and "cached_message (tx_key (fst s)) (snd s) = None"
  shows "case respond env resp s of (_, t1, e1) \<Rightarrow>
    (case on_received_message env (Request ack) c' src e1 of (r2, e2) \<Rightarrow>
    (case receive env (t1, e2) of (r3, t3, e3) \<Rightarrow>
       r2 = Inr () \<and> r3 = Obtained (Request ack) \<and> is_terminated t3 \<and> no_timers t3
       \<and> on_received_message env (Request invite) c src e3
           = (Inr (), e3\<lparr>ep_sent := ep_sent e3 @ [(c, Response resp, stateless_destination env c invite)]\<rparr>)))"
proof -
  obtain r1 t1 e1 where r1: "respond env resp s = (r1, t1, e1)" by (metis prod_cases3)
  note 1 = respond_2xx [OF assms(1,2,5,6,7), unfolded r1 prod.case fst_conv snd_conv]
  let ?k = "tx_key (fst s)" and ?ch = "tx_channel (fst s)"
  let ?e2 = "e1\<lparr>ep_queues := (ep_queues e1)(?ch := [Received (Request ack) (Some c')])\<rparr>"
  have insp: "env_inspector env = None" using assms(2) by (simp add: plain_env_def)
  have r2: "on_received_message env (Request ack) c' src e1 = (Inr (), ?e2)"
    using ack_delivered [OF assms(8-11), of e1 ?k env ?ch c' src] 1 insp assms(12-15) by (simp add: cached_message_def)
  let ?s2 = "pop_event [] (t1, ?e2)"
  obtain m t3 e3 where r3: "on_received_request env ack (Some c') ?s2 = (m, t3, e3)" by (metis prod_cases3)
  have "m = Some (Request ack) \<and> is_terminated t3 \<and> no_timers t3 \<and> retired ?k (Response resp) e3"
    using ack_of_2xx [of ?s2 c resp ack seq d env "Some c'"] 1 assms(6,7,9,11,13) r3 by (simp add: pop_event_def)
  moreover from this have "receive env (t1, ?e2) = (Obtained (Request ack), t3, e3)"
    using 1 r3 by (subst receive.simps) (simp add: handle_event_def)
  moreover have "on_received_message env (Request invite) c src e3
      = (Inr (), e3\<lparr>ep_sent := ep_sent e3 @ [(c, Response resp, stateless_destination env c invite)]\<rparr>)"
    if "retired ?k (Response resp) e3"
    using assms(2,4) that by (simp add: on_received_message_def request_key_other cached_message_def retired_def
        answer_finished_request_def conn_send_def send_result_def plain_env_def assms(3))
  ultimately show ?thesis by (simp add: r1 r2)
qed

definition example_2xx_ack :: request where
  "example_2xx_ack = \<lparr>req_method = Ack, req_uri = uri_of_hwp \<lparr>hwp_host = Domain ''b.example'', hwp_port = None\<rparr>, req_version = V2,
      req_headers = [H_Via ''SIP/2.0/UDP a.example:5060;branch=z9hG4bK900'', H_From ''<sip:alice@a.example>;tag=88'',
        H_To ''<sip:bob@b.example>;tag=99'', H_CallId ''call1@a.example'', H_CSeq ''7 ACK''],
      req_body = []\<rparr>"

lemma invite_2xx_life_witness:
  "case respond example_env example_ok example_server of (_, t1, e1) \<Rightarrow>
     fst (on_received_message example_env (Request example_2xx_ack) example_conn (conn_addr example_conn) e1) = Inr ()"
proof -
  have f: "tx_type (fst example_server) = ServerInvite \<and> tx_state (fst example_server) = Trying
      \<and> tx_connection (fst example_server) = Some example_conn \<and> \<not> tx_is_cleaned_up (fst example_server)
      \<and> tx_key (fst example_server) = example_key \<and> tx_channel (fst example_server) \<notin> ep_closed (snd example_server)
      \<and> ep_transactions (snd example_server) example_key = Some (tx_channel (fst example_server))
      \<and> ep_queues (snd example_server) (tx_channel (fst example_server)) = []
      \<and> cached_message example_key (snd example_server) = None"
    by code_simp
  then have a: "answering example_conn example_server" by (simp add: answering_def)
  have inv: "key_from_request example_invite ServerRole = Inr (tx_key (fst example_server))" using f example_invite_key by simp
  have m: "req_method example_invite = Invite" by (simp add: example_invite_def)
  have ok: "status_code_kind (resp_status example_ok) = Successful"
    by (simp add: example_ok_def status_code_kind_def code_kind_def)
  have d: "dialog_id_of_response example_ok ServerRole = Inr example_dialog" by code_simp
  have seq: "cseq_seq_of (req_headers (tx_original (fst example_server))) = Some 7" by code_simp
  have k: "key_from_request example_2xx_ack ServerRole = Inr ''s.INVITE_7_call1@a.example_88_z9hG4bK900''" by code_simp
  have ack: "req_method example_2xx_ack = Ack" by (simp add: example_2xx_ack_def)
  have ad: "dialog_id_of_request example_2xx_ack ServerRole = Inr example_dialog" by code_simp
  have as: "cseq_seq_of (req_headers example_2xx_ack) = Some 7" by code_simp
  from invite_2xx_life [OF a example_plain inv m ok d seq k ack ad as, where src = "conn_addr example_conn" and c' = example_conn] f
  show ?thesis by (simp add: case_prod_beta)
qed

section \<open>Requests without a transaction\<close>

text \<open>A CANCEL for which there is no transaction is answered with 481 at once, and a
  stray ACK is dropped; neither makes a transaction.\<close>

theorem stray_cancel_481:
  assumes "key_from_request req ServerRole = Inr k" and "plain_env env c" and "ep_transactions e (request_key req k e) = None"
    and "cached_message (request_key req k e) e = None" and "req_method req \<in> {Cancel, Ack}"
  shows "on_received_message env (Request req) c src e
    = (Inr (), if req_method req = Ack then e
        else e\<lparr>ep_sent := ep_sent e @ [(c, Response (ep_make_response e req SC_CallTransactionDoesNotExist None),
                stateless_destination env c req)]\<rparr>)"
  using assms
  by (auto simp: on_received_message_def dispatch_def plain_received plain_env_def stamp_source_def without_transaction_def
      before_send_def conn_send_def send_result_def Let_def)

lemma stray_cancel_481_witness:
  "length (ep_sent (snd (on_received_message example_env (Request (example_invite\<lparr>req_method := Cancel\<rparr>)) example_conn
      (conn_addr example_conn) example_endpoint))) = 1"
proof -
  let ?c = "example_invite\<lparr>req_method := Cancel\<rparr>"
  have "case key_from_request ?c ServerRole of Inr _ \<Rightarrow> True | Inl _ \<Rightarrow> False" by code_simp
  then obtain k where k: "key_from_request ?c ServerRole = Inr k" by (auto split: sum.splits)
  have f: "ep_transactions example_endpoint k' = None" "cached_message k' example_endpoint = None" "ep_sent example_endpoint = []" for k'
    by (simp_all add: example_endpoint_def endpoint_new_def cached_message_def)
  have "req_method ?c \<in> {Cancel, Ack}" by simp
  from stray_cancel_481 [OF k example_plain f(1,2) this, of example_conn "conn_addr example_conn"] f(3) show ?thesis by simp
qed

section \<open>Timers\<close>

lemma ran_without: "ran (\<lambda>x. if f x = Some k then None else f x) = ran f - {k}"
proof (intro set_eqI iffI)
  fix y
  assume "y \<in> ran f - {k}"
  then obtain x where "f x = Some y" "y \<noteq> k" by (auto simp: ran_def)
  then have "(\<lambda>x. if f x = Some k then None else f x) x = Some y" by simp
  then show "y \<in> ran (\<lambda>x. if f x = Some k then None else f x)" by (rule ranI)
qed (auto simp: ran_def split: if_splits)

text \<open>The cleanup timer of a key removes its channel, its cached message and every
  ACK route to it, and nothing of any other key.\<close>

theorem cleanup_forgets:
  "case process_fired (TimerCleanup k) e of e' \<Rightarrow>
     k \<notin> dom (ep_transactions e') \<and> k \<notin> dom (ep_finished e') \<and> k \<notin> ran (ep_waiting_ack e') \<and> k \<notin> ran (ep_waiting_ack_cseq e')
     \<and> ep_transactions e' |` (- {k}) = ep_transactions e |` (- {k}) \<and> ep_finished e' |` (- {k}) = ep_finished e |` (- {k})
     \<and> ran (ep_waiting_ack e') = ran (ep_waiting_ack e) - {k} \<and> ran (ep_waiting_ack_cseq e') = ran (ep_waiting_ack_cseq e) - {k}"
  by (simp add: process_fired_def ran_without)

fun is_cleanup :: "tx_timer \<Rightarrow> bool" where
  "is_cleanup (TimerCleanup _) = True"
| "is_cleanup _ = False"

lemma process_fired_send:
  assumes "\<not> is_cleanup v" and "ep_closed e = {}"
  shows "process_fired v e = (case ep_transactions e (timer_key_of v) of
      Some ch \<Rightarrow> e\<lparr>ep_queues := (ep_queues e)(ch := ep_queues e ch @ [TimerFired v])\<rparr> | None \<Rightarrow> e)"
  using assms by (cases v) (auto simp: process_fired_def channel_send_def split: option.splits)

lemma fold_fired:
  assumes "list_all (\<lambda>v. \<not> is_cleanup v) vs" and "ep_closed e = {}"
  shows "ep_queues (fold process_fired vs e) ch
      = ep_queues e ch @ map TimerFired (filter (\<lambda>v. ep_transactions e (timer_key_of v) = Some ch) vs)"
  using assms
proof (induction vs arbitrary: e)
  case (Cons v vs)
  have "ep_closed (process_fired v e) = {}" "ep_transactions (process_fired v e) = ep_transactions e"
    using Cons.prems by (simp_all add: process_fired_send split: option.splits)
  then show ?case using Cons by (simp add: process_fired_send split: option.splits)
qed simp

text \<open>One round of the timer task takes the due timers out of the queue and puts
  each into the channel of the transaction of its key, in the order of their deadlines, as long as no
  channel is closed and none of them is a cleanup.\<close>

theorem timer_round_delivers:
  assumes "timer_inv (ep_timers e)" and "ep_closed e = {}" and "list_all (\<lambda>v. \<not> is_cleanup v) (fst (timer_poll (ep_now e) (ep_timers e)))"
  shows "ep_queues (process_timer_round e) ch = ep_queues e ch
      @ map TimerFired (filter (\<lambda>v. ep_transactions e (timer_key_of v) = Some ch) (fst (timer_poll (ep_now e) (ep_timers e))))
    \<and> fst (timer_poll (ep_now e) (ep_timers (process_timer_round e))) = []"
proof -
  obtain vs q where p: "timer_poll (ep_now e) (ep_timers e) = (vs, q)" by (rule prod.exhaust)
  have t: "ep_timers (fold process_fired vs e') = ep_timers e'" if "ep_closed e' = {}" "list_all (\<lambda>v. \<not> is_cleanup v) vs" for vs and e'
    using that
  proof (induction vs arbitrary: e')
    case (Cons v vs)
    then show ?case by (simp add: process_fired_send split: option.splits)
  qed simp
  have q: "fst (timer_poll (ep_now e) q) = []" using tq.poll_twice [OF assms(1), of "ep_now e"] p by simp
  show ?thesis
  proof (cases "vs = []")
    case True
    then show ?thesis using p q by (simp add: process_timer_round_def wait_for_ready_round_def split: option.splits)
  next
    case False
    then have "process_timer_round e = fold process_fired vs (e\<lparr>ep_timers := q\<rparr>)"
      using p by (simp add: process_timer_round_def wait_for_ready_round_def)
    then show ?thesis using p q assms(2,3) fold_fired [of vs "e\<lparr>ep_timers := q\<rparr>"] t [of "e\<lparr>ep_timers := q\<rparr>" vs] by simp
  qed
qed

lemma timer_round_delivers_witness:
  "ep_queues (process_timer_round (attach_transaction example_key 0
      (snd (ep_timeout 0 (TimerB example_key) example_endpoint)))) 0 = [TimerFired (TimerB example_key)]"
proof -
  let ?e = "attach_transaction example_key 0 (snd (ep_timeout 0 (TimerB example_key) example_endpoint))"
  have t: "ep_timers ?e = snd (queue_schedule 0 (TimerB example_key) timer_new)"
    by (simp add: attach_transaction_def ep_timeout_eq example_endpoint_def endpoint_new_def)
  have inv: "timer_inv (ep_timers ?e)"
    unfolding t by (rule timer_inv_schedule [OF timer_inv_new]) (simp add: timer_room_def timer_new_def)
  have p: "fst (timer_poll (ep_now ?e) (ep_timers ?e)) = [TimerB example_key]" by code_simp
  have c: "ep_closed ?e = {}" "ep_transactions ?e = [example_key \<mapsto> 0]" "ep_queues ?e 0 = []"
    by (simp_all add: attach_transaction_def ep_timeout_eq example_endpoint_def endpoint_new_def)
  have "list_all (\<lambda>v. \<not> is_cleanup v) (fst (timer_poll (ep_now ?e) (ep_timers ?e)))" unfolding p by simp
  from timer_round_delivers [OF inv c(1) this, of 0] show ?thesis by (simp add: p c)
qed

section \<open>Placeholder ACKs\<close>

text \<open>A client INVITE dropped after a provisional response leaves an ACK whose To
  header has no tag. The 2xx that arrives later is acknowledged with it, retagged; the test that is meant
  to keep such a placeholder from being sent only fails for a To header that does not parse.\<close>

theorem placeholder_acked:
  assumes "status_code_kind (resp_status resp) = Successful" and "\<not> has_multiple_vias (resp_headers resp)"
    and "key_from_response resp ClientRole = Inr k" and "cached_message k e = Some (Request ack)" and "req_method ack = Ack"
    and "and_then (to_header (req_headers ack)) to_tag = Inr None"
    and "\<And>msg dest. env_send_error env c msg dest = None"
  shows "\<exists>dest. on_received_message env (Response resp) c src e
    = (Inr (), e\<lparr>ep_sent := ep_sent e @ [(c, Request (retag_ack resp ack), dest)]\<rparr>)"
proof -
  obtain to where to: "to_header (req_headers ack) = Inr to" "to_tag to = Inr None"
    using assms(6) by (cases "to_header (req_headers ack)") (auto simp: and_then_def)
  have "on_received_message env (Response resp) c src e = ack_again env resp ack c src e"
    using assms(1-5) to by (simp add: on_received_message_def cached_ack_for_def answer_finished_response_def ok_def)
  then show ?thesis
    using assms(1,7) by (simp add: ack_again_def Let_def conn_send_def send_result_def) blast
qed

lemma placeholder_acked_witness:
  "ep_sent (snd (on_received_message example_env (Response example_ok) example_conn (conn_addr example_conn)
     (detach_transaction ''c.INVITE_7_call1@a.example_88_z9hG4bK776'' (Some (Request example_ack)) example_endpoint))) \<noteq> []"
proof -
  let ?e = "detach_transaction ''c.INVITE_7_call1@a.example_88_z9hG4bK776'' (Some (Request example_ack)) example_endpoint"
  have c: "cached_message ''c.INVITE_7_call1@a.example_88_z9hG4bK776'' ?e = Some (Request example_ack)"
    by (simp add: snd_detach_transaction cached_message_def)
  have ok: "status_code_kind (resp_status example_ok) = Successful"
    by (simp add: example_ok_def status_code_kind_def code_kind_def)
  have v: "\<not> has_multiple_vias (resp_headers example_ok)" by code_simp
  have k: "key_from_response example_ok ClientRole = Inr ''c.INVITE_7_call1@a.example_88_z9hG4bK776''" by code_simp
  have a: "req_method example_ack = Ack" by (simp add: example_ack_def)
  have t: "and_then (to_header (req_headers example_ack)) to_tag = Inr None" by code_simp
  from placeholder_acked [OF ok v k c a t, of example_env example_conn "conn_addr example_conn"] show ?thesis
    by (auto simp: example_env_def)
qed

end
