(* ===== verification/Sip_Auth.thy ===== *)
theory Sip_Auth
  imports Message_Factory Uri_Roundtrip
begin

text \<open>
  Digest authentication: the values of \<open>sip/headers/auth.rs\<close>, the tokenizer of
  \<open>typed/tokenizers.rs\<close>, the typed \<open>Authorization\<close>, \<open>ProxyAuthorization\<close>, \<open>WwwAuthenticate\<close> and
  \<open>ProxyAuthenticate\<close>, the \<open>DigestGenerator\<close> of \<open>sip/services.rs\<close> and the functions of
  \<open>dialog/authenticate.rs\<close> that need no transaction. The hash functions are crates the code calls; they
  are the argument \<open>hasher\<close>, which maps a text to the bytes of its hash.
\<close>

section \<open>Algorithm, quality of protection, scheme\<close>

datatype algorithm = Md5 | Md5Sess | Sha256 | Sha256Sess | Sha512 | Sha512Sess

fun show_algorithm :: "algorithm \<Rightarrow> string" where
  "show_algorithm Md5 = ''MD5''"
| "show_algorithm Md5Sess = ''MD5-sess''"
| "show_algorithm Sha256 = ''SHA256''"
| "show_algorithm Sha256Sess = ''SHA256-sess''"
| "show_algorithm Sha512 = ''SHA512''"
| "show_algorithm Sha512Sess = ''SHA512-sess''"

definition parse_algorithm :: "string \<Rightarrow> sip_error + algorithm" where
  "parse_algorithm str =
     (let s = trim str in
      if eq_ignore_ascii_case s ''md5'' then Inr Md5
      else if eq_ignore_ascii_case s ''md5-sess'' then Inr Md5Sess
      else if eq_ignore_ascii_case s ''sha256'' then Inr Sha256
      else if eq_ignore_ascii_case s ''sha256-sess'' then Inr Sha256Sess
      else if eq_ignore_ascii_case s ''sha512'' then Inr Sha512
      else if eq_ignore_ascii_case s ''sha512-sess'' then Inr Sha512Sess
      else Inl (ParseError (''invalid Algorithm: '' @ s)))"

datatype qop = QopAuth | QopAuthInt

fun show_qop :: "qop \<Rightarrow> string" where
  "show_qop QopAuth = ''auth''"
| "show_qop QopAuthInt = ''auth-int''"

definition parse_qop :: "string \<Rightarrow> sip_error + qop" where
  "parse_qop str =
     (let s = trim str in
      if eq_ignore_ascii_case s ''auth'' then Inr QopAuth
      else if eq_ignore_ascii_case s ''auth-int'' then Inr QopAuthInt
      else Inl (ParseError (''invalid Qop: '' @ s)))"

text \<open>The client nonce and the nonce count, an unsigned byte.\<close>

datatype auth_qop = AuthQop (cnonce: string) (nonce_count: nat) | AuthIntQop (cnonce: string) (nonce_count: nat)

text \<open>\<open>{:08}\<close> and \<open>{:08x}\<close>.\<close>

definition pad8 :: "string \<Rightarrow> string" where
  "pad8 s = replicate (8 - length s) CHR ''0'' @ s"

definition show_auth_qop :: "auth_qop \<Rightarrow> string" where
  "show_auth_qop q =
     (case q of AuthQop _ _ \<Rightarrow> ''qop='' @ [CHR 0x22] @ ''auth'' @ [CHR 0x22] | AuthIntQop _ _ \<Rightarrow> ''qop='' @ [CHR 0x22] @ ''auth-int'' @ [CHR 0x22])
     @ '', nc='' @ pad8 (show_nat (nonce_count q)) @ '', cnonce='' @ [CHR 0x22] @ cnonce q @ [CHR 0x22]"

datatype auth_scheme = Digest | OtherScheme string

fun show_auth_scheme :: "auth_scheme \<Rightarrow> string" where
  "show_auth_scheme Digest = ''Digest''"
| "show_auth_scheme (OtherScheme s) = s"

definition parse_auth_scheme :: "string \<Rightarrow> auth_scheme" where
  "parse_auth_scheme str = (let s = trim str in if eq_ignore_ascii_case s ''digest'' then Digest else OtherScheme s)"

section \<open>The tokenizer\<close>

definition split_token :: "string \<Rightarrow> (string \<times> string) option" where
  "split_token str =
     (let s = trim_start str in
      if list_ex is_ws s then Some (takeWhile (\<lambda>c. \<not> is_ws c) s, dropWhile (\<lambda>c. \<not> is_ws c) s) else None)"

definition parse_quoted :: "string \<Rightarrow> sip_error + (string \<times> string)" where
  "parse_quoted str =
     (case str of
        [] \<Rightarrow> Inl (TokenizeError (''expected '' @ [CHR 0x27, CHR 0x22, CHR 0x27]))
      | q # s \<Rightarrow>
          if q \<noteq> CHR 0x22 then Inl (TokenizeError (''expected '' @ [CHR 0x27, CHR 0x22, CHR 0x27]))
          else ok_or (split_once (\<lambda>c. c = CHR 0x22) s) (TokenizeError (''auth param: unclosed quote in '' @ s)))"

definition auth_value :: "string \<Rightarrow> sip_error + (string \<times> string)" where
  "auth_value rest =
     (if starts_with rest [CHR 0x22] then parse_quoted rest
      else Inr (trim (takeWhile (\<lambda>c. c \<noteq> CHR '','') rest), dropWhile (\<lambda>c. c \<noteq> CHR '','') rest))"

lemma auth_value_shrinks: "auth_value rest = Inr (v, after) \<Longrightarrow> length after \<le> length rest"
  by (auto simp: auth_value_def parse_quoted_def split_once_Some_iff length_dropWhile_le split: if_splits list.splits)

text \<open>One turn of the loop: the next parameter and the text after it, nothing at the end of the text.\<close>

definition auth_separator :: "char \<Rightarrow> bool" where
  "auth_separator c \<longleftrightarrow> c = CHR '','' \<or> is_ws c"

definition next_auth_param :: "string \<Rightarrow> sip_error + ((string \<times> string) \<times> string) option" where
  "next_auth_param str =
     (let rest = dropWhile auth_separator str in
      if rest = [] then Inr None
      else and_then (ok_or (split_once (\<lambda>c. c = CHR ''='') rest)
               (TokenizeError (''auth param: expected '' @ [CHR 0x27, CHR ''='', CHR 0x27] @ '' in '' @ rest))) (\<lambda>(key, r).
           and_then (auth_value r) (\<lambda>(v, after). Inr (Some ((trim key, v), after)))))"

lemma next_auth_param_shrinks:
  assumes "next_auth_param str = Inr (Some (p, after))"
  shows "length after < length str"
proof -
  from assms obtain key r v where split: "split_once (\<lambda>c. c = CHR ''='') (dropWhile auth_separator str) = Some (key, r)"
    and v: "auth_value r = Inr (v, after)"
    by (auto simp: next_auth_param_def Let_def and_then_eq_Inr ok_or_eq_Inr split: if_splits)
  from split have "length r < length (dropWhile auth_separator str)" by (auto simp: split_once_Some_iff)
  also have "\<dots> \<le> length str" by (rule length_dropWhile_le)
  finally show ?thesis using auth_value_shrinks [OF v] by simp
qed

function auth_params_loop :: "string \<Rightarrow> sip_error + (string \<times> string) list" where
  "auth_params_loop str =
     (case next_auth_param str of
        Inl err \<Rightarrow> Inl err
      | Inr None \<Rightarrow> Inr []
      | Inr (Some (p, after)) \<Rightarrow> and_then (auth_params_loop after) (\<lambda>ps. Inr (p # ps)))"
  by pat_completeness auto

termination
  by (relation "measure length") (auto dest: next_auth_param_shrinks)

declare auth_params_loop.simps [simp del]

definition parse_auth_params :: "string \<Rightarrow> sip_error + (string \<times> string) list" where
  "parse_auth_params s = auth_params_loop (trim s)"

definition auth_tokenize :: "string \<Rightarrow> sip_error + (string \<times> (string \<times> string) list)" where
  "auth_tokenize str =
     (let s = trim str in
      and_then (ok_or (split_token s) (TokenizeError (''auth header: missing scheme in '' @ s))) (\<lambda>(scheme, rest).
      and_then (parse_auth_params (trim (trim_start_matches (\<lambda>c. c = CHR '','') rest))) (\<lambda>params.
      Inr (scheme, params))))"

section \<open>Typed headers\<close>

definition find_auth_param :: "(string \<times> string) list \<Rightarrow> string \<Rightarrow> string option" where
  "find_auth_param params name = find_map (\<lambda>(key, v). if eq_ignore_ascii_case key name then Some v else None) params"

definition need_param :: "(string \<times> string) list \<Rightarrow> string \<Rightarrow> sip_error + string" where
  "need_param params name = ok_or (find_auth_param params name) (InvalidParam (''missing '' @ name))"

text \<open>\<open>u8::from_str_radix(_, 16)\<close>.\<close>

fun parse_hex_digits :: "nat \<Rightarrow> nat \<Rightarrow> string \<Rightarrow> int_error + nat" where
  "parse_hex_digits w acc [] = Inr acc"
| "parse_hex_digits w acc (c # cs) =
     (case hex_digit c of
        None \<Rightarrow> Inl InvalidDigit
      | Some d \<Rightarrow> if 2 ^ w \<le> acc * 16 + d then Inl PosOverflow else parse_hex_digits w (acc * 16 + d) cs)"

definition parse_hex :: "nat \<Rightarrow> string \<Rightarrow> int_error + nat" where
  "parse_hex w s =
     (case s of
        [] \<Rightarrow> Inl EmptyInt
      | c # cs \<Rightarrow>
          if cs = [] \<and> (c = CHR ''+'' \<or> c = CHR ''-'') then Inl InvalidDigit
          else if c = CHR ''+'' then parse_hex_digits w 0 cs
          else parse_hex_digits w 0 s)"

definition find_qop_args :: "(string \<Rightarrow> nat \<Rightarrow> auth_qop) \<Rightarrow> (string \<times> string) list \<Rightarrow> sip_error + auth_qop option" where
  "find_qop_args mk params =
     and_then (need_param params ''cnonce'') (\<lambda>cnonce.
     and_then (need_param params ''nc'') (\<lambda>nc.
     and_then (map_err (\<lambda>_. ParseError ''nc parse error'') (parse_hex 8 nc)) (\<lambda>n.
     Inr (Some (mk cnonce n)))))"

definition find_qop :: "(string \<times> string) list \<Rightarrow> sip_error + auth_qop option" where
  "find_qop params =
     (case find_auth_param params ''qop'' of
        Some q \<Rightarrow>
          if eq_ignore_ascii_case q ''auth'' then find_qop_args AuthQop params
          else if eq_ignore_ascii_case q ''auth-int'' then find_qop_args AuthIntQop params
          else Inl (InvalidParam (''unknown qop: '' @ q))
      | None \<Rightarrow> Inr None)"

definition transpose :: "('e + 'a) option \<Rightarrow> 'e + 'a option" where
  "transpose x = (case x of None \<Rightarrow> Inr None | Some (Inl e) \<Rightarrow> Inl e | Some (Inr a) \<Rightarrow> Inr (Some a))"

record authorization =
  az_scheme :: auth_scheme
  az_username :: string
  az_realm :: string
  az_nonce :: string
  az_uri :: uri
  az_response :: string
  az_algorithm :: "algorithm option"
  az_opaque :: "string option"
  az_qop :: "auth_qop option"

definition authorization_parse :: "string \<Rightarrow> sip_error + authorization" where
  "authorization_parse s =
     and_then (auth_tokenize s) (\<lambda>(scheme, params).
     and_then (need_param params ''username'') (\<lambda>username.
     and_then (need_param params ''realm'') (\<lambda>realm.
     and_then (need_param params ''nonce'') (\<lambda>nonce.
     and_then (and_then (need_param params ''uri'') parse_uri) (\<lambda>u.
     and_then (need_param params ''response'') (\<lambda>response.
     and_then (transpose (map_option parse_algorithm (find_auth_param params ''algorithm''))) (\<lambda>algo.
     and_then (find_qop params) (\<lambda>q.
     Inr \<lparr>az_scheme = parse_auth_scheme scheme, az_username = username, az_realm = realm, az_nonce = nonce,
          az_uri = u, az_response = response, az_algorithm = algo,
          az_opaque = find_auth_param params ''opaque'', az_qop = q\<rparr>))))))))"

definition dquoted :: "string \<Rightarrow> string" where
  "dquoted s = CHR 0x22 # s @ [CHR 0x22]"

definition show_authorization :: "authorization \<Rightarrow> string" where
  "show_authorization a =
     show_auth_scheme (az_scheme a) @ '' username='' @ dquoted (az_username a) @ '', realm='' @ dquoted (az_realm a)
     @ '', nonce='' @ dquoted (az_nonce a) @ '', uri='' @ dquoted (show_uri (az_uri a))
     @ '', response='' @ dquoted (az_response a)
     @ (case az_algorithm a of Some x \<Rightarrow> '', algorithm='' @ show_algorithm x | None \<Rightarrow> [])
     @ (case az_opaque a of Some x \<Rightarrow> '', opaque='' @ dquoted x | None \<Rightarrow> [])
     @ (case az_qop a of Some x \<Rightarrow> '', '' @ show_auth_qop x | None \<Rightarrow> [])"

text \<open>\<open>ProxyAuthorization\<close> has the same fields and its parser and printer the same text.\<close>

definition proxy_authorization_parse :: "string \<Rightarrow> sip_error + authorization" where
  "proxy_authorization_parse = authorization_parse"

definition show_proxy_authorization :: "authorization \<Rightarrow> string" where
  "show_proxy_authorization = show_authorization"

record challenge =
  ch_scheme :: auth_scheme
  ch_realm :: string
  ch_domain :: "string option"
  ch_nonce :: string
  ch_opaque :: "string option"
  ch_stale :: "string option"
  ch_algorithm :: "algorithm option"
  ch_qop :: "qop option"
  ch_charset :: "string option"

definition www_authenticate_parse :: "string \<Rightarrow> sip_error + challenge" where
  "www_authenticate_parse s =
     and_then (auth_tokenize s) (\<lambda>(scheme, params).
     and_then (need_param params ''realm'') (\<lambda>realm.
     and_then (need_param params ''nonce'') (\<lambda>nonce.
     and_then (transpose (map_option parse_algorithm (find_auth_param params ''algorithm''))) (\<lambda>algo.
     and_then (transpose (map_option parse_qop (find_auth_param params ''qop''))) (\<lambda>q.
     Inr \<lparr>ch_scheme = parse_auth_scheme scheme, ch_realm = realm, ch_domain = find_auth_param params ''domain'',
          ch_nonce = nonce, ch_opaque = find_auth_param params ''opaque'', ch_stale = find_auth_param params ''stale'',
          ch_algorithm = algo, ch_qop = q, ch_charset = find_auth_param params ''charset''\<rparr>)))))"

definition show_www_authenticate :: "challenge \<Rightarrow> string" where
  "show_www_authenticate w =
     show_auth_scheme (ch_scheme w) @ '' realm='' @ dquoted (ch_realm w)
     @ (case ch_domain w of Some x \<Rightarrow> '', domain='' @ dquoted x | None \<Rightarrow> [])
     @ '', nonce='' @ dquoted (ch_nonce w)
     @ (case ch_opaque w of Some x \<Rightarrow> '', opaque='' @ dquoted x | None \<Rightarrow> [])
     @ (case ch_stale w of Some x \<Rightarrow> '', stale='' @ x | None \<Rightarrow> [])
     @ (case ch_algorithm w of Some x \<Rightarrow> '', algorithm='' @ show_algorithm x | None \<Rightarrow> [])
     @ (case ch_qop w of Some x \<Rightarrow> '', qop='' @ dquoted (show_qop x) | None \<Rightarrow> [])
     @ (case ch_charset w of Some x \<Rightarrow> '', charset='' @ x | None \<Rightarrow> [])"

definition proxy_authenticate_parse :: "string \<Rightarrow> sip_error + challenge" where
  "proxy_authenticate_parse = www_authenticate_parse"

definition show_proxy_authenticate :: "challenge \<Rightarrow> string" where
  "show_proxy_authenticate = show_www_authenticate"

end
