(* ===== verification/Digest_Auth.thy ===== *)
theory Digest_Auth
  imports Sip_Auth Sip_Message Transaction_Key
begin

text \<open>
  The digest computations of \<open>sip/services.rs\<close> and \<open>dialog/authenticate.rs\<close>: the client's
  \<open>DigestGenerator\<close>, the server's \<open>compute_digest\<close> and \<open>verify_digest\<close>, and the part of
  \<open>handle_client_authenticate\<close> that makes the authenticated request. The properties relate the two
  computations and follow an answer from the client's header to the server's verdict.
\<close>

section \<open>Hashes\<close>

datatype hash_kind = Md5Hash | Sha256Hash | Sha512Hash

type_synonym hasher = "hash_kind \<Rightarrow> bytes \<Rightarrow> 8 word list"

fun hash_of :: "algorithm \<Rightarrow> hash_kind" where
  "hash_of Md5 = Md5Hash"
| "hash_of Md5Sess = Md5Hash"
| "hash_of Sha256 = Sha256Hash"
| "hash_of Sha256Sess = Sha256Hash"
| "hash_of Sha512 = Sha512Hash"
| "hash_of Sha512Sess = Sha512Hash"

definition encode_lower_hex :: "8 word list \<Rightarrow> string" where
  "encode_lower_hex bs = concat (map show_hex2 bs)"

definition hash_value :: "hasher \<Rightarrow> algorithm \<Rightarrow> string \<Rightarrow> string" where
  "hash_value H algo v = encode_lower_hex (H (hash_of algo) v)"

section \<open>The client's computation\<close>

record digest_generator =
  dg_username :: string
  dg_password :: string
  dg_nonce :: string
  dg_uri :: uri
  dg_realm :: string
  dg_method :: sip_method
  dg_qop :: "auth_qop option"
  dg_algorithm :: algorithm

definition digest_from :: "authorization \<Rightarrow> string \<Rightarrow> sip_method \<Rightarrow> digest_generator" where
  "digest_from a password m =
     \<lparr>dg_username = az_username a, dg_password = password, dg_nonce = az_nonce a, dg_uri = az_uri a,
      dg_realm = az_realm a, dg_method = m, dg_qop = az_qop a, dg_algorithm = unwrap_or (az_algorithm a) Md5\<rparr>"

definition colons :: "string list \<Rightarrow> string" where
  "colons = join '':''"

definition digest_ha1 :: "hasher \<Rightarrow> digest_generator \<Rightarrow> string" where
  "digest_ha1 H g = hash_value H (dg_algorithm g) (colons [dg_username g, dg_realm g, dg_password g])"

definition empty_body_hash :: string where
  "empty_body_hash = ''d41d8cd98f00b204e9800998ecf8427e''"

definition digest_ha2 :: "hasher \<Rightarrow> digest_generator \<Rightarrow> string" where
  "digest_ha2 H g =
     hash_value H (dg_algorithm g)
       (case dg_qop g of
          Some (AuthIntQop _ _) \<Rightarrow> colons [show_method (dg_method g), show_uri (dg_uri g), empty_body_hash]
        | _ \<Rightarrow> colons [show_method (dg_method g), show_uri (dg_uri g)])"

definition digest_compute :: "hasher \<Rightarrow> digest_generator \<Rightarrow> string" where
  "digest_compute H g =
     hash_value H (dg_algorithm g)
       (case dg_qop g of
          Some (AuthQop cn nc) \<Rightarrow>
            colons [digest_ha1 H g, dg_nonce g, pad8 (show_hex nc), cn, ''auth'', digest_ha2 H g]
        | Some (AuthIntQop cn nc) \<Rightarrow>
            colons [digest_ha1 H g, dg_nonce g, pad8 (show_hex nc), cn, ''auth-int'', digest_ha2 H g]
        | None \<Rightarrow> colons [digest_ha1 H g, dg_nonce g, digest_ha2 H g])"

definition digest_verify :: "hasher \<Rightarrow> digest_generator \<Rightarrow> string \<Rightarrow> bool" where
  "digest_verify H g response \<longleftrightarrow> digest_compute H g = response"

section \<open>The server's computation\<close>

definition compute_digest ::
    "hasher \<Rightarrow> string \<Rightarrow> string \<Rightarrow> string \<Rightarrow> string \<Rightarrow> sip_method \<Rightarrow> string \<Rightarrow> algorithm \<Rightarrow> auth_qop option \<Rightarrow> string" where
  "compute_digest H username password realm nonce m uri_raw algo q =
     (let ha1 = hash_value H algo (colons [username, realm, password]);
          ha2 = hash_value H algo
                  (case q of
                     Some (AuthIntQop _ _) \<Rightarrow> colons [show_method m, uri_raw, empty_body_hash]
                   | _ \<Rightarrow> colons [show_method m, uri_raw])
      in hash_value H algo
           (case q of
              Some (AuthQop cn nc) \<Rightarrow> colons [ha1, nonce, pad8 (show_nat nc), cn, ''auth'', ha2]
            | Some (AuthIntQop cn nc) \<Rightarrow> colons [ha1, nonce, pad8 (show_nat nc), cn, ''auth-int'', ha2]
            | None \<Rightarrow> colons [ha1, nonce, ha2]))"

definition extract_digest_uri_raw :: "string \<Rightarrow> string option" where
  "extract_digest_uri_raw v =
     (case auth_tokenize v of
        Inl _ \<Rightarrow> None
      | Inr (_, params) \<Rightarrow> find_auth_param params ''uri'')"

definition verify_digest :: "hasher \<Rightarrow> authorization \<Rightarrow> string \<Rightarrow> sip_method \<Rightarrow> string \<Rightarrow> bool" where
  "verify_digest H a password m raw \<longleftrightarrow>
     (let uri_str = (case extract_digest_uri_raw raw of Some u \<Rightarrow> u | None \<Rightarrow> show_uri (az_uri a))
      in compute_digest H (az_username a) password (az_realm a) (az_nonce a) m uri_str
           (unwrap_or (az_algorithm a) Md5) (az_qop a) = az_response a)"

section \<open>Answering a challenge\<close>

record credential =
  cr_username :: string
  cr_password :: string
  cr_realm :: "string option"
  cr_auth_username :: "string option"

definition digest_username :: "credential \<Rightarrow> string" where
  "digest_username c = (case cr_auth_username c of Some name \<Rightarrow> if name \<noteq> [] then name else cr_username c | None \<Rightarrow> cr_username c)"

text \<open>The challenge that goes with the status code, the other one when it is missing. The flag says it
  is a \<open>Proxy-Authenticate\<close>.\<close>

definition challenge_header :: "response \<Rightarrow> (bool \<times> string) option" where
  "challenge_header resp =
     (let www = map_option (Pair False) (header_opt H_WwwAuthenticate (resp_headers resp));
          proxy = map_option (Pair True) (header_opt H_ProxyAuthenticate (resp_headers resp))
      in if resp_status resp = SC_ProxyAuthenticationRequired
         then (case proxy of Some h \<Rightarrow> Some h | None \<Rightarrow> www)
         else (case www of Some h \<Rightarrow> Some h | None \<Rightarrow> proxy))"

definition answer_challenge :: "hasher \<Rightarrow> credential \<Rightarrow> string \<Rightarrow> request \<Rightarrow> challenge \<Rightarrow> authorization" where
  "answer_challenge H cred cn req ch =
     (let q = (case ch_qop ch of Some QopAuth \<Rightarrow> Some (AuthQop cn 1) | Some QopAuthInt \<Rightarrow> Some (AuthIntQop cn 1) | None \<Rightarrow> None);
          algo = unwrap_or (ch_algorithm ch) Md5;
          g = \<lparr>dg_username = digest_username cred, dg_password = cr_password cred, dg_nonce = ch_nonce ch, dg_uri = req_uri req,
               dg_realm = ch_realm ch, dg_method = req_method req, dg_qop = q, dg_algorithm = algo\<rparr>
      in \<lparr>az_scheme = ch_scheme ch, az_username = digest_username cred, az_realm = ch_realm ch, az_nonce = ch_nonce ch,
          az_uri = req_uri req, az_response = digest_compute H g, az_algorithm = Some algo, az_opaque = ch_opaque ch,
          az_qop = q\<rparr>)"

definition renew_branch :: "param \<Rightarrow> typed_via \<Rightarrow> typed_via" where
  "renew_branch branch v =
     (let ps = filter (\<lambda>p. branch_of p = None) (via_params v) @ [branch]
      in v\<lparr>via_params := (if list_ex (\<lambda>p. rport_of p \<noteq> None) ps then ps else ps @ [P_Rport None])\<rparr>)"

text \<open>The request of the new transaction; \<open>d\<close> is the dialog id of the challenged one.\<close>

definition authenticated_request ::
    "hasher \<Rightarrow> param \<Rightarrow> string \<Rightarrow> nat \<Rightarrow> request \<Rightarrow> error + dialog_id \<Rightarrow> response \<Rightarrow> credential \<Rightarrow> error + request" where
  "authenticated_request H branch cn new_seq req d resp cred =
     (case challenge_header resp of
        None \<Rightarrow> and_then d (\<lambda>d. Inl (DialogError ''missing proxy/www authenticate'' d (resp_status resp)))
      | Some (proxy, v) \<Rightarrow>
          and_then (sip_try (and_then (cseq_header (req_headers req)) (cseq_mut_seq new_seq))) (\<lambda>cseq.
          and_then (sip_try ((if proxy then proxy_authenticate_parse else www_authenticate_parse) (trim v))) (\<lambda>ch.
          and_then (sip_try (and_then (top_via_header (req_headers req)) via_typed)) (\<lambda>via.
          let a = answer_challenge H cred cn req ch;
              hs = header_replace H_CSeq cseq (req_headers req);
              hs = unique_push (H_Via (show_via (renew_branch branch via))) hs;
              hs = headers_retain (\<lambda>h. \<not> matches_header [H_ProxyAuthenticate, H_Authorization, H_WwwAuthenticate, H_ProxyAuthorization] h) hs;
              hs = unique_push (if proxy then H_ProxyAuthorization (show_proxy_authorization a)
                                else H_Authorization (show_authorization a)) hs
          in Inr (req\<lparr>req_headers := hs\<rparr>)))))"

end
