(* ===== verification/Auth_Roundtrip.thy ===== *)
theory Auth_Roundtrip
  imports Digest_Auth
begin

text \<open>
  Properties of digest authentication: the printed \<open>Authorization\<close> parses back, the two digest
  computations agree below a nonce count of ten, and a client's answer to a challenge is accepted by
  \<open>verify_digest\<close>.
\<close>

section \<open>Parameter lists\<close>

text \<open>A parameter with the flag that says its value is quoted, and its printed form.\<close>

type_synonym auth_item = "string \<times> bool \<times> string"

fun show_item :: "auth_item \<Rightarrow> string" where
  "show_item (k, q, v) = k @ ''='' @ (if q then dquoted v else v)"

fun item_wf :: "auth_item \<Rightarrow> bool" where
  "item_wf (k, q, v) \<longleftrightarrow> k \<noteq> [] \<and> plain ''=,'' k \<and> (if q then CHR 0x22 \<notin> set v else v \<noteq> [] \<and> plain [CHR '','', CHR 0x22] v)"

fun item_pair :: "auth_item \<Rightarrow> string \<times> string" where
  "item_pair (k, q, v) = (k, v)"

definition items_tail :: "auth_item list \<Rightarrow> string" where
  "items_tail items = concat (map (\<lambda>i. '', '' @ show_item i) items)"

definition show_items :: "auth_item list \<Rightarrow> string" where
  "show_items items = (case items of [] \<Rightarrow> [] | i # js \<Rightarrow> show_item i @ items_tail js)"

lemma items_tail_simps [simp]:
  "items_tail [] = []" "items_tail (i # js) = '', '' @ show_item i @ items_tail js"
  "items_tail (js @ ks) = items_tail js @ items_tail ks"
  by (simp_all add: items_tail_def)

lemma auth_value_item:
  assumes "item_wf (k, q, v)" and "rest = [] \<or> hd rest = CHR '',''"
  shows "auth_value ((if q then dquoted v else v) @ rest) = Inr (v, rest)"
proof (cases q)
  case True
  with assms have "split_once (\<lambda>c. c = CHR 0x22) (v @ CHR 0x22 # rest) = Some (v, rest)"
    by (intro split_once_hit) auto
  with True show ?thesis by (simp add: auth_value_def starts_with_def dquoted_def parse_quoted_def)
next
  case False
  with assms have v: "v \<noteq> []" "plain [CHR '','', CHR 0x22] v" by simp_all
  have t: "takeWhile (\<lambda>c. c \<noteq> CHR '','') (v @ rest) = v" "dropWhile (\<lambda>c. c \<noteq> CHR '','') (v @ rest) = rest"
    using plainD(2) [OF v(2), of "CHR '',''"] assms(2) by (cases rest; auto simp: takeWhile_append dropWhile_append)+
  have "\<not> starts_with (v @ rest) [CHR 0x22]" using v by (cases v) (auto simp: starts_with_def)
  with False v t show ?thesis by (simp add: auth_value_def trim_plain [OF v(2)])
qed

lemma next_auth_param_item:
  assumes wf: "item_wf i" and rest: "rest = [] \<or> hd rest = CHR '',''" and sep: "list_all auth_separator sep"
  shows "next_auth_param (sep @ show_item i @ rest) = Inr (Some (item_pair i, rest))"
proof -
  obtain k q v where i: "i = (k, q, v)" by (cases i)
  have k: "k \<noteq> []" "plain ''=,'' k" using wf by (simp_all add: i)
  have "dropWhile auth_separator (sep @ show_item i @ rest) = show_item i @ rest"
    using k sep by (cases k) (auto simp: i auth_separator_def dropWhile_append list_all_iff)
  moreover have "split_once (\<lambda>c. c = CHR ''='') (show_item i @ rest) = Some (k, (if q then dquoted v else v) @ rest)"
    using split_once_plain [OF _ k(2), of "CHR ''=''"] by (simp add: i)
  ultimately show ?thesis
    using auth_value_item [OF wf [unfolded i] rest] k by (simp add: next_auth_param_def i trim_plain [OF k(2)])
qed

lemma hd_items_tail: "items_tail items = [] \<or> hd (items_tail items) = CHR '',''"
  by (cases items) simp_all

lemma auth_params_loop_tail:
  "list_all item_wf items \<Longrightarrow> auth_params_loop (items_tail items) = Inr (map item_pair items)"
proof (induction items)
  case Nil
  show ?case by (simp add: auth_params_loop.simps [of "[]"] next_auth_param_def)
next
  case (Cons i items)
  then have "next_auth_param ('', '' @ show_item i @ items_tail items) = Inr (Some (item_pair i, items_tail items))"
    by (intro next_auth_param_item hd_items_tail) (simp_all add: auth_separator_def is_ws_def)
  with Cons show ?case by (subst auth_params_loop.simps) simp
qed

lemma auth_params_loop_items:
  assumes "list_all item_wf items" shows "auth_params_loop (show_items items) = Inr (map item_pair items)"
proof (cases items)
  case Nil
  then show ?thesis using auth_params_loop_tail [of "[]"] by (simp add: show_items_def)
next
  case (Cons i js)
  with assms have "next_auth_param ([] @ show_item i @ items_tail js) = Inr (Some (item_pair i, items_tail js))"
    by (intro next_auth_param_item hd_items_tail) simp_all
  with Cons assms show ?thesis by (subst auth_params_loop.simps) (simp add: show_items_def auth_params_loop_tail)
qed

lemma last_show_item: "item_wf i \<Longrightarrow> \<not> is_ws (last (show_item i)) \<and> show_item i \<noteq> []"
proof -
  assume "item_wf i"
  moreover obtain k q v where "i = (k, q, v)" by (cases i)
  ultimately show ?thesis
    using plainD(1) [of "[CHR '','', CHR 0x22]" v "last v"] by (auto simp: dquoted_def is_ws_def [of "CHR 0x22"] split: if_splits)
qed

lemma last_show_items:
  assumes "list_all item_wf items" "items \<noteq> []"
  shows "\<not> is_ws (last (show_items items)) \<and> show_items items \<noteq> []"
proof -
  have "\<not> is_ws (last (s @ items_tail js))" if "list_all item_wf js" "s \<noteq> []" "\<not> is_ws (last s)" for s js
    using that
  proof (induction js arbitrary: s)
    case (Cons i js)
    then show ?case using Cons.IH [of "s @ '', '' @ show_item i"] last_show_item [of i] by simp
  qed simp
  then show ?thesis using assms last_show_item by (cases items) (auto simp: show_items_def)
qed

lemma hd_show_items:
  assumes "list_all item_wf items" shows "show_items items = [] \<or> \<not> is_ws (hd (show_items items))"
proof (cases items)
  case (Cons i js)
  obtain k q v where i: "i = (k, q, v)" by (cases i)
  with Cons assms have "k \<noteq> []" "plain ''=,'' k" by simp_all
  then show ?thesis by (cases k) (simp_all add: Cons i show_items_def)
qed (simp add: show_items_def)

lemma trim_space_before: "s = [] \<or> \<not> is_ws (hd s) \<and> \<not> is_ws (last s) \<Longrightarrow> trim (CHR '' '' # s) = s"
  using trim_unchanged [of s] by (simp add: trim_def trim_start_def is_ws_def)

lemma auth_tokenize_items:
  assumes "sch \<noteq> []" "plain [] sch" "list_all item_wf items" "items \<noteq> []"
  shows "auth_tokenize (sch @ '' '' @ show_items items) = Inr (sch, map item_pair items)"
proof -
  let ?s = "sch @ '' '' @ show_items items"
  have ends: "\<not> is_ws (hd (show_items items))" "\<not> is_ws (last (show_items items))" "show_items items \<noteq> []"
    using last_show_items [OF assms(3,4)] hd_show_items [OF assms(3)] by auto
  have sch: "\<not> is_ws (hd sch)" "\<And>c. c \<in> set sch \<Longrightarrow> \<not> is_ws c"
    using assms(1,2) plainD(1) [OF assms(2)] by (cases sch; auto)+
  have "trim ?s = ?s" using ends sch assms(1) by (intro trim_unchanged) simp
  moreover have "trim_start ?s = ?s" using sch(1) assms(1) by (cases sch) (simp_all add: trim_start_def)
  moreover have "takeWhile (\<lambda>c. \<not> is_ws c) ?s = sch" "dropWhile (\<lambda>c. \<not> is_ws c) ?s = CHR '' '' # show_items items"
    using sch(2) by (simp_all add: takeWhile_append dropWhile_append is_ws_def [of "CHR '' ''"])
  moreover have "list_ex is_ws ?s" by (simp add: is_ws_def [of "CHR '' ''"])
  ultimately have "split_token ?s = Some (sch, CHR '' '' # show_items items)" "trim ?s = ?s"
    by (simp_all add: split_token_def Let_def)
  moreover have "trim (show_items items) = show_items items" using ends by (intro trim_unchanged) simp
  moreover have "trim (CHR '' '' # show_items items) = show_items items" using ends by (intro trim_space_before) simp
  ultimately show ?thesis
    using auth_params_loop_items [OF assms(3)]
    by (simp add: auth_tokenize_def parse_auth_params_def trim_start_matches_def)
qed

section \<open>Authorization values\<close>

definition quote_free :: "string \<Rightarrow> bool" where
  "quote_free s \<longleftrightarrow> CHR 0x22 \<notin> set s"

fun auth_scheme_wf :: "auth_scheme \<Rightarrow> bool" where
  "auth_scheme_wf Digest = True"
| "auth_scheme_wf (OtherScheme s) = (s \<noteq> [] \<and> plain [] s \<and> \<not> eq_ignore_ascii_case s ''digest'')"

text \<open>The nonce count is printed in decimal and read in hexadecimal, so only one digit survives.\<close>

definition authorization_wf :: "authorization \<Rightarrow> bool" where
  "authorization_wf a \<longleftrightarrow>
     auth_scheme_wf (az_scheme a) \<and> quote_free (az_username a) \<and> quote_free (az_realm a) \<and> quote_free (az_nonce a)
     \<and> uri_wf (az_uri a) \<and> quote_free (show_uri (az_uri a)) \<and> quote_free (az_response a)
     \<and> (case az_opaque a of None \<Rightarrow> True | Some x \<Rightarrow> quote_free x)
     \<and> (case az_qop a of None \<Rightarrow> True | Some q \<Rightarrow> quote_free (cnonce q) \<and> nonce_count q < 10)"

definition qop_items :: "auth_qop option \<Rightarrow> auth_item list" where
  "qop_items x =
     (case x of
        None \<Rightarrow> []
      | Some q \<Rightarrow>
          [(''qop'', True, case q of AuthQop _ _ \<Rightarrow> ''auth'' | AuthIntQop _ _ \<Rightarrow> ''auth-int''),
           (''nc'', False, pad8 (show_nat (nonce_count q))), (''cnonce'', True, cnonce q)])"

definition auth_items :: "authorization \<Rightarrow> auth_item list" where
  "auth_items a =
     [(''username'', True, az_username a), (''realm'', True, az_realm a), (''nonce'', True, az_nonce a),
      (''uri'', True, show_uri (az_uri a)), (''response'', True, az_response a)]
     @ (case az_algorithm a of None \<Rightarrow> [] | Some x \<Rightarrow> [(''algorithm'', False, show_algorithm x)])
     @ (case az_opaque a of None \<Rightarrow> [] | Some x \<Rightarrow> [(''opaque'', True, x)])
     @ qop_items (az_qop a)"

lemma show_authorization_items:
  "show_authorization a = show_auth_scheme (az_scheme a) @ '' '' @ show_items (auth_items a)"
  by (simp add: show_authorization_def auth_items_def qop_items_def show_items_def show_auth_qop_def dquoted_def
      split: option.split auth_qop.split)

lemma plain_algorithm: "plain [CHR '','', CHR 0x22] (show_algorithm x)" "show_algorithm x \<noteq> []"
  by (cases x; simp add: is_ws_def)+

lemma plain_pad8: "plain [CHR '','', CHR 0x22] (pad8 (show_nat n))" "pad8 (show_nat n) \<noteq> []"
proof -
  have "plain [CHR '','', CHR 0x22] (show_nat n)" by (rule plain_show_nat) (auto simp: is_ascii_digit_def)
  moreover have "plain [CHR '','', CHR 0x22] (replicate k CHR ''0'')" for k
    by (induction k) (simp_all add: is_ws_def)
  ultimately show "plain [CHR '','', CHR 0x22] (pad8 (show_nat n))" by (simp only: pad8_def plain_simps)
  show "pad8 (show_nat n) \<noteq> []" by (simp add: pad8_def)
qed

lemma show_digit: "n < 10 \<Longrightarrow> show_nat n = [digit_char n]"
  by (subst show_nat.simps) simp

lemma hex_digit_char: "n < 10 \<Longrightarrow> hex_digit (digit_char n) = Some n"
  by (simp add: hex_digit_def)

lemma parse_hex_pad8:
  assumes "n < 10" shows "parse_hex 8 (pad8 (show_nat n)) = Inr n"
proof -
  have "hex_digit CHR ''0'' = Some 0" using hex_digit_char [of 0] by (simp add: digit_char_def)
  moreover have "pad8 (show_nat n) = ''0000000'' @ [digit_char n]"
    using assms by (simp add: show_digit pad8_def eval_nat_numeral)
  ultimately show ?thesis using assms by (simp add: parse_hex_def hex_digit_char)
qed

lemma item_key_wf:
  "item_wf (''username'', True, v) = quote_free v" "item_wf (''realm'', True, v) = quote_free v"
  "item_wf (''nonce'', True, v) = quote_free v" "item_wf (''uri'', True, v) = quote_free v"
  "item_wf (''response'', True, v) = quote_free v" "item_wf (''opaque'', True, v) = quote_free v"
  "item_wf (''qop'', True, v) = quote_free v" "item_wf (''cnonce'', True, v) = quote_free v"
  "item_wf (''nc'', False, v) = (v \<noteq> [] \<and> plain [CHR '','', CHR 0x22] v)"
  "item_wf (''algorithm'', False, v) = (v \<noteq> [] \<and> plain [CHR '','', CHR 0x22] v)"
  by (simp_all add: is_ws_def quote_free_def)

lemma qop_text: "quote_free ''auth''" "quote_free ''auth-int''"
  by (simp_all add: quote_free_def)

lemma qop_items_wf:
  "(case x of None \<Rightarrow> True | Some q \<Rightarrow> quote_free (cnonce q) \<and> nonce_count q < 10) \<Longrightarrow> list_all item_wf (qop_items x)"
  by (cases x) (auto simp: qop_items_def item_key_wf plain_pad8 qop_text simp del: item_wf.simps split: auth_qop.split)

lemma auth_items_wf: "authorization_wf a \<Longrightarrow> list_all item_wf (auth_items a)"
  using qop_items_wf [of "az_qop a"]
  by (auto simp: authorization_wf_def auth_items_def item_key_wf plain_algorithm simp del: item_wf.simps split: option.splits)

text \<open>The keys are in lower case, so the lookup that ignores case is the one of the list of pairs.\<close>

definition auth_keys :: "string set" where
  "auth_keys = {''username'', ''realm'', ''nonce'', ''uri'', ''response'', ''algorithm'', ''opaque'', ''qop'', ''nc'', ''cnonce''}"

lemma auth_keys_lower: "k \<in> auth_keys \<Longrightarrow> map to_ascii_lowercase k = k"
  by (simp only: auth_keys_def insert_iff empty_iff) (elim disjE; simp only: HOL.simp_thms; code_simp)

lemma find_auth_param_keys:
  assumes "fst ` set ps \<subseteq> auth_keys" "name \<in> auth_keys"
  shows "find_auth_param ps name = map_of ps name"
  using assms(1)
proof (induction ps)
  case (Cons p ps)
  moreover obtain k v where p: "p = (k, v)" by (cases p)
  ultimately have "eq_ignore_ascii_case k name \<longleftrightarrow> k = name"
    using auth_keys_lower [of k] auth_keys_lower [OF assms(2)] by (simp add: eq_ignore_ascii_case_map)
  with Cons p show ?case by (auto simp: find_auth_param_def)
qed (simp add: find_auth_param_def)

lemma fst_auth_items: "fst ` set (map item_pair (auth_items a)) \<subseteq> auth_keys"
  by (auto simp: auth_items_def qop_items_def auth_keys_def split: option.splits)

lemma find_in_items: "name \<in> auth_keys \<Longrightarrow>
    find_auth_param (map item_pair (auth_items a)) name = map_of (map item_pair (auth_items a)) name"
  using fst_auth_items by (rule find_auth_param_keys)

lemma auth_lookups:
  fixes a defines "ps \<equiv> map item_pair (auth_items a)"
  shows "find_auth_param ps ''username'' = Some (az_username a)" "find_auth_param ps ''realm'' = Some (az_realm a)"
    "find_auth_param ps ''nonce'' = Some (az_nonce a)" "find_auth_param ps ''uri'' = Some (show_uri (az_uri a))"
    "find_auth_param ps ''response'' = Some (az_response a)"
    "find_auth_param ps ''algorithm'' = map_option show_algorithm (az_algorithm a)"
    "find_auth_param ps ''opaque'' = az_opaque a"
    "find_auth_param ps ''qop'' = map_option (\<lambda>q. case q of AuthQop _ _ \<Rightarrow> ''auth'' | AuthIntQop _ _ \<Rightarrow> ''auth-int'') (az_qop a)"
    "find_auth_param ps ''nc'' = map_option (\<lambda>q. pad8 (show_nat (nonce_count q))) (az_qop a)"
    "find_auth_param ps ''cnonce'' = map_option cnonce (az_qop a)"
  unfolding ps_def
  by (subst find_in_items; simp add: auth_keys_def auth_items_def qop_items_def split: option.split)+

lemma parse_show_algorithm: "parse_algorithm (show_algorithm x) = Inr x"
  by (induction x) code_simp+

lemma parse_show_auth_scheme:
  assumes "auth_scheme_wf s"
  shows "parse_auth_scheme (show_auth_scheme s) = s" "show_auth_scheme s \<noteq> []" "plain [] (show_auth_scheme s)"
proof -
  have "parse_auth_scheme ''Digest'' = Digest" by code_simp
  with assms show "parse_auth_scheme (show_auth_scheme s) = s"
    by (cases s) (simp_all add: parse_auth_scheme_def trim_plain [of "[]"])
  from assms show "show_auth_scheme s \<noteq> []" "plain [] (show_auth_scheme s)"
    by (cases s; simp add: is_ws_def)+
qed

lemma find_qop_items:
  assumes "case az_qop a of None \<Rightarrow> True | Some q \<Rightarrow> nonce_count q < 10"
  shows "find_qop (map item_pair (auth_items a)) = Inr (az_qop a)"
proof (cases "az_qop a")
  case (Some q)
  have "\<not> eq_ignore_ascii_case ''auth-int'' ''auth''" by code_simp
  with Some assms show ?thesis
    by (cases q) (simp_all add: find_qop_def find_qop_args_def need_param_def auth_lookups parse_hex_pad8)
qed (simp add: find_qop_def auth_lookups)

lemma tokenize_shown:
  assumes "authorization_wf a"
  shows "auth_tokenize (show_authorization a) = Inr (show_auth_scheme (az_scheme a), map item_pair (auth_items a))"
proof -
  have "auth_items a \<noteq> []" by (simp add: auth_items_def)
  with assms show ?thesis unfolding show_authorization_items
    by (intro auth_tokenize_items auth_items_wf parse_show_auth_scheme(2,3)) (simp_all add: authorization_wf_def)
qed

section \<open>Properties\<close>

lemma authorization_parse_shown:
  assumes "authorization_wf a"
  shows "authorization_parse (show_authorization a) = Inr a"
  using assms
  by (simp add: authorization_parse_def tokenize_shown need_param_def auth_lookups find_qop_items authorization_wf_def
      parse_show_uri parse_show_auth_scheme transpose_def parse_show_algorithm split: option.splits)


definition example_authorization :: authorization where
  "example_authorization =
     \<lparr>az_scheme = Digest, az_username = ''alice'', az_realm = ''example.com'', az_nonce = ''abc'', az_uri = example_uri,
      az_response = ''00ff'', az_algorithm = Some Md5, az_opaque = Some ''o p'', az_qop = Some (AuthQop ''c1'' 1)\<rparr>"

lemma example_uri_quote_free: "quote_free (show_uri example_uri)"
  by code_simp

lemma example_authorization_wf: "authorization_wf example_authorization"
  by (simp add: authorization_wf_def example_authorization_def quote_free_def example_uri_wf
      example_uri_quote_free [unfolded quote_free_def])


text \<open>Below ten, decimal and hexadecimal are the same digit.\<close>

lemma show_hex_digit: "n < 10 \<Longrightarrow> show_hex n = show_nat n"
  by (erule digit_cases) (simp_all add: show_digit show_hex.simps hex_char_def digit_char_def)

lemma compute_digest_agrees:
  assumes "case dg_qop g of None \<Rightarrow> True | Some q \<Rightarrow> nonce_count q < 10"
  shows "compute_digest H (dg_username g) (dg_password g) (dg_realm g) (dg_nonce g) (dg_method g) (show_uri (dg_uri g))
      (dg_algorithm g) (dg_qop g) = digest_compute H g"
proof (cases "dg_qop g")
  case (Some q)
  with assms show ?thesis
    by (cases q) (simp_all add: compute_digest_def digest_compute_def digest_ha1_def digest_ha2_def Let_def show_hex_digit)
qed (simp add: compute_digest_def digest_compute_def digest_ha1_def digest_ha2_def Let_def)

text \<open>The server's \<open>compute_digest\<close> on the printed URI is the client's \<open>DigestGenerator::compute\<close>,
  whatever the algorithm and the quality of protection, as long as the nonce count is below ten.\<close>

theorem digest_computations_agree:
  assumes "case dg_qop g of None \<Rightarrow> True | Some q \<Rightarrow> nonce_count q < 10"
  shows "compute_digest H (dg_username g) (dg_password g) (dg_realm g) (dg_nonce g) (dg_method g) (show_uri (dg_uri g))
      (dg_algorithm g) (dg_qop g) = digest_compute H g"
  by (rule compute_digest_agrees [OF assms])

lemma digest_computations_agree_witness:
  "compute_digest H ''alice'' ''pw'' ''r'' ''n'' Register (show_uri example_uri) Sha256 (Some (AuthIntQop ''c1'' 9))
   = digest_compute H \<lparr>dg_username = ''alice'', dg_password = ''pw'', dg_nonce = ''n'', dg_uri = example_uri, dg_realm = ''r'',
       dg_method = Register, dg_qop = Some (AuthIntQop ''c1'' 9), dg_algorithm = Sha256\<rparr>"
  using digest_computations_agree [of "\<lparr>dg_username = ''alice'', dg_password = ''pw'', dg_nonce = ''n'', dg_uri = example_uri,
    dg_realm = ''r'', dg_method = Register, dg_qop = Some (AuthIntQop ''c1'' 9), dg_algorithm = Sha256\<rparr>" H]
  by simp

text \<open>What a challenge and a credential must be for the answer to be printable.\<close>

definition answerable :: "challenge \<Rightarrow> credential \<Rightarrow> string \<Rightarrow> request \<Rightarrow> bool" where
  "answerable ch cred cn req \<longleftrightarrow>
     auth_scheme_wf (ch_scheme ch) \<and> quote_free (ch_realm ch) \<and> quote_free (ch_nonce ch)
     \<and> (case ch_opaque ch of None \<Rightarrow> True | Some x \<Rightarrow> quote_free x)
     \<and> quote_free (digest_username cred) \<and> quote_free cn \<and> uri_wf (req_uri req) \<and> quote_free (show_uri (req_uri req))"

lemma encode_lower_hex_quote_free: "quote_free (encode_lower_hex bs)"
proof -
  have "list_all is_ascii_hexdigit (encode_lower_hex bs)" using hex_bytes [of bs] by (simp add: encode_lower_hex_def)
  moreover have "\<not> is_ascii_hexdigit CHR 0x22" by code_simp
  ultimately show ?thesis by (auto simp: quote_free_def list_all_iff)
qed

lemma answer_wf: "answerable ch cred cn req \<Longrightarrow> authorization_wf (answer_challenge H cred cn req ch)"
  by (auto simp: answerable_def authorization_wf_def answer_challenge_def Let_def digest_compute_def hash_value_def
      encode_lower_hex_quote_free split: option.splits qop.splits)

lemma extract_shown_uri:
  "authorization_wf a \<Longrightarrow> extract_digest_uri_raw (show_authorization a) = Some (show_uri (az_uri a))"
  by (simp add: extract_digest_uri_raw_def tokenize_shown auth_lookups)

lemma answer_verifies:
  fixes H :: hasher
  assumes "answerable ch cred cn req"
  defines "a \<equiv> answer_challenge H cred cn req ch"
  shows "verify_digest H a (cr_password cred) (req_method req) (show_authorization a)"
proof -
  define q where "q = (case ch_qop ch of Some QopAuth \<Rightarrow> Some (AuthQop cn 1) | Some QopAuthInt \<Rightarrow> Some (AuthIntQop cn 1) | None \<Rightarrow> None)"
  define g where "g = \<lparr>dg_username = digest_username cred, dg_password = cr_password cred, dg_nonce = ch_nonce ch,
      dg_uri = req_uri req, dg_realm = ch_realm ch, dg_method = req_method req, dg_qop = q,
      dg_algorithm = unwrap_or (ch_algorithm ch) Md5\<rparr>"
  have "authorization_wf a" unfolding a_def using assms(1) by (rule answer_wf)
  moreover have "case dg_qop g of None \<Rightarrow> True | Some q \<Rightarrow> nonce_count q < 10"
    by (simp add: g_def q_def split: option.split qop.split)
  moreover have "az_response a = digest_compute H g"
    by (simp add: a_def answer_challenge_def g_def q_def Let_def)
  ultimately show ?thesis
    using compute_digest_agrees [of g H]
    by (simp add: verify_digest_def extract_shown_uri) (simp add: a_def answer_challenge_def g_def q_def Let_def unwrap_or_def)
qed

interpretation authorization_variant: header_variant H_Authorization by unfold_locales simp_all
interpretation proxy_authorization_variant: header_variant H_ProxyAuthorization by unfold_locales simp_all

lemma authenticated_request_parts:
  assumes "authenticated_request H branch cn seq req d resp cred = Inr req'" and "challenge_header resp = Some (proxy, v)"
    and "www_authenticate_parse (trim v) = Inr ch"
  shows "header_opt (if proxy then H_ProxyAuthorization else H_Authorization) (req_headers req')
      = Some (show_authorization (answer_challenge H cred cn req ch))"
    and "req_method req' = req_method req" "req_uri req' = req_uri req" "req_body req' = req_body req"
    and "header_opt (if proxy then H_Authorization else H_ProxyAuthorization) (req_headers req') = None"
proof -
  from assms obtain cseq via hs where req': "req' = req\<lparr>req_headers :=
      unique_push (if proxy then H_ProxyAuthorization (show_authorization (answer_challenge H cred cn req ch))
                   else H_Authorization (show_authorization (answer_challenge H cred cn req ch)))
        (headers_retain (\<lambda>h. \<not> matches_header [H_ProxyAuthenticate, H_Authorization, H_WwwAuthenticate, H_ProxyAuthorization] h)
          (unique_push (H_Via (show_via (renew_branch branch via))) (header_replace H_CSeq cseq (req_headers req))))\<rparr>"
    by (auto simp: authenticated_request_def Let_def proxy_authenticate_parse_def show_proxy_authorization_def
        and_then_eq_Inr split: if_splits)
  show "header_opt (if proxy then H_ProxyAuthorization else H_Authorization) (req_headers req')
      = Some (show_authorization (answer_challenge H cred cn req ch))"
    by (simp add: req' authorization_variant.opt_unique_push proxy_authorization_variant.opt_unique_push)
  show "req_method req' = req_method req" "req_uri req' = req_uri req" "req_body req' = req_body req"
    by (simp_all add: req')
  show "header_opt (if proxy then H_Authorization else H_ProxyAuthorization) (req_headers req') = None"
    by (auto simp: req' header_opt_def find_map_None unique_push_def headers_push_def headers_retain_def matches_header_def variant_def)
qed

text \<open>C28: the request made for a challenge carries the answer in the header that goes with the
  challenge, and no other answer. The header's value parses, names the realm and nonce of the challenge, and
  \<open>verify_digest\<close> accepts it for the password of the credential.\<close>

theorem challenge_answer_accepted:
  assumes made: "authenticated_request H branch cn seq req d resp cred = Inr req'"
    and chosen: "challenge_header resp = Some (proxy, v)" and parsed: "www_authenticate_parse (trim v) = Inr ch"
    and wf: "answerable ch cred cn req"
  shows "\<exists>w a. header_opt (if proxy then H_ProxyAuthorization else H_Authorization) (req_headers req') = Some w
      \<and> header_opt (if proxy then H_Authorization else H_ProxyAuthorization) (req_headers req') = None
      \<and> authorization_parse w = Inr a \<and> az_realm a = ch_realm ch \<and> az_nonce a = ch_nonce ch \<and> az_uri a = req_uri req'
      \<and> verify_digest H a (cr_password cred) (req_method req') w"
proof -
  note parts = authenticated_request_parts [OF made chosen parsed]
  let ?a = "answer_challenge H cred cn req ch"
  have "authorization_parse (show_authorization ?a) = Inr ?a"
    by (rule authorization_parse_shown) (rule answer_wf [OF wf])
  moreover have "az_realm ?a = ch_realm ch" "az_nonce ?a = ch_nonce ch" "az_uri ?a = req_uri req"
    by (simp_all add: answer_challenge_def Let_def)
  ultimately show ?thesis
    using answer_verifies [OF wf] parts by (intro exI [of _ "show_authorization ?a"] exI [of _ ?a]) simp
qed

text \<open>A server challenges an INVITE.\<close>

definition example_credential :: credential where
  "example_credential = \<lparr>cr_username = ''alice'', cr_password = ''secret'', cr_realm = None, cr_auth_username = Some []\<rparr>"

definition example_challenge :: string where
  "example_challenge = ''Digest realm='' @ dquoted ''example.com'' @ '', nonce='' @ dquoted ''n1'' @ '', qop='' @ dquoted ''auth''"

definition example_401 :: response where
  "example_401 = response_default\<lparr>resp_status := SC_Unauthorized, resp_headers := [H_WwwAuthenticate example_challenge]\<rparr>"

definition zero_hash :: hasher where
  "zero_hash k v = [0]"

lemma example_challenge_parsed:
  "\<exists>ch. www_authenticate_parse (trim example_challenge) = Inr ch \<and> answerable ch example_credential ''c1'' example_invite"
proof -
  have "www_authenticate_parse (trim example_challenge) = Inr \<lparr>ch_scheme = Digest, ch_realm = ''example.com'', ch_domain = None,
      ch_nonce = ''n1'', ch_opaque = None, ch_stale = None, ch_algorithm = None, ch_qop = Some QopAuth, ch_charset = None\<rparr>"
    by code_simp
  moreover have "uri_wf (req_uri example_invite)" "quote_free (show_uri (req_uri example_invite))"
    by code_simp+
  ultimately show ?thesis
    by (simp add: answerable_def quote_free_def example_credential_def digest_username_def)
qed

lemma example_parts:
  "\<exists>c. and_then (cseq_header (req_headers example_invite)) (cseq_mut_seq 8) = Inr c"
  "\<exists>v. and_then (top_via_header (req_headers example_invite)) via_typed = Inr v"
  by (rule exI, code_simp)+

lemma parse_hex_a: "parse_hex 8 ''0000000a'' = Inr 10"
  by code_simp

lemma padded_ten: "pad8 (show_nat 10) = ''00000010''" "pad8 (show_hex 10) = ''0000000a''"
  by code_simp+

lemma challenge_answer_accepted_witness:
  "\<exists>req' w a. authenticated_request zero_hash (P_Branch ''z9hG4bKx'') ''c1'' 8 example_invite (Inl AddrParseError) example_401
        example_credential = Inr req'
      \<and> header_opt H_Authorization (req_headers req') = Some w \<and> authorization_parse w = Inr a
      \<and> verify_digest zero_hash a ''secret'' Invite w"
proof -
  define v where "v = example_challenge"
  have chosen: "challenge_header example_401 = Some (False, v)"
    by (simp add: challenge_header_def example_401_def variant_def v_def)
  obtain ch where ch: "www_authenticate_parse (trim v) = Inr ch"
    and wf: "answerable ch example_credential ''c1'' example_invite"
    using example_challenge_parsed by (auto simp: v_def)
  obtain req' where made: "authenticated_request zero_hash (P_Branch ''z9hG4bKx'') ''c1'' 8 example_invite (Inl AddrParseError)
      example_401 example_credential = Inr req'"
    using example_parts chosen ch by (auto simp: authenticated_request_def Let_def)
  show ?thesis
    using challenge_answer_accepted [OF made chosen ch wf] made authenticated_request_parts(2) [OF made chosen ch]
    by (auto simp: example_credential_def example_invite_def)
qed

text \<open>A nonce count of ten reads \<open>0000000a\<close> on the wire. \<open>DigestGenerator::verify\<close> accepts the
  response of a client that counts in hexadecimal, \<open>verify_digest\<close> hashes the decimal \<open>00000010\<close> and rejects it,
  unless the two texts have the same hash.\<close>

theorem nonce_count_rejected:
  fixes H :: hasher
  assumes nc: "parse_hex 8 ''0000000a'' = Inr n" and q: "az_qop a = Some (AuthQop cn n)"
    and answer: "az_response a = digest_compute H (digest_from a password m)"
    and raw: "extract_digest_uri_raw raw = Some (show_uri (az_uri a))"
    and collision_free: "\<And>ha1 ha2. hash_value H (unwrap_or (az_algorithm a) Md5) (colons [ha1, az_nonce a, ''0000000a'', cn, ''auth'', ha2])
        \<noteq> hash_value H (unwrap_or (az_algorithm a) Md5) (colons [ha1, az_nonce a, ''00000010'', cn, ''auth'', ha2])"
  shows "digest_verify H (digest_from a password m) (az_response a) \<and> \<not> verify_digest H a password m raw"
proof -
  have n: "n = 10" using nc parse_hex_a by simp
  have "\<not> verify_digest H a password m raw"
    using collision_free
    by (simp add: verify_digest_def raw answer compute_digest_def digest_compute_def digest_ha1_def digest_ha2_def digest_from_def
        q n Let_def padded_ten) metis
  then show ?thesis by (simp add: digest_verify_def answer)
qed

text \<open>A hash that tells the two texts apart: the parity of the number of letters \<open>a\<close>.\<close>

definition parity_hash :: hasher where
  "parity_hash k v = [if even (length (filter (\<lambda>c. c = CHR ''a'') v)) then 0 else 1]"

definition example_counted :: authorization where
  "example_counted =
     (let a = \<lparr>az_scheme = Digest, az_username = ''alice'', az_realm = ''r'', az_nonce = ''n1'', az_uri = example_uri, az_response = [],
               az_algorithm = None, az_opaque = None, az_qop = Some (AuthQop ''c1'' 10)\<rparr>
      in a\<lparr>az_response := digest_compute parity_hash (digest_from a ''secret'' Register)\<rparr>)"

lemma nonce_count_rejected_witness:
  "digest_verify parity_hash (digest_from example_counted ''secret'' Register) (az_response example_counted)
   \<and> \<not> verify_digest parity_hash example_counted ''secret'' Register (''Digest uri='' @ dquoted (show_uri example_uri))"
proof (rule nonce_count_rejected [OF parse_hex_a, where cn = "''c1''"])
  show "az_qop example_counted = Some (AuthQop ''c1'' 10)" by (simp add: example_counted_def Let_def)
  show "az_response example_counted = digest_compute parity_hash (digest_from example_counted ''secret'' Register)"
    by (simp add: example_counted_def Let_def digest_from_def)
  have "auth_tokenize (''Digest'' @ '' '' @ show_items [(''uri'', True, show_uri example_uri)]) = Inr (''Digest'', [(''uri'', show_uri example_uri)])"
    by (subst auth_tokenize_items) (simp_all add: item_key_wf example_uri_quote_free is_ws_def del: item_wf.simps)
  then show "extract_digest_uri_raw (''Digest uri='' @ dquoted (show_uri example_uri)) = Some (show_uri (az_uri example_counted))"
    by (simp add: extract_digest_uri_raw_def show_items_def find_auth_param_def example_counted_def Let_def)
  have "encode_lower_hex [0] \<noteq> encode_lower_hex [1]" by code_simp
  then show "hash_value parity_hash (unwrap_or (az_algorithm example_counted) Md5) (colons [ha1, az_nonce example_counted, ''0000000a'', ''c1'', ''auth'', ha2])
      \<noteq> hash_value parity_hash (unwrap_or (az_algorithm example_counted) Md5) (colons [ha1, az_nonce example_counted, ''00000010'', ''c1'', ''auth'', ha2])"
    for ha1 ha2
    by (auto simp: hash_value_def parity_hash_def colons_def)
qed

end
