(* ===== verification/Dialog.thy ===== *)
theory Dialog
  imports Digest_Auth Endpoint
begin

text \<open>
  The dialog of \<open>dialog/dialog.rs\<close>: its states, the fields of \<open>DialogInner\<close>, its construction from
  the initial request, the requests and responses it makes, the transition function, and snapshots. A
  dialog is shared between tasks behind locks; here it is a value, and an operation returns the changed one.
  What \<open>state_sender\<close> notified is the log \<open>d_notified\<close>. A transaction handle is the channel the
  application answers through; its commands are an argument of the handlers.
\<close>

section \<open>States\<close>

datatype terminated_reason =
    TR_Timeout | TR_UacCancel | TR_UacBye | TR_UasBye | TR_UacBusy | TR_UasBusy | TR_UasDecline
  | TR_ProxyError status_code | TR_ProxyAuthRequired | TR_UacOther status_code | TR_UasOther status_code

datatype dialog_state =
    DS_Calling dialog_id
  | DS_Trying dialog_id
  | DS_Early dialog_id response
  | DS_WaitAck dialog_id response
  | DS_Confirmed dialog_id response
  | DS_Updated dialog_id request
  | DS_Publish dialog_id request
  | DS_Notify dialog_id request
  | DS_Refer dialog_id request
  | DS_Message dialog_id request
  | DS_Info dialog_id request
  | DS_Options dialog_id request
  | DS_Terminated dialog_id terminated_reason

fun ds_id :: "dialog_state \<Rightarrow> dialog_id" where
  "ds_id (DS_Calling i) = i"
| "ds_id (DS_Trying i) = i"
| "ds_id (DS_Early i _) = i"
| "ds_id (DS_WaitAck i _) = i"
| "ds_id (DS_Confirmed i _) = i"
| "ds_id (DS_Updated i _) = i"
| "ds_id (DS_Publish i _) = i"
| "ds_id (DS_Notify i _) = i"
| "ds_id (DS_Info i _) = i"
| "ds_id (DS_Options i _) = i"
| "ds_id (DS_Refer i _) = i"
| "ds_id (DS_Message i _) = i"
| "ds_id (DS_Terminated i _) = i"

fun ds_can_cancel :: "dialog_state \<Rightarrow> bool" where
  "ds_can_cancel (DS_Calling _) = True"
| "ds_can_cancel (DS_Trying _) = True"
| "ds_can_cancel (DS_Early _ _) = True"
| "ds_can_cancel _ = False"

fun ds_is_confirmed :: "dialog_state \<Rightarrow> bool" where
  "ds_is_confirmed (DS_Confirmed _ _) = True"
| "ds_is_confirmed _ = False"

fun ds_is_terminated :: "dialog_state \<Rightarrow> bool" where
  "ds_is_terminated (DS_Terminated _ _) = True"
| "ds_is_terminated _ = False"

fun ds_waiting_ack :: "dialog_state \<Rightarrow> bool" where
  "ds_waiting_ack (DS_WaitAck _ _) = True"
| "ds_waiting_ack _ = False"

text \<open>The reason inside a terminated state is printed with \<open>{:?}\<close>; its text is left out.\<close>

fun show_dialog_state :: "dialog_state \<Rightarrow> string" where
  "show_dialog_state (DS_Calling i) = show_dialog_id i @ ''(Calling)''"
| "show_dialog_state (DS_Trying i) = show_dialog_id i @ ''(Trying)''"
| "show_dialog_state (DS_Early i _) = show_dialog_id i @ ''(Early)''"
| "show_dialog_state (DS_WaitAck i _) = show_dialog_id i @ ''(WaitAck)''"
| "show_dialog_state (DS_Confirmed i _) = show_dialog_id i @ ''(Confirmed)''"
| "show_dialog_state (DS_Updated i _) = show_dialog_id i @ ''(Updated)''"
| "show_dialog_state (DS_Publish i _) = show_dialog_id i @ ''(Publish)''"
| "show_dialog_state (DS_Notify i _) = show_dialog_id i @ ''(Notify)''"
| "show_dialog_state (DS_Info i _) = show_dialog_id i @ ''(Info)''"
| "show_dialog_state (DS_Options i _) = show_dialog_id i @ ''(Options)''"
| "show_dialog_state (DS_Refer i _) = show_dialog_id i @ ''(Refer)''"
| "show_dialog_state (DS_Message i _) = show_dialog_id i @ ''(Message)''"
| "show_dialog_state (DS_Terminated i _) = show_dialog_id i @ ''(Terminated)''"

section \<open>The status of a REFER\<close>

record refer_status =
  rs_status_code :: status_code
  rs_is_terminated :: bool

fun contains :: "string \<Rightarrow> string \<Rightarrow> bool" where
  "contains s p = (starts_with s p \<or> (case s of [] \<Rightarrow> False | _ # cs \<Rightarrow> contains cs p))"

declare contains.simps [simp del]

definition other_header :: "string \<Rightarrow> header list \<Rightarrow> string option" where
  "other_header name hs =
     find_map (\<lambda>h. case h of H_Other n v \<Rightarrow> if eq_ignore_ascii_case n name then Some (map to_ascii_lowercase v) else None
                  | _ \<Rightarrow> None) hs"

text \<open>\<open>str::lines\<close>: the lines between line feeds, without a carriage return at their end.\<close>

definition body_lines :: "string \<Rightarrow> string list" where
  "body_lines s =
     (let ls = split_on (\<lambda>c. c = CHR 0x0A) s in map strip_cr (if last ls = [] then butlast ls else ls))"

definition refer_status_parse :: "request \<Rightarrow> refer_status option" where
  "refer_status_parse req =
     Option.bind (other_header ''event'' (req_headers req)) (\<lambda>event.
     if \<not> contains event ''refer'' then None
     else Option.bind (other_header ''subscription-state'' (req_headers req)) (\<lambda>sub_state.
     if \<not> utf8_valid (req_body req) then None
     else Option.bind (find (\<lambda>l. starts_with l ''SIP/2.0'') (body_lines (req_body req))) (\<lambda>status_line.
     case split_whitespace status_line of
       _ # code # _ \<Rightarrow>
         Option.bind (ok (parse_uint 16 code)) (\<lambda>c.
         Some \<lparr>rs_status_code = from_code c ''Other'', rs_is_terminated = contains sub_state ''terminated''\<rparr>)
     | _ \<Rightarrow> None)))"

section \<open>The fields of a dialog\<close>

record session_id_state =
  sid_local :: string
  sid_remote :: "string option"

text \<open>\<open>d_channel\<close> names the channel of the transaction that made the dialog; a restored dialog has a
  channel that drops what is sent to it.\<close>

record dialog =
  d_role :: transaction_role
  d_cancelled :: bool
  d_id :: dialog_id
  d_state :: dialog_state
  d_local_seq :: "32 word"
  d_local_contact :: "uri option"
  d_remote_contact :: "string option"
  d_remote_seq :: nat
  d_remote_uri :: uri
  d_from :: name_addr
  d_to :: name_addr
  d_credential :: "credential option"
  d_route_set :: "string list"
  d_notified :: "dialog_state list"
  d_channel :: "nat option"
  d_session_id :: "session_id_state option"
  d_initial_request :: request
  d_supports_100rel :: bool
  d_remote_reliable :: "(nat \<times> request) option"
  d_remote_ack :: "request option"
  d_next_ack_body :: "bytes option"
  d_last_sent_ack :: "request option"
  d_server_connection :: "sip_connection option"
  d_dialback_target :: "sip_addr option"

text \<open>\<open>uuid\<close> is the result of \<open>make_dialog_session_uuid\<close>.\<close>

definition extract_session_id :: "string \<Rightarrow> request \<Rightarrow> transaction_role \<Rightarrow> session_id_state option" where
  "extract_session_id uuid req role =
     Option.bind (session_id_header (req_headers req)) (\<lambda>sid.
     if \<not> session_is_valid_header sid then None
     else Option.bind (local_uuid sid) (\<lambda>peer.
       Some (case role of
           ClientRole \<Rightarrow> \<lparr>sid_local = peer, sid_remote = remote_uuid sid\<rparr>
         | ServerRole \<Rightarrow> \<lparr>sid_local = uuid, sid_remote = Some peer\<rparr>)))"

definition ensure_tag_param :: "string \<Rightarrow> name_addr \<Rightarrow> name_addr" where
  "ensure_tag_param tag n =
     (if tag \<noteq> [] \<and> params_tag (na_params n) = None then n\<lparr>na_params := na_params n @ [P_Tag tag]\<rparr> else n)"

definition header_routes :: "header list \<Rightarrow> string list" where
  "header_routes hs = concat (map split_rr_values (all_headers H_RecordRoute hs))"

text \<open>The URI of the first Contact.\<close>

definition first_contact_uri :: "header list \<Rightarrow> error + uri" where
  "first_contact_uri hs =
     and_then (sip_try (typed_contact_headers hs)) (\<lambda>cs.
     case cs of c # _ \<Rightarrow> Inr (na_uri c) | [] \<Rightarrow> Inl (Error ''missing Contact header''))"

definition dialog_new ::
    "string \<Rightarrow> transaction_role \<Rightarrow> dialog_id \<Rightarrow> request \<Rightarrow> credential option \<Rightarrow> uri option \<Rightarrow> nat option \<Rightarrow> error + dialog" where
  "dialog_new uuid role i req cred contact channel =
     and_then (sip_try (and_then (cseq_header (req_headers req)) cseq_value_seq)) (\<lambda>cseq.
     and_then (case role of ClientRole \<Rightarrow> Inr (req_uri req) | ServerRole \<Rightarrow> first_contact_uri (req_headers req)) (\<lambda>remote_uri.
     and_then (sip_try (and_then (from_header (req_headers req)) (\<lambda>v. from_parse (trim v)))) (\<lambda>from_na.
     and_then (sip_try (and_then (to_header (req_headers req)) (\<lambda>v. to_parse (trim v)))) (\<lambda>to_na.
     Inr \<lparr>d_role = role, d_cancelled = False, d_id = i, d_state = DS_Calling i, d_local_seq = word_of_nat cseq,
          d_local_contact = contact, d_remote_contact = None, d_remote_seq = 0, d_remote_uri = remote_uri, d_from = from_na,
          d_to = ensure_tag_param (case role of ClientRole \<Rightarrow> did_remote_tag i | ServerRole \<Rightarrow> did_local_tag i) to_na,
          d_credential = cred, d_route_set = (case role of ServerRole \<Rightarrow> header_routes (req_headers req) | ClientRole \<Rightarrow> []),
          d_notified = [], d_channel = channel, d_session_id = extract_session_id uuid req role, d_initial_request = req,
          d_supports_100rel = (header_contains_token ''Supported'' ''100rel'' (req_headers req)
                               \<or> header_contains_token ''Require'' ''100rel'' (req_headers req)),
          d_remote_reliable = None, d_remote_ack = None, d_next_ack_body = None, d_last_sent_ack = None,
          d_server_connection = None, d_dialback_target = None\<rparr>))))"

section \<open>Small operations\<close>

definition observe_peer_session_uuid :: "string option \<Rightarrow> dialog \<Rightarrow> dialog" where
  "observe_peer_session_uuid peer d =
     (case peer of
        None \<Rightarrow> d
      | Some uuid \<Rightarrow>
          if \<not> uuid_is_valid uuid \<or> uuid = nil_uuid then d
          else d\<lparr>d_session_id := map_option (\<lambda>sid. if sid_local sid \<noteq> uuid then sid\<lparr>sid_remote := Some uuid\<rparr> else sid) (d_session_id d)\<rparr>)"

definition set_server_connection :: "sip_connection option \<Rightarrow> dialog \<Rightarrow> dialog" where
  "set_server_connection c d = d\<lparr>d_server_connection := c, d_dialback_target := Option.bind c get_remote_addr\<rparr>"

definition d_can_cancel :: "dialog \<Rightarrow> bool" where "d_can_cancel d = ds_can_cancel (d_state d)"
definition d_is_confirmed :: "dialog \<Rightarrow> bool" where "d_is_confirmed d = ds_is_confirmed (d_state d)"
definition d_is_terminated :: "dialog \<Rightarrow> bool" where "d_is_terminated d = ds_is_terminated (d_state d)"
definition d_waiting_ack :: "dialog \<Rightarrow> bool" where "d_waiting_ack d = ds_waiting_ack (d_state d)"

text \<open>\<open>fetch_add\<close> wraps around.\<close>

definition increment_local_seq :: "dialog \<Rightarrow> nat \<times> dialog" where
  "increment_local_seq d = (unat (d_local_seq d + 1), d\<lparr>d_local_seq := d_local_seq d + 1\<rparr>)"

definition update_remote_tag :: "string \<Rightarrow> dialog \<Rightarrow> dialog" where
  "update_remote_tag tag d =
     (let d = d\<lparr>d_id := (d_id d)\<lparr>did_remote_tag := tag\<rparr>\<rparr>
      in if d_role d = ClientRole then d\<lparr>d_to := na_with_tag tag (d_to d)\<rparr> else d)"

definition clear_remote_reliable :: "dialog \<Rightarrow> dialog" where
  "clear_remote_reliable d = d\<lparr>d_remote_reliable := None\<rparr>"

definition set_remote_target :: "uri \<Rightarrow> string option \<Rightarrow> dialog \<Rightarrow> dialog" where
  "set_remote_target u c d = d\<lparr>d_remote_uri := u, d_remote_contact := c\<rparr>"

definition update_route_set_from_response :: "response \<Rightarrow> dialog \<Rightarrow> dialog" where
  "update_route_set_from_response resp d =
     (if d_role d = ClientRole then d\<lparr>d_route_set := rev (header_routes (resp_headers resp))\<rparr> else d)"

text \<open>The established transport goes into a Contact that names none, unless it is a \<open>sips\<close> URI.\<close>

definition sticky_transport :: "uri \<Rightarrow> uri \<Rightarrow> uri" where
  "sticky_transport established contact =
     (case find_map (\<lambda>p. case p of P_Transport t \<Rightarrow> if t \<noteq> Udp then Some t else None | _ \<Rightarrow> None) (uri_params established) of
        Some t \<Rightarrow>
          if params_transport (uri_params contact) = None \<and> uri_scheme contact \<noteq> Some Sips
          then contact\<lparr>uri_params := uri_params contact @ [P_Transport t]\<rparr> else contact
      | None \<Rightarrow> contact)"

definition adopt_2xx_remote_target :: "response \<Rightarrow> dialog \<Rightarrow> (error + unit) \<times> dialog" where
  "adopt_2xx_remote_target resp d =
     (let d = update_route_set_from_response resp d in
      case sip_try (contact_header (resp_headers resp)) of
        Inl err \<Rightarrow> (Inl err, d)
      | Inr c \<Rightarrow>
          (let d = d\<lparr>d_remote_contact := Some c\<rparr> in
           case first_contact_uri (resp_headers resp) of
             Inl err \<Rightarrow> (Inl err, d)
           | Inr u \<Rightarrow> (Inr (), d\<lparr>d_remote_uri := sticky_transport (d_remote_uri d) u\<rparr>)))"

section \<open>The environment of the dialog layer\<close>

text \<open>\<open>de_env n\<close> is the environment of the transaction with channel \<open>n\<close>; its branch and tag are the
  random texts made for it. \<open>de_cancelled\<close> says which connections are closed.\<close>

record dialog_env =
  de_env :: "nat \<Rightarrow> env"
  de_hasher :: hasher
  de_cnonce :: "nat \<Rightarrow> string"
  de_addrs :: "sip_addr list"
  de_outbound :: "sip_addr option"
  de_cancelled :: "sip_connection \<Rightarrow> bool"

definition fresh_env :: "dialog_env \<Rightarrow> endpoint \<Rightarrow> env" where
  "fresh_env D e = de_env D (ep_next_channel e)"

section \<open>Requests\<close>

definition resolve_affinity_connection :: "dialog_env \<Rightarrow> dialog \<Rightarrow> sip_connection option" where
  "resolve_affinity_connection D d =
     (if d_route_set d \<noteq> [] then None
      else (case d_server_connection d of
          None \<Rightarrow> None
        | Some c \<Rightarrow> if \<not> is_reliable c \<or> de_cancelled D c then None else Some c))"

definition route_transport :: "string \<Rightarrow> transport option" where
  "route_transport v = Option.bind (ok (route_parse (trim v))) (\<lambda>r. params_transport (uri_params (na_uri r)))"

definition send_transport :: "dialog_env \<Rightarrow> endpoint \<Rightarrow> dialog \<Rightarrow> transport option" where
  "send_transport D e d =
     (case resolve_affinity_connection D d of
        Some c \<Rightarrow> sa_type (conn_addr c)
      | None \<Rightarrow>
          if env_locator (fresh_env D e) \<noteq> None then None
          else (case de_outbound D of
              Some outbound \<Rightarrow> sa_type outbound
            | None \<Rightarrow>
                (case d_route_set d of
                   r # _ \<Rightarrow> route_transport r
                 | [] \<Rightarrow> params_transport (uri_params (d_remote_uri d)))))"

definition via_addr_for_send_transport :: "dialog_env \<Rightarrow> endpoint \<Rightarrow> dialog \<Rightarrow> sip_addr option" where
  "via_addr_for_send_transport D e d =
     (case send_transport D e d of
        Some t \<Rightarrow> if t = Udp then None else find (\<lambda>a. sa_type a = Some t) (de_addrs D)
      | None \<Rightarrow> None)"

definition is_system_header :: "header \<Rightarrow> bool" where
  "is_system_header = matches_header [H_Via, H_CallId, H_From, H_To, H_CSeq, H_MaxForwards, H_ContentLength, H_Route]"

definition build_session_id_header :: "string \<Rightarrow> string option \<Rightarrow> header option" where
  "build_session_id_header lcl remote =
     map_option H_SessionId (ok (case remote of Some r \<Rightarrow> session_from_pair lcl r | None \<Rightarrow> session_from_local lcl))"

definition option_list :: "'a option \<Rightarrow> 'a list" where
  "option_list x = (case x of None \<Rightarrow> [] | Some a \<Rightarrow> [a])"

definition body_length_header :: "bytes option \<Rightarrow> header" where
  "body_length_header body = H_ContentLength (show_u32 (case body of None \<Rightarrow> 0 | Some b \<Rightarrow> length b))"

definition contact_headers :: "dialog \<Rightarrow> header list" where
  "contact_headers d = map (\<lambda>u. H_Contact (show_contact (name_addr_of_uri u))) (option_list (d_local_contact d))"

definition make_request_with_vias ::
    "string \<Rightarrow> sip_method \<Rightarrow> nat option \<Rightarrow> typed_via list \<Rightarrow> header list option \<Rightarrow> bytes option \<Rightarrow> dialog \<Rightarrow> request \<times> dialog" where
  "make_request_with_vias user_agent m cseq vias headers body d =
     (let (seq, d) = (case cseq of Some n \<Rightarrow> (n, d) | None \<Rightarrow> increment_local_seq d);
          to_str = show_name_addr (d_to d);
          from_str = show_name_addr (d_from d);
          out = map (\<lambda>v. H_Via (show_via v)) vias @ [H_CallId (did_call_id (d_id d))]
            @ (case d_role d of
                 ClientRole \<Rightarrow> [H_From from_str, H_To to_str]
               | ServerRole \<Rightarrow> [H_From to_str, H_To from_str])
            @ [H_CSeq (show_cseq \<lparr>cseq_seq = seq, cseq_method = m\<rparr>), H_UserAgent user_agent]
            @ contact_headers d
            @ map H_Route (d_route_set d)
            @ [H_MaxForwards ''70'']
            @ (case d_session_id d of
                 Some sid \<Rightarrow>
                   if list_ex (matches_header [H_SessionId]) (unwrap_or headers []) then []
                   else option_list (build_session_id_header (sid_local sid) (sid_remote sid))
               | None \<Rightarrow> [])
            @ [body_length_header body]
            @ filter (\<lambda>h. \<not> is_system_header h) (unwrap_or headers [])
      in (\<lparr>req_method = m, req_uri = d_remote_uri d, req_version = V2, req_headers = out, req_body = unwrap_or body []\<rparr>, d))"

definition dialog_request ::
    "dialog_env \<Rightarrow> endpoint \<Rightarrow> sip_method \<Rightarrow> nat option \<Rightarrow> sip_addr option \<Rightarrow> param option \<Rightarrow> header list option \<Rightarrow> bytes option \<Rightarrow> dialog
     \<Rightarrow> (error + request) \<times> dialog" where
  "dialog_request D e m cseq addr branch headers body d =
     (let addr = (case addr of Some a \<Rightarrow> Some a | None \<Rightarrow> via_addr_for_send_transport D e d) in
      case get_via (fresh_env D e) (de_addrs D) addr branch of
        Inl err \<Rightarrow> (Inl err, d)
      | Inr via \<Rightarrow> (case make_request_with_vias (ep_user_agent e) m cseq [via] headers body d of (req, d) \<Rightarrow> (Inr req, d)))"

text \<open>The PRACK of a reliable provisional response, remembered with its RSeq.\<close>

definition make_prack :: "dialog_env \<Rightarrow> endpoint \<Rightarrow> nat \<Rightarrow> nat \<Rightarrow> sip_method \<Rightarrow> dialog \<Rightarrow> (error + request option) \<times> dialog" where
  "make_prack D e rseq cseq m d =
     (let headers = H_RAck (show_nat rseq @ '' '' @ show_nat cseq @ '' '' @ show_method m)
                      # (if d_supports_100rel d then [H_Supported ''100rel''] else []);
          (seq, d) = increment_local_seq d
      in case dialog_request D e PRack (Some seq) None None (Some headers) None d of
           (Inl err, d) \<Rightarrow> (Inl err, d)
         | (Inr prack, d) \<Rightarrow> (Inr (Some prack), d\<lparr>d_remote_reliable := Some (rseq, prack)\<rparr>))"

definition prepare_prack_request :: "dialog_env \<Rightarrow> endpoint \<Rightarrow> response \<Rightarrow> dialog \<Rightarrow> (error + request option) \<times> dialog" where
  "prepare_prack_request D e resp d =
     (if \<not> header_contains_token ''Require'' ''100rel'' (resp_headers resp) then (Inr None, d)
      else (case rseq_value (resp_headers resp) of
          None \<Rightarrow> (Inr None, d)
        | Some rseq \<Rightarrow>
            (case sip_try (and_then (cseq_header (resp_headers resp)) (\<lambda>v.
                    and_then (cseq_value_seq v) (\<lambda>seq. and_then (cseq_value_method v) (\<lambda>m. Inr (seq, m))))) of
               Inl err \<Rightarrow> (Inl err, d)
             | Inr (cseq, m) \<Rightarrow>
                 (case d_remote_reliable d of
                    Some (last_rseq, prack) \<Rightarrow>
                      if last_rseq = rseq then (Inr (Some prack), d)
                      else if last_rseq > rseq then (Inr None, d)
                      else make_prack D e rseq cseq m d
                  | None \<Rightarrow> make_prack D e rseq cseq m d))))"

section \<open>Responses\<close>

text \<open>What a header of the request leaves in the response.\<close>

definition response_header :: "status_code \<Rightarrow> string \<Rightarrow> header \<Rightarrow> header list" where
  "response_header status local_tag h =
     (if matches_header [H_Via, H_From, H_CSeq, H_CallId, H_RecordRoute] h then [h]
      else (case variant H_To h of
          Some v \<Rightarrow>
            (case to_parse (trim v) of
               Inl _ \<Rightarrow> []
             | Inr to_na \<Rightarrow>
                 [H_To (show_name_addr
                    (if status \<noteq> SC_Trying \<and> params_tag (na_params to_na) = None
                     then to_na\<lparr>na_params := na_params to_na @ [P_Tag local_tag]\<rparr> else to_na))])
        | None \<Rightarrow> []))"

definition is_other_named :: "string \<Rightarrow> header \<Rightarrow> bool" where
  "is_other_named name h \<longleftrightarrow> (case h of H_Other n _ \<Rightarrow> map to_ascii_lowercase n = map to_ascii_lowercase name | _ \<Rightarrow> False)"

definition add_user_header :: "header \<Rightarrow> header list \<Rightarrow> header list" where
  "add_user_header h hs =
     (case h of
        H_Other name _ \<Rightarrow> headers_push h (headers_retain (\<lambda>x. \<not> is_other_named name x) hs)
      | H_HistoryInfo _ \<Rightarrow> headers_push h hs
      | _ \<Rightarrow> unique_push h hs)"

definition session_and_history :: "request \<Rightarrow> header list option \<Rightarrow> dialog \<Rightarrow> header list" where
  "session_and_history req headers d =
     (let peer = Option.bind (session_id_header (req_headers req)) local_uuid;
          history = filter (matches_header [H_HistoryInfo]) (req_headers req)
      in (case d_session_id d of
            Some sid \<Rightarrow> option_list (build_session_id_header (sid_local sid) (case peer of Some p \<Rightarrow> Some p | None \<Rightarrow> sid_remote sid))
          | None \<Rightarrow> [])
         @ (if list_ex (matches_header [H_HistoryInfo]) (unwrap_or headers []) then [] else history))"

definition dialog_response ::
    "string \<Rightarrow> request \<Rightarrow> status_code \<Rightarrow> header list option \<Rightarrow> bytes option \<Rightarrow> dialog \<Rightarrow> response" where
  "dialog_response user_agent req status headers body d =
     (let hs = concat (map (response_header status (did_local_tag (d_id d))) (req_headers req))
            @ contact_headers d
            @ (if status \<noteq> SC_Trying then session_and_history req headers d else []);
          hs = fold add_user_header (unwrap_or headers []) hs;
          hs = headers_retain (\<lambda>h. \<not> matches_header [H_ContentLength, H_UserAgent] h) hs
      in \<lparr>resp_synthetic = False, resp_received_from = None, resp_wire_reason = None, resp_status = status,
          resp_version = req_version req, resp_headers = hs @ [body_length_header body, H_UserAgent user_agent],
          resp_body = unwrap_or body []\<rparr>)"

section \<open>State changes\<close>

definition is_request_event :: "dialog_state \<Rightarrow> bool" where
  "is_request_event s \<longleftrightarrow>
     (case s of DS_Updated _ _ \<Rightarrow> True | DS_Notify _ _ \<Rightarrow> True | DS_Info _ _ \<Rightarrow> True | DS_Options _ _ \<Rightarrow> True
      | DS_Refer _ _ \<Rightarrow> True | _ \<Rightarrow> False)"

definition d_transition :: "dialog_state \<Rightarrow> dialog \<Rightarrow> dialog" where
  "d_transition s d =
     (if ds_is_terminated (d_state d) then d
      else if is_request_event s then d\<lparr>d_notified := d_notified d @ [s]\<rparr>
      else if ds_is_confirmed (d_state d) \<and> ds_waiting_ack s then d
      else d\<lparr>d_state := s, d_notified := d_notified d @ [s]\<rparr>)"

section \<open>Snapshots\<close>

datatype snapshot_state = SS_Calling | SS_Trying | SS_Early | SS_WaitAck | SS_Confirmed | SS_Terminated

record snapshot =
  sn_state :: snapshot_state
  sn_role :: transaction_role
  sn_id :: dialog_id
  sn_from :: name_addr
  sn_to :: name_addr
  sn_local_cseq :: nat
  sn_remote_cseq :: nat
  sn_local_contact :: "uri option"
  sn_remote_uri :: uri
  sn_remote_contact :: "string option"
  sn_route_set :: "string list"
  sn_supports_100rel :: bool
  sn_session_id :: "session_id_state option"

fun snapshot_state_of :: "dialog_state \<Rightarrow> snapshot_state" where
  "snapshot_state_of (DS_Calling _) = SS_Calling"
| "snapshot_state_of (DS_Trying _) = SS_Trying"
| "snapshot_state_of (DS_Early _ _) = SS_Early"
| "snapshot_state_of (DS_WaitAck _ _) = SS_WaitAck"
| "snapshot_state_of (DS_Terminated _ _) = SS_Terminated"
| "snapshot_state_of _ = SS_Confirmed"

definition snapshot_of :: "dialog \<Rightarrow> snapshot" where
  "snapshot_of d =
     \<lparr>sn_state = snapshot_state_of (d_state d), sn_role = d_role d, sn_id = d_id d, sn_from = d_from d, sn_to = d_to d,
      sn_local_cseq = unat (d_local_seq d), sn_remote_cseq = d_remote_seq d, sn_local_contact = d_local_contact d,
      sn_remote_uri = d_remote_uri d, sn_remote_contact = d_remote_contact d, sn_route_set = d_route_set d,
      sn_supports_100rel = d_supports_100rel d, sn_session_id = d_session_id d\<rparr>"

definition restored_initial_request :: "string \<Rightarrow> name_addr \<Rightarrow> name_addr \<Rightarrow> snapshot \<Rightarrow> request" where
  "restored_initial_request user_agent from_na to_na s =
     \<lparr>req_method = Invite, req_uri = sn_remote_uri s, req_version = V2,
      req_headers =
        [H_CallId (did_call_id (sn_id s))]
        @ (case sn_role s of
             ClientRole \<Rightarrow> [H_From (show_name_addr from_na), H_To (show_name_addr to_na)]
           | ServerRole \<Rightarrow> [H_From (show_name_addr to_na), H_To (show_name_addr from_na)])
        @ [H_CSeq (show_cseq \<lparr>cseq_seq = sn_local_cseq s, cseq_method = Invite\<rparr>), H_UserAgent user_agent]
        @ map (\<lambda>u. H_Contact (show_contact (name_addr_of_uri u))) (option_list (sn_local_contact s))
        @ (case sn_session_id s of
             Some sid \<Rightarrow>
               option_list (case sn_role s of
                   ClientRole \<Rightarrow> build_session_id_header (sid_local sid) (sid_remote sid)
                 | ServerRole \<Rightarrow> build_session_id_header (unwrap_or (sid_remote sid) nil_uuid) (Some (sid_local sid)))
           | None \<Rightarrow> [])
        @ [H_ContentLength ''0''],
      req_body = []\<rparr>"

definition restore_tag :: "string \<Rightarrow> name_addr \<Rightarrow> name_addr" where
  "restore_tag tag n = (if tag \<noteq> [] \<and> params_tag (na_params n) = None then na_with_tag tag n else n)"

definition restore_from_snapshot :: "string \<Rightarrow> snapshot \<Rightarrow> dialog option" where
  "restore_from_snapshot user_agent s =
     (if sn_state s \<noteq> SS_Confirmed then None
      else
        (let to_na = ensure_tag_param (case sn_role s of ClientRole \<Rightarrow> did_remote_tag (sn_id s) | ServerRole \<Rightarrow> did_local_tag (sn_id s)) (sn_to s);
             from_na = restore_tag (case sn_role s of ClientRole \<Rightarrow> did_local_tag (sn_id s) | ServerRole \<Rightarrow> did_remote_tag (sn_id s)) (sn_from s)
         in Some \<lparr>d_role = sn_role s, d_cancelled = False, d_id = sn_id s, d_state = DS_Confirmed (sn_id s) response_default,
                  d_local_seq = word_of_nat (sn_local_cseq s), d_local_contact = sn_local_contact s,
                  d_remote_contact = sn_remote_contact s, d_remote_seq = sn_remote_cseq s, d_remote_uri = sn_remote_uri s,
                  d_from = from_na, d_to = to_na, d_credential = None, d_route_set = sn_route_set s, d_notified = [],
                  d_channel = None, d_session_id = sn_session_id s,
                  d_initial_request = restored_initial_request user_agent from_na to_na s,
                  d_supports_100rel = sn_supports_100rel s, d_remote_reliable = None, d_remote_ack = None,
                  d_next_ack_body = None, d_last_sent_ack = None, d_server_connection = None, d_dialback_target = None\<rparr>))"

text \<open>The address a request falls back to when no connection was found: the flow recorded when the
  dialog was made, else \<open>received\<close> and \<open>rport\<close> of the initial request's Via.\<close>

definition fallback_target_from_initial_via :: "request \<Rightarrow> sip_addr option" where
  "fallback_target_from_initial_via req =
     Option.bind (ok (and_then (via_header (req_headers req)) via_typed)) (\<lambda>via.
     Option.bind (via_received via) (\<lambda>r.
     Option.bind (ok r) (\<lambda>ip.
     Option.bind (Option.bind (via_rport via) id) (\<lambda>port.
     Some \<lparr>sa_type = Some (via_transport via), sa_addr = \<lparr>hwp_host = IpAddr ip, hwp_port = Some port\<rparr>\<rparr>))))"

definition dialback_address :: "dialog \<Rightarrow> sip_addr option" where
  "dialback_address d =
     (case d_dialback_target d of Some a \<Rightarrow> Some a | None \<Rightarrow> fallback_target_from_initial_via (d_initial_request d))"

end
