(* ===== verification/Dialog_Requests.thy ===== *)
theory Dialog_Requests
  imports Dialog
begin

text \<open>
  How a dialog sends a request and waits for its response (\<open>send_dialog_request\<close>, \<open>send_prack_request\<close>,
  \<open>send_bye\<close>, \<open>bye_forked_branch\<close> and \<open>end_session_without_ack\<close> of \<open>dialog/dialog.rs\<close>, and
  \<open>handle_client_authenticate\<close> of \<open>dialog/authenticate.rs\<close>).

  A task that awaits lets the others run. What they do to the dialog and the endpoint before it looks at
  its channel again is a \<open>turn\<close>, and an operation that awaits takes the list of the turns to come. When
  they are used up before the awaited message came, the operation is still \<open>Waiting\<close>.
\<close>

section \<open>Waiting\<close>

type_synonym world = "dialog \<times> endpoint"
type_synonym turn = "world \<Rightarrow> world"

datatype 'a await = Returned 'a | Waiting

type_synonym exchange = "(error + response option) await \<times> turn list \<times> world"

definition tx_env :: "dialog_env \<Rightarrow> st \<Rightarrow> env" where
  "tx_env D s = de_env D (tx_channel (fst s))"

text \<open>\<open>h\<close> is what a hook of the transaction does to the dialog, given the transaction before and after.\<close>

fun await_with ::
    "(st \<Rightarrow> st \<Rightarrow> dialog \<Rightarrow> dialog) \<Rightarrow> dialog_env \<Rightarrow> turn list \<Rightarrow> dialog \<Rightarrow> st \<Rightarrow> sip_message option await \<times> turn list \<times> dialog \<times> st" where
  "await_with h D [] d s = (Waiting, [], d, s)"
| "await_with h D (f # fs) d s =
     (case f (d, snd s) of (d, e) \<Rightarrow>
        (case receive (tx_env D s) (fst s, e) of
           (Obtained m, s') \<Rightarrow> (Returned (Some m), fs, h s s' d, s')
         | (Loop_ended, s') \<Rightarrow> (Returned None, fs, h s s' d, s')
         | (Blocked, s') \<Rightarrow> await_with h D fs (h s s' d) s'))"

lemma await_with_shorter: "await_with h D fs d s = (Returned r, fs', d', s') \<Longrightarrow> length fs' < length fs"
  by (induction h D fs d s rule: await_with.induct) (auto simp: less_Suc_eq split: prod.splits outcome.splits)

lemma await_with_le: "length (fst (snd (await_with h D fs d s))) \<le> length fs"
  by (induction h D fs d s rule: await_with.induct) (auto simp: le_Suc_eq split: prod.splits outcome.splits)

definition await_message :: "dialog_env \<Rightarrow> turn list \<Rightarrow> dialog \<Rightarrow> st \<Rightarrow> sip_message option await \<times> turn list \<times> dialog \<times> st" where
  "await_message D fs d s = await_with (\<lambda>_ _ d. d) D fs d s"

lemmas await_message_shorter = await_with_shorter [of "\<lambda>_ _ d. d", folded await_message_def]
lemmas await_message_le = await_with_le [of "\<lambda>_ _ d. d", folded await_message_def]

text \<open>The transaction goes out of scope when an operation returns.\<close>

definition leave :: "dialog_env \<Rightarrow> 'a \<Rightarrow> turn list \<Rightarrow> dialog \<Rightarrow> st \<Rightarrow> 'a await \<times> turn list \<times> world" where
  "leave D r fs d s = (Returned r, fs, (d, drop_transaction (tx_env D s) s))"

definition pending :: "turn list \<Rightarrow> dialog \<Rightarrow> st \<Rightarrow> 'a await \<times> turn list \<times> world" where
  "pending fs d s = (Waiting, fs, (d, snd s))"

section \<open>Transactions of a dialog\<close>

definition handle_client_authenticate :: "dialog_env \<Rightarrow> nat \<Rightarrow> response \<Rightarrow> credential \<Rightarrow> st \<Rightarrow> error + st" where
  "handle_client_authenticate D new_seq resp cred s =
     (let t = fst s; e = snd s in
      and_then (authenticated_request (de_hasher D) (env_branch (fresh_env D e)) (de_cnonce D (ep_next_channel e)) new_seq
        (tx_original t) (dialog_id_of_request (tx_original t) (tx_role t)) resp cred) (\<lambda>req.
      and_then (key_from_request req ClientRole) (\<lambda>k.
      case new_client k req (tx_connection t) e of
        (t', e) \<Rightarrow> Inr (t'\<lparr>tx_destination := tx_destination t\<rparr>, e))))"

text \<open>The authenticated transaction takes the place of the challenged one, which is dropped, and is sent.\<close>

definition authenticate_and_send :: "dialog_env \<Rightarrow> nat \<Rightarrow> response \<Rightarrow> credential \<Rightarrow> st \<Rightarrow> (error + unit) \<times> st" where
  "authenticate_and_send D new_seq resp cred s =
     (let ack_body = tx_ack_body (fst s); s = ((fst s)\<lparr>tx_ack_body := None\<rparr>, snd s) in
      case handle_client_authenticate D new_seq resp cred s of
        Inl err \<Rightarrow> (Inl err, s)
      | Inr (t, e) \<Rightarrow>
          (let s' = (t\<lparr>tx_ack_body := ack_body\<rparr>, drop_transaction (tx_env D s) (fst s, e)) in send (tx_env D s') s'))"

definition first_route_destination :: "transaction \<Rightarrow> transaction" where
  "first_route_destination t =
     (case header_opt H_Route (req_headers (tx_original t)) of
        Some v \<Rightarrow>
          (case route_parse (trim v) of
             Inr r \<Rightarrow> t\<lparr>tx_destination := Some (sip_addr_of_uri (na_uri r))\<rparr>
           | Inl _ \<Rightarrow> t)
      | None \<Rightarrow> t)"

definition dialog_transaction :: "dialog_env \<Rightarrow> request \<Rightarrow> world \<Rightarrow> error + st" where
  "dialog_transaction D req w =
     and_then (key_from_request req ClientRole) (\<lambda>k.
     case new_client k req (resolve_affinity_connection D (fst w)) (snd w) of
       (t, e) \<Rightarrow> Inr (first_route_destination t, e))"

definition is_challenge :: "status_code \<Rightarrow> bool" where
  "is_challenge status \<longleftrightarrow> status = SC_ProxyAuthenticationRequired \<or> status = SC_Unauthorized"

definition end_with :: "terminated_reason \<Rightarrow> dialog \<Rightarrow> dialog" where
  "end_with reason d = d_transition (DS_Terminated (d_id d) reason) d"

section \<open>PRACK\<close>

function prack_loop :: "dialog_env \<Rightarrow> bool \<Rightarrow> turn list \<Rightarrow> dialog \<Rightarrow> st \<Rightarrow> exchange" where
  "prack_loop D auth_sent fs d s =
     (case await_message D fs d s of
        (Waiting, fs, d, s) \<Rightarrow> pending fs d s
      | (Returned (Some (Response resp)), fs, d, s) \<Rightarrow>
          if resp_status resp = SC_Trying then prack_loop D auth_sent fs d s
          else if is_challenge (resp_status resp) then
            if auth_sent then leave D (Inr None) fs (end_with TR_ProxyAuthRequired d) s
            else (case d_credential d of
                Some cred \<Rightarrow>
                  (let (seq, d) = increment_local_seq d in
                   case authenticate_and_send D seq resp cred s of
                     (Inl err, s) \<Rightarrow> leave D (Inl err) fs d s
                   | (Inr _, s) \<Rightarrow> prack_loop D True fs d s)
              | None \<Rightarrow> leave D (Inr None) fs (end_with TR_ProxyAuthRequired d) s)
          else leave D (Inr (Some resp)) fs d s
      | (Returned _, fs, d, s) \<Rightarrow> leave D (Inr None) fs d s)"
  by pat_completeness auto

termination
  by (relation "measure (\<lambda>(D, a, fs, d, s). length fs)") (auto dest: await_message_shorter [OF sym])

declare prack_loop.simps [simp del]

definition send_prack_request :: "dialog_env \<Rightarrow> request \<Rightarrow> turn list \<Rightarrow> world \<Rightarrow> exchange" where
  "send_prack_request D req fs w =
     (case dialog_transaction D req w of
        Inl err \<Rightarrow> (Returned (Inl err), fs, w)
      | Inr s \<Rightarrow>
          (case send (tx_env D s) s of
             (Inl err, s) \<Rightarrow> leave D (Inl err) fs (fst w) s
           | (Inr _, s) \<Rightarrow> prack_loop D False fs (fst w) s))"

lemma prack_loop_le: "length (fst (snd (prack_loop D a fs d s))) \<le> length fs"
proof (induction fs arbitrary: a d s rule: measure_induct_rule [of length])
  case (less fs)
  obtain x fs' d' s' where w: "await_message D fs d s = (x, fs', d', s')" by (metis prod.exhaust)
  have le: "length fs' \<le> length fs" using await_message_le [of D fs d s] by (simp add: w)
  show ?case
  proof (cases "\<exists>resp. x = Returned (Some (Response resp))")
    case True
    with w have "length fs' < length fs" by (auto dest: await_message_shorter)
    with less.IH [of fs'] have IH: "length (fst (snd (prack_loop D b fs' c u))) \<le> length fs" for b c u
      by (meson le_trans less_imp_le_nat)
    from True w le show ?thesis
      by (auto simp: prack_loop.simps [of D a fs] leave_def IH split: option.split prod.split sum.split)
  next
    case False
    with w le show ?thesis
      by (auto simp: prack_loop.simps [of D a fs] leave_def pending_def split: await.split option.split sip_message.split)
  qed
qed

lemma send_prack_le: "length (fst (snd (send_prack_request D req fs w))) \<le> length fs"
  by (auto simp: send_prack_request_def leave_def prack_loop_le split: sum.split prod.split)

section \<open>Requests\<close>

definition handle_provisional_response :: "dialog_env \<Rightarrow> response \<Rightarrow> turn list \<Rightarrow> world \<Rightarrow> (error + unit) await \<times> turn list \<times> world" where
  "handle_provisional_response D resp fs w =
     (case sip_try (to_header (resp_headers resp)) of
        Inl err \<Rightarrow> (Returned (Inl err), fs, w)
      | Inr to \<Rightarrow>
          (let d = (case to_tag to of Inr (Some tag) \<Rightarrow> update_remote_tag tag (fst w) | _ \<Rightarrow> fst w) in
           case prepare_prack_request D (snd w) resp d of
             (Inl err, d) \<Rightarrow> (Returned (Inl err), fs, (d, snd w))
           | (Inr None, d) \<Rightarrow> (Returned (Inr ()), fs, (d, snd w))
           | (Inr (Some prack), d) \<Rightarrow>
               (case send_prack_request D prack fs (d, snd w) of
                  (Waiting, fs, w) \<Rightarrow> (Waiting, fs, w)
                | (Returned (Inl err), fs, w) \<Rightarrow> (Returned (Inl err), fs, w)
                | (Returned (Inr _), fs, w) \<Rightarrow> (Returned (Inr ()), fs, w))))"

lemma handle_provisional_le: "length (fst (snd (handle_provisional_response D resp fs w))) \<le> length fs"
proof -
  have "length (fst (snd (case send_prack_request D prack fs u of
      (Waiting, fs, w) \<Rightarrow> (Waiting :: (error + unit) await, fs, w)
    | (Returned (Inl err), fs, w) \<Rightarrow> (Returned (Inl err), fs, w)
    | (Returned (Inr _), fs, w) \<Rightarrow> (Returned (Inr ()), fs, w)))) \<le> length fs" for prack u
    using send_prack_le [of D prack fs u] by (auto split: prod.split await.split sum.split)
  then show ?thesis
    by (auto simp: handle_provisional_response_def Let_def split: sum.split prod.split option.split)
qed

text \<open>Only the provisional responses to an INVITE are looked at.\<close>

definition provisional_to ::
    "sip_method \<Rightarrow> dialog_env \<Rightarrow> response \<Rightarrow> turn list \<Rightarrow> world \<Rightarrow> (error + unit) await \<times> turn list \<times> world" where
  "provisional_to m D resp fs w = (if m = Invite then handle_provisional_response D resp fs w else (Returned (Inr ()), fs, w))"

lemma provisional_le: "provisional_to m D resp fs w = (r, fs', w') \<Longrightarrow> length fs' \<le> length fs"
  using handle_provisional_le [of D resp fs w] by (auto simp: provisional_to_def split: if_splits)

definition authenticated_seq :: "sip_method \<Rightarrow> dialog \<Rightarrow> nat \<times> dialog" where
  "authenticated_seq m d = (if m = Cancel then (unat (d_local_seq d), d) else increment_local_seq d)"

text \<open>The response to a request in a dialog whose own transaction is \<open>s\<close>.\<close>

function response_loop :: "dialog_env \<Rightarrow> sip_method \<Rightarrow> bool \<Rightarrow> turn list \<Rightarrow> dialog \<Rightarrow> st \<Rightarrow> exchange" where
  "response_loop D m auth_sent fs d s =
     (case await_message D fs d s of
        (Waiting, fs, d, s) \<Rightarrow> pending fs d s
      | (Returned (Some (Response resp)), fs, d, s) \<Rightarrow>
          (let d = observe_peer_session_uuid (Option.bind (session_id_header (resp_headers resp)) local_uuid) d;
               status = resp_status resp
           in if status = SC_Trying then response_loop D m auth_sent fs d s
              else if status_code_kind status = Provisional then
                (case provisional_to m D resp fs (d, snd s) of
                   (Waiting, fs, (d, e)) \<Rightarrow> pending fs d (fst s, e)
                 | (Returned (Inl err), fs, (d, e)) \<Rightarrow> leave D (Inl err) fs d (fst s, e)
                 | (Returned (Inr _), fs, (d, e)) \<Rightarrow>
                     response_loop D m auth_sent fs
                       (if d_can_cancel d then d_transition (DS_Early (d_id d) resp) d else d) (fst s, e))
              else if is_challenge status then
                if auth_sent then leave D (Inr None) fs (end_with TR_ProxyAuthRequired d) s
                else (case d_credential d of
                    Some cred \<Rightarrow>
                      (let (seq, d) = authenticated_seq m d in
                       case authenticate_and_send D seq resp cred s of
                         (Inl err, s) \<Rightarrow> leave D (Inl err) fs d s
                       | (Inr _, s) \<Rightarrow> response_loop D m True fs d s)
                  | None \<Rightarrow> response_loop D m True fs (end_with TR_ProxyAuthRequired d) s)
              else
                (let d = (if m \<noteq> PRack then clear_remote_reliable d else d);
                     d = (if m = Invite \<and> tx_sent_ack (fst s) \<noteq> None then d\<lparr>d_last_sent_ack := tx_sent_ack (fst s)\<rparr> else d)
                 in leave D (Inr (Some resp)) fs d s))
      | (Returned _, fs, d, s) \<Rightarrow> leave D (Inr None) fs d s)"
  by pat_completeness auto

termination
  by (relation "measure (\<lambda>(D, m, a, fs, d, s). length fs)")
    (auto dest!: await_message_shorter [OF sym] provisional_le [OF sym])

declare response_loop.simps [simp del]

lemma response_loop_le: "length (fst (snd (response_loop D m a fs d s))) \<le> length fs"
proof (induction fs arbitrary: a d s rule: measure_induct_rule [of length])
  case (less fs)
  obtain x fs' d' s' where w: "await_message D fs d s = (x, fs', d', s')" by (metis prod.exhaust)
  have le: "length fs' \<le> length fs" using await_message_le [of D fs d s] by (simp add: w)
  show ?case
  proof (cases "\<exists>resp. x = Returned (Some (Response resp))")
    case True
    with w have lt: "length fs' < length fs" by (auto dest: await_message_shorter)
    have IH: "length (fst (snd (response_loop D m b gs c u))) \<le> length fs" if "length gs \<le> length fs'" for b gs c u
      using less.IH [of gs b c u] that lt by simp
    have prov: "length (fst (snd (case provisional_to m D resp fs' c of
         (Waiting, fs, (d, e)) \<Rightarrow> pending fs d (fst s', e)
       | (Returned (Inl err), fs, (d, e)) \<Rightarrow> leave D (Inl err) fs d (fst s', e)
       | (Returned (Inr _), fs, (d, e)) \<Rightarrow>
           response_loop D m a fs (if d_can_cancel d then d_transition (DS_Early (d_id d) resp) d else d) (fst s', e)))) \<le> length fs"
      for resp c
    proof -
      obtain r gs u where p: "provisional_to m D resp fs' c = (r, gs, u)" by (metis prod.exhaust)
      then have "length gs \<le> length fs'" by (rule provisional_le)
      with p le show ?thesis by (cases u) (auto simp: pending_def leave_def IH split: await.split sum.split)
    qed
    from True w le show ?thesis
      by (auto simp: response_loop.simps [of D m a fs] leave_def Let_def prov IH split: option.split prod.split sum.split
          simp del: split_paired_All)
  next
    case False
    with w le show ?thesis
      by (auto simp: response_loop.simps [of D m a fs] leave_def pending_def split: await.split option.split sip_message.split)
  qed
qed

section \<open>Dial-back\<close>

definition transport_or_udp :: "sip_addr \<Rightarrow> transport" where
  "transport_or_udp a = unwrap_or (sa_type a) Udp"

text \<open>The request of a dial-back that leaves on another transport gets a Via for it, with its branch.\<close>

definition match_via :: "dialog_env \<Rightarrow> sip_addr \<Rightarrow> st \<Rightarrow> transaction" where
  "match_via D target s =
     (let t = fst s; hs = req_headers (tx_original t); transport = transport_or_udp target;
          listener = find (\<lambda>a. transport_or_udp a = transport) (de_addrs D);
          branch = Option.bind (ok (and_then (top_via_header hs) via_typed)) (\<lambda>via.
                     if via_transport via \<noteq> transport then find (\<lambda>p. branch_of p \<noteq> None) (via_params via) else None)
      in case (listener, branch, header_opt H_Via hs) of
           (Some a, Some b, Some v) \<Rightarrow>
             (case get_via (tx_env D s) (de_addrs D) (Some a) (Some b) of
                Inr new_via \<Rightarrow>
                  (case update_first_value (\<lambda>_. Inr (show_via new_via)) v of
                     Inr v' \<Rightarrow> t\<lparr>tx_original := (tx_original t)\<lparr>req_headers := header_replace H_Via v' hs\<rparr>\<rparr>
                   | Inl _ \<Rightarrow> t)
              | Inl _ \<Rightarrow> t)
         | _ \<Rightarrow> t)"

text \<open>The first send and, when it found no connection, the second one over the recorded flow. The result
  is the error that ends the request.\<close>

definition send_with_dialback :: "dialog_env \<Rightarrow> sip_method \<Rightarrow> dialog \<Rightarrow> st \<Rightarrow> error option \<times> st" where
  "send_with_dialback D m d s =
     (let (r, s) = send (tx_env D s) s;
          retry = (case r of Inr _ \<Rightarrow> tx_connection (fst s) = None | Inl _ \<Rightarrow> d_role d = ServerRole \<and> m \<noteq> Ack);
          failure = (case r of Inr _ \<Rightarrow> None | Inl err \<Rightarrow> Some err)
      in if failure \<noteq> None \<and> \<not> retry then (failure, s)
         else if retry \<and> m \<noteq> Ack then
           (case dialback_address d of
              Some a \<Rightarrow>
                (let s = ((fst s)\<lparr>tx_destination := Some a\<rparr>, snd s); s = (match_via D a s, snd s)
                 in (None, snd (send (tx_env D s) s)))
            | None \<Rightarrow> (failure, s))
         else (None, s))"

definition send_dialog_request :: "dialog_env \<Rightarrow> request \<Rightarrow> turn list \<Rightarrow> world \<Rightarrow> exchange" where
  "send_dialog_request D req fs w =
     (let m = req_method req in
      case dialog_transaction D req w of
        Inl err \<Rightarrow> (Returned (Inl err), fs, w)
      | Inr s \<Rightarrow>
          (let d = fst w;
               s = (if m = Invite then ((fst s)\<lparr>tx_ack_body := d_next_ack_body d\<rparr>, snd s) else s);
               d = (if m = Invite then d\<lparr>d_next_ack_body := None\<rparr> else d)
           in case send_with_dialback D m d s of
                (Some err, s) \<Rightarrow> leave D (Inl err) fs d s
              | (None, s) \<Rightarrow> response_loop D m False fs d s))"

lemma send_dialog_request_le: "length (fst (snd (send_dialog_request D req fs w))) \<le> length fs"
  by (simp add: send_dialog_request_def Let_def leave_def response_loop_le split: sum.split prod.split option.split)

text \<open>\<open>make_request\<close> followed by \<open>do_request\<close>.\<close>

definition make_and_send ::
    "dialog_env \<Rightarrow> sip_method \<Rightarrow> header list option \<Rightarrow> bytes option \<Rightarrow> turn list \<Rightarrow> world \<Rightarrow> exchange" where
  "make_and_send D m headers body fs w =
     (case dialog_request D (snd w) m None None None headers body (fst w) of
        (Inl err, d) \<Rightarrow> (Returned (Inl err), fs, (d, snd w))
      | (Inr req, d) \<Rightarrow> send_dialog_request D req fs (d, snd w))"

section \<open>Ending a session\<close>

definition forget_response :: "(error + response option) await \<Rightarrow> (error + unit) await" where
  "forget_response r = (case r of Waiting \<Rightarrow> Waiting | Returned x \<Rightarrow> Returned (and_then x (\<lambda>_. Inr ())))"

definition send_bye ::
    "dialog_env \<Rightarrow> request \<Rightarrow> terminated_reason \<Rightarrow> turn list \<Rightarrow> world \<Rightarrow> (error + unit) await \<times> turn list \<times> world" where
  "send_bye D req reason fs w =
     (let i = d_id (fst w) in
      if d_role (fst w) = ServerRole then
        (case send_dialog_request D req fs (d_transition (DS_Terminated i reason) (fst w), snd w) of
           (r, fs, w) \<Rightarrow> (forget_response r, fs, w))
      else
        (case send_dialog_request D req fs w of
           (Waiting, fs, w) \<Rightarrow> (Waiting, fs, w)
         | (r, fs, w) \<Rightarrow> (forget_response r, fs, (d_transition (DS_Terminated i reason) (fst w), snd w))))"

definition bye_forked_branch :: "dialog_env \<Rightarrow> response \<Rightarrow> turn list \<Rightarrow> world \<Rightarrow> (error + unit) await \<times> turn list \<times> world" where
  "bye_forked_branch D resp fs w =
     (let d = fst w; e = snd w; hs = resp_headers resp in
      case and_then (first_contact_uri hs) (\<lambda>contact_uri.
           and_then (sip_try (to_header hs)) (\<lambda>to.
           and_then (get_via (fresh_env D e) (de_addrs D) (via_addr_for_send_transport D e d) None) (\<lambda>via.
           Inr (contact_uri, to, via)))) of
        Inl err \<Rightarrow> (Returned (Inl err), fs, w)
      | Inr (contact_uri, to, via) \<Rightarrow>
          (let (seq, d') = increment_local_seq d;
               out = [H_Via (show_via via), H_CallId (did_call_id (d_id d)), H_From (show_name_addr (d_from d)), H_To to,
                      H_CSeq (show_cseq \<lparr>cseq_seq = seq, cseq_method = Bye\<rparr>), H_UserAgent (ep_user_agent e)]
                     @ contact_headers d @ map H_Route (rev (header_routes hs)) @ [H_MaxForwards ''70'']
           in case send_dialog_request D
                     \<lparr>req_method = Bye, req_uri = contact_uri, req_version = V2, req_headers = out, req_body = []\<rparr> fs (d', e) of
                (r, fs, w) \<Rightarrow> (forget_response r, fs, w)))"

definition end_session_without_ack :: "dialog_env \<Rightarrow> bool \<Rightarrow> transaction \<Rightarrow> turn list \<Rightarrow> world \<Rightarrow> unit await \<times> turn list \<times> world" where
  "end_session_without_ack D answered_2xx t fs w =
     (let d = fst w; e = snd w in
      if \<not> answered_2xx \<or> tx_state t \<noteq> Terminated \<or> d_is_terminated d then (Returned (), fs, w)
      else (case dialog_request D e Bye None None None None None d of
          (Inl _, d) \<Rightarrow> (Returned (), fs, (end_with TR_Timeout d, e))
        | (Inr bye, d) \<Rightarrow>
            (case send_dialog_request D bye fs (end_with TR_Timeout d, e) of
               (Waiting, fs, w) \<Rightarrow> (Waiting, fs, w)
             | (Returned _, fs, w) \<Rightarrow> (Returned (), fs, w))))"

end
