(* ===== verification/Invite_Dialog.thy ===== *)
theory Invite_Dialog
  imports Dialog_Requests
begin

text \<open>
  The INVITE dialog of \<open>dialog/invite_dialog.rs\<close>: what the application calls on a server or client
  dialog, the client's drive of its INVITE transaction, and the handling of requests the peer sends inside
  the dialog. An operation takes the dialog and the endpoint; one that handles a request takes that request's
  transaction as well.
\<close>

section \<open>The server's answer to the INVITE\<close>

definition tu_send :: "tx_event \<Rightarrow> world \<Rightarrow> (error + unit) \<times> world" where
  "tu_send ev w =
     (case d_channel (fst w) of
        None \<Rightarrow> (Inr (), w)
      | Some ch \<Rightarrow>
          (case channel_send ch ev (snd w) of
             (True, e) \<Rightarrow> (Inr (), (fst w, e))
           | (False, e) \<Rightarrow> (Inl (Error ''channel closed''), (fst w, e))))"

definition initial_response :: "status_code \<Rightarrow> header list option \<Rightarrow> bytes option \<Rightarrow> world \<Rightarrow> response" where
  "initial_response status headers body w =
     dialog_response (ep_user_agent (snd w)) (d_initial_request (fst w)) status headers body (fst w)"

definition ringing :: "header list option \<Rightarrow> bytes option \<Rightarrow> world \<Rightarrow> (error + unit) \<times> world" where
  "ringing headers body w =
     (if d_role (fst w) \<noteq> ServerRole \<or> \<not> d_can_cancel (fst w) then (Inr (), w)
      else
        (let resp = initial_response (if body \<noteq> None then SC_SessionProgress else SC_Ringing) headers body w in
         case tu_send (Respond resp) w of
           (Inl err, w) \<Rightarrow> (Inl err, w)
         | (Inr _, (d, e)) \<Rightarrow> (Inr (), (d_transition (DS_Early (d_id d) resp) d, e))))"

definition accept :: "header list option \<Rightarrow> bytes option \<Rightarrow> world \<Rightarrow> (error + unit) \<times> world" where
  "accept headers body w =
     (if d_role (fst w) \<noteq> ServerRole then (Inr (), w)
      else
        (let resp = initial_response SC_OK headers body w in
         case tu_send (Respond resp) w of
           (Inl err, w) \<Rightarrow> (Inl err, w)
         | (Inr _, (d, e)) \<Rightarrow> (Inr (), (d_transition (DS_WaitAck (d_id d) resp) d, e))))"

definition create_nat_aware_contact :: "string \<Rightarrow> host_with_port option \<Rightarrow> sip_addr \<Rightarrow> name_addr" where
  "create_nat_aware_contact username public_address local_address =
     \<lparr>na_display = None,
      na_uri = \<lparr>uri_scheme = Some Sip, uri_auth = Some \<lparr>auth_user = username, auth_password = None\<rparr>,
                uri_hwp = unwrap_or public_address (sa_addr local_address), uri_params = [], uri_headers = []\<rparr>,
      na_params = []\<rparr>"

definition accept_with_public_contact ::
    "string \<Rightarrow> host_with_port option \<Rightarrow> sip_addr \<Rightarrow> header list option \<Rightarrow> bytes option \<Rightarrow> world \<Rightarrow> (error + unit) \<times> world" where
  "accept_with_public_contact username public_address local_address headers body w =
     accept (Some (unwrap_or headers [] @ [H_Contact (show_contact (create_nat_aware_contact username public_address local_address))]))
       body w"

definition reject :: "status_code option \<Rightarrow> string option \<Rightarrow> world \<Rightarrow> (error + unit) \<times> world" where
  "reject code reason w =
     (if d_role (fst w) \<noteq> ServerRole \<or> d_is_terminated (fst w) \<or> d_is_confirmed (fst w) then (Inr (), w)
      else
        (let resp = initial_response (unwrap_or code SC_Decline) (map_option (\<lambda>r. [H_Reason r]) reason) None w;
             w = snd (tu_send (Respond resp) w)
         in (Inr (), (end_with TR_UasDecline (fst w), snd w))))"

section \<open>Requests of the application\<close>

definition invite_request ::
    "dialog_env \<Rightarrow> sip_method \<Rightarrow> header list option \<Rightarrow> bytes option \<Rightarrow> turn list \<Rightarrow> world \<Rightarrow> exchange" where
  "invite_request D m headers body fs w =
     (if \<not> d_is_confirmed (fst w) then (Returned (Inr None), fs, w) else make_and_send D m headers body fs w)"

definition reinvite :: "dialog_env \<Rightarrow> header list option \<Rightarrow> bytes option \<Rightarrow> turn list \<Rightarrow> world \<Rightarrow> exchange" where
  "reinvite D = invite_request D Invite"

definition update :: "dialog_env \<Rightarrow> header list option \<Rightarrow> bytes option \<Rightarrow> turn list \<Rightarrow> world \<Rightarrow> exchange" where
  "update D = invite_request D Update"

definition info :: "dialog_env \<Rightarrow> header list option \<Rightarrow> bytes option \<Rightarrow> turn list \<Rightarrow> world \<Rightarrow> exchange" where
  "info D = invite_request D Info"

definition options :: "dialog_env \<Rightarrow> header list option \<Rightarrow> turn list \<Rightarrow> world \<Rightarrow> exchange" where
  "options D headers fs w =
     (if d_role (fst w) \<noteq> ClientRole then (Returned (Inr None), fs, w) else invite_request D Options headers None fs w)"

definition notify :: "dialog_env \<Rightarrow> header list option \<Rightarrow> bytes option \<Rightarrow> turn list \<Rightarrow> world \<Rightarrow> exchange" where
  "notify D = invite_request D Notify"

definition refer :: "dialog_env \<Rightarrow> string \<Rightarrow> header list option \<Rightarrow> bytes option \<Rightarrow> turn list \<Rightarrow> world \<Rightarrow> exchange" where
  "refer D refer_to headers = invite_request D Refer (Some (unwrap_or headers [] @ [H_ReferTo refer_to]))"

definition message :: "dialog_env \<Rightarrow> header list option \<Rightarrow> bytes option \<Rightarrow> turn list \<Rightarrow> world \<Rightarrow> exchange" where
  "message D = invite_request D Message"

definition set_next_ack_body :: "bytes option \<Rightarrow> dialog \<Rightarrow> dialog" where
  "set_next_ack_body body d = d\<lparr>d_next_ack_body := body\<rparr>"

definition bye_with_headers :: "dialog_env \<Rightarrow> header list option \<Rightarrow> turn list \<Rightarrow> world \<Rightarrow> (error + unit) await \<times> turn list \<times> world" where
  "bye_with_headers D headers fs w =
     (let d = fst w in
      if \<not> (d_is_confirmed d \<or> d_role d = ServerRole \<and> d_waiting_ack d) then
        (if d_is_terminated d then (Returned (Inr ()), fs, w)
         else (Returned (Inl (Error (''dialog '' @ show_dialog_id (d_id d) @ '' cannot send BYE in state '' @ show_dialog_state (d_state d)))), fs, w))
      else (case dialog_request D (snd w) Bye None None None headers None d of
          (Inl err, d) \<Rightarrow> (Returned (Inl err), fs, (d, snd w))
        | (Inr req, d) \<Rightarrow> send_bye D req (case d_role d of ServerRole \<Rightarrow> TR_UasBye | ClientRole \<Rightarrow> TR_UacBye) fs (d, snd w)))"

text \<open>The CANCEL is the initial INVITE with its method changed, so it has its Via, Call-ID, From, To and
  CSeq number.\<close>

definition cancel_request :: "request \<Rightarrow> error + request" where
  "cancel_request req =
     and_then (sip_try (and_then (cseq_header (req_headers req)) cseq_value_seq)) (\<lambda>seq.
     let hs = headers_retain (\<lambda>h. \<not> matches_header [H_ContentLength, H_ContentType] h) (req_headers req) in
     and_then (sip_try (and_then (cseq_header hs) (\<lambda>v. and_then (cseq_mut_seq seq v) (cseq_mut_method Cancel)))) (\<lambda>v.
     Inr (req\<lparr>req_method := Cancel, req_headers := header_replace H_CSeq v hs, req_body := []\<rparr>)))"

definition dialog_send_cancel :: "dialog_env \<Rightarrow> turn list \<Rightarrow> world \<Rightarrow> (error + unit) await \<times> turn list \<times> world" where
  "dialog_send_cancel D fs w =
     (case cancel_request (d_initial_request (fst w)) of
        Inl err \<Rightarrow> (Returned (Inl err), fs, w)
      | Inr req \<Rightarrow>
          (case send_dialog_request D req fs w of
             (Waiting, fs, w) \<Rightarrow> (Waiting, fs, w)
           | (Returned (Inl err), fs, w) \<Rightarrow> (Returned (Inl err), fs, w)
           | (Returned (Inr None), fs, w) \<Rightarrow> (Returned (Inr ()), fs, w)
           | (Returned (Inr (Some resp)), fs, w) \<Rightarrow>
               (Returned (if status_code_kind (resp_status resp) \<noteq> Successful
                          then Inl (DialogError (''CANCEL failed with response '' @ show_status_code (resp_status resp)) (d_id (fst w)) (resp_status resp)) else Inr ()), fs, w)))"

fun in_trying_or_early :: "dialog_state \<Rightarrow> bool" where
  "in_trying_or_early (DS_Trying _) = True"
| "in_trying_or_early (DS_Early _ _) = True"
| "in_trying_or_early _ = False"

definition cancel :: "dialog_env \<Rightarrow> turn list \<Rightarrow> world \<Rightarrow> (error + unit) await \<times> turn list \<times> world" where
  "cancel D fs w =
     (if d_role (fst w) \<noteq> ClientRole \<or> \<not> in_trying_or_early (d_state (fst w)) then (Returned (Inr ()), fs, w)
      else dialog_send_cancel D fs w)"

definition hangup_with_headers :: "dialog_env \<Rightarrow> header list option \<Rightarrow> turn list \<Rightarrow> world \<Rightarrow> (error + unit) await \<times> turn list \<times> world" where
  "hangup_with_headers D headers fs w =
     (if d_can_cancel (fst w) then cancel D fs w else bye_with_headers D headers fs w)"

definition bye_2xx_after_cancel :: "dialog_env \<Rightarrow> response \<Rightarrow> turn list \<Rightarrow> world \<Rightarrow> (error + unit) await \<times> turn list \<times> world" where
  "bye_2xx_after_cancel D resp fs w =
     (case sip_try (and_then (to_header (resp_headers resp)) to_tag) of
        Inl err \<Rightarrow> (Returned (Inl err), fs, w)
      | Inr tag \<Rightarrow>
          (let d = (case tag of Some t \<Rightarrow> update_remote_tag t (fst w) | None \<Rightarrow> fst w) in
           case adopt_2xx_remote_target resp d of
             (Inl err, d) \<Rightarrow> (Returned (Inl err), fs, (d, snd w))
           | (Inr _, d) \<Rightarrow>
               (case make_and_send D Bye None None fs (d, snd w) of (r, fs, w) \<Rightarrow> (forget_response r, fs, w))))"

text \<open>Every message the accepted INVITE transaction still delivers: a 2xx with another To tag ends its
  branch with a BYE, once per tag.\<close>

definition end_forked_branch ::
    "dialog_env \<Rightarrow> sip_message \<Rightarrow> string \<Rightarrow> string list \<Rightarrow> turn list \<Rightarrow> world \<Rightarrow> unit await \<times> string list \<times> turn list \<times> world" where
  "end_forked_branch D msg confirmed_tag seen fs w =
     (case msg of
        Request _ \<Rightarrow> (Returned (), seen, fs, w)
      | Response resp \<Rightarrow>
          if status_code_kind (resp_status resp) \<noteq> Successful then (Returned (), seen, fs, w)
          else (case header_to_tag (resp_headers resp) of
              None \<Rightarrow> (Returned (), seen, fs, w)
            | Some tag \<Rightarrow>
                if tag = confirmed_tag \<or> tag \<in> set seen then (Returned (), seen, fs, w)
                else (case bye_forked_branch D resp fs w of
                    (Waiting, fs, w) \<Rightarrow> (Waiting, seen @ [tag], fs, w)
                  | (Returned _, fs, w) \<Rightarrow> (Returned (), seen @ [tag], fs, w))))"

end
