(* ===== verification/Invite_Handlers.thy ===== *)
theory Invite_Handlers
  imports Invite_Dialog
begin

text \<open>
  The loops of the INVITE dialog in \<open>dialog/invite_dialog.rs\<close>: the client's drive of its INVITE
  transaction (\<open>process_invite\<close>) and the handling of a request the peer sends inside the dialog
  (\<open>handle\<close> and the handlers it dispatches to), with \<open>process_transaction_handle\<close> of
  \<open>dialog/dialog.rs\<close>, which answers a request with what the application sends through its handle.
  The transaction is borrowed here: it is given back with the dialog.
\<close>

type_synonym 'a drive = "(error + 'a) await \<times> turn list \<times> dialog \<times> st"

section \<open>The client's INVITE transaction\<close>

text \<open>The first-write hook notifies \<open>Calling\<close>, with the id the dialog had when the hook was registered.\<close>

definition note_calling :: "dialog_id \<Rightarrow> st \<Rightarrow> st \<Rightarrow> dialog \<Rightarrow> dialog" where
  "note_calling i s s' d =
     (if tx_first_write_hook (fst s) \<and> \<not> tx_first_write_hook (fst s') then d_transition (DS_Calling i) d else d)"

definition after_final :: "response \<Rightarrow> dialog_id \<Rightarrow> dialog \<Rightarrow> (error + dialog_id \<times> response option) \<times> dialog" where
  "after_final resp did d =
     (case sip_try (and_then (to_header (resp_headers resp)) to_tag) of
        Inl err \<Rightarrow> (Inl err, d)
      | Inr tag \<Rightarrow>
          (let d = (case tag of Some t \<Rightarrow> update_remote_tag t d | None \<Rightarrow> d);
               did = (case dialog_id_of_response resp ClientRole of Inr i \<Rightarrow> i | Inl _ \<Rightarrow> did)
           in if resp_status resp = SC_OK then
                (case adopt_2xx_remote_target resp d of
                   (Inl err, d) \<Rightarrow> (Inl err, d)
                 | (Inr _, d) \<Rightarrow> (Inr (did, Some resp), d_transition (DS_Confirmed did resp) d))
              else (Inr (did, Some resp), end_with (TR_UasOther (resp_status resp)) d)))"

text \<open>The challenged transaction is replaced by the authenticated one and dropped.\<close>

definition replace_transaction :: "dialog_env \<Rightarrow> nat \<Rightarrow> response \<Rightarrow> credential \<Rightarrow> st \<Rightarrow> (error + unit) \<times> st" where
  "replace_transaction D seq resp cred s =
     (case handle_client_authenticate D seq resp cred s of
        Inl err \<Rightarrow> (Inl err, s)
      | Inr (t, e) \<Rightarrow>
          (let s' = (t, drop_transaction (tx_env D s) (fst s, e)) in send (tx_env D s') s'))"

definition restart_invite :: "st \<Rightarrow> dialog \<Rightarrow> dialog" where
  "restart_invite s d =
     (let d = update_remote_tag [] (set_server_connection (tx_connection (fst s)) d)
      in d\<lparr>d_initial_request := tx_original (fst s)\<rparr>)"

function invite_loop ::
    "dialog_env \<Rightarrow> dialog_id \<Rightarrow> bool \<Rightarrow> dialog_id \<Rightarrow> turn list \<Rightarrow> dialog \<Rightarrow> st \<Rightarrow> (dialog_id \<times> response option) drive" where
  "invite_loop D i auth_sent did fs d s =
     (case await_with (note_calling i) D fs d s of
        (Waiting, fs, d, s) \<Rightarrow> (Waiting, fs, d, s)
      | (Returned None, fs, d, s) \<Rightarrow> (Returned (Inr (did, None)), fs, d, s)
      | (Returned (Some (Request _)), fs, d, s) \<Rightarrow> invite_loop D i auth_sent did fs d s
      | (Returned (Some (Response resp)), fs, d, s) \<Rightarrow>
          if resp_status resp = SC_Trying then invite_loop D i auth_sent did fs (d_transition (DS_Trying (d_id d)) d) s
          else if status_code_kind (resp_status resp) = Provisional then
            (case provisional_to Invite D resp fs (d, snd s) of
               (Waiting, fs, (d, e)) \<Rightarrow> (Waiting, fs, d, (fst s, e))
             | (Returned (Inl err), fs, (d, e)) \<Rightarrow> (Returned (Inl err), fs, d, (fst s, e))
             | (Returned (Inr _), fs, (d, e)) \<Rightarrow>
                 invite_loop D i auth_sent did fs (d_transition (DS_Early (d_id d) resp) d) (fst s, e))
          else if is_challenge (resp_status resp) then
            (case (auth_sent, d_credential d) of
               (False, Some cred) \<Rightarrow>
                 (let (seq, d) = increment_local_seq d in
                  case replace_transaction D seq resp cred s of
                    (Inl err, s) \<Rightarrow> (Returned (Inl err), fs, d, s)
                  | (Inr _, s) \<Rightarrow> invite_loop D i True did fs (restart_invite s d) s)
             | _ \<Rightarrow> (Returned (Inr (did, Some resp)), fs, end_with TR_ProxyAuthRequired d, s))
          else (case after_final resp did d of (r, d) \<Rightarrow> (Returned r, fs, d, s)))"
  by pat_completeness auto

termination
  by (relation "measure (\<lambda>(D, i, a, did, fs, d, s). length fs)")
    (auto dest!: await_with_shorter [OF sym] provisional_le [OF sym])

declare invite_loop.simps [simp del]

definition process_invite :: "dialog_env \<Rightarrow> turn list \<Rightarrow> dialog \<Rightarrow> st \<Rightarrow> (dialog_id \<times> response option) drive" where
  "process_invite D fs d s =
     (if d_role d \<noteq> ClientRole then
        (Returned (Inl (DialogError ''process_invite requires a UAC (Client) dialog'' (d_id d) SC_ServerInternalError)), fs, d, s)
      else
        (let s = (on_first_write (fst s), snd s); i = d_id d in
         case send (tx_env D s) s of
           (Inl err, s') \<Rightarrow> (Returned (Inl err), fs, note_calling i s s' d, s')
         | (Inr _, s') \<Rightarrow>
             invite_loop D i False i fs (set_server_connection (tx_connection (fst s')) (note_calling i s s' d)) s'))"

section \<open>Answers of the application\<close>

text \<open>The commands the application sends through the handle, each with what the other tasks do before it
  arrives. \<open>None\<close>, or the end of the list, stands for the handle dropped or the time up.\<close>

type_synonym command = "turn \<times> (status_code \<times> header list option \<times> bytes option) option"

fun run_commands :: "dialog_env \<Rightarrow> command list \<Rightarrow> dialog \<Rightarrow> st \<Rightarrow> bool \<times> dialog \<times> st" where
  "run_commands D [] d s = (False, d, s)"
| "run_commands D ((f, c) # cs) d s =
     (case f (d, snd s) of (d, e) \<Rightarrow>
        (case c of
           None \<Rightarrow> (False, d, (fst s, e))
         | Some (status, headers, body) \<Rightarrow>
             (case respond (tx_env D s) (dialog_response (ep_user_agent e) (tx_original (fst s)) status headers body d) (fst s, e) of
                (Inl _, s) \<Rightarrow> (False, d, s)
              | (Inr _, s) \<Rightarrow> if status_code_kind status \<noteq> Provisional then (True, d, s) else run_commands D cs d s)))"

definition process_transaction_handle :: "dialog_env \<Rightarrow> command list \<Rightarrow> dialog \<Rightarrow> st \<Rightarrow> (error + unit) \<times> dialog \<times> st" where
  "process_transaction_handle D cs d s =
     (case run_commands D cs d s of
        (True, d, s) \<Rightarrow> (Inr (), d, s)
      | (False, d, s) \<Rightarrow> (case reply (tx_env D s) SC_NotImplemented s of (r, s) \<Rightarrow> (r, d, s)))"

section \<open>Handlers\<close>

definition return_to_confirmed :: "transaction \<Rightarrow> dialog \<Rightarrow> dialog" where
  "return_to_confirmed t d = d_transition (DS_Confirmed (d_id d) (unwrap_or (tx_last_response t) response_default)) d"

text \<open>The request goes to the application as an event, which answers it.\<close>

definition offer_request ::
    "(dialog_id \<Rightarrow> request \<Rightarrow> dialog_state) \<Rightarrow> dialog_env \<Rightarrow> command list \<Rightarrow> dialog \<Rightarrow> st \<Rightarrow> (error + unit) \<times> dialog \<times> st" where
  "offer_request event D cs d s =
     process_transaction_handle D cs (d_transition (event (d_id d) (tx_original (fst s))) d) s"

definition offer_and_confirm ::
    "(dialog_id \<Rightarrow> request \<Rightarrow> dialog_state) \<Rightarrow> dialog_env \<Rightarrow> command list \<Rightarrow> dialog \<Rightarrow> st \<Rightarrow> (error + unit) \<times> dialog \<times> st" where
  "offer_and_confirm event D cs d s =
     (case offer_request event D cs d s of (r, d, s) \<Rightarrow> (r, return_to_confirmed (fst s) d, s))"

definition handle_info :: "dialog_env \<Rightarrow> command list \<Rightarrow> dialog \<Rightarrow> st \<Rightarrow> (error + unit) \<times> dialog \<times> st" where
  "handle_info = offer_and_confirm DS_Info"

definition handle_update :: "dialog_env \<Rightarrow> command list \<Rightarrow> dialog \<Rightarrow> st \<Rightarrow> (error + unit) \<times> dialog \<times> st" where
  "handle_update = offer_and_confirm DS_Updated"

definition handle_refer :: "dialog_env \<Rightarrow> command list \<Rightarrow> dialog \<Rightarrow> st \<Rightarrow> (error + unit) \<times> dialog \<times> st" where
  "handle_refer = offer_and_confirm DS_Refer"

definition handle_message :: "dialog_env \<Rightarrow> command list \<Rightarrow> dialog \<Rightarrow> st \<Rightarrow> (error + unit) \<times> dialog \<times> st" where
  "handle_message = offer_and_confirm DS_Message"

definition handle_notify :: "dialog_env \<Rightarrow> command list \<Rightarrow> dialog \<Rightarrow> st \<Rightarrow> (error + unit) \<times> dialog \<times> st" where
  "handle_notify = offer_and_confirm DS_Notify"

definition handle_options :: "dialog_env \<Rightarrow> command list \<Rightarrow> dialog \<Rightarrow> st \<Rightarrow> (error + unit) \<times> dialog \<times> st" where
  "handle_options = offer_request DS_Options"

definition reply_in_dialog :: "dialog_env \<Rightarrow> status_code \<Rightarrow> dialog \<Rightarrow> st \<Rightarrow> (error + unit) \<times> dialog \<times> st" where
  "reply_in_dialog D status d s = (case reply (tx_env D s) status s of (r, s) \<Rightarrow> (r, d, s))"

definition handle_bye :: "dialog_env \<Rightarrow> dialog \<Rightarrow> st \<Rightarrow> (error + unit) \<times> dialog \<times> st" where
  "handle_bye D d s =
     reply_in_dialog D SC_OK (end_with (case d_role d of ServerRole \<Rightarrow> TR_UacBye | ClientRole \<Rightarrow> TR_UasBye) d) s"

definition rack_ok :: "header list \<Rightarrow> bool" where
  "rack_ok hs \<longleftrightarrow> rack_value hs \<noteq> None \<or> Option.bind (header_value_by_name ''RAck'' hs) rack_of \<noteq> None"

definition handle_prack :: "dialog_env \<Rightarrow> dialog \<Rightarrow> st \<Rightarrow> (error + unit) \<times> dialog \<times> st" where
  "handle_prack D d s =
     reply_in_dialog D (if rack_ok (req_headers (tx_original (fst s))) then SC_OK else SC_BadRequest) d s"

section \<open>Waiting for the ACK\<close>

definition take_ack :: "request \<Rightarrow> transaction \<Rightarrow> dialog \<Rightarrow> dialog" where
  "take_ack ack t d = return_to_confirmed t (d\<lparr>d_remote_ack := Some ack\<rparr>)"

text \<open>The messages of a re-INVITE after its answer; the result says whether the ACK came.\<close>

function reinvite_loop :: "dialog_env \<Rightarrow> turn list \<Rightarrow> dialog \<Rightarrow> st \<Rightarrow> bool await \<times> turn list \<times> dialog \<times> st" where
  "reinvite_loop D fs d s =
     (case await_message D fs d s of
        (Waiting, fs, d, s) \<Rightarrow> (Waiting, fs, d, s)
      | (Returned None, fs, d, s) \<Rightarrow> (Returned False, fs, d, s)
      | (Returned (Some msg), fs, d, s) \<Rightarrow>
          (case msg of
             Request req \<Rightarrow>
               if req_method req = Ack then (Returned True, fs, take_ack req (fst s) d, s) else reinvite_loop D fs d s
           | Response _ \<Rightarrow> reinvite_loop D fs d s))"
  by pat_completeness auto

termination
  by (relation "measure (\<lambda>(D, fs, d, s). length fs)") (auto dest: await_message_shorter [OF sym])

declare reinvite_loop.simps [simp del]

text \<open>A session whose 2xx was never acknowledged ends.\<close>

definition close_without_ack :: "dialog_env \<Rightarrow> bool \<Rightarrow> turn list \<Rightarrow> dialog \<Rightarrow> st \<Rightarrow> unit drive" where
  "close_without_ack D answered_2xx fs d s =
     (case end_session_without_ack D answered_2xx (fst s) fs (d, snd s) of
        (Waiting, fs, (d, e)) \<Rightarrow> (Waiting, fs, d, (fst s, e))
      | (Returned _, fs, (d, e)) \<Rightarrow> (Returned (Inr ()), fs, d, (fst s, e)))"

definition handle_reinvite :: "dialog_env \<Rightarrow> command list \<Rightarrow> turn list \<Rightarrow> dialog \<Rightarrow> st \<Rightarrow> unit drive" where
  "handle_reinvite D cs fs d s =
     (case offer_request DS_Updated D cs d s of
        (Inl err, d, s) \<Rightarrow> (Returned (Inl err), fs, d, s)
      | (Inr _, d, s) \<Rightarrow>
          (let answered_2xx = last_is_2xx (fst s) in
           case reinvite_loop D fs d s of
             (Waiting, fs, d, s) \<Rightarrow> (Waiting, fs, d, s)
           | (Returned acked, fs, d, s) \<Rightarrow> close_without_ack D (answered_2xx \<and> \<not> acked) fs d s))"

text \<open>The messages of the INVITE transaction of a server dialog, up to its ACK or CANCEL.\<close>

definition on_cancel :: "dialog_env \<Rightarrow> dialog \<Rightarrow> st \<Rightarrow> (error + unit) \<times> dialog \<times> st" where
  "on_cancel D d s =
     (case reply (tx_env D s) SC_RequestTerminated s of
        (Inl err, s) \<Rightarrow> (Inl err, d, s)
      | (Inr _, s) \<Rightarrow> (Inr (), end_with TR_UacCancel d, s))"

function server_loop :: "dialog_env \<Rightarrow> turn list \<Rightarrow> dialog \<Rightarrow> st \<Rightarrow> unit drive" where
  "server_loop D fs d s =
     (case await_message D fs d s of
        (Waiting, fs, d, s) \<Rightarrow> (Waiting, fs, d, s)
      | (Returned None, fs, d, s) \<Rightarrow> (Returned (Inr ()), fs, d, s)
      | (Returned (Some msg), fs, d, s) \<Rightarrow>
          (case msg of
             Request req \<Rightarrow>
               if req_method req = Ack then
                 (Returned (Inr ()), fs, (if d_is_terminated d then d else take_ack req (fst s) d), s)
               else if req_method req = Cancel then (case on_cancel D d s of (r, d, s) \<Rightarrow> (Returned r, fs, d, s))
               else server_loop D fs d s
           | Response _ \<Rightarrow> server_loop D fs d s))"
  by pat_completeness auto

termination
  by (relation "measure (\<lambda>(D, fs, d, s). length fs)") (auto dest: await_message_shorter [OF sym])

declare server_loop.simps [simp del]

definition begin_invite :: "dialog_env \<Rightarrow> dialog \<Rightarrow> st \<Rightarrow> dialog \<times> st" where
  "begin_invite D d s =
     (case d_state d of
        DS_Calling _ \<Rightarrow>
          if req_method (tx_original (fst s)) = Invite then
            (d_transition (DS_Calling (d_id d)) d,
             if tx_last_response (fst s) = None then snd (send_trying (tx_env D s) s) else s)
          else (d, s)
      | _ \<Rightarrow> (d, s))"

definition handle_invite :: "dialog_env \<Rightarrow> turn list \<Rightarrow> dialog \<Rightarrow> st \<Rightarrow> unit drive" where
  "handle_invite D fs d s =
     (case begin_invite D d s of (d, s) \<Rightarrow>
        (case server_loop D fs d s of
           (Waiting, fs, d, s) \<Rightarrow> (Waiting, fs, d, s)
         | (Returned (Inl err), fs, d, s) \<Rightarrow> (Returned (Inl err), fs, d, s)
         | (Returned (Inr _), fs, d, s) \<Rightarrow> close_without_ack D (d_waiting_ack d) fs d s))"

section \<open>Dispatch\<close>

text \<open>A handler that does not wait for messages.\<close>

definition at_once :: "turn list \<Rightarrow> (error + unit) \<times> dialog \<times> st \<Rightarrow> unit drive" where
  "at_once fs x = (case x of (r, d, s) \<Rightarrow> (Returned r, fs, d, s))"

definition handle_unsupported :: "dialog_env \<Rightarrow> dialog \<Rightarrow> st \<Rightarrow> (error + unit) \<times> dialog \<times> st" where
  "handle_unsupported D d s =
     (case reply_in_dialog D SC_MethodNotAllowed d s of
        (Inl err, d, s) \<Rightarrow> (Inl err, d, s)
      | (Inr _, d, s) \<Rightarrow> (Inl (DialogError ''invalid request'' (d_id d) SC_MethodNotAllowed), d, s))"

definition handle_confirmed :: "dialog_env \<Rightarrow> command list \<Rightarrow> turn list \<Rightarrow> dialog \<Rightarrow> st \<Rightarrow> unit drive" where
  "handle_confirmed D cs fs d s =
     (case req_method (tx_original (fst s)) of
        Cancel \<Rightarrow> at_once fs (if d_role d = ServerRole then reply_in_dialog D SC_OK d s else (Inr (), d, s))
      | Ack \<Rightarrow>
          at_once fs
            (if d_role d = ServerRole
             then (Inl (DialogError ''invalid request in confirmed state'' (d_id d) SC_MethodNotAllowed), d, s)
             else (Inr (), d, s))
      | Invite \<Rightarrow> handle_reinvite D cs fs d s
      | Bye \<Rightarrow> at_once fs (handle_bye D d s)
      | PRack \<Rightarrow> at_once fs (handle_prack D d s)
      | Info \<Rightarrow> at_once fs (handle_info D cs d s)
      | Options \<Rightarrow> at_once fs (handle_options D cs d s)
      | Update \<Rightarrow> at_once fs (handle_update D cs d s)
      | Refer \<Rightarrow> at_once fs (handle_refer D cs d s)
      | Message \<Rightarrow> at_once fs (handle_message D cs d s)
      | Notify \<Rightarrow> at_once fs (handle_notify D cs d s)
      | _ \<Rightarrow> at_once fs (handle_unsupported D d s))"

text \<open>The ACK of a 2xx that arrived as a transaction of its own goes to the INVITE transaction.\<close>

definition forward_ack :: "dialog \<Rightarrow> st \<Rightarrow> (error + unit) \<times> dialog \<times> st" where
  "forward_ack d s =
     (case tu_send (Received (Request (tx_original (fst s))) (tx_connection (fst s))) (d, snd s) of
        (r, (d, e)) \<Rightarrow> (r, d, (fst s, e)))"

definition handle_unconfirmed :: "dialog_env \<Rightarrow> turn list \<Rightarrow> dialog \<Rightarrow> st \<Rightarrow> unit drive" where
  "handle_unconfirmed D fs d s =
     (if d_role d \<noteq> ServerRole then (Returned (Inr ()), fs, d, s)
      else (case req_method (tx_original (fst s)) of
          Invite \<Rightarrow> handle_invite D fs d s
        | PRack \<Rightarrow> at_once fs (handle_prack D d s)
        | Ack \<Rightarrow> at_once fs (forward_ack d s)
        | Bye \<Rightarrow> at_once fs (handle_bye D d s)
        | _ \<Rightarrow> (Returned (Inr ()), fs, d, s)))"

definition observe_request :: "request \<Rightarrow> dialog \<Rightarrow> dialog" where
  "observe_request req d =
     (if req_method req = Cancel then d
      else observe_peer_session_uuid (Option.bind (session_id_header (req_headers req)) local_uuid) d)"

definition handle :: "dialog_env \<Rightarrow> command list \<Rightarrow> turn list \<Rightarrow> dialog \<Rightarrow> st \<Rightarrow> unit drive" where
  "handle D cs fs d s =
     (let req = tx_original (fst s); d = observe_request req d in
      case sip_try (and_then (cseq_header (req_headers req)) cseq_value_seq) of
        Inl err \<Rightarrow> (Returned (Inl err), fs, d, s)
      | Inr cseq \<Rightarrow>
          if d_remote_seq d > 0 \<and> cseq < d_remote_seq d then
            at_once fs (case d_role d of ServerRole \<Rightarrow> (Inr (), d, s) | ClientRole \<Rightarrow> reply_in_dialog D SC_ServerInternalError d s)
          else
            (let d = d\<lparr>d_remote_seq := cseq\<rparr> in
             if d_is_confirmed d then handle_confirmed D cs fs d s else handle_unconfirmed D fs d s))"

end
