(* ===== verification/Subscription.thy ===== *)
theory Subscription
  imports Invite_Handlers
begin

text \<open>
  Subscription and publication dialogs (\<open>dialog/subscription.rs\<close>, \<open>dialog/publication.rs\<close>). They share the
  dialog of \<open>dialog/dialog.rs\<close> with the INVITE dialog; a publication also has the entity tag of its state.
\<close>

section \<open>Operations the kinds share\<close>

definition refer_headers :: "string \<Rightarrow> header list option \<Rightarrow> header list option" where
  "refer_headers refer_to headers = Some (unwrap_or headers [] @ [H_ReferTo refer_to])"

definition expire_headers :: "string option \<Rightarrow> header list option \<Rightarrow> header list option" where
  "expire_headers etag headers =
     Some (unwrap_or headers [] @ [H_Expires ''0''] @ map (H_Other ''SIP-If-Match'') (option_list etag))"

text \<open>A request after whose exchange the dialog is terminated; an error leaves it as it is.\<close>

definition end_after :: "terminated_reason \<Rightarrow> exchange \<Rightarrow> (error + unit) await \<times> turn list \<times> world" where
  "end_after reason x =
     (case x of
        (Waiting, fs, w) \<Rightarrow> (Waiting, fs, w)
      | (Returned (Inl err), fs, w) \<Rightarrow> (Returned (Inl err), fs, w)
      | (Returned (Inr _), fs, w) \<Rightarrow> (Returned (Inr ()), fs, (end_with reason (fst w), snd w)))"

definition confirm_with :: "header list option \<Rightarrow> bytes option \<Rightarrow> world \<Rightarrow> (error + unit) \<times> world" where
  "confirm_with headers body w =
     (let resp = initial_response SC_OK headers body w in
      case tu_send (Respond resp) w of
        (Inl err, w) \<Rightarrow> (Inl err, w)
      | (Inr _, (d, e)) \<Rightarrow> (Inr (), (d_transition (DS_Confirmed (d_id d) resp) d, e)))"

section \<open>The client of a subscription\<close>

definition client_subscription_request ::
    "dialog_env \<Rightarrow> sip_method \<Rightarrow> header list option \<Rightarrow> bytes option \<Rightarrow> turn list \<Rightarrow> world \<Rightarrow> exchange" where
  "client_subscription_request D m headers body fs w = make_and_send D m headers body fs w"

definition subscribe :: "dialog_env \<Rightarrow> header list option \<Rightarrow> bytes option \<Rightarrow> turn list \<Rightarrow> world \<Rightarrow> exchange" where
  "subscribe D = client_subscription_request D Subscribe"

definition client_unsubscribe ::
    "dialog_env \<Rightarrow> header list option \<Rightarrow> turn list \<Rightarrow> world \<Rightarrow> (error + unit) await \<times> turn list \<times> world" where
  "client_unsubscribe D headers fs w =
     end_after TR_UacBye (client_subscription_request D Subscribe (expire_headers None headers) None fs w)"

definition client_subscription_refer ::
    "dialog_env \<Rightarrow> string \<Rightarrow> header list option \<Rightarrow> bytes option \<Rightarrow> turn list \<Rightarrow> world \<Rightarrow> exchange" where
  "client_subscription_refer D refer_to headers = client_subscription_request D Refer (refer_headers refer_to headers)"

definition client_subscription_message ::
    "dialog_env \<Rightarrow> header list option \<Rightarrow> bytes option \<Rightarrow> turn list \<Rightarrow> world \<Rightarrow> exchange" where
  "client_subscription_message D = client_subscription_request D Message"

definition client_subscription_handle :: "dialog_env \<Rightarrow> command list \<Rightarrow> dialog \<Rightarrow> st \<Rightarrow> (error + unit) \<times> dialog \<times> st" where
  "client_subscription_handle D cs d s =
     (case req_method (tx_original (fst s)) of
        Notify \<Rightarrow> offer_request DS_Notify D cs d s
      | Refer \<Rightarrow> offer_request DS_Refer D cs d s
      | Message \<Rightarrow> offer_request DS_Message D cs d s
      | _ \<Rightarrow> (Inr (), d, s))"

section \<open>The server of a subscription\<close>

definition server_subscription_accept :: "header list option \<Rightarrow> bytes option \<Rightarrow> world \<Rightarrow> (error + unit) \<times> world" where
  "server_subscription_accept = confirm_with"

definition server_subscription_request ::
    "dialog_env \<Rightarrow> sip_method \<Rightarrow> header list option \<Rightarrow> bytes option \<Rightarrow> turn list \<Rightarrow> world \<Rightarrow> exchange" where
  "server_subscription_request D m headers body fs w =
     (if \<not> d_is_confirmed (fst w) then (Returned (Inr None), fs, w) else make_and_send D m headers body fs w)"

definition server_subscription_notify ::
    "dialog_env \<Rightarrow> header list option \<Rightarrow> bytes option \<Rightarrow> turn list \<Rightarrow> world \<Rightarrow> exchange" where
  "server_subscription_notify D = server_subscription_request D Notify"

definition server_unsubscribe ::
    "dialog_env \<Rightarrow> header list option \<Rightarrow> turn list \<Rightarrow> world \<Rightarrow> (error + unit) await \<times> turn list \<times> world" where
  "server_unsubscribe D headers fs w =
     end_after TR_UasBye (server_subscription_request D Subscribe (expire_headers None headers) None fs w)"

definition server_subscription_refer ::
    "dialog_env \<Rightarrow> string \<Rightarrow> header list option \<Rightarrow> bytes option \<Rightarrow> turn list \<Rightarrow> world \<Rightarrow> exchange" where
  "server_subscription_refer D refer_to headers = server_subscription_request D Refer (refer_headers refer_to headers)"

definition server_subscription_message ::
    "dialog_env \<Rightarrow> header list option \<Rightarrow> bytes option \<Rightarrow> turn list \<Rightarrow> world \<Rightarrow> exchange" where
  "server_subscription_message D = server_subscription_request D Message"

definition server_subscription_handle :: "dialog_env \<Rightarrow> command list \<Rightarrow> dialog \<Rightarrow> st \<Rightarrow> (error + unit) \<times> dialog \<times> st" where
  "server_subscription_handle D cs d s =
     (case req_method (tx_original (fst s)) of
        Subscribe \<Rightarrow> offer_request DS_Updated D cs d s
      | Refer \<Rightarrow> offer_request DS_Refer D cs d s
      | Message \<Rightarrow> offer_request DS_Message D cs d s
      | _ \<Rightarrow> (Inr (), d, s))"

section \<open>The client of a publication\<close>

definition client_publication_request ::
    "dialog_env \<Rightarrow> sip_method \<Rightarrow> header list option \<Rightarrow> bytes option \<Rightarrow> turn list \<Rightarrow> world \<Rightarrow> exchange" where
  "client_publication_request D m headers body fs w = make_and_send D m headers body fs w"

definition etag_of :: "header list \<Rightarrow> string option" where
  "etag_of hs =
     find_map (\<lambda>h. case h of H_Other n v \<Rightarrow> if eq_ignore_ascii_case n ''SIP-ETag'' then Some v else None | _ \<Rightarrow> None) hs"

definition etag_after :: "response option \<Rightarrow> string option \<Rightarrow> string option" where
  "etag_after resp etag =
     (case resp of
        Some r \<Rightarrow>
          if status_code_kind (resp_status r) = Successful
          then (case etag_of (resp_headers r) of Some v \<Rightarrow> Some v | None \<Rightarrow> etag) else etag
      | None \<Rightarrow> etag)"

text \<open>The last component of the result is the entity tag afterwards.\<close>

definition publish ::
    "dialog_env \<Rightarrow> header list option \<Rightarrow> bytes option \<Rightarrow> turn list \<Rightarrow> world \<Rightarrow> string option \<Rightarrow> exchange \<times> string option" where
  "publish D headers body fs w etag =
     (let x = client_publication_request D Publish
                (Some (unwrap_or headers [] @ map (H_Other ''SIP-If-Match'') (option_list etag))) body fs w
      in (x, case fst x of Returned (Inr resp) \<Rightarrow> etag_after resp etag | _ \<Rightarrow> etag))"

definition client_publication_close ::
    "dialog_env \<Rightarrow> header list option \<Rightarrow> turn list \<Rightarrow> world \<Rightarrow> string option \<Rightarrow> (error + unit) await \<times> turn list \<times> world" where
  "client_publication_close D headers fs w etag =
     end_after TR_UacBye (client_publication_request D Publish (expire_headers etag headers) None fs w)"

definition client_publication_refer ::
    "dialog_env \<Rightarrow> string \<Rightarrow> header list option \<Rightarrow> bytes option \<Rightarrow> turn list \<Rightarrow> world \<Rightarrow> exchange" where
  "client_publication_refer D refer_to headers = client_publication_request D Refer (refer_headers refer_to headers)"

definition client_publication_message ::
    "dialog_env \<Rightarrow> header list option \<Rightarrow> bytes option \<Rightarrow> turn list \<Rightarrow> world \<Rightarrow> exchange" where
  "client_publication_message D = client_publication_request D Message"

definition publication_handle :: "dialog_env \<Rightarrow> command list \<Rightarrow> dialog \<Rightarrow> st \<Rightarrow> (error + unit) \<times> dialog \<times> st" where
  "publication_handle D cs d s =
     (case req_method (tx_original (fst s)) of
        Publish \<Rightarrow> offer_request DS_Publish D cs d s
      | _ \<Rightarrow> (Inr (), d, s))"

section \<open>The server of a publication\<close>

definition server_publication_accept ::
    "string \<Rightarrow> header list option \<Rightarrow> bytes option \<Rightarrow> world \<Rightarrow> ((error + unit) \<times> world) \<times> string option" where
  "server_publication_accept etag headers body w =
     (confirm_with (Some (unwrap_or headers [] @ [H_Other ''SIP-ETag'' etag])) body w, Some etag)"

definition server_publication_request ::
    "dialog_env \<Rightarrow> sip_method \<Rightarrow> header list option \<Rightarrow> bytes option \<Rightarrow> turn list \<Rightarrow> world \<Rightarrow> exchange" where
  "server_publication_request D m headers body fs w =
     (if \<not> d_is_confirmed (fst w) then (Returned (Inr None), fs, w) else make_and_send D m headers body fs w)"

definition server_publication_close ::
    "dialog_env \<Rightarrow> header list option \<Rightarrow> turn list \<Rightarrow> world \<Rightarrow> string option \<Rightarrow> (error + unit) await \<times> turn list \<times> world" where
  "server_publication_close D headers fs w etag =
     end_after TR_UasBye (server_publication_request D Publish (expire_headers etag headers) None fs w)"

definition server_publication_refer ::
    "dialog_env \<Rightarrow> string \<Rightarrow> header list option \<Rightarrow> bytes option \<Rightarrow> turn list \<Rightarrow> world \<Rightarrow> exchange" where
  "server_publication_refer D refer_to headers = server_publication_request D Refer (refer_headers refer_to headers)"

definition server_publication_message ::
    "dialog_env \<Rightarrow> header list option \<Rightarrow> bytes option \<Rightarrow> turn list \<Rightarrow> world \<Rightarrow> exchange" where
  "server_publication_message D = server_publication_request D Message"

end
