(* ===== verification/Dialog_Layer.thy ===== *)
theory Dialog_Layer
  imports Subscription "HOL-Library.List_Lexorder" "HOL-Library.Char_ord"
begin

text \<open>
  The dialog layer of \<open>dialog/dialog_layer.rs\<close> and the \<open>Dialog\<close> enum of \<open>dialog/dialog.rs\<close>. The layer and
  the application share the dialogs: they are cells of a store, and the map from the printed id to a
  dialog holds its kind and the number of its cell. The map is a \<open>BTreeMap\<close>, ordered by its keys.
  Random texts (the tag and the Session-ID of a new dialog) are arguments.
\<close>

section \<open>The layer\<close>

datatype dialog_kind = KInvite | KServerSubscription | KClientSubscription | KServerPublication | KClientPublication

record layer =
  ly_last_seq :: "32 word"
  ly_dialogs :: "(string \<times> dialog_kind \<times> nat) list"
  ly_store :: "nat \<Rightarrow> dialog option"
  ly_etags :: "nat \<Rightarrow> string option"
  ly_next :: nat

definition layer_new :: layer where
  "layer_new = \<lparr>ly_last_seq = 0, ly_dialogs = [], ly_store = \<lambda>_. None, ly_etags = \<lambda>_. None, ly_next = 0\<rparr>"

definition increment_last_seq :: "layer \<Rightarrow> nat \<times> layer" where
  "increment_last_seq L = (unat (ly_last_seq L + 1), L\<lparr>ly_last_seq := ly_last_seq L + 1\<rparr>)"

definition layer_len :: "layer \<Rightarrow> nat" where "layer_len L = length (ly_dialogs L)"

definition layer_is_empty :: "layer \<Rightarrow> bool" where "layer_is_empty L \<longleftrightarrow> ly_dialogs L = []"

definition all_dialog_ids :: "layer \<Rightarrow> string list" where "all_dialog_ids L = map fst (ly_dialogs L)"

definition get_dialog_with :: "string \<Rightarrow> layer \<Rightarrow> (dialog_kind \<times> nat) option" where
  "get_dialog_with k L = map_of (ly_dialogs L) k"

definition get_dialog :: "dialog_id \<Rightarrow> layer \<Rightarrow> (dialog_kind \<times> nat) option" where
  "get_dialog i L = get_dialog_with (show_dialog_id i) L"

definition match_dialog :: "transaction \<Rightarrow> layer \<Rightarrow> (dialog_kind \<times> nat) option" where
  "match_dialog t L = Option.bind (ok (dialog_id_of_request (tx_original t) (tx_role t))) (\<lambda>i. get_dialog i L)"

definition get_client_dialog_by_call_id :: "string \<Rightarrow> layer \<Rightarrow> nat list" where
  "get_client_dialog_by_call_id call_id L =
     map (\<lambda>(_, _, r). r) (filter (\<lambda>(_, k, r). k = KInvite \<and>
       (case ly_store L r of Some d \<Rightarrow> d_role d = ClientRole \<and> did_call_id (d_id d) = call_id | None \<Rightarrow> False)) (ly_dialogs L))"

text \<open>A new cell, and an entry for a cell under a key.\<close>

definition new_cell :: "dialog \<Rightarrow> layer \<Rightarrow> nat \<times> layer" where
  "new_cell d L = (ly_next L, L\<lparr>ly_store := (ly_store L)(ly_next L \<mapsto> d), ly_next := Suc (ly_next L)\<rparr>)"

definition insert_dialog :: "string \<Rightarrow> dialog_kind \<Rightarrow> nat \<Rightarrow> layer \<Rightarrow> layer" where
  "insert_dialog k kind r L = L\<lparr>ly_dialogs := btree_insert k (kind, r) (ly_dialogs L)\<rparr>"

definition drop_dialog :: "string \<Rightarrow> layer \<Rightarrow> (dialog_kind \<times> nat) option \<times> layer" where
  "drop_dialog k L = (case btree_remove k (ly_dialogs L) of (x, ds) \<Rightarrow> (x, L\<lparr>ly_dialogs := ds\<rparr>))"

text \<open>\<open>on_remove\<close> cancels the token of the dialog.\<close>

definition on_remove :: "nat \<Rightarrow> layer \<Rightarrow> layer" where
  "on_remove r L = L\<lparr>ly_store := (ly_store L)(r := map_option (d_cancelled_update (\<lambda>_. True)) (ly_store L r))\<rparr>"

definition take_dialog :: "dialog_id \<Rightarrow> layer \<Rightarrow> (dialog_kind \<times> nat) option \<times> layer" where
  "take_dialog i L =
     (case drop_dialog (show_dialog_id i) L of
        (Some (kind, r), L) \<Rightarrow> (Some (kind, r), on_remove r L)
      | (None, L) \<Rightarrow> (None, L))"

definition remove_dialog :: "dialog_id \<Rightarrow> layer \<Rightarrow> layer" where
  "remove_dialog i L =
     (case drop_dialog (show_dialog_id i) L of (Some (_, r), L) \<Rightarrow> on_remove r L | (None, L) \<Rightarrow> L)"

section \<open>New dialogs\<close>

definition build_local_contact :: "sip_addr list \<Rightarrow> string option \<Rightarrow> param list option \<Rightarrow> error + uri" where
  "build_local_contact addrs username params =
     (case addrs of
        [] \<Rightarrow> Inl (EndpointError ''not sipaddrs'')
      | addr # _ \<Rightarrow>
          Inr \<lparr>uri_scheme = Some (if sa_type addr = Some Tls then Sips else Sip),
               uri_auth = map_option (\<lambda>u. \<lparr>auth_user = u, auth_password = None\<rparr>) username,
               uri_hwp = sa_addr addr,
               uri_params = unwrap_or params [] @ (case sa_type addr of
                   Some t \<Rightarrow> if t = Udp then [] else [P_Transport t]
                 | None \<Rightarrow> []),
               uri_headers = []\<rparr>)"

definition contact_or_local :: "sip_addr list \<Rightarrow> credential option \<Rightarrow> uri option \<Rightarrow> uri option" where
  "contact_or_local addrs cred contact =
     (case contact of
        Some c \<Rightarrow> Some c
      | None \<Rightarrow> ok (build_local_contact addrs (map_option cr_username cred) None))"

text \<open>The transport of a stream connection goes into the remote target of an INVITE dialog that names none.\<close>

definition target_over_connection :: "sip_connection option \<Rightarrow> uri \<Rightarrow> uri" where
  "target_over_connection c u =
     (case c of
        Some conn \<Rightarrow>
          if conn_transport conn \<noteq> Udp \<and> params_transport (uri_params u) = None
          then u\<lparr>uri_params := uri_params u @ [P_Transport (conn_transport conn)]\<rparr> else u
      | None \<Rightarrow> u)"

definition not_found :: "dialog_id \<Rightarrow> error" where
  "not_found i = DialogError ''the dialog not found'' i SC_CallTransactionDoesNotExist"

text \<open>\<open>get_or_create_server_invite\<close> and its variants for subscriptions and publications.\<close>

definition get_or_create_server ::
    "dialog_kind \<Rightarrow> sip_addr list \<Rightarrow> string \<Rightarrow> string \<Rightarrow> transaction \<Rightarrow> credential option \<Rightarrow> uri option \<Rightarrow> layer
     \<Rightarrow> (error + nat) \<times> layer" where
  "get_or_create_server kind addrs tag uuid t cred contact L =
     (case dialog_id_of_request (tx_original t) (tx_role t) of
        Inl err \<Rightarrow> (Inl err, L)
      | Inr i \<Rightarrow>
          if did_local_tag i \<noteq> [] then
            (case get_dialog i L of
               Some (k, r) \<Rightarrow> if k = kind then (Inr r, L) else (Inl (not_found i), L)
             | None \<Rightarrow> (Inl (not_found i), L))
          else
            (let i = i\<lparr>did_local_tag := tag\<rparr> in
             case dialog_new uuid ServerRole i (tx_original t) cred (contact_or_local addrs cred contact) (Some (tx_channel t)) of
               Inl err \<Rightarrow> (Inl err, L)
             | Inr d \<Rightarrow>
                 (let d = d\<lparr>d_remote_contact := ok (contact_header (req_headers (tx_original t)))\<rparr>;
                      d = (if kind = KInvite then d\<lparr>d_remote_uri := target_over_connection (tx_connection t) (d_remote_uri d)\<rparr> else d);
                      (r, L) = new_cell (set_server_connection (tx_connection t) d) L
                  in (Inr r, insert_dialog (show_dialog_id i) kind r L))))"

definition get_or_create_server_invite ::
    "sip_addr list \<Rightarrow> string \<Rightarrow> string \<Rightarrow> transaction \<Rightarrow> credential option \<Rightarrow> uri option \<Rightarrow> layer \<Rightarrow> (error + nat) \<times> layer" where
  "get_or_create_server_invite = get_or_create_server KInvite"

definition get_or_create_server_subscription ::
    "sip_addr list \<Rightarrow> string \<Rightarrow> string \<Rightarrow> transaction \<Rightarrow> credential option \<Rightarrow> uri option \<Rightarrow> layer \<Rightarrow> (error + nat) \<times> layer" where
  "get_or_create_server_subscription = get_or_create_server KServerSubscription"

definition get_or_create_server_publication ::
    "sip_addr list \<Rightarrow> string \<Rightarrow> string \<Rightarrow> transaction \<Rightarrow> credential option \<Rightarrow> uri option \<Rightarrow> layer \<Rightarrow> (error + nat) \<times> layer" where
  "get_or_create_server_publication = get_or_create_server KServerPublication"

text \<open>The channel of a dialog that is not made from a transaction has no receiver.\<close>

definition get_or_create_client ::
    "dialog_kind \<Rightarrow> sip_addr list \<Rightarrow> string \<Rightarrow> dialog_id \<Rightarrow> request \<Rightarrow> credential option \<Rightarrow> uri option \<Rightarrow> layer
     \<Rightarrow> (error + nat) \<times> layer" where
  "get_or_create_client kind addrs uuid i req cred contact L =
     (let existing = (case get_dialog i L of Some (k, r) \<Rightarrow> if k = kind then Some r else None | None \<Rightarrow> None) in
      case existing of
        Some r \<Rightarrow> (Inr r, L)
      | None \<Rightarrow>
          (case dialog_new uuid ClientRole i req cred (contact_or_local addrs cred contact) None of
             Inl err \<Rightarrow> (Inl err, L)
           | Inr d \<Rightarrow> (let (r, L) = new_cell d L in (Inr r, insert_dialog (show_dialog_id i) kind r L))))"

definition get_or_create_client_publication ::
    "sip_addr list \<Rightarrow> string \<Rightarrow> string \<Rightarrow> string \<Rightarrow> string \<Rightarrow> request \<Rightarrow> credential option \<Rightarrow> uri option \<Rightarrow> layer
     \<Rightarrow> (error + nat) \<times> layer" where
  "get_or_create_client_publication addrs uuid call_id ftag ttag =
     get_or_create_client KClientPublication addrs uuid
       \<lparr>did_call_id = call_id, did_local_tag = ftag, did_remote_tag = ttag\<rparr>"

definition get_or_create_client_subscription ::
    "sip_addr list \<Rightarrow> string \<Rightarrow> string \<Rightarrow> string \<Rightarrow> string \<Rightarrow> request \<Rightarrow> credential option \<Rightarrow> uri option \<Rightarrow> layer
     \<Rightarrow> (error + nat) \<times> layer" where
  "get_or_create_client_subscription addrs uuid call_id ftag ttag =
     get_or_create_client KClientSubscription addrs uuid
       \<lparr>did_call_id = call_id, did_local_tag = ftag, did_remote_tag = ttag\<rparr>"

text \<open>A restored dialog is always an INVITE dialog (\<open>Dialog::from_inner\<close>).\<close>

definition layer_restore :: "string \<Rightarrow> snapshot \<Rightarrow> layer \<Rightarrow> bool \<times> layer" where
  "layer_restore user_agent s L =
     (if get_dialog (sn_id s) L \<noteq> None then (False, L)
      else (case restore_from_snapshot user_agent s of
          None \<Rightarrow> (False, L)
        | Some d \<Rightarrow>
            (let (r, L) = new_cell d L in (True, insert_dialog (show_dialog_id (d_id d)) KInvite r L))))"

section \<open>The operations of a dialog of any kind\<close>

definition as_subscription :: "dialog_kind \<Rightarrow> dialog \<Rightarrow> dialog_kind option" where
  "as_subscription kind d =
     (case kind of
        KInvite \<Rightarrow> Some (case d_role d of ServerRole \<Rightarrow> KServerSubscription | ClientRole \<Rightarrow> KClientSubscription)
      | KServerSubscription \<Rightarrow> Some KServerSubscription
      | KClientSubscription \<Rightarrow> Some KClientSubscription
      | _ \<Rightarrow> None)"

definition remote_contact_uri :: "dialog \<Rightarrow> uri option" where
  "remote_contact_uri d = Option.bind (d_remote_contact d) (\<lambda>c. map_option na_uri (ok (contact_parse c)))"

definition kind_handle :: "dialog_kind \<Rightarrow> dialog_env \<Rightarrow> command list \<Rightarrow> turn list \<Rightarrow> dialog \<Rightarrow> st \<Rightarrow> unit drive" where
  "kind_handle kind D cs fs d s =
     (case kind of
        KInvite \<Rightarrow> handle D cs fs d s
      | KServerSubscription \<Rightarrow> at_once fs (server_subscription_handle D cs d s)
      | KClientSubscription \<Rightarrow> at_once fs (client_subscription_handle D cs d s)
      | KServerPublication \<Rightarrow> at_once fs (publication_handle D cs d s)
      | KClientPublication \<Rightarrow> at_once fs (publication_handle D cs d s))"

definition kind_hangup ::
    "dialog_kind \<Rightarrow> dialog_env \<Rightarrow> string option \<Rightarrow> header list option \<Rightarrow> turn list \<Rightarrow> world \<Rightarrow> (error + unit) await \<times> turn list \<times> world" where
  "kind_hangup kind D etag headers fs w =
     (case kind of
        KInvite \<Rightarrow> hangup_with_headers D headers fs w
      | KServerSubscription \<Rightarrow> server_unsubscribe D headers fs w
      | KClientSubscription \<Rightarrow> client_unsubscribe D headers fs w
      | KServerPublication \<Rightarrow> server_publication_close D headers fs w etag
      | KClientPublication \<Rightarrow> client_publication_close D headers fs w etag)"

definition kind_request ::
    "dialog_kind \<Rightarrow> dialog_env \<Rightarrow> sip_method \<Rightarrow> header list option \<Rightarrow> bytes option \<Rightarrow> turn list \<Rightarrow> world \<Rightarrow> exchange" where
  "kind_request kind =
     (case kind of
        KInvite \<Rightarrow> invite_request
      | KServerSubscription \<Rightarrow> server_subscription_request
      | KClientSubscription \<Rightarrow> client_subscription_request
      | KServerPublication \<Rightarrow> server_publication_request
      | KClientPublication \<Rightarrow> client_publication_request)"

definition kind_refer ::
    "dialog_kind \<Rightarrow> dialog_env \<Rightarrow> string \<Rightarrow> header list option \<Rightarrow> bytes option \<Rightarrow> turn list \<Rightarrow> world \<Rightarrow> exchange" where
  "kind_refer kind =
     (case kind of
        KInvite \<Rightarrow> refer
      | KServerSubscription \<Rightarrow> server_subscription_refer
      | KClientSubscription \<Rightarrow> client_subscription_refer
      | KServerPublication \<Rightarrow> server_publication_refer
      | KClientPublication \<Rightarrow> client_publication_refer)"

definition kind_message ::
    "dialog_kind \<Rightarrow> dialog_env \<Rightarrow> header list option \<Rightarrow> bytes option \<Rightarrow> turn list \<Rightarrow> world \<Rightarrow> exchange" where
  "kind_message kind =
     (case kind of
        KInvite \<Rightarrow> message
      | KServerSubscription \<Rightarrow> server_subscription_message
      | KClientSubscription \<Rightarrow> client_subscription_message
      | KServerPublication \<Rightarrow> server_publication_message
      | KClientPublication \<Rightarrow> client_publication_message)"

end
