(* ===== verification/Legacy_Dialogs.thy ===== *)
theory Legacy_Dialogs
  imports Dialog_Layer
begin

text \<open>
  The deprecated wrappers of an INVITE dialog: \<open>ServerInviteDialog\<close> of \<open>dialog/server_dialog.rs\<close> (\<open>uas_\<close>) and
  \<open>ClientInviteDialog\<close> of \<open>dialog/client_dialog.rs\<close> (\<open>uac_\<close>). They work on the same dialog value as \<open>InviteDialog\<close>
  and have handlers of their own, which have drifted from its.
\<close>

section \<open>The callee\<close>

definition uas_ringing :: "header list option \<Rightarrow> bytes option \<Rightarrow> world \<Rightarrow> (error + unit) \<times> world" where
  "uas_ringing headers body w =
     (if \<not> d_can_cancel (fst w) then (Inr (), w)
      else
        (let resp = initial_response (if body \<noteq> None then SC_SessionProgress else SC_Ringing) headers body w in
         case tu_send (Respond resp) w of
           (Inl err, w) \<Rightarrow> (Inl err, w)
         | (Inr _, (d, e)) \<Rightarrow> (Inr (), (d_transition (DS_Early (d_id d) resp) d, e))))"

definition uas_accept :: "header list option \<Rightarrow> bytes option \<Rightarrow> world \<Rightarrow> (error + unit) \<times> world" where
  "uas_accept headers body w =
     (let resp = initial_response SC_OK headers body w in
      case tu_send (Respond resp) w of
        (Inl err, w) \<Rightarrow> (Inl err, w)
      | (Inr _, (d, e)) \<Rightarrow> (Inr (), (d_transition (DS_WaitAck (d_id d) resp) d, e)))"

definition uas_accept_with_public_contact ::
    "string \<Rightarrow> host_with_port option \<Rightarrow> sip_addr \<Rightarrow> header list option \<Rightarrow> bytes option \<Rightarrow> world \<Rightarrow> (error + unit) \<times> world" where
  "uas_accept_with_public_contact username public_address local_address headers body w =
     uas_accept (Some (unwrap_or headers [] @ [H_Contact (show_contact (create_nat_aware_contact username public_address local_address))]))
       body w"

definition uas_reject :: "status_code option \<Rightarrow> string option \<Rightarrow> world \<Rightarrow> (error + unit) \<times> world" where
  "uas_reject code reason w =
     (if d_is_terminated (fst w) \<or> d_is_confirmed (fst w) then (Inr (), w)
      else
        (let resp = initial_response (unwrap_or code SC_Decline) (map_option (\<lambda>r. [H_Reason r]) reason) None w;
             w = snd (tu_send (Respond resp) w)
         in (Inr (), (end_with TR_UasDecline (fst w), snd w))))"

definition cannot_bye :: "dialog \<Rightarrow> error" where
  "cannot_bye d = Error (''dialog '' @ show_dialog_id (d_id d) @ '' cannot send BYE in state '' @ show_dialog_state (d_state d))"

definition uas_bye_with_headers ::
    "dialog_env \<Rightarrow> header list option \<Rightarrow> turn list \<Rightarrow> world \<Rightarrow> (error + unit) await \<times> turn list \<times> world" where
  "uas_bye_with_headers D headers fs w =
     (let d = fst w in
      if \<not> d_is_confirmed d \<and> \<not> d_waiting_ack d then
        (if \<not> d_is_terminated d then (Returned (Inl (cannot_bye d)), fs, w) else (Returned (Inr ()), fs, w))
      else (case dialog_request D (snd w) Bye None None None headers None d of
          (Inl err, d) \<Rightarrow> (Returned (Inl err), fs, (d, snd w))
        | (Inr req, d) \<Rightarrow> send_bye D req TR_UasBye fs (d, snd w)))"

definition uas_bye_with_reason :: "dialog_env \<Rightarrow> string \<Rightarrow> turn list \<Rightarrow> world \<Rightarrow> (error + unit) await \<times> turn list \<times> world" where
  "uas_bye_with_reason D reason = uas_bye_with_headers D (Some [H_Reason reason])"

definition uas_request :: "dialog_env \<Rightarrow> sip_method \<Rightarrow> header list option \<Rightarrow> bytes option \<Rightarrow> turn list \<Rightarrow> world \<Rightarrow> exchange" where
  "uas_request D m headers body fs w =
     (if \<not> d_is_confirmed (fst w) then (Returned (Inr None), fs, w) else make_and_send D m headers body fs w)"

definition uas_reinvite :: "dialog_env \<Rightarrow> header list option \<Rightarrow> bytes option \<Rightarrow> turn list \<Rightarrow> world \<Rightarrow> exchange" where
  "uas_reinvite D headers body fs w =
     (if \<not> d_is_confirmed (fst w) then (Returned (Inr None), fs, w) else make_and_send D Invite headers body fs w)"

definition uas_update :: "dialog_env \<Rightarrow> header list option \<Rightarrow> bytes option \<Rightarrow> turn list \<Rightarrow> world \<Rightarrow> exchange" where
  "uas_update D headers body fs w =
     (if \<not> d_is_confirmed (fst w) then (Returned (Inr None), fs, w) else make_and_send D Update headers body fs w)"

definition uas_info :: "dialog_env \<Rightarrow> header list option \<Rightarrow> bytes option \<Rightarrow> turn list \<Rightarrow> world \<Rightarrow> exchange" where
  "uas_info D headers body fs w =
     (if \<not> d_is_confirmed (fst w) then (Returned (Inr None), fs, w) else make_and_send D Info headers body fs w)"

definition uas_notify :: "dialog_env \<Rightarrow> header list option \<Rightarrow> bytes option \<Rightarrow> turn list \<Rightarrow> world \<Rightarrow> exchange" where
  "uas_notify D = uas_request D Notify"

definition uas_refer :: "dialog_env \<Rightarrow> string \<Rightarrow> header list option \<Rightarrow> bytes option \<Rightarrow> turn list \<Rightarrow> world \<Rightarrow> exchange" where
  "uas_refer D refer_to headers = uas_request D Refer (Some (unwrap_or headers [] @ [H_ReferTo refer_to]))"

definition uas_message :: "dialog_env \<Rightarrow> header list option \<Rightarrow> bytes option \<Rightarrow> turn list \<Rightarrow> world \<Rightarrow> exchange" where
  "uas_message D = uas_request D Message"

text \<open>Requests of the peer.\<close>

definition uas_handle_bye :: "dialog_env \<Rightarrow> dialog \<Rightarrow> st \<Rightarrow> (error + unit) \<times> dialog \<times> st" where
  "uas_handle_bye D d s = reply_in_dialog D SC_OK (end_with TR_UacBye d) s"

definition uas_handle_info :: "dialog_env \<Rightarrow> command list \<Rightarrow> dialog \<Rightarrow> st \<Rightarrow> (error + unit) \<times> dialog \<times> st" where
  "uas_handle_info = offer_and_confirm DS_Info"

definition uas_handle_prack :: "dialog_env \<Rightarrow> dialog \<Rightarrow> st \<Rightarrow> (error + unit) \<times> dialog \<times> st" where
  "uas_handle_prack D d s =
     (if \<not> rack_ok (req_headers (tx_original (fst s))) then reply_in_dialog D SC_BadRequest d s else reply_in_dialog D SC_OK d s)"

definition uas_handle_options :: "dialog_env \<Rightarrow> command list \<Rightarrow> dialog \<Rightarrow> st \<Rightarrow> (error + unit) \<times> dialog \<times> st" where
  "uas_handle_options = offer_request DS_Options"

definition uas_handle_update :: "dialog_env \<Rightarrow> command list \<Rightarrow> dialog \<Rightarrow> st \<Rightarrow> (error + unit) \<times> dialog \<times> st" where
  "uas_handle_update = offer_and_confirm DS_Updated"

text \<open>A REFER is answered without another notification of \<open>Confirmed\<close>.\<close>

definition uas_handle_refer :: "dialog_env \<Rightarrow> command list \<Rightarrow> dialog \<Rightarrow> st \<Rightarrow> (error + unit) \<times> dialog \<times> st" where
  "uas_handle_refer = offer_request DS_Refer"

definition uas_handle_message :: "dialog_env \<Rightarrow> command list \<Rightarrow> dialog \<Rightarrow> st \<Rightarrow> (error + unit) \<times> dialog \<times> st" where
  "uas_handle_message = offer_and_confirm DS_Message"

definition uas_handle_notify :: "dialog_env \<Rightarrow> command list \<Rightarrow> dialog \<Rightarrow> st \<Rightarrow> (error + unit) \<times> dialog \<times> st" where
  "uas_handle_notify = offer_and_confirm DS_Notify"

definition uas_handle_reinvite :: "dialog_env \<Rightarrow> command list \<Rightarrow> turn list \<Rightarrow> dialog \<Rightarrow> st \<Rightarrow> unit drive" where
  "uas_handle_reinvite D cs fs d s =
     (case offer_request DS_Updated D cs d s of
        (Inl err, d, s) \<Rightarrow> (Returned (Inl err), fs, d, s)
      | (Inr _, d, s) \<Rightarrow>
          (let answered_2xx = last_is_2xx (fst s) in
           case reinvite_loop D fs d s of
             (Waiting, fs, d, s) \<Rightarrow> (Waiting, fs, d, s)
           | (Returned acked, fs, d, s) \<Rightarrow> close_without_ack D (answered_2xx \<and> \<not> acked) fs d s))"

text \<open>The INVITE is answered with a 100 and the state goes to \<open>Calling\<close> in every state but \<open>Confirmed\<close>.\<close>

definition uas_begin_invite :: "dialog_env \<Rightarrow> dialog \<Rightarrow> st \<Rightarrow> dialog \<times> st" where
  "uas_begin_invite D d s =
     (if \<not> d_is_confirmed d \<and> req_method (tx_original (fst s)) = Invite
      then (d_transition (DS_Calling (d_id d)) d, snd (send_trying (tx_env D s) s)) else (d, s))"

definition uas_handle_invite :: "dialog_env \<Rightarrow> turn list \<Rightarrow> dialog \<Rightarrow> st \<Rightarrow> unit drive" where
  "uas_handle_invite D fs d s =
     (case uas_begin_invite D d s of (d, s) \<Rightarrow>
        (case server_loop D fs d s of
           (Waiting, fs, d, s) \<Rightarrow> (Waiting, fs, d, s)
         | (Returned (Inl err), fs, d, s) \<Rightarrow> (Returned (Inl err), fs, d, s)
         | (Returned (Inr _), fs, d, s) \<Rightarrow> close_without_ack D (d_waiting_ack d) fs d s))"

definition uas_handle_confirmed :: "dialog_env \<Rightarrow> command list \<Rightarrow> turn list \<Rightarrow> dialog \<Rightarrow> st \<Rightarrow> unit drive" where
  "uas_handle_confirmed D cs fs d s =
     (case req_method (tx_original (fst s)) of
        Cancel \<Rightarrow> at_once fs (reply_in_dialog D SC_OK d s)
      | Ack \<Rightarrow> at_once fs (Inl (DialogError ''invalid request in confirmed state'' (d_id d) SC_MethodNotAllowed), d, s)
      | Invite \<Rightarrow> uas_handle_reinvite D cs fs d s
      | Bye \<Rightarrow> at_once fs (uas_handle_bye D d s)
      | PRack \<Rightarrow> at_once fs (uas_handle_prack D d s)
      | Info \<Rightarrow> at_once fs (uas_handle_info D cs d s)
      | Options \<Rightarrow> at_once fs (uas_handle_options D cs d s)
      | Update \<Rightarrow> at_once fs (uas_handle_update D cs d s)
      | Refer \<Rightarrow> at_once fs (uas_handle_refer D cs d s)
      | Message \<Rightarrow> at_once fs (uas_handle_message D cs d s)
      | Notify \<Rightarrow> at_once fs (uas_handle_notify D cs d s)
      | _ \<Rightarrow> at_once fs (handle_unsupported D d s))"

definition uas_handle :: "dialog_env \<Rightarrow> command list \<Rightarrow> turn list \<Rightarrow> dialog \<Rightarrow> st \<Rightarrow> unit drive" where
  "uas_handle D cs fs d s =
     (case sip_try (and_then (cseq_header (req_headers (tx_original (fst s)))) cseq_value_seq) of
        Inl err \<Rightarrow> (Returned (Inl err), fs, d, s)
      | Inr cseq \<Rightarrow>
          if d_remote_seq d > 0 \<and> cseq < d_remote_seq d then (Returned (Inr ()), fs, d, s)
          else
            (let d = d\<lparr>d_remote_seq := cseq\<rparr> in
             if d_is_confirmed d then uas_handle_confirmed D cs fs d s
             else (case req_method (tx_original (fst s)) of
                 Invite \<Rightarrow> uas_handle_invite D fs d s
               | PRack \<Rightarrow> at_once fs (uas_handle_prack D d s)
               | Ack \<Rightarrow> at_once fs (forward_ack d s)
               | Bye \<Rightarrow> at_once fs (uas_handle_bye D d s)
               | _ \<Rightarrow> (Returned (Inr ()), fs, d, s))))"

text \<open>The conversions from the \<open>Dialog\<close> enum and from \<open>InviteDialog\<close>.\<close>

definition uas_of_invite :: "dialog \<Rightarrow> error + dialog" where
  "uas_of_invite d =
     (if d_role d \<noteq> ServerRole then Inl (DialogError ''InviteDialog is not a Server dialog'' (d_id d) SC_BadRequest) else Inr d)"

definition uac_of_invite :: "dialog \<Rightarrow> error + dialog" where
  "uac_of_invite d =
     (if d_role d \<noteq> ClientRole then Inl (DialogError ''InviteDialog is not a Client dialog'' (d_id d) SC_BadRequest) else Inr d)"

definition uas_of_dialog :: "dialog_kind \<Rightarrow> dialog \<Rightarrow> error + dialog" where
  "uas_of_dialog kind d =
     (if kind = KInvite \<and> d_role d = ServerRole then uas_of_invite d
      else Inl (DialogError ''Dialog is not a ServerInviteDialog'' (d_id d) SC_BadRequest))"

section \<open>The caller\<close>

definition uac_bye_with_headers ::
    "dialog_env \<Rightarrow> header list option \<Rightarrow> turn list \<Rightarrow> world \<Rightarrow> (error + unit) await \<times> turn list \<times> world" where
  "uac_bye_with_headers D headers fs w =
     (let d = fst w in
      if \<not> d_is_confirmed d then
        (if \<not> d_is_terminated d then (Returned (Inl (cannot_bye d)), fs, w) else (Returned (Inr ()), fs, w))
      else (case dialog_request D (snd w) Bye None None None headers None d of
          (Inl err, d) \<Rightarrow> (Returned (Inl err), fs, (d, snd w))
        | (Inr req, d) \<Rightarrow> send_bye D req TR_UacBye fs (d, snd w)))"

definition uac_bye_with_reason :: "dialog_env \<Rightarrow> string \<Rightarrow> turn list \<Rightarrow> world \<Rightarrow> (error + unit) await \<times> turn list \<times> world" where
  "uac_bye_with_reason D reason = uac_bye_with_headers D (Some [H_Reason reason])"

definition uac_cancel :: "dialog_env \<Rightarrow> turn list \<Rightarrow> world \<Rightarrow> (error + unit) await \<times> turn list \<times> world" where
  "uac_cancel D fs w = cancel D fs w"

definition uac_hangup_with_headers ::
    "dialog_env \<Rightarrow> header list option \<Rightarrow> turn list \<Rightarrow> world \<Rightarrow> (error + unit) await \<times> turn list \<times> world" where
  "uac_hangup_with_headers D headers fs w =
     (if d_can_cancel (fst w) then uac_cancel D fs w else uac_bye_with_headers D headers fs w)"

definition uac_hangup_with_reason :: "dialog_env \<Rightarrow> string \<Rightarrow> turn list \<Rightarrow> world \<Rightarrow> (error + unit) await \<times> turn list \<times> world" where
  "uac_hangup_with_reason D reason = uac_hangup_with_headers D (Some [H_Reason reason])"

definition uac_request :: "dialog_env \<Rightarrow> sip_method \<Rightarrow> header list option \<Rightarrow> bytes option \<Rightarrow> turn list \<Rightarrow> world \<Rightarrow> exchange" where
  "uac_request D m headers body fs w =
     (if \<not> d_is_confirmed (fst w) then (Returned (Inr None), fs, w) else make_and_send D m headers body fs w)"

definition uac_reinvite :: "dialog_env \<Rightarrow> header list option \<Rightarrow> bytes option \<Rightarrow> turn list \<Rightarrow> world \<Rightarrow> exchange" where
  "uac_reinvite D headers body fs w =
     (if \<not> d_is_confirmed (fst w) then (Returned (Inr None), fs, w) else make_and_send D Invite headers body fs w)"

definition uac_set_next_ack_body :: "bytes option \<Rightarrow> dialog \<Rightarrow> dialog" where
  "uac_set_next_ack_body body d = d\<lparr>d_next_ack_body := body\<rparr>"

definition uac_update :: "dialog_env \<Rightarrow> header list option \<Rightarrow> bytes option \<Rightarrow> turn list \<Rightarrow> world \<Rightarrow> exchange" where
  "uac_update D headers body fs w =
     (if \<not> d_is_confirmed (fst w) then (Returned (Inr None), fs, w) else make_and_send D Update headers body fs w)"

definition uac_info :: "dialog_env \<Rightarrow> header list option \<Rightarrow> bytes option \<Rightarrow> turn list \<Rightarrow> world \<Rightarrow> exchange" where
  "uac_info D headers body fs w =
     (if \<not> d_is_confirmed (fst w) then (Returned (Inr None), fs, w) else make_and_send D Info headers body fs w)"

definition uac_options :: "dialog_env \<Rightarrow> header list option \<Rightarrow> bytes option \<Rightarrow> turn list \<Rightarrow> world \<Rightarrow> exchange" where
  "uac_options D headers body fs w =
     (if \<not> d_is_confirmed (fst w) then (Returned (Inr None), fs, w) else make_and_send D Options headers body fs w)"

definition uac_notify :: "dialog_env \<Rightarrow> header list option \<Rightarrow> bytes option \<Rightarrow> turn list \<Rightarrow> world \<Rightarrow> exchange" where
  "uac_notify D = uac_request D Notify"

definition uac_refer :: "dialog_env \<Rightarrow> string \<Rightarrow> header list option \<Rightarrow> bytes option \<Rightarrow> turn list \<Rightarrow> world \<Rightarrow> exchange" where
  "uac_refer D refer_to headers = uac_request D Refer (Some (unwrap_or headers [] @ [H_ReferTo refer_to]))"

definition uac_message :: "dialog_env \<Rightarrow> header list option \<Rightarrow> bytes option \<Rightarrow> turn list \<Rightarrow> world \<Rightarrow> exchange" where
  "uac_message D = uac_request D Message"

text \<open>Requests of the peer.\<close>

definition uac_handle_bye :: "dialog_env \<Rightarrow> dialog \<Rightarrow> st \<Rightarrow> (error + unit) \<times> dialog \<times> st" where
  "uac_handle_bye D d s = reply_in_dialog D SC_OK (end_with TR_UasBye d) s"

definition uac_handle_info :: "dialog_env \<Rightarrow> command list \<Rightarrow> dialog \<Rightarrow> st \<Rightarrow> (error + unit) \<times> dialog \<times> st" where
  "uac_handle_info = offer_and_confirm DS_Info"

definition uac_handle_options :: "dialog_env \<Rightarrow> command list \<Rightarrow> dialog \<Rightarrow> st \<Rightarrow> (error + unit) \<times> dialog \<times> st" where
  "uac_handle_options = offer_request DS_Options"

definition uac_handle_update :: "dialog_env \<Rightarrow> command list \<Rightarrow> dialog \<Rightarrow> st \<Rightarrow> (error + unit) \<times> dialog \<times> st" where
  "uac_handle_update = offer_and_confirm DS_Updated"

definition uac_handle_refer :: "dialog_env \<Rightarrow> command list \<Rightarrow> dialog \<Rightarrow> st \<Rightarrow> (error + unit) \<times> dialog \<times> st" where
  "uac_handle_refer = offer_and_confirm DS_Refer"

definition uac_handle_message :: "dialog_env \<Rightarrow> command list \<Rightarrow> dialog \<Rightarrow> st \<Rightarrow> (error + unit) \<times> dialog \<times> st" where
  "uac_handle_message = offer_and_confirm DS_Message"

definition uac_handle_notify :: "dialog_env \<Rightarrow> command list \<Rightarrow> dialog \<Rightarrow> st \<Rightarrow> (error + unit) \<times> dialog \<times> st" where
  "uac_handle_notify = offer_and_confirm DS_Notify"

text \<open>The ACK of a re-INVITE is kept, but \<open>Confirmed\<close> is not notified again.\<close>

function uac_reinvite_loop :: "dialog_env \<Rightarrow> turn list \<Rightarrow> dialog \<Rightarrow> st \<Rightarrow> bool await \<times> turn list \<times> dialog \<times> st" where
  "uac_reinvite_loop D fs d s =
     (case await_message D fs d s of
        (Waiting, fs, d, s) \<Rightarrow> (Waiting, fs, d, s)
      | (Returned None, fs, d, s) \<Rightarrow> (Returned False, fs, d, s)
      | (Returned (Some msg), fs, d, s) \<Rightarrow>
          (case msg of
             Request req \<Rightarrow>
               if req_method req = Ack then (Returned True, fs, d\<lparr>d_remote_ack := Some req\<rparr>, s) else uac_reinvite_loop D fs d s
           | Response _ \<Rightarrow> uac_reinvite_loop D fs d s))"
  by pat_completeness auto

termination
  by (relation "measure (\<lambda>(D, fs, d, s). length fs)") (auto dest: await_message_shorter [OF sym])

declare uac_reinvite_loop.simps [simp del]

definition uac_handle_reinvite :: "dialog_env \<Rightarrow> command list \<Rightarrow> turn list \<Rightarrow> dialog \<Rightarrow> st \<Rightarrow> unit drive" where
  "uac_handle_reinvite D cs fs d s =
     (case offer_request DS_Updated D cs d s of
        (Inl err, d, s) \<Rightarrow> (Returned (Inl err), fs, d, s)
      | (Inr _, d, s) \<Rightarrow>
          (let answered_2xx = last_is_2xx (fst s) in
           case uac_reinvite_loop D fs d s of
             (Waiting, fs, d, s) \<Rightarrow> (Waiting, fs, d, s)
           | (Returned acked, fs, d, s) \<Rightarrow> close_without_ack D (answered_2xx \<and> \<not> acked) fs d s))"

definition uac_handle_confirmed :: "dialog_env \<Rightarrow> command list \<Rightarrow> turn list \<Rightarrow> dialog \<Rightarrow> st \<Rightarrow> unit drive" where
  "uac_handle_confirmed D cs fs d s =
     (case req_method (tx_original (fst s)) of
        Invite \<Rightarrow> uac_handle_reinvite D cs fs d s
      | Bye \<Rightarrow> at_once fs (uac_handle_bye D d s)
      | Info \<Rightarrow> at_once fs (uac_handle_info D cs d s)
      | Options \<Rightarrow> at_once fs (uac_handle_options D cs d s)
      | Update \<Rightarrow> at_once fs (uac_handle_update D cs d s)
      | Refer \<Rightarrow> at_once fs (uac_handle_refer D cs d s)
      | Message \<Rightarrow> at_once fs (uac_handle_message D cs d s)
      | Notify \<Rightarrow> at_once fs (uac_handle_notify D cs d s)
      | _ \<Rightarrow> at_once fs (handle_unsupported D d s))"

definition uac_handle :: "dialog_env \<Rightarrow> command list \<Rightarrow> turn list \<Rightarrow> dialog \<Rightarrow> st \<Rightarrow> unit drive" where
  "uac_handle D cs fs d s =
     (case sip_try (and_then (cseq_header (req_headers (tx_original (fst s)))) cseq_value_seq) of
        Inl err \<Rightarrow> (Returned (Inl err), fs, d, s)
      | Inr cseq \<Rightarrow>
          if d_remote_seq d > 0 \<and> cseq < d_remote_seq d then at_once fs (reply_in_dialog D SC_ServerInternalError d s)
          else
            (let d = d\<lparr>d_remote_seq := cseq\<rparr> in
             if d_is_confirmed d then uac_handle_confirmed D cs fs d s else (Returned (Inr ()), fs, d, s)))"

section \<open>The caller's INVITE\<close>

text \<open>Every response teaches the peer's Session-ID; the flow the INVITE went out on is not recorded.\<close>

definition uac_restart_invite :: "st \<Rightarrow> dialog \<Rightarrow> dialog" where
  "uac_restart_invite s d = (update_remote_tag [] d)\<lparr>d_initial_request := tx_original (fst s)\<rparr>"

function uac_invite_loop ::
    "dialog_env \<Rightarrow> dialog_id \<Rightarrow> bool \<Rightarrow> dialog_id \<Rightarrow> turn list \<Rightarrow> dialog \<Rightarrow> st \<Rightarrow> (dialog_id \<times> response option) drive" where
  "uac_invite_loop D i auth_sent did fs d s =
     (case await_with (note_calling i) D fs d s of
        (Waiting, fs, d, s) \<Rightarrow> (Waiting, fs, d, s)
      | (Returned None, fs, d, s) \<Rightarrow> (Returned (Inr (did, None)), fs, d, s)
      | (Returned (Some (Request _)), fs, d, s) \<Rightarrow> uac_invite_loop D i auth_sent did fs d s
      | (Returned (Some (Response resp)), fs, d, s) \<Rightarrow>
          (let d = observe_peer_session_uuid (Option.bind (session_id_header (resp_headers resp)) local_uuid) d in
           if resp_status resp = SC_Trying then uac_invite_loop D i auth_sent did fs (d_transition (DS_Trying (d_id d)) d) s
           else if status_code_kind (resp_status resp) = Provisional then
             (case provisional_to Invite D resp fs (d, snd s) of
                (Waiting, fs, (d, e)) \<Rightarrow> (Waiting, fs, d, (fst s, e))
              | (Returned (Inl err), fs, (d, e)) \<Rightarrow> (Returned (Inl err), fs, d, (fst s, e))
              | (Returned (Inr _), fs, (d, e)) \<Rightarrow>
                  uac_invite_loop D i auth_sent did fs (d_transition (DS_Early (d_id d) resp) d) (fst s, e))
           else if is_challenge (resp_status resp) then
             (case (auth_sent, d_credential d) of
                (False, Some cred) \<Rightarrow>
                  (let (seq, d) = increment_local_seq d in
                   case replace_transaction D seq resp cred s of
                     (Inl err, s) \<Rightarrow> (Returned (Inl err), fs, d, s)
                   | (Inr _, s) \<Rightarrow> uac_invite_loop D i True did fs (uac_restart_invite s d) s)
              | _ \<Rightarrow> (Returned (Inr (did, Some resp)), fs, end_with TR_ProxyAuthRequired d, s))
           else (case after_final resp did d of (r, d) \<Rightarrow> (Returned r, fs, d, s))))"
  by pat_completeness auto

termination
  by (relation "measure (\<lambda>(D, i, a, did, fs, d, s). length fs)")
    (auto dest!: await_with_shorter [OF sym] provisional_le [OF sym])

declare uac_invite_loop.simps [simp del]

definition uac_process_invite :: "dialog_env \<Rightarrow> turn list \<Rightarrow> dialog \<Rightarrow> st \<Rightarrow> (dialog_id \<times> response option) drive" where
  "uac_process_invite D fs d s =
     (let s = (on_first_write (fst s), snd s); i = d_id d in
      case send (tx_env D s) s of
        (Inl err, s') \<Rightarrow> (Returned (Inl err), fs, note_calling i s s' d, s')
      | (Inr _, s') \<Rightarrow> uac_invite_loop D i False i fs (note_calling i s s' d) s')"

end
