(* ===== verification/Invitation.thy ===== *)
theory Invitation
  imports Dialog_Layer
begin

text \<open>
  Placing a call (\<open>dialog/invitation.rs\<close>): the INVITE made from the options of the caller, the client
  dialog and its transaction, \<open>do_invite\<close>, the wait for what the accepted transaction still delivers, and
  the guard that hangs up. The tag and the Call-ID that the code generates are arguments.
\<close>

record invite_option =
  io_caller_display_name :: "string option"
  io_caller_params :: "param list"
  io_caller :: uri
  io_callee :: uri
  io_destination :: "sip_addr option"
  io_content_type :: "string option"
  io_offer :: "bytes option"
  io_contact :: uri
  io_credential :: "credential option"
  io_headers :: "header list option"
  io_support_prack :: bool
  io_call_id :: "string option"
  io_session_id :: "string option"
  io_route_set :: "name_addr list"

section \<open>The INVITE\<close>

definition invite_transport :: "invite_option \<Rightarrow> transport option" where
  "invite_transport opt =
     (let t = (case Option.bind (io_destination opt) sa_type of
                 Some t \<Rightarrow> Some t | None \<Rightarrow> params_transport (uri_params (io_callee opt)))
      in case t of Some t \<Rightarrow> if t \<noteq> Udp then Some t else None | None \<Rightarrow> None)"

definition invite_listener :: "sip_addr list \<Rightarrow> invite_option \<Rightarrow> sip_addr option" where
  "invite_listener addrs opt = Option.bind (invite_transport opt) (\<lambda>t. find (\<lambda>a. sa_type a = Some t) addrs)"

definition invite_contact :: "sip_addr option \<Rightarrow> uri \<Rightarrow> uri" where
  "invite_contact listener u =
     (case listener of
        None \<Rightarrow> u
      | Some addr \<Rightarrow>
          (let u = u\<lparr>uri_hwp := sa_addr addr\<rparr>;
               u = (if params_transport (uri_params u) = None
                    then u\<lparr>uri_params := uri_params u @ [P_Transport (unwrap_or (sa_type addr) Tcp)]\<rparr> else u)
           in if sa_type addr = Some Tls then u\<lparr>uri_scheme := Some Sips\<rparr> else u))"

definition supports_histinfo :: "header list \<Rightarrow> bool" where
  "supports_histinfo hs \<longleftrightarrow>
     list_ex (\<lambda>h. case variant H_Supported h of
         Some v \<Rightarrow> list_ex (\<lambda>t. eq_ignore_ascii_case (trim t) ''histinfo'') (split_on (\<lambda>c. c = CHR '','') v)
       | None \<Rightarrow> False) hs"

definition add_caller_header :: "header \<Rightarrow> header list \<Rightarrow> header list" where
  "add_caller_header h hs = (if matches_header [H_MaxForwards] h then unique_push h hs else headers_push h hs)"

definition invite_headers :: "bool \<Rightarrow> sip_addr option \<Rightarrow> invite_option \<Rightarrow> header list \<Rightarrow> sip_error + header list" where
  "invite_headers histinfo listener opt hs =
     (let hs = hs @ map (\<lambda>r. H_Route (show_name_addr r)) (io_route_set opt);
          hs = unique_push (H_Contact (show_contact (name_addr_of_uri (invite_contact listener (io_contact opt))))) hs;
          hs = unique_push (H_ContentType (unwrap_or (io_content_type opt) ''application/sdp'')) hs;
          hs = (if io_support_prack opt then unique_push (H_Supported ''100rel'') hs else hs);
          hs = (if histinfo \<and> \<not> supports_histinfo (hs @ unwrap_or (io_headers opt) [])
                then headers_push (H_Supported ''histinfo'') hs else hs)
      in and_then (case io_session_id opt of
             None \<Rightarrow> Inr hs
           | Some raw \<Rightarrow>
               and_then (session_normalize raw) (\<lambda>uuid.
               and_then (session_from_local uuid) (\<lambda>v. Inr (unique_push (H_SessionId v) hs))))
         (\<lambda>hs. Inr (fold add_caller_header (unwrap_or (io_headers opt) []) hs)))"

definition make_invite_request ::
    "dialog_env \<Rightarrow> string \<Rightarrow> string \<Rightarrow> invite_option \<Rightarrow> endpoint \<Rightarrow> layer \<Rightarrow> (error + request) \<times> layer" where
  "make_invite_request D tag call_id opt e L =
     (let (seq, L) = increment_last_seq L;
          to_na = name_addr_of_uri (io_callee opt);
          from_na = na_with_tag tag \<lparr>na_display = io_caller_display_name opt, na_uri = io_caller opt, na_params = io_caller_params opt\<rparr>;
          listener = invite_listener (de_addrs D) opt
      in (and_then (get_via (fresh_env D e) (de_addrs D) listener None) (\<lambda>via.
            let req = make_request (ep_user_agent e) Invite (io_callee opt) via from_na to_na seq (unwrap_or (io_call_id opt) call_id)
            in and_then (sip_try (invite_headers (opt_history_info_enabled (ep_option e)) listener opt (req_headers req))) (\<lambda>hs.
               Inr (req\<lparr>req_headers := hs\<rparr>))), L))"

section \<open>The client dialog\<close>

definition invite_destination :: "invite_option \<Rightarrow> transaction \<Rightarrow> transaction" where
  "invite_destination opt t =
     (case io_destination opt of Some a \<Rightarrow> t\<lparr>tx_destination := Some a\<rparr> | None \<Rightarrow> first_route_destination t)"

definition invite_local_contact :: "request \<Rightarrow> invite_option \<Rightarrow> uri option" where
  "invite_local_contact req opt =
     (case ok (and_then (contact_header (req_headers req)) contact_typed) of
        Some c \<Rightarrow> Some (na_uri c)
      | None \<Rightarrow> Some (io_contact opt))"

definition create_client_invite_dialog ::
    "dialog_env \<Rightarrow> string \<Rightarrow> string \<Rightarrow> invite_option \<Rightarrow> endpoint \<Rightarrow> layer \<Rightarrow> (error + dialog \<times> transaction) \<times> endpoint \<times> layer" where
  "create_client_invite_dialog D tag call_id opt e L =
     (case make_invite_request D tag call_id opt e L of
        (Inl err, L) \<Rightarrow> (Inl err, e, L)
      | (Inr req, L) \<Rightarrow>
          (let req = req\<lparr>req_body := unwrap_or (io_offer opt) []\<rparr>;
               req = req\<lparr>req_headers := unique_push (H_ContentLength (show_u32 (length (req_body req)))) (req_headers req)\<rparr>
           in case key_from_request req ClientRole of
                Inl err \<Rightarrow> (Inl err, e, L)
              | Inr k \<Rightarrow>
                  (case new_client k req None e of
                     (t, e) \<Rightarrow>
                       (let t = invite_destination opt t in
                        case and_then (dialog_id_of_request (tx_original t) (tx_role t)) (\<lambda>i.
                               dialog_new [] ClientRole i req (io_credential opt) (invite_local_contact req opt) (Some (tx_channel t))) of
                          Inl err \<Rightarrow> (Inl err, drop_transaction (tx_env D (t, e)) (t, e), L)
                        | Inr d \<Rightarrow>
                            (Inr ((case tx_destination t of Some a \<Rightarrow> d\<lparr>d_remote_uri := uri_of_sip_addr a\<rparr> | None \<Rightarrow> d), t), e, L)))))"

section \<open>Placing the call\<close>

definition store_dialog :: "nat \<Rightarrow> dialog \<Rightarrow> layer \<Rightarrow> layer" where
  "store_dialog r d L = L\<lparr>ly_store := (ly_store L)(r \<mapsto> d)\<rparr>"

definition is_2xx :: "response option \<Rightarrow> bool" where
  "is_2xx resp \<longleftrightarrow> (case resp of Some r \<Rightarrow> status_code_kind (resp_status r) = Successful | None \<Rightarrow> False)"

text \<open>What \<open>do_invite\<close> does with the result of the INVITE: the entry under the early id goes, and a 2xx
  enters the dialog under its id.\<close>

definition register_outcome :: "string \<Rightarrow> nat \<Rightarrow> error + dialog_id \<times> response option \<Rightarrow> layer \<Rightarrow> layer" where
  "register_outcome id0 r result L =
     (let L = snd (drop_dialog id0 L) in
      case result of
        Inr (i, resp) \<Rightarrow> if is_2xx resp then insert_dialog (show_dialog_id i) KInvite r L else L
      | Inl _ \<Rightarrow> L)"

text \<open>The outcome of a call: its result, the cell of its dialog, the transaction to drain when it was
  accepted, and the state. \<open>g\<close> is what the other tasks do to the layer before the final response.\<close>

record 'r call_outcome =
  co_result :: "(error + 'r) await"
  co_accepted :: "transaction option"
  co_turns :: "turn list"
  co_endpoint :: endpoint
  co_layer :: layer

definition place_invite ::
    "dialog_env \<Rightarrow> (layer \<Rightarrow> layer) \<Rightarrow> turn list \<Rightarrow> nat \<Rightarrow> dialog \<Rightarrow> transaction \<Rightarrow> endpoint \<Rightarrow> layer
     \<Rightarrow> (dialog_id \<times> response option) call_outcome" where
  "place_invite D g fs r d t e L =
     (let id0 = show_dialog_id (d_id d); L = g (insert_dialog id0 KInvite r L) in
      case process_invite D fs d (t, e) of
        (Waiting, fs, d, s) \<Rightarrow>
          \<lparr>co_result = Waiting, co_accepted = None, co_turns = fs, co_endpoint = snd s, co_layer = store_dialog r d L\<rparr>
      | (Returned result, fs, d, s) \<Rightarrow>
          (let accepted = (case result of Inr (_, resp) \<Rightarrow> is_2xx resp | Inl _ \<Rightarrow> False)
           in \<lparr>co_result = Returned result, co_accepted = (if accepted then Some (fst s) else None), co_turns = fs,
               co_endpoint = (if accepted then snd s else drop_transaction (tx_env D s) s),
               co_layer = register_outcome id0 r result (store_dialog r d L)\<rparr>))"

text \<open>\<open>do_invite\<close> gives its caller the dialog and the final response, the task \<open>do_invite_async\<close> starts
  gives the id and the response.\<close>

definition with_dialog :: "nat \<Rightarrow> (error + dialog_id \<times> response option) await \<Rightarrow> (error + nat \<times> response option) await" where
  "with_dialog r x = (case x of Waiting \<Rightarrow> Waiting | Returned y \<Rightarrow> Returned (and_then y (\<lambda>(_, resp). Inr (r, resp))))"

definition do_invite_async ::
    "dialog_env \<Rightarrow> string \<Rightarrow> string \<Rightarrow> invite_option \<Rightarrow> (layer \<Rightarrow> layer) \<Rightarrow> turn list \<Rightarrow> endpoint \<Rightarrow> layer
     \<Rightarrow> (error + nat) \<times> (dialog_id \<times> response option) call_outcome option \<times> endpoint \<times> layer" where
  "do_invite_async D tag call_id opt g fs e L =
     (case create_client_invite_dialog D tag call_id opt e L of
        (Inl err, e, L) \<Rightarrow> (Inl err, None, e, L)
      | (Inr (d, t), e, L) \<Rightarrow>
          (let (r, L) = new_cell d L; out = place_invite D g fs r d t e L
           in (Inr r, Some out, co_endpoint out, co_layer out)))"

definition do_invite ::
    "dialog_env \<Rightarrow> string \<Rightarrow> string \<Rightarrow> invite_option \<Rightarrow> (layer \<Rightarrow> layer) \<Rightarrow> turn list \<Rightarrow> endpoint \<Rightarrow> layer
     \<Rightarrow> (nat \<times> response option) call_outcome" where
  "do_invite D tag call_id opt g fs e L =
     (case create_client_invite_dialog D tag call_id opt e L of
        (Inl err, e, L) \<Rightarrow>
          \<lparr>co_result = Returned (Inl err), co_accepted = None, co_turns = fs, co_endpoint = e, co_layer = L\<rparr>
      | (Inr (d, t), e, L) \<Rightarrow>
          (let (r, L) = new_cell d L; out = place_invite D g fs r d t e L
           in \<lparr>co_result = with_dialog r (co_result out), co_accepted = co_accepted out, co_turns = co_turns out,
               co_endpoint = co_endpoint out, co_layer = co_layer out\<rparr>))"

lemma bye_forked_le: "length (fst (snd (bye_forked_branch D resp fs w))) \<le> length fs"
  by (simp add: bye_forked_branch_def Let_def send_dialog_request_le split: sum.split prod.split)
    (metis fst_conv snd_conv send_dialog_request_le)

lemma end_forked_le: "end_forked_branch D msg tag seen fs w = (x, seen', fs', w') \<Longrightarrow> length fs' \<le> length fs"
proof -
  assume *: "end_forked_branch D msg tag seen fs w = (x, seen', fs', w')"
  have "length (fst (snd (snd (end_forked_branch D msg tag seen fs w)))) \<le> length fs"
  proof -
    have "length fs'' \<le> length fs" if "bye_forked_branch D resp fs w = (y, fs'', w'')" for resp y fs'' w''
      using bye_forked_le [of D resp fs w] that by simp
    then show ?thesis
      by (auto simp: end_forked_branch_def split: sip_message.split option.split prod.split await.split)
  qed
  with * show ?thesis by simp
qed

text \<open>The task that drains the accepted transaction until Timer M ends it.\<close>

function drain_accepted :: "dialog_env \<Rightarrow> string \<Rightarrow> string list \<Rightarrow> turn list \<Rightarrow> dialog \<Rightarrow> st \<Rightarrow> unit await \<times> turn list \<times> world" where
  "drain_accepted D tag seen fs d s =
     (case await_message D fs d s of
        (Waiting, fs, d, s) \<Rightarrow> pending fs d s
      | (Returned None, fs, d, s) \<Rightarrow> leave D () fs d s
      | (Returned (Some msg), fs, d, s) \<Rightarrow>
          (case end_forked_branch D msg tag seen fs (d, snd s) of
             (Waiting, seen, fs, (d, e)) \<Rightarrow> pending fs d (fst s, e)
           | (Returned _, seen, fs, (d, e)) \<Rightarrow> drain_accepted D tag seen fs d (fst s, e)))"
  by pat_completeness auto

termination
  by (relation "measure (\<lambda>(D, tag, seen, fs, d, s). length fs)")
    (auto dest!: await_message_shorter [OF sym] end_forked_le [OF sym])

declare drain_accepted.simps [simp del]

text \<open>The guard of a dialog removes it from the layer and hangs up.\<close>

definition guard_drop ::
    "dialog_env \<Rightarrow> dialog_id \<Rightarrow> turn list \<Rightarrow> endpoint \<Rightarrow> layer \<Rightarrow> ((error + unit) await \<times> turn list \<times> world) option \<times> layer" where
  "guard_drop D i fs e L =
     (case drop_dialog (show_dialog_id i) L of
        (None, L) \<Rightarrow> (None, L)
      | (Some (kind, r), L) \<Rightarrow>
          (case ly_store L r of
             None \<Rightarrow> (None, L)
           | Some d \<Rightarrow>
               (case kind_hangup kind D (ly_etags L r) None fs (d, e) of
                  (x, fs, (d, e)) \<Rightarrow> (Some (x, fs, (d, e)), store_dialog r d L))))"

text \<open>\<open>bye_if_2xx\<close>: the session a 2xx established after the CANCEL ends with a BYE.\<close>

definition bye_if_2xx :: "dialog_env \<Rightarrow> response option \<Rightarrow> turn list \<Rightarrow> world \<Rightarrow> unit await \<times> turn list \<times> world" where
  "bye_if_2xx D resp fs w =
     (case resp of
        None \<Rightarrow> (Returned (), fs, w)
      | Some r \<Rightarrow>
          if status_code_kind (resp_status r) \<noteq> Successful then (Returned (), fs, w)
          else (case bye_2xx_after_cancel D r fs w of
              (Waiting, fs, w) \<Rightarrow> (Waiting, fs, w)
            | (Returned _, fs, w) \<Rightarrow> (Returned (), fs, w)))"

text \<open>\<open>wait_response\<close>: the next response, or the next final one. The time limit is the end of the turns.\<close>

function wait_response :: "dialog_env \<Rightarrow> bool \<Rightarrow> turn list \<Rightarrow> dialog \<Rightarrow> st \<Rightarrow> response option \<times> turn list \<times> dialog \<times> st" where
  "wait_response D final_only fs d s =
     (case await_message D fs d s of
        (Waiting, fs, d, s) \<Rightarrow> (None, fs, d, s)
      | (Returned None, fs, d, s) \<Rightarrow> (None, fs, d, s)
      | (Returned (Some msg), fs, d, s) \<Rightarrow>
          (case msg of
             Response resp \<Rightarrow>
               if \<not> final_only \<or> status_code_kind (resp_status resp) \<noteq> Provisional then (Some resp, fs, d, s)
               else wait_response D final_only fs d s
           | Request _ \<Rightarrow> wait_response D final_only fs d s))"
  by pat_completeness auto

termination
  by (relation "measure (\<lambda>(D, f, fs, d, s). length fs)") (auto dest: await_message_shorter [OF sym])

declare wait_response.simps [simp del]

end
