(* ===== verification/Registration.thy ===== *)
theory Registration
  imports Invitation
begin

text \<open>
  Registering with a server (\<open>dialog/registration.rs\<close>): the REGISTER and its Via and Contact, the answer to a
  challenge, and what the responses teach the client about its public address and its service route.
  There is no dialog here: a turn of the other tasks changes the endpoint only.
\<close>

record registration =
  rg_last_seq :: "32 word"
  rg_credential :: "credential option"
  rg_contact :: "name_addr option"
  rg_allow :: "string option"
  rg_public_address :: "host_with_port option"
  rg_call_id :: string
  rg_outbound_proxy :: "socket_addr option"
  rg_service_route :: "name_addr list"

text \<open>\<open>call_id\<close> is the result of \<open>make_call_id\<close>.\<close>

definition registration_new :: "string \<Rightarrow> credential option \<Rightarrow> registration" where
  "registration_new call_id cred =
     \<lparr>rg_last_seq = 0, rg_credential = cred, rg_contact = None, rg_allow = None, rg_public_address = None,
      rg_call_id = call_id, rg_outbound_proxy = None, rg_service_route = []\<rparr>"

definition preloaded_route_set :: "registration \<Rightarrow> name_addr list" where
  "preloaded_route_set R = rg_service_route R"

definition registration_expires :: "registration \<Rightarrow> nat" where
  "registration_expires R = unwrap_or (Option.bind (rg_contact R) contact_expires) 50"

section \<open>The REGISTER\<close>

definition register_to :: "uri \<Rightarrow> registration \<Rightarrow> uri" where
  "register_to server R =
     (case rg_credential R of
        Some cred \<Rightarrow> server\<lparr>uri_auth := Some \<lparr>auth_user = cr_username cred, auth_password = None\<rparr>\<rparr>
      | None \<Rightarrow> server)"

text \<open>The Via names the listener of the connection the REGISTER will use.\<close>

definition register_via :: "dialog_env \<Rightarrow> env \<Rightarrow> uri \<Rightarrow> error + typed_via" where
  "register_via D env server =
     get_via env (de_addrs D)
       (case env_lookup env (sip_addr_of_uri server) None of Inr (c, _) \<Rightarrow> Some (conn_addr c) | Inl _ \<Rightarrow> None) None"

definition is_expires :: "param \<Rightarrow> bool" where "is_expires p \<longleftrightarrow> expires_of p \<noteq> None"

definition register_contact :: "uri \<Rightarrow> typed_via \<Rightarrow> nat option \<Rightarrow> registration \<Rightarrow> name_addr" where
  "register_contact aor via expires R =
     (let c = (case rg_contact R of
            Some c \<Rightarrow> c
          | None \<Rightarrow>
              \<lparr>na_display = None,
               na_uri = \<lparr>uri_scheme = Some Sip, uri_auth = uri_auth aor,
                         uri_hwp = unwrap_or (rg_public_address R) (uri_hwp (via_uri via)), uri_params = [], uri_headers = []\<rparr>,
               na_params = []\<rparr>)
      in if expires \<noteq> None then c\<lparr>na_params := filter (\<lambda>p. \<not> is_expires p) (na_params c)\<rparr> else c)"

definition register_request ::
    "string \<Rightarrow> string \<Rightarrow> string \<Rightarrow> uri \<Rightarrow> typed_via \<Rightarrow> name_addr \<Rightarrow> nat option \<Rightarrow> registration \<Rightarrow> request" where
  "register_request user_agent tag call_id server via contact expires R =
     (let to_na = name_addr_of_uri (register_to server R);
          req = make_request user_agent Register server via (na_with_tag tag to_na) to_na (unat (rg_last_seq R)) call_id;
          hs = unique_push (H_CallId (rg_call_id R)) (req_headers req);
          hs = unique_push (H_Contact (show_contact contact)) hs;
          hs = (case rg_allow R of Some a \<Rightarrow> unique_push (H_Allow a) hs | None \<Rightarrow> hs);
          hs = unique_push (H_Supported ''path, outbound'') hs;
          hs = (case expires of Some n \<Rightarrow> unique_push (H_Expires (show_nat n)) hs | None \<Rightarrow> hs)
      in req\<lparr>req_headers := hs\<rparr>)"

definition register_destination :: "registration \<Rightarrow> transaction \<Rightarrow> transaction" where
  "register_destination R t =
     (case rg_outbound_proxy R of
        None \<Rightarrow> t
      | Some proxy \<Rightarrow>
          (let a = sip_addr_of_socket proxy in
           t\<lparr>tx_destination := Some (case find_map transport_of (uri_params (req_uri (tx_original t))) of
                Some tr \<Rightarrow> a\<lparr>sa_type := Some tr\<rparr> | None \<Rightarrow> a)\<rparr>))"

section \<open>Responses\<close>

text \<open>The host and port the top Via names, with \<open>received\<close> and \<open>rport\<close>.\<close>

definition seen_address :: "response \<Rightarrow> host_with_port option" where
  "seen_address resp =
     Option.bind (ok (via_header (resp_headers resp))) (\<lambda>v. map_option snd (ok (parse_target_from_via v)))"

definition learn_from_challenge :: "response \<Rightarrow> registration \<Rightarrow> registration" where
  "learn_from_challenge resp R =
     (let received = seen_address resp in
      if rg_public_address R \<noteq> received
      then R\<lparr>rg_public_address := received,
             rg_contact := (case rg_contact R of
                 Some c \<Rightarrow> Some (case received of Some h \<Rightarrow> c\<lparr>na_uri := (na_uri c)\<lparr>uri_hwp := h\<rparr>\<rparr> | None \<Rightarrow> c)
               | None \<Rightarrow> None)\<rparr>
      else R)"

definition typed_service_route_headers :: "header list \<Rightarrow> sip_error + name_addr list" where
  "typed_service_route_headers hs = parse_all_headers route_parse_header_list (all_headers H_ServiceRoute hs)"

definition learn_from_ok :: "response \<Rightarrow> registration \<Rightarrow> registration" where
  "learn_from_ok resp R =
     R\<lparr>rg_public_address := seen_address resp,
       rg_service_route := (case typed_service_route_headers (resp_headers resp) of Inr rs \<Rightarrow> rs | Inl _ \<Rightarrow> [])\<rparr>"

text \<open>The retry carries the discovered address in its Contact.\<close>

definition update_retry_contact :: "name_addr \<Rightarrow> registration \<Rightarrow> transaction \<Rightarrow> transaction" where
  "update_retry_contact contact R t =
     (case rg_public_address R of
        None \<Rightarrow> t
      | Some pa \<Rightarrow>
          (let u = \<lparr>uri_scheme = Some Sip, uri_auth = uri_auth (na_uri contact), uri_hwp = pa,
                    uri_params = uri_params (na_uri contact), uri_headers = []\<rparr>;
               hs = headers_retain (\<lambda>h. \<not> matches_header [H_Contact] h) (req_headers (tx_original t))
           in t\<lparr>tx_original := (tx_original t)\<lparr>req_headers := unique_push (H_Contact (show_contact (contact\<lparr>na_uri := u\<rparr>))) hs\<rparr>\<rparr>))"

definition retry_register :: "dialog_env \<Rightarrow> name_addr \<Rightarrow> response \<Rightarrow> credential \<Rightarrow> registration \<Rightarrow> st \<Rightarrow> (error + unit) \<times> st" where
  "retry_register D contact resp cred R s =
     (case handle_client_authenticate D (unat (rg_last_seq R)) resp cred s of
        Inl err \<Rightarrow> (Inl err, s)
      | Inr (t, e) \<Rightarrow>
          (let s' = (update_retry_contact contact R t, drop_transaction (tx_env D s) (fst s, e)) in send (tx_env D s') s'))"

section \<open>The exchange\<close>

text \<open>The loop over the responses. The last argument but two are the turns of the other tasks.\<close>

fun await_response :: "dialog_env \<Rightarrow> (endpoint \<Rightarrow> endpoint) list \<Rightarrow> st \<Rightarrow> sip_message option await \<times> (endpoint \<Rightarrow> endpoint) list \<times> st" where
  "await_response D [] s = (Waiting, [], s)"
| "await_response D (f # fs) s =
     (case receive (tx_env D s) (fst s, f (snd s)) of
        (Obtained m, s') \<Rightarrow> (Returned (Some m), fs, s')
      | (Loop_ended, s') \<Rightarrow> (Returned None, fs, s')
      | (Blocked, s') \<Rightarrow> await_response D fs s')"

lemma await_response_shorter: "await_response D fs s = (Returned r, fs', s') \<Longrightarrow> length fs' < length fs"
  by (induction D fs s rule: await_response.induct) (auto simp: less_Suc_eq split: prod.splits outcome.splits)

type_synonym register_result = "(error + response) await \<times> registration \<times> (endpoint \<Rightarrow> endpoint) list \<times> endpoint"

definition register_done :: "dialog_env \<Rightarrow> error + response \<Rightarrow> registration \<Rightarrow> (endpoint \<Rightarrow> endpoint) list \<Rightarrow> st \<Rightarrow> register_result" where
  "register_done D r R fs s = (Returned r, R, fs, drop_transaction (tx_env D s) s)"

definition register_ended :: "transaction \<Rightarrow> error + response" where
  "register_ended t =
     and_then (dialog_id_of_request (tx_original t) (tx_role t)) (\<lambda>i.
     Inl (DialogError ''registration transaction is already terminated'' i SC_BadRequest))"

function register_loop ::
    "dialog_env \<Rightarrow> name_addr \<Rightarrow> bool \<Rightarrow> (endpoint \<Rightarrow> endpoint) list \<Rightarrow> registration \<Rightarrow> st \<Rightarrow> register_result" where
  "register_loop D contact auth_sent fs R s =
     (case await_response D fs s of
        (Waiting, fs, s) \<Rightarrow> (Waiting, R, fs, snd s)
      | (Returned (Some (Response resp)), fs, s) \<Rightarrow>
          if resp_status resp = SC_Trying then register_loop D contact auth_sent fs R s
          else if is_challenge (resp_status resp) then
            (let R = learn_from_challenge resp R in
             case (auth_sent, rg_credential R) of
               (False, Some cred) \<Rightarrow>
                 (let R = R\<lparr>rg_last_seq := rg_last_seq R + 1\<rparr> in
                  case retry_register D contact resp cred R s of
                    (Inl err, s) \<Rightarrow> register_done D (Inl err) R fs s
                  | (Inr _, s) \<Rightarrow> register_loop D contact True fs R s)
             | _ \<Rightarrow> register_done D (Inr resp) R fs s)
          else register_done D (Inr resp) (if resp_status resp = SC_OK then learn_from_ok resp R else R) fs s
      | (Returned _, fs, s) \<Rightarrow> register_done D (register_ended (fst s)) R fs s)"
  by pat_completeness auto

termination
  by (relation "measure (\<lambda>(D, c, a, fs, R, s). length fs)") (auto dest!: await_response_shorter [OF sym])

declare register_loop.simps [simp del]

definition register ::
    "dialog_env \<Rightarrow> string \<Rightarrow> string \<Rightarrow> uri \<Rightarrow> nat option \<Rightarrow> (endpoint \<Rightarrow> endpoint) list \<Rightarrow> registration \<Rightarrow> endpoint \<Rightarrow> register_result" where
  "register D tag call_id server expires fs R e =
     (let R = R\<lparr>rg_last_seq := rg_last_seq R + 1\<rparr> in
      case register_via D (fresh_env D e) server of
        Inl err \<Rightarrow> (Returned (Inl err), R, fs, e)
      | Inr via \<Rightarrow>
          (let contact = register_contact (register_to server R) via expires R;
               req = register_request (ep_user_agent e) tag call_id server via contact expires R
           in case key_from_request req ClientRole of
                Inl err \<Rightarrow> (Returned (Inl err), R, fs, e)
              | Inr k \<Rightarrow>
                  (case new_client k req None e of
                     (t, e) \<Rightarrow>
                       (let s = (register_destination R t, e) in
                        case send (tx_env D s) s of
                          (Inl err, s) \<Rightarrow> register_done D (Inl err) R fs s
                        | (Inr _, s) \<Rightarrow> register_loop D contact False fs R s))))"

end
