(* ===== verification/Dialog_Inv.thy ===== *)
theory Dialog_Inv
  imports Registration "HOL-Library.Sublist"
begin

text \<open>
  What no operation of a dialog undoes. \<open>dialog_relation\<close> is the contract between the dialog's elementary
  changes and a relation on dialogs they respect; in it, every loop and handler is shown to respect the
  relation, whatever the other tasks do in their turns, as long as they respect it too. Its interpretation on
  \<open>evolves\<close> says that identity and history of a dialog are kept and that \<open>Terminated\<close> is final.
\<close>

section \<open>Relations the operations respect\<close>

definition turns_keep :: "(dialog \<Rightarrow> dialog \<Rightarrow> bool) \<Rightarrow> turn list \<Rightarrow> bool" where
  "turns_keep R fs \<longleftrightarrow> (\<forall>f \<in> set fs. \<forall>w. R (fst w) (fst (f w)))"

definition commands_keep :: "(dialog \<Rightarrow> dialog \<Rightarrow> bool) \<Rightarrow> command list \<Rightarrow> bool" where
  "commands_keep R cs \<longleftrightarrow> turns_keep R (map fst cs)"

text \<open>The result of an operation: its dialog is related to the one it started from, and the turns it left
  keep the relation.\<close>

definition ran :: "(dialog \<Rightarrow> dialog \<Rightarrow> bool) \<Rightarrow> dialog \<Rightarrow> 'r \<times> turn list \<times> dialog \<times> 'x \<Rightarrow> bool" where
  "ran R d x \<longleftrightarrow> R d (fst (snd (snd x))) \<and> turns_keep R (fst (snd x))"

lemma turns_keep_simps [simp]:
  "turns_keep R []"
  "turns_keep R (f # fs) \<longleftrightarrow> (\<forall>w. R (fst w) (fst (f w))) \<and> turns_keep R fs"
  by (simp_all add: turns_keep_def)

lemma commands_keep_simps [simp]:
  "commands_keep R []"
  "commands_keep R ((f, c) # cs) \<longleftrightarrow> (\<forall>w. R (fst w) (fst (f w))) \<and> commands_keep R cs"
  by (simp_all add: commands_keep_def)

lemma ran_simps [simp]:
  "ran R d (x, fs, d', y) \<longleftrightarrow> R d d' \<and> turns_keep R fs"
  "ran R d (pending fs d' s) \<longleftrightarrow> R d d' \<and> turns_keep R fs"
  "ran R d (leave D r fs d' s) \<longleftrightarrow> R d d' \<and> turns_keep R fs"
  "ran R d (at_once fs (q, d', s)) \<longleftrightarrow> R d d' \<and> turns_keep R fs"
  by (simp_all add: ran_def pending_def leave_def at_once_def)

locale dialog_relation =
  fixes R :: "dialog \<Rightarrow> dialog \<Rightarrow> bool"
  assumes refl: "R d d"
    and trans: "R d d' \<Longrightarrow> R d' d'' \<Longrightarrow> R d d''"
    and transition: "R d (d_transition s d)"
    and remote_tag: "R d (update_remote_tag t d)"
    and local_seq: "R d (d\<lparr>d_local_seq := n\<rparr>)"
    and reliable: "R d (d\<lparr>d_remote_reliable := p\<rparr>)"
    and acked: "R d (d\<lparr>d_remote_ack := ack\<rparr>)"
    and ack_body: "R d (d\<lparr>d_next_ack_body := b\<rparr>)"
    and sent_ack: "R d (d\<lparr>d_last_sent_ack := ack\<rparr>)"
    and session: "R d (d\<lparr>d_session_id := i\<rparr>)"
    and routes: "R d (d\<lparr>d_route_set := rs\<rparr>)"
    and remote_contact: "R d (d\<lparr>d_remote_contact := c\<rparr>)"
    and remote_uri: "R d (d\<lparr>d_remote_uri := u\<rparr>)"
    and remote_seq: "R d (d\<lparr>d_remote_seq := k\<rparr>)"
    and flow: "R d (set_server_connection cn d)"
    and initial: "R d (d\<lparr>d_initial_request := q\<rparr>)"
begin

lemma ran_trans: "R a b \<Longrightarrow> ran R b x \<Longrightarrow> ran R a x"
  by (auto simp: ran_def intro: trans)

lemmas elementary = refl transition remote_tag local_seq reliable acked ack_body sent_ack session routes
  remote_contact remote_uri remote_seq flow initial

lemma after: "R a b \<Longrightarrow> R b (f b) \<Longrightarrow> R a (f b)"
  by (rule trans)

lemma increment: "increment_local_seq d = (n, d') \<Longrightarrow> R d d'"
  by (auto simp: increment_local_seq_def local_seq)

lemma ended: "R d (end_with r d)"
  by (simp add: end_with_def transition)

lemma observed: "R d (observe_peer_session_uuid p d)"
  by (simp add: observe_peer_session_uuid_def refl session split: option.split)

lemma cleared: "R d (clear_remote_reliable d)"
  by (simp add: clear_remote_reliable_def reliable)

lemma routed: "R d (update_route_set_from_response resp d)"
  by (simp add: update_route_set_from_response_def refl routes)

lemma adopted: "adopt_2xx_remote_target resp d = (x, d') \<Longrightarrow> R d d'"
  by (auto simp: adopt_2xx_remote_target_def Let_def routed split: sum.splits
      intro: trans [OF routed remote_contact] trans [OF trans [OF routed remote_contact] remote_uri])

lemma made_request: "dialog_request D e m cseq addr branch headers body d = (x, d') \<Longrightarrow> R d d'"
  by (auto simp: dialog_request_def make_request_with_vias_def increment_local_seq_def Let_def refl local_seq
      split: sum.splits option.splits)

lemma made_prack: "make_prack D e rseq cseq m d = (x, d') \<Longrightarrow> R d d'"
  by (auto simp: make_prack_def Let_def split: sum.splits prod.splits
      intro: trans [OF increment made_request] trans [OF trans [OF increment made_request] reliable])

lemma prepared: "prepare_prack_request D e resp d = (x, d') \<Longrightarrow> R d d'"
  by (auto simp: prepare_prack_request_def refl made_prack split: if_splits sum.splits option.splits prod.splits)

lemma awaited:
  assumes h: "\<And>s s' d. R d (h s s' d)"
  shows "turns_keep R fs \<Longrightarrow> ran R d (await_with h D fs d s)"
proof (induction fs arbitrary: d s)
  case (Cons f fs)
  obtain d1 e1 where f: "f (d, snd s) = (d1, e1)" by fastforce
  with Cons.prems have "R d d1" by (metis fst_conv turns_keep_simps(2))
  then have d1: "R d (h s s' d1)" for s' by (rule trans) (rule h)
  have fs: "turns_keep R fs" using Cons.prems by simp
  show ?case
    using ran_trans [OF d1 Cons.IH [OF fs]] d1 fs by (simp add: f split: prod.split outcome.split)
qed (simp add: refl)

lemma awaited_message: "turns_keep R fs \<Longrightarrow> ran R d (await_message D fs d s)"
  unfolding await_message_def by (rule awaited) (rule refl)

lemma prack_looped: "turns_keep R fs \<Longrightarrow> ran R d (prack_loop D a fs d s)"
proof (induction fs arbitrary: a d s rule: measure_induct_rule [of length])
  case (less fs)
  obtain x fs' d' s' where w: "await_message D fs d s = (x, fs', d', s')" by (metis prod.exhaust)
  have d': "R d d'" and fs': "turns_keep R fs'" using awaited_message [OF less.prems, of d D s] by (simp_all add: w)
  show ?case
  proof (cases "\<exists>resp. x = Returned (Some (Response resp))")
    case True
    with w have "length fs' < length fs" by (auto dest: await_message_shorter)
    with less.IH [of fs'] fs' have IH: "ran R c (prack_loop D b fs' c u)" for b c u by blast
    have go: "ran R d (prack_loop D b fs' c u)" if "R d' c" for b c u
      using d' that by (meson IH ran_trans trans)
    have inc: "R d c" if "increment_local_seq d' = (n, c)" for n c using d' increment [OF that] by (rule trans)
    have stop: "R d (end_with r d')" for r using d' ended by (rule trans)
    have gone: "ran R d (prack_loop D b fs' c u)" if "increment_local_seq d' = (n, c)" for n b c u
      using increment [OF that] by (rule go)
    from True w d' fs' show ?thesis
      by (auto simp: prack_loop.simps [of D a fs] stop go [OF refl] gone inc
          split: option.split prod.split sum.split)
  next
    case False
    with w d' fs' show ?thesis
      by (auto simp: prack_loop.simps [of D a fs] split: await.split option.split sip_message.split)
  qed
qed

lemma sent_prack: "turns_keep R fs \<Longrightarrow> ran R (fst w) (send_prack_request D req fs w)"
  by (cases w) (auto simp: send_prack_request_def prack_looped refl split: sum.split prod.split)

lemma handled_provisional: "turns_keep R fs \<Longrightarrow> ran R (fst w) (handle_provisional_response D resp fs w)"
proof (cases "sip_try (to_header (resp_headers resp))")
  case (Inr to)
  assume fs: "turns_keep R fs"
  define d where "d = (case to_tag to of Inr (Some tag) \<Rightarrow> update_remote_tag tag (fst w) | _ \<Rightarrow> fst w)"
  have d: "R (fst w) d" by (simp add: d_def remote_tag refl split: sum.split option.split)
  obtain x d' where p: "prepare_prack_request D (snd w) resp d = (x, d')" by fastforce
  have d': "R (fst w) d'" using d prepared [OF p] by (rule trans)
  have "ran R (fst w) (case send_prack_request D prack fs (d', snd w) of
      (Waiting, fs, w) \<Rightarrow> (Waiting :: (error + unit) await, fs, w)
    | (Returned (Inl err), fs, w) \<Rightarrow> (Returned (Inl err), fs, w)
    | (Returned (Inr _), fs, w) \<Rightarrow> (Returned (Inr ()), fs, w))" for prack
    using ran_trans [OF d' sent_prack [OF fs, of "(d', snd w)" D prack, simplified]]
    by (auto simp: ran_def split: prod.split await.split sum.split)
  with Inr p d' fs show ?thesis
    by (auto simp: handle_provisional_response_def Let_def d_def [symmetric] split: sum.split option.split)
qed (cases w, simp add: handle_provisional_response_def refl)

lemma provisional: "turns_keep R fs \<Longrightarrow> ran R (fst w) (provisional_to m D resp fs w)"
  using handled_provisional [of fs w D resp] by (cases w) (simp add: provisional_to_def refl)

lemma authenticated: "authenticated_seq m d = (n, d') \<Longrightarrow> R d d'"
  by (auto simp: authenticated_seq_def refl increment split: if_splits)

lemma early_notified: "R d (if d_can_cancel d then d_transition s d else d)"
  by (simp add: refl transition)

lemma remembered: "R d (if c then d\<lparr>d_last_sent_ack := ack\<rparr> else d)"
  by (simp add: refl sent_ack)

lemma reliable_over: "R d (if c then clear_remote_reliable d else d)"
  by (simp add: refl cleared)

lemma responses_looped: "turns_keep R fs \<Longrightarrow> ran R d (response_loop D m a fs d s)"
proof (induction fs arbitrary: a d s rule: measure_induct_rule [of length])
  case (less fs)
  obtain x fs' d' s' where w: "await_message D fs d s = (x, fs', d', s')" by (metis prod.exhaust)
  have d': "R d d'" and fs': "turns_keep R fs'" using awaited_message [OF less.prems, of d D s] by (simp_all add: w)
  show ?case
  proof (cases "\<exists>resp. x = Returned (Some (Response resp))")
    case True
    then obtain resp where x: "x = Returned (Some (Response resp))" by blast
    with w have lt: "length fs' < length fs" by (auto dest: await_message_shorter)
    have go: "ran R d (response_loop D m b gs c u)" if "R d c" "turns_keep R gs" "length gs \<le> length fs'" for b gs c u
      using ran_trans [OF that(1) less.IH [of gs]] that lt by simp
    define o' where "o' = observe_peer_session_uuid (Option.bind (session_id_header (resp_headers resp)) local_uuid) d'"
    have o': "R d o'" unfolding o'_def using d' observed by (rule trans)
    have stop: "R d (end_with r o')" for r using o' ended by (rule trans)
    have prov: "ran R d (case provisional_to m D resp fs' (o', snd s') of
         (Waiting, fs, (d, e)) \<Rightarrow> pending fs d (fst s', e)
       | (Returned (Inl err), fs, (d, e)) \<Rightarrow> leave D (Inl err) fs d (fst s', e)
       | (Returned (Inr _), fs, (d, e)) \<Rightarrow>
           response_loop D m a fs (if d_can_cancel d then d_transition (DS_Early (d_id d) resp) d else d) (fst s', e))"
    proof -
      obtain r gs c e where p: "provisional_to m D resp fs' (o', snd s') = (r, gs, c, e)" by (metis prod.exhaust)
      from provisional [OF fs', of "(o', snd s')" m D resp] have "R d c" and gs: "turns_keep R gs"
        using trans [OF o'] by (simp_all add: p)
      moreover have "R d (if d_can_cancel c then d_transition (DS_Early (d_id c) resp) c else c)"
        using \<open>R d c\<close> early_notified by (rule trans)
      ultimately show ?thesis
        using provisional_le [OF p] by (simp add: p go split: await.split sum.split)
    qed
    have challenged: "ran R d (case authenticate_and_send D n resp cred u of
         (Inl err, s) \<Rightarrow> leave D (Inl err) fs' c s | (Inr _, s) \<Rightarrow> response_loop D m True fs' c s)"
      if "authenticated_seq m o' = (n, c)" for n c cred u
    proof -
      have "R d c" using o' authenticated [OF that] by (rule trans)
      then show ?thesis using fs' by (simp add: go split: prod.split sum.split)
    qed
    have final: "R d (if p then (if q then clear_remote_reliable o' else o')\<lparr>d_last_sent_ack := ack\<rparr>
        else (if q then clear_remote_reliable o' else o'))" for p q ack
    proof -
      have "R d (if q then clear_remote_reliable o' else o')" using o' reliable_over by (rule trans)
      then show ?thesis using remembered by (rule trans)
    qed
    show ?thesis
      unfolding response_loop.simps [of D m a fs] w prod.case x await.case option.case sip_message.case
        Let_def o'_def [symmetric]
      using o' fs' final by (auto simp: go stop prov challenged split: option.split prod.split)
  next
    case False
    with w d' fs' show ?thesis
      by (auto simp: response_loop.simps [of D m a fs] split: await.split option.split sip_message.split)
  qed
qed

lemma sent_request: "turns_keep R fs \<Longrightarrow> ran R (fst w) (send_dialog_request D req fs w)"
proof (cases "dialog_transaction D req w")
  case (Inr s)
  assume fs: "turns_keep R fs"
  have *: "ran R (fst w) (case send_with_dialback D m d s of
      (Some err, s) \<Rightarrow> leave D (Inl err) fs d s | (None, s) \<Rightarrow> response_loop D m False fs d s)"
    if "R (fst w) d" for m d s
    using that fs ran_trans [OF that responses_looped [OF fs]] by (simp split: prod.split option.split)
  show ?thesis by (simp add: send_dialog_request_def Let_def Inr * refl ack_body)
qed (cases w, simp add: send_dialog_request_def refl)

lemma made_and_sent: "turns_keep R fs \<Longrightarrow> ran R (fst w) (make_and_send D m headers body fs w)"
proof (cases "dialog_request D (snd w) m None None None headers body (fst w)")
  case (Pair x d)
  assume fs: "turns_keep R fs"
  have d: "R (fst w) d" using Pair by (rule made_request)
  show ?thesis
    using d fs ran_trans [OF d sent_request [OF fs, of "(d, snd w)", simplified]]
    by (simp add: make_and_send_def Pair split: sum.split)
qed

lemma ran_map: "ran R d (case x of (r, y) \<Rightarrow> (f r, y)) = ran R d x"
  by (cases x) (simp add: ran_def)

lemma sent_bye:
  assumes fs: "turns_keep R fs"
  shows "ran R (fst w) (send_bye D req reason fs w)"
proof (cases "d_role (fst w) = ServerRole")
  case True
  then show ?thesis
    using ran_trans [OF transition sent_request [OF fs, of "(d_transition (DS_Terminated (d_id (fst w)) reason) (fst w), snd w)", simplified]]
    by (simp add: send_bye_def ran_map)
next
  case False
  obtain r gs d e where s: "send_dialog_request D req fs w = (r, gs, d, e)" by (metis prod.exhaust)
  with sent_request [OF fs, of w D req] have d: "R (fst w) d" "turns_keep R gs" by simp_all
  then have "R (fst w) (d_transition s' d)" for s' by (meson trans transition)
  with False d s show ?thesis by (simp add: send_bye_def split: await.split)
qed

lemma ran_await: "ran R d (case x of (Waiting, fs, w) \<Rightarrow> (Waiting, fs, w) | (Returned r, fs, w) \<Rightarrow> (Returned (f r), fs, w)) = ran R d x"
  by (cases x) (simp add: ran_def split: await.split prod.split)

lemma forked_ended:
  assumes fs: "turns_keep R fs"
  shows "ran R (fst w) (bye_forked_branch D resp fs w)"
proof (cases w)
  case (Pair d e)
  obtain n d' where inc: "increment_local_seq d = (n, d')" by fastforce
  have "ran R d (send_dialog_request D req fs (d', e))" for req
    using ran_trans [OF increment [OF inc] sent_request [OF fs, of "(d', e)", simplified]] .
  then show ?thesis
    using fs by (simp add: bye_forked_branch_def Let_def Pair inc refl ran_map split: sum.split)
qed

lemma unacked_ended:
  assumes fs: "turns_keep R fs"
  shows "ran R (fst w) (end_session_without_ack D a t fs w)"
proof (cases w)
  case (Pair d e)
  obtain x d' where q: "dialog_request D e Bye None None None None None d = (x, d')" by fastforce
  then have d': "R d (end_with r d')" for r using made_request ended by (meson trans)
  have "ran R d (send_dialog_request D bye fs (end_with r d', e))" for bye r
    using ran_trans [OF d' sent_request [OF fs, of "(end_with r d', e)", simplified]] .
  with Pair fs q d' show ?thesis
    by (cases x) (simp_all add: end_session_without_ack_def Let_def refl ran_await [where f = "\<lambda>_. ()"])
qed

lemma cancelled: "turns_keep R fs \<Longrightarrow> ran R (fst w) (dialog_send_cancel D fs w)"
proof (cases "cancel_request (d_initial_request (fst w))")
  case (Inr req)
  assume fs: "turns_keep R fs"
  obtain r gs d e where s: "send_dialog_request D req fs w = (r, gs, d, e)" by (metis prod.exhaust)
  with sent_request [OF fs, of w D req] have "R (fst w) d" "turns_keep R gs" by simp_all
  then show ?thesis by (simp add: dialog_send_cancel_def Inr s split: await.split sum.split option.split)
qed (cases w, simp add: dialog_send_cancel_def refl)

lemma bye_sent:
  assumes fs: "turns_keep R fs"
  shows "ran R (fst w) (bye_with_headers D headers fs w)"
proof (cases w)
  case (Pair d e)
  obtain x d' where q: "dialog_request D e Bye None None None headers None d = (x, d')" by fastforce
  have d': "R d d'" using q by (rule made_request)
  have "ran R d (send_bye D req r fs (d', e))" for req r
    using ran_trans [OF d' sent_bye [OF fs, of "(d', e)", simplified]] .
  then show ?thesis
    using d' fs by (cases x) (simp_all add: bye_with_headers_def Let_def Pair q refl)
qed

lemma hung_up: "turns_keep R fs \<Longrightarrow> ran R (fst w) (hangup_with_headers D headers fs w)"
  using cancelled [of fs w D] bye_sent [of fs w D headers]
  by (cases w) (simp add: hangup_with_headers_def cancel_def refl)

lemma noted: "R d (note_calling i s s' d)"
  by (simp add: note_calling_def refl transition)

lemma finished: "after_final resp did d = (x, d') \<Longrightarrow> R d d'"
proof -
  have tagged: "R d (case tag of Some t \<Rightarrow> update_remote_tag t d | None \<Rightarrow> d)" for tag
    by (simp add: refl remote_tag split: option.split)
  show "after_final resp did d = (x, d') \<Longrightarrow> R d d'"
    by (auto simp: after_final_def Let_def refl split: sum.splits if_splits prod.splits
        intro: trans [OF tagged adopted] trans [OF trans [OF tagged adopted] transition] trans [OF tagged ended])
qed

lemma restarted: "R d (restart_invite s d)"
  unfolding restart_invite_def Let_def by (rule trans [OF trans [OF flow remote_tag] initial])

lemma invite_looped: "turns_keep R fs \<Longrightarrow> ran R d (invite_loop D i a did fs d s)"
proof (induction fs arbitrary: a d s rule: measure_induct_rule [of length])
  case (less fs)
  obtain x fs' d' s' where w: "await_with (note_calling i) D fs d s = (x, fs', d', s')" by (metis prod.exhaust)
  have d': "R d d'" and fs': "turns_keep R fs'"
    using awaited [of "note_calling i", OF noted less.prems, of d D s] by (simp_all add: w)
  have le: "length fs' < length fs" if "x \<noteq> Waiting" using w that by (cases x) (auto dest: await_with_shorter)
  have go: "ran R d (invite_loop D i b did gs c u)" if "R d c" "turns_keep R gs" "length gs \<le> length fs'" "x \<noteq> Waiting" for b gs c u
    using ran_trans [OF that(1) less.IH [of gs]] that le by simp
  have next_state: "R d (d_transition y d')" for y using d' transition by (rule trans)
  have stop: "R d (end_with r d')" for r using d' ended by (rule trans)
  have prov: "ran R d (case provisional_to Invite D resp fs' (d', snd s') of
       (Waiting, fs, (d, e)) \<Rightarrow> (Waiting, fs, d, (fst s', e))
     | (Returned (Inl err), fs, (d, e)) \<Rightarrow> (Returned (Inl err), fs, d, (fst s', e))
     | (Returned (Inr _), fs, (d, e)) \<Rightarrow> invite_loop D i a did fs (d_transition (DS_Early (d_id d) resp) d) (fst s', e))"
    if "x \<noteq> Waiting" for resp
  proof -
    obtain r gs c e where p: "provisional_to Invite D resp fs' (d', snd s') = (r, gs, c, e)" by (metis prod.exhaust)
    from provisional [OF fs', of "(d', snd s')" Invite D resp] have "R d c" and gs: "turns_keep R gs"
      using trans [OF d'] by (simp_all add: p)
    moreover have "R d (d_transition (DS_Early (d_id c) resp) c)" using \<open>R d c\<close> transition by (rule trans)
    ultimately show ?thesis
      using provisional_le [OF p] that by (simp add: p go split: await.split sum.split)
  qed
  obtain n c where inc: "increment_local_seq d' = (n, c)" by fastforce
  have c: "R d c" using d' increment [OF inc] by (rule trans)
  then have "R d (restart_invite s c)" for s using restarted by (rule trans)
  then have challenged: "ran R d (case replace_transaction D n resp cred s' of
       (Inl err, s) \<Rightarrow> (Returned (Inl err), fs', c, s) | (Inr _, s) \<Rightarrow> invite_loop D i True did fs' (restart_invite s c) s)"
    if "x \<noteq> Waiting" for cred resp
    using c fs' that by (simp add: go split: prod.split sum.split)
  have final: "R d c" if "after_final resp did d' = (y, c)" for resp y c using d' finished [OF that] by (rule trans)
  show ?case
  proof (cases x)
    case Waiting
    with w d' fs' show ?thesis by (simp add: invite_loop.simps [of D i a did fs])
  next
    case x: (Returned m)
    show ?thesis
    proof (cases "\<exists>resp. m = Some (Response resp)")
      case True
      then obtain resp where m: "m = Some (Response resp)" by blast
      show ?thesis
        unfolding invite_loop.simps [of D i a did fs] w prod.case x m await.case option.case sip_message.case Let_def
        using fs' x prov [unfolded x, simplified] challenged [unfolded x, simplified]
        by (cases a; cases "d_credential d'"; cases "after_final resp did d'")
          (simp_all add: inc go next_state stop final)
    next
      case False
      with w d' fs' x show ?thesis
        by (auto simp: invite_loop.simps [of D i a did fs] go split: option.split sip_message.split)
    qed
  qed
qed

lemma invited: "turns_keep R fs \<Longrightarrow> ran R d (process_invite D fs d s)"
proof -
  assume fs: "turns_keep R fs"
  have *: "R d (set_server_connection c (note_calling i s s' d))" for i s s' c using noted flow by (rule trans)
  show ?thesis
    using fs ran_trans [OF * invite_looped [OF fs]]
    by (simp add: process_invite_def Let_def refl noted split: prod.split sum.split)
qed

lemma commanded: "commands_keep R cs \<Longrightarrow> run_commands D cs d s = (x, d', s') \<Longrightarrow> R d d'"
proof (induction cs arbitrary: d s)
  case (Cons y cs)
  obtain f c where y: "y = (f, c)" by fastforce
  obtain d1 e1 where f: "f (d, snd s) = (d1, e1)" by fastforce
  from Cons.prems(1) have d1: "R d d1" by (simp add: y) (metis f fst_conv)
  from Cons.prems(1) have cs: "commands_keep R cs" by (simp add: y)
  show ?case
    using Cons.prems(2) d1 trans [OF d1 Cons.IH [OF cs]]
    by (auto simp: y f split: option.splits prod.splits sum.splits if_splits)
qed (simp add: refl)

lemma offered: "commands_keep R cs \<Longrightarrow> offer_request ev D cs d s = (x, d', s') \<Longrightarrow> R d d'"
  by (auto simp: offer_request_def process_transaction_handle_def split: prod.splits bool.splits
      intro: trans [OF transition commanded])

lemma offered_confirmed: "commands_keep R cs \<Longrightarrow> offer_and_confirm ev D cs d s = (x, d', s') \<Longrightarrow> R d d'"
  by (auto simp: offer_and_confirm_def return_to_confirmed_def split: prod.splits intro: trans [OF offered transition])

lemma replied: "reply_in_dialog D status d s = (x, d', s') \<Longrightarrow> d' = d"
  by (auto simp: reply_in_dialog_def split: prod.splits)

lemma bye_handled: "handle_bye D d s = (x, d', s') \<Longrightarrow> R d d'"
  by (auto simp: handle_bye_def ended dest!: replied)

lemma ack_taken: "R d (take_ack ack t d)"
  unfolding take_ack_def return_to_confirmed_def by (rule trans [OF acked transition])

lemma reinvite_looped: "turns_keep R fs \<Longrightarrow> ran R d (reinvite_loop D fs d s)"
proof (induction fs arbitrary: d s rule: measure_induct_rule [of length])
  case (less fs)
  obtain x fs' d' s' where w: "await_message D fs d s = (x, fs', d', s')" by (metis prod.exhaust)
  have d': "R d d'" and fs': "turns_keep R fs'" using awaited_message [OF less.prems, of d D s] by (simp_all add: w)
  have le: "length fs' < length fs" if "x \<noteq> Waiting" using w that by (cases x) (auto dest: await_message_shorter)
  have go: "ran R d (reinvite_loop D fs' d' s')" if "x \<noteq> Waiting"
    using ran_trans [OF d' less.IH [OF le fs']] that by simp
  have "R d (take_ack ack t d')" for ack t using d' ack_taken by (rule trans)
  with w d' fs' go show ?case
    by (auto simp: reinvite_loop.simps [of D fs] split: await.split option.split sip_message.split)
qed

lemma server_looped: "turns_keep R fs \<Longrightarrow> ran R d (server_loop D fs d s)"
proof (induction fs arbitrary: d s rule: measure_induct_rule [of length])
  case (less fs)
  obtain x fs' d' s' where w: "await_message D fs d s = (x, fs', d', s')" by (metis prod.exhaust)
  have d': "R d d'" and fs': "turns_keep R fs'" using awaited_message [OF less.prems, of d D s] by (simp_all add: w)
  have le: "length fs' < length fs" if "x \<noteq> Waiting" using w that by (cases x) (auto dest: await_message_shorter)
  have go: "ran R d (server_loop D fs' d' s')" if "x \<noteq> Waiting"
    using ran_trans [OF d' less.IH [OF le fs']] that by simp
  have ack: "R d (take_ack ack t d')" for ack t using d' ack_taken by (rule trans)
  have cancel: "R d c" if "on_cancel D d' s' = (y, c, u)" for y c u
    using that trans [OF d' ended] d' by (auto simp: on_cancel_def split: prod.splits sum.splits)
  show ?case
    using w d' fs' go ack cancel
    by (auto simp: server_loop.simps [of D fs] split: await.split option.split sip_message.split prod.split)
qed

lemma closed: "turns_keep R fs \<Longrightarrow> ran R d (close_without_ack D a fs d s)"
proof -
  assume fs: "turns_keep R fs"
  obtain x gs c e where u: "end_session_without_ack D a (fst s) fs (d, snd s) = (x, gs, c, e)" by (metis prod.exhaust)
  with unacked_ended [OF fs, of "(d, snd s)" D a "fst s"] show ?thesis
    by (simp add: close_without_ack_def split: await.split)
qed

lemma reinvited:
  assumes "commands_keep R cs" and fs: "turns_keep R fs"
  shows "ran R d (handle_reinvite D cs fs d s)"
proof -
  obtain y d1 s1 where o: "offer_request DS_Updated D cs d s = (y, d1, s1)" by (metis prod.exhaust)
  have d1: "R d d1" using assms(1) o by (rule offered)
  obtain x gs d2 s2 where r: "reinvite_loop D fs d1 s1 = (x, gs, d2, s2)" by (metis prod.exhaust)
  from reinvite_looped [OF fs, of d1 D s1] have d2: "R d d2" and gs: "turns_keep R gs"
    using trans [OF d1] by (simp_all add: r)
  show ?thesis
    using d1 fs d2 gs ran_trans [OF d2 closed [OF gs]]
    by (simp add: handle_reinvite_def o r Let_def split: sum.split await.split)
qed

lemma begun: "begin_invite D d s = (d', s') \<Longrightarrow> R d d'"
  by (auto simp: begin_invite_def refl transition split: dialog_state.splits if_splits)

lemma invite_handled:
  assumes fs: "turns_keep R fs"
  shows "ran R d (handle_invite D fs d s)"
proof -
  obtain d1 s1 where b: "begin_invite D d s = (d1, s1)" by (cases "begin_invite D d s") blast
  have d1: "R d d1" using b by (rule begun)
  obtain x gs d2 s2 where r: "server_loop D fs d1 s1 = (x, gs, d2, s2)" by (metis prod.exhaust)
  from server_looped [OF fs, of d1 D s1] have d2: "R d d2" and gs: "turns_keep R gs"
    using trans [OF d1] by (simp_all add: r)
  show ?thesis
    using d2 gs ran_trans [OF d2 closed [OF gs]] by (simp add: handle_invite_def b r split: await.split sum.split)
qed

lemma ran_at_once: "turns_keep R fs \<Longrightarrow> (\<And>r d' s'. x = (r, d', s') \<Longrightarrow> R d d') \<Longrightarrow> ran R d (at_once fs x)"
  by (cases x) (simp add: at_once_def)

lemmas offered_events = offered offered_confirmed
lemmas handler_defs = handle_info_def handle_update_def handle_refer_def handle_message_def handle_notify_def
  handle_options_def handle_prack_def

lemma tu_sent: "tu_send ev (d, e) = (r, d', e') \<Longrightarrow> d' = d"
  by (auto simp: tu_send_def split: option.splits bool.splits prod.splits)

lemma unsupported_handled: "handle_unsupported D d s = (x, d', s') \<Longrightarrow> d' = d"
  by (auto simp: handle_unsupported_def dest: replied split: prod.splits sum.splits)

lemma confirmed_handled:
  assumes cs: "commands_keep R cs" and fs: "turns_keep R fs"
  shows "ran R d (handle_confirmed D cs fs d s)"
proof -
  have same: "ran R d (at_once fs x)" if "\<And>r d' s'. x = (r, d', s') \<Longrightarrow> d' = d" for x
    using fs that by (metis ran_at_once refl)
  have event: "ran R d (at_once fs (offer_request ev D cs d s))" "ran R d (at_once fs (offer_and_confirm ev D cs d s))" for ev
    using fs cs by (auto intro: ran_at_once offered offered_confirmed)
  have bye: "ran R d (at_once fs (handle_bye D d s))" using fs by (auto intro: ran_at_once bye_handled)
  show ?thesis
    using event bye reinvited [OF cs fs]
    by (cases "req_method (tx_original (fst s))")
      (simp_all add: handle_confirmed_def handler_defs same unsupported_handled replied refl fs)
qed

lemma unconfirmed_handled:
  assumes fs: "turns_keep R fs"
  shows "ran R d (handle_unconfirmed D fs d s)"
proof -
  have same: "ran R d (at_once fs x)" if "\<And>r d' s'. x = (r, d', s') \<Longrightarrow> d' = d" for x
    using fs that by (metis ran_at_once refl)
  have "ran R d (at_once fs (forward_ack d s))"
    by (rule same) (auto simp: forward_ack_def dest: tu_sent split: prod.splits)
  moreover have "ran R d (at_once fs (handle_bye D d s))" using fs by (auto intro: ran_at_once bye_handled)
  ultimately show ?thesis
    using invite_handled [OF fs] fs
    by (simp add: handle_unconfirmed_def handle_prack_def same replied refl split: sip_method.split)
qed

lemma handled:
  assumes cs: "commands_keep R cs" and fs: "turns_keep R fs"
  shows "ran R d (handle D cs fs d s)"
proof -
  let ?o = "observe_request (tx_original (fst s)) d"
  have o: "R d ?o" by (simp add: observe_request_def refl observed)
  have q: "R d (?o\<lparr>d_remote_seq := n\<rparr>)" for n using o remote_seq by (rule trans)
  have same: "ran R d (at_once fs x)" if "\<And>r d' s'. x = (r, d', s') \<Longrightarrow> d' = ?o" for x
    using fs o that by (metis ran_at_once)
  show ?thesis
    using o fs ran_trans [OF q confirmed_handled [OF cs fs]] ran_trans [OF q unconfirmed_handled [OF fs]]
    by (simp add: handle_def Let_def same replied split: sum.split transaction_role.split)
qed

lemma kind_handled:
  assumes cs: "commands_keep R cs" and fs: "turns_keep R fs"
  shows "ran R d (kind_handle kind D cs fs d s)"
proof -
  have event: "ran R d (at_once fs (offer_request ev D cs d s))" for ev
    using fs cs by (auto intro: ran_at_once offered)
  show ?thesis
    using handled [OF cs fs]
    by (simp add: kind_handle_def server_subscription_handle_def client_subscription_handle_def publication_handle_def
        event refl fs split: dialog_kind.split sip_method.split)
qed

end

section \<open>Identity and history\<close>

text \<open>\<open>evolves d d'\<close>: \<open>d'\<close> may follow \<open>d\<close> in the life of one dialog. Only the remote tag of its id
  changes, notifications are only added, and once it is terminated its state and its notifications stand.\<close>

definition evolves :: "dialog \<Rightarrow> dialog \<Rightarrow> bool" where
  "evolves d d' \<longleftrightarrow>
     d_role d' = d_role d \<and> d_from d' = d_from d \<and> d_local_contact d' = d_local_contact d
     \<and> d_credential d' = d_credential d \<and> d_channel d' = d_channel d \<and> d_supports_100rel d' = d_supports_100rel d
     \<and> did_call_id (d_id d') = did_call_id (d_id d) \<and> did_local_tag (d_id d') = did_local_tag (d_id d)
     \<and> prefix (d_notified d) (d_notified d')
     \<and> (d_is_terminated d \<longrightarrow> d_state d' = d_state d \<and> d_notified d' = d_notified d)"

lemma evolves_same:
  assumes "d_role d' = d_role d" "d_from d' = d_from d" "d_local_contact d' = d_local_contact d"
    "d_credential d' = d_credential d" "d_channel d' = d_channel d" "d_supports_100rel d' = d_supports_100rel d"
    "did_call_id (d_id d') = did_call_id (d_id d)" "did_local_tag (d_id d') = did_local_tag (d_id d)"
    "d_notified d' = d_notified d" "d_state d' = d_state d"
  shows "evolves d d'"
  using assms by (simp add: evolves_def)

lemma evolves_transition: "evolves d (d_transition s d)"
  by (simp add: evolves_def d_transition_def d_is_terminated_def)

interpretation life: dialog_relation evolves
proof unfold_locales
  fix d d' d'' :: dialog
  assume "evolves d d'" "evolves d' d''"
  then show "evolves d d''" by (auto simp: evolves_def d_is_terminated_def intro: prefix_order.trans)
next
  fix d :: dialog and t
  show "evolves d (update_remote_tag t d)" by (rule evolves_same) (simp_all add: update_remote_tag_def Let_def)
next
  fix d :: dialog and cn
  show "evolves d (set_server_connection cn d)" by (rule evolves_same) (simp_all add: set_server_connection_def)
qed (rule evolves_transition | (rule evolves_same; simp))+

lemma evolves_terminated: "evolves d d' \<Longrightarrow> d_is_terminated d \<Longrightarrow> d_is_terminated d'"
  by (simp add: evolves_def d_is_terminated_def)

lemma terminated_by_end: "d_is_terminated (d_transition (DS_Terminated i r) d)"
  by (simp add: d_transition_def d_is_terminated_def is_request_event_def)

section \<open>Claims\<close>

text \<open>C4: whatever a dialog of any kind is asked to handle, and whatever the other tasks do to it meanwhile (as long
  as their turns and commands respect the dialog's life too), it keeps its role, Call-ID, local tag, From and
  channel, it only adds to its notifications, and once it is Terminated its state never changes and nothing more
  is notified. The same holds of every request the application sends, of the drive of the client's INVITE and
  of hanging up.\<close>

theorem dialog_life:
  assumes "turns_keep evolves fs" and "commands_keep evolves cs"
  shows "ran evolves d (kind_handle kind D cs fs d s)
    \<and> ran evolves d (process_invite D fs d s)
    \<and> ran evolves d (make_and_send D m headers body fs (d, e))
    \<and> ran evolves d (hangup_with_headers D headers fs (d, e))"
  using life.kind_handled [OF assms(2,1)] life.invited [OF assms(1)]
    life.made_and_sent [OF assms(1), of "(d, e)"] life.hung_up [OF assms(1), of "(d, e)"] by simp

text \<open>A dialog of the callee, made from the INVITE of \<open>example_server\<close>, which answers it with a 200.\<close>

definition example_denv :: dialog_env where
  "example_denv = \<lparr>de_env = \<lambda>_. example_env, de_hasher = \<lambda>_ _. [], de_cnonce = \<lambda>_. ''c1'',
     de_addrs = [conn_addr example_conn], de_outbound = None, de_cancelled = \<lambda>_. False\<rparr>"

definition example_contact :: uri where
  "example_contact = uri_of_hwp \<lparr>hwp_host = Domain ''c.example'', hwp_port = None\<rparr>"

definition example_uas :: dialog where
  "example_uas =
     \<lparr>d_role = ServerRole, d_cancelled = False,
      d_id = \<lparr>did_call_id = ''call1@a.example'', did_local_tag = ''t1'', did_remote_tag = ''88''\<rparr>,
      d_state = DS_Confirmed \<lparr>did_call_id = ''call1@a.example'', did_local_tag = ''t1'', did_remote_tag = ''88''\<rparr> example_ok,
      d_local_seq = 7, d_local_contact = Some example_contact, d_remote_contact = None, d_remote_seq = 0,
      d_remote_uri = example_contact,
      d_from = \<lparr>na_display = None, na_uri = example_contact, na_params = [P_Tag ''88'']\<rparr>,
      d_to = \<lparr>na_display = None, na_uri = example_contact, na_params = [P_Tag ''t1'']\<rparr>,
      d_credential = None, d_route_set = [], d_notified = [], d_channel = None, d_session_id = None,
      d_initial_request = example_invite, d_supports_100rel = False, d_remote_reliable = None, d_remote_ack = None,
      d_next_ack_body = None, d_last_sent_ack = None, d_server_connection = None, d_dialback_target = None\<rparr>"

definition example_commands :: "command list" where
  "example_commands = [(id, Some (SC_OK, None, None))]"

lemma dialog_life_witness:
  "turns_keep evolves [id, id] \<and> commands_keep evolves example_commands
   \<and> ran evolves example_uas (kind_handle KInvite example_denv example_commands [id, id] example_uas example_server)"
proof -
  have keep: "turns_keep evolves [id, id]" "commands_keep evolves example_commands"
    by (simp_all add: example_commands_def life.refl)
  show ?thesis
    using dialog_life [OF keep, of example_uas KInvite example_denv example_server Invite None None "snd example_server"] keep by simp
qed

end
