(* ===== verification/Dialog_Messages.thy ===== *)
theory Dialog_Messages
  imports Dialog_Inv
begin

text \<open>
  What goes over the wire inside a dialog: the requests a dialog makes carry its identity, so the peer finds
  its own side of the dialog with them; its responses match the request they answer; a snapshot keeps all of
  this; a reliable provisional response is acknowledged by one PRACK.
\<close>

section \<open>Identity\<close>

text \<open>The tags of the id are those of From and To, as the dialog was set up by its caller.\<close>

definition tags_agree :: "dialog \<Rightarrow> bool" where
  "tags_agree d \<longleftrightarrow>
     (case d_role d of
        ClientRole \<Rightarrow> params_tag (na_params (d_from d)) = Some (did_local_tag (d_id d))
          \<and> unwrap_or (params_tag (na_params (d_to d))) [] = did_remote_tag (d_id d)
      | ServerRole \<Rightarrow> params_tag (na_params (d_from d)) = Some (did_remote_tag (d_id d))
          \<and> unwrap_or (params_tag (na_params (d_to d))) [] = did_local_tag (d_id d))"

lemma params_tag_with_tag [simp]: "params_tag (na_params (na_with_tag t n)) = Some t"
proof -
  have "find_map tag_of (remove_tag ps) = None" for ps
    by (auto simp: remove_tag_def find_map_None)
  then show ?thesis by (simp add: na_with_tag_def params_tag_def find_map_append)
qed

lemma params_tag_ensured: "unwrap_or (params_tag (na_params (ensure_tag_param t n))) [] =
    (case params_tag (na_params n) of None \<Rightarrow> t | Some u \<Rightarrow> u)"
  by (auto simp: ensure_tag_param_def params_tag_def find_map_append split: option.split)

lemma sip_try_Inr [simp]: "sip_try x = Inr y \<longleftrightarrow> x = Inr y"
  by (cases x) (simp_all add: sip_try_def)

lemma dialog_new_parts:
  assumes "dialog_new uuid role i req cred contact ch = Inr d"
  shows "d_role d = role" "d_id d = i" "and_then (from_header (req_headers req)) (\<lambda>v. from_parse (trim v)) = Inr (d_from d)"
    and "\<exists>n. and_then (to_header (req_headers req)) (\<lambda>v. to_parse (trim v)) = Inr n
      \<and> d_to d = ensure_tag_param (case role of ClientRole \<Rightarrow> did_remote_tag i | ServerRole \<Rightarrow> did_local_tag i) n"
  using assms by (auto simp: dialog_new_def and_then_eq_Inr)

lemma request_id_iff: "dialog_id_of_request req role = Inr i \<longleftrightarrow>
    (\<exists>c f t ft tt. header_opt H_CallId (req_headers req) = Some c \<and> header_opt H_From (req_headers req) = Some f
      \<and> header_opt H_To (req_headers req) = Some t \<and> from_tag f = Inr (Some ft) \<and> to_tag t = Inr tt
      \<and> i = dialog_id_for role c ft (unwrap_or tt []))"
  by (auto simp: dialog_id_of_request_def and_then_eq_Inr call_id_header_def from_header_def to_header_def header_get_def)

lemma new_client_agrees:
  assumes "dialog_id_of_request req ClientRole = Inr i" and "dialog_new uuid ClientRole i req cred contact ch = Inr d"
  shows "tags_agree d"
  using assms(1) dialog_new_parts [OF assms(2)]
  by (auto simp: request_id_iff tags_agree_def dialog_id_for_def from_header_def to_header_def header_get_def
      and_then_eq_Inr from_tag_def to_tag_def params_tag_ensured split: option.splits)

lemma new_server_agrees:
  assumes "dialog_id_of_request req ServerRole = Inr i" and "did_local_tag i = []"
    and "and_then (to_header (req_headers req)) to_tag \<noteq> Inr (Some [])"
    and "dialog_new uuid ServerRole (i\<lparr>did_local_tag := tag\<rparr>) req cred contact ch = Inr d"
  shows "tags_agree d"
  using assms(1-3) dialog_new_parts [OF assms(4)]
  by (auto simp: request_id_iff tags_agree_def dialog_id_for_def from_header_def to_header_def header_get_def
      and_then_eq_Inr from_tag_def to_tag_def params_tag_ensured split: option.splits)

definition client_tags_kept :: "dialog \<Rightarrow> dialog \<Rightarrow> bool" where
  "client_tags_kept d d' \<longleftrightarrow> d_role d' = d_role d \<and> (d_role d = ClientRole \<and> tags_agree d \<longrightarrow> tags_agree d')"

lemma client_tags_same: "d_role d' = d_role d \<Longrightarrow> d_from d' = d_from d \<Longrightarrow> d_to d' = d_to d \<Longrightarrow> d_id d' = d_id d \<Longrightarrow> client_tags_kept d d'"
  by (auto simp: client_tags_kept_def tags_agree_def)

interpretation identity: dialog_relation client_tags_kept
proof unfold_locales
  fix d d' d'' :: dialog
  assume "client_tags_kept d d'" "client_tags_kept d' d''"
  then show "client_tags_kept d d''" by (auto simp: client_tags_kept_def)
next
  fix d :: dialog and t
  show "client_tags_kept d (update_remote_tag t d)"
    by (auto simp: client_tags_kept_def tags_agree_def update_remote_tag_def Let_def)
next
  fix d :: dialog and s
  show "client_tags_kept d (d_transition s d)" by (rule client_tags_same) (simp_all add: d_transition_def)
next
  fix d :: dialog and cn
  show "client_tags_kept d (set_server_connection cn d)" by (rule client_tags_same) (simp_all add: set_server_connection_def)
qed (rule client_tags_same; simp)+

lemma ran_agrees:
  assumes "ran client_tags_kept d x" and "d_role d = ClientRole" and "tags_agree d"
  shows "tags_agree (fst (snd (snd x)))"
  using assms by (simp add: ran_def client_tags_kept_def)

text \<open>C7: the tags of a client dialog's id are those of its From and To when it is made from its INVITE, and
  still are after whatever it is asked to handle, after the drive of the INVITE and after any request sent in it, even
  when the tag of the peer changes with a forked or early response.\<close>

theorem dialog_identity:
  assumes "dialog_id_of_request req ClientRole = Inr i" and "dialog_new uuid ClientRole i req cred contact ch = Inr d"
    and "turns_keep client_tags_kept fs" and "commands_keep client_tags_kept cs"
  shows "tags_agree d \<and> tags_agree (fst (snd (snd (kind_handle kind D cs fs d s))))
    \<and> tags_agree (fst (snd (snd (process_invite D fs d s))))
    \<and> tags_agree (fst (snd (snd (make_and_send D m headers body fs (d, e)))))"
proof -
  have d: "tags_agree d" "d_role d = ClientRole"
    using new_client_agrees [OF assms(1,2)] dialog_new_parts(1) [OF assms(2)] by simp_all
  then show ?thesis
    using ran_agrees [OF identity.kind_handled [OF assms(4,3)]] ran_agrees [OF identity.invited [OF assms(3)]]
      ran_agrees [OF identity.made_and_sent [OF assms(3), of "(d, e)", unfolded fst_conv]] by simp
qed

lemma example_uac_made: "\<exists>d. dialog_new ''u'' ClientRole \<lparr>did_call_id = ''call1@a.example'', did_local_tag = ''88'', did_remote_tag = []\<rparr>
    example_invite None None None = Inr d"
  by (rule exI, code_simp)

lemma example_invite_id: "dialog_id_of_request example_invite ClientRole
    = Inr \<lparr>did_call_id = ''call1@a.example'', did_local_tag = ''88'', did_remote_tag = []\<rparr>"
  by code_simp

lemma dialog_identity_witness:
  "\<exists>d. dialog_new ''u'' ClientRole \<lparr>did_call_id = ''call1@a.example'', did_local_tag = ''88'', did_remote_tag = []\<rparr>
      example_invite None None None = Inr d
    \<and> tags_agree (fst (snd (snd (process_invite example_denv [apfst (update_remote_tag ''99'')] d example_client))))"
proof -
  obtain d where d: "dialog_new ''u'' ClientRole \<lparr>did_call_id = ''call1@a.example'', did_local_tag = ''88'', did_remote_tag = []\<rparr>
      example_invite None None None = Inr d"
    using example_uac_made by blast
  have "turns_keep client_tags_kept [apfst (update_remote_tag ''99'')]" "commands_keep client_tags_kept []"
    by (simp_all add: identity.remote_tag)
  then show ?thesis using dialog_identity [OF example_invite_id d] d by blast
qed

section \<open>Requests\<close>

lemma all_headers_Cons: "all_headers mk (h # hs) = (case variant mk h of Some v \<Rightarrow> v # all_headers mk hs | None \<Rightarrow> all_headers mk hs)"
  by (simp add: all_headers_def map_filter_simps split: option.split)

lemma find_map_hit: "find_map f xs = Some y \<Longrightarrow> \<exists>x \<in> set xs. f x = Some y"
  by (induction xs) (auto split: option.splits)

lemma all_headers_none: "(\<And>h. h \<in> set hs \<Longrightarrow> variant mk h = None) \<Longrightarrow> all_headers mk hs = []"
  by (induction hs) (simp_all add: all_headers_def map_filter_simps)

lemma header_opt_append: "header_opt mk (xs @ ys) = (case header_opt mk xs of Some v \<Rightarrow> Some v | None \<Rightarrow> header_opt mk ys)"
  by (simp add: header_opt_def find_map_append split: option.split)

lemma header_opt_none: "(\<And>h. h \<in> set hs \<Longrightarrow> variant mk h = None) \<Longrightarrow> header_opt mk hs = None"
  by (simp add: header_opt_def find_map_None)

lemma all_routes_mk: "all_headers H_Route (map H_Route rs) = rs"
  by (induction rs) (simp_all add: all_headers_def map_filter_simps route_variant.variant_mk)

lemma session_header_variant: "h \<in> set (option_list (build_session_id_header l r)) \<Longrightarrow> \<exists>v. h = H_SessionId v"
  by (auto simp: option_list_def build_session_id_header_def split: option.splits)

lemma request_parts:
  assumes "dialog_request D e m c addr branch headers body d = (Inr req, d')"
  shows "d' = (case c of Some n \<Rightarrow> d | None \<Rightarrow> d\<lparr>d_local_seq := d_local_seq d + 1\<rparr>)"
    and "req_method req = m" "req_uri req = d_remote_uri d" "req_version req = V2"
    and "header_opt H_CallId (req_headers req) = Some (did_call_id (d_id d))"
    and "header_opt H_From (req_headers req) = Some (show_name_addr (case d_role d of ClientRole \<Rightarrow> d_from d | ServerRole \<Rightarrow> d_to d))"
    and "header_opt H_To (req_headers req) = Some (show_name_addr (case d_role d of ClientRole \<Rightarrow> d_to d | ServerRole \<Rightarrow> d_from d))"
    and "header_opt H_CSeq (req_headers req)
      = Some (show_cseq \<lparr>cseq_seq = (case c of Some n \<Rightarrow> n | None \<Rightarrow> unat (d_local_seq d + 1)), cseq_method = m\<rparr>)"
    and "all_headers H_Route (req_headers req) = d_route_set d"
    and "\<exists>hs. req_headers req = hs @ filter (\<lambda>h. \<not> is_system_header h) (unwrap_or headers []) \<and> header_opt H_RAck hs = None"
proof -
  obtain via where via: "make_request_with_vias (ep_user_agent e) m c [via] headers body d = (req, d')"
    using assms by (auto simp: dialog_request_def Let_def split: sum.splits prod.splits)
  obtain n d1 where n: "(case c of Some n \<Rightarrow> (n, d) | None \<Rightarrow> increment_local_seq d) = (n, d1)" by (metis prod.exhaust)
  then have d1: "d1 = (case c of Some n \<Rightarrow> d | None \<Rightarrow> d\<lparr>d_local_seq := d_local_seq d + 1\<rparr>)"
      "n = (case c of Some n \<Rightarrow> n | None \<Rightarrow> unat (d_local_seq d + 1))"
    by (auto simp: increment_local_seq_def split: option.splits)
  have same: "d_id d1 = d_id d" "d_from d1 = d_from d" "d_to d1 = d_to d" "d_role d1 = d_role d" "d_route_set d1 = d_route_set d"
      "d_remote_uri d1 = d_remote_uri d"
    by (simp_all add: d1 split: option.split)
  note made = via [symmetric, unfolded make_request_with_vias_def n Let_def, simplified]
  show "d' = (case c of Some n \<Rightarrow> d | None \<Rightarrow> d\<lparr>d_local_seq := d_local_seq d + 1\<rparr>)"
    "req_method req = m" "req_uri req = d_remote_uri d" "req_version req = V2"
    using made by (simp_all add: d1(1) same split: option.split)
  show "header_opt H_CallId (req_headers req) = Some (did_call_id (d_id d))"
    "header_opt H_From (req_headers req) = Some (show_name_addr (case d_role d of ClientRole \<Rightarrow> d_from d | ServerRole \<Rightarrow> d_to d))"
    "header_opt H_To (req_headers req) = Some (show_name_addr (case d_role d of ClientRole \<Rightarrow> d_to d | ServerRole \<Rightarrow> d_from d))"
    "header_opt H_CSeq (req_headers req)
      = Some (show_cseq \<lparr>cseq_seq = (case c of Some n \<Rightarrow> n | None \<Rightarrow> unat (d_local_seq d + 1)), cseq_method = m\<rparr>)"
    using made unfolding d1(2) [symmetric] by (simp_all add: variant_def same split: transaction_role.split)
  have user: "all_headers H_Route (filter (\<lambda>h. \<not> is_system_header h) hs) = []" for hs
    by (rule all_headers_none) (simp add: is_system_header_def matches_header_def)
  have contacts: "all_headers H_Route (contact_headers c) = []" "header_opt H_RAck (contact_headers c) = None" for c
    by (rule all_headers_none header_opt_none; auto simp: contact_headers_def variant_def)+
  have session: "all_headers H_Route (if b then [] else option_list (build_session_id_header l r)) = []"
      "header_opt H_RAck (if b then [] else option_list (build_session_id_header l r)) = None" for b l r
    by (rule all_headers_none header_opt_none; auto simp: variant_def dest!: session_header_variant split: if_splits)+
  have routes: "header_opt H_RAck (map H_Route rs) = None" for rs
    by (rule header_opt_none) (auto simp: variant_def)
  show "all_headers H_Route (req_headers req) = d_route_set d"
    using made by (simp add: all_headers_append all_headers_Cons all_routes_mk user contacts session variant_def same
        body_length_header_def all_headers_none [of "[]"] del: map_append split: transaction_role.split option.split)
  let ?hs = "[H_Via (show_via via), H_CallId (did_call_id (d_id d1))] @ (case d_role d1 of
        ClientRole \<Rightarrow> [H_From (show_name_addr (d_from d1)), H_To (show_name_addr (d_to d1))]
      | ServerRole \<Rightarrow> [H_From (show_name_addr (d_to d1)), H_To (show_name_addr (d_from d1))])
    @ [H_CSeq (show_cseq \<lparr>cseq_seq = n, cseq_method = m\<rparr>), H_UserAgent (ep_user_agent e)] @ contact_headers d1
    @ map H_Route (d_route_set d1) @ [H_MaxForwards ''70'']
    @ (case d_session_id d1 of
         Some sid \<Rightarrow> if list_ex (matches_header [H_SessionId]) (unwrap_or headers []) then []
           else option_list (build_session_id_header (sid_local sid) (sid_remote sid))
       | None \<Rightarrow> []) @ [body_length_header body]"
  have "req_headers req = ?hs @ filter (\<lambda>h. \<not> is_system_header h) (unwrap_or headers [])" using made by simp
  moreover have "header_opt H_RAck ?hs = None"
    by (simp add: header_opt_append contacts session routes variant_def body_length_header_def split: transaction_role.split option.split)
  ultimately show "\<exists>hs. req_headers req = hs @ filter (\<lambda>h. \<not> is_system_header h) (unwrap_or headers []) \<and> header_opt H_RAck hs = None"
    by blast
qed

lemma from_tag_shown: "name_addr_wf n \<Longrightarrow> from_tag (show_name_addr n) = Inr (params_tag (na_params n))"
  by (simp add: from_tag_def from_parse_def trim_show_name_addr parse_show_name_addr)

lemma to_tag_shown: "name_addr_wf n \<Longrightarrow> to_tag (show_name_addr n) = Inr (params_tag (na_params n))"
  by (simp add: to_tag_def to_parse_def trim_show_name_addr parse_show_name_addr)

lemma request_ids:
  assumes "dialog_request D e m None addr branch headers body d = (Inr req, d')"
    and "tags_agree d" and "d_role d = ServerRole \<Longrightarrow> params_tag (na_params (d_to d)) \<noteq> None"
    and "name_addr_wf (d_from d)" and "name_addr_wf (d_to d)"
  shows "dialog_id_of_request req r = Inr (dialog_id_for r (did_call_id (d_id d)) (did_local_tag (d_id d)) (did_remote_tag (d_id d)))"
proof -
  note made = request_parts [OF assms(1)]
  obtain f t where "header_opt H_From (req_headers req) = Some (show_name_addr f)"
      "header_opt H_To (req_headers req) = Some (show_name_addr t)" "name_addr_wf f" "name_addr_wf t"
      "params_tag (na_params f) = Some (did_local_tag (d_id d))" "unwrap_or (params_tag (na_params t)) [] = did_remote_tag (d_id d)"
    using made(6,7) assms(2-5) by (cases "d_role d") (auto simp: tags_agree_def)
  then show ?thesis by (simp add: request_id_iff made(5) from_tag_shown to_tag_shown)
qed

text \<open>C8: a request made inside a dialog has the identity of the dialog: seen from the sender its dialog id is the
  dialog's, seen from the receiver the same with local and remote tag swapped. A server sends it only once its To
  carries its tag. It goes to the remote target along the route set, its CSeq number is one more than the last
  (wrapping at 32 bits) and nothing else of the dialog changes.\<close>

theorem dialog_request_matches:
  assumes "dialog_request D e m None addr branch headers body d = (Inr req, d')"
    and "tags_agree d" and "d_role d = ServerRole \<Longrightarrow> params_tag (na_params (d_to d)) \<noteq> None"
    and "name_addr_wf (d_from d)" and "name_addr_wf (d_to d)"
  shows "dialog_id_of_request req ClientRole = Inr (d_id d)
    \<and> dialog_id_of_request req ServerRole
        = Inr \<lparr>did_call_id = did_call_id (d_id d), did_local_tag = did_remote_tag (d_id d), did_remote_tag = did_local_tag (d_id d)\<rparr>
    \<and> req_method req = m \<and> req_uri req = d_remote_uri d \<and> all_headers H_Route (req_headers req) = d_route_set d
    \<and> and_then (cseq_header (req_headers req)) cseq_typed = Inr \<lparr>cseq_seq = unat (d_local_seq d + 1), cseq_method = m\<rparr>
    \<and> d' = d\<lparr>d_local_seq := d_local_seq d + 1\<rparr>"
proof -
  note made = request_parts [OF assms(1)]
  have "unat (d_local_seq d + 1) < 2 ^ 32" using unsigned_less [of "d_local_seq d + 1"] by simp
  then have "and_then (cseq_header (req_headers req)) cseq_typed = Inr \<lparr>cseq_seq = unat (d_local_seq d + 1), cseq_method = m\<rparr>"
    by (simp add: cseq_header_def header_get_def made cseq_parse_show)
  with request_ids [OF assms] show ?thesis by (simp add: made dialog_id_for_def)
qed

lemma example_uas_wf:
  "tags_agree example_uas" "params_tag (na_params (d_to example_uas)) \<noteq> None"
  "name_addr_wf (d_from example_uas)" "name_addr_wf (d_to example_uas)"
  by code_simp+

lemma example_bye_made: "\<exists>req d. dialog_request example_denv example_endpoint Bye None None None None None example_uas = (Inr req, d)"
  by (rule exI, rule exI, code_simp)

lemma dialog_request_matches_witness:
  "\<exists>req d. dialog_request example_denv example_endpoint Bye None None None None None example_uas = (Inr req, d)
    \<and> dialog_id_of_request req ServerRole
        = Inr \<lparr>did_call_id = ''call1@a.example'', did_local_tag = ''88'', did_remote_tag = ''t1''\<rparr>
    \<and> d_local_seq d = 8"
proof -
  obtain req d where made: "dialog_request example_denv example_endpoint Bye None None None None None example_uas = (Inr req, d)"
    using example_bye_made by blast
  show ?thesis using dialog_request_matches [OF made example_uas_wf] made by (auto simp: example_uas_def)
qed

section \<open>Responses\<close>

text \<open>The headers the caller may not replace.\<close>

definition answer_headers :: "header list \<Rightarrow> bool" where
  "answer_headers hs \<longleftrightarrow> (\<forall>h \<in> set hs. \<not> matches_header [H_Via, H_From, H_To, H_CallId, H_CSeq] h)"

lemma response_header_opt:
  assumes "mk \<in> {H_Via, H_From, H_CallId, H_CSeq}"
  shows "header_opt mk (concat (map (response_header status tag) hs)) = header_opt mk hs"
proof (induction hs)
  case (Cons h hs)
  have "header_opt mk (response_header status tag h) = variant mk h"
    using assms by (auto simp: response_header_def matches_header_def variant_def split: option.splits sum.splits)
  then show ?case using Cons.IH by (simp add: header_opt_append split: option.split)
qed simp

lemma add_user_header_opt:
  assumes "mk \<in> {H_Via, H_From, H_To, H_CallId, H_CSeq}" and "\<not> matches_header [H_Via, H_From, H_To, H_CallId, H_CSeq] h"
  shows "header_opt mk (add_user_header h hs) = header_opt mk hs"
proof -
  have other: "variant mk h = None" using assms by (auto simp: matches_header_def)
  have keep: "header_opt mk (filter p hs) = header_opt mk hs" if "\<And>x. variant mk x \<noteq> None \<Longrightarrow> p x" for p
    unfolding header_opt_def by (rule find_map_filter) (use that in blast)
  have "header_opt mk (filter (\<lambda>s. discriminant s \<noteq> discriminant h) hs) = header_opt mk hs"
    using other by (intro keep) (auto simp: variant_def split: if_splits)
  moreover have "header_opt mk (filter (\<lambda>x. \<not> is_other_named n x) hs) = header_opt mk hs" for n
    using assms(1) by (intro keep) (auto simp: is_other_named_def variant_def split: header.splits)
  ultimately have "header_opt mk (unique_push h hs) = header_opt mk hs"
    "header_opt mk (headers_push h (headers_retain (\<lambda>x. \<not> is_other_named n x) hs)) = header_opt mk hs"
    "header_opt mk (headers_push h hs) = header_opt mk hs" for n
    using other by (simp_all add: unique_push_def headers_push_def headers_retain_def header_opt_append split: option.split)
  then show ?thesis unfolding add_user_header_def by (cases h) (simp_all only: header.case)
qed

lemma user_headers_opt:
  assumes "mk \<in> {H_Via, H_From, H_To, H_CallId, H_CSeq}" and "answer_headers us"
  shows "header_opt mk (fold add_user_header us hs) = header_opt mk hs"
  using assms(2) by (induction us arbitrary: hs) (simp_all add: answer_headers_def add_user_header_opt [OF assms(1)])

lemma response_to_opt:
  assumes "header_opt H_To hs = Some v" and "to_parse (trim v) = Inr n"
  shows "header_opt H_To (concat (map (response_header status tag) hs))
    = Some (show_name_addr (if status \<noteq> SC_Trying \<and> params_tag (na_params n) = None then n\<lparr>na_params := na_params n @ [P_Tag tag]\<rparr> else n))"
  using assms(1)
proof (induction hs)
  case (Cons h hs)
  show ?case
  proof (cases "variant H_To h")
    case None
    then have "header_opt H_To (response_header status tag h) = None"
      by (auto simp: response_header_def)
    then show ?thesis using Cons None by (simp add: header_opt_append)
  next
    case (Some w)
    then have "w = v" "\<not> matches_header [H_Via, H_From, H_CSeq, H_CallId, H_RecordRoute] h"
      using Cons.prems by (auto simp: matches_header_def variant_def split: if_splits)
    then show ?thesis using Some assms(2) by (simp add: header_opt_append response_header_def to_variant.variant_mk)
  qed
qed simp

lemma dialog_response_opt:
  assumes "mk \<in> {H_Via, H_From, H_To, H_CallId, H_CSeq}" and "answer_headers (unwrap_or headers [])"
    and "header_opt mk (concat (map (response_header status (did_local_tag (d_id d))) (req_headers req))) = Some v"
  shows "header_opt mk (resp_headers (dialog_response ua req status headers body d)) = Some v"
proof -
  have keep: "header_opt mk (headers_retain (\<lambda>h. \<not> matches_header [H_ContentLength, H_UserAgent] h) hs) = header_opt mk hs" for hs
    unfolding header_opt_def headers_retain_def
    by (rule find_map_filter) (use assms(1) in \<open>auto simp: matches_header_def variant_def split: if_splits\<close>)
  show ?thesis
    by (simp add: dialog_response_def Let_def header_opt_append keep user_headers_opt [OF assms(1,2)] assms(3))
qed

lemma response_id_iff: "dialog_id_of_response resp role = Inr i \<longleftrightarrow>
    (\<exists>c f t ft tt. header_opt H_CallId (resp_headers resp) = Some c \<and> header_opt H_From (resp_headers resp) = Some f
      \<and> header_opt H_To (resp_headers resp) = Some t \<and> from_tag f = Inr (Some ft) \<and> to_tag t = Inr (Some tt)
      \<and> i = dialog_id_for role c ft tt)"
  by (auto simp: dialog_id_of_response_def and_then_eq_Inr call_id_header_def from_header_def to_header_def header_get_def)

text \<open>The response a dialog makes has the transaction key of the request it answers, and the dialog id a peer
  reads from it has the request's Call-ID and From tag, and as To tag the tag of the request's To or, when that has
  none, the dialog's local tag. This holds whatever headers the application adds, as long as it adds none of the five
  that identify the message.\<close>

theorem dialog_response_matches:
  assumes "key_from_request req ServerRole = Inr k" and "req_method req \<notin> {Ack, Cancel}"
    and "and_then (cseq_header (req_headers req)) cseq_value_method = Inr (req_method req)"
    and "dialog_id_of_request req ClientRole = Inr i" and "and_then (to_header (req_headers req)) (\<lambda>v. to_parse (trim v)) = Inr n"
    and "name_addr_wf n" and "plain '';'' (did_local_tag (d_id d))"
    and "status \<noteq> SC_Trying" and "answer_headers (unwrap_or headers [])"
  shows "key_from_response (dialog_response ua req status headers body d) ServerRole = Inr k
    \<and> dialog_id_of_response (dialog_response ua req status headers body d) ClientRole
      = Inr (i\<lparr>did_remote_tag := (case params_tag (na_params n) of Some t \<Rightarrow> t | None \<Rightarrow> did_local_tag (d_id d))\<rparr>)"
proof -
  let ?resp = "dialog_response ua req status headers body d"
  define n' where "n' = (if params_tag (na_params n) = None then n\<lparr>na_params := na_params n @ [P_Tag (did_local_tag (d_id d))]\<rparr> else n)"
  have opt: "header_opt mk (resp_headers ?resp) = Some v"
    if "mk \<in> {H_Via, H_From, H_CallId, H_CSeq}" "header_opt mk (req_headers req) = Some v" for mk v
    using that by (intro dialog_response_opt) (auto simp: response_header_opt assms(9))
  obtain v where v: "header_opt H_To (req_headers req) = Some v" "to_parse (trim v) = Inr n"
    using assms(5) by (auto simp: to_header_def header_get_def and_then_eq_Inr)
  then have to: "header_opt H_To (resp_headers ?resp) = Some (show_name_addr n')"
    using response_to_opt [OF v, of status] assms(8,9) by (intro dialog_response_opt) (simp_all add: n'_def)
  have "name_addr_wf n'" using assms(6,7) by (auto simp: n'_def name_addr_wf_def)
  then have tag: "to_tag (show_name_addr n') = Inr (Some (case params_tag (na_params n) of Some t \<Rightarrow> t | None \<Rightarrow> did_local_tag (d_id d)))"
    by (auto simp: to_tag_shown n'_def params_tag_def find_map_append split: option.split)
  have "key_from_response ?resp ServerRole = Inr k"
    using assms(1-3) unfolding key_from_request_iff key_from_response_iff
    by (auto simp: opt key_method_def cseq_header_def header_get_def)
  moreover have "dialog_id_of_response ?resp ClientRole
      = Inr (i\<lparr>did_remote_tag := (case params_tag (na_params n) of Some t \<Rightarrow> t | None \<Rightarrow> did_local_tag (d_id d))\<rparr>)"
    using assms(4) unfolding request_id_iff response_id_iff by (auto simp: opt to tag dialog_id_for_def)
  ultimately show ?thesis ..
qed

lemma example_invite_to: "and_then (to_header (req_headers example_invite)) (\<lambda>v. to_parse (trim v))
    = Inr \<lparr>na_display = None, na_uri = \<lparr>uri_scheme = Some Sip, uri_auth = Some \<lparr>auth_user = ''bob'', auth_password = None\<rparr>,
        uri_hwp = \<lparr>hwp_host = Domain ''b.example'', hwp_port = None\<rparr>, uri_params = [], uri_headers = []\<rparr>, na_params = []\<rparr>"
  by code_simp

lemma dialog_response_matches_witness:
  "key_from_response (dialog_response ''ua'' example_invite SC_OK (Some [H_ContentType ''application/sdp'']) None example_uas) ServerRole
      = Inr example_key
   \<and> dialog_id_of_response (dialog_response ''ua'' example_invite SC_OK (Some [H_ContentType ''application/sdp'']) None example_uas) ClientRole
      = Inr \<lparr>did_call_id = ''call1@a.example'', did_local_tag = ''88'', did_remote_tag = ''t1''\<rparr>"
proof -
  have "name_addr_wf \<lparr>na_display = None, na_uri = \<lparr>uri_scheme = Some Sip, uri_auth = Some \<lparr>auth_user = ''bob'', auth_password = None\<rparr>,
        uri_hwp = \<lparr>hwp_host = Domain ''b.example'', hwp_port = None\<rparr>, uri_params = [], uri_headers = []\<rparr>, na_params = []\<rparr>"
    "plain '';'' (did_local_tag (d_id example_uas))" "answer_headers (unwrap_or (Some [H_ContentType ''application/sdp'']) [])"
    "req_method example_invite \<notin> {Ack, Cancel}"
    by code_simp+
  then show ?thesis
    using dialog_response_matches [OF example_invite_key _ example_invite_cseq example_invite_id example_invite_to,
        where d = example_uas and status = SC_OK and headers = "Some [H_ContentType ''application/sdp'']" and ua = "''ua''" and body = None]
    by (simp add: example_uas_def params_tag_def)
qed

section \<open>Snapshots\<close>

lemma ensured_agrees: "unwrap_or (params_tag (na_params n)) [] = t \<Longrightarrow> ensure_tag_param t n = n"
  by (cases "params_tag (na_params n)") (simp_all add: ensure_tag_param_def)

lemma restored_agrees: "params_tag (na_params n) = Some t \<Longrightarrow> restore_tag t n = n"
  by (simp add: restore_tag_def)

lemma restore_snapshot:
  assumes "tags_agree d"
  shows "restore_from_snapshot ua (snapshot_of d) = (if snapshot_state_of (d_state d) \<noteq> SS_Confirmed then None
    else Some \<lparr>d_role = d_role d, d_cancelled = False, d_id = d_id d, d_state = DS_Confirmed (d_id d) response_default,
      d_local_seq = d_local_seq d, d_local_contact = d_local_contact d, d_remote_contact = d_remote_contact d,
      d_remote_seq = d_remote_seq d, d_remote_uri = d_remote_uri d, d_from = d_from d, d_to = d_to d, d_credential = None,
      d_route_set = d_route_set d, d_notified = [], d_channel = None, d_session_id = d_session_id d,
      d_initial_request = restored_initial_request ua (d_from d) (d_to d) (snapshot_of d),
      d_supports_100rel = d_supports_100rel d, d_remote_reliable = None, d_remote_ack = None, d_next_ack_body = None,
      d_last_sent_ack = None, d_server_connection = None, d_dialback_target = None\<rparr>)"
  using assms
  by (cases "d_role d") (simp_all add: restore_from_snapshot_def snapshot_of_def tags_agree_def ensured_agrees restored_agrees Let_def)

text \<open>Two dialogs with the same snapshot make the same messages, and their snapshots stay the same.\<close>

lemma same_snapshot_request:
  assumes "snapshot_of d = snapshot_of d'"
  shows "fst (make_request_with_vias ua m c vias headers body d) = fst (make_request_with_vias ua m c vias headers body d')"
    and "snapshot_of (snd (make_request_with_vias ua m c vias headers body d))
      = snapshot_of (snd (make_request_with_vias ua m c vias headers body d'))"
proof -
  have same: "d_role d = d_role d'" "d_id d = d_id d'" "d_from d = d_from d'" "d_to d = d_to d'" "d_local_seq d = d_local_seq d'"
    "d_local_contact d = d_local_contact d'" "d_remote_uri d = d_remote_uri d'" "d_route_set d = d_route_set d'"
    "d_session_id d = d_session_id d'" "snapshot_state_of (d_state d) = snapshot_state_of (d_state d')"
    "d_remote_seq d = d_remote_seq d'" "d_remote_contact d = d_remote_contact d'" "d_supports_100rel d = d_supports_100rel d'"
    using assms by (auto simp: snapshot_of_def intro: unsigned_word_eqI)
  show "fst (make_request_with_vias ua m c vias headers body d) = fst (make_request_with_vias ua m c vias headers body d')"
    by (cases c; cases "d_role d'") (simp_all add: make_request_with_vias_def increment_local_seq_def contact_headers_def same)
  show "snapshot_of (snd (make_request_with_vias ua m c vias headers body d))
      = snapshot_of (snd (make_request_with_vias ua m c vias headers body d'))"
    by (cases c) (simp_all add: make_request_with_vias_def increment_local_seq_def snapshot_of_def same Let_def)
qed

lemma same_snapshot_response:
  assumes "snapshot_of d = snapshot_of d'"
  shows "dialog_response ua req status headers body d = dialog_response ua req status headers body d'"
  using assms by (simp add: dialog_response_def snapshot_of_def contact_headers_def session_and_history_def)



section \<open>PRACK\<close>

text \<open>The RSeq and the CSeq of a reliable provisional response.\<close>

definition reliable_response :: "response \<Rightarrow> nat \<Rightarrow> nat \<Rightarrow> sip_method \<Rightarrow> bool" where
  "reliable_response resp rseq n m \<longleftrightarrow>
     header_contains_token ''Require'' ''100rel'' (resp_headers resp) \<and> rseq_value (resp_headers resp) = Some rseq
     \<and> and_then (cseq_header (resp_headers resp)) cseq_typed = Inr \<lparr>cseq_seq = n, cseq_method = m\<rparr>"

lemma prepare_reliable:
  assumes "reliable_response resp rseq n m"
  shows "prepare_prack_request D e resp d =
    (case d_remote_reliable d of
       Some (last_rseq, prack) \<Rightarrow>
         if last_rseq = rseq then (Inr (Some prack), d) else if last_rseq > rseq then (Inr None, d) else make_prack D e rseq n m d
     | None \<Rightarrow> make_prack D e rseq n m d)"
proof -
  have "sip_try (and_then (cseq_header (resp_headers resp)) (\<lambda>v.
      and_then (cseq_value_seq v) (\<lambda>seq. and_then (cseq_value_method v) (\<lambda>m. Inr (seq, m))))) = Inr (n, m)"
    using assms by (auto simp: reliable_response_def and_then_eq_Inr cseq_value_seq_def cseq_value_method_def)
  then show ?thesis using assms by (simp add: prepare_prack_request_def reliable_response_def)
qed

lemma split_rack: "n < 2 ^ 32 \<Longrightarrow> k < 2 ^ 32 \<Longrightarrow> rack_of (show_nat n @ '' '' @ show_nat k @ '' '' @ show_method m) = Some (n, k, m)"
proof -
  assume b: "n < 2 ^ 32" "k < 2 ^ 32"
  have "split_on is_ws (show_nat n @ CHR 0x20 # show_nat k @ CHR 0x20 # show_method m) = [show_nat n, show_nat k, show_method m]"
    by (simp add: split_on_hit split_on_none show_nat_no_ws show_method_no_ws is_ws_def [of "CHR 0x20"])
  then show ?thesis using b by (simp add: rack_of_def split_whitespace_def)
qed

lemma prack_parts:
  assumes "make_prack D e rseq n m d = (Inr (Some p), d')"
  shows "req_method p = PRack" "header_opt H_RAck (req_headers p) = Some (show_nat rseq @ '' '' @ show_nat n @ '' '' @ show_method m)"
    "d' = d\<lparr>d_local_seq := d_local_seq d + 1, d_remote_reliable := Some (rseq, p)\<rparr>"
    "header_opt H_CSeq (req_headers p) = Some (show_cseq \<lparr>cseq_seq = unat (d_local_seq d + 1), cseq_method = PRack\<rparr>)"
proof -
  let ?hs = "H_RAck (show_nat rseq @ '' '' @ show_nat n @ '' '' @ show_method m)
      # (if d_supports_100rel d then [H_Supported ''100rel''] else [])"
  have out: "dialog_request D e PRack (Some (unat (d_local_seq d + 1))) None None (Some ?hs) None (d\<lparr>d_local_seq := d_local_seq d + 1\<rparr>)
      = (Inr p, d\<lparr>d_local_seq := d_local_seq d + 1\<rparr>)"
    and d': "d' = d\<lparr>d_local_seq := d_local_seq d + 1, d_remote_reliable := Some (rseq, p)\<rparr>"
    using assms request_parts(1) [of D e PRack "Some (unat (d_local_seq d + 1))" None None "Some ?hs" None "d\<lparr>d_local_seq := d_local_seq d + 1\<rparr>"]
    by (auto simp: make_prack_def increment_local_seq_def Let_def split: sum.splits prod.splits)
  note made = request_parts [OF out]
  show "req_method p = PRack" "d' = d\<lparr>d_local_seq := d_local_seq d + 1, d_remote_reliable := Some (rseq, p)\<rparr>"
    "header_opt H_CSeq (req_headers p) = Some (show_cseq \<lparr>cseq_seq = unat (d_local_seq d + 1), cseq_method = PRack\<rparr>)"
    using made d' by simp_all
  have "\<not> is_system_header (H_RAck v)" for v by (simp add: is_system_header_def matches_header_def variant_def)
  then show "header_opt H_RAck (req_headers p) = Some (show_nat rseq @ '' '' @ show_nat n @ '' '' @ show_method m)"
    using made(10) by (auto simp: header_opt_append variant_def)
qed

text \<open>C31: a reliable provisional response is acknowledged by one PRACK. The first response with a new RSeq makes a
  PRACK with the next CSeq number and the RAck value RSeq, CSeq number and method of the response, which the peer accepts
  with a 200; a repeat of it yields the same PRACK without another CSeq number, an older RSeq yields nothing, and only a
  newer one makes another PRACK.\<close>

theorem prack_once:
  assumes "reliable_response resp rseq n m" and "reliable_response resp' rseq' n' m'" and "rseq < 2 ^ 32"
    and "d_remote_reliable d = None \<or> (\<exists>last p. d_remote_reliable d = Some (last, p) \<and> last < rseq)"
    and "prepare_prack_request D e resp d = (Inr (Some prack), d')"
  shows "req_method prack = PRack \<and> header_opt H_RAck (req_headers prack) = Some (show_nat rseq @ '' '' @ show_nat n @ '' '' @ show_method m)
    \<and> rack_ok (req_headers prack) \<and> d_local_seq d' = d_local_seq d + 1
    \<and> prepare_prack_request D e' resp' d' =
        (if rseq' = rseq then (Inr (Some prack), d') else if rseq' < rseq then (Inr None, d') else make_prack D e' rseq' n' m' d')"
proof -
  have made: "make_prack D e rseq n m d = (Inr (Some prack), d')"
    using assms(4,5) by (auto simp: prepare_reliable [OF assms(1)])
  note prack = prack_parts [OF made]
  have "n < 2 ^ 32" using assms(1) cseq_typed_bound by (fastforce simp: reliable_response_def and_then_eq_Inr)
  then have "rack_of (show_nat rseq @ '' '' @ show_nat n @ '' '' @ show_method m) = Some (rseq, n, m)"
    by (rule split_rack [OF assms(3)])
  moreover obtain h where h: "h \<in> set (req_headers prack)"
      "variant H_RAck h = Some (show_nat rseq @ '' '' @ show_nat n @ '' '' @ show_method m)"
    using find_map_hit [OF prack(2) [unfolded header_opt_def]] by blast
  ultimately have "Option.bind (variant H_RAck h) rack_of \<noteq> None" by simp
  with h(1) have "rack_value (req_headers prack) \<noteq> None"
    unfolding rack_value_def find_map_None by metis
  then show ?thesis
    using prack prepare_reliable [OF assms(2), of D e' d'] by (simp add: rack_ok_def)
qed

definition example_183 :: "string \<Rightarrow> response" where
  "example_183 rseq = example_ok\<lparr>resp_status := SC_SessionProgress, resp_headers := [H_Require ''100rel'', H_RSeq rseq, H_CSeq ''7 INVITE'']\<rparr>"

lemma example_183_reliable: "reliable_response (example_183 ''4'') 4 7 Invite" "reliable_response (example_183 ''3'') 3 7 Invite"
  by (simp_all add: reliable_response_def) code_simp+

lemma example_prack: "\<exists>p d. prepare_prack_request example_denv example_endpoint (example_183 ''4'') example_uas = (Inr (Some p), d)"
  by (rule exI, rule exI, code_simp)

lemma prack_once_witness:
  "\<exists>p d. prepare_prack_request example_denv example_endpoint (example_183 ''4'') example_uas = (Inr (Some p), d)
    \<and> header_opt H_RAck (req_headers p) = Some ''4 7 INVITE''
    \<and> prepare_prack_request example_denv example_endpoint (example_183 ''3'') d = (Inr None, d)"
proof -
  obtain p d where made: "prepare_prack_request example_denv example_endpoint (example_183 ''4'') example_uas = (Inr (Some p), d)"
    using example_prack by blast
  have "show_nat 4 @ '' '' @ show_nat 7 @ '' '' @ show_method Invite = ''4 7 INVITE''" by code_simp
  then show ?thesis
    using prack_once [OF example_183_reliable _ _ made] made by (auto simp: example_uas_def)
qed

section \<open>CANCEL\<close>

lemma retain_key_header:
  assumes "mk \<in> {H_Via, H_From, H_To, H_CallId, H_CSeq}"
  shows "header_opt mk (headers_retain (\<lambda>h. \<not> matches_header [H_ContentLength, H_ContentType] h) hs) = header_opt mk hs"
  unfolding header_opt_def headers_retain_def
  by (rule find_map_filter) (use assms in \<open>auto simp: matches_header_def variant_def split: if_splits\<close>)

lemma find_map_replace_other:
  "replace_first p v xs = Some ys \<Longrightarrow> (\<And>x. p x \<Longrightarrow> f x = None) \<Longrightarrow> f v = None \<Longrightarrow> find_map f ys = find_map f xs"
  by (induction xs arbitrary: ys) (auto split: if_splits option.splits)

lemma replace_other:
  assumes "discriminant (mk []) \<noteq> discriminant (H_CSeq [])"
  shows "header_opt mk (header_replace H_CSeq v hs) = header_opt mk hs"
proof (cases "replace_first (\<lambda>h. variant H_CSeq h \<noteq> None) (H_CSeq v) hs")
  case (Some ys)
  have "find_map (variant mk) ys = find_map (variant mk) hs"
    by (rule find_map_replace_other [OF Some]) (use assms in \<open>auto simp: variant_def split: if_splits\<close>)
  then show ?thesis using Some by (simp add: header_replace_def header_opt_def)
qed (simp add: header_replace_def)

text \<open>The CANCEL of an INVITE reaches the INVITE's transaction: it has its transaction key at the server and its
  dialog id, the CSeq number of the INVITE with the method CANCEL, and no body.\<close>

theorem cancel_matches_invite:
  assumes "cancel_request invite = Inr c" and "req_method invite = Invite" and "key_from_request invite ServerRole = Inr k"
  shows "key_from_request c ServerRole = Inr k \<and> dialog_id_of_request c role = dialog_id_of_request invite role
    \<and> req_method c = Cancel \<and> req_uri c = req_uri invite \<and> req_body c = []
    \<and> and_then (cseq_header (req_headers c)) cseq_typed
        = and_then (cseq_header (req_headers invite)) (\<lambda>v. and_then (cseq_typed v) (\<lambda>t. Inr (t\<lparr>cseq_method := Cancel\<rparr>)))"
proof -
  let ?hs = "headers_retain (\<lambda>h. \<not> matches_header [H_ContentLength, H_ContentType] h) (req_headers invite)"
  obtain s where s: "header_opt H_CSeq (req_headers invite) = Some s"
    and "\<exists>n. cseq_value_seq s = Inr n"
    using assms(1) by (auto simp: cancel_request_def and_then_eq_Inr cseq_header_def header_get_def)
  then obtain t where t: "cseq_typed s = Inr t" by (auto simp: cseq_value_seq_def and_then_eq_Inr)
  have c: "c = invite\<lparr>req_method := Cancel, req_headers := header_replace H_CSeq (show_cseq \<lparr>cseq_seq = cseq_seq t, cseq_method = Cancel\<rparr>) ?hs,
        req_body := []\<rparr>"
    using assms(1) s t cseq_parse_show [OF cseq_typed_bound [OF t]]
    by (simp add: cancel_request_def Let_def cseq_header_def header_get_def retain_key_header cseq_value_seq_def
        cseq_mut_seq_def cseq_mut_method_def sip_try_def)
  have "header_opt H_CSeq (req_headers c) = Some (show_cseq \<lparr>cseq_seq = cseq_seq t, cseq_method = Cancel\<rparr>)"
    using s by (simp add: c cseq_variant.replace_opt retain_key_header)
  moreover have "header_opt mk (req_headers c) = header_opt mk (req_headers invite)" if "mk \<in> {H_Via, H_From, H_To, H_CallId}" for mk
    using that by (auto simp: c replace_other retain_key_header)
  moreover have "cseq_typed (show_cseq \<lparr>cseq_seq = cseq_seq t, cseq_method = Cancel\<rparr>) = Inr \<lparr>cseq_seq = cseq_seq t, cseq_method = Cancel\<rparr>"
    using cseq_parse_show cseq_typed_bound [OF t] by blast
  ultimately show ?thesis
    using assms(2,3) s t unfolding key_from_request_iff
    by (auto simp: dialog_id_of_request_def call_id_header_def from_header_def to_header_def cseq_header_def header_get_def
        key_method_def cseq_value_seq_def c)
qed

lemma cancel_matches_invite_witness:
  "\<exists>c. cancel_request example_invite = Inr c \<and> key_from_request c ServerRole = Inr example_key"
proof -
  have "\<exists>c. cancel_request example_invite = Inr c" by (rule exI, code_simp)
  then obtain c where c: "cancel_request example_invite = Inr c" by blast
  have "req_method example_invite = Invite" by (simp add: example_invite_def)
  then show ?thesis using cancel_matches_invite [OF c _ example_invite_key] c by blast
qed

end
