(* ===== verification/Layer_Props.thy ===== *)
theory Layer_Props
  imports Dialog_Messages
begin

text \<open>
  The dialog layer: its map is in order, every entry names an existing dialog, and no operation breaks this;
  a dialog made from a request is found again with the requests the peer sends in it; a dialog is taken
  once. Printed ids are the keys of the map: two ids with the same print are the same entry.
\<close>

section \<open>The invariant\<close>

definition layer_ok :: "layer \<Rightarrow> bool" where
  "layer_ok L \<longleftrightarrow> btree_ok (ly_dialogs L)
     \<and> (\<forall>k kind r. map_of (ly_dialogs L) k = Some (kind, r) \<longrightarrow> ly_store L r \<noteq> None)
     \<and> (\<forall>r. ly_store L r \<noteq> None \<longrightarrow> r < ly_next L)"

text \<open>What the other tasks may do to the layer: keep it in order and lose no dialog the application holds.\<close>

definition layer_keeps :: "layer \<Rightarrow> layer \<Rightarrow> bool" where
  "layer_keeps L L' \<longleftrightarrow> (layer_ok L \<longrightarrow> layer_ok L') \<and> (\<forall>r. ly_store L r \<noteq> None \<longrightarrow> ly_store L' r \<noteq> None)"

lemma layer_okD: "layer_ok L \<Longrightarrow> btree_ok (ly_dialogs L)"
  by (simp add: layer_ok_def)

lemma keeps_ok: "layer_keeps L L' \<Longrightarrow> layer_ok L \<Longrightarrow> layer_ok L'"
  by (simp add: layer_keeps_def)

lemma layer_keeps_trans: "layer_keeps L L' \<Longrightarrow> layer_keeps L' L'' \<Longrightarrow> layer_keeps L L''"
  by (auto simp: layer_keeps_def)

lemma layer_keeps_refl [simp]: "layer_keeps L L"
  by (simp add: layer_keeps_def)

lemma layer_ok_new: "layer_ok layer_new"
  by (simp add: layer_ok_def layer_new_def btree_ok_def)

lemma new_cell_keeps:
  assumes "new_cell d L = (r, L')"
  shows "layer_keeps L L'" "ly_store L' r = Some d" "ly_dialogs L' = ly_dialogs L"
  using assms by (auto simp: layer_keeps_def layer_ok_def new_cell_def less_Suc_eq)

lemma insert_keeps: "ly_store L r \<noteq> None \<Longrightarrow> layer_keeps L (insert_dialog k kind r L)"
  by (auto simp: layer_keeps_def layer_ok_def insert_dialog_def btree_ok_insert map_of_btree_insert)

lemma lookup_insert:
  "layer_ok L \<Longrightarrow> get_dialog_with k' (insert_dialog k kind r L) = (if k' = k then Some (kind, r) else get_dialog_with k' L)"
  by (simp add: get_dialog_with_def insert_dialog_def map_of_btree_insert layer_okD)

lemma drop_spec:
  assumes "layer_ok L" and "drop_dialog k L = (x, L')"
  shows "layer_ok L'" "x = get_dialog_with k L" "get_dialog_with k' L' = (if k' = k then None else get_dialog_with k' L)"
    "ly_store L' = ly_store L"
  using assms btree_remove_spec [OF layer_okD [OF assms(1)], of k]
  by (auto simp: drop_dialog_def get_dialog_with_def layer_ok_def split: prod.splits if_splits)

lemma drop_keeps: "drop_dialog k L = (x, L') \<Longrightarrow> layer_keeps L L'"
  by (auto simp: layer_keeps_def dest: drop_spec(1)) (auto simp: drop_dialog_def split: prod.splits)

lemma store_keeps: "ly_store L r \<noteq> None \<Longrightarrow> layer_keeps L (store_dialog r d L)"
  by (auto simp: layer_keeps_def layer_ok_def store_dialog_def)

lemma on_remove_keeps: "layer_keeps L (on_remove r L)"
  by (auto simp: layer_keeps_def layer_ok_def on_remove_def)

lemma enter_keeps:
  assumes "new_cell d L = (r, L')"
  shows "layer_keeps L (insert_dialog k kind r L')"
  using layer_keeps_trans [OF new_cell_keeps(1) [OF assms] insert_keeps] new_cell_keeps(2) [OF assms] by simp

lemma server_keeps: "layer_keeps L (snd (get_or_create_server kind addrs tag uuid t cred contact L))"
  by (auto simp: get_or_create_server_def Let_def intro: enter_keeps split: sum.split option.split prod.split)

lemma client_keeps: "layer_keeps L (snd (get_or_create_client kind addrs uuid i req cred contact L))"
  by (auto simp: get_or_create_client_def Let_def intro: enter_keeps split: sum.split option.split prod.split)

lemma restore_keeps: "layer_keeps L (snd (layer_restore ua s L))"
  by (auto simp: layer_restore_def Let_def intro: enter_keeps split: option.split prod.split)

lemma take_keeps: "layer_keeps L (snd (take_dialog i L))" "layer_keeps L (remove_dialog i L)"
  by (auto simp: take_dialog_def remove_dialog_def dest!: drop_keeps intro: layer_keeps_trans [OF _ on_remove_keeps]
      split: prod.split option.split)

lemma outcome_keeps:
  assumes "ly_store L r \<noteq> None"
  shows "layer_keeps L (register_outcome k r result L)"
proof -
  obtain x L' where d: "drop_dialog k L = (x, L')" by fastforce
  have s: "ly_store L' r \<noteq> None" using drop_keeps [OF d] assms by (auto simp: layer_keeps_def)
  show ?thesis
    using drop_keeps [OF d] layer_keeps_trans [OF drop_keeps [OF d] insert_keeps [OF s]]
    by (auto simp: register_outcome_def d split: sum.split)
qed

lemma place_keeps:
  assumes "layer_ok L" and "ly_store L r \<noteq> None" and "\<And>M. layer_keeps M (g M)"
  shows "layer_keeps L (co_layer (place_invite D g fs r d t e L))"
proof -
  let ?L = "g (insert_dialog (show_dialog_id (d_id d)) KInvite r L)"
  have L: "layer_keeps L ?L" using layer_keeps_trans [OF insert_keeps [OF assms(2)] assms(3)] .
  then have r: "ly_store ?L r \<noteq> None" using assms(2) by (auto simp: layer_keeps_def)
  have s: "layer_keeps L (store_dialog r d' ?L)" for d' using layer_keeps_trans [OF L store_keeps [OF r]] .
  have "layer_keeps L (register_outcome k r result (store_dialog r d' ?L))" for k result d'
    by (rule layer_keeps_trans [OF s outcome_keeps]) (simp add: store_dialog_def)
  with s show ?thesis
    by (auto simp: place_invite_def Let_def split: prod.split await.split)
qed

lemma sequence_keeps: "create_client_invite_dialog D tag call_id opt e L = (x, e', L') \<Longrightarrow> layer_keeps L L'"
proof -
  have "layer_keeps L (L\<lparr>ly_last_seq := n\<rparr>)" for n by (simp add: layer_keeps_def layer_ok_def)
  then show "create_client_invite_dialog D tag call_id opt e L = (x, e', L') \<Longrightarrow> layer_keeps L L'"
    by (auto simp: create_client_invite_dialog_def make_invite_request_def increment_last_seq_def Let_def
        split: prod.splits sum.splits)
qed

lemma invite_keeps:
  assumes "layer_ok L" and "\<And>M. layer_keeps M (g M)"
  shows "layer_keeps L (co_layer (do_invite D tag call_id opt g fs e L))"
proof -
  obtain x e' L' where c: "create_client_invite_dialog D tag call_id opt e L = (x, e', L')" by (metis prod.exhaust)
  have L': "layer_keeps L L'" using c by (rule sequence_keeps)
  show ?thesis
  proof (cases x)
    case (Inr y)
    obtain d t where y: "y = (d, t)" by (cases y)
    obtain r M where m: "new_cell d L' = (r, M)" by fastforce
    have M: "layer_keeps L M" using layer_keeps_trans [OF L' new_cell_keeps(1) [OF m]] .
    then have "layer_keeps M (co_layer (place_invite D g fs r d t e' M))"
      using assms new_cell_keeps(2) [OF m] by (intro place_keeps) (auto simp: layer_keeps_def)
    from layer_keeps_trans [OF M this] show ?thesis by (simp add: do_invite_def c Inr y m Let_def)
  qed (use L' in \<open>simp add: do_invite_def c\<close>)
qed



section \<open>Finding a dialog\<close>

lemma request_other_side:
  assumes "dialog_request D e m None addr branch headers body d = (Inr req, d')" and "tags_agree d"
    and "d_role d = ServerRole \<Longrightarrow> params_tag (na_params (d_to d)) \<noteq> None" and "name_addr_wf (d_from d)" and "name_addr_wf (d_to d)"
  shows "dialog_id_of_request req ServerRole
    = Inr \<lparr>did_call_id = did_call_id (d_id d), did_local_tag = did_remote_tag (d_id d), did_remote_tag = did_local_tag (d_id d)\<rparr>"
  using request_ids [OF assms] by (simp add: dialog_id_for_def)

lemma removed_none: "btree_remove k xs = (None, ys) \<Longrightarrow> ys = xs"
  by (induction xs arbitrary: ys) (auto split: if_splits prod.splits)

lemma server_dialog_entered:
  assumes "layer_ok L" and "dialog_id_of_request (tx_original t) (tx_role t) = Inr i" and "did_local_tag i = []"
    and "get_or_create_server kind addrs tag uuid t cred contact L = (Inr r, L')"
  shows "get_dialog_with k L' = (if k = show_dialog_id (i\<lparr>did_local_tag := tag\<rparr>) then Some (kind, r) else get_dialog_with k L)"
    and "\<exists>d. ly_store L' r = Some d \<and> d_id d = i\<lparr>did_local_tag := tag\<rparr> \<and> d_role d = ServerRole"
proof -
  obtain d0 where d0: "dialog_new uuid ServerRole (i\<lparr>did_local_tag := tag\<rparr>) (tx_original t) cred (contact_or_local addrs cred contact)
      (Some (tx_channel t)) = Inr d0"
    using assms(2-4)
    by (cases "dialog_new uuid ServerRole (i\<lparr>did_local_tag := tag\<rparr>) (tx_original t) cred (contact_or_local addrs cred contact)
      (Some (tx_channel t))") (simp_all add: get_or_create_server_def Let_def)
  define d1 where "d1 = d0\<lparr>d_remote_contact := ok (contact_header (req_headers (tx_original t)))\<rparr>"
  define d2 where "d2 = (if kind = KInvite then d1\<lparr>d_remote_uri := target_over_connection (tx_connection t) (d_remote_uri d1)\<rparr> else d1)"
  define d where "d = set_server_connection (tx_connection t) d2"
  have d: "d_id d = i\<lparr>did_local_tag := tag\<rparr>" "d_role d = ServerRole"
    using dialog_new_parts(1,2) [OF d0] by (simp_all add: d_def d2_def d1_def set_server_connection_def)
  have "get_or_create_server kind addrs tag uuid t cred contact L
      = (case new_cell d L of (r, M) \<Rightarrow> (Inr r, insert_dialog (show_dialog_id (i\<lparr>did_local_tag := tag\<rparr>)) kind r M))"
    by (simp add: get_or_create_server_def d0 assms(2,3) Let_def d_def d2_def d1_def)
  then obtain M where m: "new_cell d L = (r, M)" and L': "L' = insert_dialog (show_dialog_id (i\<lparr>did_local_tag := tag\<rparr>)) kind r M"
    using assms(4) by (cases "new_cell d L") simp
  have M: "layer_ok M" "get_dialog_with k M = get_dialog_with k L"
    using keeps_ok [OF new_cell_keeps(1) [OF m] assms(1)] new_cell_keeps(3) [OF m] by (simp_all add: get_dialog_with_def)
  then show "get_dialog_with k L' = (if k = show_dialog_id (i\<lparr>did_local_tag := tag\<rparr>) then Some (kind, r) else get_dialog_with k L)"
    by (simp add: L' lookup_insert)
  show "\<exists>d. ly_store L' r = Some d \<and> d_id d = i\<lparr>did_local_tag := tag\<rparr> \<and> d_role d = ServerRole"
    using new_cell_keeps(2) [OF m] d by (auto simp: L' insert_dialog_def)
qed

text \<open>C6: the peer's requests reach the dialog made for its INVITE. When the layer made a server dialog with the
  local tag \<open>tag\<close>, any request a client dialog makes whose id is the other side of that one (as it is once it
  took the tag from the response) is matched to the dialog, a second \<open>get_or_create\<close> for it returns the
  dialog and changes nothing, and the entries of other dialogs stay.\<close>

theorem peer_request_finds_dialog:
  assumes "layer_ok L" and "dialog_id_of_request (tx_original t) (tx_role t) = Inr i" and "did_local_tag i = []" and "tag \<noteq> []"
    and "get_or_create_server kind addrs tag uuid t cred contact L = (Inr r, L')"
    and "d_id dc = \<lparr>did_call_id = did_call_id i, did_local_tag = did_remote_tag i, did_remote_tag = tag\<rparr>"
    and "d_role dc = ClientRole" and "tags_agree dc" and "name_addr_wf (d_from dc)" and "name_addr_wf (d_to dc)"
    and "dialog_request D e m None addr branch headers body dc = (Inr (tx_original t'), dc')" and "tx_role t' = ServerRole"
  shows "match_dialog t' L' = Some (kind, r)
    \<and> get_or_create_server kind addrs tag' uuid' t' cred' contact' L' = (Inr r, L')
    \<and> (\<exists>d. ly_store L' r = Some d \<and> d_id d = i\<lparr>did_local_tag := tag\<rparr> \<and> d_role d = ServerRole)
    \<and> get_dialog_with k L' = (if k = show_dialog_id (i\<lparr>did_local_tag := tag\<rparr>) then Some (kind, r) else get_dialog_with k L)"
proof -
  note entered = server_dialog_entered [OF assms(1-3,5)]
  have "dialog_id_of_request (tx_original t') ServerRole = Inr (i\<lparr>did_local_tag := tag\<rparr>)"
    using request_other_side [OF assms(11,8) _ assms(9,10)] assms(6,7) by simp
  then have "match_dialog t' L' = Some (kind, r)
    \<and> get_or_create_server kind addrs tag' uuid' t' cred' contact' L' = (Inr r, L')"
    using assms(4,12) entered(1) by (simp add: match_dialog_def get_or_create_server_def get_dialog_def)
  with entered show ?thesis by blast
qed

definition example_offer :: transaction where
  "example_offer = (fst example_server)\<lparr>tx_original := example_invite\<lparr>req_headers := req_headers example_invite @ [H_Contact ''<sip:alice@a.example>'']\<rparr>\<rparr>"

definition example_peer :: dialog where
  "example_peer = example_uas\<lparr>d_role := ClientRole, d_id := \<lparr>did_call_id = ''call1@a.example'', did_local_tag = ''88'', did_remote_tag = ''t1''\<rparr>\<rparr>"

lemma example_offer_id: "dialog_id_of_request (tx_original example_offer) (tx_role example_offer)
    = Inr \<lparr>did_call_id = ''call1@a.example'', did_local_tag = [], did_remote_tag = ''88''\<rparr>"
  by code_simp

lemma example_peer_wf: "tags_agree example_peer" "name_addr_wf (d_from example_peer)" "name_addr_wf (d_to example_peer)"
  by code_simp+

lemma example_peer_bye: "\<exists>req d. dialog_request example_denv example_endpoint Bye None None None None None example_peer = (Inr req, d)"
  by (rule exI, rule exI, code_simp)

lemma example_dialog_entered: "fst (get_or_create_server KInvite [] ''t1'' ''u'' example_offer None None layer_new) = Inr 0"
  by code_simp

lemma peer_request_finds_dialog_witness:
  "\<exists>req d. dialog_request example_denv example_endpoint Bye None None None None None example_peer = (Inr req, d)
    \<and> match_dialog (example_offer\<lparr>tx_original := req\<rparr>) (snd (get_or_create_server KInvite [] ''t1'' ''u'' example_offer None None layer_new))
      = Some (KInvite, 0)"
proof -
  obtain req d where req: "dialog_request example_denv example_endpoint Bye None None None None None example_peer = (Inr req, d)"
    using example_peer_bye by blast
  define t' where "t' = example_offer\<lparr>tx_original := req\<rparr>"
  have t': "dialog_request example_denv example_endpoint Bye None None None None None example_peer = (Inr (tx_original t'), d)"
    "tx_role t' = ServerRole"
    using req by (simp_all add: t'_def tx_role_def example_offer_def example_server_def new_server_def tx_new_def Let_def example_invite_def role_of_type_def is_client_def)
  have made: "get_or_create_server KInvite [] ''t1'' ''u'' example_offer None None layer_new
      = (Inr 0, snd (get_or_create_server KInvite [] ''t1'' ''u'' example_offer None None layer_new))"
    using example_dialog_entered by (metis prod.collapse)
  have "d_role example_peer = ClientRole" "d_id example_peer = \<lparr>did_call_id = ''call1@a.example'', did_local_tag = ''88'', did_remote_tag = ''t1''\<rparr>"
    by (simp_all add: example_peer_def)
  then have "match_dialog t' (snd (get_or_create_server KInvite [] ''t1'' ''u'' example_offer None None layer_new)) = Some (KInvite, 0)"
    using peer_request_finds_dialog [OF layer_ok_new example_offer_id _ _ made _ _ example_peer_wf t'] by simp
  with req show ?thesis unfolding t'_def by blast
qed

text \<open>A dialog is taken out of the layer once: \<open>take\<close> returns it and cancels its token, after that it is neither
  found nor taken again, and no other entry changes.\<close>

theorem dialog_taken_once:
  assumes "layer_ok L" and "take_dialog i L = (Some (kind, r), L')"
  shows "get_dialog i L = Some (kind, r) \<and> get_dialog i L' = None \<and> take_dialog i L' = (None, L')
    \<and> (\<exists>d. ly_store L r = Some d \<and> ly_store L' r = Some (d\<lparr>d_cancelled := True\<rparr>))
    \<and> get_dialog_with k L' = (if k = show_dialog_id i then None else get_dialog_with k L)"
proof -
  obtain M where m: "drop_dialog (show_dialog_id i) L = (Some (kind, r), M)" and L': "L' = on_remove r M"
    using assms(2) by (auto simp: take_dialog_def split: prod.splits option.splits)
  note drop = drop_spec [OF assms(1) m]
  have found: "get_dialog i L = Some (kind, r)" using drop(2) by (simp add: get_dialog_def)
  then obtain d where d: "ly_store L r = Some d"
    using assms(1) unfolding layer_ok_def get_dialog_def get_dialog_with_def by blast
  have gone: "get_dialog_with k L' = (if k = show_dialog_id i then None else get_dialog_with k L)" for k
    using drop(3) by (simp add: L' on_remove_def get_dialog_with_def)
  have ok: "layer_ok L'" unfolding L' by (rule keeps_ok [OF on_remove_keeps drop(1)])
  obtain x M' where m': "drop_dialog (show_dialog_id i) L' = (x, M')" by fastforce
  have "x = None" using drop_spec(2) [OF ok m'] gone by simp
  moreover have "M' = L'" using m' \<open>x = None\<close> by (auto simp: drop_dialog_def dest!: removed_none split: prod.splits)
  ultimately have "take_dialog i L' = (None, L')" by (simp add: take_dialog_def m')
  with found gone d show ?thesis by (simp add: get_dialog_def L' on_remove_def drop(4))
qed

lemma dialog_taken_once_witness:
  "get_dialog \<lparr>did_call_id = ''call1@a.example'', did_local_tag = ''t1'', did_remote_tag = ''88''\<rparr>
     (snd (take_dialog \<lparr>did_call_id = ''call1@a.example'', did_local_tag = ''t1'', did_remote_tag = ''88''\<rparr>
       (snd (get_or_create_server KInvite [] ''t1'' ''u'' example_offer None None layer_new)))) = None"
proof -
  let ?i = "\<lparr>did_call_id = ''call1@a.example'', did_local_tag = ''t1'', did_remote_tag = ''88''\<rparr>"
  let ?L = "snd (get_or_create_server KInvite [] ''t1'' ''u'' example_offer None None layer_new)"
  have "layer_ok ?L" by (rule keeps_ok [OF server_keeps layer_ok_new])
  moreover have "fst (take_dialog ?i ?L) = Some (KInvite, 0)" by code_simp
  then have "take_dialog ?i ?L = (Some (KInvite, 0), snd (take_dialog ?i ?L))" by (metis prod.collapse)
  ultimately show ?thesis using dialog_taken_once by blast
qed

end
