(* ===== verification/Dialog_Session.thy ===== *)
theory Dialog_Session
  imports Layer_Props
begin

text \<open>
  The life of a session: how it is confirmed, how it ends, and two ways in which the code loses it. The
  lemmas rest on \<open>Dialog_Inv\<close>: what the other tasks do is any list of turns that respect the dialog's life.
\<close>

section \<open>BYE\<close>

lemma ended_with: "d_is_terminated (d_transition (DS_Terminated i r) d)"
  by (rule terminated_by_end)

lemma terminated_through: "ran evolves d x \<Longrightarrow> d_is_terminated d \<Longrightarrow> d_is_terminated (fst (snd (snd x)))"
  by (auto simp: ran_def dest: evolves_terminated)

lemma send_bye_ends:
  assumes "turns_keep evolves fs" and "send_bye D req reason fs w = (Returned r, fs', w')"
  shows "d_is_terminated (fst w')"
proof (cases "d_role (fst w)")
  case ServerRole
  let ?w = "(d_transition (DS_Terminated (d_id (fst w)) reason) (fst w), snd w)"
  have "d_is_terminated (fst (snd (snd (send_dialog_request D req fs ?w))))"
    using terminated_through [OF life.sent_request [OF assms(1)], of ?w] ended_with by simp
  then show ?thesis using assms(2) ServerRole by (simp add: send_bye_def split: prod.splits)
next
  case ClientRole
  then show ?thesis
    using assms(2) ended_with by (auto simp: send_bye_def Let_def split: prod.splits await.splits)
qed

text \<open>C20: when a BYE can be sent (the dialog is Confirmed, or a server's waits for its ACK) and its request is made,
  the dialog is Terminated when \<open>bye\<close> returns, with an error or without, whatever the other tasks did meanwhile;
  what was notified before stays.\<close>

theorem bye_ends_dialog:
  assumes "d_is_confirmed d \<or> (d_role d = ServerRole \<and> d_waiting_ack d)"
    and "dialog_request D e Bye None None None headers None d = (Inr req, d1)"
    and "turns_keep evolves fs" and "bye_with_headers D headers fs (d, e) = (Returned r, fs', d', e')"
  shows "d_is_terminated d' \<and> evolves d d'"
proof -
  have "send_bye D req (case d_role d1 of ServerRole \<Rightarrow> TR_UasBye | ClientRole \<Rightarrow> TR_UacBye) fs (d1, e) = (Returned r, fs', d', e')"
    using assms(1,2,4) by (auto simp: bye_with_headers_def Let_def split: if_splits)
  from send_bye_ends [OF assms(3) this] have "d_is_terminated d'" by simp
  moreover have "evolves d d'"
    using life.bye_sent [OF assms(3), of "(d, e)" D headers] assms(4) by (simp add: ran_def)
  ultimately show ?thesis ..
qed

text \<open>An event arrives at a transaction.\<close>

definition signalled :: "nat \<Rightarrow> tx_event \<Rightarrow> turn" where
  "signalled ch ev w = (fst w, snd (channel_send ch ev (snd w)))"

abbreviation answered_by :: "nat \<Rightarrow> response \<Rightarrow> turn" where
  "answered_by ch resp \<equiv> signalled ch (Received (Response resp) (Some example_conn))"

lemma signalled_keeps: "turns_keep evolves [signalled ch ev]"
  by (simp add: signalled_def life.refl)

lemma example_bye_returns:
  "fst (bye_with_headers example_denv None [answered_by (ep_next_channel example_endpoint) example_ok] (example_uas, example_endpoint)) = Returned (Inr ())"
  by code_simp

lemma bye_ends_dialog_witness:
  "d_is_confirmed example_uas \<and> \<not> d_is_terminated example_uas \<and>
   (case bye_with_headers example_denv None [answered_by (ep_next_channel example_endpoint) example_ok] (example_uas, example_endpoint) of
      (r, _, d, _) \<Rightarrow> r = Returned (Inr ()) \<and> d_is_terminated d)"
proof -
  let ?fs = "[answered_by (ep_next_channel example_endpoint) example_ok]"
  obtain fs' d' e' where bye: "bye_with_headers example_denv None ?fs (example_uas, example_endpoint) = (Returned (Inr ()), fs', d', e')"
    using example_bye_returns by (cases "bye_with_headers example_denv None ?fs (example_uas, example_endpoint)") auto
  obtain req d1 where made: "dialog_request example_denv example_endpoint Bye None None None None None example_uas = (Inr req, d1)"
    using example_bye_made by blast
  have up: "d_is_confirmed example_uas" "\<not> d_is_terminated example_uas" by code_simp+
  have "d_is_terminated d'"
    using bye_ends_dialog [OF _ made signalled_keeps bye] up by simp
  with up show ?thesis by (simp add: bye)
qed

section \<open>The callee waits for the ACK\<close>

lemma begin_waiting: "d_state d = DS_WaitAck i resp \<Longrightarrow> begin_invite D d s = (d, s)"
  by (simp add: begin_invite_def)

lemma server_loop_ack:
  assumes "await_message D fs d s = (Returned (Some (Request ack)), fs', d1, s1)" and "req_method ack = Ack"
  shows "server_loop D fs d s = (Returned (Inr ()), fs', (if d_is_terminated d1 then d1 else take_ack ack (fst s1) d1), s1)"
  by (simp add: server_loop.simps [of D fs d s] assms)

lemma server_loop_end:
  assumes "await_message D fs d s = (Returned None, fs', d1, s1)"
  shows "server_loop D fs d s = (Returned (Inr ()), fs', d1, s1)"
  by (simp add: server_loop.simps [of D fs d s] assms)

text \<open>A callee that answered with a 2xx is Confirmed by the ACK of that answer: the handler returns, the dialog's
  state holds the answer, the ACK is kept for the application, and no BYE is sent.\<close>

theorem ack_confirms_call:
  assumes "d_state d = DS_WaitAck i resp" and "await_message D fs d s = (Returned (Some (Request ack)), fs', d1, s1)"
    and "req_method ack = Ack" and "\<not> d_is_terminated d1" and "tx_last_response (fst s1) = Some final"
  shows "\<exists>d'. handle_invite D fs d s = (Returned (Inr ()), fs', d', s1)
    \<and> d_state d' = DS_Confirmed (d_id d1) final \<and> d_remote_ack d' = Some ack \<and> d_id d' = d_id d1 \<and> d_local_seq d' = d_local_seq d1"
proof -
  let ?d = "take_ack ack (fst s1) d1"
  have d: "d_state ?d = DS_Confirmed (d_id d1) final" "d_remote_ack ?d = Some ack" "d_id ?d = d_id d1" "d_local_seq ?d = d_local_seq d1"
    using assms(4,5)
    by (simp_all add: take_ack_def return_to_confirmed_def d_transition_def d_is_terminated_def is_request_event_def)
  then have "close_without_ack D (d_waiting_ack ?d) fs' ?d s1 = (Returned (Inr ()), fs', ?d, s1)"
    by (simp add: close_without_ack_def end_session_without_ack_def d_waiting_ack_def)
  then show ?thesis
    using d assms by (simp add: handle_invite_def begin_waiting server_loop_ack)
qed


definition example_accepted :: st where
  "example_accepted = snd (respond example_env example_ok example_server)"

definition example_waiting :: dialog where
  "example_waiting = example_uas\<lparr>d_state := DS_WaitAck (d_id example_uas) example_ok\<rparr>"

definition example_call_ack :: request where
  "example_call_ack = example_invite\<lparr>req_method := Ack, req_headers := [H_CSeq ''7 ACK'', H_CallId ''call1@a.example'']\<rparr>"

definition ack_arrives :: "turn list" where
  "ack_arrives = [signalled (tx_channel (fst example_accepted)) (Received (Request example_call_ack) (Some example_conn))]"

definition ack_overdue :: "turn list" where
  "ack_overdue = [signalled (tx_channel (fst example_accepted)) (TimerFired (TimerL example_key))]"

lemma example_ack_awaited:
  "case await_message example_denv ack_arrives example_waiting example_accepted of
     (r, fs, d, s) \<Rightarrow> r = Returned (Some (Request example_call_ack)) \<and> d = example_waiting \<and> tx_last_response (fst s) = Some example_ok"
  by code_simp

lemma example_overdue_awaited:
  "case await_message example_denv ack_overdue example_waiting example_accepted of
     (r, fs, d, s) \<Rightarrow> r = Returned None \<and> d = example_waiting \<and> tx_state (fst s) = Terminated"
  by code_simp

lemma ack_confirms_call_witness:
  "case handle_invite example_denv ack_arrives example_waiting example_accepted of
     (r, _, d, _) \<Rightarrow> r = Returned (Inr ()) \<and> d_state d = DS_Confirmed (d_id example_uas) example_ok \<and> d_remote_ack d = Some example_call_ack"
proof -
  obtain fs s where w: "await_message example_denv ack_arrives example_waiting example_accepted
      = (Returned (Some (Request example_call_ack)), fs, example_waiting, s)" "tx_last_response (fst s) = Some example_ok"
    using example_ack_awaited by (cases "await_message example_denv ack_arrives example_waiting example_accepted") auto
  have "d_state example_waiting = DS_WaitAck (d_id example_uas) example_ok" "req_method example_call_ack = Ack" "\<not> d_is_terminated example_waiting"
    "d_id example_waiting = d_id example_uas"
    by (simp_all add: example_waiting_def example_call_ack_def d_is_terminated_def)
  from ack_confirms_call [OF this(1) w(1) this(2,3) w(2)] this(4) show ?thesis by auto
qed


section \<open>Requests of the peer\<close>

text \<open>A request of the peer with an older CSeq number than the last one is not handled: a server drops it without an
  answer, a client answers 500, and in both cases the dialog keeps its state, its CSeq numbers, its id and its
  notifications.\<close>

theorem stale_request_refused:
  assumes "and_then (cseq_header (req_headers (tx_original (fst s)))) cseq_value_seq = Inr n" and "n < d_remote_seq d"
  shows "\<exists>d'. handle D cs fs d s = (case d_role d of
        ServerRole \<Rightarrow> (Returned (Inr ()), fs, d', s)
      | ClientRole \<Rightarrow> (case reply (tx_env D s) SC_ServerInternalError s of (r, s') \<Rightarrow> (Returned r, fs, d', s')))
    \<and> d_state d' = d_state d \<and> d_remote_seq d' = d_remote_seq d \<and> d_local_seq d' = d_local_seq d \<and> d_id d' = d_id d
    \<and> d_notified d' = d_notified d"
proof -
  let ?d = "observe_request (tx_original (fst s)) d"
  have same: "d_role ?d = d_role d" "d_state ?d = d_state d" "d_remote_seq ?d = d_remote_seq d" "d_local_seq ?d = d_local_seq d"
    "d_id ?d = d_id d" "d_notified ?d = d_notified d"
    by (simp_all add: observe_request_def observe_peer_session_uuid_def split: option.split)
  have "handle D cs fs d s = at_once fs (case d_role d of ServerRole \<Rightarrow> (Inr (), ?d, s) | ClientRole \<Rightarrow> reply_in_dialog D SC_ServerInternalError ?d s)"
    using assms by (simp add: handle_def Let_def same)
  then show ?thesis
    using same by (intro exI [of _ ?d]) (simp add: at_once_def reply_in_dialog_def split: transaction_role.split prod.split)
qed

lemma stale_request_refused_witness:
  "fst (handle example_denv [] [] (example_uas\<lparr>d_remote_seq := 9\<rparr>) example_server) = Returned (Inr ())"
proof -
  have "and_then (cseq_header (req_headers (tx_original (fst example_server)))) cseq_value_seq = Inr 7"
    by code_simp
  from stale_request_refused [OF this, of "example_uas\<lparr>d_remote_seq := 9\<rparr>" example_denv "[]" "[]"] show ?thesis
    by (auto simp: example_uas_def)
qed

text \<open>C38: \<open>transition\<close> keeps \<open>Confirmed\<close> for the requests it lists as events, but MESSAGE is not one of them. While the
  application has a MESSAGE to answer, a dialog that was Confirmed is not any more: hanging up fails with an error and
  sends nothing, and a client drops the peer's BYE without an answer.\<close>

theorem message_blocks_bye:
  assumes "d_is_confirmed d" and "d1 = d_transition (DS_Message (d_id d) msg) d"
    and "d_role d = ClientRole" and "req_method (tx_original (fst s)) = Bye"
    and "and_then (cseq_header (req_headers (tx_original (fst s)))) cseq_value_seq = Inr n" and "d_remote_seq d \<le> n"
  shows "(\<exists>err. hangup_with_headers D headers fs (d1, e) = (Returned (Inl err), fs, d1, e))
    \<and> (\<exists>d2. handle D cs fs d1 s = (Returned (Inr ()), fs, d2, s) \<and> d_state d2 = d_state d1)"
proof -
  have state: "d_state d1 = DS_Message (d_id d) msg" "d_role d1 = ClientRole" "d_remote_seq d1 = d_remote_seq d"
    using assms(1-3) by (cases "d_state d"; simp add: d_transition_def d_is_confirmed_def is_request_event_def)+
  have seen: "d_role (observe_peer_session_uuid p d1) = ClientRole" "d_remote_seq (observe_peer_session_uuid p d1) = d_remote_seq d"
      "d_state (observe_peer_session_uuid p d1) = DS_Message (d_id d) msg" for p
    using state by (simp_all add: observe_peer_session_uuid_def split: option.split)
  have "\<exists>err. hangup_with_headers D headers fs (d1, e) = (Returned (Inl err), fs, d1, e)"
    by (simp add: hangup_with_headers_def bye_with_headers_def d_can_cancel_def d_is_confirmed_def d_waiting_ack_def
        d_is_terminated_def state)
  moreover have "\<exists>d2. handle D cs fs d1 s = (Returned (Inr ()), fs, d2, s) \<and> d_state d2 = d_state d1"
    using assms(4-6)
    by (simp add: handle_def Let_def observe_request_def seen handle_unconfirmed_def d_is_confirmed_def state)
  ultimately show ?thesis ..
qed

definition example_uac :: dialog where
  "example_uac = example_uas\<lparr>d_role := ClientRole\<rparr>"

definition example_bye_tx :: st where
  "example_bye_tx = new_server ''k'' (example_invite\<lparr>req_method := Bye, req_headers := [H_CSeq ''9 BYE'']\<rparr>) (Some example_conn) example_endpoint"

lemma message_blocks_bye_witness:
  "\<exists>d2. handle example_denv [] [] (d_transition (DS_Message (d_id example_uac) example_invite) example_uac) example_bye_tx
      = (Returned (Inr ()), [], d2, example_bye_tx)"
proof -
  have "req_method (tx_original (fst example_bye_tx)) = Bye"
    "and_then (cseq_header (req_headers (tx_original (fst example_bye_tx)))) cseq_value_seq = Inr 9"
    by code_simp+
  moreover have "d_is_confirmed example_uac" "d_role example_uac = ClientRole" "d_remote_seq example_uac \<le> 9"
    by (simp_all add: example_uac_def example_uas_def d_is_confirmed_def)
  ultimately show ?thesis
    using message_blocks_bye [of example_uac "d_transition (DS_Message (d_id example_uac) example_invite) example_uac" example_invite
        example_bye_tx 9 example_denv None "[]" example_endpoint "[]"] by blast
qed

section \<open>A 2xx other than 200\<close>

text \<open>Any other 2xx than 200 to the INVITE (a 202, say) leaves the client's dialog Terminated although the session is
  established: \<open>do_invite\<close> counts it as accepted and enters the dialog into the layer, but the remote target is not
  taken over and hanging up returns without sending a BYE.\<close>

theorem other_2xx_orphaned:
  assumes "status_code_kind (resp_status resp) = Successful" and "resp_status resp \<noteq> SC_OK"
    and "after_final resp did d = (Inr (i, final), d')"
    and "\<not> d_is_terminated d" and "layer_ok L"
  shows "d_is_terminated d' \<and> d_remote_uri d' = d_remote_uri d
    \<and> get_dialog i (register_outcome early_id r (Inr (i, final)) L) = Some (KInvite, r)
    \<and> hangup_with_headers D headers fs (d', e) = (Returned (Inr ()), fs, d', e)"
proof -
  obtain d1 where d': "final = Some resp" "d' = end_with (TR_UasOther (resp_status resp)) d1" "d_remote_uri d1 = d_remote_uri d"
    using assms(2,3)
    by (auto simp: after_final_def Let_def update_remote_tag_def split: sum.splits option.splits if_splits prod.splits)
  then have over: "d_is_terminated d'" by (simp add: end_with_def ended_with)
  then have "hangup_with_headers D headers fs (d', e) = (Returned (Inr ()), fs, d', e)"
    by (cases "d_state d'")
      (simp_all add: hangup_with_headers_def bye_with_headers_def d_can_cancel_def d_is_confirmed_def d_waiting_ack_def d_is_terminated_def)
  moreover obtain x M where m: "drop_dialog early_id L = (x, M)" by fastforce
  have "get_dialog i (register_outcome early_id r (Inr (i, final)) L) = Some (KInvite, r)"
    using lookup_insert [OF drop_spec(1) [OF assms(5) m]] assms(1)
    by (simp add: register_outcome_def m d'(1) is_2xx_def get_dialog_def)
  moreover have "d_remote_uri d' = d_remote_uri d" using d' by (simp add: end_with_def d_transition_def)
  ultimately show ?thesis using over by blast
qed

definition example_202 :: response where
  "example_202 = example_ok\<lparr>resp_status := SC_Accepted\<rparr>"

lemma other_2xx_orphaned_witness:
  "\<exists>i d. after_final example_202 (d_id example_uac) example_uac = (Inr (i, Some example_202), d) \<and> d_is_terminated d
    \<and> hangup_with_headers example_denv None [] (d, example_endpoint) = (Returned (Inr ()), [], d, example_endpoint)"
proof -
  have "case after_final example_202 (d_id example_uac) example_uac of
      (Inr (i, final), d) \<Rightarrow> final = Some example_202 | (Inl _, d) \<Rightarrow> False"
    by code_simp
  then obtain i d where a: "after_final example_202 (d_id example_uac) example_uac = (Inr (i, Some example_202), d)"
    by (cases "after_final example_202 (d_id example_uac) example_uac") (auto split: sum.splits prod.splits)
  have "status_code_kind (resp_status example_202) = Successful" "resp_status example_202 \<noteq> SC_OK" "\<not> d_is_terminated example_uac"
    by (simp_all add: example_202_def example_uac_def example_uas_def d_is_terminated_def status_code_kind_def code_kind_def)
  from other_2xx_orphaned [OF this(1,2) a this(3) layer_ok_new] a show ?thesis by blast
qed

end
