(* ===== verification/Legacy_Equiv.thy ===== *)
theory Legacy_Equiv
  imports Legacy_Dialogs Dialog_Session
begin

text \<open>
  Where the deprecated wrappers agree with \<open>InviteDialog\<close>, and that they respect every relation its operations
  respect, so the life and the identity of a dialog are safe with them too.
\<close>

section \<open>Relations the wrappers respect\<close>

lemmas legacy_handler_defs = uas_handle_bye_def uas_handle_info_def uas_handle_prack_def uas_handle_options_def uas_handle_update_def
  uas_handle_refer_def uas_handle_message_def uas_handle_notify_def uac_handle_bye_def uac_handle_info_def uac_handle_options_def
  uac_handle_update_def uac_handle_refer_def uac_handle_message_def uac_handle_notify_def

context dialog_relation begin

lemma uas_begun: "uas_begin_invite D d s = (d', s') \<Longrightarrow> R d d'"
  by (auto simp: uas_begin_invite_def refl transition split: if_splits)

lemma uas_invite_handled:
  assumes fs: "turns_keep R fs"
  shows "ran R d (uas_handle_invite D fs d s)"
proof -
  obtain d1 s1 where b: "uas_begin_invite D d s = (d1, s1)" by (cases "uas_begin_invite D d s") blast
  have d1: "R d d1" using b by (rule uas_begun)
  obtain x gs d2 s2 where r: "server_loop D fs d1 s1 = (x, gs, d2, s2)" by (metis prod.exhaust)
  from server_looped [OF fs, of d1 D s1] have d2: "R d d2" and gs: "turns_keep R gs"
    using trans [OF d1] by (simp_all add: r)
  show ?thesis
    using d2 gs ran_trans [OF d2 closed [OF gs]] by (simp add: uas_handle_invite_def b r split: await.split sum.split)
qed

lemma uac_reinvite_looped: "turns_keep R fs \<Longrightarrow> ran R d (uac_reinvite_loop D fs d s)"
proof (induction fs arbitrary: d s rule: measure_induct_rule [of length])
  case (less fs)
  obtain x fs' d' s' where w: "await_message D fs d s = (x, fs', d', s')" by (metis prod.exhaust)
  have d': "R d d'" and fs': "turns_keep R fs'" using awaited_message [OF less.prems, of d D s] by (simp_all add: w)
  have le: "length fs' < length fs" if "x \<noteq> Waiting" using w that by (cases x) (auto dest: await_message_shorter)
  have go: "ran R d (uac_reinvite_loop D fs' d' s')" if "x \<noteq> Waiting"
    using ran_trans [OF d' less.IH [OF le fs']] that by simp
  have "R d (d'\<lparr>d_remote_ack := ack\<rparr>)" for ack using d' acked by (rule trans)
  with w d' fs' go show ?case
    by (auto simp: uac_reinvite_loop.simps [of D fs] split: await.split option.split sip_message.split)
qed

lemma uac_reinvited:
  assumes cs: "commands_keep R cs" and fs: "turns_keep R fs"
  shows "ran R d (uac_handle_reinvite D cs fs d s)"
proof -
  obtain y d1 s1 where o: "offer_request DS_Updated D cs d s = (y, d1, s1)" by (metis prod.exhaust)
  have d1: "R d d1" using offered [OF cs o] .
  obtain x gs d2 s2 where r: "uac_reinvite_loop D fs d1 s1 = (x, gs, d2, s2)" by (metis prod.exhaust)
  from uac_reinvite_looped [OF fs, of d1 D s1] have d2: "R d d2" and gs: "turns_keep R gs"
    using trans [OF d1] by (simp_all add: r)
  show ?thesis
    using d1 d2 gs fs ran_trans [OF d2 closed [OF gs]]
    by (simp add: uac_handle_reinvite_def o r Let_def split: sum.split await.split)
qed

lemma legacy_confirmed_handled:
  assumes cs: "commands_keep R cs" and fs: "turns_keep R fs"
  shows "ran R d (uas_handle_confirmed D cs fs d s)" "ran R d (uac_handle_confirmed D cs fs d s)"
proof -
  have same: "ran R d (at_once fs x)" if "\<And>r d' s'. x = (r, d', s') \<Longrightarrow> d' = d" for x
    using fs that by (metis ran_at_once refl)
  have event: "ran R d (at_once fs (offer_request ev D cs d s))" "ran R d (at_once fs (offer_and_confirm ev D cs d s))" for ev
    using fs cs by (auto intro: ran_at_once offered offered_confirmed)
  have bye: "ran R d (at_once fs (reply_in_dialog D SC_OK (end_with r d) s))" for r
    using fs ended by (auto intro!: ran_at_once dest: replied)
  have "uas_handle_reinvite D cs fs d s = handle_reinvite D cs fs d s"
    by (simp add: uas_handle_reinvite_def handle_reinvite_def)
  then show "ran R d (uas_handle_confirmed D cs fs d s)"
    using event bye reinvited [OF cs fs]
    by (cases "req_method (tx_original (fst s))")
      (simp_all add: uas_handle_confirmed_def legacy_handler_defs same unsupported_handled replied refl fs)
  show "ran R d (uac_handle_confirmed D cs fs d s)"
    using event bye uac_reinvited [OF cs fs]
    by (cases "req_method (tx_original (fst s))")
      (simp_all add: uac_handle_confirmed_def legacy_handler_defs same unsupported_handled refl fs)
qed

lemma legacy_handled:
  assumes cs: "commands_keep R cs" and fs: "turns_keep R fs"
  shows "ran R d (uas_handle D cs fs d s)" "ran R d (uac_handle D cs fs d s)"
proof -
  have same: "ran R d (at_once fs x)" if "\<And>r d' s'. x = (r, d', s') \<Longrightarrow> d' = d" for x
    using fs that by (metis ran_at_once refl)
  have bye: "ran R d (at_once fs (uas_handle_bye D d s))" for d
    using fs ended by (auto intro!: ran_at_once simp: uas_handle_bye_def dest: replied)
  have ack: "ran R d (at_once fs (forward_ack d s))" for d
    by (rule ran_at_once [OF fs]) (auto simp: forward_ack_def refl dest: tu_sent split: prod.splits)
  have prack: "ran R d (at_once fs (uas_handle_prack D d s))" for d
    using fs by (auto intro!: ran_at_once simp: uas_handle_prack_def refl dest: replied split: if_splits)
  have other: "ran R d (case req_method (tx_original (fst s)) of Invite \<Rightarrow> uas_handle_invite D fs d s
      | PRack \<Rightarrow> at_once fs (uas_handle_prack D d s) | Ack \<Rightarrow> at_once fs (forward_ack d s)
      | Bye \<Rightarrow> at_once fs (uas_handle_bye D d s) | _ \<Rightarrow> (Returned (Inr ()), fs, d, s))" for d
    using bye ack prack uas_invite_handled [OF fs] by (simp add: refl fs split: sip_method.split)
  show "ran R d (uas_handle D cs fs d s)"
    using ran_trans [OF remote_seq legacy_confirmed_handled(1) [OF cs fs]] ran_trans [OF remote_seq other] fs
    by (simp add: uas_handle_def Let_def refl split: sum.split)
  show "ran R d (uac_handle D cs fs d s)"
    using ran_trans [OF remote_seq legacy_confirmed_handled(2) [OF cs fs]] fs
    by (simp add: uac_handle_def Let_def refl same replied remote_seq split: sum.split)
qed

lemma uac_restarted: "R d (uac_restart_invite s d)"
  unfolding uac_restart_invite_def by (rule trans [OF remote_tag initial])

lemma uac_invite_looped: "turns_keep R fs \<Longrightarrow> ran R d (uac_invite_loop D i a did fs d s)"
proof (induction fs arbitrary: a d s rule: measure_induct_rule [of length])
  case (less fs)
  obtain x fs' d0 s' where w: "await_with (note_calling i) D fs d s = (x, fs', d0, s')" by (metis prod.exhaust)
  have d0: "R d d0" and fs': "turns_keep R fs'"
    using awaited [of "note_calling i", OF noted less.prems, of d D s] by (simp_all add: w)
  have le: "length fs' < length fs" if "x \<noteq> Waiting" using w that by (cases x) (auto dest: await_with_shorter)
  have go: "ran R d (uac_invite_loop D i b did gs c u)" if "R d c" "turns_keep R gs" "length gs \<le> length fs'" "x \<noteq> Waiting" for b gs c u
    using ran_trans [OF that(1) less.IH [of gs]] that le by simp
  show ?case
  proof (cases "\<exists>resp. x = Returned (Some (Response resp))")
    case True
    then obtain resp where x: "x = Returned (Some (Response resp))" by blast
    then have ne: "x \<noteq> Waiting" by simp
    define d' where "d' = observe_peer_session_uuid (Option.bind (session_id_header (resp_headers resp)) local_uuid) d0"
    have d': "R d d'" unfolding d'_def using d0 observed by (rule trans)
    have next_state: "R d (d_transition y d')" for y using d' transition by (rule trans)
    have stop: "R d (end_with r d')" for r using d' ended by (rule trans)
    have prov: "ran R d (case provisional_to Invite D resp fs' (d', snd s') of
         (Waiting, fs, (d, e)) \<Rightarrow> (Waiting, fs, d, (fst s', e))
       | (Returned (Inl err), fs, (d, e)) \<Rightarrow> (Returned (Inl err), fs, d, (fst s', e))
       | (Returned (Inr _), fs, (d, e)) \<Rightarrow> uac_invite_loop D i a did fs (d_transition (DS_Early (d_id d) resp) d) (fst s', e))"
    proof -
      obtain r gs c e where p: "provisional_to Invite D resp fs' (d', snd s') = (r, gs, c, e)" by (metis prod.exhaust)
      from provisional [OF fs', of "(d', snd s')" Invite D resp] have "R d c" and gs: "turns_keep R gs"
        using trans [OF d'] by (simp_all add: p)
      moreover have "R d (d_transition (DS_Early (d_id c) resp) c)" using \<open>R d c\<close> transition by (rule trans)
      ultimately show ?thesis
        using provisional_le [OF p] ne by (simp add: p go split: await.split sum.split)
    qed
    obtain n c where inc: "increment_local_seq d' = (n, c)" by fastforce
    have c: "R d c" using d' increment [OF inc] by (rule trans)
    then have "R d (uac_restart_invite s c)" for s using uac_restarted by (rule trans)
    then have challenged: "ran R d (case replace_transaction D n resp cred s' of
         (Inl err, s) \<Rightarrow> (Returned (Inl err), fs', c, s) | (Inr _, s) \<Rightarrow> uac_invite_loop D i True did fs' (uac_restart_invite s c) s)" for cred
      using c fs' ne by (simp add: go split: prod.split sum.split)
    have final: "R d c" if "after_final resp did d' = (y, c)" for y c using d' finished [OF that] by (rule trans)
    show ?thesis
      unfolding uac_invite_loop.simps [of D i a did fs] w prod.case x await.case option.case sip_message.case Let_def d'_def [symmetric]
      using fs' ne prov challenged
      by (cases a; cases "d_credential d'"; cases "after_final resp did d'")
        (simp_all add: inc go next_state stop final)
  next
    case False
    with w d0 fs' show ?thesis
      by (auto simp: uac_invite_loop.simps [of D i a did fs] go split: await.split option.split sip_message.split)
  qed
qed

lemma uac_invited: "turns_keep R fs \<Longrightarrow> ran R d (uac_process_invite D fs d s)"
proof -
  assume fs: "turns_keep R fs"
  show ?thesis
    using fs ran_trans [OF noted uac_invite_looped [OF fs]]
    by (simp add: uac_process_invite_def Let_def noted split: prod.split sum.split)
qed

end

text \<open>The handlers of the deprecated wrappers and the caller's drive of the INVITE keep identity and history of
  a dialog, as those of \<open>InviteDialog\<close> do: role, Call-ID, local tag and From stay, notifications are only added,
  and nothing happens to a dialog once it is Terminated.\<close>

theorem legacy_life:
  assumes "turns_keep evolves fs" and "commands_keep evolves cs"
  shows "ran evolves d (uas_handle D cs fs d s) \<and> ran evolves d (uac_handle D cs fs d s) \<and> ran evolves d (uac_process_invite D fs d s)"
  using life.legacy_handled [OF assms(2,1)] life.uac_invited [OF assms(1)] by simp

lemma legacy_life_witness:
  "turns_keep evolves [id] \<and> ran evolves example_uas (uas_handle example_denv example_commands [id] example_uas example_server)"
proof -
  have "turns_keep evolves [id]" "commands_keep evolves example_commands"
    by (simp_all add: example_commands_def life.refl)
  then show ?thesis using legacy_life by blast
qed

section \<open>Agreement with the INVITE dialog\<close>

text \<open>On a callee's dialog the operations of \<open>ServerInviteDialog\<close> do what those of \<open>InviteDialog\<close> do, and on a
  caller's dialog those of \<open>ClientInviteDialog\<close>: the same result, messages and changes of the dialog.\<close>

theorem legacy_operations_agree:
  assumes "d_role (fst w) = ServerRole" and "d_role (fst v) = ClientRole"
  shows "uas_ringing headers body w = ringing headers body w \<and> uas_accept headers body w = accept headers body w
    \<and> uas_accept_with_public_contact u p a headers body w = accept_with_public_contact u p a headers body w
    \<and> uas_reject code reason w = reject code reason w
    \<and> uas_bye_with_headers D headers fs w = bye_with_headers D headers fs w
    \<and> uas_request D m headers body fs w = invite_request D m headers body fs w
    \<and> uas_refer D r headers body fs w = refer D r headers body fs w
    \<and> uac_bye_with_headers D headers fs v = bye_with_headers D headers fs v
    \<and> uac_hangup_with_headers D headers fs v = hangup_with_headers D headers fs v
    \<and> uac_request D m headers body fs v = invite_request D m headers body fs v
    \<and> uac_reinvite D headers body fs v = reinvite D headers body fs v
    \<and> uac_options D headers None fs v = options D headers fs v"
proof -
  have role: "d_role d' = d_role d" if "dialog_request D e m c a b hs bd d = (x, d')" for D e m c a b hs bd d x d'
    using life.made_request [OF that] by (simp add: evolves_def)
  have "uas_bye_with_headers D headers fs w = bye_with_headers D headers fs w"
    using assms(1) by (auto simp: uas_bye_with_headers_def bye_with_headers_def cannot_bye_def Let_def dest!: role split: prod.split sum.split)
  moreover have "uac_bye_with_headers D headers fs v = bye_with_headers D headers fs v"
    using assms(2) by (auto simp: uac_bye_with_headers_def bye_with_headers_def cannot_bye_def Let_def dest!: role split: prod.split sum.split)
  ultimately show ?thesis
    using assms
    by (simp add: uas_ringing_def ringing_def uas_accept_def accept_def uas_accept_with_public_contact_def
        accept_with_public_contact_def uas_reject_def reject_def uas_request_def invite_request_def uas_refer_def refer_def
        uac_hangup_with_headers_def hangup_with_headers_def uac_cancel_def uac_request_def uac_reinvite_def reinvite_def
        uac_options_def options_def)
qed

lemma legacy_operations_agree_witness:
  "uas_accept None None (example_uas, example_endpoint) = accept None None (example_uas, example_endpoint)"
  using legacy_operations_agree [of "(example_uas, example_endpoint)" "(example_uac, example_endpoint)"]
  by (simp add: example_uas_def example_uac_def)

text \<open>C33: \<open>ServerInviteDialog\<close> handles a request of the peer as \<open>InviteDialog\<close> does, unless the request carries a new
  Session-ID, is a REFER, or is an INVITE of a dialog that already left \<open>Calling\<close>; \<open>ClientInviteDialog\<close> does, unless
  it carries a new Session-ID or is a CANCEL, ACK, PRACK or re-INVITE.\<close>

theorem legacy_handlers_agree:
  assumes "observe_request (tx_original (fst s)) d = d" and "req_method (tx_original (fst s)) = m"
  shows "(d_role d = ServerRole \<and> m \<noteq> Refer \<and> (m = Invite \<longrightarrow> d_is_confirmed d \<or> (\<exists>i. d_state d = DS_Calling i) \<and> tx_last_response (fst s) = None)
      \<longrightarrow> uas_handle D cs fs d s = handle D cs fs d s)
    \<and> (d_role d = ClientRole \<and> m \<notin> {Cancel, Ack, PRack, Invite} \<longrightarrow> uac_handle D cs fs d s = handle D cs fs d s)"
proof -
  let ?d = "\<lambda>n. d\<lparr>d_remote_seq := n\<rparr>"
  have "uas_handle_invite D fs (?d n) s = handle_invite D fs (?d n) s"
    if "\<exists>i. d_state d = DS_Calling i" "tx_last_response (fst s) = None" "m = Invite" for n
    using that assms(2)
    by (auto simp: uas_handle_invite_def handle_invite_def uas_begin_invite_def begin_invite_def d_is_confirmed_def)
  moreover have "uas_handle_prack D (?d n) s = handle_prack D (?d n) s" for n
    by (simp add: uas_handle_prack_def handle_prack_def)
  moreover have "uas_handle_bye D (?d n) s = handle_bye D (?d n) s" if "d_role d = ServerRole" for n
    using that by (simp add: uas_handle_bye_def handle_bye_def)
  moreover have "uas_handle_confirmed D cs fs (?d n) s = handle_confirmed D cs fs (?d n) s" if "d_role d = ServerRole" "m \<noteq> Refer" for n
    using that assms(2)
    by (cases m) (simp_all add: uas_handle_confirmed_def handle_confirmed_def legacy_handler_defs handle_info_def
        handle_options_def handle_update_def handle_message_def handle_notify_def handle_prack_def handle_bye_def
        uas_handle_reinvite_def handle_reinvite_def)
  moreover have "uac_handle_confirmed D cs fs (?d n) s = handle_confirmed D cs fs (?d n) s"
    if "d_role d = ClientRole" "m \<notin> {Cancel, Ack, PRack, Invite}" for n
    using that assms(2)
    by (cases m) (simp_all add: uac_handle_confirmed_def handle_confirmed_def legacy_handler_defs handle_info_def
        handle_options_def handle_update_def handle_refer_def handle_message_def handle_notify_def handle_bye_def)
  ultimately show ?thesis
    using assms
    by (auto simp: uas_handle_def uac_handle_def handle_def Let_def at_once_def handle_unconfirmed_def d_is_confirmed_def
        split: sum.split sip_method.split)
qed

lemma legacy_handlers_agree_witness:
  "uas_handle example_denv example_commands [] example_uas example_server = handle example_denv example_commands [] example_uas example_server"
proof -
  have "observe_request (tx_original (fst example_server)) example_uas = example_uas" "req_method (tx_original (fst example_server)) = Invite"
    by code_simp+
  moreover have "d_role example_uas = ServerRole" "d_is_confirmed example_uas"
    by (simp_all add: example_uas_def d_is_confirmed_def)
  ultimately show ?thesis using legacy_handlers_agree [of example_server example_uas Invite] by simp
qed

end
