(* ===== verification/Resolver.thy ===== *)
theory Resolver
  imports Stack_Error "HOL-Library.Multiset"
begin

text \<open>
  \<open>resolver/sip_resolver.rs\<close>: the targets of a domain (RFC 3263). The two queries of a
  \<open>LookupSource\<close> are functions the definitions are given. So are the draws of the random
  generator: \<open>draw k n\<close> is what the \<open>k\<close>-th call of \<open>random_range\<close> returns when its range ends
  at \<open>n\<close>, the end included. An address record, a port and a weight keep their Rust widths as
  bounds; the sum of the weights is a \<open>u32\<close>.
\<close>

section \<open>Records and queries\<close>

record target =
  tg_addr :: socket_addr
  tg_transport :: transport

record srv_record =
  srv_target :: string
  srv_port :: nat
  srv_priority :: nat
  srv_weight :: nat

record lookup_source =
  lookup_srv :: "string \<Rightarrow> string + srv_record list"
  lookup_a_aaaa :: "string \<Rightarrow> string + ip_addr list"

type_synonym draws = "nat \<Rightarrow> nat \<Rightarrow> nat"

definition in_range :: "draws \<Rightarrow> bool" where
  "in_range draw \<longleftrightarrow> (\<forall>k n. draw k n \<le> n)"

text \<open>What \<open>HickorySource\<close> does with the SRV records of an answer, given as their fields.\<close>

definition hickory_srv :: "(string \<times> nat \<times> nat \<times> nat) list \<Rightarrow> srv_record list" where
  "hickory_srv rs =
     map (\<lambda>(target, port, priority, weight).
       \<lparr>srv_target = trim_end_matches (\<lambda>c. c = CHR ''.'') target, srv_port = port, srv_priority = priority,
        srv_weight = weight\<rparr>) rs"

text \<open>The source that asks the operating system: \<open>lookup_host\<close> on the name with port 0.\<close>

definition system_source :: "(string \<Rightarrow> string + socket_addr list) \<Rightarrow> lookup_source" where
  "system_source lookup_host =
     \<lparr>lookup_srv = (\<lambda>name. Inl (''SRV lookup not supported by system resolver: '' @ name)),
      lookup_a_aaaa = (\<lambda>name.
        case lookup_host (name @ '':0'') of
          Inr addrs \<Rightarrow> Inr (map sa_ip addrs)
        | Inl e \<Rightarrow> Inl (''DNS resolution failed for '' @ name @ '': '' @ e))\<rparr>"

section \<open>Ordering of SRV records\<close>

definition total_weight :: "srv_record list \<Rightarrow> nat" where
  "total_weight g = unat (sum_list (map (\<lambda>r. word_of_nat (srv_weight r)) g) :: 32 word)"

text \<open>The loop over the group: the index of the first record whose weight reaches what is left of
  \<open>r\<close>, 0 when none does.\<close>

fun select_index :: "nat \<Rightarrow> nat \<Rightarrow> srv_record list \<Rightarrow> nat" where
  "select_index r i [] = 0"
| "select_index r i (x # xs) = (if r \<le> srv_weight x then i else select_index (r - srv_weight x) (i + 1) xs)"

definition selected_index :: "nat \<Rightarrow> srv_record list \<Rightarrow> nat" where
  "selected_index r g = (let i = select_index r 0 g in if length g \<le> i then length g - 1 else i)"

text \<open>\<open>Vec::remove\<close>: it panics when the index is out of range.\<close>

definition vec_remove :: "nat \<Rightarrow> 'a list \<Rightarrow> ('a \<times> 'a list) option" where
  "vec_remove i xs = (if i < length xs then Some (xs ! i, take i xs @ drop (Suc i) xs) else None)"

lemma vec_remove_Some: "vec_remove i xs = Some (x, ys) \<longleftrightarrow> i < length xs \<and> x = xs ! i \<and> ys = take i xs @ drop (Suc i) xs"
  by (auto simp: vec_remove_def)

lemma vec_remove_mset: "vec_remove i xs = Some (x, ys) \<Longrightarrow> mset xs = add_mset x (mset ys)"
proof -
  assume "vec_remove i xs = Some (x, ys)"
  then have i: "i < length xs" "x = xs ! i" "ys = take i xs @ drop (Suc i) xs" by (simp_all add: vec_remove_Some)
  have "mset xs = mset (take i xs @ xs ! i # drop (Suc i) xs)" by (simp only: id_take_nth_drop [OF i(1), symmetric])
  with i show ?thesis by simp
qed

lemma vec_remove_length: "vec_remove i xs = Some (x, ys) \<Longrightarrow> length xs = Suc (length ys)"
  using vec_remove_mset by (metis mset.simps(2) size_mset length_Cons)

text \<open>The records of one priority, drawn by weight, and the number of draws so far; \<open>None\<close> is a
  panic.\<close>

definition next_index :: "draws \<Rightarrow> nat \<Rightarrow> srv_record list \<Rightarrow> nat" where
  "next_index draw k g =
     (if total_weight g = 0 then draw k (length g - 1) else selected_index (draw k (total_weight g)) g)"

function drain_group :: "draws \<Rightarrow> nat \<Rightarrow> srv_record list \<Rightarrow> (srv_record list \<times> nat) option" where
  "drain_group draw k g =
     (if g = [] then Some ([], k)
      else (case vec_remove (next_index draw k g) g of
          None \<Rightarrow> None
        | Some (x, g') \<Rightarrow> map_option (\<lambda>(xs, k'). (x # xs, k')) (drain_group draw (k + 1) g')))"
  by auto
termination
  by (relation "measure (length \<circ> snd \<circ> snd)") (auto dest!: vec_remove_length)

declare drain_group.simps [simp del]

function order_groups :: "draws \<Rightarrow> nat \<Rightarrow> srv_record list \<Rightarrow> (srv_record list \<times> nat) option" where
  "order_groups draw k [] = Some ([], k)"
| "order_groups draw k (r # rs) =
     (case drain_group draw k (takeWhile (\<lambda>x. srv_priority x = srv_priority r) (r # rs)) of
        None \<Rightarrow> None
      | Some (xs, k') \<Rightarrow>
          map_option (\<lambda>(ys, k''). (xs @ ys, k''))
            (order_groups draw k' (dropWhile (\<lambda>x. srv_priority x = srv_priority r) (r # rs))))"
  by pat_completeness auto
termination
  by (relation "measure (length \<circ> snd \<circ> snd)") (auto simp: length_dropWhile_le le_imp_less_Suc)

definition order_srv_records :: "draws \<Rightarrow> nat \<Rightarrow> srv_record list \<Rightarrow> (srv_record list \<times> nat) option" where
  "order_srv_records draw k rs = order_groups draw k (sort_key srv_priority rs)"

section \<open>Resolution\<close>

definition srv_prefix :: "transport \<Rightarrow> bool \<Rightarrow> string" where
  "srv_prefix t secure =
     (case (t, secure) of
        (Udp, False) \<Rightarrow> ''_sip._udp''
      | (Tcp, False) \<Rightarrow> ''_sip._tcp''
      | (Tls, _) \<Rightarrow> ''_sips._tcp''
      | (Tcp, True) \<Rightarrow> ''_sips._tcp''
      | (Wss, True) \<Rightarrow> ''_sips._tcp''
      | _ \<Rightarrow> '''')"

definition transport_for :: "transport option \<Rightarrow> bool \<Rightarrow> transport" where
  "transport_for t secure = (case t of Some t \<Rightarrow> t | None \<Rightarrow> if secure then Tls else Udp)"

definition candidates :: "transport option \<Rightarrow> bool \<Rightarrow> transport list" where
  "candidates t secure = (case t of Some t \<Rightarrow> [t] | None \<Rightarrow> if secure then [Tls] else [Udp, Tcp])"

definition target_at :: "transport \<Rightarrow> nat \<Rightarrow> ip_addr \<Rightarrow> target" where
  "target_at t p ip = \<lparr>tg_addr = \<lparr>sa_ip = ip, sa_port = p\<rparr>, tg_transport = t\<rparr>"

text \<open>The targets of ordered SRV records: a record whose name does not resolve adds none.\<close>

definition srv_targets :: "lookup_source \<Rightarrow> transport \<Rightarrow> srv_record list \<Rightarrow> target list" where
  "srv_targets src t rs =
     concat (map (\<lambda>r. case lookup_a_aaaa src (srv_target r) of
         Inr ips \<Rightarrow> map (target_at t (srv_port r)) ips
       | Inl _ \<Rightarrow> []) rs)"

fun srv_candidates ::
    "lookup_source \<Rightarrow> draws \<Rightarrow> nat \<Rightarrow> string \<Rightarrow> bool \<Rightarrow> transport list \<Rightarrow> target list option" where
  "srv_candidates src draw k domain secure [] = Some []"
| "srv_candidates src draw k domain secure (t # ts) =
     (if srv_prefix t secure = [] then srv_candidates src draw k domain secure ts
      else (case lookup_srv src (srv_prefix t secure @ ''.'' @ domain) of
          Inr records \<Rightarrow>
            (case order_srv_records draw k records of
               None \<Rightarrow> None
             | Some (ordered, k') \<Rightarrow>
                 map_option (\<lambda>more. srv_targets src t ordered @ more) (srv_candidates src draw k' domain secure ts))
        | Inl _ \<Rightarrow> srv_candidates src draw k domain secure ts))"

definition resolve_logic ::
    "lookup_source \<Rightarrow> draws \<Rightarrow> string \<Rightarrow> port option \<Rightarrow> transport option \<Rightarrow> bool \<Rightarrow> (string + target list) option" where
  "resolve_logic src draw domain port transport secure =
     (case parse_ip domain of
        Some ip \<Rightarrow>
          (let t = transport_for transport secure in
           Some (Inr [target_at t (unwrap_or port (default_port t)) ip]))
      | None \<Rightarrow>
          (case port of
             Some p \<Rightarrow>
               (let t = transport_for transport secure;
                    ips = (case lookup_a_aaaa src domain of Inr ips \<Rightarrow> ips | Inl _ \<Rightarrow> [])
                in Some (if ips = [] then Inl (''Could not resolve IP for '' @ domain)
                         else Inr (map (target_at t p) ips)))
           | None \<Rightarrow>
               map_option (\<lambda>targets.
                 if targets = [] then
                   (let t = transport_for transport secure in
                    case lookup_a_aaaa src domain of
                      Inr ips \<Rightarrow>
                        if ips \<noteq> [] then Inr (map (target_at t (default_port t)) ips)
                        else Inl (''Resolution failed for '' @ domain)
                    | Inl _ \<Rightarrow> Inl (''Resolution failed for '' @ domain))
                 else Inr targets)
               (srv_candidates src draw 0 domain secure (candidates transport secure))))"

text \<open>The resolver of a build without the \<open>srv_lookup\<close> feature (\<open>resolver/mod.rs\<close>).\<close>

definition dummy_lookup ::
    "(string \<Rightarrow> string + socket_addr list) \<Rightarrow> string \<Rightarrow> port option \<Rightarrow> transport option \<Rightarrow> bool \<Rightarrow> string + target list" where
  "dummy_lookup lookup_host domain port transport secure =
     (let actual_port = (case port of Some p \<Rightarrow> p | None \<Rightarrow> default_port (transport_for transport secure)) in
      case lookup_host (domain @ '':'' @ show_nat actual_port) of
        Inr addrs \<Rightarrow>
          (let targets = map (\<lambda>a. \<lparr>tg_addr = a, tg_transport = transport_for transport secure\<rparr>) addrs in
           if targets = [] then Inl (''No addresses found for '' @ domain) else Inr targets)
      | Inl e \<Rightarrow> Inl (''DNS resolution failed for '' @ domain @ '': '' @ e))"

section \<open>The order of the records\<close>

lemma weights_exact:
  "sum_list (map srv_weight g) < 2 ^ 32 \<Longrightarrow> total_weight g = sum_list (map srv_weight g)"
proof -
  assume small: "sum_list (map srv_weight g) < 2 ^ 32"
  have "sum_list (map (\<lambda>r. word_of_nat (srv_weight r)) g) = (word_of_nat (sum_list (map srv_weight g)) :: 32 word)"
    by (induction g) simp_all
  with small show ?thesis unfolding total_weight_def by (simp add: unat_of_nat)
qed

lemma select_index_bound: "g \<noteq> [] \<Longrightarrow> selected_index r g < length g"
  by (simp add: selected_index_def Let_def)

lemma next_index_bound: "in_range draw \<Longrightarrow> g \<noteq> [] \<Longrightarrow> next_index draw k g < length g"
proof -
  assume "in_range draw" and g: "g \<noteq> []"
  then have "draw k (length g - 1) \<le> length g - 1" by (simp add: in_range_def)
  with g have "draw k (length g - 1) < length g" by (cases g) auto
  with g show ?thesis by (simp add: next_index_def select_index_bound)
qed

lemma drain_group_mset:
  "in_range draw \<Longrightarrow> \<exists>xs k'. drain_group draw k g = Some (xs, k') \<and> mset xs = mset g"
proof (induction draw k g rule: drain_group.induct)
  case (1 draw k g)
  show ?case
  proof (cases "g = []")
    case True
    then show ?thesis by (simp add: drain_group.simps)
  next
    case False
    obtain x g' where out: "vec_remove (next_index draw k g) g = Some (x, g')"
      using next_index_bound [OF 1(2) False] by (simp add: vec_remove_def)
    obtain xs k' where "drain_group draw (k + 1) g' = Some (xs, k')" "mset xs = mset g'"
      using 1(1) [OF False out refl 1(2)] by auto
    with False out vec_remove_mset [OF out] show ?thesis by (simp add: drain_group.simps)
  qed
qed

lemma dropped_above:
  "sorted (map f xs) \<Longrightarrow> \<forall>x \<in> set xs. a \<le> f x \<Longrightarrow> x \<in> set (dropWhile (\<lambda>x. f x = a) xs) \<Longrightarrow> a < f x"
  for a :: nat
  by (induction xs) (fastforce split: if_splits)+

lemma sorted_same: "\<forall>x \<in> set xs. f x = a \<Longrightarrow> sorted (map f xs)" for a :: nat
proof -
  assume "\<forall>x \<in> set xs. f x = a"
  then have "map f xs = replicate (length xs) a" by (simp add: map_replicate_const [symmetric] cong: map_cong)
  then show ?thesis by simp
qed

lemma order_groups_spec:
  "in_range draw \<Longrightarrow> sorted (map srv_priority rs) \<Longrightarrow>
   \<exists>xs k'. order_groups draw k rs = Some (xs, k') \<and> mset xs = mset rs \<and> sorted (map srv_priority xs)"
proof (induction draw k rs rule: order_groups.induct)
  case (2 draw k r rs)
  let ?same = "takeWhile (\<lambda>x. srv_priority x = srv_priority r) (r # rs)"
  let ?rest = "dropWhile (\<lambda>x. srv_priority x = srv_priority r) (r # rs)"
  obtain xs k' where xs: "drain_group draw k ?same = Some (xs, k')" "mset xs = mset ?same"
    using drain_group_mset [OF 2(2), of k ?same] by blast
  have rest_sorted: "sorted (map srv_priority ?rest)"
    using 2(3) by (metis dropWhile_eq_drop drop_map sorted_wrt_drop)
  obtain ys k'' where ys: "order_groups draw k' ?rest = Some (ys, k'')" "mset ys = mset ?rest" "sorted (map srv_priority ys)"
    using 2(1) [OF xs(1) refl 2(2) rest_sorted] by blast
  have "mset (xs @ ys) = mset (?same @ ?rest)" using xs(2) ys(2) by (simp only: mset_append)
  then have all: "mset (xs @ ys) = mset (r # rs)" by (simp only: takeWhile_dropWhile_id)
  have "set xs = set ?same" "set ys = set ?rest" using xs(2) ys(2) by (metis set_mset_mset)+
  then have eq: "\<forall>x \<in> set xs. srv_priority x = srv_priority r" and gt: "\<forall>y \<in> set ys. srv_priority r < srv_priority y"
    using dropped_above [of srv_priority "r # rs" "srv_priority r"] 2(3) by (auto dest: set_takeWhileD)
  then have "sorted (map srv_priority (xs @ ys))"
    using ys(3) sorted_same [OF eq] by (auto simp: sorted_append intro: less_imp_le)
  with xs(1) ys(1) all show ?case by simp
qed simp

text \<open>C26: whatever the random generator returns within the ranges it is asked for, the ordering of
  SRV records returns, keeps exactly the records it was given, and puts a lower priority value before
  a higher one.\<close>

theorem srv_order:
  assumes "in_range draw"
  shows "\<exists>out k'. order_srv_records draw k rs = Some (out, k') \<and> mset out = mset rs \<and> sorted (map srv_priority out)"
  using order_groups_spec [OF assms, of "sort_key srv_priority rs" k] by (simp add: order_srv_records_def)

lemma srv_order_witness:
  "\<exists>out k'. order_srv_records (\<lambda>k n. n)
      0 [\<lparr>srv_target = ''low'', srv_port = 5060, srv_priority = 20, srv_weight = 0\<rparr>,
         \<lparr>srv_target = ''a'', srv_port = 5060, srv_priority = 10, srv_weight = 10\<rparr>,
         \<lparr>srv_target = ''b'', srv_port = 5060, srv_priority = 10, srv_weight = 90\<rparr>] = Some (out, k')
    \<and> mset out = mset [\<lparr>srv_target = ''low'', srv_port = 5060, srv_priority = 20, srv_weight = 0\<rparr>,
         \<lparr>srv_target = ''a'', srv_port = 5060, srv_priority = 10, srv_weight = 10\<rparr>,
         \<lparr>srv_target = ''b'', srv_port = 5060, srv_priority = 10, srv_weight = 90\<rparr>]
    \<and> sorted (map srv_priority out)"
  by (rule srv_order) (simp add: in_range_def)

section \<open>The choice within a priority\<close>

definition weight_before :: "nat \<Rightarrow> srv_record list \<Rightarrow> nat" where
  "weight_before j g = sum_list (map srv_weight (take j g))"

lemma weight_before_Cons [simp]:
  "weight_before 0 g = 0" "weight_before (Suc j) (x # g) = srv_weight x + weight_before j g"
  by (simp_all add: weight_before_def)

lemma select_index_ge: "g \<noteq> [] \<Longrightarrow> r \<le> sum_list (map srv_weight g) \<Longrightarrow> i \<le> select_index r i g"
proof (induction g arbitrary: r i)
  case (Cons x g)
  show ?case
  proof (cases "r \<le> srv_weight x")
    case False
    with Cons.prems have "g \<noteq> []" "r - srv_weight x \<le> sum_list (map srv_weight g)" by auto
    with Cons.IH [of "r - srv_weight x" "i + 1"] False show ?thesis by simp
  qed simp
qed simp

lemma select_index_iff:
  "r \<le> sum_list (map srv_weight g) \<Longrightarrow> j < length g \<Longrightarrow>
   select_index r i g = i + j \<longleftrightarrow> r \<le> weight_before (Suc j) g \<and> (j = 0 \<or> weight_before j g < r)"
proof (induction g arbitrary: r i j)
  case (Cons x g)
  show ?case
  proof (cases "r \<le> srv_weight x")
    case True
    then show ?thesis by (cases j) auto
  next
    case False
    with Cons.prems have g: "g \<noteq> []" "r - srv_weight x \<le> sum_list (map srv_weight g)" by auto
    show ?thesis
    proof (cases j)
      case 0
      with False select_index_ge [OF g, of "i + 1"] show ?thesis by simp
    next
      case (Suc j')
      with False Cons.prems Cons.IH [OF g(2), of j' "i + 1"] show ?thesis
        by (cases j') (auto simp: weight_before_def)
    qed
  qed
qed simp

text \<open>Of the values a draw over a priority can take, each record is chosen by as many as its
  weight says, and the first one by one more: a record of weight 0 behind the first is never chosen
  while the weights do not add up to 0. The index is always one of the group, so the clamp behind the
  loop has nothing to do.\<close>

theorem srv_weight_share:
  assumes "sum_list (map srv_weight g) < 2 ^ 32" and "j < length g"
  shows "card {r. r \<le> total_weight g \<and> selected_index r g = j} = srv_weight (g ! j) + (if j = 0 then 1 else 0)"
proof -
  have total: "total_weight g = sum_list (map srv_weight g)" using assms(1) by (rule weights_exact)
  have step: "weight_before (Suc j) g = weight_before j g + srv_weight (g ! j)"
    using assms(2) by (simp add: weight_before_def take_Suc_conv_app_nth)
  have sum_max: "weight_before n g \<le> sum_list (map srv_weight g)" for n
    unfolding weight_before_def by (metis append_take_drop_id le_add1 map_append sum_list_append)
  have index: "selected_index r g = j \<longleftrightarrow> r \<le> weight_before (Suc j) g \<and> (j = 0 \<or> weight_before j g < r)"
    if r: "r \<le> sum_list (map srv_weight g)" for r
  proof -
    have "select_index r 0 g < length g"
    proof (rule ccontr)
      assume out: "\<not> select_index r 0 g < length g"
      have less: "weight_before n g < r" if "n \<le> length g" "0 < n" for n
        using that
      proof (induction n)
        case (Suc n)
        then have n: "n < length g" by simp
        have "select_index r 0 g \<noteq> 0 + n" using out n by auto
        then have "\<not> (r \<le> weight_before (Suc n) g \<and> (n = 0 \<or> weight_before n g < r))"
          using select_index_iff [OF r n, of 0] by simp
        moreover have "n = 0 \<or> weight_before n g < r" using Suc by auto
        ultimately show ?case by (simp add: not_le)
      qed simp
      have "0 < length g" using assms(2) by linarith
      from less [OF order_refl this] r show False by (simp add: weight_before_def)
    qed
    then show ?thesis using select_index_iff [OF r assms(2), of 0] by (simp add: selected_index_def Let_def)
  qed
  have drawn: "r \<le> total_weight g \<and> selected_index r g = j \<longleftrightarrow> r \<le> weight_before (Suc j) g \<and> (j = 0 \<or> weight_before j g < r)" for r
  proof (cases "r \<le> sum_list (map srv_weight g)")
    case True
    with index total show ?thesis by simp
  next
    case False
    with sum_max [of "Suc j"] have "\<not> r \<le> weight_before (Suc j) g" by linarith
    with False total show ?thesis by simp
  qed
  show ?thesis
  proof (cases "j = 0")
    case True
    then have "{r. r \<le> total_weight g \<and> selected_index r g = j} = {..weight_before (Suc j) g}"
      unfolding drawn by auto
    with True step show ?thesis by simp
  next
    case False
    then have "{r. r \<le> total_weight g \<and> selected_index r g = j} = {weight_before j g <.. weight_before (Suc j) g}"
      unfolding drawn by auto
    with False step show ?thesis by simp
  qed
qed

definition example_group :: "srv_record list" where
  "example_group =
     [\<lparr>srv_target = ''a'', srv_port = 1, srv_priority = 1, srv_weight = 10\<rparr>,
      \<lparr>srv_target = ''b'', srv_port = 1, srv_priority = 1, srv_weight = 90\<rparr>]"

lemma srv_weight_share_witness:
  "card {r. r \<le> total_weight example_group \<and> selected_index r example_group = 1} = 90"
proof -
  have "card {r. r \<le> total_weight example_group \<and> selected_index r example_group = 1}
      = srv_weight (example_group ! 1) + (if (1::nat) = 0 then 1 else 0)"
    by (rule srv_weight_share) (simp_all add: example_group_def)
  moreover have "srv_weight (example_group ! 1) = 90" by (simp add: example_group_def)
  ultimately show ?thesis by (simp only:) simp
qed

section \<open>What a resolution gives\<close>

lemma srv_candidates_Some: "in_range draw \<Longrightarrow> \<exists>ts. srv_candidates src draw k domain secure cs = Some ts"
proof (induction src draw k domain secure cs rule: srv_candidates.induct)
  case (2 src draw k domain secure t ts)
  show ?case
  proof (cases "srv_prefix t secure = []")
    case True
    with 2 show ?thesis by simp
  next
    case False
    show ?thesis
    proof (cases "lookup_srv src (srv_prefix t secure @ ''.'' @ domain)")
      case (Inl e)
      with 2 False show ?thesis by simp
    next
      case (Inr records)
      have "sorted (map srv_priority (sort_key srv_priority records))" by simp
      then obtain out k' where "order_srv_records draw k records = Some (out, k')"
        using order_groups_spec [OF 2(4), of "sort_key srv_priority records" k] by (auto simp: order_srv_records_def)
      with Inr False 2 show ?thesis by fastforce
    qed
  qed
qed simp

lemma srv_candidates_transport:
  "srv_candidates src draw k domain secure cs = Some ts \<Longrightarrow> x \<in> set ts \<Longrightarrow> tg_transport x \<in> set cs"
proof (induction src draw k domain secure cs arbitrary: ts rule: srv_candidates.induct)
  case (2 src draw k domain secure t cs)
  have mine: "tg_transport y = t" if "y \<in> set (srv_targets src t rs)" for y rs
    using that by (auto simp: srv_targets_def target_at_def split: sum.splits)
  show ?case
  proof (cases "srv_prefix t secure = []")
    case True
    with 2 show ?thesis by auto
  next
    case False
    show ?thesis
    proof (cases "lookup_srv src (srv_prefix t secure @ ''.'' @ domain)")
      case (Inl e)
      with 2 False show ?thesis by auto
    next
      case (Inr records)
      with 2(4) False obtain out k' more where o: "order_srv_records draw k records = Some (out, k')"
          "srv_candidates src draw k' domain secure cs = Some more" "ts = srv_targets src t out @ more"
        by (auto split: option.splits prod.splits)
      show ?thesis using 2(5) o(3) mine 2(3) [OF False Inr o(1) refl o(2)] by auto
    qed
  qed
qed simp

lemma resolution_facts:
  assumes "in_range draw"
  shows "\<exists>res. resolve_logic src draw domain port transport secure = Some res
    \<and> (case res of
         Inr ts \<Rightarrow> ts \<noteq> []
           \<and> list_all (\<lambda>x. tg_transport x \<in> set (candidates transport secure)) ts
           \<and> (case port of Some p \<Rightarrow> list_all (\<lambda>x. sa_port (tg_addr x) = p) ts | None \<Rightarrow> True)
       | Inl _ \<Rightarrow> parse_ip domain = None \<and> (case lookup_a_aaaa src domain of Inr ips \<Rightarrow> ips = [] | Inl _ \<Rightarrow> True))
    \<and> (case parse_ip domain of
         Some ip \<Rightarrow> res = Inr [target_at (transport_for transport secure)
           (unwrap_or port (default_port (transport_for transport secure))) ip]
       | None \<Rightarrow> True)"
proof -
  have cand: "transport_for transport secure \<in> set (candidates transport secure)"
    by (simp add: transport_for_def candidates_def split: option.split)
  show ?thesis
  proof (cases "parse_ip domain")
    case (Some ip)
    with cand show ?thesis
      by (simp add: resolve_logic_def Let_def target_at_def unwrap_or_def split: option.split)
  next
    case None
    show ?thesis
    proof (cases port)
      case (Some p)
      with None cand show ?thesis
        by (cases "lookup_a_aaaa src domain") (auto simp: resolve_logic_def Let_def target_at_def list_all_iff)
    next
      case port: None
      obtain ts where ts: "srv_candidates src draw 0 domain secure (candidates transport secure) = Some ts"
        using srv_candidates_Some [OF assms] by blast
      with None port cand srv_candidates_transport [OF ts] show ?thesis
        by (cases "lookup_a_aaaa src domain") (auto simp: resolve_logic_def Let_def target_at_def list_all_iff)
    qed
  qed
qed

text \<open>C25: with draws in their ranges a resolution returns. It never returns an empty list; every
  target is on the transport that was asked for (TLS for a secure lookup, UDP or TCP otherwise when
  none was), and on the port that was asked for. The domain resolves to nothing only when its own
  address query gives nothing. An address literal is answered without any query.\<close>

theorem resolution:
  assumes "in_range draw"
  shows "\<exists>res. resolve_logic src draw domain port transport secure = Some res
    \<and> (case res of
         Inr ts \<Rightarrow> ts \<noteq> []
           \<and> list_all (\<lambda>x. tg_transport x \<in> set (candidates transport secure)) ts
           \<and> (case port of Some p \<Rightarrow> list_all (\<lambda>x. sa_port (tg_addr x) = p) ts | None \<Rightarrow> True)
       | Inl _ \<Rightarrow> parse_ip domain = None \<and> (case lookup_a_aaaa src domain of Inr ips \<Rightarrow> ips = [] | Inl _ \<Rightarrow> True))
    \<and> (case parse_ip domain of
         Some ip \<Rightarrow> res = Inr [target_at (transport_for transport secure)
           (unwrap_or port (default_port (transport_for transport secure))) ip]
       | None \<Rightarrow> True)"
  by (rule resolution_facts [OF assms])

text \<open>The DNS data of the tests in \<open>sip_resolver.rs\<close>.\<close>

definition example_dns :: lookup_source where
  "example_dns =
     \<lparr>lookup_srv = (\<lambda>name. if name = ''_sip._udp.example.com''
        then Inr [\<lparr>srv_target = ''low.example.com'', srv_port = 5060, srv_priority = 20, srv_weight = 100\<rparr>,
                  \<lparr>srv_target = ''high.example.com'', srv_port = 5060, srv_priority = 10, srv_weight = 100\<rparr>]
        else Inl ''Not found''),
      lookup_a_aaaa = (\<lambda>name. if name = ''high.example.com'' then Inr [V4 1 1 1 1]
        else if name = ''low.example.com'' then Inr [V4 2 2 2 2] else Inl ''Not found'')\<rparr>"

lemma resolution_witness:
  "\<exists>res. resolve_logic example_dns (\<lambda>k n. 0) ''example.com'' None (Some Udp) False = Some res
    \<and> (case res of
         Inr ts \<Rightarrow> ts \<noteq> [] \<and> list_all (\<lambda>x. tg_transport x \<in> set (candidates (Some Udp) False)) ts
       | Inl _ \<Rightarrow> False)"
proof -
  have "resolve_logic example_dns (\<lambda>k n. 0) ''example.com'' None (Some Udp) False
      = Some (Inr [target_at Udp 5060 (V4 1 1 1 1), target_at Udp 5060 (V4 2 2 2 2)])"
    by code_simp
  with resolution [of "\<lambda>k n. 0" example_dns "''example.com''" None "Some Udp" False] show ?thesis
    by (auto simp: in_range_def)
qed

end
