(* ===== verification/Transport_Layer.thy ===== *)
theory Transport_Layer
  imports Resolver Timer_Queue Sip_Connection "HOL-Library.Product_Lexorder" "HOL-Library.Option_ord" "HOL-Library.List_Lexorder"
begin

text \<open>
  \<open>transport/transport_layer.rs\<close>: the listening transports, the cache of connections by the
  address of the peer (a \<open>BTreeMap\<close>, kept as an association list in the order Rust derives on
  \<open>SipAddr\<close>), the look-up that finds, opens or falls back to a transport, the whitelist, and the
  task that serves a connection until it is gone; with the connectors of \<open>tcp.rs\<close>, \<open>tls.rs\<close> and
  \<open>websocket.rs\<close> and the accept step of their listeners. What the sockets and the TLS and
  WebSocket libraries do is given in a record \<open>net\<close>.
\<close>

section \<open>The order of addresses\<close>

fun transport_rank :: "transport \<Rightarrow> nat" where
  "transport_rank Udp = 0"
| "transport_rank Tcp = 1"
| "transport_rank Tls = 2"
| "transport_rank TlsSctp = 3"
| "transport_rank Sctp = 4"
| "transport_rank Ws = 5"
| "transport_rank Wss = 6"

lemma transport_rank_inject [simp]: "transport_rank a = transport_rank b \<longleftrightarrow> a = b"
  by (cases a; cases b) simp_all

instantiation transport :: linorder
begin

definition less_eq_transport :: "transport \<Rightarrow> transport \<Rightarrow> bool" where
  "a \<le> b \<longleftrightarrow> transport_rank a \<le> transport_rank b"

definition less_transport :: "transport \<Rightarrow> transport \<Rightarrow> bool" where
  "a < b \<longleftrightarrow> transport_rank a < transport_rank b"

instance
proof
  fix x y z :: "transport"
  note defs = less_eq_transport_def less_transport_def
  show "x < y \<longleftrightarrow> x \<le> y \<and> \<not> y \<le> x" unfolding defs by (rule less_le_not_le)
  show "x \<le> x" unfolding defs by (rule order_refl)
  show "x \<le> y \<Longrightarrow> y \<le> z \<Longrightarrow> x \<le> z" unfolding defs by (rule order_trans)
  show "x \<le> y \<or> y \<le> x" unfolding defs by (rule linear)
  show "x = y" if "x \<le> y" "y \<le> x"
    using antisym [OF that [unfolded defs]] by (simp)
qed

end

text \<open>\<open>IpAddr\<close> puts the addresses of version 4 first and compares their octets or segments.\<close>

fun ip_key :: "ip_addr \<Rightarrow> nat \<times> nat list" where
  "ip_key (V4 a b c d) = (0, [a, b, c, d])"
| "ip_key (V6 segments) = (1, segments)"

lemma ip_key_inject [simp]: "ip_key a = ip_key b \<longleftrightarrow> a = b"
  by (cases a; cases b) simp_all

fun host_key :: "host \<Rightarrow> nat \<times> nat list \<times> nat \<times> nat list" where
  "host_key (Domain d) = (0, map of_char d, 0, [])"
| "host_key (IpAddr ip) = (1, [], ip_key ip)"

lemma map_of_char_inject [simp]: "map (of_char :: char \<Rightarrow> nat) a = map of_char b \<longleftrightarrow> a = b"
  by (rule inj_map_eq_map) (auto intro: injI)

lemma host_key_inject [simp]: "host_key a = host_key b \<longleftrightarrow> a = b"
  by (cases a; cases b) simp_all

instantiation host :: linorder
begin

definition less_eq_host :: "host \<Rightarrow> host \<Rightarrow> bool" where
  "a \<le> b \<longleftrightarrow> host_key a \<le> host_key b"

definition less_host :: "host \<Rightarrow> host \<Rightarrow> bool" where
  "a < b \<longleftrightarrow> host_key a < host_key b"

instance
proof
  fix x y z :: "host"
  note defs = less_eq_host_def less_host_def
  show "x < y \<longleftrightarrow> x \<le> y \<and> \<not> y \<le> x" unfolding defs by (rule less_le_not_le)
  show "x \<le> x" unfolding defs by (rule order_refl)
  show "x \<le> y \<Longrightarrow> y \<le> z \<Longrightarrow> x \<le> z" unfolding defs by (rule order_trans)
  show "x \<le> y \<or> y \<le> x" unfolding defs by (rule linear)
  show "x = y" if "x \<le> y" "y \<le> x"
    using antisym [OF that [unfolded defs]] by (simp)
qed

end

text \<open>The derived order of the two records compares their fields in turn.\<close>

definition host_with_port_key :: "'a host_with_port_scheme \<Rightarrow> host \<times> port option \<times> 'a" where
  "host_with_port_key r = (hwp_host r, hwp_port r, host_with_port.more r)"

lemma host_with_port_key_inject [simp]: "host_with_port_key a = host_with_port_key b \<longleftrightarrow> a = b"
  by (auto simp: host_with_port_key_def)

instantiation host_with_port_ext :: (linorder) linorder
begin

definition less_eq_host_with_port_ext :: "'a host_with_port_ext \<Rightarrow> 'a host_with_port_ext \<Rightarrow> bool" where
  "a \<le> b \<longleftrightarrow> host_with_port_key a \<le> host_with_port_key b"

definition less_host_with_port_ext :: "'a host_with_port_ext \<Rightarrow> 'a host_with_port_ext \<Rightarrow> bool" where
  "a < b \<longleftrightarrow> host_with_port_key a < host_with_port_key b"

instance
proof
  fix x y z :: "'a host_with_port_ext"
  note defs = less_eq_host_with_port_ext_def less_host_with_port_ext_def
  show "x < y \<longleftrightarrow> x \<le> y \<and> \<not> y \<le> x" unfolding defs by (rule less_le_not_le)
  show "x \<le> x" unfolding defs by (rule order_refl)
  show "x \<le> y \<Longrightarrow> y \<le> z \<Longrightarrow> x \<le> z" unfolding defs by (rule order_trans)
  show "x \<le> y \<or> y \<le> x" unfolding defs by (rule linear)
  show "x = y" if "x \<le> y" "y \<le> x"
    using antisym [OF that [unfolded defs]] by simp
qed

end

definition sip_addr_key :: "'a sip_addr_scheme \<Rightarrow> transport option \<times> host_with_port \<times> 'a" where
  "sip_addr_key r = (sa_type r, sa_addr r, sip_addr.more r)"

lemma sip_addr_key_inject [simp]: "sip_addr_key a = sip_addr_key b \<longleftrightarrow> a = b"
  by (auto simp: sip_addr_key_def)

instantiation sip_addr_ext :: (linorder) linorder
begin

definition less_eq_sip_addr_ext :: "'a sip_addr_ext \<Rightarrow> 'a sip_addr_ext \<Rightarrow> bool" where
  "a \<le> b \<longleftrightarrow> sip_addr_key a \<le> sip_addr_key b"

definition less_sip_addr_ext :: "'a sip_addr_ext \<Rightarrow> 'a sip_addr_ext \<Rightarrow> bool" where
  "a < b \<longleftrightarrow> sip_addr_key a < sip_addr_key b"

instance
proof
  fix x y z :: "'a sip_addr_ext"
  note defs = less_eq_sip_addr_ext_def less_sip_addr_ext_def
  show "x < y \<longleftrightarrow> x \<le> y \<and> \<not> y \<le> x" unfolding defs by (rule less_le_not_le)
  show "x \<le> x" unfolding defs by (rule order_refl)
  show "x \<le> y \<Longrightarrow> y \<le> z \<Longrightarrow> x \<le> z" unfolding defs by (rule order_trans)
  show "x \<le> y \<or> y \<le> x" unfolding defs by (rule linear)
  show "x = y" if "x \<le> y" "y \<le> x"
    using antisym [OF that [unfolded defs]] by simp
qed

end

section \<open>Domain resolution\<close>

definition str_ends_with :: "string \<Rightarrow> string \<Rightarrow> bool" where
  "str_ends_with suffix s \<longleftrightarrow> length suffix \<le> length s \<and> drop (length s - length suffix) s = suffix"

text \<open>\<open>DefaultDomainResolver\<close>, over the source and the draws of its \<open>SipResolver\<close>; \<open>None\<close> is a panic
  of the resolver.\<close>

definition resolve_with_lookup :: "lookup_source \<Rightarrow> draws \<Rightarrow> sip_addr \<Rightarrow> (error + sip_addr) option" where
  "resolve_with_lookup src draw target =
     (case hwp_host (sa_addr target) of
        Domain domain \<Rightarrow>
          if domain = ''invalid'' \<or> str_ends_with ''.invalid'' domain then
            Some (Inl (DnsResolutionError (''cannot resolve .invalid domain: '' @ domain)))
          else
            (let secure = (sa_type target = Some Tls \<or> sa_type target = Some Wss \<or> sa_type target = Some TlsSctp) in
             map_option (\<lambda>res.
               case res of
                 Inl e \<Rightarrow> Inl (DnsResolutionError (show_hwp (sa_addr target) @ '': '' @ e))
               | Inr [] \<Rightarrow> Inl (DnsResolutionError (show_hwp (sa_addr target)))
               | Inr (first # _) \<Rightarrow>
                   Inr \<lparr>sa_type = Some (tg_transport first),
                        sa_addr = \<lparr>hwp_host = IpAddr (sa_ip (tg_addr first)), hwp_port = Some (sa_port (tg_addr first))\<rparr>\<rparr>)
               (resolve_logic src draw domain (hwp_port (sa_addr target)) (sa_type target) secure))
      | IpAddr _ \<Rightarrow> Some (Inl (DnsResolutionError (show_hwp (sa_addr target)))))"

section \<open>The layer\<close>

record tls_config =
  tc_cert :: "bytes option"
  tc_key :: "bytes option"
  tc_client_cert :: "bytes option"
  tc_client_key :: "bytes option"
  tc_ca_certs :: "bytes option"
  tc_sni_hostname :: "string option"

definition tls_config_default :: tls_config where
  "tls_config_default =
     \<lparr>tc_cert = None, tc_key = None, tc_client_cert = None, tc_client_key = None, tc_ca_certs = None, tc_sni_hostname = None\<rparr>"

datatype transport_event =
    Incoming sip_message sip_connection sip_addr
  | NewConnection sip_connection
  | ClosedConnection sip_connection

text \<open>
  A cancel token belongs to the state a stream's handles share, so it is known by the kind and the
  identity of the stream; all tokens of connections are children of the layer's own.
\<close>

record transport_layer =
  tl_outbound :: "sip_addr option"
  tl_listens :: "sip_connection list"
  tl_connections :: "(sip_addr \<times> sip_connection) list"
  tl_events :: "transport_event list"
  tl_receiver_gone :: bool
  tl_whitelist :: "(ip_addr \<Rightarrow> bool) option"
  tl_tls_config :: "tls_config option"
  tl_ws_path :: "string option"
  tl_root_cancelled :: bool
  tl_cancelled :: "(conn_kind \<times> nat) set"

text \<open>
  What is outside: the domain resolver the layer was built with, the network interfaces, which
  connections were made with a token, and what dialling gives (the local address and the identity of
  the new stream). \<open>net_tls_check\<close> is the loading of certificates into a TLS client configuration,
  \<open>net_platform_tls\<close> the connector a platform registered in place of the built-in one.
\<close>

record net =
  net_resolve :: "sip_addr \<Rightarrow> error + sip_addr"
  net_interfaces :: "(bool \<times> ip_addr) list option"
  net_has_token :: "sip_connection \<Rightarrow> bool"
  net_tcp_dial :: "socket_addr \<Rightarrow> error + (socket_addr \<times> nat)"
  net_tls_check :: "tls_config \<Rightarrow> error + unit"
  net_server_name :: "string \<Rightarrow> bool"
  net_tls_dial :: "tls_config \<Rightarrow> string \<Rightarrow> socket_addr \<Rightarrow> error + (socket_addr \<times> nat)"
  net_platform_tls :: "(tls_config \<Rightarrow> string \<Rightarrow> socket_addr \<Rightarrow> error + (socket_addr \<times> nat)) option"
  net_ws_dial :: "string \<Rightarrow> error + (socket_addr \<times> nat)"
  net_bind :: "sip_connection \<Rightarrow> error + unit"

definition transport_layer_new :: transport_layer where
  "transport_layer_new =
     \<lparr>tl_outbound = None, tl_listens = [], tl_connections = [], tl_events = [], tl_receiver_gone = False,
      tl_whitelist = None, tl_tls_config = None, tl_ws_path = None, tl_root_cancelled = False, tl_cancelled = {}\<rparr>"

section \<open>Connectors\<close>

fun ip_unspecified :: "ip_addr \<Rightarrow> bool" where
  "ip_unspecified (V4 a b c d) \<longleftrightarrow> a = 0 \<and> b = 0 \<and> c = 0 \<and> d = 0"
| "ip_unspecified (V6 segments) \<longleftrightarrow> list_all (\<lambda>s. s = 0) segments"

text \<open>The loop over the interfaces: the first IPv4 address that is not a loopback address.\<close>

fun first_interface :: "(bool \<times> ip_addr) list \<Rightarrow> ip_addr" where
  "first_interface [] = V4 127 0 0 1"
| "first_interface ((loopback, ip) # rest) =
     (if loopback then first_interface rest
      else (case ip of V4 a b c d \<Rightarrow> V4 a b c d | V6 _ \<Rightarrow> first_interface rest))"

definition resolve_bind_address :: "net \<Rightarrow> socket_addr \<Rightarrow> socket_addr" where
  "resolve_bind_address net addr =
     (if ip_unspecified (sa_ip addr) then
        (case net_interfaces net of
           None \<Rightarrow> addr
         | Some interfaces \<Rightarrow> \<lparr>sa_ip = first_interface interfaces, sa_port = sa_port addr\<rparr>)
      else addr)"

definition stream_connection :: "conn_kind \<Rightarrow> nat \<Rightarrow> sip_addr \<Rightarrow> sip_addr \<Rightarrow> sip_connection" where
  "stream_connection kind inner local_addr remote =
     \<lparr>conn_kind = kind, conn_inner = inner, conn_addr = local_addr, conn_remote = Some remote\<rparr>"

definition typed_addr :: "transport \<Rightarrow> socket_addr \<Rightarrow> sip_addr" where
  "typed_addr t a = \<lparr>sa_type = Some t, sa_addr = hwp_of_socket_addr a\<rparr>"

definition tcp_connect :: "net \<Rightarrow> sip_addr \<Rightarrow> error + sip_connection" where
  "tcp_connect net remote =
     and_then (get_socketaddr remote) (\<lambda>sa.
     and_then (net_tcp_dial net sa) (\<lambda>(local_addr, inner).
     Inr (stream_connection ConnTcp inner (typed_addr Tcp (resolve_bind_address net local_addr)) remote)))"

text \<open>\<open>format!("{}:{}", domain, port).parse()\<close> as a \<open>SocketAddr\<close> (without a scope id): only a literal
  in the place of the domain parses.\<close>

definition parse_domain_addr :: "string \<Rightarrow> port \<Rightarrow> error + socket_addr" where
  "parse_domain_addr d p =
     (case parse_ip d of
        Some (V4 a b c e) \<Rightarrow> Inr \<lparr>sa_ip = V4 a b c e, sa_port = p\<rparr>
      | _ \<Rightarrow>
          (case d of
             CHR ''['' # r \<Rightarrow>
               if r \<noteq> [] \<and> last r = CHR '']'' then
                 (case parse_ip (butlast r) of
                    Some (V6 gs) \<Rightarrow> Inr \<lparr>sa_ip = V6 gs, sa_port = p\<rparr>
                  | _ \<Rightarrow> Inl AddrParseError)
               else Inl AddrParseError
           | _ \<Rightarrow> Inl AddrParseError))"

definition tls_socket_addr :: "sip_addr \<Rightarrow> error + socket_addr" where
  "tls_socket_addr remote =
     (let port = unwrap_or (hwp_port (sa_addr remote)) 5061 in
      case hwp_host (sa_addr remote) of
        Domain d \<Rightarrow> parse_domain_addr d port
      | IpAddr ip \<Rightarrow> Inr \<lparr>sa_ip = ip, sa_port = port\<rparr>)"

definition host_text :: "host \<Rightarrow> string" where
  "host_text h = (case h of Domain d \<Rightarrow> d | IpAddr ip \<Rightarrow> show_ip ip)"

definition tls_server_name :: "tls_config \<Rightarrow> sip_addr \<Rightarrow> string" where
  "tls_server_name config remote = unwrap_or (tc_sni_hostname config) (host_text (hwp_host (sa_addr remote)))"

definition tls_connect :: "net \<Rightarrow> tls_config \<Rightarrow> sip_addr \<Rightarrow> error + sip_connection" where
  "tls_connect net config remote =
     (let name = tls_server_name config remote;
          made = (\<lambda>(local_addr, inner). Inr (stream_connection ConnTls inner (typed_addr Tls local_addr) remote))
      in case net_platform_tls net of
           Some connector \<Rightarrow>
             and_then (tls_socket_addr remote) (\<lambda>sa. and_then (connector config name sa) made)
         | None \<Rightarrow>
             and_then (net_tls_check net config) (\<lambda>_.
             and_then (tls_socket_addr remote) (\<lambda>sa.
             if \<not> net_server_name net name then Inl (Error (''Invalid DNS name: '' @ name))
             else and_then (net_tls_dial net config name sa) made)))"

definition ws_url :: "sip_addr \<Rightarrow> string option \<Rightarrow> string" where
  "ws_url remote path =
     (if sa_type remote = Some Wss then ''wss'' else ''ws'') @ ''://''
       @ host_text (hwp_host (sa_addr remote)) @ '':'' @ show_nat (unwrap_or (hwp_port (sa_addr remote)) 5060)
       @ unwrap_or path ''/''"

definition ws_connect :: "net \<Rightarrow> sip_addr \<Rightarrow> string option \<Rightarrow> error + sip_connection" where
  "ws_connect net remote path =
     and_then (net_ws_dial net (ws_url remote path)) (\<lambda>(local_addr, inner).
     Inr (stream_connection ConnWebSocket inner (typed_addr (unwrap_or (sa_type remote) Ws) local_addr) remote))"

section \<open>Operations\<close>

definition set_whitelist :: "(ip_addr \<Rightarrow> bool) option \<Rightarrow> transport_layer \<Rightarrow> transport_layer" where
  "set_whitelist w s = s\<lparr>tl_whitelist := w\<rparr>"

definition is_whitelisted :: "transport_layer \<Rightarrow> ip_addr \<Rightarrow> bool" where
  "is_whitelisted s ip = (case tl_whitelist s of Some allow \<Rightarrow> allow ip | None \<Rightarrow> True)"

definition set_tls_config :: "tls_config option \<Rightarrow> transport_layer \<Rightarrow> transport_layer" where
  "set_tls_config c s = s\<lparr>tl_tls_config := c\<rparr>"

definition set_ws_path :: "string option \<Rightarrow> transport_layer \<Rightarrow> transport_layer" where
  "set_ws_path p s = s\<lparr>tl_ws_path := p\<rparr>"

definition add_listener :: "sip_connection \<Rightarrow> transport_layer \<Rightarrow> transport_layer" where
  "add_listener c s = s\<lparr>tl_listens := tl_listens s @ [c]\<rparr>"

definition del_listener :: "sip_addr \<Rightarrow> transport_layer \<Rightarrow> transport_layer" where
  "del_listener a s = s\<lparr>tl_listens := filter (\<lambda>t. conn_addr t \<noteq> a) (tl_listens s)\<rparr>"

definition layer_addrs :: "transport_layer \<Rightarrow> sip_addr list" where
  "layer_addrs s = map conn_addr (tl_listens s) @ map (conn_addr \<circ> snd) (tl_connections s)"

text \<open>The unbounded channel to the endpoint: sending fails once the receiver is gone.\<close>

definition send_event :: "transport_event \<Rightarrow> transport_layer \<Rightarrow> bool \<times> transport_layer" where
  "send_event ev s = (if tl_receiver_gone s then (False, s) else (True, s\<lparr>tl_events := tl_events s @ [ev]\<rparr>))"

definition connection_cancelled :: "net \<Rightarrow> transport_layer \<Rightarrow> sip_connection \<Rightarrow> bool" where
  "connection_cancelled net s c \<longleftrightarrow>
     net_has_token net c \<and> (tl_root_cancelled s \<or> (conn_kind c, conn_inner c) \<in> tl_cancelled s)"

definition retire_connection :: "net \<Rightarrow> sip_connection \<Rightarrow> transport_layer \<Rightarrow> transport_layer" where
  "retire_connection net c s =
     (if \<not> is_stream c then s
      else
        (let s = (if net_has_token net c then s\<lparr>tl_cancelled := insert (conn_kind c, conn_inner c) (tl_cancelled s)\<rparr> else s) in
         case get_remote_addr c of
           None \<Rightarrow> s
         | Some a \<Rightarrow>
             (case map_of (tl_connections s) a of
                Some cached \<Rightarrow>
                  if is_same_stream cached c then s\<lparr>tl_connections := snd (btree_remove a (tl_connections s))\<rparr> else s
              | None \<Rightarrow> s)))"

text \<open>The task \<open>serve_connection\<close> spawns: its first send, and what it does when the serve loop has
  ended or its token is cancelled.\<close>

definition serve_started :: "sip_connection \<Rightarrow> transport_layer \<Rightarrow> bool \<times> transport_layer" where
  "serve_started c s = send_event (NewConnection c) s"

definition serve_ended :: "net \<Rightarrow> sip_connection \<Rightarrow> transport_layer \<Rightarrow> transport_layer" where
  "serve_ended net c s = snd (send_event (ClosedConnection c) (retire_connection net c s))"

definition add_connection :: "sip_connection \<Rightarrow> transport_layer \<Rightarrow> transport_layer" where
  "add_connection c s =
     (case get_remote_addr c of
        Some a \<Rightarrow> snd (serve_started c (s\<lparr>tl_connections := btree_insert a c (tl_connections s)\<rparr>))
      | None \<Rightarrow> s)"

definition del_connection :: "sip_addr \<Rightarrow> transport_layer \<Rightarrow> transport_layer" where
  "del_connection a s = s\<lparr>tl_connections := snd (btree_remove a (tl_connections s))\<rparr>"

text \<open>Dropping a \<open>TransportLayer\<close> value cancels the layer's token.\<close>

definition drop_layer :: "transport_layer \<Rightarrow> transport_layer" where
  "drop_layer s = s\<lparr>tl_root_cancelled := True\<rparr>"

section \<open>Look-up\<close>

definition lookup_target :: "net \<Rightarrow> sip_addr \<Rightarrow> transport_layer \<Rightarrow> error + sip_addr" where
  "lookup_target net destination s =
     (let target = unwrap_or (tl_outbound s) destination in
      case hwp_host (sa_addr target) of
        Domain _ \<Rightarrow> net_resolve net target
      | IpAddr _ \<Rightarrow> Inr target)"

definition original_domain :: "sip_addr \<Rightarrow> transport_layer \<Rightarrow> string option" where
  "original_domain destination s =
     (case hwp_host (sa_addr (unwrap_or (tl_outbound s) destination)) of Domain d \<Rightarrow> Some d | IpAddr _ \<Rightarrow> None)"

definition effective_tls_config :: "string option \<Rightarrow> transport_layer \<Rightarrow> tls_config" where
  "effective_tls_config domain s =
     (let config = unwrap_or (tl_tls_config s) tls_config_default in
      if tc_sni_hostname config = None then config\<lparr>tc_sni_hostname := domain\<rparr> else config)"

text \<open>The connection opened for a target on a stream transport; \<open>None\<close> for the other transports.\<close>

definition open_stream :: "net \<Rightarrow> string option \<Rightarrow> sip_addr \<Rightarrow> transport_layer \<Rightarrow> (error + sip_connection) option" where
  "open_stream net domain target s =
     (case sa_type target of
        Some Tcp \<Rightarrow> Some (tcp_connect net target)
      | Some Tls \<Rightarrow> Some (tls_connect net (effective_tls_config domain s) target)
      | Some Ws \<Rightarrow> Some (ws_connect net target (tl_ws_path s))
      | Some Wss \<Rightarrow> Some (ws_connect net target (tl_ws_path s))
      | _ \<Rightarrow> None)"

fun scan_listens :: "sip_addr \<Rightarrow> sip_connection option \<Rightarrow> sip_connection list \<Rightarrow> sip_connection option" where
  "scan_listens target first_udp [] = first_udp"
| "scan_listens target first_udp (t # ts) =
     (if conn_addr t = target then Some t
      else scan_listens target
        (if sa_type (conn_addr t) = Some Udp \<and> first_udp = None then Some t else first_udp) ts)"

text \<open>Rust's \<open>Debug\<close> text of the transport of a target.\<close>

fun debug_transport :: "transport \<Rightarrow> string" where
  "debug_transport Udp = ''Udp''"
| "debug_transport Tcp = ''Tcp''"
| "debug_transport Tls = ''Tls''"
| "debug_transport TlsSctp = ''TlsSctp''"
| "debug_transport Sctp = ''Sctp''"
| "debug_transport Ws = ''Ws''"
| "debug_transport Wss = ''Wss''"

definition unsupported_transport :: "sip_addr \<Rightarrow> error" where
  "unsupported_transport target =
     TransportLayerError (''unsupported transport type: '' @
       (case sa_type target of Some t \<Rightarrow> ''Some('' @ debug_transport t @ '')'' | None \<Rightarrow> ''None'')) target"

text \<open>
  A look-up awaits the resolver and the dial, and other tasks run meanwhile. It is therefore given in
  two parts: what it does before it dials (with the layer as it is then), and what it does with the
  stream once it is open. \<open>layer_lookup\<close> is the look-up nobody interrupts.
\<close>

datatype lookup_plan =
    UseCached sip_connection sip_addr
  | UseOpened "error + sip_connection" sip_addr
  | UseListener sip_connection sip_addr
  | NoTransport error

definition plan_lookup :: "net \<Rightarrow> sip_addr \<Rightarrow> transport_layer \<Rightarrow> lookup_plan" where
  "plan_lookup net destination s =
     (case lookup_target net destination s of
        Inl e \<Rightarrow> NoTransport e
      | Inr target \<Rightarrow>
          (case map_of (tl_connections s) target of
             Some c \<Rightarrow> UseCached c target
           | None \<Rightarrow>
               (case open_stream net (original_domain destination s) target s of
                  Some opened \<Rightarrow> UseOpened opened target
                | None \<Rightarrow>
                    (case scan_listens target None (tl_listens s) of
                       Some c \<Rightarrow> UseListener c target
                     | None \<Rightarrow> NoTransport (unsupported_transport target)))))"

definition finish_lookup :: "lookup_plan \<Rightarrow> transport_layer \<Rightarrow> (error + (sip_connection \<times> sip_addr)) \<times> transport_layer" where
  "finish_lookup plan s =
     (case plan of
        UseCached c target \<Rightarrow> (Inr (c, target), s)
      | UseOpened opened target \<Rightarrow>
          (case opened of
             Inl e \<Rightarrow> (Inl e, s)
           | Inr c \<Rightarrow> (Inr (c, target), add_connection c s))
      | UseListener c target \<Rightarrow> (Inr (c, target), s)
      | NoTransport e \<Rightarrow> (Inl e, s))"

definition layer_lookup :: "net \<Rightarrow> sip_addr \<Rightarrow> transport_layer \<Rightarrow> (error + (sip_connection \<times> sip_addr)) \<times> transport_layer" where
  "layer_lookup net destination s = finish_lookup (plan_lookup net destination s) s"

section \<open>Listeners\<close>

text \<open>One connection accepted by a listening transport: the address it came from, what the stream
  says its peer is, whether the TLS or WebSocket handshake succeeds, and the new stream's identity.\<close>

record arrival =
  ar_remote :: socket_addr
  ar_peer :: "error + socket_addr"
  ar_handshake :: bool
  ar_inner :: nat

definition accepted :: "sip_connection \<Rightarrow> arrival \<Rightarrow> sip_connection option" where
  "accepted listener a =
     (case conn_kind listener of
        ConnTcpListener \<Rightarrow>
          (case ar_peer a of
             Inr peer \<Rightarrow> Some (stream_connection ConnTcp (ar_inner a) (conn_addr listener) (typed_addr Tcp peer))
           | Inl _ \<Rightarrow> None)
      | ConnTlsListener \<Rightarrow>
          if ar_handshake a
          then Some (stream_connection ConnTls (ar_inner a) (conn_addr listener) (typed_addr Tls (ar_remote a))) else None
      | ConnWebSocketListener \<Rightarrow>
          if ar_handshake a
          then Some (stream_connection ConnWebSocket (ar_inner a) (conn_addr listener)
            \<lparr>sa_type = sa_type (conn_addr listener), sa_addr = hwp_of_socket_addr (ar_remote a)\<rparr>) else None
      | _ \<Rightarrow> None)"

definition accept_connection :: "sip_connection \<Rightarrow> arrival \<Rightarrow> transport_layer \<Rightarrow> transport_layer" where
  "accept_connection listener a s =
     (if \<not> is_whitelisted s (sa_ip (ar_remote a)) then s
      else (case accepted listener a of Some c \<Rightarrow> add_connection c s | None \<Rightarrow> s))"

text \<open>Starting a listening transport, and all of them: a failure of one is logged and the others are
  started.\<close>

definition serve_listener :: "net \<Rightarrow> sip_connection \<Rightarrow> (error + unit)" where
  "serve_listener net c =
     (case conn_kind c of
        ConnTcpListener \<Rightarrow> net_bind net c
      | ConnTlsListener \<Rightarrow> net_bind net c
      | ConnWebSocketListener \<Rightarrow> net_bind net c
      | _ \<Rightarrow> Inr ())"

definition serve_listens :: "net \<Rightarrow> transport_layer \<Rightarrow> (error + unit) \<times> (sip_connection \<times> error) list" where
  "serve_listens net s =
     (Inr (), List.map_filter (\<lambda>c. case serve_listener net c of Inl e \<Rightarrow> Some (c, e) | Inr _ \<Rightarrow> None) (tl_listens s))"

end
