(* ===== verification/Transport_Props.thy ===== *)
theory Transport_Props
  imports Transport_Layer
begin

text \<open>
  What the transport layer promises the transactions above it: its cache is keyed by the peer and
  never holds a retired stream, a look-up hands out the stream it opened until that is retired, and
  look-ups that overtake each other do no harm to the newer stream.
\<close>

section \<open>The map interface\<close>

text \<open>The layer uses its \<open>BTreeMap\<close> through three operations.\<close>

locale ordered_map =
  fixes ok :: "'m \<Rightarrow> bool"
    and put :: "'k \<Rightarrow> 'v \<Rightarrow> 'm \<Rightarrow> 'm"
    and del :: "'k \<Rightarrow> 'm \<Rightarrow> 'm"
    and get :: "'m \<Rightarrow> 'k \<Rightarrow> 'v option"
  assumes ok_put: "ok m \<Longrightarrow> ok (put k v m)"
    and ok_del: "ok m \<Longrightarrow> ok (del k m)"
    and get_put: "ok m \<Longrightarrow> get (put k v m) = (get m)(k \<mapsto> v)"
    and get_del: "ok m \<Longrightarrow> get (del k m) = (get m)(k := None)"
begin

definition every :: "('k \<Rightarrow> 'v \<Rightarrow> bool) \<Rightarrow> 'm \<Rightarrow> bool" where
  "every P m \<longleftrightarrow> (\<forall>k v. get m k = Some v \<longrightarrow> P k v)"

lemma every_put: "ok m \<Longrightarrow> every P m \<Longrightarrow> P k v \<Longrightarrow> every P (put k v m)"
  by (simp add: every_def get_put)

lemma every_del: "ok m \<Longrightarrow> every P m \<Longrightarrow> every P (del k m)"
  by (simp add: every_def get_del)

lemma every_mono: "every P m \<Longrightarrow> (\<And>k v. get m k = Some v \<Longrightarrow> P k v \<Longrightarrow> Q k v) \<Longrightarrow> every Q m"
  by (simp add: every_def)

lemma put_put: "ok m \<Longrightarrow> get (put k v (put k w m)) = get (put k v m)"
  by (simp add: get_put ok_put)

lemmas specs = ok_put ok_del get_put get_del

end

interpretation cache: ordered_map btree_ok btree_insert "\<lambda>k m. snd (btree_remove k m)" map_of
  by unfold_locales (simp_all add: btree_ok_insert map_of_btree_insert btree_remove_spec)

section \<open>The layer's invariant\<close>

abbreviation stream_id :: "sip_connection \<Rightarrow> conn_kind \<times> nat" where
  "stream_id c \<equiv> (conn_kind c, conn_inner c)"

text \<open>The handles of a stream share its state, the peer's address included.\<close>

definition peer_known :: "(conn_kind \<times> nat \<Rightarrow> sip_addr) \<Rightarrow> sip_connection \<Rightarrow> bool" where
  "peer_known peer c \<longleftrightarrow> (is_stream c \<longrightarrow> conn_remote c = Some (peer (stream_id c)))"

definition cache_entry_ok ::
    "(conn_kind \<times> nat \<Rightarrow> sip_addr) \<Rightarrow> (conn_kind \<times> nat) set \<Rightarrow> sip_addr \<Rightarrow> sip_connection \<Rightarrow> bool" where
  "cache_entry_ok peer retired a c \<longleftrightarrow>
     get_remote_addr c = Some a \<and> peer_known peer c \<and> (is_stream c \<longrightarrow> stream_id c \<notin> retired)"

definition cache_ok :: "(conn_kind \<times> nat \<Rightarrow> sip_addr) \<Rightarrow> transport_layer \<Rightarrow> bool" where
  "cache_ok peer s \<longleftrightarrow>
     btree_ok (tl_connections s) \<and> cache.every (cache_entry_ok peer (tl_cancelled s)) (tl_connections s)"

text \<open>
  One atomic step of the layer, whichever task takes it. A connection is added (by a look-up that has
  opened it, by a listening transport, by the application) before it is ever retired.
\<close>

inductive layer_step :: "net \<Rightarrow> (conn_kind \<times> nat \<Rightarrow> sip_addr) \<Rightarrow> transport_layer \<Rightarrow> transport_layer \<Rightarrow> bool"
  for net :: net and peer :: "conn_kind \<times> nat \<Rightarrow> sip_addr" where
  listening: "layer_step net peer s (add_listener c s)"
| stopped: "layer_step net peer s (del_listener a s)"
| added: "peer_known peer c \<Longrightarrow> stream_id c \<notin> tl_cancelled s \<Longrightarrow> layer_step net peer s (add_connection c s)"
| removed: "layer_step net peer s (del_connection a s)"
| retired: "peer_known peer c \<Longrightarrow> layer_step net peer s (retire_connection net c s)"
| ended: "peer_known peer c \<Longrightarrow> layer_step net peer s (serve_ended net c s)"
| configured: "layer_step net peer s (set_tls_config config (set_ws_path path (set_whitelist w s)))"
| routed: "layer_step net peer s (s\<lparr>tl_outbound := a\<rparr>)"
| received: "layer_step net peer s (s\<lparr>tl_events := tl (tl_events s)\<rparr>)"
| unreceived: "layer_step net peer s (s\<lparr>tl_receiver_gone := True\<rparr>)"
| dropped: "layer_step net peer s (drop_layer s)"

inductive_cases layer_stepE: "layer_step net peer s s'"

lemma send_event_fields [simp]:
  "tl_connections (snd (send_event ev s)) = tl_connections s"
  "tl_cancelled (snd (send_event ev s)) = tl_cancelled s"
  "tl_outbound (snd (send_event ev s)) = tl_outbound s"
  "tl_listens (snd (send_event ev s)) = tl_listens s"
  "tl_tls_config (snd (send_event ev s)) = tl_tls_config s"
  "tl_ws_path (snd (send_event ev s)) = tl_ws_path s"
  by (simp_all add: send_event_def)

lemma add_connection_fields [simp]:
  "tl_cancelled (add_connection c s) = tl_cancelled s"
  "tl_outbound (add_connection c s) = tl_outbound s"
  "tl_listens (add_connection c s) = tl_listens s"
  "tl_tls_config (add_connection c s) = tl_tls_config s"
  "tl_ws_path (add_connection c s) = tl_ws_path s"
  by (simp_all add: add_connection_def serve_started_def split: option.split)

lemma add_connection_cache:
  "tl_connections (add_connection c s) =
     (case get_remote_addr c of Some a \<Rightarrow> btree_insert a c (tl_connections s) | None \<Rightarrow> tl_connections s)"
  by (simp add: add_connection_def serve_started_def split: option.split)

definition retired_ids :: "net \<Rightarrow> sip_connection \<Rightarrow> (conn_kind \<times> nat) set \<Rightarrow> (conn_kind \<times> nat) set" where
  "retired_ids net c r = (if is_stream c \<and> net_has_token net c then insert (stream_id c) r else r)"

lemma retire_cancelled: "tl_cancelled (retire_connection net c s) = retired_ids net c (tl_cancelled s)"
  by (simp add: retire_connection_def retired_ids_def Let_def split: option.split)

lemma retire_cache:
  "tl_connections (retire_connection net c s) =
     (case get_remote_addr c of
        Some a \<Rightarrow>
          (case map_of (tl_connections s) a of
             Some cached \<Rightarrow> if is_same_stream cached c then snd (btree_remove a (tl_connections s)) else tl_connections s
           | None \<Rightarrow> tl_connections s)
      | None \<Rightarrow> tl_connections s)"
proof (cases "is_stream c")
  case False
  then have "\<not> is_same_stream cached c" for cached using same_stream_streams by blast
  with False show ?thesis by (simp add: retire_connection_def split: option.split)
qed (simp add: retire_connection_def Let_def split: option.split)

lemma retire_fields [simp]:
  "tl_outbound (retire_connection net c s) = tl_outbound s"
  "tl_listens (retire_connection net c s) = tl_listens s"
  "tl_tls_config (retire_connection net c s) = tl_tls_config s"
  "tl_ws_path (retire_connection net c s) = tl_ws_path s"
  by (simp_all add: retire_connection_def Let_def split: option.split)

lemma serve_ended_fields [simp]:
  "tl_connections (serve_ended net c s) = tl_connections (retire_connection net c s)"
  "tl_cancelled (serve_ended net c s) = tl_cancelled (retire_connection net c s)"
  by (simp_all add: serve_ended_def)

lemma same_stream_id: "is_stream a \<Longrightarrow> is_stream b \<Longrightarrow> is_same_stream a b \<longleftrightarrow> stream_id a = stream_id b"
  by (cases "conn_kind a"; cases "conn_kind b"; auto simp: is_same_stream_def is_stream_def)

lemma stream_remote: "is_stream c \<Longrightarrow> get_remote_addr c = conn_remote c"
  by (cases "conn_kind c") (simp_all add: is_stream_def get_remote_addr_def)

lemma cache_okI:
  "cache_ok peer s \<Longrightarrow> tl_connections s' = tl_connections s \<Longrightarrow> tl_cancelled s' = tl_cancelled s \<Longrightarrow> cache_ok peer s'"
  by (simp add: cache_ok_def)

lemma add_ok:
  assumes "cache_ok peer s" and "peer_known peer c" and "stream_id c \<notin> tl_cancelled s"
  shows "cache_ok peer (add_connection c s)"
proof (cases "get_remote_addr c")
  case None
  with assms(1) show ?thesis by (simp add: cache_ok_def add_connection_cache)
next
  case (Some a)
  with assms show ?thesis
    by (auto simp: cache_ok_def add_connection_cache cache_entry_ok_def intro!: cache.specs cache.every_put)
qed

text \<open>Retiring keeps the invariant: the stream leaves the cache with its token.\<close>

lemma retire_ok:
  assumes "cache_ok peer s" and "peer_known peer c"
  shows "cache_ok peer (retire_connection net c s)"
proof -
  let ?m = "tl_connections s"
  let ?m' = "tl_connections (retire_connection net c s)"
  have ok: "btree_ok ?m" and entry: "map_of ?m a = Some x \<Longrightarrow> cache_entry_ok peer (tl_cancelled s) a x" for a x
    using assms(1) by (auto simp: cache_ok_def cache.every_def)
  have ok': "btree_ok ?m'" using ok by (auto simp: retire_cache intro: cache.ok_del split: option.split)
  have kept: "map_of ?m a = Some x" if "map_of ?m' a = Some x" for a x
    using that cache.get_del [OF ok] by (auto simp: retire_cache split: option.splits if_splits)
  have gone: "stream_id x \<noteq> stream_id c" if x: "map_of ?m' a = Some x" and sx: "is_stream x" and sc: "is_stream c" for a x
  proof
    assume same: "stream_id x = stream_id c"
    have e: "cache_entry_ok peer (tl_cancelled s) a x" using kept [OF x] by (rule entry)
    with sx have "conn_remote x = Some a" "a = peer (stream_id x)"
      by (auto simp: cache_entry_ok_def peer_known_def stream_remote)
    with assms(2) sc same have "get_remote_addr c = Some a" by (simp add: peer_known_def stream_remote)
    moreover have "is_same_stream x c" using sx sc same by (simp add: same_stream_id)
    ultimately have "?m' = snd (btree_remove a ?m)" using kept [OF x] by (simp add: retire_cache)
    with x cache.get_del [OF ok] show False by simp
  qed
  show ?thesis
    unfolding cache_ok_def cache.every_def
  proof (intro conjI allI impI)
    fix a x assume x: "map_of ?m' a = Some x"
    then show "cache_entry_ok peer (tl_cancelled (retire_connection net c s)) a x"
      using entry [OF kept [OF x]] gone [OF x] by (auto simp: cache_entry_ok_def retire_cancelled retired_ids_def)
  qed (rule ok')
qed

lemma cache_ok_same:
  "tl_connections s' = tl_connections s \<Longrightarrow> tl_cancelled s' = tl_cancelled s \<Longrightarrow> cache_ok peer s' = cache_ok peer s"
  by (simp add: cache_ok_def)

lemma layer_step_ok: "layer_step net peer s s' \<Longrightarrow> cache_ok peer s \<Longrightarrow> cache_ok peer s'"
proof (induction rule: layer_step.induct)
  case (added c s)
  then show ?case by (intro add_ok)
next
  case (removed s a)
  then show ?case by (simp add: cache_ok_def del_connection_def cache.ok_del cache.every_del)
next
  case (retired c s)
  then show ?case by (intro retire_ok)
next
  case (ended c s)
  then show ?case using retire_ok [OF ended(2,1), of net] by (simp add: cache_ok_def)
qed (simp_all add: cache_ok_def add_listener_def del_listener_def set_tls_config_def set_ws_path_def set_whitelist_def drop_layer_def)

lemma cache_ok_new: "cache_ok peer transport_layer_new"
  by (simp add: cache_ok_def transport_layer_new_def btree_ok_def cache.every_def)

lemma layer_steps_ok: "(layer_step net peer)\<^sup>*\<^sup>* s s' \<Longrightarrow> cache_ok peer s \<Longrightarrow> cache_ok peer s'"
  by (induction rule: rtranclp_induct) (auto intro: layer_step_ok)

lemma layer_step_cancelled: "layer_step net peer s s' \<Longrightarrow> tl_cancelled s \<subseteq> tl_cancelled s'"
  by (induction rule: layer_step.induct)
    (auto simp: retire_cancelled retired_ids_def add_listener_def del_listener_def set_tls_config_def set_ws_path_def
      set_whitelist_def drop_layer_def del_connection_def)

lemma layer_steps_cancelled: "(layer_step net peer)\<^sup>*\<^sup>* s s' \<Longrightarrow> tl_cancelled s \<subseteq> tl_cancelled s'"
  by (induction rule: rtranclp_induct) (auto dest: layer_step_cancelled)

section \<open>What a look-up finds\<close>

lemma plan_cached: "plan_lookup net d s = UseCached c t \<Longrightarrow> map_of (tl_connections s) t = Some c"
  by (auto simp: plan_lookup_def split: sum.splits option.splits)

text \<open>C12: in every layer the steps reach, a look-up that hands out a cached connection hands out one
  whose peer is the target, and never a stream that was retired at any time before; whatever was
  done to the layer since.\<close>

theorem retired_never_found:
  assumes "(layer_step net peer)\<^sup>*\<^sup>* transport_layer_new s" and "peer_known peer c" and "is_stream c" and "net_has_token net c"
    and "(layer_step net peer)\<^sup>*\<^sup>* (retire_connection net c s) s'"
    and "plan_lookup net' d s' = UseCached found target"
  shows "get_remote_addr found = Some target \<and> \<not> is_same_stream found c"
proof -
  have ok: "cache_ok peer s'"
    by (rule layer_steps_ok [OF assms(5) retire_ok [OF layer_steps_ok [OF assms(1) cache_ok_new] assms(2)]])
  have entry: "cache_entry_ok peer (tl_cancelled s') target found"
    using ok plan_cached [OF assms(6)] by (simp add: cache_ok_def cache.every_def)
  have "stream_id c \<in> tl_cancelled s'"
    using layer_steps_cancelled [OF assms(5)] assms(3,4) by (auto simp: retire_cancelled retired_ids_def)
  moreover have "is_stream found" "stream_id found = stream_id c" if "is_same_stream found c"
    using that same_stream_streams [OF that] same_stream_id [of found c] by simp_all
  ultimately show ?thesis using entry by (auto simp: cache_entry_ok_def)
qed

text \<open>A dialled stream carries the kind of its transport and the target as its peer.\<close>

definition stream_kind :: "transport \<Rightarrow> conn_kind option" where
  "stream_kind t =
     (case t of Tcp \<Rightarrow> Some ConnTcp | Tls \<Rightarrow> Some ConnTls | Ws \<Rightarrow> Some ConnWebSocket | Wss \<Rightarrow> Some ConnWebSocket | _ \<Rightarrow> None)"

lemma stream_connection_facts [simp]:
  "conn_kind (stream_connection k i l r) = k" "conn_inner (stream_connection k i l r) = i"
  "conn_addr (stream_connection k i l r) = l" "conn_remote (stream_connection k i l r) = Some r"
  by (simp_all add: stream_connection_def)

lemma opened_stream:
  assumes "open_stream net sni target s = Some (Inr c)"
  shows "is_stream c \<and> get_remote_addr c = Some target \<and> conn_remote c = Some target
    \<and> (\<exists>t. sa_type target = Some t \<and> stream_kind t = Some (conn_kind c))"
  using assms
  by (auto simp: open_stream_def tcp_connect_def tls_connect_def ws_connect_def Let_def and_then_eq_Inr
      is_stream_def get_remote_addr_def stream_kind_def split: option.splits transport.splits if_splits)

lemma open_stream_None: "open_stream net sni target s = None \<longleftrightarrow> Option.bind (sa_type target) stream_kind = None"
  by (cases "sa_type target") (auto simp: open_stream_def stream_kind_def split: transport.splits)

lemma scan_listens_spec:
  "scan_listens target fu ts =
     (case find (\<lambda>t. conn_addr t = target) ts of
        Some t \<Rightarrow> Some t
      | None \<Rightarrow> if fu = None then find (\<lambda>t. sa_type (conn_addr t) = Some Udp) ts else fu)"
  by (induction target fu ts rule: scan_listens.induct) (auto split: option.split)

lemma find_None: "find P xs = None \<longleftrightarrow> list_all (\<lambda>x. \<not> P x) xs"
  by (auto simp: find_None_iff list_all_iff)

definition same_resolver :: "net \<Rightarrow> net \<Rightarrow> bool" where
  "same_resolver net net' \<longleftrightarrow> net_resolve net' = net_resolve net"

lemma lookup_target_resolver: "same_resolver net net' \<Longrightarrow> lookup_target net' d s = lookup_target net d s"
  by (simp add: same_resolver_def lookup_target_def Let_def split: host.split)

lemma lookup_target_add [simp]: "lookup_target net d (add_connection c s) = lookup_target net d s"
  by (simp add: lookup_target_def)

lemma found_in_cache:
  "lookup_target net d s = Inr t \<Longrightarrow> map_of (tl_connections s) t = Some c \<Longrightarrow> plan_lookup net d s = UseCached c t"
  by (simp add: plan_lookup_def)

lemma opened_cached:
  assumes "btree_ok (tl_connections s)" and "open_stream net sni t s0 = Some (Inr c)"
  shows "map_of (tl_connections (add_connection c s)) t = Some c"
  using opened_stream [OF assms(2)] by (simp add: add_connection_cache cache.get_put [OF assms(1)])

lemma plan_opened:
  "plan_lookup net d s = UseOpened r t \<Longrightarrow>
   lookup_target net d s = Inr t \<and> map_of (tl_connections s) t = None \<and> open_stream net (original_domain d s) t s = Some r"
  by (auto simp: plan_lookup_def split: sum.splits option.splits)

text \<open>A look-up that succeeded is repeated with the same result and without dialling, whatever a
  dial would give by then: the connection it opened is cached under the peer's address.\<close>

theorem lookup_reuse:
  assumes "cache_ok peer s" and "layer_lookup net d s = (Inr (c, t), s')" and "same_resolver net net'"
  shows "layer_lookup net' d s' = (Inr (c, t), s')"
proof -
  have ok: "btree_ok (tl_connections s)" using assms(1) by (simp add: cache_ok_def)
  note same = lookup_target_resolver [OF assms(3)]
  show ?thesis
  proof (cases "plan_lookup net d s")
    case (UseCached c' t')
    with assms(2) have "plan_lookup net' d s' = UseCached c t"
      by (auto simp: layer_lookup_def finish_lookup_def plan_lookup_def same split: sum.splits option.splits)
    then show ?thesis by (simp add: layer_lookup_def finish_lookup_def)
  next
    case (UseOpened r t')
    with assms(2) have r: "r = Inr c" "t' = t" "s' = add_connection c s"
      by (auto simp: layer_lookup_def finish_lookup_def split: sum.splits)
    with plan_opened [OF UseOpened] have o: "lookup_target net d s = Inr t"
        "open_stream net (original_domain d s) t s = Some (Inr c)" by simp_all
    have "plan_lookup net' d s' = UseCached c t"
      using opened_cached [OF ok o(2)] o(1) r(3) by (intro found_in_cache) (simp_all add: same)
    then show ?thesis by (simp add: layer_lookup_def finish_lookup_def)
  next
    case (UseListener c' t')
    with assms(2) have c: "c' = c" "t' = t" "s' = s" by (auto simp: layer_lookup_def finish_lookup_def)
    with UseListener have "plan_lookup net' d s = UseListener c t"
      by (auto simp: plan_lookup_def same open_stream_None split: sum.splits option.splits)
    with c show ?thesis by (simp add: layer_lookup_def finish_lookup_def)
  next
    case (NoTransport e)
    with assms(2) show ?thesis by (simp add: layer_lookup_def finish_lookup_def)
  qed
qed

text \<open>C27: a look-up fails only when the resolver fails, when the dial of a stream transport fails, or
  when the target is on no stream transport and the layer listens neither on its address nor on UDP;
  a failed look-up leaves the layer as it was.\<close>

theorem lookup_failure:
  "(fst (layer_lookup net d s) = Inl e) =
     (case lookup_target net d s of
        Inl e' \<Rightarrow> e' = e
      | Inr t \<Rightarrow> map_of (tl_connections s) t = None \<and>
          (case open_stream net (original_domain d s) t s of
             Some r \<Rightarrow> r = Inl e
           | None \<Rightarrow> e = unsupported_transport t
               \<and> list_all (\<lambda>c. conn_addr c \<noteq> t \<and> sa_type (conn_addr c) \<noteq> Some Udp) (tl_listens s)))
   \<and> (case fst (layer_lookup net d s) of Inl _ \<Rightarrow> snd (layer_lookup net d s) = s | Inr _ \<Rightarrow> True)"
proof -
  have none: "scan_listens t None (tl_listens s) = None \<longleftrightarrow>
      list_all (\<lambda>c. conn_addr c \<noteq> t \<and> sa_type (conn_addr c) \<noteq> Some Udp) (tl_listens s)" for t
    by (auto simp: scan_listens_spec find_None list_all_iff split: option.split simp: find_Some_iff)
  show ?thesis
  proof (cases "lookup_target net d s")
    case (Inr t)
    show ?thesis
    proof (cases "open_stream net (original_domain d s) t s")
      case None
      with Inr none [of t] show ?thesis
        by (cases "map_of (tl_connections s) t"; cases "scan_listens t None (tl_listens s)")
          (auto simp: layer_lookup_def finish_lookup_def plan_lookup_def)
    next
      case (Some r)
      with Inr show ?thesis
        by (cases "map_of (tl_connections s) t"; cases r)
          (auto simp: layer_lookup_def finish_lookup_def plan_lookup_def)
    qed
  qed (auto simp: layer_lookup_def finish_lookup_def plan_lookup_def)
qed

section \<open>Look-ups that overtake each other\<close>

lemma serve_ended_other:
  assumes "btree_ok (tl_connections s)" and "map_of (tl_connections s) t = Some c'" and "\<not> is_same_stream c' c"
  shows "map_of (tl_connections (serve_ended net c s)) t = Some c'"
  using assms cache.get_del [OF assms(1)]
  by (auto simp: retire_cache split: option.split)

lemma serve_ended_same:
  assumes "btree_ok (tl_connections s)" and "get_remote_addr c = Some t"
    and "map_of (tl_connections s) t = Some c" and "is_stream c"
  shows "map_of (tl_connections (serve_ended net c s)) t = None"
  using assms(2-) cache.get_del [OF assms(1)] by (simp add: retire_cache same_stream_id)

lemma lookup_target_ended [simp]: "lookup_target net d (serve_ended net' c s) = lookup_target net d s"
  by (simp add: lookup_target_def serve_ended_def)

text \<open>C23: two look-ups of one peer that both dialled before either was done each get the stream they
  opened. The stream of the later one stays in the cache: the end of the earlier stream, which takes
  nothing with it, leaves the later one to be found, and only its own end makes the next look-up dial
  again.\<close>

theorem overtaking_lookups:
  assumes "cache_ok peer s"
    and "plan_lookup net1 d s = UseOpened (Inr c1) t" and "plan_lookup net2 d s = UseOpened (Inr c2) t"
    and "stream_id c1 \<noteq> stream_id c2" and "same_resolver net2 net3"
  shows "case finish_lookup (plan_lookup net1 d s) s of (r1, s1) \<Rightarrow>
     (case finish_lookup (plan_lookup net2 d s) s1 of (r2, s2) \<Rightarrow>
        r1 = Inr (c1, t) \<and> r2 = Inr (c2, t)
        \<and> layer_lookup net3 d (serve_ended net c1 s2) = (Inr (c2, t), serve_ended net c1 s2)
        \<and> map_of (tl_connections (serve_ended net c2 s2)) t = None)"
proof -
  let ?s1 = "add_connection c1 s" and ?s2 = "add_connection c2 (add_connection c1 s)"
  note o1 = plan_opened [OF assms(2)] and o2 = plan_opened [OF assms(3)]
  from o1 have f1: "is_stream c1" "get_remote_addr c1 = Some t" by (auto dest: opened_stream)
  from o2 have f2: "is_stream c2" "get_remote_addr c2 = Some t" by (auto dest: opened_stream)
  have ok: "btree_ok (tl_connections s)" using assms(1) by (simp add: cache_ok_def)
  then have ok1: "btree_ok (tl_connections ?s1)" using f1 by (simp add: add_connection_cache cache.ok_put)
  then have ok2: "btree_ok (tl_connections ?s2)" using f2 by (simp add: add_connection_cache [of c2] cache.ok_put)
  have cached: "map_of (tl_connections ?s2) t = Some c2"
    using f2 by (simp add: add_connection_cache [of c2] cache.get_put [OF ok1])
  have other: "\<not> is_same_stream c2 c1" using assms(4) f1 f2 by (auto simp: same_stream_id)
  have "lookup_target net3 d (serve_ended net c1 ?s2) = Inr t"
    using o2 lookup_target_resolver [OF assms(5), of d s] by simp
  then have "plan_lookup net3 d (serve_ended net c1 ?s2) = UseCached c2 t"
    using serve_ended_other [OF ok2 cached other] by (rule found_in_cache)
  moreover have "map_of (tl_connections (serve_ended net c2 ?s2)) t = None"
    using serve_ended_same [OF ok2 f2(2) cached f2(1)] .
  ultimately show ?thesis
    by (simp add: assms(2,3) finish_lookup_def layer_lookup_def)
qed

section \<open>Routing\<close>

text \<open>A secure target that is on no stream transport the layer can dial is handed to the first UDP
  listener, and the message for it leaves in the clear.\<close>

theorem tls_sctp_over_udp:
  assumes "hwp_host (sa_addr d) = IpAddr ip" and "sa_type d = Some TlsSctp"
    and "tl_outbound s = None" and "map_of (tl_connections s) d = None"
    and "find (\<lambda>c. conn_addr c = d) (tl_listens s) = None"
    and "find (\<lambda>c. sa_type (conn_addr c) = Some Udp) (tl_listens s) = Some udp"
  shows "transport_is_secure TlsSctp \<and> layer_lookup net d s = (Inr (udp, d), s)"
  using assms
  by (simp add: transport_is_secure_def layer_lookup_def finish_lookup_def plan_lookup_def lookup_target_def unwrap_or_def
      open_stream_def scan_listens_spec)

text \<open>The default resolver answers, with draws in their ranges: either an error, or an IP address
  with a port on the transport that was asked for (UDP or TCP when none was), and on the port that was
  asked for. A domain under \<open>.invalid\<close> is refused whatever the DNS holds.\<close>

theorem resolved_domain:
  assumes "in_range draw" and "hwp_host (sa_addr target) = Domain d"
  shows "\<exists>res. resolve_with_lookup src draw target = Some res
    \<and> (case res of
         Inr a \<Rightarrow> (\<exists>ip p t. a = \<lparr>sa_type = Some t, sa_addr = \<lparr>hwp_host = IpAddr ip, hwp_port = Some p\<rparr>\<rparr>
             \<and> t \<in> set (candidates (sa_type target) False) \<and> unwrap_or (hwp_port (sa_addr target)) p = p)
           \<and> d \<noteq> ''invalid'' \<and> \<not> str_ends_with ''.invalid'' d
       | Inl _ \<Rightarrow> True)"
proof (cases "d = ''invalid'' \<or> str_ends_with ''.invalid'' d")
  case True
  with assms(2) show ?thesis by (auto simp: resolve_with_lookup_def)
next
  case False
  define secure where "secure \<longleftrightarrow> sa_type target = Some Tls \<or> sa_type target = Some Wss \<or> sa_type target = Some TlsSctp"
  have cand: "candidates (sa_type target) secure = candidates (sa_type target) False"
    by (cases "sa_type target") (simp_all add: candidates_def secure_def)
  obtain res where res: "resolve_logic src draw d (hwp_port (sa_addr target)) (sa_type target) secure = Some res"
    and facts: "case res of
         Inr ts \<Rightarrow> ts \<noteq> [] \<and> list_all (\<lambda>x. tg_transport x \<in> set (candidates (sa_type target) secure)) ts
           \<and> (case hwp_port (sa_addr target) of Some p \<Rightarrow> list_all (\<lambda>x. sa_port (tg_addr x) = p) ts | None \<Rightarrow> True)
       | Inl _ \<Rightarrow> parse_ip d = None \<and> (case lookup_a_aaaa src d of Inr ips \<Rightarrow> ips = [] | Inl _ \<Rightarrow> True)"
    using resolution_facts [OF assms(1), of src d "hwp_port (sa_addr target)" "sa_type target" secure] by blast
  show ?thesis
  proof (cases res)
    case (Inl e)
    with res assms(2) False show ?thesis by (simp add: resolve_with_lookup_def secure_def)
  next
    case (Inr ts)
    with facts obtain x xs where x: "ts = x # xs" by (cases ts) auto
    with facts Inr have t: "tg_transport x \<in> set (candidates (sa_type target) False)"
      and p: "unwrap_or (hwp_port (sa_addr target)) (sa_port (tg_addr x)) = sa_port (tg_addr x)"
      by (simp_all add: cand unwrap_or_def split: option.splits)
    from res assms(2) False Inr x have "resolve_with_lookup src draw target
        = Some (Inr \<lparr>sa_type = Some (tg_transport x),
            sa_addr = \<lparr>hwp_host = IpAddr (sa_ip (tg_addr x)), hwp_port = Some (sa_port (tg_addr x))\<rparr>\<rparr>)"
      by (simp add: resolve_with_lookup_def secure_def)
    with t p False show ?thesis by simp
  qed
qed

section \<open>Examples\<close>

definition example_net :: "nat \<Rightarrow> net" where
  "example_net i =
     \<lparr>net_resolve = (\<lambda>a. case resolve_with_lookup example_dns (\<lambda>k n. 0) a of Some r \<Rightarrow> r | None \<Rightarrow> Inl (DnsResolutionError '''')),
      net_interfaces = None, net_has_token = (\<lambda>_. True),
      net_tcp_dial = (\<lambda>_. Inr (\<lparr>sa_ip = V4 127 0 0 1, sa_port = 40000\<rparr>, i)),
      net_tls_check = (\<lambda>_. Inr ()), net_server_name = (\<lambda>_. True),
      net_tls_dial = (\<lambda>_ _ _. Inr (\<lparr>sa_ip = V4 127 0 0 1, sa_port = 40001\<rparr>, i)), net_platform_tls = None,
      net_ws_dial = (\<lambda>_. Inr (\<lparr>sa_ip = V4 127 0 0 1, sa_port = 40002\<rparr>, i)), net_bind = (\<lambda>_. Inr ())\<rparr>"

definition example_tcp_peer :: sip_addr where
  "example_tcp_peer = typed_addr Tcp \<lparr>sa_ip = V4 10 0 0 1, sa_port = 5060\<rparr>"

definition example_stream :: "nat \<Rightarrow> sip_connection" where
  "example_stream i = stream_connection ConnTcp i (typed_addr Tcp \<lparr>sa_ip = V4 127 0 0 1, sa_port = 40000\<rparr>) example_tcp_peer"

lemma example_opened: "plan_lookup (example_net i) example_tcp_peer transport_layer_new = UseOpened (Inr (example_stream i)) example_tcp_peer"
  by (simp add: plan_lookup_def lookup_target_def transport_layer_new_def unwrap_or_def example_tcp_peer_def typed_addr_def hwp_of_socket_addr_def
      open_stream_def tcp_connect_def get_socketaddr_def example_net_def and_then_def example_stream_def
      resolve_bind_address_def)

lemma example_known: "peer_known (\<lambda>_. example_tcp_peer) (example_stream i)"
  by (simp add: peer_known_def example_stream_def)

lemma retired_never_found_witness:
  "get_remote_addr (example_stream 2) = Some example_tcp_peer \<and> \<not> is_same_stream (example_stream 2) (example_stream 1)"
proof (rule retired_never_found)
  let ?s = "add_connection (example_stream 1) transport_layer_new"
  let ?r = "retire_connection (example_net 1) (example_stream 1) ?s"
  have fresh: "stream_id (example_stream 2) \<notin> tl_cancelled ?r"
    by (simp add: retire_cancelled retired_ids_def transport_layer_new_def example_stream_def)
  show "(layer_step (example_net 1) (\<lambda>_. example_tcp_peer))\<^sup>*\<^sup>* transport_layer_new ?s"
    by (rule r_into_rtranclp, rule added) (rule example_known, simp add: transport_layer_new_def)
  show "(layer_step (example_net 1) (\<lambda>_. example_tcp_peer))\<^sup>*\<^sup>* ?r (add_connection (example_stream 2) ?r)"
    by (rule r_into_rtranclp, rule added) (rule example_known, rule fresh)
  show "peer_known (\<lambda>_. example_tcp_peer) (example_stream 1)" by (rule example_known)
  show "is_stream (example_stream 1)" by (simp add: example_stream_def is_stream_def)
  show "net_has_token (example_net 1) (example_stream 1)" by (simp add: example_net_def)
  show "plan_lookup (example_net 3) example_tcp_peer (add_connection (example_stream 2) ?r) = UseCached (example_stream 2) example_tcp_peer"
    by code_simp
qed

lemma lookup_reuse_witness:
  "layer_lookup (example_net 2) example_tcp_peer (add_connection (example_stream 1) transport_layer_new)
   = (Inr (example_stream 1, example_tcp_peer), add_connection (example_stream 1) transport_layer_new)"
proof (rule lookup_reuse)
  show "cache_ok (\<lambda>_. example_tcp_peer) transport_layer_new" by (rule cache_ok_new)
  show "layer_lookup (example_net 1) example_tcp_peer transport_layer_new
      = (Inr (example_stream 1, example_tcp_peer), add_connection (example_stream 1) transport_layer_new)"
    by (simp add: layer_lookup_def example_opened finish_lookup_def)
  show "same_resolver (example_net 1) (example_net 2)" by (simp add: same_resolver_def example_net_def)
qed

lemma lookup_failure_witness:
  "fst (layer_lookup (example_net 1) (example_tcp_peer\<lparr>sa_type := Some Udp\<rparr>) transport_layer_new)
   = Inl (unsupported_transport (example_tcp_peer\<lparr>sa_type := Some Udp\<rparr>))"
  using lookup_failure [of "example_net 1" "example_tcp_peer\<lparr>sa_type := Some Udp\<rparr>" transport_layer_new
    "unsupported_transport (example_tcp_peer\<lparr>sa_type := Some Udp\<rparr>)"]
  by (simp add: lookup_target_def transport_layer_new_def unwrap_or_def example_tcp_peer_def typed_addr_def hwp_of_socket_addr_def open_stream_def)

lemma overtaking_lookups_witness:
  "case finish_lookup (plan_lookup (example_net 1) example_tcp_peer transport_layer_new) transport_layer_new of (r1, s1) \<Rightarrow>
     (case finish_lookup (plan_lookup (example_net 2) example_tcp_peer transport_layer_new) s1 of (r2, s2) \<Rightarrow>
        r1 = Inr (example_stream 1, example_tcp_peer) \<and> r2 = Inr (example_stream 2, example_tcp_peer)
        \<and> layer_lookup (example_net 3) example_tcp_peer (serve_ended (example_net 1) (example_stream 1) s2)
          = (Inr (example_stream 2, example_tcp_peer), serve_ended (example_net 1) (example_stream 1) s2)
        \<and> map_of (tl_connections (serve_ended (example_net 1) (example_stream 2) s2)) example_tcp_peer = None)"
proof (rule overtaking_lookups)
  show "cache_ok (\<lambda>_. example_tcp_peer) transport_layer_new" by (rule cache_ok_new)
  show "stream_id (example_stream 1) \<noteq> stream_id (example_stream 2)" by (simp add: example_stream_def)
  show "same_resolver (example_net 2) (example_net 3)" by (simp add: same_resolver_def example_net_def)
qed (rule example_opened)+

definition example_udp :: sip_connection where
  "example_udp = \<lparr>conn_kind = ConnUdp, conn_inner = 9, conn_addr = typed_addr Udp \<lparr>sa_ip = V4 10 0 0 9, sa_port = 5060\<rparr>, conn_remote = None\<rparr>"

lemma tls_sctp_over_udp_witness:
  "transport_is_secure TlsSctp
   \<and> layer_lookup (example_net 1) (example_tcp_peer\<lparr>sa_type := Some TlsSctp\<rparr>) (add_listener example_udp transport_layer_new)
     = (Inr (example_udp, example_tcp_peer\<lparr>sa_type := Some TlsSctp\<rparr>), add_listener example_udp transport_layer_new)"
  by (rule tls_sctp_over_udp [of _ "V4 10 0 0 1"])
    (simp_all add: example_tcp_peer_def typed_addr_def hwp_of_socket_addr_def add_listener_def transport_layer_new_def example_udp_def)

definition example_domain :: sip_addr where
  "example_domain = \<lparr>sa_type = Some Udp, sa_addr = \<lparr>hwp_host = Domain ''example.com'', hwp_port = None\<rparr>\<rparr>"

lemma resolved_domain_witness:
  "case resolve_with_lookup example_dns (\<lambda>k n. 0) example_domain of
     Some (Inr a) \<Rightarrow> (\<exists>ip p t. a = \<lparr>sa_type = Some t, sa_addr = \<lparr>hwp_host = IpAddr ip, hwp_port = Some p\<rparr>\<rparr> \<and> t = Udp)
   | _ \<Rightarrow> False"
proof -
  have "resolve_with_lookup example_dns (\<lambda>k n. 0) example_domain
      = Some (Inr (typed_addr Udp \<lparr>sa_ip = V4 1 1 1 1, sa_port = 5060\<rparr>))"
    by code_simp
  with resolved_domain [of "\<lambda>k n. 0" example_domain "''example.com''" example_dns] show ?thesis
    by (auto simp: in_range_def example_domain_def candidates_def)
qed

end
