(* ===== verification/Serving.thy ===== *)
theory Serving
  imports Transport_Layer Stream_Codec
begin

text \<open>
  How bytes become transport events and messages become bytes: the receive loops and the send
  functions of \<open>udp.rs\<close>, \<open>stream.rs\<close> (which serves TCP and TLS), \<open>websocket.rs\<close> and \<open>channel.rs\<close>. What
  a loop receives is the list of what its socket yields in turn; a loop whose list has run out is
  still waiting. The event channel fails once its receiver is gone, and a write fails as the given
  function says.
\<close>

section \<open>UTF-8\<close>

text \<open>\<open>String::from_utf8_lossy\<close>: the length of the character at the front, or of the longest prefix of
  one that is not completed, and whether it is a character.\<close>

definition byte_at :: "nat \<Rightarrow> bytes \<Rightarrow> nat" where
  "byte_at i s = (if i < length s then byte (s ! i) else 0)"

definition cont_at :: "nat \<Rightarrow> bytes \<Rightarrow> bool" where
  "cont_at i s \<longleftrightarrow> 128 \<le> byte_at i s \<and> byte_at i s \<le> 191"

definition second_ok :: "nat \<Rightarrow> nat \<Rightarrow> bool" where
  "second_ok a b \<longleftrightarrow>
     (if a = 224 then 160 \<le> b \<and> b \<le> 191
      else if a = 237 then 128 \<le> b \<and> b \<le> 159
      else if a = 240 then 144 \<le> b \<and> b \<le> 191
      else if a = 244 then 128 \<le> b \<and> b \<le> 143
      else 128 \<le> b \<and> b \<le> 191)"

definition utf8_chunk :: "bytes \<Rightarrow> nat \<times> bool" where
  "utf8_chunk s =
     (let a = byte_at 0 s in
      if a < 128 then (1, True)
      else if 194 \<le> a \<and> a \<le> 223 then (if cont_at 1 s then (2, True) else (1, False))
      else if 224 \<le> a \<and> a \<le> 239 then
        (if \<not> second_ok a (byte_at 1 s) then (1, False)
         else if cont_at 2 s then (3, True) else (2, False))
      else if 240 \<le> a \<and> a \<le> 244 then
        (if \<not> second_ok a (byte_at 1 s) then (1, False)
         else if \<not> cont_at 2 s then (2, False)
         else if cont_at 3 s then (4, True) else (3, False))
      else (1, False))"

definition replacement_character :: bytes where
  "replacement_character = [CHR 0xEF, CHR 0xBF, CHR 0xBD]"

function utf8_lossy :: "bytes \<Rightarrow> bytes" where
  "utf8_lossy s =
     (if s = [] then []
      else (case utf8_chunk s of
          (n, valid) \<Rightarrow> (if valid then take n s else replacement_character) @ utf8_lossy (drop n s)))"
  by auto
termination
  by (relation "measure length") (auto simp: utf8_chunk_def Let_def split: if_splits)

declare utf8_lossy.simps [simp del]

text \<open>The \<open>Display\<close> text of a message, whose body goes through \<open>from_utf8_lossy\<close>.\<close>

definition message_text :: "sip_message \<Rightarrow> string" where
  "message_text m =
     message_to_bytes (case m of
        Request r \<Rightarrow> Request (r\<lparr>req_body := utf8_lossy (req_body r)\<rparr>)
      | Response r \<Rightarrow> Response (r\<lparr>resp_body := utf8_lossy (resp_body r)\<rparr>))"

section \<open>Datagrams\<close>

definition MAX_UDP_BUF_SIZE :: nat where
  "MAX_UDP_BUF_SIZE = 8192"

definition KEEPALIVE_REQUEST :: bytes where "KEEPALIVE_REQUEST = crlf @ crlf"
definition KEEPALIVE_RESPONSE :: bytes where "KEEPALIVE_RESPONSE = crlf"

text \<open>\<open>u8::is_ascii_whitespace\<close>: the vertical tab is not among them.\<close>

definition is_ascii_whitespace :: "char \<Rightarrow> bool" where
  "is_ascii_whitespace c \<longleftrightarrow> c \<in> {CHR 0x20, CHR 0x09, CHR 0x0A, CHR 0x0C, CHR 0x0D}"

datatype reaction =
    Ignored
  | Answered bytes
  | Delivered transport_event

definition udp_handle :: "sip_connection \<Rightarrow> sip_addr \<Rightarrow> sip_connection" where
  "udp_handle c from = c\<lparr>conn_remote := Some from\<rparr>"

text \<open>One turn of \<open>serve_loop_with_whitelist\<close>; the socket writes at most the buffer's length.\<close>

definition udp_packet :: "(ip_addr \<Rightarrow> bool) option \<Rightarrow> sip_connection \<Rightarrow> bytes \<Rightarrow> socket_addr \<Rightarrow> reaction" where
  "udp_packet whitelist c data addr =
     (let packet = take MAX_UDP_BUF_SIZE data in
      if (case whitelist of Some allow \<Rightarrow> \<not> allow (sa_ip addr) | None \<Rightarrow> False) then Ignored
      else if packet = KEEPALIVE_REQUEST then Answered KEEPALIVE_RESPONSE
      else if packet = KEEPALIVE_RESPONSE then Ignored
      else if list_all is_ascii_whitespace packet then Ignored
      else (case parse_message packet of
          Inl _ \<Rightarrow> Ignored
        | Inr msg \<Rightarrow>
            (case update_msg_received msg addr Udp of
               Inl _ \<Rightarrow> Ignored
             | Inr msg \<Rightarrow>
                 (let from = typed_addr Udp addr in Delivered (Incoming msg (udp_handle c from) from)))))"

datatype udp_input = Datagram bytes socket_addr | ReceiveError | UdpCancelled

text \<open>What a loop has written (with where to), the events it has sent, and how it ended, if it has.\<close>

type_synonym served = "(bytes \<times> socket_addr option) list \<times> transport_event list \<times> (error + unit) option"

definition channel_closed :: error where
  "channel_closed = Error ''channel closed''"

definition wrote :: "bytes \<Rightarrow> socket_addr option \<Rightarrow> served \<Rightarrow> served" where
  "wrote b a r = (case r of (out, evs, res) \<Rightarrow> ((b, a) # out, evs, res))"

definition sent_event :: "transport_event \<Rightarrow> served \<Rightarrow> served" where
  "sent_event ev r = (case r of (out, evs, res) \<Rightarrow> (out, ev # evs, res))"

fun udp_serve :: "(ip_addr \<Rightarrow> bool) option \<Rightarrow> bool \<Rightarrow> sip_connection \<Rightarrow> udp_input list \<Rightarrow> served" where
  "udp_serve whitelist gone c [] = ([], [], None)"
| "udp_serve whitelist gone c (UdpCancelled # ins) = ([], [], Some (Inr ()))"
| "udp_serve whitelist gone c (ReceiveError # ins) = udp_serve whitelist gone c ins"
| "udp_serve whitelist gone c (Datagram data addr # ins) =
     (case udp_packet whitelist c data addr of
        Ignored \<Rightarrow> udp_serve whitelist gone c ins
      | Answered b \<Rightarrow> wrote b (Some addr) (udp_serve whitelist gone c ins)
      | Delivered ev \<Rightarrow>
          if gone then ([], [], Some (Inl channel_closed))
          else sent_event ev (udp_serve whitelist gone c ins))"

text \<open>\<open>UdpConnection::send\<close> and \<open>send_raw\<close>: the datagram and where it goes.\<close>

definition udp_send_bytes ::
    "(bytes \<Rightarrow> socket_addr \<Rightarrow> string option) \<Rightarrow> sip_connection \<Rightarrow> bytes \<Rightarrow> socket_addr \<Rightarrow> error + (bytes \<times> socket_addr)" where
  "udp_send_bytes failure c b addr =
     (case failure b addr of Some e \<Rightarrow> Inl (TransportLayerError e (conn_addr c)) | None \<Rightarrow> Inr (b, addr))"

definition udp_send ::
    "(bytes \<Rightarrow> socket_addr \<Rightarrow> string option) \<Rightarrow> sip_connection \<Rightarrow> sip_message \<Rightarrow> sip_addr option \<Rightarrow> error + (bytes \<times> socket_addr)" where
  "udp_send failure c msg destination =
     and_then (case destination of Some a \<Rightarrow> get_socketaddr a | None \<Rightarrow> get_destination msg)
       (udp_send_bytes failure c (message_to_bytes msg))"

definition udp_send_raw ::
    "(bytes \<Rightarrow> socket_addr \<Rightarrow> string option) \<Rightarrow> sip_connection \<Rightarrow> bytes \<Rightarrow> sip_addr \<Rightarrow> error + (bytes \<times> socket_addr)" where
  "udp_send_raw failure c b destination = and_then (get_socketaddr destination) (udp_send_bytes failure c b)"

section \<open>Streams\<close>

datatype stream_input = StreamBytes bytes | StreamError

text \<open>What the loop does with the items decoded from its buffer, in turn: the first failure ends it.\<close>

fun stream_items ::
    "bool \<Rightarrow> (bytes \<Rightarrow> error option) \<Rightarrow> sip_connection \<Rightarrow> sip_addr \<Rightarrow> codec_item list \<Rightarrow> bytes list \<times> transport_event list \<times> error option" where
  "stream_items gone failure c remote [] = ([], [], None)"
| "stream_items gone failure c remote (CodecMessage msg # is) =
     (case and_then (get_socketaddr remote) (\<lambda>sa. update_msg_received msg sa (unwrap_or (sa_type remote) Udp)) of
        Inl e \<Rightarrow> ([], [], Some e)
      | Inr msg \<Rightarrow>
          if gone then ([], [], Some channel_closed)
          else (case stream_items gone failure c remote is of
              (out, evs, err) \<Rightarrow> (out, Incoming msg c remote # evs, err)))"
| "stream_items gone failure c remote (KeepaliveRequest # is) =
     (case failure KEEPALIVE_RESPONSE of
        Some e \<Rightarrow> ([], [], Some e)
      | None \<Rightarrow>
          (case stream_items gone failure c remote is of
             (out, evs, err) \<Rightarrow> (KEEPALIVE_RESPONSE # out, evs, err)))"
| "stream_items gone failure c remote (KeepaliveResponse # is) = stream_items gone failure c remote is"

text \<open>The loop of \<open>StreamConnectionInner::serve_loop\<close>, from the bytes already in its buffer; a read of
  no bytes is the end of the stream.\<close>

fun stream_serve ::
    "bool \<Rightarrow> (bytes \<Rightarrow> error option) \<Rightarrow> sip_connection \<Rightarrow> sip_addr \<Rightarrow> bytes \<Rightarrow> stream_input list
     \<Rightarrow> bytes list \<times> transport_event list \<times> (error + unit) option" where
  "stream_serve gone failure c remote buffer [] = ([], [], None)"
| "stream_serve gone failure c remote buffer (StreamError # ins) = ([], [], Some (Inr ()))"
| "stream_serve gone failure c remote buffer (StreamBytes b # ins) =
     (if b = [] then ([], [], Some (Inr ()))
      else (case feed buffer b of
          (items, buffer', derr) \<Rightarrow>
            (case stream_items gone failure c remote items of
               (out, evs, Some e) \<Rightarrow> (out, evs, Some (Inl e))
             | (out, evs, None) \<Rightarrow>
                 (case derr of
                    Some e \<Rightarrow> (out, evs, Some (Inl e))
                  | None \<Rightarrow>
                      (case stream_serve gone failure c remote buffer' ins of
                         (out', evs', res) \<Rightarrow> (out @ out', evs @ evs', res))))))"

text \<open>A stream has one reader: \<open>serve_loop\<close> takes the read half, and a second call returns at once.\<close>

definition stream_serve_loop ::
    "bool \<Rightarrow> bool \<Rightarrow> (bytes \<Rightarrow> error option) \<Rightarrow> sip_connection \<Rightarrow> sip_addr \<Rightarrow> stream_input list
     \<Rightarrow> bytes list \<times> transport_event list \<times> (error + unit) option" where
  "stream_serve_loop taken gone failure c remote ins =
     (if taken then ([], [], Some (Inr ())) else stream_serve gone failure c remote [] ins)"

definition stream_send :: "(bytes \<Rightarrow> error option) \<Rightarrow> sip_message \<Rightarrow> error + bytes" where
  "stream_send failure msg =
     (case failure (message_to_bytes msg) of Some e \<Rightarrow> Inl e | None \<Rightarrow> Inr (message_to_bytes msg))"

section \<open>WebSockets\<close>

datatype ws_frame = WsText string | WsBinary bytes | WsPing bytes | WsPong bytes | WsClose | WsOther

text \<open>\<open>ws_read.next()\<close>: a frame or an error; the end of the list of a closed socket is \<open>WsEnd\<close>.\<close>

datatype ws_input = WsFrame ws_frame | WsReadError | WsEnd

fun ws_serve ::
    "bool \<Rightarrow> (ws_frame \<Rightarrow> error option) \<Rightarrow> sip_connection \<Rightarrow> sip_addr \<Rightarrow> ws_input list
     \<Rightarrow> ws_frame list \<times> transport_event list \<times> (error + unit) option" where
  "ws_serve gone failure c remote [] = ([], [], None)"
| "ws_serve gone failure c remote (WsEnd # ins) = ([], [], Some (Inr ()))"
| "ws_serve gone failure c remote (WsReadError # ins) = ([], [], Some (Inr ()))"
| "ws_serve gone failure c remote (WsFrame (WsText text) # ins) =
     (case parse_message text of
        Inl _ \<Rightarrow> ws_serve gone failure c remote ins
      | Inr msg \<Rightarrow>
          (case and_then (get_socketaddr remote) (\<lambda>sa. update_msg_received msg sa (unwrap_or (sa_type remote) Udp)) of
             Inl e \<Rightarrow> ([], [], Some (Inl e))
           | Inr msg \<Rightarrow>
               if gone then ([], [], Some (Inr ()))
               else (case ws_serve gone failure c remote ins of
                   (out, evs, res) \<Rightarrow> (out, Incoming msg c remote # evs, res))))"
| "ws_serve gone failure c remote (WsFrame (WsBinary bin) # ins) =
     (if bin = KEEPALIVE_REQUEST then
        (case ws_serve gone failure c remote ins of
           (out, evs, res) \<Rightarrow>
             (if failure (WsBinary KEEPALIVE_RESPONSE) = None then (WsBinary KEEPALIVE_RESPONSE # out, evs, res)
              else (out, evs, res)))
      else (case parse_message bin of
          Inl _ \<Rightarrow> ws_serve gone failure c remote ins
        | Inr msg \<Rightarrow>
            if gone then ([], [], Some (Inr ()))
            else (case ws_serve gone failure c remote ins of
                (out, evs, res) \<Rightarrow> (out, Incoming msg c remote # evs, res))))"
| "ws_serve gone failure c remote (WsFrame (WsPing data) # ins) =
     (if failure (WsPong data) \<noteq> None then ([], [], Some (Inr ()))
      else (case ws_serve gone failure c remote ins of (out, evs, res) \<Rightarrow> (WsPong data # out, evs, res)))"
| "ws_serve gone failure c remote (WsFrame WsClose # ins) = ([], [], Some (Inr ()))"
| "ws_serve gone failure c remote (WsFrame (WsPong data) # ins) = ws_serve gone failure c remote ins"
| "ws_serve gone failure c remote (WsFrame WsOther # ins) = ws_serve gone failure c remote ins"

definition ws_send :: "(ws_frame \<Rightarrow> error option) \<Rightarrow> sip_message \<Rightarrow> error + ws_frame" where
  "ws_send failure msg =
     (let f = WsText (message_text msg) in case failure f of Some e \<Rightarrow> Inl e | None \<Rightarrow> Inr f)"

definition ws_send_raw :: "(ws_frame \<Rightarrow> error option) \<Rightarrow> bytes \<Rightarrow> error + ws_frame" where
  "ws_send_raw failure b =
     (let f = WsBinary b in case failure f of Some e \<Rightarrow> Inl e | None \<Rightarrow> Inr f)"

section \<open>Channels\<close>

text \<open>\<open>ChannelConnection\<close>: a message sent is an event for the other side, whose sender fails as given;
  the loop forwards what comes in and can be started once.\<close>

definition channel_conn_send :: "error option \<Rightarrow> sip_connection \<Rightarrow> sip_message \<Rightarrow> error + transport_event" where
  "channel_conn_send failure c msg =
     (case failure of Some e \<Rightarrow> Inl e | None \<Rightarrow> Inr (Incoming msg c (conn_addr c)))"

fun channel_forward :: "bool \<Rightarrow> transport_event list \<Rightarrow> transport_event list \<times> (error + unit)" where
  "channel_forward gone [] = ([], Inr ())"
| "channel_forward gone (ev # evs) =
     (if gone then ([], Inl channel_closed)
      else (case channel_forward gone evs of (sent, res) \<Rightarrow> (ev # sent, res)))"

definition channel_serve :: "bool \<Rightarrow> bool \<Rightarrow> transport_event list \<Rightarrow> transport_event list \<times> (error + unit)" where
  "channel_serve taken gone evs =
     (if taken then ([], Inl (Error ''ChannelTransport::serve_loop called twice'')) else channel_forward gone evs)"

section \<open>Sending and closing on any connection\<close>

text \<open>\<open>SipConnection::send\<close>, with what each transport's send gives: a listener sends nothing and
  reports success.\<close>

record 'r senders =
  sd_channel :: "sip_message \<Rightarrow> error + 'r"
  sd_udp :: "sip_message \<Rightarrow> sip_addr option \<Rightarrow> error + 'r"
  sd_stream :: "sip_message \<Rightarrow> error + 'r"
  sd_ws :: "sip_message \<Rightarrow> error + 'r"

definition connection_send :: "'r senders \<Rightarrow> sip_connection \<Rightarrow> sip_message \<Rightarrow> sip_addr option \<Rightarrow> error + 'r option" where
  "connection_send sd c msg destination =
     (let ret = (\<lambda>r. and_then r (\<lambda>x. Inr (Some x))) in
      case conn_kind c of
        ConnChannel \<Rightarrow> ret (sd_channel sd msg)
      | ConnUdp \<Rightarrow> ret (sd_udp sd msg destination)
      | ConnTcp \<Rightarrow> ret (sd_stream sd msg)
      | ConnTls \<Rightarrow> ret (sd_stream sd msg)
      | ConnWebSocket \<Rightarrow> ret (sd_ws sd msg)
      | _ \<Rightarrow> Inr None)"

end
