(* ===== verification/Serving_Props.thy ===== *)
theory Serving_Props
  imports Serving
begin

text \<open>
  What the serve loops promise: a stream delivers the messages its peer wrote, in order and however
  the network cuts them, datagrams do not disturb each other, and a message that is text survives a
  WebSocket.
\<close>

section \<open>Lossy decoding\<close>

lemma utf8_chunk_valid:
  assumes "utf8_valid s" and "s \<noteq> []"
  shows "snd (utf8_chunk s) \<and> utf8_valid (drop (fst (utf8_chunk s)) s)"
proof -
  obtain a t where s: "s = a # t" using assms(2) by (cases s) auto
  note defs = utf8_chunk_def byte_at_def cont_at_def second_ok_def is_cont_def
  consider "byte a < 128" | b u where "\<not> byte a < 128" "t = b # u" "194 \<le> byte a" "byte a \<le> 223"
    | b c u where "\<not> byte a < 128" "t = b # c # u" "224 \<le> byte a" "byte a \<le> 239"
    | b c d u where "\<not> byte a < 128" "t = b # c # d # u" "240 \<le> byte a" "byte a \<le> 244"
    using assms(1) unfolding s by (auto split: list.splits if_splits)
  then show ?thesis
  proof cases
    case 1
    with assms(1) show ?thesis by (simp add: s defs)
  next
    case 2
    with assms(1) show ?thesis by (simp add: s defs)
  next
    case 3
    with assms(1) show ?thesis by (auto simp: s defs split: if_splits)
  next
    case 4
    with assms(1) show ?thesis by (auto simp: s defs split: if_splits)
  qed
qed

lemma utf8_chunk_bound: "s \<noteq> [] \<Longrightarrow> 0 < fst (utf8_chunk s)"
  by (simp add: utf8_chunk_def Let_def)

lemma utf8_lossy_id: "utf8_valid s \<Longrightarrow> utf8_lossy s = s"
proof (induction s rule: utf8_lossy.induct)
  case (1 s)
  show ?case
  proof (cases "s = []")
    case False
    obtain n v where c: "utf8_chunk s = (n, v)" by (cases "utf8_chunk s")
    with utf8_chunk_valid [OF 1(2) False] have "v" "utf8_valid (drop n s)" by simp_all
    with 1(1) [OF False c [symmetric]] c False show ?thesis by (simp add: utf8_lossy.simps [of s])
  qed (simp add: utf8_lossy.simps)
qed

lemma byte_at_pos: "128 \<le> byte_at i s \<Longrightarrow> i < length s"
  by (simp add: byte_at_def split: if_splits)

lemma second_ok_pos: "second_ok a b \<Longrightarrow> 128 \<le> b"
  by (auto simp: second_ok_def split: if_splits)

lemma utf8_chunk_keeps:
  assumes "utf8_chunk s = (n, True)" and "s \<noteq> []" and "utf8_valid r"
  shows "utf8_valid (take n s @ r)"
proof -
  obtain a t where s: "s = a # t" using assms(2) by (cases s) auto
  have a: "byte_at 0 s = byte a" by (simp add: s byte_at_def)
  consider "n = 1" "byte a < 128" | "n = 2" "194 \<le> byte a" "byte a \<le> 223" "cont_at 1 s"
    | "n = 3" "224 \<le> byte a" "byte a \<le> 239" "second_ok (byte a) (byte_at 1 s)" "cont_at 2 s"
    | "n = 4" "240 \<le> byte a" "byte a \<le> 244" "second_ok (byte a) (byte_at 1 s)" "cont_at 2 s" "cont_at 3 s"
    using assms(1) unfolding utf8_chunk_def Let_def a by (auto split: if_splits)
  then show ?thesis
  proof cases
    case 1
    with assms(3) show ?thesis by (simp add: s)
  next
    case 2
    then have "1 < length s" by (simp add: cont_at_def byte_at_pos)
    then obtain b u where t: "t = b # u" unfolding s by (cases t) auto
    with 2 assms(3) show ?thesis by (simp add: s cont_at_def byte_at_def is_cont_def)
  next
    case 3
    then have "2 < length s" by (simp add: cont_at_def byte_at_pos)
    then obtain b c u where t: "t = b # c # u" unfolding s by (cases t; cases "tl t") auto
    have "take n s @ r = a # b # c # r" using 3 by (simp add: s t numeral_3_eq_3)
    with 3 assms(3) show ?thesis
      by (simp add: s t cont_at_def byte_at_def is_cont_def second_ok_def numeral_2_eq_2 split: if_splits)
  next
    case 4
    then have "3 < length s" by (simp add: cont_at_def byte_at_pos)
    then obtain b c d u where t: "t = b # c # d # u" unfolding s by (cases t; cases "tl t"; cases "tl (tl t)") auto
    have "take n s @ r = a # b # c # d # r" using 4 by (simp add: s t eval_nat_numeral)
    moreover have "byte a = 240 \<or> byte a = 244 \<or> 241 \<le> byte a \<and> byte a \<le> 243" using 4 by auto
    ultimately show ?thesis using 4 assms(3)
      by (auto simp: s t cont_at_def byte_at_def is_cont_def second_ok_def eval_nat_numeral split: if_splits)
  qed
qed

lemma utf8_lossy_valid: "utf8_valid (utf8_lossy s)"
proof (induction s rule: utf8_lossy.induct)
  case (1 s)
  show ?case
  proof (cases "s = []")
    case False
    obtain n v where c: "utf8_chunk s = (n, v)" by (cases "utf8_chunk s")
    have rest: "utf8_valid (utf8_lossy (drop n s))" using 1 [OF False c [symmetric]] .
    show ?thesis
    proof (cases v)
      case True
      with c utf8_chunk_keeps [OF _ False rest] False show ?thesis by (simp add: utf8_lossy.simps [of s])
    next
      case f: False
      with c rest False show ?thesis by (simp add: utf8_lossy.simps [of s] replacement_character_def is_cont_def)
    qed
  qed (simp add: utf8_lossy.simps)
qed

section \<open>Reassembly\<close>

text \<open>The front of an encoded message is not yet an item.\<close>

lemma decode_front:
  assumes "line_wf start" and "list_all header_wf hs" and "CHR 0x20 \<in> set (takeWhile (\<lambda>c. c \<noteq> CHR '':'') start)"
    and "lengths_agree (length body) hs" and "foldl header_length 0 hs = length body"
    and "length ((start @ crlf @ show_headers hs @ crlf) @ body) \<le> MAX_SIP_MESSAGE_SIZE"
    and "k < length ((start @ crlf @ show_headers hs @ crlf) @ body)"
  defines "msg \<equiv> (start @ crlf @ show_headers hs @ crlf) @ body"
  shows "decode (take k msg) = (Inr None, take k msg)"
proof -
  define J where "J = join crlf (start # map show_header hs)"
  have sp: "split_double_crlf msg = Some (J, body)"
    using stream_shape(1) [OF assms(1,2), of body] by (simp add: msg_def J_def)
  then have msg: "msg = J @ crlf @ crlf @ body" by (rule split_double_SomeD)
  have small: "length msg \<le> 65535" "length (take k msg) \<le> 65535"
    using assms(6,7) unfolding msg_def MAX_SIP_MESSAGE_SIZE_def by simp_all
  obtain c cs where s: "start = c # cs" "c \<noteq> CHR 0x0D" using assms(1) by (cases start) (auto simp: line_wf_def)
  then have nc: "\<not> starts_with (take k msg) (crlf @ crlf)" "\<not> starts_with (take k msg) crlf"
    by (cases k; simp add: msg_def starts_with_def)+
  show ?thesis
  proof (cases "k < length J + 4")
    case True
    then have "split_double_crlf (take k msg) = None" by (rule split_double_truncated [OF sp])
    with nc small show ?thesis by (simp add: decode_def Let_def MAX_SIP_MESSAGE_SIZE_def)
  next
    case False
    define j where "j = k - (length J + 4)"
    have front: "length (J @ crlf @ crlf) = length J + 4" by simp
    have "take k ((J @ crlf @ crlf) @ body) = (J @ crlf @ crlf) @ take j body"
      using False take_append [of k "J @ crlf @ crlf" body] take_all [of "J @ crlf @ crlf" k]
      unfolding j_def front by (simp only: not_less)
    then have tk: "take k msg = J @ crlf @ crlf @ take j body" by (simp add: msg)
    also have "\<dots> = (start @ crlf @ show_headers hs @ crlf) @ take j body"
      using msg unfolding msg_def by simp
    finally have spk: "split_double_crlf (take k msg) = Some (J, take j body)"
      using stream_shape(1) [OF assms(1,2), of "take j body"] by (simp add: J_def)
    have b64: "length body < 2 ^ 64" using small(1) msg by simp
    have "scan_content_length (split_on (\<lambda>c. c = CHR 0x0A) (J @ crlf @ crlf))
        = Inr (if list_ex (\<lambda>h. is_content_length_name (header_name h)) hs then length body else 0)"
      unfolding J_def stream_shape(2) [OF assms(1,2)] scan_start_line [OF assms(1,3)]
      by (rule scan_headers [OF assms(2,4) b64])
    also have "(if list_ex (\<lambda>h. is_content_length_name (header_name h)) hs then length body else 0) = length body"
      using foldl_length_agree [OF assms(4) b64, of 0] assms(5) by simp
    finally have scan: "scan_content_length (split_on (\<lambda>c. c = CHR 0x0A) (J @ crlf @ crlf)) = Inr (length body)" .
    have tot: "total_length (length J) (length body) = length msg"
      using total_length_exact [of "length J" "length body"] small(1) msg by simp
    have "\<not> length msg \<le> k" using assms(7) unfolding msg_def by simp
    with nc small spk scan tot show ?thesis
      by (simp add: decode_def Let_def MAX_SIP_MESSAGE_SIZE_def)
  qed
qed

lemma decode_prefix:
  assumes "message_wf m" and "length (encode m []) \<le> MAX_SIP_MESSAGE_SIZE" and "k < length (encode m [])"
  shows "decode (take k (encode m [])) = (Inr None, take k (encode m []))"
proof (cases m)
  case (Request r)
  then have "request_wf r" and "lengths_agree (length (req_body r)) (req_headers r)"
    using assms by (simp_all add: message_wf_def)
  moreover have "request_to_bytes r = (start_line m @ crlf @ show_headers (req_headers r) @ crlf) @ req_body r"
    by (simp add: request_to_bytes_def Request)
  ultimately show ?thesis
    using decode_front [of "start_line m" "req_headers r" "req_body r" k] start_line_space [of m] assms(2,3)
    by (simp add: encode_def Request request_wf_def)
next
  case (Response r)
  then have "response_wf r" and "lengths_agree (length (resp_body r)) (resp_headers r)"
    using assms by (simp_all add: message_wf_def)
  moreover have "response_to_bytes r = (start_line m @ crlf @ show_headers (resp_headers r) @ crlf) @ resp_body r"
    by (simp add: response_to_bytes_def Response)
  ultimately show ?thesis
    using decode_front [of "start_line m" "resp_headers r" "resp_body r" k] start_line_space [of m] assms(2,3)
    by (simp add: encode_def Response response_wf_def)
qed

definition wire :: "sip_message list \<Rightarrow> bytes" where
  "wire ms = concat (map (\<lambda>m. encode m []) ms)"

definition fits_stream :: "sip_message \<Rightarrow> bool" where
  "fits_stream m \<longleftrightarrow> message_wf m \<and> length (encode m []) \<le> MAX_SIP_MESSAGE_SIZE"

lemma wire_simps [simp]: "wire [] = []" "wire (m # ms) = encode m [] @ wire ms"
  by (simp_all add: wire_def)

lemma decode_Nil: "decode [] = (Inr None, [])"
  by code_simp

text \<open>The front of a stream of messages is some whole messages and a front of the next one.\<close>

lemma wire_front:
  "list_all fits_stream ms \<Longrightarrow> p @ rest = wire ms \<Longrightarrow>
   \<exists>ms1 ms2 q. ms = ms1 @ ms2 \<and> p = wire ms1 @ q \<and> decode q = (Inr None, q) \<and> q @ rest = wire ms2"
proof (induction ms arbitrary: p)
  case Nil
  then show ?case using decode_Nil by (intro exI [of _ "[]"] exI [of _ "[]"] exI [of _ "[]"]) simp
next
  case (Cons m ms)
  obtain us where us: "p = encode m [] @ us \<and> us @ rest = wire ms \<or> p @ us = encode m [] \<and> rest = us @ wire ms"
    using Cons.prems(2) by (auto simp: append_eq_append_conv2)
  have whole: ?case if eq: "p = encode m [] @ p'" and tl: "p' @ rest = wire ms" for p'
  proof -
    obtain ms1 ms2 q where "ms = ms1 @ ms2 \<and> p' = wire ms1 @ q \<and> decode q = (Inr None, q) \<and> q @ rest = wire ms2"
      using Cons.IH [OF _ tl] Cons.prems(1) by auto
    with eq show ?thesis by (intro exI [of _ "m # ms1"] exI [of _ ms2] exI [of _ q]) simp
  qed
  show ?case
  proof (cases "p @ us = encode m [] \<and> rest = us @ wire ms \<and> us \<noteq> []")
    case True
    then have "p = take (length p) (encode m [])" "length p < length (encode m [])"
      by (auto simp: append_eq_conv_conj dest!: sym [of _ "encode m []"])
    then have "decode p = (Inr None, p)"
      using Cons.prems(1) decode_prefix [of m "length p"] by (simp add: fits_stream_def)
    then show ?thesis using Cons.prems(2) by (intro exI [of _ "[]"] exI [of _ "m # ms"] exI [of _ p]) simp
  next
    case False
    with us show ?thesis using whole [of us] whole [of "[]"] by auto
  qed
qed

lemma drained:
  "list_all fits_stream ms \<Longrightarrow> decode q = (Inr None, q) \<Longrightarrow> decode_all (wire ms @ q) = (map CodecMessage ms, q, None)"
proof (induction ms)
  case Nil
  then show ?case by (simp add: decode_all.simps)
next
  case (Cons m ms)
  then have "decode (encode m [] @ (wire ms @ q)) = (Inr (Some (CodecMessage m)), wire ms @ q)"
    by (intro decode_encoded) (simp add: fits_stream_def)
  with Cons show ?case by (subst decode_all.simps) simp
qed

text \<open>What arrives at the endpoint for a message read from a peer.\<close>

definition stamped_from :: "sip_addr \<Rightarrow> sip_message \<Rightarrow> error + sip_message" where
  "stamped_from remote msg = and_then (get_socketaddr remote) (\<lambda>sa. update_msg_received msg sa (unwrap_or (sa_type remote) Udp))"

lemma items_delivered:
  "list_all2 (\<lambda>m m'. stamped_from remote m = Inr m') ms ms' \<Longrightarrow>
   stream_items False failure c remote (map CodecMessage ms) = ([], map (\<lambda>m'. Incoming m' c remote) ms', None)"
  by (induction ms ms' rule: list_all2_induct) (auto simp: stamped_from_def)

lemma serve_reassembles:
  "list_all fits_stream ms \<Longrightarrow> list_all2 (\<lambda>m m'. stamped_from remote m = Inr m') ms ms' \<Longrightarrow> list_all (\<lambda>b. b \<noteq> []) chunks
   \<Longrightarrow> buffer @ concat chunks = wire ms \<Longrightarrow> decode buffer = (Inr None, buffer)
   \<Longrightarrow> stream_serve False failure c remote buffer (map StreamBytes chunks) = ([], map (\<lambda>m'. Incoming m' c remote) ms', None)"
proof (induction chunks arbitrary: buffer ms ms')
  case Nil
  then have "wire ms = buffer" by simp
  with Nil have "ms = []"
  proof (cases ms)
    case (Cons m ms')
    with Nil \<open>wire ms = buffer\<close> have "decode buffer = (Inr (Some (CodecMessage m)), wire ms')"
      using decode_encoded [of m "wire ms'"] by (auto simp: fits_stream_def)
    with Nil show ?thesis by simp
  qed simp
  with Nil show ?case by simp
next
  case (Cons b chunks)
  have "(buffer @ b) @ concat chunks = wire ms" using Cons.prems(4) by simp
  then obtain ms1 ms2 q where split: "ms = ms1 @ ms2" "buffer @ b = wire ms1 @ q" "decode q = (Inr None, q)"
      "q @ concat chunks = wire ms2"
    using wire_front [OF Cons.prems(1)] by blast
  obtain ms1' ms2' where split': "ms' = ms1' @ ms2'" "list_all2 (\<lambda>m m'. stamped_from remote m = Inr m') ms1 ms1'"
      "list_all2 (\<lambda>m m'. stamped_from remote m = Inr m') ms2 ms2'"
    using Cons.prems(2) unfolding split(1) list_all2_append1 by blast
  have fed: "feed buffer b = (map CodecMessage ms1, q, None)"
    unfolding feed_def split(2) using Cons.prems(1) split(1,3) by (intro drained) simp_all
  have "stream_serve False failure c remote q (map StreamBytes chunks) = ([], map (\<lambda>m'. Incoming m' c remote) ms2', None)"
    using Cons.prems(1,3) split(1,3,4) split'(3) by (intro Cons.IH) simp_all
  with Cons.prems(3) fed items_delivered [OF split'(2)] split'(1) show ?case by simp
qed

text \<open>C10: the messages a peer writes on a stream arrive at the endpoint one by one and in order, with
  their top Via stamped_from, however the network cuts the bytes into reads, and nothing is written back.\<close>

theorem stream_reassembly:
  assumes "list_all fits_stream ms" and "list_all2 (\<lambda>m m'. stamped_from remote m = Inr m') ms ms'"
    and "list_all (\<lambda>b. b \<noteq> []) chunks" and "concat chunks = wire ms"
  shows "stream_serve_loop False False failure c remote (map StreamBytes chunks)
    = ([], map (\<lambda>m'. Incoming m' c remote) ms', None)"
  using serve_reassembles [OF assms(1-3), of "[]"] assms(4) decode_Nil by (simp add: stream_serve_loop_def)

section \<open>Datagrams\<close>

lemma parse_encoded: "message_wf m \<Longrightarrow> parse_message (message_to_bytes m) = Inr m"
proof (cases m)
  case (Request r)
  assume "message_wf m"
  with Request show ?thesis using parse_request_bytes [of r] by (simp add: message_wf_def)
next
  case (Response r)
  assume "message_wf m"
  with Response have "response_wf r" "r\<lparr>resp_synthetic := False, resp_received_from := None, resp_wire_reason := None\<rparr> = r"
    by (simp_all add: message_wf_def)
  with Response show ?thesis using parse_response_bytes [of r] by simp
qed

lemma encoded_starts: "\<exists>c cs. message_to_bytes m = c # cs \<and> \<not> is_ascii_whitespace c"
proof (cases m)
  case (Request r)
  then show ?thesis by (cases "req_method r") (auto simp: request_to_bytes_def is_ascii_whitespace_def)
next
  case (Response r)
  then show ?thesis by (cases "resp_version r") (auto simp: response_to_bytes_def is_ascii_whitespace_def)
qed

lemma encoded_not_keepalive:
  "message_to_bytes m \<noteq> KEEPALIVE_REQUEST" "message_to_bytes m \<noteq> KEEPALIVE_RESPONSE"
  "\<not> list_all is_ascii_whitespace (message_to_bytes m)"
  using encoded_starts [of m] by (auto simp: KEEPALIVE_REQUEST_def KEEPALIVE_RESPONSE_def is_ascii_whitespace_def)

definition allowed :: "(ip_addr \<Rightarrow> bool) option \<Rightarrow> socket_addr \<Rightarrow> bool" where
  "allowed whitelist addr \<longleftrightarrow> (case whitelist of Some allow \<Rightarrow> allow (sa_ip addr) | None \<Rightarrow> True)"

lemma udp_packet_message:
  assumes "message_wf m" and "length (message_to_bytes m) \<le> MAX_UDP_BUF_SIZE" and "allowed whitelist addr"
    and "update_msg_received m addr Udp = Inr m'"
  shows "udp_packet whitelist c (message_to_bytes m) addr
    = Delivered (Incoming m' (udp_handle c (typed_addr Udp addr)) (typed_addr Udp addr))"
  using assms parse_encoded [OF assms(1)] encoded_not_keepalive [of m]
  by (auto simp: udp_packet_def Let_def allowed_def split: option.splits)

definition served_events :: "served \<Rightarrow> transport_event list" where
  "served_events r = fst (snd r)"

lemma served_events_simps [simp]:
  "served_events (wrote b a r) = served_events r" "served_events (sent_event ev r) = ev # served_events r"
  "served_events ([], evs, x) = evs"
  by (cases r, simp add: served_events_def wrote_def sent_event_def)+

lemma udp_serve_append:
  "UdpCancelled \<notin> set xs \<Longrightarrow>
   served_events (udp_serve whitelist False c (xs @ ys))
     = served_events (udp_serve whitelist False c xs) @ served_events (udp_serve whitelist False c ys)"
proof (induction xs)
  case (Cons x xs)
  then show ?case by (cases x) (auto split: reaction.split)
qed simp

text \<open>C24: a message sent in a datagram of at most 8192 bytes from an allowed address is delivered, with
  its top Via stamped_from and a handle whose peer is the source, whatever came before it on the socket
  (garbage, receive errors, messages of others) and whatever follows; and nothing before or after it
  is delivered otherwise than without it.\<close>

theorem udp_undisturbed:
  assumes "message_wf m" and "length (message_to_bytes m) \<le> MAX_UDP_BUF_SIZE" and "allowed whitelist addr"
    and "update_msg_received m addr Udp = Inr m'" and "UdpCancelled \<notin> set xs"
  shows "served_events (udp_serve whitelist False c (xs @ Datagram (message_to_bytes m) addr # ys))
    = served_events (udp_serve whitelist False c xs)
      @ Incoming m' (udp_handle c (typed_addr Udp addr)) (typed_addr Udp addr)
      # served_events (udp_serve whitelist False c ys)"
  using udp_serve_append [OF assms(5)] udp_packet_message [OF assms(1-4)] by simp

section \<open>WebSockets\<close>

definition message_body :: "sip_message \<Rightarrow> bytes" where
  "message_body m = (case m of Request r \<Rightarrow> req_body r | Response r \<Rightarrow> resp_body r)"

lemma message_text_valid: "utf8_valid (message_body m) \<Longrightarrow> message_text m = message_to_bytes m"
  by (cases m) (simp_all add: message_body_def message_text_def utf8_lossy_id)

text \<open>A message whose body is UTF-8 is delivered from the text frame it is sent in, with its top
  Via stamped_from; the same bytes in a binary frame are delivered without the stamp.\<close>

theorem ws_delivery:
  assumes "message_wf m" and "utf8_valid (message_body m)" and "stamped_from remote m = Inr m'"
  shows "and_then (ws_send (\<lambda>_. None) m) (\<lambda>f. Inr (ws_serve False failure c remote [WsFrame f]))
      = Inr ([], [Incoming m' c remote], None)
    \<and> ws_serve False failure c remote [WsFrame (WsBinary (message_to_bytes m))] = ([], [Incoming m c remote], None)"
  using assms message_text_valid [OF assms(2)] parse_encoded [OF assms(1)] encoded_not_keepalive [of m]
  by (simp add: ws_send_def stamped_from_def)

text \<open>A body that is not UTF-8 does not survive a WebSocket: what is sent is always text, and the
  bytes that are not UTF-8 are replaced, although the Content-Length still counts the original.\<close>

theorem ws_body_changed:
  assumes "\<not> utf8_valid (message_body m)"
  shows "ws_send (\<lambda>_. None) m = Inr (WsText (message_text m)) \<and> message_text m \<noteq> message_to_bytes m"
proof -
  have ne: "utf8_lossy (message_body m) \<noteq> message_body m" using assms utf8_lossy_valid [of "message_body m"] by metis
  then have "message_text m \<noteq> message_to_bytes m"
    by (cases m) (simp_all add: message_body_def message_text_def request_to_bytes_def response_to_bytes_def)
  then show ?thesis by (simp add: ws_send_def)
qed

section \<open>Examples\<close>

definition example_remote :: sip_addr where
  "example_remote = typed_addr Tcp \<lparr>sa_ip = V4 10 0 0 1, sa_port = 5060\<rparr>"

definition example_conn_to :: "conn_kind \<Rightarrow> sip_connection" where
  "example_conn_to k = stream_connection k 1 (typed_addr Tcp \<lparr>sa_ip = V4 10 0 0 2, sa_port = 5060\<rparr>) example_remote"

lemma example_stamped: "\<exists>m'. stamped_from example_remote (Request example_request) = Inr m'"
proof -
  have "(case stamped_from example_remote (Request example_request) of Inr _ \<Rightarrow> True | Inl _ \<Rightarrow> False)" by code_simp
  then show ?thesis by (cases "stamped_from example_remote (Request example_request)") auto
qed

lemma example_fits: "fits_stream (Request example_request)"
  by code_simp

lemma stream_reassembly_witness:
  "\<exists>m'. stream_serve_loop False False (\<lambda>_. None) (example_conn_to ConnTcp) example_remote
      (map StreamBytes [take 30 (wire [Request example_request, Request example_request]),
                        drop 30 (wire [Request example_request, Request example_request])])
    = ([], map (\<lambda>m'. Incoming m' (example_conn_to ConnTcp) example_remote) [m', m'], None)"
proof -
  obtain m' where m': "stamped_from example_remote (Request example_request) = Inr m'" using example_stamped by blast
  show ?thesis
  proof (rule exI, rule stream_reassembly)
    show "list_all fits_stream [Request example_request, Request example_request]" using example_fits by simp
    show "list_all2 (\<lambda>m m'. stamped_from example_remote m = Inr m') [Request example_request, Request example_request] [m', m']"
      using m' by simp
    show "list_all (\<lambda>b. b \<noteq> []) [take 30 (wire [Request example_request, Request example_request]),
        drop 30 (wire [Request example_request, Request example_request])]"
      by code_simp
    show "concat [take 30 (wire [Request example_request, Request example_request]),
        drop 30 (wire [Request example_request, Request example_request])] = wire [Request example_request, Request example_request]"
      by (simp only: concat.simps append_Nil2 append_take_drop_id)
  qed
qed

definition example_source_addr :: socket_addr where
  "example_source_addr = \<lparr>sa_ip = V4 10 0 0 1, sa_port = 5060\<rparr>"

definition example_noise :: "udp_input list" where
  "example_noise = [Datagram ''garbage'' \<lparr>sa_ip = V4 10 0 0 7, sa_port = 7\<rparr>, ReceiveError]"

lemma udp_undisturbed_witness:
  "\<exists>m'. served_events (udp_serve None False (example_conn_to ConnUdp)
      (example_noise @ Datagram (message_to_bytes (Request example_request)) example_source_addr # [UdpCancelled]))
    = served_events (udp_serve None False (example_conn_to ConnUdp) example_noise)
      @ Incoming m' (udp_handle (example_conn_to ConnUdp) (typed_addr Udp example_source_addr)) (typed_addr Udp example_source_addr)
      # served_events (udp_serve None False (example_conn_to ConnUdp) [UdpCancelled])"
proof -
  have "(case update_msg_received (Request example_request) example_source_addr Udp of Inr _ \<Rightarrow> True | Inl _ \<Rightarrow> False)" by code_simp
  then obtain m' where m': "update_msg_received (Request example_request) example_source_addr Udp = Inr m'"
    by (auto split: sum.splits)
  show ?thesis
  proof (rule exI, rule udp_undisturbed)
    show "message_wf (Request example_request)" using example_fits by (simp only: fits_stream_def)
    show "length (message_to_bytes (Request example_request)) \<le> MAX_UDP_BUF_SIZE" by code_simp
    show "allowed None example_source_addr" by (simp add: allowed_def)
    show "UdpCancelled \<notin> set example_noise" by (simp add: example_noise_def)
  qed (rule m')
qed

definition text_request :: sip_message where
  "text_request = Request (example_request\<lparr>req_body := ''text''\<rparr>)"

lemma ws_delivery_witness:
  "\<exists>m'. and_then (ws_send (\<lambda>_. None) text_request)
        (\<lambda>f. Inr (ws_serve False (\<lambda>_. None) (example_conn_to ConnWebSocket) example_remote [WsFrame f]))
      = Inr ([], [Incoming m' (example_conn_to ConnWebSocket) example_remote], None)
    \<and> ws_serve False (\<lambda>_. None) (example_conn_to ConnWebSocket) example_remote
        [WsFrame (WsBinary (message_to_bytes text_request))]
      = ([], [Incoming text_request (example_conn_to ConnWebSocket) example_remote], None)"
proof -
  have "(case stamped_from example_remote text_request of Inr _ \<Rightarrow> True | Inl _ \<Rightarrow> False)" by code_simp
  then obtain m' where m': "stamped_from example_remote text_request = Inr m'" by (auto split: sum.splits)
  have wf: "message_wf text_request" by code_simp
  have "utf8_valid (message_body text_request)" by code_simp
  from ws_delivery [OF wf this m'] show ?thesis by blast
qed

lemma ws_body_changed_witness:
  "ws_send (\<lambda>_. None) (Request example_request) = Inr (WsText (message_text (Request example_request)))
   \<and> message_text (Request example_request) \<noteq> message_to_bytes (Request example_request)"
proof (rule ws_body_changed)
  show "\<not> utf8_valid (message_body (Request example_request))" by code_simp
qed

end
