(* ===== verification/Tls_Reload.thy ===== *)
theory Tls_Reload
  imports Transport_Layer
begin

text \<open>
  The certificates of a TLS listener (\<open>transport/tls.rs\<close>). A \<open>ReloadableCertResolver\<close> is a cell that
  holds the certified key and can be written while handshakes read it. Cells are addresses of an
  explicit store, because what matters here is which of them are the same. Parsing a certificate
  chain with its key is given, as \<open>mk\<close>.
\<close>

record 'k cert_store =
  cs_cells :: "nat \<rightharpoonup> 'k"
  cs_next :: nat

type_synonym 'k key_maker = "bytes \<Rightarrow> bytes \<Rightarrow> error + 'k"

definition store_new :: "'k cert_store" where
  "store_new = \<lparr>cs_cells = Map.empty, cs_next = 0\<rparr>"

definition store_alloc :: "'k \<Rightarrow> 'k cert_store \<Rightarrow> nat \<times> 'k cert_store" where
  "store_alloc k st = (cs_next st, st\<lparr>cs_cells := (cs_cells st)(cs_next st \<mapsto> k), cs_next := cs_next st + 1\<rparr>)"

definition resolver_new :: "'k key_maker \<Rightarrow> bytes \<Rightarrow> bytes \<Rightarrow> 'k cert_store \<Rightarrow> (error + nat) \<times> 'k cert_store" where
  "resolver_new mk cert key st =
     (case mk cert key of
        Inl e \<Rightarrow> (Inl e, st)
      | Inr k \<Rightarrow> (case store_alloc k st of (a, st) \<Rightarrow> (Inr a, st)))"

text \<open>\<open>Clone\<close> puts the key it reads into a lock of its own.\<close>

definition resolver_clone :: "nat \<Rightarrow> 'k cert_store \<Rightarrow> (nat \<times> 'k cert_store) option" where
  "resolver_clone a st = map_option (\<lambda>k. store_alloc k st) (cs_cells st a)"

definition resolver_resolve :: "nat \<Rightarrow> 'k cert_store \<Rightarrow> 'k option" where
  "resolver_resolve a st = cs_cells st a"

definition resolver_reload ::
    "'k key_maker \<Rightarrow> nat \<Rightarrow> bytes \<Rightarrow> bytes \<Rightarrow> 'k cert_store \<Rightarrow> (error + unit) \<times> 'k cert_store" where
  "resolver_reload mk a cert key st =
     (case mk cert key of
        Inl e \<Rightarrow> (Inl e, st)
      | Inr k \<Rightarrow> (Inr (), st\<lparr>cs_cells := (cs_cells st)(a \<mapsto> k)\<rparr>))"

text \<open>The resolver the acceptor was built with, and the one that is returned; the handle of a resolver
  that was just made can be cloned.\<close>

definition create_acceptor ::
    "'k key_maker \<Rightarrow> tls_config \<Rightarrow> 'k cert_store \<Rightarrow> (error + (nat \<times> nat)) \<times> 'k cert_store" where
  "create_acceptor mk config st =
     (case and_then (ok_or (tc_cert config) (Error ''No certificate provided'')) (\<lambda>cert.
             and_then (ok_or (tc_key config) (Error ''No private key provided'')) (\<lambda>key. Inr (cert, key))) of
        Inl e \<Rightarrow> (Inl e, st)
      | Inr (cert, key) \<Rightarrow>
          (case resolver_new mk cert key st of
             (Inl e, st) \<Rightarrow> (Inl e, st)
           | (Inr resolver, st) \<Rightarrow>
               (case resolver_clone resolver st of
                  Some (acceptor, st) \<Rightarrow> (Inr (acceptor, resolver), st)
                | None \<Rightarrow> (Inl (Error ''''), st))))"

record tls_listener =
  tll_config :: tls_config
  tll_cert_resolver :: "nat option"

definition tls_listener_new :: "tls_config \<Rightarrow> tls_listener" where
  "tls_listener_new config = \<lparr>tll_config = config, tll_cert_resolver = None\<rparr>"

text \<open>\<open>serve_listener\<close> up to its accept loop (the socket being bound), giving the resolver the loop's
  handshakes ask; and \<open>reload_tls_config\<close>.\<close>

definition tls_serve ::
    "'k key_maker \<Rightarrow> tls_listener \<Rightarrow> 'k cert_store \<Rightarrow> (error + nat) \<times> tls_listener \<times> 'k cert_store" where
  "tls_serve mk l st =
     (case create_acceptor mk (tll_config l) st of
        (Inl e, st) \<Rightarrow> (Inl e, l, st)
      | (Inr (acceptor, resolver), st) \<Rightarrow> (Inr acceptor, l\<lparr>tll_cert_resolver := Some resolver\<rparr>, st))"

definition reload_tls_config ::
    "'k key_maker \<Rightarrow> bytes \<Rightarrow> bytes \<Rightarrow> tls_listener \<Rightarrow> 'k cert_store \<Rightarrow> (error + unit) \<times> 'k cert_store" where
  "reload_tls_config mk cert key l st =
     (case tll_cert_resolver l of
        None \<Rightarrow> (Inl (Error ''No cert resolver available''), st)
      | Some a \<Rightarrow> resolver_reload mk a cert key st)"

lemma acceptor_apart:
  assumes "tls_serve mk l st = (Inr acceptor, l', st')"
  shows "\<exists>resolver k. tll_cert_resolver l' = Some resolver \<and> resolver \<noteq> acceptor
    \<and> resolver_resolve acceptor st' = Some k \<and> resolver_resolve resolver st' = Some k"
  using assms
  by (auto simp: tls_serve_def create_acceptor_def resolver_new_def resolver_clone_def store_alloc_def resolver_resolve_def
      split: sum.splits option.splits prod.splits)

text \<open>A reload that reports success changes the key of the listener's own resolver and not that of
  the one the accept loop was built with: every later handshake still gets the old certificate.\<close>

theorem reload_not_seen:
  assumes "tls_serve mk l st = (Inr acceptor, l', st1)"
    and "reload_tls_config mk cert key l' st1 = (Inr (), st2)"
  shows "\<exists>resolver. tll_cert_resolver l' = Some resolver
    \<and> mk cert key = Inr (the (resolver_resolve resolver st2))
    \<and> resolver_resolve acceptor st2 = resolver_resolve acceptor st1"
  using acceptor_apart [OF assms(1)] assms(2)
  by (auto simp: reload_tls_config_def resolver_reload_def resolver_resolve_def split: sum.splits)

definition example_tls_config :: tls_config where
  "example_tls_config = tls_config_default\<lparr>tc_cert := Some ''old'', tc_key := Some ''k''\<rparr>"

text \<open>Here the certified key is the certificate's own text.\<close>

definition example_make :: "bytes key_maker" where
  "example_make cert key = Inr cert"

lemma reload_not_seen_witness:
  "case tls_serve example_make (tls_listener_new example_tls_config) store_new of
     (Inr acceptor, l', st1) \<Rightarrow>
       (case reload_tls_config example_make ''new'' ''k'' l' st1 of
          (Inr _, st2) \<Rightarrow>
            resolver_resolve acceptor st2 = Some ''old''
            \<and> Option.bind (tll_cert_resolver l') (\<lambda>a. resolver_resolve a st2) = Some ''new''
        | _ \<Rightarrow> False)
   | _ \<Rightarrow> False"
proof -
  obtain acceptor l' st1 where s: "tls_serve example_make (tls_listener_new example_tls_config) store_new = (Inr acceptor, l', st1)"
    and k: "resolver_resolve acceptor st1 = Some ''old''" and r: "tll_cert_resolver l' \<noteq> None"
    by (simp add: tls_serve_def create_acceptor_def resolver_new_def resolver_clone_def store_alloc_def resolver_resolve_def
        example_make_def example_tls_config_def tls_listener_new_def tls_config_default_def store_new_def)
  obtain a st2 where d: "reload_tls_config example_make ''new'' ''k'' l' st1 = (Inr (), st2)"
      "tll_cert_resolver l' = Some a" "resolver_resolve a st2 = Some ''new''"
    using r by (auto simp: reload_tls_config_def resolver_reload_def example_make_def resolver_resolve_def)
  from reload_not_seen [OF s d(1)] k s d show ?thesis by simp
qed

end
