(* ===== verification/Platform.thy ===== *)
theory Platform
  imports Rust_Prelude
begin

text \<open>
  The runtime primitives of the embedded backend (\<open>platform/token.rs\<close>, \<open>mpsc.rs\<close>, \<open>select.rs\<close>,
  \<open>sync.rs\<close>, \<open>atomic64.rs\<close> and the join handle of \<open>platform/mod.rs\<close>). What the tokio backend takes
  from tokio is outside the model. Where two tasks can run between two accesses of shared state, the
  accesses are separate steps.
\<close>

section \<open>Cancellation tokens\<close>

text \<open>
  The nodes live in a vector in the order they were made, so a parent has the smaller index. A node is
  alive while some handle owns it: a child holds its parent only weakly. A waker is the number of the
  task it wakes.
\<close>

record token_node =
  tn_flag :: bool
  tn_parent :: "nat option"
  tn_wakers :: "nat list"
  tn_alive :: bool

type_synonym tokens = "token_node list"

definition token_new :: "tokens \<Rightarrow> nat \<times> tokens" where
  "token_new ts = (length ts, ts @ [\<lparr>tn_flag = False, tn_parent = None, tn_wakers = [], tn_alive = True\<rparr>])"

definition child_token :: "nat \<Rightarrow> tokens \<Rightarrow> nat \<times> tokens" where
  "child_token p ts = (length ts, ts @ [\<lparr>tn_flag = False, tn_parent = Some p, tn_wakers = [], tn_alive = True\<rparr>])"

text \<open>\<open>Weak::upgrade\<close> of the parent link.\<close>

definition upgrade :: "tokens \<Rightarrow> nat \<Rightarrow> nat option" where
  "upgrade ts i =
     (case tn_parent (ts ! i) of
        Some p \<Rightarrow> if p < i \<and> tn_alive (ts ! p) then Some p else None
      | None \<Rightarrow> None)"

text \<open>The nodes the loops of \<open>is_cancelled\<close> and \<open>poll\<close> visit.\<close>

function token_chain :: "tokens \<Rightarrow> nat \<Rightarrow> nat list" where
  "token_chain ts i = i # (case upgrade ts i of Some p \<Rightarrow> token_chain ts p | None \<Rightarrow> [])"
  by auto
termination
  by (relation "measure snd") (auto simp: upgrade_def split: option.splits if_splits)

declare token_chain.simps [simp del]

definition token_cancelled :: "tokens \<Rightarrow> nat \<Rightarrow> bool" where
  "token_cancelled ts i \<longleftrightarrow> list_ex (\<lambda>j. tn_flag (ts ! j)) (token_chain ts i)"

definition set_flag :: "nat \<Rightarrow> tokens \<Rightarrow> tokens" where
  "set_flag i ts = ts[i := (ts ! i)\<lparr>tn_flag := True\<rparr>]"

text \<open>\<open>wake_all\<close>: the wakers that are woken, taken out of the node.\<close>

definition wake_all :: "nat \<Rightarrow> tokens \<Rightarrow> nat list \<times> tokens" where
  "wake_all i ts = (tn_wakers (ts ! i), ts[i := (ts ! i)\<lparr>tn_wakers := []\<rparr>])"

definition token_cancel :: "nat \<Rightarrow> tokens \<Rightarrow> nat list \<times> tokens" where
  "token_cancel i ts = wake_all i (set_flag i ts)"

definition token_drop :: "nat \<Rightarrow> tokens \<Rightarrow> tokens" where
  "token_drop i ts = ts[i := (ts ! i)\<lparr>tn_alive := False\<rparr>]"

definition push_waker :: "nat \<Rightarrow> nat \<Rightarrow> tokens \<Rightarrow> tokens" where
  "push_waker w i ts = ts[i := (ts ! i)\<lparr>tn_wakers := tn_wakers (ts ! i) @ [w]\<rparr>]"

text \<open>The second half of \<open>Cancelled::poll\<close>, the registration on every node of the chain.\<close>

definition register_waker :: "nat \<Rightarrow> nat \<Rightarrow> tokens \<Rightarrow> tokens" where
  "register_waker w i ts = fold (push_waker w) (token_chain ts i) ts"

text \<open>A poll nobody interrupts: whether it is ready, and the tokens it leaves.\<close>

definition poll_cancelled :: "nat \<Rightarrow> nat \<Rightarrow> tokens \<Rightarrow> bool \<times> tokens" where
  "poll_cancelled w i ts = (if token_cancelled ts i then (True, ts) else (False, register_waker w i ts))"

section \<open>The unbounded channel\<close>

record 'a chan =
  ch_queue :: "'a list"
  ch_closed :: bool
  ch_signal :: bool

definition chan_new :: "'a chan" where
  "chan_new = \<lparr>ch_queue = [], ch_closed = False, ch_signal = False\<rparr>"

definition chan_send :: "'a \<Rightarrow> 'a chan \<Rightarrow> ('a + unit) \<times> 'a chan" where
  "chan_send v ch =
     (if ch_closed ch then (Inl v, ch)
      else (Inr (), ch\<lparr>ch_queue := ch_queue ch @ [v], ch_signal := True\<rparr>))"

definition try_recv_inner :: "'a chan \<Rightarrow> 'a option \<times> 'a chan" where
  "try_recv_inner ch = (case ch_queue ch of [] \<Rightarrow> (None, ch) | v # vs \<Rightarrow> (Some v, ch\<lparr>ch_queue := vs\<rparr>))"

definition chan_close :: "'a chan \<Rightarrow> 'a chan" where
  "chan_close ch = ch\<lparr>ch_closed := True, ch_signal := True\<rparr>"

text \<open>
  \<open>recv\<close> is a loop with an await; the receiver is in front of its look into the queue, in front of its
  look at the closed flag, or waiting for the signal. A sender that has pushed has not yet signalled.
\<close>

datatype recv_at = AtQueue | AtClosed | AtWait | Returned

record 'a chan_world =
  cw_chan :: "'a chan"
  cw_recv :: recv_at
  cw_pushed :: nat
  cw_sent :: "'a list"
  cw_got :: "'a list"

definition world_new :: "'a chan_world" where
  "world_new = \<lparr>cw_chan = chan_new, cw_recv = AtQueue, cw_pushed = 0, cw_sent = [], cw_got = []\<rparr>"

inductive chan_step :: "'a chan_world \<Rightarrow> 'a chan_world \<Rightarrow> bool" where
  push: "\<not> ch_closed (cw_chan w) \<Longrightarrow>
    chan_step w (w\<lparr>cw_chan := (cw_chan w)\<lparr>ch_queue := ch_queue (cw_chan w) @ [v]\<rparr>, cw_pushed := cw_pushed w + 1,
      cw_sent := cw_sent w @ [v]\<rparr>)"
| signal: "cw_pushed w = n + 1 \<Longrightarrow>
    chan_step w (w\<lparr>cw_chan := (cw_chan w)\<lparr>ch_signal := True\<rparr>, cw_pushed := n\<rparr>)"
| close: "chan_step w (w\<lparr>cw_chan := chan_close (cw_chan w)\<rparr>)"
| got: "cw_recv w = AtQueue \<Longrightarrow> try_recv_inner (cw_chan w) = (Some v, ch) \<Longrightarrow>
    chan_step w (w\<lparr>cw_chan := ch, cw_recv := AtQueue, cw_got := cw_got w @ [v]\<rparr>)"
| empty: "cw_recv w = AtQueue \<Longrightarrow> try_recv_inner (cw_chan w) = (None, ch) \<Longrightarrow> chan_step w (w\<lparr>cw_recv := AtClosed\<rparr>)"
| over: "cw_recv w = AtClosed \<Longrightarrow> ch_closed (cw_chan w) \<Longrightarrow> chan_step w (w\<lparr>cw_recv := Returned\<rparr>)"
| wait: "cw_recv w = AtClosed \<Longrightarrow> \<not> ch_closed (cw_chan w) \<Longrightarrow> chan_step w (w\<lparr>cw_recv := AtWait\<rparr>)"
| woken: "cw_recv w = AtWait \<Longrightarrow> ch_signal (cw_chan w) \<Longrightarrow>
    chan_step w (w\<lparr>cw_chan := (cw_chan w)\<lparr>ch_signal := False\<rparr>, cw_recv := AtQueue\<rparr>)"
| dropped: "cw_recv w = AtClosed \<or> cw_recv w = AtWait \<Longrightarrow> chan_step w (w\<lparr>cw_recv := AtQueue\<rparr>)"

section \<open>Races\<close>

datatype ('a, 'b) either2 = EitherA 'a | EitherB 'b
datatype ('a, 'b, 'c) which3 = WhichA 'a | WhichB 'b | WhichC 'c

text \<open>One poll of the combinators: each future is the function of its state that polling it is, and
  \<open>None\<close> is pending.\<close>

definition poll_select2 ::
    "('s \<Rightarrow> 'a option \<times> 's) \<Rightarrow> ('t \<Rightarrow> 'b option \<times> 't) \<Rightarrow> 's \<times> 't \<Rightarrow> ('a, 'b) either2 option \<times> 's \<times> 't" where
  "poll_select2 a b st =
     (case a (fst st) of
        (Some v, s) \<Rightarrow> (Some (EitherA v), s, snd st)
      | (None, s) \<Rightarrow>
          (case b (snd st) of
             (Some v, t) \<Rightarrow> (Some (EitherB v), s, t)
           | (None, t) \<Rightarrow> (None, s, t)))"

definition poll_select3 ::
    "('s \<Rightarrow> 'a option \<times> 's) \<Rightarrow> ('t \<Rightarrow> 'b option \<times> 't) \<Rightarrow> ('u \<Rightarrow> 'c option \<times> 'u) \<Rightarrow> 's \<times> 't \<times> 'u
     \<Rightarrow> ('a, 'b, 'c) which3 option \<times> 's \<times> 't \<times> 'u" where
  "poll_select3 a b c st =
     (case st of (s, t, u) \<Rightarrow>
        (case a s of
           (Some v, s) \<Rightarrow> (Some (WhichA v), s, t, u)
         | (None, s) \<Rightarrow>
             (case b t of
                (Some v, t) \<Rightarrow> (Some (WhichB v), s, t, u)
              | (None, t) \<Rightarrow>
                  (case c u of
                     (Some v, u) \<Rightarrow> (Some (WhichC v), s, t, u)
                   | (None, u) \<Rightarrow> (None, s, t, u)))))"

section \<open>Bounded channels and join handles\<close>

text \<open>
  An \<open>async\<close> function does nothing until its future is polled: the call is the function of the
  channel it will be run on, and polling it applies that function. The capacity is fixed.
\<close>

record 'a bounded =
  bc_items :: "'a list"
  bc_closed :: bool

definition CAPACITY :: nat where "CAPACITY = 64"

definition bounded_new :: "'a bounded" where
  "bounded_new = \<lparr>bc_items = [], bc_closed = False\<rparr>"

definition bounded_send :: "'a \<Rightarrow> ('a bounded \<Rightarrow> ('a + unit) option \<times> 'a bounded)" where
  "bounded_send v = (\<lambda>ch.
     if bc_closed ch then (Some (Inl v), ch)
     else if length (bc_items ch) < CAPACITY then (Some (Inr ()), ch\<lparr>bc_items := bc_items ch @ [v]\<rparr>)
     else (None, ch))"

definition bounded_recv :: "'a bounded \<Rightarrow> 'a option option \<times> 'a bounded" where
  "bounded_recv ch =
     (if bc_closed ch then (Some None, ch)
      else (case bc_items ch of
          v # vs \<Rightarrow> (Some (Some v), ch\<lparr>bc_items := vs\<rparr>)
        | [] \<Rightarrow> (None, ch)))"

text \<open>What the task of \<open>spawn_with_result\<close> does with its result, and one poll of the \<open>JoinHandle\<close>
  (\<open>None\<close> is pending).\<close>

definition finish_spawned :: "'a \<Rightarrow> 'a bounded \<Rightarrow> 'a bounded" where
  "finish_spawned out ch = (let _ = bounded_send out in ch)"

definition poll_join :: "'a bounded \<Rightarrow> 'a option \<times> 'a bounded" where
  "poll_join ch = (case bounded_recv ch of (Some r, ch) \<Rightarrow> (r, ch) | (None, ch) \<Rightarrow> (None, ch))"

section \<open>Spin locks and 32-bit counters\<close>

text \<open>The tasks that hold a guard of the lock, and the accesses of the flag.\<close>

record spin =
  sl_locked :: bool
  sl_holders :: "nat list"

inductive spin_step :: "spin \<Rightarrow> spin \<Rightarrow> bool" where
  acquire: "\<not> sl_locked s \<Longrightarrow> spin_step s (s\<lparr>sl_locked := True, sl_holders := t # sl_holders s\<rparr>)"
| spin: "sl_locked s \<Longrightarrow> spin_step s (s\<lparr>sl_locked := True\<rparr>)"
| release: "t \<in> set (sl_holders s) \<Longrightarrow> spin_step s (s\<lparr>sl_locked := False, sl_holders := remove1 t (sl_holders s)\<rparr>)"

definition a32_new :: "nat \<Rightarrow> nat" where "a32_new v = v mod 2 ^ 32"

definition a32_fetch_add :: "nat \<Rightarrow> nat \<Rightarrow> nat \<times> nat" where
  "a32_fetch_add v c = (c, (c + v mod 2 ^ 32) mod 2 ^ 32)"

definition a32_fetch_sub :: "nat \<Rightarrow> nat \<Rightarrow> nat \<times> nat" where
  "a32_fetch_sub v c = (c, (c + 2 ^ 32 - v mod 2 ^ 32) mod 2 ^ 32)"

definition a32_store :: "nat \<Rightarrow> nat \<Rightarrow> nat" where "a32_store v c = v mod 2 ^ 32"

definition a32_compare_exchange :: "nat \<Rightarrow> nat \<Rightarrow> nat \<Rightarrow> (nat + nat) \<times> nat" where
  "a32_compare_exchange current new c =
     (if c = current mod 2 ^ 32 then (Inr c, new mod 2 ^ 32) else (Inl c, c))"

end
