(* ===== verification/Platform_Props.thy ===== *)
theory Platform_Props
  imports Platform
begin

text \<open>
  What the embedded runtime promises and where it does not keep it: which tokens a cancel reaches and
  whom it wakes, the order of a channel, and the exclusion of a spin lock.
\<close>

section \<open>Chains of tokens\<close>

text \<open>Flags and wakers do not matter to the chain of a node.\<close>

definition same_links :: "tokens \<Rightarrow> tokens \<Rightarrow> bool" where
  "same_links ts us \<longleftrightarrow> length us = length ts
     \<and> (\<forall>i < length ts. tn_parent (us ! i) = tn_parent (ts ! i) \<and> tn_alive (us ! i) = tn_alive (ts ! i))"

lemma same_links_trans: "same_links ts us \<Longrightarrow> same_links us vs \<Longrightarrow> same_links ts vs"
  by (simp add: same_links_def)

lemma same_links_update:
  "tn_parent n = tn_parent (ts ! i) \<Longrightarrow> tn_alive n = tn_alive (ts ! i) \<Longrightarrow> same_links ts (ts[i := n])"
  by (cases "i < length ts") (auto simp: same_links_def nth_list_update)

lemma upgrade_same: "same_links ts us \<Longrightarrow> i < length ts \<Longrightarrow> upgrade us i = upgrade ts i"
  by (auto simp: upgrade_def same_links_def split: option.split)

lemma upgrade_less: "upgrade ts i = Some p \<Longrightarrow> p < i"
  by (auto simp: upgrade_def split: option.splits if_splits)

lemma chain_same: "same_links ts us \<Longrightarrow> i < length ts \<Longrightarrow> token_chain us i = token_chain ts i"
proof (induction us i rule: token_chain.induct)
  case (1 us i)
  note up = upgrade_same [OF 1(2,3)]
  show ?case
  proof (cases "upgrade ts i")
    case None
    with up show ?thesis by (simp add: token_chain.simps [of us i] token_chain.simps [of ts i])
  next
    case (Some p)
    with up 1(1) [of p] 1(2,3) upgrade_less [OF Some] show ?thesis
      by (simp add: token_chain.simps [of us i] token_chain.simps [of ts i])
  qed
qed

lemma token_chain_cases:
  "token_chain ts i = [i] \<and> upgrade ts i = None \<or> (\<exists>p < i. upgrade ts i = Some p \<and> token_chain ts i = i # token_chain ts p)"
  using upgrade_less [of ts i] by (cases "upgrade ts i") (simp_all add: token_chain.simps [of ts i])

lemma chain_le: "j \<in> set (token_chain ts i) \<Longrightarrow> j \<le> i"
proof (induction i rule: less_induct)
  case (less i)
  show ?case
    using token_chain_cases [of ts i]
  proof (elim disjE exE conjE)
    fix p assume "p < i" "token_chain ts i = i # token_chain ts p"
    with less show ?thesis by fastforce
  qed (use less in simp)
qed

lemma chain_distinct: "distinct (token_chain ts i)"
proof (induction i rule: less_induct)
  case (less i)
  show ?case
    using token_chain_cases [of ts i]
  proof (elim disjE exE conjE)
    fix p assume "p < i" "token_chain ts i = i # token_chain ts p"
    with less chain_le [of i ts p] show ?thesis by auto
  qed simp
qed

lemma push_waker_links: "same_links ts (push_waker w i ts)"
  by (auto simp: push_waker_def intro: same_links_update)

lemma push_waker_nth:
  "j < length ts \<Longrightarrow> tn_flag (push_waker w i ts ! j) = tn_flag (ts ! j)
    \<and> tn_wakers (push_waker w i ts ! j) = tn_wakers (ts ! j) @ (if j = i then [w] else [])"
  by (simp add: push_waker_def nth_list_update)

lemma fold_push:
  "distinct is \<Longrightarrow> same_links ts (fold (push_waker w) is ts)
    \<and> (\<forall>j < length ts. tn_flag (fold (push_waker w) is ts ! j) = tn_flag (ts ! j)
        \<and> tn_wakers (fold (push_waker w) is ts ! j) = tn_wakers (ts ! j) @ (if j \<in> set is then [w] else []))"
proof (induction "is" arbitrary: ts)
  case (Cons i "is")
  have len: "length (push_waker w i ts) = length ts" by (simp add: push_waker_def)
  have IH: "same_links (push_waker w i ts) (fold (push_waker w) (i # is) ts)"
      "\<And>j. j < length ts \<Longrightarrow> tn_flag (fold (push_waker w) (i # is) ts ! j) = tn_flag (push_waker w i ts ! j)"
      "\<And>j. j < length ts \<Longrightarrow> tn_wakers (fold (push_waker w) (i # is) ts ! j)
        = tn_wakers (push_waker w i ts ! j) @ (if j \<in> set is then [w] else [])"
    using Cons.IH [of "push_waker w i ts"] Cons.prems len by simp_all
  have "same_links ts (fold (push_waker w) (i # is) ts)"
    by (rule same_links_trans [OF push_waker_links IH(1)])
  with IH(2,3) push_waker_nth [where ts = ts and w = w and i = i] Cons.prems show ?case by auto
qed (simp add: same_links_def)

lemma registered:
  "same_links ts (register_waker w i ts)"
  "j < length ts \<Longrightarrow> tn_flag (register_waker w i ts ! j) = tn_flag (ts ! j)"
  "j < length ts \<Longrightarrow> tn_wakers (register_waker w i ts ! j) = tn_wakers (ts ! j) @ (if j \<in> set (token_chain ts i) then [w] else [])"
  using fold_push [OF chain_distinct, of ts w ts i] by (simp_all add: register_waker_def)

lemma cancel_links: "same_links ts (snd (token_cancel i ts))"
  unfolding token_cancel_def wake_all_def set_flag_def snd_conv
  by (rule same_links_trans [OF same_links_update same_links_update]) simp_all

lemma cancel_flag:
  "j < length ts \<Longrightarrow> i < length ts \<Longrightarrow> tn_flag (snd (token_cancel i ts) ! j) = (j = i \<or> tn_flag (ts ! j))"
  by (auto simp: token_cancel_def wake_all_def set_flag_def nth_list_update)

lemma cancelled_after:
  assumes "i < length ts" and "j < length ts"
  shows "token_cancelled (snd (token_cancel i ts)) j \<longleftrightarrow> token_cancelled ts j \<or> i \<in> set (token_chain ts j)"
proof -
  have "k < length ts" if "k \<in> set (token_chain ts j)" for k
    using chain_le [OF that] assms(2) by simp
  then show ?thesis
    using cancel_flag [OF _ assms(1)] chain_same [OF cancel_links assms(2)]
    by (auto simp: token_cancelled_def list_ex_iff)
qed

text \<open>After a cancel exactly those tokens are cancelled that were so before or have the cancelled
  token on the chain of their live ancestors.\<close>

theorem cancel_reaches:
  assumes "i < length ts" and "j < length ts"
  shows "token_cancelled (snd (token_cancel i ts)) j \<longleftrightarrow> token_cancelled ts j \<or> i \<in> set (token_chain ts j)"
  using assms by (rule cancelled_after)

text \<open>A waiter whose poll came back pending is woken by the next cancel of any token on its
  chain.\<close>

theorem pending_is_woken:
  assumes "poll_cancelled w j ts = (False, ts')" and "i \<in> set (token_chain ts j)" and "j < length ts"
  shows "w \<in> set (fst (token_cancel i ts')) \<and> token_cancelled (snd (token_cancel i ts')) j"
proof -
  have ts': "ts' = register_waker w j ts" using assms(1) by (simp add: poll_cancelled_def split: if_splits)
  have i: "i < length ts" using chain_le [OF assms(2)] assms(3) by simp
  have links: "same_links ts ts'" and w: "w \<in> set (tn_wakers (ts' ! i))"
    using registered(1) [of ts w j] registered(3) [of i ts w j] i assms(2) by (auto simp: ts')
  have len: "length ts' = length ts" using links by (simp add: same_links_def)
  have "token_cancelled (snd (token_cancel i ts')) j"
    using cancelled_after [of i ts' j] i assms(2,3) len chain_same [OF links assms(3)] by simp
  moreover have "w \<in> set (fst (token_cancel i ts'))"
    using w i len by (simp add: token_cancel_def wake_all_def set_flag_def)
  ultimately show ?thesis by simp
qed

text \<open>A cancel that falls between the check of a poll and its registration wakes nobody: the poll
  comes back pending although the token is cancelled, with its waker in a list that was drained
  already.\<close>

theorem cancel_lost_between:
  assumes "\<not> token_cancelled ts j" and "i \<in> set (token_chain ts j)" and "j < length ts" and "w \<notin> set (tn_wakers (ts ! i))"
  shows "case token_cancel i ts of (woken, ts1) \<Rightarrow>
    w \<notin> set woken \<and> token_cancelled (register_waker w j ts1) j \<and> w \<in> set (tn_wakers (register_waker w j ts1 ! i))"
proof -
  obtain woken ts1 where c: "token_cancel i ts = (woken, ts1)" by (cases "token_cancel i ts")
  have i: "i < length ts" using chain_le [OF assms(2)] assms(3) by simp
  have links: "same_links ts ts1" using cancel_links [of ts i] by (simp add: c)
  then have len: "length ts1 = length ts" by (simp add: same_links_def)
  have chain: "token_chain ts1 j = token_chain ts j" by (rule chain_same [OF links assms(3)])
  have chain': "token_chain (register_waker w j ts1) j = token_chain ts j"
    using chain_same [OF registered(1) [of ts1 w j]] assms(3) len chain by simp
  have "tn_flag (register_waker w j ts1 ! i)"
    using registered(2) [of i ts1 w j] cancel_flag [OF i i] i len by (simp add: c)
  then have "token_cancelled (register_waker w j ts1) j"
    using assms(2) chain' by (auto simp: token_cancelled_def list_ex_iff)
  moreover have "w \<in> set (tn_wakers (register_waker w j ts1 ! i))"
    using registered(3) [of i ts1 w j] i len assms(2) chain by simp
  moreover have "woken = tn_wakers (ts ! i)"
    using c i by (simp add: token_cancel_def wake_all_def set_flag_def)
  ultimately show ?thesis using assms(4) by (simp add: c)
qed

text \<open>A token whose parent has been dropped is beyond the reach of every cancel but its own.\<close>

theorem orphan_not_cancelled:
  assumes "j < length ts" and "tn_parent (ts ! j) = Some p" and "\<not> tn_alive (ts ! p)" and "\<not> tn_flag (ts ! j)"
    and "i < length ts" and "i \<noteq> j"
  shows "\<not> token_cancelled (snd (token_cancel i ts)) j"
proof -
  have "upgrade ts j = None" using assms(2,3) by (simp add: upgrade_def)
  then have "token_chain ts j = [j]" by (simp add: token_chain.simps [of ts j])
  then show ?thesis using cancelled_after [OF assms(5,1)] assms(4,6)
    by (simp add: token_cancelled_def)
qed

text \<open>Every further poll of a pending waiter adds its waker again on the whole chain, so the list
  of a token that is never cancelled grows with the number of polls.\<close>

theorem wakers_grow:
  assumes "\<not> token_cancelled ts j" and "i \<in> set (token_chain ts j)" and "j < length ts"
  shows "length (tn_wakers (((\<lambda>us. snd (poll_cancelled w j us)) ^^ n) ts ! i)) = length (tn_wakers (ts ! i)) + n"
proof -
  let ?us = "\<lambda>n. ((\<lambda>us. snd (poll_cancelled w j us)) ^^ n) ts"
  have i: "i < length ts" using chain_le [OF assms(2)] assms(3) by simp
  have "same_links ts (?us n) \<and> (\<forall>k < length ts. tn_flag (?us n ! k) = tn_flag (ts ! k))
      \<and> length (tn_wakers (?us n ! i)) = length (tn_wakers (ts ! i)) + n"
  proof (induction n)
    case (Suc n)
    then have links: "same_links ts (?us n)" and flags: "\<forall>k < length ts. tn_flag (?us n ! k) = tn_flag (ts ! k)"
      and grown: "length (tn_wakers (?us n ! i)) = length (tn_wakers (ts ! i)) + n" by blast+
    have len: "length (?us n) = length ts" using links by (simp add: same_links_def)
    have chain: "token_chain (?us n) j = token_chain ts j" by (rule chain_same [OF links assms(3)])
    have "k < length ts" if "k \<in> set (token_chain ts j)" for k using chain_le [OF that] assms(3) by simp
    then have "\<not> token_cancelled (?us n) j"
      using assms(1) flags chain by (auto simp: token_cancelled_def list_ex_iff)
    then have step: "?us (Suc n) = register_waker w j (?us n)" by (simp add: poll_cancelled_def)
    have "same_links ts (?us (Suc n))" unfolding step by (rule same_links_trans [OF links registered(1)])
    moreover have "tn_flag (?us (Suc n) ! k) = tn_flag (ts ! k)" if "k < length ts" for k
      unfolding step using registered(2) [of k "?us n"] that flags len by simp
    moreover have "length (tn_wakers (?us (Suc n) ! i)) = length (tn_wakers (ts ! i)) + Suc n"
      unfolding step using registered(3) [of i "?us n" w j] i len chain assms(2) grown by simp
    ultimately show ?case by blast
  qed (simp add: same_links_def)
  then show ?thesis by blast
qed

section \<open>The channel\<close>

inductive_cases chan_stepE: "chan_step w w'"

definition chan_ok :: "'a chan_world \<Rightarrow> bool" where
  "chan_ok w \<longleftrightarrow>
     cw_sent w = cw_got w @ ch_queue (cw_chan w)
     \<and> (cw_recv w = AtClosed \<or> cw_recv w = AtWait \<longrightarrow> ch_queue (cw_chan w) \<noteq> [] \<longrightarrow> ch_signal (cw_chan w) \<or> 0 < cw_pushed w)
     \<and> (cw_recv w = AtWait \<longrightarrow> ch_closed (cw_chan w) \<longrightarrow> ch_signal (cw_chan w))"

lemma chan_step_ok: "chan_step w w' \<Longrightarrow> chan_ok w \<Longrightarrow> chan_ok w'"
  by (induction rule: chan_step.induct)
    (auto simp: chan_ok_def chan_close_def try_recv_inner_def split: list.splits)

lemma chan_steps_ok: "chan_step\<^sup>*\<^sup>* w w' \<Longrightarrow> chan_ok w \<Longrightarrow> chan_ok w'"
  by (induction rule: rtranclp_induct) (auto intro: chan_step_ok)


text \<open>A value pushed and a close that both fall between the receiver's look into the queue and its
  look at the closed flag make \<open>recv\<close> return \<open>None\<close> although the value is still queued.\<close>

theorem closed_before_drained:
  fixes v :: 'a
  shows "\<exists>w. chan_step\<^sup>*\<^sup>* world_new w \<and> cw_recv w = Returned \<and> ch_queue (cw_chan w) = [v]"
proof -
  let ?a = "(world_new :: 'a chan_world)\<lparr>cw_recv := AtClosed\<rparr>"
  let ?b = "?a\<lparr>cw_chan := (cw_chan ?a)\<lparr>ch_queue := ch_queue (cw_chan ?a) @ [v]\<rparr>, cw_pushed := cw_pushed ?a + 1, cw_sent := cw_sent ?a @ [v]\<rparr>"
  let ?c = "?b\<lparr>cw_chan := chan_close (cw_chan ?b)\<rparr>"
  have "chan_step world_new ?a"
    by (rule chan_step.empty) (simp_all add: world_new_def try_recv_inner_def chan_new_def)
  moreover have "chan_step ?a ?b" by (rule push) (simp add: world_new_def chan_new_def)
  moreover have "chan_step ?b ?c" by (rule chan_step.close)
  moreover have "chan_step ?c (?c\<lparr>cw_recv := Returned\<rparr>)" by (rule over) (simp_all add: chan_close_def)
  ultimately have "chan_step\<^sup>*\<^sup>* world_new (?c\<lparr>cw_recv := Returned\<rparr>)"
    by (meson rtranclp.rtrancl_into_rtrancl rtranclp.rtrancl_refl)
  then show ?thesis
    by (intro exI [of _ "?c\<lparr>cw_recv := Returned\<rparr>"]) (simp add: world_new_def chan_new_def chan_close_def)
qed

text \<open>The task that \<open>spawn_with_result\<close> spawns never sends its result: the future of the send is
  dropped unpolled, and its join handle stays pending for as long as it is polled.\<close>

theorem join_never_resolves:
  fixes out :: 'a
  shows "poll_join (((\<lambda>ch. snd (poll_join ch)) ^^ n) (finish_spawned out bounded_new)) = (None, bounded_new)"
proof -
  have pending: "poll_join bounded_new = (None, bounded_new :: 'a bounded)"
    by (simp add: poll_join_def bounded_recv_def bounded_new_def)
  have "((\<lambda>ch. snd (poll_join ch)) ^^ n) (bounded_new :: 'a bounded) = bounded_new" for n
    by (induction n) (simp_all add: pending)
  then show ?thesis by (simp add: finish_spawned_def pending)
qed

section \<open>The spin lock\<close>

text \<open>At most one task holds a guard, and the flag says whether one does.\<close>

lemma spin_exclusion:
  "spin_step\<^sup>*\<^sup>* \<lparr>sl_locked = False, sl_holders = []\<rparr> s \<Longrightarrow>
   (if sl_locked s then \<exists>t. sl_holders s = [t] else sl_holders s = [])"
proof (induction rule: rtranclp_induct)
  case (step s s')
  from step(2,3) show ?case by (induction rule: spin_step.induct) (auto split: if_splits)
qed simp

section \<open>Examples\<close>

definition example_tokens :: tokens where
  "example_tokens = snd (child_token 0 (snd (token_new [])))"

lemma cancel_reaches_witness:
  "token_cancelled (snd (token_cancel 0 example_tokens)) 1 \<longleftrightarrow> token_cancelled example_tokens 1 \<or> 0 \<in> set (token_chain example_tokens 1)"
  by (rule cancel_reaches) code_simp+

lemma pending_is_woken_witness:
  "5 \<in> set (fst (token_cancel 0 (snd (poll_cancelled 5 1 example_tokens))))
   \<and> token_cancelled (snd (token_cancel 0 (snd (poll_cancelled 5 1 example_tokens)))) 1"
proof (rule pending_is_woken)
  show "poll_cancelled 5 1 example_tokens = (False, snd (poll_cancelled 5 1 example_tokens))" by code_simp
  show "0 \<in> set (token_chain example_tokens 1)" by code_simp
  show "1 < length example_tokens" by code_simp
qed

lemma cancel_lost_between_witness:
  "case token_cancel 0 example_tokens of (woken, ts1) \<Rightarrow>
    5 \<notin> set woken \<and> token_cancelled (register_waker 5 1 ts1) 1 \<and> 5 \<in> set (tn_wakers (register_waker 5 1 ts1 ! 0))"
proof (rule cancel_lost_between)
  show "\<not> token_cancelled example_tokens 1" by code_simp
  show "0 \<in> set (token_chain example_tokens 1)" by code_simp
  show "1 < length example_tokens" by code_simp
  show "5 \<notin> set (tn_wakers (example_tokens ! 0))" by code_simp
qed

lemma orphan_not_cancelled_witness:
  "\<not> token_cancelled (snd (token_cancel 0 (token_drop 1 (snd (child_token 1 example_tokens))))) 2"
proof (rule orphan_not_cancelled)
  show "tn_parent (token_drop 1 (snd (child_token 1 example_tokens)) ! 2) = Some 1" by code_simp
  show "\<not> tn_alive (token_drop 1 (snd (child_token 1 example_tokens)) ! 1)" by code_simp
  show "\<not> tn_flag (token_drop 1 (snd (child_token 1 example_tokens)) ! 2)" by code_simp
  show "2 < length (token_drop 1 (snd (child_token 1 example_tokens)))" by code_simp
  show "0 < length (token_drop 1 (snd (child_token 1 example_tokens)))" by code_simp
qed simp

lemma wakers_grow_witness:
  "length (tn_wakers (((\<lambda>us. snd (poll_cancelled 5 1 us)) ^^ 100) example_tokens ! 0))
   = length (tn_wakers (example_tokens ! 0)) + 100"
  by (rule wakers_grow) code_simp+


end
