(* ===== verification/Abandoned_Call.thy ===== *)
theory Abandoned_Call
  imports Dialog_Session
begin

text \<open>
  What happens when the application drops the future of \<open>do_invite\<close> before the call is answered: the drop of
  \<open>DialogGuardForUnconfirmed\<close> (\<open>dialog/invitation.rs\<close>) ends the dialog and starts a task that sends a CANCEL,
  waits for the final response of the INVITE at the same time, and hangs up when the callee had answered.

  The task polls two futures and a timer in one \<open>select3\<close>. The CANCEL is here a value that is polled
  (\<open>cancel_call\<close>); which of the three is ready next, and what the other tasks did before, is a \<open>wakeup\<close>. The
  lists of wakes contain every order of polls, the one of \<open>select3\<close> among them.
\<close>

section \<open>The CANCEL as a future\<close>

text \<open>\<open>send_cancel\<close> before its first poll, while it waits for the response of its transaction, and afterwards.\<close>

datatype cancel_call = Unsent | Running bool transaction | Finished

definition cancel_result :: "dialog \<Rightarrow> error + response option \<Rightarrow> error + unit" where
  "cancel_result d r =
     and_then r (\<lambda>resp. case resp of
       Some resp \<Rightarrow>
         if status_code_kind (resp_status resp) \<noteq> Successful
         then Inl (DialogError (''CANCEL failed with response '' @ show_status_code (resp_status resp)) (d_id d) (resp_status resp)) else Inr ()
     | None \<Rightarrow> Inr ())"

text \<open>What a response to the CANCEL does: the result of the request, or that it goes on waiting.\<close>

definition cancel_response ::
    "dialog_env \<Rightarrow> bool \<Rightarrow> response \<Rightarrow> dialog \<Rightarrow> st \<Rightarrow> (error + response option) option \<times> bool \<times> dialog \<times> st" where
  "cancel_response D auth_sent resp d s =
     (let d = observe_peer_session_uuid (Option.bind (session_id_header (resp_headers resp)) local_uuid) d;
          status = resp_status resp
      in if status = SC_Trying then (None, auth_sent, d, s)
         else if status_code_kind status = Provisional then
           (None, auth_sent, if d_can_cancel d then d_transition (DS_Early (d_id d) resp) d else d, s)
         else if is_challenge status then
           if auth_sent then (Some (Inr None), auth_sent, end_with TR_ProxyAuthRequired d, s)
           else (case d_credential d of
               Some cred \<Rightarrow>
                 (let (seq, d) = authenticated_seq Cancel d in
                  case authenticate_and_send D seq resp cred s of
                    (Inl err, s) \<Rightarrow> (Some (Inl err), auth_sent, d, s)
                  | (Inr _, s) \<Rightarrow> (None, True, d, s))
             | None \<Rightarrow> (None, True, end_with TR_ProxyAuthRequired d, s))
         else (Some (Inr (Some resp)), auth_sent, clear_remote_reliable d, s))"

definition cancel_done :: "dialog_env \<Rightarrow> error + response option \<Rightarrow> dialog \<Rightarrow> st \<Rightarrow> (error + unit) option \<times> cancel_call \<times> world" where
  "cancel_done D r d s = (Some (cancel_result d r), Finished, (d, drop_transaction (tx_env D s) s))"

definition cancel_running :: "dialog_env \<Rightarrow> bool \<Rightarrow> dialog \<Rightarrow> st \<Rightarrow> (error + unit) option \<times> cancel_call \<times> world" where
  "cancel_running D auth_sent d s =
     (case receive (tx_env D s) s of
        (Blocked, s) \<Rightarrow> (None, Running auth_sent (fst s), (d, snd s))
      | (Obtained (Response resp), s) \<Rightarrow>
          (case cancel_response D auth_sent resp d s of
             (Some r, _, d, s) \<Rightarrow> cancel_done D r d s
           | (None, auth_sent, d, s) \<Rightarrow> (None, Running auth_sent (fst s), (d, snd s)))
      | (_, s) \<Rightarrow> cancel_done D (Inr None) d s)"

definition cancel_start :: "dialog_env \<Rightarrow> world \<Rightarrow> (error + unit) option \<times> cancel_call \<times> world" where
  "cancel_start D w =
     (case cancel_request (d_initial_request (fst w)) of
        Inl err \<Rightarrow> (Some (Inl err), Finished, w)
      | Inr req \<Rightarrow>
          (case dialog_transaction D req w of
             Inl err \<Rightarrow> (Some (Inl err), Finished, w)
           | Inr s \<Rightarrow>
               (case send_with_dialback D Cancel (fst w) s of
                  (Some err, s) \<Rightarrow> cancel_done D (Inl err) (fst w) s
                | (None, s) \<Rightarrow> (None, Running False (fst s), (fst w, snd s)))))"

definition poll_cancel :: "dialog_env \<Rightarrow> cancel_call \<Rightarrow> world \<Rightarrow> (error + unit) option \<times> cancel_call \<times> world" where
  "poll_cancel D c w =
     (case c of
        Unsent \<Rightarrow> cancel_start D w
      | Running auth_sent t \<Rightarrow> cancel_running D auth_sent (fst w) (t, snd w)
      | Finished \<Rightarrow> (None, Finished, w))"

definition drop_cancel :: "dialog_env \<Rightarrow> cancel_call \<Rightarrow> world \<Rightarrow> world" where
  "drop_cancel D c w =
     (case c of Running _ t \<Rightarrow> (fst w, drop_transaction (tx_env D (t, snd w)) (t, snd w)) | _ \<Rightarrow> w)"

section \<open>The race\<close>

datatype wakeup = WakeTimeout turn | WakeCancel turn | WakeInvite turn

fun cancel_race ::
    "dialog_env \<Rightarrow> cancel_call \<Rightarrow> wakeup list \<Rightarrow> dialog \<Rightarrow> st \<Rightarrow> response option await \<times> cancel_call \<times> dialog \<times> st" where
  "cancel_race D c [] d s = (Waiting, c, d, s)"
| "cancel_race D c (WakeTimeout f # ws) d s =
     (case f (d, snd s) of (d, e) \<Rightarrow> (Returned None, c, d, (fst s, e)))"
| "cancel_race D c (WakeCancel f # ws) d s =
     (case poll_cancel D c (f (d, snd s)) of
        (Some (Inl _), c, (d, e)) \<Rightarrow> (Returned None, c, d, (fst s, e))
      | (_, c, (d, e)) \<Rightarrow> cancel_race D c ws d (fst s, e))"
| "cancel_race D c (WakeInvite f # ws) d s =
     (case f (d, snd s) of (d, e) \<Rightarrow>
        (case receive (tx_env D s) (fst s, e) of
           (Obtained (Response resp), s) \<Rightarrow>
             if status_code_kind (resp_status resp) \<noteq> Provisional then (Returned (Some resp), c, d, s)
             else cancel_race D c ws d s
         | (Loop_ended, s) \<Rightarrow> (Returned None, c, d, s)
         | (_, s) \<Rightarrow> cancel_race D c ws d s))"

text \<open>The race, what follows it, and the wait for a final response (in the turns \<open>gs\<close>) that ends in a BYE
  when it is a 2xx.\<close>

definition cancel_task :: "dialog_env \<Rightarrow> bool \<Rightarrow> wakeup list \<Rightarrow> turn list \<Rightarrow> dialog \<Rightarrow> st \<Rightarrow> unit await \<times> turn list \<times> world" where
  "cancel_task D silent ws gs d s =
     (case cancel_race D Unsent ws d (stop_retransmissions s) of
        (Waiting, c, d, s) \<Rightarrow> (Waiting, gs, (d, snd s))
      | (Returned final, c, d, s) \<Rightarrow>
          (let (d, e) = drop_cancel D c (d, snd s);
               d = (if silent then d else end_with TR_UacCancel d);
               (final, gs, d, s) =
                 (if final = None then wait_response D True gs d (fst s, e) else (final, gs, d, (fst s, e)))
           in bye_if_2xx D final gs (d, drop_transaction (tx_env D s) s)))"

definition is_provisional :: "response option \<Rightarrow> bool" where
  "is_provisional resp \<longleftrightarrow> (case resp of Some r \<Rightarrow> status_code_kind (resp_status r) = Provisional | None \<Rightarrow> False)"

text \<open>A call in \<open>Calling\<close> has no provisional response yet: the task waits for one (in the turns \<open>fs\<close>) first.\<close>

definition abandon_task ::
    "dialog_env \<Rightarrow> bool \<Rightarrow> turn list \<Rightarrow> wakeup list \<Rightarrow> turn list \<Rightarrow> dialog \<Rightarrow> st \<Rightarrow> unit await \<times> turn list \<times> world" where
  "abandon_task D silent fs ws gs d s =
     (if silent then
        (case wait_response D False fs d (stop_retransmissions s) of
           (first, _, d, s) \<Rightarrow>
             if is_provisional first then cancel_task D True ws gs d s
             else bye_if_2xx D first gs (d, drop_transaction (tx_env D s) s))
      else cancel_task D False ws gs d s)"

section \<open>The drop of the guard\<close>

fun in_calling :: "dialog_state \<Rightarrow> bool" where
  "in_calling (DS_Calling _) = True"
| "in_calling _ = False"

definition drop_invite :: "dialog_env \<Rightarrow> transaction option \<Rightarrow> endpoint \<Rightarrow> endpoint" where
  "drop_invite D tx e = (case tx of Some t \<Rightarrow> drop_transaction (tx_env D (t, e)) (t, e) | None \<Rightarrow> e)"

definition abandon_dialog ::
    "dialog_env \<Rightarrow> transaction option \<Rightarrow> turn list \<Rightarrow> wakeup list \<Rightarrow> turn list \<Rightarrow> world \<Rightarrow> unit await \<times> turn list \<times> world" where
  "abandon_dialog D tx fs ws gs w =
     (let d = fst w; e = snd w; silent = in_calling (d_state d) in
      if silent \<or> in_trying_or_early (d_state d) then
        (let d = (if silent \<or> tx = None then end_with TR_UacCancel d else d) in
         case tx of None \<Rightarrow> (Returned (), gs, (d, e)) | Some t \<Rightarrow> abandon_task D silent fs ws gs d (t, e))
      else if d_is_confirmed d then
        (case hangup_with_headers D None gs (d, drop_invite D tx e) of
           (Waiting, gs, w) \<Rightarrow> (Waiting, gs, w)
         | (Returned _, gs, w) \<Rightarrow> (Returned (), gs, w))
      else (Returned (), gs, (d, drop_invite D tx e)))"

text \<open>\<open>held\<close> is the dialog the guard holds until \<open>process_invite\<close> has returned.\<close>

definition unconfirmed_guard_drop ::
    "dialog_env \<Rightarrow> dialog_id \<Rightarrow> nat option \<Rightarrow> transaction option \<Rightarrow> turn list \<Rightarrow> wakeup list \<Rightarrow> turn list \<Rightarrow> endpoint \<Rightarrow> layer
     \<Rightarrow> (unit await \<times> turn list \<times> endpoint) \<times> layer" where
  "unconfirmed_guard_drop D i held tx fs ws gs e L =
     (case drop_dialog (show_dialog_id i) L of
        (entry, L) \<Rightarrow>
          (let cell = (case entry of
                 Some (kind, r) \<Rightarrow> if kind = KInvite then Some r else None
               | None \<Rightarrow> held)
           in case Option.bind cell (\<lambda>r. map_option (Pair r) (ly_store L r)) of
                None \<Rightarrow> ((Returned (), gs, drop_invite D tx e), L)
              | Some (r, d) \<Rightarrow>
                  (case abandon_dialog D tx fs ws gs (d, e) of
                     (x, gs, (d, e)) \<Rightarrow> ((x, gs, e), store_dialog r d L))))"

section \<open>The polled CANCEL is \<open>send_cancel\<close>\<close>

text \<open>The CANCEL polled once after each of the turns.\<close>

fun poll_all :: "dialog_env \<Rightarrow> cancel_call \<Rightarrow> turn list \<Rightarrow> world \<Rightarrow> (error + unit) await \<times> turn list \<times> world" where
  "poll_all D c [] w = (Waiting, [], w)"
| "poll_all D c (f # fs) w =
     (case poll_cancel D c (f w) of
        (Some r, _, w) \<Rightarrow> (Returned r, fs, w)
      | (None, c, w) \<Rightarrow> poll_all D c fs w)"

lemma response_loop_Cons:
  "response_loop D m a (f # fs) d s =
     (case f (d, snd s) of (d, e) \<Rightarrow>
       (case receive (tx_env D s) (fst s, e) of
          (Blocked, s) \<Rightarrow> response_loop D m a fs d s
        | (x, s) \<Rightarrow>
            (case x of
               Obtained (Response resp) \<Rightarrow>
                 (let d = observe_peer_session_uuid (Option.bind (session_id_header (resp_headers resp)) local_uuid) d;
                      status = resp_status resp
                  in if status = SC_Trying then response_loop D m a fs d s
                     else if status_code_kind status = Provisional then
                       (case provisional_to m D resp fs (d, snd s) of
                          (Waiting, fs, (d, e)) \<Rightarrow> pending fs d (fst s, e)
                        | (Returned (Inl err), fs, (d, e)) \<Rightarrow> leave D (Inl err) fs d (fst s, e)
                        | (Returned (Inr _), fs, (d, e)) \<Rightarrow>
                            response_loop D m a fs
                              (if d_can_cancel d then d_transition (DS_Early (d_id d) resp) d else d) (fst s, e))
                     else if is_challenge status then
                       if a then leave D (Inr None) fs (end_with TR_ProxyAuthRequired d) s
                       else (case d_credential d of
                           Some cred \<Rightarrow>
                             (let (seq, d) = authenticated_seq m d in
                              case authenticate_and_send D seq resp cred s of
                                (Inl err, s) \<Rightarrow> leave D (Inl err) fs d s
                              | (Inr _, s) \<Rightarrow> response_loop D m True fs d s)
                         | None \<Rightarrow> response_loop D m True fs (end_with TR_ProxyAuthRequired d) s)
                     else
                       (let d = (if m \<noteq> PRack then clear_remote_reliable d else d);
                            d = (if m = Invite \<and> tx_sent_ack (fst s) \<noteq> None then d\<lparr>d_last_sent_ack := tx_sent_ack (fst s)\<rparr> else d)
                        in leave D (Inr (Some resp)) fs d s))
             | _ \<Rightarrow> leave D (Inr None) fs d s)))"
  by (subst response_loop.simps)
    (simp add: await_message_def response_loop.simps [of D m a fs] split: prod.split outcome.split sip_message.split)

text \<open>The result of the request, as \<open>send_cancel\<close> reads it.\<close>

definition cancel_of :: "exchange \<Rightarrow> (error + unit) await \<times> turn list \<times> world" where
  "cancel_of x =
     (case x of
        (Waiting, fs, w) \<Rightarrow> (Waiting, fs, w)
      | (Returned r, fs, w) \<Rightarrow> (Returned (cancel_result (fst w) r), fs, w))"

lemma cancel_of_leave: "cancel_of (leave D r fs d s) = (Returned (cancel_result d r), fs, d, drop_transaction (tx_env D s) s)"
  by (simp add: cancel_of_def leave_def)

lemma running_polled: "poll_all D (Running a (fst s)) fs (d, snd s) = cancel_of (response_loop D Cancel a fs d s)"
proof (induction fs arbitrary: a d s)
  case Nil
  show ?case by (simp add: response_loop.simps await_message_def pending_def cancel_of_def)
next
  case (Cons f fs)
  obtain d1 e1 where f: "f (d, snd s) = (d1, e1)" by fastforce
  have env: "tx_env D (fst s, e) = tx_env D s" for e by (simp add: tx_env_def)
  obtain x s1 where r: "receive (tx_env D s) (fst s, e1) = (x, s1)" by (rule prod.exhaust)
  have IH: "poll_all D (Running b t) fs (c, e) = cancel_of (response_loop D Cancel b fs c (t, e))" for b t c e
    using Cons.IH [of b "(t, e)" c] by simp
  show ?case
  proof (cases x)
    case (Obtained m)
    then show ?thesis
    proof (cases m)
      case (Response resp)
      with Obtained f r env show ?thesis
        by (simp add: response_loop_Cons poll_cancel_def cancel_running_def cancel_response_def cancel_done_def Let_def
            provisional_to_def cancel_of_leave IH split: prod.split option.split sum.split)
    next
      case (Request req)
      with Obtained f r env show ?thesis
        by (simp add: response_loop_Cons poll_cancel_def cancel_running_def cancel_done_def cancel_of_leave)
    qed
  next
    case Loop_ended
    with f r env show ?thesis
      by (simp add: response_loop_Cons poll_cancel_def cancel_running_def cancel_done_def cancel_of_leave)
  next
    case Blocked
    with f r env show ?thesis
      by (simp add: response_loop_Cons poll_cancel_def cancel_running_def IH)
  qed
qed

lemma send_cancel_cases:
  "dialog_send_cancel D fs w =
     (case cancel_request (d_initial_request (fst w)) of
        Inl err \<Rightarrow> (Returned (Inl err), fs, w)
      | Inr req \<Rightarrow> cancel_of (send_dialog_request D req fs w))"
  by (simp add: dialog_send_cancel_def cancel_of_def cancel_result_def split: sum.split prod.split await.split option.split)

lemma cancel_request_method: "cancel_request req = Inr r \<Longrightarrow> req_method r = Cancel"
  by (auto simp: cancel_request_def Let_def and_then_eq_Inr)

text \<open>Polled once after each turn of the other tasks, the CANCEL of the race sends, waits,
  authenticates and ends as \<open>send_cancel\<close> does: same result, same messages, same changes of the dialog.\<close>

theorem cancel_polled: "poll_all D Unsent (f # fs) w = dialog_send_cancel D fs (f w)"
proof (cases "cancel_request (d_initial_request (fst (f w)))")
  case (Inr req)
  note m = cancel_request_method [OF Inr]
  show ?thesis
  proof (cases "dialog_transaction D req (f w)")
    case (Inl err)
    with Inr show ?thesis
      by (simp add: poll_cancel_def cancel_start_def send_cancel_cases send_dialog_request_def cancel_of_def cancel_result_def)
  next
    case s: (Inr s)
    obtain err s1 where sent: "send_with_dialback D Cancel (fst (f w)) s = (err, s1)" by (rule prod.exhaust)
    show ?thesis
      using Inr s sent m running_polled [of D False s1 fs "fst (f w)"]
      by (cases err) (simp_all add: poll_cancel_def cancel_start_def cancel_done_def send_cancel_cases send_dialog_request_def
          cancel_of_leave)
  qed
qed (simp add: poll_cancel_def cancel_start_def send_cancel_cases)

section \<open>What it leaves of the dialog\<close>

fun wakeup_turn :: "wakeup \<Rightarrow> turn" where
  "wakeup_turn (WakeTimeout f) = f"
| "wakeup_turn (WakeCancel f) = f"
| "wakeup_turn (WakeInvite f) = f"

context dialog_relation
begin

lemma cancel_answered: "cancel_response D a resp d s = (x, b, d', s') \<Longrightarrow> R d d'"
  unfolding cancel_response_def Let_def
  by (auto split: if_splits option.splits sum.splits prod.splits
      intro: observed after [OF observed] transition ended cleared trans [OF observed authenticated])

lemma cancel_polled_once: "poll_cancel D c w = (x, c', w') \<Longrightarrow> R (fst w) (fst w')"
  by (auto simp: poll_cancel_def cancel_start_def cancel_running_def cancel_done_def refl dest: cancel_answered
      split: cancel_call.splits sum.splits option.splits prod.splits outcome.splits sip_message.splits)

lemma raced:
  "turns_keep R (map wakeup_turn ws) \<Longrightarrow> cancel_race D c ws d s = (x, c', d', s') \<Longrightarrow> R d d'"
proof (induction ws arbitrary: c d s)
  case (Cons v ws)
  obtain d1 e1 where f: "wakeup_turn v (d, snd s) = (d1, e1)" by fastforce
  then have d1: "R d d1" using Cons.prems(1) by (metis fst_conv list.simps(9) turns_keep_simps(2))
  have ws: "turns_keep R (map wakeup_turn ws)" using Cons.prems(1) by simp
  note IH = Cons.IH [OF ws]
  show ?case
  proof (cases v)
    case (WakeCancel g)
    obtain r c2 d2 e2 where p: "poll_cancel D c (d1, e1) = (r, c2, d2, e2)" by (metis prod.exhaust)
    then have "R d d2" using cancel_polled_once [OF p] d1 by (auto intro: trans)
    then show ?thesis
      using Cons.prems(2) WakeCancel f p IH by (auto intro: trans split: option.splits sum.splits)
  qed (use Cons.prems(2) f d1 IH in \<open>auto intro: trans split: prod.splits outcome.splits sip_message.splits if_splits\<close>)
qed (simp add: refl)

lemma response_awaited:
  "turns_keep R fs \<Longrightarrow> wait_response D final_only fs d s = (x, fs', d', s') \<Longrightarrow> R d d' \<and> turns_keep R fs'"
proof (induction D final_only fs d s rule: wait_response.induct)
  case (1 D final_only fs d s)
  obtain y fs1 d1 s1 where w: "await_message D fs d s = (y, fs1, d1, s1)" by (metis prod.exhaust)
  have ran: "R d d1" "turns_keep R fs1" using awaited_message [OF "1.prems"(1), of d D s] by (simp_all add: w)
  show ?case
    using "1.prems"(2) ran "1.IH" [OF w [symmetric]]
    by (subst (asm) wait_response.simps)
      (auto simp: w intro: trans split: await.splits option.splits sip_message.splits if_splits)
qed

lemma late_answer_ended: "turns_keep R gs \<Longrightarrow> ran R (fst w) (bye_if_2xx D resp gs w)"
proof -
  assume gs: "turns_keep R gs"
  have "ran R (fst w) (bye_2xx_after_cancel D r gs w)" for r
  proof (cases "sip_try (and_then (to_header (resp_headers r)) to_tag)")
    case (Inr tag)
    let ?d = "case tag of Some t \<Rightarrow> update_remote_tag t (fst w) | None \<Rightarrow> fst w"
    have d: "R (fst w) ?d" by (simp add: refl remote_tag split: option.split)
    obtain x d' where a: "adopt_2xx_remote_target r ?d = (x, d')" by (rule prod.exhaust)
    then have "R (fst w) d'" using d adopted trans by blast
    then show ?thesis
      using Inr a gs ran_trans [OF _ made_and_sent [OF gs, of "(d', snd w)"]]
      by (simp add: bye_2xx_after_cancel_def ran_map split: sum.split)
  qed (simp add: bye_2xx_after_cancel_def ran_def refl gs)
  then show ?thesis by (auto simp: bye_if_2xx_def ran_await split: option.split) (simp_all add: ran_def refl gs)
qed

end

lemma terminated_task:
  assumes "turns_keep evolves gs" and "turns_keep evolves (map wakeup_turn ws)" and "cancel_task D silent ws gs d s = (x, gs', d', e')"
  shows "evolves d d'" and "silent \<Longrightarrow> d_is_terminated d \<Longrightarrow> d_is_terminated d'"
    and "\<not> silent \<Longrightarrow> x = Returned () \<Longrightarrow> d_is_terminated d'"
proof -
  obtain y c d1 s1 where race: "cancel_race D Unsent ws d (stop_retransmissions s) = (y, c, d1, s1)" by (metis prod.exhaust)
  have d1: "evolves d d1" using life.raced [OF assms(2) race] .
  have "evolves d d' \<and> (\<not> silent \<and> x = Returned () \<longrightarrow> d_is_terminated d')"
  proof (cases y)
    case Waiting
    with race assms(3) d1 show ?thesis by (simp add: cancel_task_def)
  next
    case (Returned final)
    obtain e2 where e2: "drop_cancel D c (d1, snd s1) = (d1, e2)"
      by (cases c) (simp_all add: drop_cancel_def)
    let ?d = "if silent then d1 else end_with TR_UacCancel d1"
    have d2: "evolves d ?d" "\<not> silent \<Longrightarrow> d_is_terminated ?d"
      using d1 life.trans [OF d1 life.ended] terminated_by_end by (simp_all add: end_with_def)
    obtain final' gs1 d3 s3 where w:
        "(if final = None then wait_response D True gs ?d (fst s1, e2) else (final, gs, ?d, (fst s1, e2))) = (final', gs1, d3, s3)"
      by (metis prod.exhaust)
    have d3: "evolves ?d d3" "turns_keep evolves gs1"
      using w life.response_awaited [OF assms(1), of D True ?d "(fst s1, e2)"] assms(1) life.refl by (auto split: if_splits)
    have bye: "bye_if_2xx D final' gs1 (d3, drop_transaction (tx_env D s3) s3) = (x, gs', d', e')"
      using assms(3) by (simp add: cancel_task_def race Returned e2 w)
    have d': "evolves d3 d'" using life.late_answer_ended [OF d3(2)] bye by (metis fst_conv snd_conv ran_def)
    then have "evolves ?d d'" using d3(1) life.trans by blast
    then show ?thesis using d2 life.trans evolves_terminated by blast
  qed
  then show "evolves d d'" "silent \<Longrightarrow> d_is_terminated d \<Longrightarrow> d_is_terminated d'" "\<not> silent \<Longrightarrow> x = Returned () \<Longrightarrow> d_is_terminated d'"
    using evolves_terminated by blast+
qed

lemma abandoned:
  assumes "turns_keep evolves fs" and "turns_keep evolves gs" and "turns_keep evolves (map wakeup_turn ws)"
    and "in_calling (d_state d) \<or> in_trying_or_early (d_state d)"
    and "abandon_dialog D tx fs ws gs (d, e) = (x, gs', d', e')"
  shows "evolves d d' \<and> (x = Returned () \<or> in_calling (d_state d) \<or> tx = None \<longrightarrow> d_is_terminated d')"
proof -
  let ?c = "in_calling (d_state d)"
  let ?d = "if ?c \<or> tx = None then end_with TR_UacCancel d else d"
  have d: "evolves d ?d" "?c \<or> tx = None \<Longrightarrow> d_is_terminated ?d"
    using life.refl life.ended terminated_by_end by (simp_all add: end_with_def)
  show ?thesis
  proof (cases tx)
    case None
    with assms(4,5) d show ?thesis by (auto simp: abandon_dialog_def)
  next
    case (Some t)
    with assms(4,5) have task: "abandon_task D ?c fs ws gs ?d (t, e) = (x, gs', d', e')" by (auto simp: abandon_dialog_def Let_def)
    show ?thesis
    proof (cases ?c)
      case True
      obtain first fs1 d1 s1 where w: "wait_response D False fs ?d (stop_retransmissions (t, e)) = (first, fs1, d1, s1)"
        by (metis prod.exhaust)
      have d1: "evolves ?d d1" using life.response_awaited [OF assms(1) w] by simp
      then have end1: "d_is_terminated d1" using d(2) True evolves_terminated by blast
      have d': "evolves d1 d'"
      proof (cases "is_provisional first")
        case True
        then show ?thesis using task w \<open>?c\<close> terminated_task(1) [OF assms(2,3)] by (simp add: abandon_task_def)
      next
        case False
        then have "bye_if_2xx D first gs (d1, drop_transaction (tx_env D s1) s1) = (x, gs', d', e')"
          using task w \<open>?c\<close> by (simp add: abandon_task_def)
        then show ?thesis using life.late_answer_ended [OF assms(2)] by (metis fst_conv snd_conv ran_def)
      qed
      then show ?thesis using d(1) d1 end1 life.trans evolves_terminated by blast
    next
      case False
      then show ?thesis
        using task Some terminated_task(1,3) [OF assms(2,3), of D False d "(t, e)" x gs' d' e'] by (simp add: abandon_task_def)
    qed
  qed
qed

text \<open>C21: when the application drops a call nobody answered yet, its dialog is gone from the
  layer at once; it is Terminated at once when no provisional response came, else when the task that cancels it
  is done, whatever order its CANCEL, the INVITE's responses and the timer come in and whatever the other tasks
  do; and its identity and history are kept.\<close>

theorem abandoned_call_ends:
  assumes "layer_ok L" and "get_dialog i L = Some (KInvite, r) \<or> get_dialog i L = None \<and> held = Some r"
    and "ly_store L r = Some d" and "in_calling (d_state d) \<or> in_trying_or_early (d_state d)"
    and "turns_keep evolves fs" and "turns_keep evolves gs" and "turns_keep evolves (map wakeup_turn ws)"
    and "unconfirmed_guard_drop D i held tx fs ws gs e L = ((x, gs', e'), L')"
  shows "get_dialog i L' = None
    \<and> (\<exists>d'. ly_store L' r = Some d' \<and> evolves d d' \<and> (x = Returned () \<or> in_calling (d_state d) \<or> tx = None \<longrightarrow> d_is_terminated d'))"
proof -
  obtain entry M where m: "drop_dialog (show_dialog_id i) L = (entry, M)" by (rule prod.exhaust)
  note drop = drop_spec [OF assms(1) m]
  have store: "ly_store M = ly_store L" using m by (auto simp: drop_dialog_def split: prod.splits)
  obtain y hs d1 e1 where a: "abandon_dialog D tx fs ws gs (d, e) = (y, hs, d1, e1)" by (metis prod.exhaust)
  have out: "unconfirmed_guard_drop D i held tx fs ws gs e L = ((y, hs, e1), store_dialog r d1 M)"
    using assms(2,3) drop(2) by (auto simp: unconfirmed_guard_drop_def m get_dialog_def store a)
  have "get_dialog i L' = None"
    using out assms(8) drop(3) by (auto simp: get_dialog_def get_dialog_with_def store_dialog_def)
  moreover have "ly_store L' r = Some d1" using out assms(8) by (auto simp: store_dialog_def)
  ultimately show ?thesis using abandoned [OF assms(5-7,4) a] out assms(8) by auto
qed

lemma new_dialog_calls: "dialog_new uuid role i req cred contact ch = Inr d \<Longrightarrow> in_calling (d_state d)"
  by (auto simp: dialog_new_def and_then_eq_Inr)

lemma abandoned_call_ends_witness:
  "\<exists>(d :: dialog) L L' d'. in_calling (d_state d) \<and> ly_store L 0 = Some d
    \<and> snd (unconfirmed_guard_drop example_denv (d_id d) (Some 0) (Some (fst example_client)) [] [WakeTimeout id] [] (snd example_client) L) = L'
    \<and> ly_store L' 0 = Some d' \<and> d_is_terminated d'"
proof -
  obtain d :: dialog where c: "in_calling (d_state d)" using example_uac_made new_dialog_calls by blast
  let ?L = "snd (new_cell d layer_new)"
  have new: "new_cell d layer_new = (0, ?L)" by (simp add: new_cell_def layer_new_def)
  note L = new_cell_keeps [OF new]
  have ok: "layer_ok ?L" using keeps_ok [OF L(1) layer_ok_new] .
  have none: "get_dialog (d_id d) ?L = None" by (simp add: get_dialog_def get_dialog_with_def L(3)) (simp add: layer_new_def)
  obtain x gs' e' L' where u: "unconfirmed_guard_drop example_denv (d_id d) (Some 0) (Some (fst example_client)) [] [WakeTimeout id] []
      (snd example_client) ?L = ((x, gs', e'), L')" by (metis prod.exhaust)
  have turns: "turns_keep evolves (map wakeup_turn [WakeTimeout id])" by (simp add: life.refl)
  obtain d' where "ly_store L' 0 = Some d'" "d_is_terminated d'"
    using abandoned_call_ends [OF ok _ L(2) _ _ _ turns u] c none by auto
  then show ?thesis using c L(2) u by (metis snd_conv)
qed

end
