(* ===== verification/Header_Lists.thy ===== *)
theory Header_Lists
  imports Sip_Message Typed_Roundtrip "HOL-Library.List_Lexorder" "HOL-Library.Multiset"
begin

text \<open>
  The typed headers that are lists or have a grammar of their own: \<open>Allow\<close>, \<open>Service-Route\<close> (RFC 3608),
  \<open>History-Info\<close> (RFC 7044) and \<open>Identity\<close> (RFC 8224) of \<open>sip/headers/typed\<close>. A list of name-addr values is
  taken apart where it was put together, an \<open>Identity\<close> and a \<open>History-Info\<close> parse back from their printed form,
  and hi-entries are sorted into the preorder of the retargeting tree.
\<close>

section \<open>Allow\<close>

definition allow_parse :: "string \<Rightarrow> sip_error + sip_method list" where
  "allow_parse s =
     collect_results (map parse_method (filter (\<lambda>m. m \<noteq> []) (map trim (split_on (\<lambda>c. c = CHR '','') s))))"

definition show_allow :: "sip_method list \<Rightarrow> string" where
  "show_allow ms = join '', '' (map show_method ms)"

section \<open>Service-Route\<close>

definition split_service_route_values :: "string \<Rightarrow> string list" where
  "split_service_route_values s = split_values_loop [] 0 False s"

definition service_route_parse :: "string \<Rightarrow> sip_error + name_addr" where
  "service_route_parse s = parse_display_uri_params s"

definition service_route_parse_header_list :: "string \<Rightarrow> sip_error + name_addr list" where
  "service_route_parse_header_list s = collect_results (map service_route_parse (split_service_route_values s))"

definition service_route_has_lr :: "name_addr \<Rightarrow> bool" where
  "service_route_has_lr r = has_lr (uri_params (na_uri r))"

definition service_route_header :: "name_addr \<Rightarrow> header" where
  "service_route_header r = H_ServiceRoute (show_name_addr r)"

text \<open>The route a user agent preloads for it.\<close>

definition route_of_service_route :: "name_addr \<Rightarrow> name_addr" where
  "route_of_service_route r = \<lparr>na_display = na_display r, na_uri = na_uri r, na_params = na_params r\<rparr>"

section \<open>History-Info\<close>

record hi_entry =
  hi_uri :: uri
  hi_index :: string
  hi_rc :: "string option"
  hi_mp :: "string option"
  hi_np :: "string option"
  hi_ext :: "param list"

definition param_value :: "string \<Rightarrow> param list \<Rightarrow> string option" where
  "param_value key =
     find_map (\<lambda>p. case p of P_Other n v \<Rightarrow> if eq_ignore_ascii_case n key then v else None | _ \<Rightarrow> None)"

definition is_hi_param :: "param \<Rightarrow> bool" where
  "is_hi_param p \<longleftrightarrow>
     (case p of P_Other n _ \<Rightarrow> list_ex (eq_ignore_ascii_case n) [''index'', ''rc'', ''mp'', ''np''] | _ \<Rightarrow> False)"

definition hi_entry_parse :: "string \<Rightarrow> sip_error + hi_entry" where
  "hi_entry_parse s =
     and_then (parse_display_uri_params s) (\<lambda>n.
     let ps = na_params n in
     and_then (ok_or (param_value ''index'' ps) (ParseError (''History-Info entry missing index: '' @ s))) (\<lambda>index.
     Inr \<lparr>hi_uri = na_uri n, hi_index = index, hi_rc = param_value ''rc'' ps, hi_mp = param_value ''mp'' ps,
          hi_np = param_value ''np'' ps, hi_ext = filter (\<lambda>p. \<not> is_hi_param p) ps\<rparr>))"

definition hi_with_uri :: "uri \<Rightarrow> hi_entry \<Rightarrow> hi_entry" where
  "hi_with_uri u e = e\<lparr>hi_uri := u\<rparr>"

definition show_hi_entry :: "hi_entry \<Rightarrow> string" where
  "show_hi_entry e =
     ''<'' @ show_uri (hi_uri e) @ ''>;index='' @ hi_index e
     @ (case hi_rc e of Some v \<Rightarrow> '';rc='' @ v | None \<Rightarrow> [])
     @ (case hi_mp e of Some v \<Rightarrow> '';mp='' @ v | None \<Rightarrow> [])
     @ (case hi_np e of Some v \<Rightarrow> '';np='' @ v | None \<Rightarrow> [])
     @ show_params (hi_ext e)"

definition split_hi_entries :: "string \<Rightarrow> string list" where
  "split_hi_entries s = split_values_loop [] 0 False s"

definition history_info_parse :: "string \<Rightarrow> sip_error + hi_entry list" where
  "history_info_parse s = collect_results (map hi_entry_parse (split_hi_entries s))"

definition show_history_info :: "hi_entry list \<Rightarrow> string" where
  "show_history_info es = join '', '' (map show_hi_entry es)"

definition history_info_header :: "hi_entry list \<Rightarrow> header" where
  "history_info_header es = H_HistoryInfo (show_history_info es)"

definition history_info_headers :: "header list \<Rightarrow> string list" where
  "history_info_headers hs = all_headers H_HistoryInfo hs"

definition history_info_entries :: "header list \<Rightarrow> sip_error + hi_entry list" where
  "history_info_entries hs =
     and_then (collect_results (map history_info_parse (history_info_headers hs))) (\<lambda>ess. Inr (concat ess))"

text \<open>The order of the indices, and \<open>sort_by\<close>: Rust's stable sort by a comparison.\<close>

datatype ordering = Ord_Less | Ord_Equal | Ord_Greater

definition compare_nat :: "nat \<Rightarrow> nat \<Rightarrow> ordering" where
  "compare_nat x y = (if x < y then Ord_Less else if x = y then Ord_Equal else Ord_Greater)"

definition index_levels :: "string \<Rightarrow> nat list" where
  "index_levels s = map (\<lambda>p. unwrap_or (ok (parse_uint 64 (trim p))) 0) (split_on (\<lambda>c. c = CHR ''.'') s)"

fun compare_levels :: "nat list \<Rightarrow> nat list \<Rightarrow> ordering" where
  "compare_levels (x # xs) (y # ys) = (if compare_nat x y = Ord_Equal then compare_levels xs ys else compare_nat x y)"
| "compare_levels xs ys = compare_nat (length xs) (length ys)"

definition compare_index :: "string \<Rightarrow> string \<Rightarrow> ordering" where
  "compare_index a b = compare_levels (index_levels a) (index_levels b)"

fun insert_by :: "('a \<Rightarrow> 'a \<Rightarrow> ordering) \<Rightarrow> 'a \<Rightarrow> 'a list \<Rightarrow> 'a list" where
  "insert_by cmp x [] = [x]"
| "insert_by cmp x (y # ys) = (if cmp x y = Ord_Greater then y # insert_by cmp x ys else x # y # ys)"

fun sort_by :: "('a \<Rightarrow> 'a \<Rightarrow> ordering) \<Rightarrow> 'a list \<Rightarrow> 'a list" where
  "sort_by cmp [] = []"
| "sort_by cmp (x # xs) = insert_by cmp x (sort_by cmp xs)"

definition history_info_sort :: "hi_entry list \<Rightarrow> hi_entry list" where
  "history_info_sort es = sort_by (\<lambda>a b. compare_index (hi_index a) (hi_index b)) es"

section \<open>Identity\<close>

record identity_value =
  idn_token :: string
  idn_alg :: string
  idn_info :: string
  idn_ppt :: "string option"
  idn_extra :: "(string \<times> string option) list"

fun identity_loop :: "string \<Rightarrow> nat \<Rightarrow> string \<Rightarrow> string list" where
  "identity_loop cur depth [] = (if trim cur = [] then [] else [trim cur])"
| "identity_loop cur depth (c # s) =
     (if c = CHR ''<'' then identity_loop (cur @ [c]) (depth + 1) s
      else if c = CHR ''>'' then identity_loop (cur @ [c]) (depth - 1) s
      else if c = CHR '';'' \<and> depth = 0 then trim cur # identity_loop [] depth s
      else identity_loop (cur @ [c]) depth s)"

definition split_identity_params :: "string \<Rightarrow> string list" where
  "split_identity_params s = identity_loop [] 0 s"

record identity_params =
  ip_alg :: "string option"
  ip_info :: "string option"
  ip_ppt :: "string option"
  ip_extra :: "(string \<times> string option) list"

definition strip_angles :: "string \<Rightarrow> string" where
  "strip_angles v = (if v \<noteq> [] \<and> hd v = CHR ''<'' \<and> last v = CHR ''>'' then butlast (tl v) else v)"

definition identity_param :: "string \<Rightarrow> identity_params \<Rightarrow> identity_params" where
  "identity_param part acc =
     (let part = trim part in
      if part = [] then acc
      else (case split_once (\<lambda>c. c = CHR ''='') part of
          None \<Rightarrow> acc\<lparr>ip_extra := ip_extra acc @ [(part, None)]\<rparr>
        | Some (n, v) \<Rightarrow>
            (let n = trim n; v = trim v in
             if eq_ignore_ascii_case n ''alg'' then acc\<lparr>ip_alg := Some v\<rparr>
             else if eq_ignore_ascii_case n ''ppt'' then acc\<lparr>ip_ppt := Some v\<rparr>
             else if eq_ignore_ascii_case n ''info'' then acc\<lparr>ip_info := Some (strip_angles v)\<rparr>
             else acc\<lparr>ip_extra := ip_extra acc @ [(n, Some v)]\<rparr>)))"

definition identity_parse :: "string \<Rightarrow> sip_error + identity_value" where
  "identity_parse s =
     (case split_identity_params s of
        [] \<Rightarrow> Inl (ParseError ''Identity: missing token'')
      | t # parts \<Rightarrow>
          if trim t = [] then Inl (ParseError ''Identity: missing token'')
          else
            (let acc = fold identity_param parts \<lparr>ip_alg = None, ip_info = None, ip_ppt = None, ip_extra = []\<rparr> in
             and_then (ok_or (ip_alg acc) (ParseError ''Identity: missing alg param'')) (\<lambda>alg.
             and_then (ok_or (ip_info acc) (ParseError ''Identity: missing info param'')) (\<lambda>info.
             Inr \<lparr>idn_token = trim t, idn_alg = alg, idn_info = info, idn_ppt = ip_ppt acc, idn_extra = ip_extra acc\<rparr>))))"

definition show_extra :: "string \<times> string option \<Rightarrow> string" where
  "show_extra p = (case p of (n, Some v) \<Rightarrow> '';'' @ n @ ''='' @ v | (n, None) \<Rightarrow> '';'' @ n)"

definition show_identity_value :: "identity_value \<Rightarrow> string" where
  "show_identity_value i =
     idn_token i @ '';alg='' @ idn_alg i @ (case idn_ppt i of Some p \<Rightarrow> '';ppt='' @ p | None \<Rightarrow> [])
     @ '';info=<'' @ idn_info i @ ''>'' @ concat (map show_extra (idn_extra i))"

definition show_identity :: "identity_value \<Rightarrow> string" where
  "show_identity i = ''Identity: '' @ show_identity_value i"

definition identity_header :: "identity_value \<Rightarrow> header" where
  "identity_header i = H_Identity (show_identity_value i)"

section \<open>Lists of values\<close>

text \<open>The state of the splitter after a text without a separating comma.\<close>

fun scan_value :: "nat \<Rightarrow> bool \<Rightarrow> string \<Rightarrow> (nat \<times> bool) option" where
  "scan_value depth q [] = Some (depth, q)"
| "scan_value depth q (c # s) =
     (if c = CHR 0x22 then scan_value depth (\<not> q) s
      else if c = CHR ''<'' \<and> \<not> q then scan_value (depth + 1) q s
      else if c = CHR ''>'' \<and> \<not> q then scan_value (depth - 1) q s
      else if c = CHR '','' \<and> \<not> q \<and> depth = 0 then None
      else scan_value depth q s)"

lemma split_scanned:
  "scan_value depth q s = Some (depth', q') \<Longrightarrow> split_values_loop cur depth q (s @ r) = split_values_loop (cur @ s) depth' q' r"
  by (induction depth q s arbitrary: cur rule: scan_value.induct) (auto split: if_splits)

lemma scan_append:
  "scan_value depth q (s @ t) = Option.bind (scan_value depth q s) (\<lambda>(depth, q). scan_value depth q t)"
  by (induction depth q s rule: scan_value.induct) auto

lemma scan_plain:
  "(\<And>c. c \<in> set s \<Longrightarrow> c \<noteq> CHR 0x22 \<and> (c = CHR ''<'' \<or> c = CHR ''>'' \<longrightarrow> q) \<and> (c = CHR '','' \<longrightarrow> q \<or> 0 < depth))
    \<Longrightarrow> scan_value depth q s = Some (depth, q)"
  by (induction s) auto

definition list_bad :: string where
  "list_bad = '';,<>'' @ [CHR 0x22]"

definition list_value_wf :: "name_addr \<Rightarrow> bool" where
  "list_value_wf n \<longleftrightarrow>
     name_addr_wf n \<and> CHR 0x22 \<notin> set (show_uri (na_uri n)) \<and> list_all (param_wf list_bad) (na_params n)"

lemma scan_name_addr: "list_value_wf n \<Longrightarrow> scan_value 0 False (show_name_addr n) = Some (0, False)"
proof -
  assume wf: "list_value_wf n"
  then have parts: "case na_display n of None \<Rightarrow> True | Some d \<Rightarrow> display_wf d" "uri_wf (na_uri n)"
      "CHR 0x22 \<notin> set (show_uri (na_uri n))" "list_all (param_wf list_bad) (na_params n)"
    by (auto simp: list_value_wf_def name_addr_wf_def)
  have d: "scan_value 0 False (show_display (na_display n)) = Some (0, False)"
  proof (cases "na_display n")
    case (Some name)
    then have "scan_value 0 True name = Some (0, True)"
      using parts(1) by (intro scan_plain) (auto simp: display_wf_def)
    with Some show ?thesis by (simp add: show_display_def scan_append)
  qed (simp add: show_display_def)
  have u: "scan_value (Suc 0) False (show_uri (na_uri n)) = Some (Suc 0, False)"
    using parts(3) plainD(2) [OF plain_show_uri [OF parts(2)]] by (intro scan_plain) auto
  have "param_bad list_bad" by code_simp
  then have p: "scan_value 0 False (show_params (na_params n)) = Some (0, False)"
    using plain_params [OF parts(4)] by (intro scan_plain) (auto simp: list_bad_def)
  show ?thesis using d u p by (simp add: show_name_addr_parts scan_append)
qed

definition separate :: "string \<Rightarrow> bool" where
  "separate s \<longleftrightarrow> scan_value 0 False s = Some (0, False) \<and> s \<noteq> [] \<and> trim s = s"

lemma trim_spaced: "trim s = s \<Longrightarrow> s \<noteq> [] \<Longrightarrow> trim (CHR '' '' # s) = s"
  by (simp add: trim_def trim_start_def is_ws_def)

lemma split_value:
  assumes "separate s" and "cur = [] \<or> cur = '' ''"
  shows "split_values_loop cur 0 False (s @ r) = (case r of [] \<Rightarrow> [s] | c # r' \<Rightarrow>
      if c = CHR '','' then s # split_values_loop [] 0 False r' else split_values_loop (cur @ s) 0 False r)"
  using assms trim_spaced [of s] split_scanned [where r = "[]"] by (auto simp: separate_def split_scanned split: list.split)

lemma split_joined: "list_all separate xs \<Longrightarrow> split_values_loop [] 0 False (join '', '' xs) = xs"
proof -
  have "split_values_loop cur 0 False (join '', '' (x # xs)) = x # xs"
    if "list_all separate (x # xs)" "cur = [] \<or> cur = '' ''" for cur x xs
    using that
  proof (induction xs arbitrary: cur x)
    case Nil
    then show ?case using split_value [of x cur "[]"] by simp
  next
    case (Cons y ys)
    then have "split_values_loop '' '' 0 False (join '', '' (y # ys)) = y # ys" by simp
    then show ?case using Cons.prems split_value [of x cur "'', '' @ join '', '' (y # ys)"] by simp
  qed
  then show "list_all separate xs \<Longrightarrow> ?thesis" by (cases xs) auto
qed

lemma separate_name_addr: "list_value_wf n \<Longrightarrow> separate (show_name_addr n)"
  using scan_name_addr trim_show_name_addr by (auto simp: separate_def list_value_wf_def show_name_addr_parts)

lemma collect_parsed: "(\<And>x. x \<in> set xs \<Longrightarrow> f (g x) = Inr x) \<Longrightarrow> collect_results (map f (map g xs)) = Inr xs"
  by (induction xs) auto

text \<open>The values of a Route, Record-Route or Service-Route header are read back from a
  line that joins them with commas, also when display names, URIs or quoted texts hold commas themselves.\<close>

theorem address_list_roundtrip:
  assumes "list_all list_value_wf ns"
  shows "route_parse_header_list (join '', '' (map show_name_addr ns)) = Inr ns
    \<and> record_route_parse_header_list (join '', '' (map show_name_addr ns)) = Inr ns
    \<and> service_route_parse_header_list (join '', '' (map show_name_addr ns)) = Inr ns"
proof -
  have "list_all separate (map show_name_addr ns)"
    using assms separate_name_addr by (auto simp: list_all_iff)
  note split = split_joined [OF this]
  have "collect_results (map parse_display_uri_params (map show_name_addr ns)) = Inr ns"
    using assms by (intro collect_parsed parse_show_name_addr) (auto simp: list_all_iff list_value_wf_def)
  then show ?thesis
    by (simp add: route_parse_header_list_def split_route_values_def record_route_parse_header_list_def split_rr_values_def
        service_route_parse_header_list_def split_service_route_values_def split route_parse_def [abs_def]
        record_route_parse_def [abs_def] service_route_parse_def [abs_def])
qed

definition example_route :: name_addr where
  "example_route = \<lparr>na_display = Some ''Bob, B.'', na_uri = example_uri, na_params = [P_Tag ''old'', P_Other ''x'' None]\<rparr>"

lemma example_route_wf: "list_value_wf example_route"
proof -
  have "CHR 0x22 \<notin> set (show_uri example_uri)" by code_simp
  then show ?thesis
    using example_uri_wf
    by (simp add: list_value_wf_def name_addr_wf_def example_route_def display_wf_def reserved_flag_def is_ws_def list_bad_def)
qed

lemma address_list_roundtrip_witness:
  "route_parse_header_list (join '', '' (map show_name_addr [example_route, example_route])) = Inr [example_route, example_route]"
  using address_list_roundtrip [of "[example_route, example_route]"] example_route_wf by simp

section \<open>History-Info\<close>

definition hi_params :: "hi_entry \<Rightarrow> param list" where
  "hi_params e =
     P_Other ''index'' (Some (hi_index e))
     # (case hi_rc e of Some v \<Rightarrow> [P_Other ''rc'' (Some v)] | None \<Rightarrow> [])
     @ (case hi_mp e of Some v \<Rightarrow> [P_Other ''mp'' (Some v)] | None \<Rightarrow> [])
     @ (case hi_np e of Some v \<Rightarrow> [P_Other ''np'' (Some v)] | None \<Rightarrow> []) @ hi_ext e"

definition hi_name_addr :: "hi_entry \<Rightarrow> name_addr" where
  "hi_name_addr e = \<lparr>na_display = None, na_uri = hi_uri e, na_params = hi_params e\<rparr>"

definition hi_wf :: "hi_entry \<Rightarrow> bool" where
  "hi_wf e \<longleftrightarrow> list_value_wf (hi_name_addr e) \<and> list_all (\<lambda>p. \<not> is_hi_param p) (hi_ext e)"

lemma show_hi_entry_name_addr: "show_hi_entry e = show_name_addr (hi_name_addr e)"
  by (simp add: show_hi_entry_def show_name_addr_def hi_name_addr_def hi_params_def show_params_def split: option.split)

lemma no_hi_param:
  "list_all (\<lambda>p. \<not> is_hi_param p) ps \<Longrightarrow> key \<in> {''index'', ''rc'', ''mp'', ''np''} \<Longrightarrow> param_value key ps = None"
  by (auto simp: param_value_def find_map_None list_all_iff is_hi_param_def split: param.split)

lemma param_value_Cons: "param_value key (P_Other n (Some v) # ps) = (if eq_ignore_ascii_case n key then Some v else param_value key ps)"
  by (simp add: param_value_def)

lemma hi_names:
  "\<not> eq_ignore_ascii_case ''index'' ''rc''" "\<not> eq_ignore_ascii_case ''index'' ''mp''" "\<not> eq_ignore_ascii_case ''index'' ''np''"
  "\<not> eq_ignore_ascii_case ''rc'' ''mp''" "\<not> eq_ignore_ascii_case ''rc'' ''np''" "\<not> eq_ignore_ascii_case ''mp'' ''np''"
  by code_simp+

lemma hi_values:
  assumes "list_all (\<lambda>p. \<not> is_hi_param p) (hi_ext e)"
  shows "param_value ''index'' (hi_params e) = Some (hi_index e)" "param_value ''rc'' (hi_params e) = hi_rc e"
    "param_value ''mp'' (hi_params e) = hi_mp e" "param_value ''np'' (hi_params e) = hi_np e"
    "filter (\<lambda>p. \<not> is_hi_param p) (hi_params e) = hi_ext e"
  using no_hi_param [OF assms] assms hi_names
  by (auto simp: hi_params_def param_value_Cons is_hi_param_def [of "P_Other _ _"] filter_id_conv list_all_iff split: option.split)

lemma hi_entry_parse_show: "hi_wf e \<Longrightarrow> hi_entry_parse (show_hi_entry e) = Inr e"
  by (simp add: hi_wf_def hi_entry_parse_def show_hi_entry_name_addr parse_show_name_addr list_value_wf_def)
    (simp add: hi_name_addr_def hi_values)

lemma history_info_parse_show:
  assumes "list_all hi_wf es"
  shows "history_info_parse (show_history_info es) = Inr es"
proof -
  have "list_all separate (map show_hi_entry es)"
    using assms separate_name_addr by (auto simp: list_all_iff show_hi_entry_name_addr hi_wf_def)
  then have "split_hi_entries (show_history_info es) = map show_hi_entry es"
    by (simp add: split_hi_entries_def show_history_info_def split_joined)
  then show ?thesis
    using assms collect_parsed [of es hi_entry_parse show_hi_entry] by (simp add: history_info_parse_def list_all_iff hi_entry_parse_show)
qed

text \<open>History-Info entries are read back from the header made of them, over all the
  header lines of a message and in their order.\<close>

theorem history_info_roundtrip:
  assumes "list_all (list_all hi_wf) ess" and "history_info_headers hs = []"
  shows "history_info_entries (hs @ map history_info_header ess) = Inr (concat ess)"
proof -
  have "collect_results (map history_info_parse (map show_history_info ess)) = Inr ess"
    using assms(1) by (intro collect_parsed) (simp add: list_all_iff history_info_parse_show)
  moreover have "history_info_headers (hs @ map history_info_header ess) = map show_history_info ess"
  proof -
    have "history_info_headers (map history_info_header ess) = map show_history_info ess"
      by (induction ess) (simp_all add: history_info_headers_def all_headers_def history_info_header_def map_filter_simps variant_def)
    then show ?thesis using assms(2) by (simp add: history_info_headers_def)
  qed
  ultimately show ?thesis by (simp add: history_info_entries_def)
qed

section \<open>The order of hi-entries\<close>

lemma compare_nat_iff [simp]:
  "compare_nat x y = Ord_Less \<longleftrightarrow> x < y" "compare_nat x y = Ord_Equal \<longleftrightarrow> x = y" "compare_nat x y = Ord_Greater \<longleftrightarrow> y < x"
  by (auto simp: compare_nat_def)

lemma Nil_less_list: "[] < (xs :: nat list) \<longleftrightarrow> xs \<noteq> []"
  by (cases xs) simp_all

lemma compare_levels_iff:
  "compare_levels xs ys = Ord_Equal \<longleftrightarrow> xs = ys" "compare_levels xs ys = Ord_Greater \<longleftrightarrow> ys < xs"
  by (induction xs ys rule: compare_levels.induct) (auto simp: Nil_less_list)

lemma insert_by_key: "(\<And>a b. cmp a b = Ord_Greater \<longleftrightarrow> f b < f a) \<Longrightarrow> insert_by cmp x xs = insort_key f x xs"
  for f :: "'a \<Rightarrow> 'b :: linorder"
  by (induction xs) (auto simp: not_le)

lemma sort_by_key: "(\<And>a b. cmp a b = Ord_Greater \<longleftrightarrow> f b < f a) \<Longrightarrow> sort_by cmp xs = sort_key f xs"
  for f :: "'a \<Rightarrow> 'b :: linorder"
  by (induction xs) (auto simp: insert_by_key)

lemma history_sort_key: "history_info_sort es = sort_key (\<lambda>e. index_levels (hi_index e)) es"
  unfolding history_info_sort_def by (rule sort_by_key) (simp add: compare_index_def compare_levels_iff)

text \<open>Sorting the entries of a History-Info keeps them all, puts no entry behind one with
  a greater index (level by level, a node before its subtree), keeps entries with equal indices in the order they had,
  and changes nothing when it is repeated.\<close>

theorem history_sort_preorder:
  "mset (history_info_sort es) = mset es
   \<and> sorted_wrt (\<lambda>a b. compare_index (hi_index a) (hi_index b) \<noteq> Ord_Greater) (history_info_sort es)
   \<and> filter (\<lambda>e. compare_index (hi_index e) i = Ord_Equal) (history_info_sort es) = filter (\<lambda>e. compare_index (hi_index e) i = Ord_Equal) es
   \<and> history_info_sort (history_info_sort es) = history_info_sort es"
proof -
  let ?f = "\<lambda>e :: hi_entry. index_levels (hi_index e)"
  have "sorted (map ?f (sort_key ?f es))" by (rule sorted_sort_key)
  then have s: "sorted_wrt (\<lambda>a b. compare_index (hi_index a) (hi_index b) \<noteq> Ord_Greater) (sort_key ?f es)"
    by (simp add: sorted_map compare_index_def compare_levels_iff not_less)
  have "filter (\<lambda>e. ?f e = index_levels i) (sort_key ?f es) = filter (\<lambda>e. ?f e = index_levels i) es"
    by (rule sort_key_stable)
  then show ?thesis
    using s by (simp add: history_sort_key compare_index_def compare_levels_iff sort_key_id_if_sorted sorted_sort_key)
qed

definition example_hi :: "string \<Rightarrow> hi_entry" where
  "example_hi index = \<lparr>hi_uri = example_uri, hi_index = index, hi_rc = None, hi_mp = Some ''1'', hi_np = None, hi_ext = []\<rparr>"

lemma example_hi_wf: "plain (CHR ''='' # list_bad) index \<Longrightarrow> hi_wf (example_hi index)"
proof -
  assume i: "plain (CHR ''='' # list_bad) index"
  then have v: "plain list_bad index" "plain '';'' index" by (auto simp: list_bad_def elim!: plain_mono)
  have n: "\<not> reserved_with_value ''index''" "\<not> reserved_with_value ''mp''"
      "plain (CHR ''='' # list_bad) ''index''" "plain (CHR ''='' # list_bad) ''mp''" "plain (CHR ''='' # list_bad) ''1''"
      "plain ''=;'' ''index''" "plain ''=;'' ''mp''" "plain list_bad ''1''" "plain '';'' ''1''"
    by code_simp+
  show ?thesis
    using example_route_wf v n
    by (simp add: hi_wf_def list_value_wf_def name_addr_wf_def hi_name_addr_def hi_params_def example_hi_def example_route_def)
qed

lemma history_info_roundtrip_witness:
  "history_info_entries (map history_info_header [[example_hi ''1'', example_hi ''1.1''], [example_hi ''1.2'']])
    = Inr [example_hi ''1'', example_hi ''1.1'', example_hi ''1.2'']"
proof -
  have "list_all (list_all hi_wf) [[example_hi ''1'', example_hi ''1.1''], [example_hi ''1.2'']]"
    by (simp add: example_hi_wf list_bad_def is_ws_def)
  moreover have "history_info_headers [] = []" by (simp add: history_info_headers_def all_headers_def map_filter_simps)
  ultimately show ?thesis using history_info_roundtrip [of _ "[]"] by fastforce
qed

section \<open>Identity\<close>

definition identity_text :: "string \<Rightarrow> bool" where
  "identity_text p \<longleftrightarrow> (\<forall>cur r. identity_loop cur 0 (p @ r) = identity_loop (cur @ p) 0 r) \<and> trim p = p \<and> p \<noteq> []"

lemma loop_through:
  "\<forall>c \<in> set p. c \<noteq> CHR ''<'' \<and> c \<noteq> CHR ''>'' \<and> (c = CHR '';'' \<longrightarrow> 0 < depth)
    \<Longrightarrow> identity_loop cur depth (p @ r) = identity_loop (cur @ p) depth r"
  by (induction p arbitrary: cur) auto

lemma text_plain: "plain '';<>'' p \<Longrightarrow> p \<noteq> [] \<Longrightarrow> identity_text p"
  by (simp add: identity_text_def trim_plain) (auto intro!: loop_through dest: plainD)

definition identity_parts :: "identity_value \<Rightarrow> string list" where
  "identity_parts i =
     [''alg='' @ idn_alg i] @ (case idn_ppt i of Some p \<Rightarrow> [''ppt='' @ p] | None \<Rightarrow> []) @ [''info=<'' @ idn_info i @ ''>'']
     @ map (\<lambda>e. tl (show_extra e)) (idn_extra i)"

lemma show_identity_parts: "show_identity_value i = idn_token i @ concat (map (\<lambda>p. CHR '';'' # p) (identity_parts i))"
  by (auto simp: show_identity_value_def identity_parts_def show_extra_def o_def split: option.split prod.split
      intro!: arg_cong [where f = concat])

lemma split_texts:
  assumes "identity_text t" and "list_all identity_text ps"
  shows "identity_loop [] 0 (t @ concat (map (\<lambda>p. CHR '';'' # p) ps)) = t # ps"
  using assms
proof (induction ps arbitrary: t)
  case Nil
  then have "identity_loop [] 0 (t @ []) = identity_loop t 0 []" by (metis append_Nil identity_text_def)
  with Nil show ?case by (simp add: identity_text_def)
next
  case (Cons p ps)
  then have "identity_loop [] 0 (t @ CHR '';'' # p @ concat (map (\<lambda>p. CHR '';'' # p) ps))
      = identity_loop t 0 (CHR '';'' # p @ concat (map (\<lambda>p. CHR '';'' # p) ps))"
    by (metis append_Nil identity_text_def)
  with Cons show ?case by (simp add: identity_text_def)
qed

definition extra_wf :: "string \<times> string option \<Rightarrow> bool" where
  "extra_wf e \<longleftrightarrow>
     fst e \<noteq> [] \<and> plain '';<>='' (fst e) \<and> (case snd e of Some v \<Rightarrow> plain '';<>'' v | None \<Rightarrow> True)
     \<and> \<not> list_ex (eq_ignore_ascii_case (fst e)) [''alg'', ''ppt'', ''info'']"

definition identity_wf :: "identity_value \<Rightarrow> bool" where
  "identity_wf i \<longleftrightarrow>
     idn_token i \<noteq> [] \<and> plain '';<>'' (idn_token i) \<and> plain '';<>'' (idn_alg i)
     \<and> (case idn_ppt i of Some p \<Rightarrow> plain '';<>'' p | None \<Rightarrow> True)
     \<and> CHR ''<'' \<notin> set (idn_info i) \<and> CHR ''>'' \<notin> set (idn_info i) \<and> list_all extra_wf (idn_extra i)"

lemma text_info:
  assumes "CHR ''<'' \<notin> set v" and "CHR ''>'' \<notin> set v"
  shows "identity_text (''info=<'' @ v @ ''>'')"
proof -
  have "identity_loop cur (Suc 0) (v @ CHR ''>'' # r) = identity_loop (cur @ v) (Suc 0) (CHR ''>'' # r)" for cur r
    by (rule loop_through) (use assms in auto)
  moreover have "trim (''info=<'' @ v @ ''>'') = ''info=<'' @ v @ ''>''" by (rule trim_unchanged) (simp add: is_ws_def)
  ultimately show ?thesis by (simp add: identity_text_def)
qed

lemma extra_text: "extra_wf e \<Longrightarrow> identity_text (tl (show_extra e))"
  by (rule text_plain) (auto simp: extra_wf_def show_extra_def is_ws_def split: prod.split option.split elim!: plain_mono)

lemma parts_text: "identity_wf i \<Longrightarrow> list_all identity_text (identity_parts i)"
  using text_info [of "idn_info i"] extra_text
  by (auto simp: identity_wf_def identity_parts_def list_all_iff is_ws_def intro!: text_plain split: option.splits)

lemma read_named:
  assumes "n \<noteq> []" "plain '';<>='' n" and "trim (n @ CHR ''='' # v) = n @ CHR ''='' # v" and "trim v = v"
  shows "identity_param (n @ CHR ''='' # v) acc =
    (if eq_ignore_ascii_case n ''alg'' then acc\<lparr>ip_alg := Some v\<rparr>
     else if eq_ignore_ascii_case n ''ppt'' then acc\<lparr>ip_ppt := Some v\<rparr>
     else if eq_ignore_ascii_case n ''info'' then acc\<lparr>ip_info := Some (strip_angles v)\<rparr>
     else acc\<lparr>ip_extra := ip_extra acc @ [(n, Some v)]\<rparr>)"
  using assms split_once_plain [of "CHR ''=''" "'';<>=''" n v] by (simp add: identity_param_def trim_plain [OF assms(2)])

lemma read_plain:
  assumes "n \<noteq> []" "plain '';<>='' n" "plain '';<>'' v"
  shows "trim (n @ CHR ''='' # v) = n @ CHR ''='' # v" "trim v = v"
proof -
  have "plain [] (n @ CHR ''='' # v)" using assms by (auto simp: is_ws_def elim!: plain_mono)
  then show "trim (n @ CHR ''='' # v) = n @ CHR ''='' # v" by (rule trim_plain)
  show "trim v = v" using assms(3) by (rule trim_plain)
qed

lemma read_extra: "extra_wf e \<Longrightarrow> identity_param (tl (show_extra e)) acc = acc\<lparr>ip_extra := ip_extra acc @ [e]\<rparr>"
proof -
  assume wf: "extra_wf e"
  obtain n v where e: "e = (n, v)" by (cases e)
  show ?thesis
  proof (cases v)
    case None
    with wf e have "plain '';<>='' n" "n \<noteq> []" by (simp_all add: extra_wf_def)
    then show ?thesis
      using split_once_plain_None [of "CHR ''=''" "'';<>=''" n] by (simp add: e None show_extra_def identity_param_def trim_plain [of "'';<>=''"])
  next
    case (Some w)
    with wf e show ?thesis
      using read_named [OF _ _ read_plain [of n w], of acc] by (simp add: extra_wf_def show_extra_def)
  qed
qed

lemma read_extras: "list_all extra_wf es \<Longrightarrow>
    fold identity_param (map (\<lambda>e. tl (show_extra e)) es) acc = acc\<lparr>ip_extra := ip_extra acc @ es\<rparr>"
  by (induction es arbitrary: acc) (simp_all add: read_extra)

text \<open>An Identity is read back from the header made of it: token, algorithm, URL of the
  certificate (which may hold semicolons and equals signs), PASSporT type and any other parameters.\<close>

theorem identity_roundtrip:
  assumes "identity_wf i"
  shows "\<exists>v. identity_header i = H_Identity v \<and> identity_parse v = Inr i"
proof -
  have wf: "idn_token i \<noteq> []" "plain '';<>'' (idn_token i)" "plain '';<>'' (idn_alg i)" "list_all extra_wf (idn_extra i)"
      "case idn_ppt i of Some p \<Rightarrow> plain '';<>'' p | None \<Rightarrow> True"
      "CHR ''<'' \<notin> set (idn_info i)" "CHR ''>'' \<notin> set (idn_info i)"
    using assms by (simp_all add: identity_wf_def)
  have split: "split_identity_params (show_identity_value i) = idn_token i # identity_parts i"
    unfolding split_identity_params_def show_identity_parts
    using text_plain [OF wf(2,1)] parts_text [OF assms] by (rule split_texts)
  have alg: "identity_param (''alg='' @ idn_alg i) acc = acc\<lparr>ip_alg := Some (idn_alg i)\<rparr>" for acc
    using read_named [OF _ _ read_plain [of "''alg''"], of "idn_alg i"] wf(3) by (simp add: is_ws_def)
  have ppt: "identity_param (''ppt='' @ p) acc = acc\<lparr>ip_ppt := Some p\<rparr>" if "plain '';<>'' p" for p acc
    using read_named [OF _ _ read_plain [of "''ppt''"], of p] that by (simp add: is_ws_def)
  have info: "identity_param (''info=<'' @ idn_info i @ ''>'') acc = acc\<lparr>ip_info := Some (idn_info i)\<rparr>" for acc
  proof -
    have "trim (''<'' @ idn_info i @ ''>'') = ''<'' @ idn_info i @ ''>''" by (rule trim_unchanged) (simp add: is_ws_def)
    moreover have "trim (''info=<'' @ idn_info i @ ''>'') = ''info=<'' @ idn_info i @ ''>''"
      using text_info [OF wf(6,7)] by (simp add: identity_text_def)
    ultimately show ?thesis
      using read_named [of "''info''" "''<'' @ idn_info i @ ''>''"]
      by (simp add: is_ws_def strip_angles_def butlast_append)
  qed
  have "fold identity_param (identity_parts i) \<lparr>ip_alg = None, ip_info = None, ip_ppt = None, ip_extra = []\<rparr>
      = \<lparr>ip_alg = Some (idn_alg i), ip_info = Some (idn_info i), ip_ppt = idn_ppt i, ip_extra = idn_extra i\<rparr>"
    using wf(5) by (cases "idn_ppt i") (simp_all add: identity_parts_def alg [simplified] ppt [simplified] info [simplified] read_extras [OF wf(4)])
  then show ?thesis
    using split wf(1) trim_plain [OF wf(2)] by (simp add: identity_header_def identity_parse_def)
qed

definition example_identity :: identity_value where
  "example_identity = \<lparr>idn_token = ''aa.bb.cc'', idn_alg = ''ES256'', idn_info = ''https://c.example/x;y=1'', idn_ppt = Some ''shaken'',
     idn_extra = [(''canon'', Some ''z''), (''new'', None)]\<rparr>"

lemma identity_roundtrip_witness: "\<exists>v. identity_header example_identity = H_Identity v \<and> identity_parse v = Inr example_identity"
  by (rule identity_roundtrip) code_simp

section \<open>Allow\<close>

lemma trim_pieces:
  assumes "list_all (plain '','') xs" and "xs \<noteq> []"
  shows "map trim (split_on (\<lambda>c. c = CHR '','') (join '', '' xs)) = xs"
  using assms
proof (induction xs rule: induct_list012)
  case (2 x)
  then have "CHR '','' \<notin> set x" using plainD(2) [of "'',''" x "CHR '',''"] by simp
  then have "split_on (\<lambda>c. c = CHR '','') x = [x]" by (intro split_on_none) auto
  with 2 show ?case by (simp add: trim_plain)
next
  case (3 x y zs)
  let ?t = "join '', '' (y # zs)"
  have "split_on (\<lambda>c. c = CHR '','') (x @ '', '' @ ?t) = x # split_on (\<lambda>c. c = CHR '','') (CHR '' '' # ?t)"
    using 3 plainD(2) [of "'',''" x "CHR '',''"] split_on_hit [of "\<lambda>c. c = CHR '',''" "CHR '',''" x "CHR '' '' # ?t"] by auto
  moreover have "map trim (split_on (\<lambda>c. c = CHR '','') (CHR '' '' # ?t)) = map trim (split_on (\<lambda>c. c = CHR '','') ?t)"
    by (cases "split_on (\<lambda>c. c = CHR '','') ?t") (simp_all add: trim_def trim_start_def is_ws_def)
  ultimately show ?case using 3 trim_plain [of "'',''" x] by simp
qed simp

text \<open>The methods of an Allow header are read back in their order.\<close>

theorem allow_roundtrip: "allow_parse (show_allow ms) = Inr ms"
proof -
  have bad: "param_bad '';,''" by code_simp
  have m: "plain '','' (show_method m)" "show_method m \<noteq> []" for m
    using plain_method [OF bad, of m] parse_show_method [of m] by (auto elim!: plain_mono simp: parse_method_def)
  have "list_all (plain '','') (map show_method ms)" "list_all (\<lambda>x. x \<noteq> []) (map show_method ms)"
    by (simp_all add: list_all_iff m)
  then have "filter (\<lambda>x. x \<noteq> []) (map trim (split_on (\<lambda>c. c = CHR '','') (show_allow ms))) = map show_method ms"
    by (cases ms) (simp_all add: show_allow_def trim_pieces list_all_iff)
  then show ?thesis unfolding allow_parse_def using collect_parsed [of ms parse_method show_method] by simp
qed

end
