(* ===== verification/Refer_Notify.thy ===== *)
theory Refer_Notify
  imports Legacy_Equiv Message_Roundtrip
begin

text \<open>
  REFER and its NOTIFYs (RFC 3515): \<open>notify_refer\<close> of the three INVITE dialogs, which reports the status of a
  referred call, and \<open>ReferStatus::parse\<close> of \<open>dialog/dialog.rs\<close>, which is to read it. The status is printed with
  \<open>{:?}\<close>; how Rust quotes the text of an unlisted code there is the argument \<open>quote\<close>.
\<close>

section \<open>The NOTIFY\<close>

primrec debug_status :: "(string \<Rightarrow> string) \<Rightarrow> status_code \<Rightarrow> string" where
  "debug_status quote SC_Trying = ''Trying''"
| "debug_status quote SC_Ringing = ''Ringing''"
| "debug_status quote SC_CallIsBeingForwarded = ''CallIsBeingForwarded''"
| "debug_status quote SC_Queued = ''Queued''"
| "debug_status quote SC_SessionProgress = ''SessionProgress''"
| "debug_status quote SC_EarlyDialogTerminated = ''EarlyDialogTerminated''"
| "debug_status quote SC_OK = ''OK''"
| "debug_status quote SC_Accepted = ''Accepted''"
| "debug_status quote SC_NoNotification = ''NoNotification''"
| "debug_status quote SC_MultipleChoices = ''MultipleChoices''"
| "debug_status quote SC_MovedPermanently = ''MovedPermanently''"
| "debug_status quote SC_MovedTemporarily = ''MovedTemporarily''"
| "debug_status quote SC_UseProxy = ''UseProxy''"
| "debug_status quote SC_AlternativeService = ''AlternativeService''"
| "debug_status quote SC_BadRequest = ''BadRequest''"
| "debug_status quote SC_Unauthorized = ''Unauthorized''"
| "debug_status quote SC_PaymentRequired = ''PaymentRequired''"
| "debug_status quote SC_Forbidden = ''Forbidden''"
| "debug_status quote SC_NotFound = ''NotFound''"
| "debug_status quote SC_MethodNotAllowed = ''MethodNotAllowed''"
| "debug_status quote SC_NotAcceptable = ''NotAcceptable''"
| "debug_status quote SC_ProxyAuthenticationRequired = ''ProxyAuthenticationRequired''"
| "debug_status quote SC_RequestTimeout = ''RequestTimeout''"
| "debug_status quote SC_Conflict = ''Conflict''"
| "debug_status quote SC_Gone = ''Gone''"
| "debug_status quote SC_LengthRequired = ''LengthRequired''"
| "debug_status quote SC_ConditionalRequestFailed = ''ConditionalRequestFailed''"
| "debug_status quote SC_RequestEntityTooLarge = ''RequestEntityTooLarge''"
| "debug_status quote SC_RequestUriTooLong = ''RequestUriTooLong''"
| "debug_status quote SC_UnsupportedMediaType = ''UnsupportedMediaType''"
| "debug_status quote SC_UnsupportedUriScheme = ''UnsupportedUriScheme''"
| "debug_status quote SC_UnknownResourcePriority = ''UnknownResourcePriority''"
| "debug_status quote SC_BadExtension = ''BadExtension''"
| "debug_status quote SC_ExtensionRequired = ''ExtensionRequired''"
| "debug_status quote SC_SessionIntervalTooSmall = ''SessionIntervalTooSmall''"
| "debug_status quote SC_IntervalTooBrief = ''IntervalTooBrief''"
| "debug_status quote SC_BadLocationInformation = ''BadLocationInformation''"
| "debug_status quote SC_UseIdentityHeader = ''UseIdentityHeader''"
| "debug_status quote SC_ProvideReferrerIdentity = ''ProvideReferrerIdentity''"
| "debug_status quote SC_AnonymityDisallowed = ''AnonymityDisallowed''"
| "debug_status quote SC_BadIdentityInfo = ''BadIdentityInfo''"
| "debug_status quote SC_UnsupportedCertificate = ''UnsupportedCertificate''"
| "debug_status quote SC_InvalidIdentityHeader = ''InvalidIdentityHeader''"
| "debug_status quote SC_FirstHopLacksOutboundSupport = ''FirstHopLacksOutboundSupport''"
| "debug_status quote SC_MaxBreadthExceeded = ''MaxBreadthExceeded''"
| "debug_status quote SC_BadInfoPackage = ''BadInfoPackage''"
| "debug_status quote SC_ConsentNeeded = ''ConsentNeeded''"
| "debug_status quote SC_TemporarilyUnavailable = ''TemporarilyUnavailable''"
| "debug_status quote SC_CallTransactionDoesNotExist = ''CallTransactionDoesNotExist''"
| "debug_status quote SC_LoopDetected = ''LoopDetected''"
| "debug_status quote SC_TooManyHops = ''TooManyHops''"
| "debug_status quote SC_AddressIncomplete = ''AddressIncomplete''"
| "debug_status quote SC_Ambiguous = ''Ambiguous''"
| "debug_status quote SC_BusyHere = ''BusyHere''"
| "debug_status quote SC_RequestTerminated = ''RequestTerminated''"
| "debug_status quote SC_NotAcceptableHere = ''NotAcceptableHere''"
| "debug_status quote SC_BadEvent = ''BadEvent''"
| "debug_status quote SC_RequestPending = ''RequestPending''"
| "debug_status quote SC_Undecipherable = ''Undecipherable''"
| "debug_status quote SC_SecurityAgreementRequired = ''SecurityAgreementRequired''"
| "debug_status quote SC_ServerInternalError = ''ServerInternalError''"
| "debug_status quote SC_NotImplemented = ''NotImplemented''"
| "debug_status quote SC_BadGateway = ''BadGateway''"
| "debug_status quote SC_ServiceUnavailable = ''ServiceUnavailable''"
| "debug_status quote SC_ServerTimeOut = ''ServerTimeOut''"
| "debug_status quote SC_VersionNotSupported = ''VersionNotSupported''"
| "debug_status quote SC_MessageTooLarge = ''MessageTooLarge''"
| "debug_status quote SC_PreconditionFailure = ''PreconditionFailure''"
| "debug_status quote SC_BusyEverywhere = ''BusyEverywhere''"
| "debug_status quote SC_Decline = ''Decline''"
| "debug_status quote SC_DoesNotExistAnywhere = ''DoesNotExistAnywhere''"
| "debug_status quote SC_NotAcceptableGlobal = ''NotAcceptableGlobal''"
| "debug_status quote SC_Unwanted = ''Unwanted''"
| "debug_status quote (SC_Other c t) = ''Other('' @ show_nat c @ '', '' @ quote t @ '')''"

definition notify_refer_headers :: "string \<Rightarrow> header list" where
  "notify_refer_headers sub_state =
     [H_Event ''refer'', H_SubscriptionState sub_state, H_ContentType ''message/sipfrag'']"

definition notify_refer_body :: "(string \<Rightarrow> string) \<Rightarrow> status_code \<Rightarrow> bytes" where
  "notify_refer_body quote status = ''SIP/2.0 '' @ show_nat (status_code_code status) @ '' '' @ debug_status quote status"

definition notify_refer ::
    "(string \<Rightarrow> string) \<Rightarrow> dialog_env \<Rightarrow> status_code \<Rightarrow> string \<Rightarrow> turn list \<Rightarrow> world \<Rightarrow> exchange" where
  "notify_refer quote D status sub_state =
     notify D (Some (notify_refer_headers sub_state)) (Some (notify_refer_body quote status))"

definition uas_notify_refer ::
    "(string \<Rightarrow> string) \<Rightarrow> dialog_env \<Rightarrow> status_code \<Rightarrow> string \<Rightarrow> turn list \<Rightarrow> world \<Rightarrow> exchange" where
  "uas_notify_refer quote D status sub_state =
     uas_notify D (Some (notify_refer_headers sub_state)) (Some (notify_refer_body quote status))"

definition uac_notify_refer ::
    "(string \<Rightarrow> string) \<Rightarrow> dialog_env \<Rightarrow> status_code \<Rightarrow> string \<Rightarrow> turn list \<Rightarrow> world \<Rightarrow> exchange" where
  "uac_notify_refer quote D status sub_state =
     uac_notify D (Some (notify_refer_headers sub_state)) (Some (notify_refer_body quote status))"

section \<open>Reading it\<close>

text \<open>The headers of a parsed message are what \<open>make_header\<close> makes.\<close>

definition made_header :: "header \<Rightarrow> bool" where
  "made_header h \<longleftrightarrow> (\<exists>n v. h = make_header n v)"

lemma flushed_made: "list_all made_header (fst st) \<Longrightarrow> list_all made_header (fst (flush_header open_header st))"
  by (auto simp: flush_header_def headers_push_def made_header_def split: option.split prod.split)

lemma parsed_made: "list_all made_header (fst st) \<Longrightarrow> list_all made_header (fst (parse_header_lines open_header st ls))"
  by (induction open_header st ls rule: parse_header_lines.induct) (simp_all add: flushed_made)

lemma made_event: "eq_ignore_ascii_case n ''Event'' \<Longrightarrow> make_header n v = H_Event v"
  by (simp add: make_header_def eq_ignore_ascii_case_map)

lemma if_other: "(if c then h else h') = H_Other m w \<Longrightarrow> h \<noteq> H_Other m w \<Longrightarrow> h' = H_Other m w"
  by (simp split: if_splits)

lemma made_under_its_name: "make_header n v = H_Other m w \<Longrightarrow> m = n"
  unfolding make_header_def
  apply ((drule if_other, simp)+)
  apply simp
  done

lemma made_other: "made_header (H_Other n v) \<Longrightarrow> \<not> eq_ignore_ascii_case n ''Event''"
proof
  assume "made_header (H_Other n v)" and e: "eq_ignore_ascii_case n ''Event''"
  then obtain m w where m: "make_header m w = H_Other n v" by (metis made_header_def)
  have "make_header m w = H_Event w" using made_under_its_name [OF m] e by (simp add: made_event)
  with m show False by simp
qed

lemma request_line_headers: "parse_request_line line hs body = Inr (Request req) \<Longrightarrow> req_headers req = hs"
  by (auto simp: parse_request_line_def and_then_eq_Inr)

lemma response_line_response: "parse_response_line line hs body = Inr m \<Longrightarrow> m \<noteq> Request req"
  by (cases "split_once space_or_tab line") (auto simp: parse_response_line_def and_then_eq_Inr Let_def split: prod.splits option.splits)

lemma parse_message_made:
  assumes "parse_message b = Inr (Request req)"
  shows "list_all made_header (req_headers req)"
proof -
  obtain hdr after where sep: "split_double_crlf b = Some (hdr, after)"
    using assms by (cases "split_double_crlf b") (auto simp: parse_message_def)
  then obtain start ls where lines: "split_crlf_lines hdr = start # ls"
    using assms by (cases "split_crlf_lines hdr") (simp_all add: parse_message_def)
  let ?st = "parse_header_lines None ([], 0) ls"
  let ?body = "take (min (length after) (snd ?st)) after"
  have "(if starts_with start ''SIP/'' then parse_response_line start (fst ?st) ?body
      else parse_request_line start (fst ?st) ?body) = Inr (Request req)"
    using assms sep lines by (simp add: parse_message_def Let_def case_prod_beta)
  then have "req_headers req = fst ?st"
    using response_line_response request_line_headers by (simp split: if_splits) blast
  then show ?thesis using parsed_made [of "([], 0)" None ls] by simp
qed

text \<open>C39: \<open>ReferStatus::parse\<close> recognizes no request that came over the wire: it looks for
  \<open>Event\<close> among the headers without a name of their own, but the parser gives \<open>Event\<close> its own variant in every
  spelling, and \<open>notify_refer\<close> makes that variant too.\<close>

theorem refer_status_unread:
  assumes "parse_message b = Inr (Request req)"
  shows "refer_status_parse req = None \<and> refer_status_parse (req\<lparr>req_headers := notify_refer_headers sub_state\<rparr>) = None"
proof -
  have "made_header h \<Longrightarrow> (case h of H_Other n v \<Rightarrow> if eq_ignore_ascii_case n ''event'' then Some (map to_ascii_lowercase v) else None
      | _ \<Rightarrow> None) = None" for h
    using made_other by (cases h) (auto simp: eq_ignore_ascii_case_map)
  then have "other_header ''event'' (req_headers req) = None"
    using parse_message_made [OF assms] by (simp add: other_header_def find_map_None list_all_iff)
  moreover have "other_header ''event'' (notify_refer_headers sub_state) = None"
    by (simp add: other_header_def notify_refer_headers_def)
  ultimately show ?thesis by (simp add: refer_status_parse_def)
qed

lemma refer_status_unread_witness:
  "refer_status_parse example_request = None
   \<and> refer_status_parse (example_request\<lparr>req_headers := notify_refer_headers ''active''\<rparr>) = None"
proof (rule refer_status_unread)
  show "parse_message (request_to_bytes example_request) = Inr (Request example_request)"
    by (rule parse_request_bytes) code_simp
qed

end
