(* ===== verification/Endpoint_Serve.thy ===== *)
theory Endpoint_Serve
  imports Serving_Props Endpoint_Props
begin

text \<open>
  The endpoint as a whole (\<open>transaction/endpoint.rs\<close>): its builder, the task \<open>serve\<close> that runs the timers and
  takes the events of the transport layer, its receivers, shutdown and statistics. A cancel token is a number; two
  holders of the same number share the token.

  \<open>serve\<close> is polled; between two polls the other tasks do what they like with the endpoint (a list of turns). A
  poll asks the token first, then runs the timers that are ready, then takes the events that are queued.
\<close>

section \<open>Building an endpoint\<close>

definition VERSION :: string where "VERSION = ''rsipstack/0.7.3''"

text \<open>A transport layer with its token and its resolver.\<close>

record layer_handle =
  lh_layer :: transport_layer
  lh_token :: nat
  lh_resolver :: "sip_addr \<Rightarrow> error + sip_addr"

type_synonym message_inspector = "(sip_message \<Rightarrow> sip_addr option \<Rightarrow> sip_message) \<times> (sip_message \<Rightarrow> sip_addr option \<Rightarrow> sip_message)"

record endpoint_inner =
  ei_endpoint :: endpoint
  ei_env :: env
  ei_layer :: layer_handle
  ei_allows :: "sip_method list option"
  ei_timer_interval :: nat
  ei_token :: nat
  ei_cancelled :: bool
  ei_transport_inspector :: "(transport_event \<Rightarrow> transport_event option) option"
  ei_incoming_receiver :: bool
  ei_transport_receiver :: bool

definition layer_with_resolver :: "bool \<Rightarrow> nat \<Rightarrow> (sip_addr \<Rightarrow> error + sip_addr) \<Rightarrow> layer_handle" where
  "layer_with_resolver was_cancelled token resolver =
     \<lparr>lh_layer = transport_layer_new\<lparr>tl_root_cancelled := was_cancelled\<rparr>, lh_token = token, lh_resolver = resolver\<rparr>"

text \<open>\<open>EndpointInner::new\<close>; \<open>outside\<close> holds what is not given to it: look-ups, socket writes and the generators.\<close>

definition endpoint_inner_new ::
    "env \<Rightarrow> bool \<Rightarrow> string \<Rightarrow> layer_handle \<Rightarrow> nat \<Rightarrow> nat option \<Rightarrow> sip_method list \<Rightarrow> endpoint_option option \<Rightarrow> message_inspector option
     \<Rightarrow> (uri \<Rightarrow> error + sip_addr) option \<Rightarrow> (transport_event \<Rightarrow> transport_event option) option \<Rightarrow> endpoint_inner" where
  "endpoint_inner_new outside was_cancelled user_agent layer token timer_interval allows opt inspector locator transport_inspector =
     \<lparr>ei_endpoint = endpoint_new user_agent opt,
      ei_env = outside\<lparr>env_inspector := inspector, env_locator := locator, env_resolve := lh_resolver layer\<rparr>,
      ei_layer = layer, ei_allows = Some allows, ei_timer_interval = unwrap_or timer_interval 20, ei_token = token,
      ei_cancelled = was_cancelled, ei_transport_inspector = transport_inspector, ei_incoming_receiver = True,
      ei_transport_receiver = True\<rparr>"

record endpoint_builder =
  eb_allows :: "sip_method list"
  eb_user_agent :: string
  eb_transport_layer :: "layer_handle option"
  eb_cancel_token :: "nat option"
  eb_timer_interval :: "nat option"
  eb_option :: "endpoint_option option"
  eb_message_inspector :: "message_inspector option"
  eb_target_locator :: "(uri \<Rightarrow> error + sip_addr) option"
  eb_transport_inspector :: "(transport_event \<Rightarrow> transport_event option) option"
  eb_domain_resolver :: "(sip_addr \<Rightarrow> error + sip_addr) option"

definition builder_new :: endpoint_builder where
  "builder_new =
     \<lparr>eb_allows = [], eb_user_agent = VERSION, eb_transport_layer = None, eb_cancel_token = None, eb_timer_interval = None,
      eb_option = None, eb_message_inspector = None, eb_target_locator = None, eb_transport_inspector = None,
      eb_domain_resolver = None\<rparr>"

definition with_option :: "endpoint_option \<Rightarrow> endpoint_builder \<Rightarrow> endpoint_builder" where
  "with_option opt b = b\<lparr>eb_option := Some opt\<rparr>"

definition with_user_agent :: "string \<Rightarrow> endpoint_builder \<Rightarrow> endpoint_builder" where
  "with_user_agent user_agent b = b\<lparr>eb_user_agent := user_agent\<rparr>"

definition with_transport_layer :: "layer_handle \<Rightarrow> endpoint_builder \<Rightarrow> endpoint_builder" where
  "with_transport_layer layer b = b\<lparr>eb_transport_layer := Some layer\<rparr>"

definition with_cancel_token :: "nat \<Rightarrow> endpoint_builder \<Rightarrow> endpoint_builder" where
  "with_cancel_token token b = b\<lparr>eb_cancel_token := Some token\<rparr>"

definition with_timer_interval :: "nat \<Rightarrow> endpoint_builder \<Rightarrow> endpoint_builder" where
  "with_timer_interval interval b = b\<lparr>eb_timer_interval := Some interval\<rparr>"

definition with_allows :: "sip_method list \<Rightarrow> endpoint_builder \<Rightarrow> endpoint_builder" where
  "with_allows allows b = b\<lparr>eb_allows := allows\<rparr>"

definition with_inspector :: "message_inspector \<Rightarrow> endpoint_builder \<Rightarrow> endpoint_builder" where
  "with_inspector inspector b = b\<lparr>eb_message_inspector := Some inspector\<rparr>"

definition with_target_locator :: "(uri \<Rightarrow> error + sip_addr) \<Rightarrow> endpoint_builder \<Rightarrow> endpoint_builder" where
  "with_target_locator locator b = b\<lparr>eb_target_locator := Some locator\<rparr>"

definition with_transport_inspector :: "(transport_event \<Rightarrow> transport_event option) \<Rightarrow> endpoint_builder \<Rightarrow> endpoint_builder" where
  "with_transport_inspector inspector b = b\<lparr>eb_transport_inspector := Some inspector\<rparr>"

definition with_domain_resolver :: "(sip_addr \<Rightarrow> error + sip_addr) \<Rightarrow> endpoint_builder \<Rightarrow> endpoint_builder" where
  "with_domain_resolver resolver b = b\<lparr>eb_domain_resolver := Some resolver\<rparr>"

text \<open>\<open>build\<close> moves most of what the builder holds into the endpoint. \<open>fresh\<close> is a new token, \<open>was_cancelled\<close> the
  tokens cancelled so far, and the resolver of \<open>outside\<close> the default one.\<close>

definition build_layer :: "(nat \<Rightarrow> bool) \<Rightarrow> (sip_addr \<Rightarrow> error + sip_addr) \<Rightarrow> nat \<Rightarrow> endpoint_builder \<Rightarrow> layer_handle \<times> endpoint_builder" where
  "build_layer was_cancelled default_resolver token b =
     (case eb_transport_layer b of
        Some layer \<Rightarrow> (layer, b\<lparr>eb_transport_layer := None\<rparr>)
      | None \<Rightarrow>
          (case eb_domain_resolver b of
             Some resolver \<Rightarrow> (layer_with_resolver (was_cancelled token) token resolver, b\<lparr>eb_domain_resolver := None\<rparr>)
           | None \<Rightarrow> (layer_with_resolver (was_cancelled token) token default_resolver, b)))"

definition build :: "env \<Rightarrow> nat \<Rightarrow> (nat \<Rightarrow> bool) \<Rightarrow> endpoint_builder \<Rightarrow> endpoint_inner \<times> endpoint_builder" where
  "build outside fresh was_cancelled b =
     (let token = unwrap_or (eb_cancel_token b) fresh;
          (layer, b) = build_layer was_cancelled (env_resolve outside) token (b\<lparr>eb_cancel_token := None\<rparr>)
      in (endpoint_inner_new outside (was_cancelled token) (eb_user_agent b) layer token (eb_timer_interval b) (eb_allows b)
            (eb_option b) (eb_message_inspector b) (eb_target_locator b) (eb_transport_inspector b),
          b\<lparr>eb_option := None, eb_message_inspector := None, eb_target_locator := None, eb_transport_inspector := None\<rparr>))"

section \<open>Serving\<close>

text \<open>An error of \<open>on_received_message\<close> is logged.\<close>

definition react_to_event :: "transport_event \<Rightarrow> endpoint_inner \<Rightarrow> endpoint_inner" where
  "react_to_event ev st =
     (case ev of
        Incoming msg c from \<Rightarrow> st\<lparr>ei_endpoint := snd (on_received_message (ei_env st) msg c from (ei_endpoint st))\<rparr>
      | NewConnection c \<Rightarrow> st
      | ClosedConnection c \<Rightarrow> st)"

definition transport_event_step :: "transport_event \<Rightarrow> endpoint_inner \<Rightarrow> endpoint_inner" where
  "transport_event_step ev st =
     (case ei_transport_inspector st of
        Some inspect \<Rightarrow> (case inspect ev of Some ev \<Rightarrow> react_to_event ev st | None \<Rightarrow> st)
      | None \<Rightarrow> react_to_event ev st)"

definition queued_events :: "endpoint_inner \<Rightarrow> transport_event list" where
  "queued_events st = tl_events (lh_layer (ei_layer st))"

definition map_layer :: "(transport_layer \<Rightarrow> transport_layer) \<Rightarrow> endpoint_inner \<Rightarrow> endpoint_inner" where
  "map_layer f st = st\<lparr>ei_layer := (ei_layer st)\<lparr>lh_layer := f (lh_layer (ei_layer st))\<rparr>\<rparr>"

text \<open>The loop of \<open>process_transport_layer\<close>, until its channel is empty.\<close>

definition drain_events :: "endpoint_inner \<Rightarrow> endpoint_inner" where
  "drain_events st = fold transport_event_step (queued_events st) (map_layer (\<lambda>l. l\<lparr>tl_events := []\<rparr>) st)"

definition poll_timers :: "endpoint_inner \<Rightarrow> endpoint_inner" where
  "poll_timers st = st\<lparr>ei_endpoint := process_timer_round (ei_endpoint st)\<rparr>"

text \<open>The receiver of the transport events dies with the future that took it.\<close>

definition drop_receiver :: "endpoint_inner \<Rightarrow> endpoint_inner" where
  "drop_receiver st = map_layer (\<lambda>l. l\<lparr>tl_events := [], tl_receiver_gone := True\<rparr>) st"

text \<open>\<open>process_transport_layer\<close> when it is polled first: it starts the listeners, whose failures are ignored, and
  takes the receiver.\<close>

definition take_receiver :: "endpoint_inner \<Rightarrow> (error + unit) \<times> endpoint_inner" where
  "take_receiver st =
     (if ei_transport_receiver st then (Inr (), st\<lparr>ei_transport_receiver := False\<rparr>)
      else (Inl (EndpointError ''transport_rx not set''), st))"

definition poll_serve :: "bool \<Rightarrow> endpoint_inner \<Rightarrow> (error + unit) option \<times> endpoint_inner" where
  "poll_serve started st =
     (if ei_cancelled st then (Some (Inr ()), if started then drop_receiver st else st)
      else
        (let st = poll_timers st in
         if started then (None, drain_events st)
         else (case take_receiver st of
             (Inl err, st) \<Rightarrow> (Some (Inl err), st)
           | (Inr _, st) \<Rightarrow> (None, drain_events st))))"

fun serve_polls :: "bool \<Rightarrow> (endpoint_inner \<Rightarrow> endpoint_inner) list \<Rightarrow> endpoint_inner \<Rightarrow> (error + unit) option \<times> endpoint_inner" where
  "serve_polls started [] st = (None, st)"
| "serve_polls started (f # fs) st =
     (case poll_serve started (f st) of
        (Some r, st) \<Rightarrow> (Some r, st)
      | (None, st) \<Rightarrow> serve_polls True fs st)"

definition endpoint_serve :: "(endpoint_inner \<Rightarrow> endpoint_inner) list \<Rightarrow> endpoint_inner \<Rightarrow> (error + unit) option \<times> endpoint_inner" where
  "endpoint_serve fs st = serve_polls False fs st"

text \<open>Cancelling the endpoint's token stops the layer too when they share it.\<close>

definition shutdown :: "endpoint_inner \<Rightarrow> endpoint_inner" where
  "shutdown st =
     (let st = st\<lparr>ei_cancelled := True\<rparr> in
      if lh_token (ei_layer st) = ei_token st then map_layer (\<lambda>l. l\<lparr>tl_root_cancelled := True\<rparr>) st else st)"

definition incoming_transactions :: "endpoint_inner \<Rightarrow> (error + unit) \<times> endpoint_inner" where
  "incoming_transactions st =
     (if ei_incoming_receiver st then (Inr (), st\<lparr>ei_incoming_receiver := False\<rparr>)
      else (Inl (EndpointError ''incoming recevier taken''), st))"

definition endpoint_addrs :: "endpoint_inner \<Rightarrow> sip_addr list" where
  "endpoint_addrs st = layer_addrs (lh_layer (ei_layer st))"

text \<open>The tables are finite maps; \<open>card\<close> of a domain is their \<open>len\<close>.\<close>

record endpoint_stats =
  es_running :: nat
  es_finished :: nat
  es_waiting_ack :: nat

definition get_stats :: "endpoint \<Rightarrow> endpoint_stats" where
  "get_stats e =
     \<lparr>es_running = card (dom (ep_transactions e)), es_finished = card (dom (ep_finished e)),
      es_waiting_ack = card (dom (ep_waiting_ack e))\<rparr>"

section \<open>From the wire to the application\<close>

text \<open>A request that belongs to nothing the endpoint knows.\<close>

definition fresh_request :: "endpoint \<Rightarrow> request \<Rightarrow> transaction_key \<Rightarrow> bool" where
  "fresh_request e req k \<longleftrightarrow>
     key_from_request req ServerRole = Inr k \<and> req_method req \<notin> {Ack, Cancel}
     \<and> ep_transactions e k = None \<and> cached_message k e = None"

lemma fresh_served:
  assumes "fresh_request e req k" and "env_inspector env = None"
  shows "on_received_message env (Request req) c src e
    = (Inr (), case new_server k req (Some c) e of (t, e1) \<Rightarrow> e1\<lparr>ep_incoming := ep_incoming e1 @ [t]\<rparr>)"
  using assms
  by (simp add: fresh_request_def on_received_message_def request_key_other dispatch_def plain_received stamp_source_def
      without_transaction_def split: prod.split)

lemma fresh_after:
  "fresh_request e req k \<Longrightarrow> k \<noteq> k' \<Longrightarrow> fresh_request (e\<lparr>ep_next_channel := n, ep_transactions := (ep_transactions e)(k' \<mapsto> ch),
     ep_incoming := ts\<rparr>) req k"
  by (simp add: fresh_request_def cached_message_def)

text \<open>The transaction a request makes.\<close>

definition served_for :: "sip_connection \<Rightarrow> endpoint \<Rightarrow> transaction \<Rightarrow> request \<Rightarrow> transaction_key \<Rightarrow> bool" where
  "served_for c e t req k \<longleftrightarrow>
     tx_original t = req \<and> tx_key t = k \<and> tx_state t = Trying \<and> is_server (tx_type t) \<and> tx_connection t = Some c
     \<and> ep_transactions e k = Some (tx_channel t)"

fun all_served :: "sip_connection \<Rightarrow> endpoint \<Rightarrow> transaction list \<Rightarrow> request list \<Rightarrow> transaction_key list \<Rightarrow> bool" where
  "all_served c e (t # ts) (r # rs) (k # ks) = (served_for c e t r k \<and> all_served c e ts rs ks)"
| "all_served c e ts rs ks = (ts = [] \<and> rs = [] \<and> ks = [])"

fun all_fresh :: "endpoint \<Rightarrow> request list \<Rightarrow> transaction_key list \<Rightarrow> bool" where
  "all_fresh e (r # rs) (k # ks) = (fresh_request e r k \<and> all_fresh e rs ks)"
| "all_fresh e rs ks = (rs = [] \<and> ks = [])"

lemma all_fresh_after:
  "all_fresh e rs ks \<Longrightarrow> k' \<notin> set ks \<Longrightarrow> all_fresh (e\<lparr>ep_next_channel := n, ep_transactions := (ep_transactions e)(k' \<mapsto> ch),
     ep_incoming := ts\<rparr>) rs ks"
  by (induction e rs ks rule: all_fresh.induct) (auto intro: fresh_after)

lemma served_kept: "all_served c e ts rs ks \<Longrightarrow> (\<And>k. k \<in> set ks \<Longrightarrow> ep_transactions e' k = ep_transactions e k) \<Longrightarrow> all_served c e' ts rs ks"
  by (induction c e ts rs ks rule: all_served.induct) (auto simp: served_for_def)

lemma new_server_made:
  assumes "req_method req \<notin> {Ack, Cancel}"
  shows "\<exists>t. new_server k req (Some c) e
      = (t, e\<lparr>ep_next_channel := ep_next_channel e + 1, ep_transactions := (ep_transactions e)(k \<mapsto> ep_next_channel e)\<rparr>)
    \<and> tx_original t = req \<and> tx_key t = k \<and> tx_state t = Trying \<and> is_server (tx_type t) \<and> tx_connection t = Some c
    \<and> tx_channel t = ep_next_channel e"
  using assms by (auto simp: new_server_def tx_new_def attach_transaction_def Let_def is_server_def split: sip_method.split)

lemma drained_requests:
  assumes "all_fresh (ei_endpoint st) rs ks" and "distinct ks"
    and "env_inspector (ei_env st) = None" and "ei_transport_inspector st = None"
  shows "\<exists>ts e. fold transport_event_step (map (\<lambda>r. Incoming (Request r) c src) rs) st = st\<lparr>ei_endpoint := e\<rparr>
    \<and> ep_incoming e = ep_incoming (ei_endpoint st) @ ts \<and> all_served c e ts rs ks
    \<and> (\<forall>k. k \<notin> set ks \<longrightarrow> ep_transactions e k = ep_transactions (ei_endpoint st) k)"
  using assms
proof (induction rs arbitrary: st ks)
  case Nil
  then have "ks = []" by (cases ks) auto
  then show ?case by (intro exI [of _ "[]"] exI [of _ "ei_endpoint st"]) simp
next
  case (Cons r rs)
  then obtain k ks' where ks: "ks = k # ks'" by (cases ks) auto
  let ?e = "ei_endpoint st"
  have fresh: "fresh_request ?e r k" and rest: "all_fresh ?e rs ks'" using Cons.prems(1) ks by auto
  obtain t where t: "new_server k r (Some c) ?e
      = (t, ?e\<lparr>ep_next_channel := ep_next_channel ?e + 1, ep_transactions := (ep_transactions ?e)(k \<mapsto> ep_next_channel ?e)\<rparr>)"
    "tx_original t = r" "tx_key t = k" "tx_state t = Trying" "is_server (tx_type t)" "tx_connection t = Some c"
    "tx_channel t = ep_next_channel ?e"
    using new_server_made [of r k c ?e] fresh by (auto simp: fresh_request_def)
  let ?e1 = "?e\<lparr>ep_next_channel := ep_next_channel ?e + 1, ep_transactions := (ep_transactions ?e)(k \<mapsto> ep_next_channel ?e),
    ep_incoming := ep_incoming ?e @ [t]\<rparr>"
  have step: "transport_event_step (Incoming (Request r) c src) st = st\<lparr>ei_endpoint := ?e1\<rparr>"
    using fresh_served [OF fresh Cons.prems(3), of c src] t(1) Cons.prems(4)
    by (simp add: transport_event_step_def react_to_event_def)
  have "all_fresh ?e1 rs ks'" using rest Cons.prems(2) ks by (simp add: all_fresh_after)
  then obtain ts e where IH: "fold transport_event_step (map (\<lambda>r. Incoming (Request r) c src) rs) (st\<lparr>ei_endpoint := ?e1\<rparr>)
      = st\<lparr>ei_endpoint := e\<rparr>" "ep_incoming e = ep_incoming ?e1 @ ts" "all_served c e ts rs ks'"
    "\<forall>k. k \<notin> set ks' \<longrightarrow> ep_transactions e k = ep_transactions ?e1 k"
    using Cons.IH [of "st\<lparr>ei_endpoint := ?e1\<rparr>" ks'] Cons.prems ks by auto
  have "ep_transactions e k = Some (tx_channel t)" using IH(4) Cons.prems(2) ks t(7) by simp
  then have "all_served c e (t # ts) (r # rs) ks" using IH(3) t ks by (simp add: served_for_def)
  with step IH ks show ?case by (intro exI [of _ "t # ts"] exI [of _ e]) simp
qed

text \<open>C11: the new requests a peer writes on a stream, however the network cuts them, reach
  the application as one server transaction each, in the order they were written, with their Via stamped, over the
  connection they came on, attached under their keys, when the serving endpoint takes the events of that stream.\<close>

theorem wire_to_application:
  assumes "list_all fits_stream (map Request rs)"
    and "list_all2 (\<lambda>r r'. stamped_from remote (Request r) = Inr (Request r')) rs rs'"
    and "list_all (\<lambda>b. b \<noteq> []) chunks" and "concat chunks = wire (map Request rs)"
    and "queued_events st = fst (snd (stream_serve_loop False False failure c remote (map StreamBytes chunks)))"
    and "\<not> ei_cancelled st" and "env_inspector (ei_env st) = None" and "ei_transport_inspector st = None"
    and "all_fresh (process_timer_round (ei_endpoint st)) rs' ks" and "distinct ks"
  shows "\<exists>ts st'. poll_serve True st = (None, st') \<and> queued_events st' = []
    \<and> ep_incoming (ei_endpoint st') = ep_incoming (process_timer_round (ei_endpoint st)) @ ts
    \<and> all_served c (ei_endpoint st') ts rs' ks"
proof -
  have "list_all2 (\<lambda>m m'. stamped_from remote m = Inr m') (map Request rs) (map Request rs')"
    using assms(2) by (simp add: list_all2_map1 list_all2_map2)
  then have "stream_serve_loop False False failure c remote (map StreamBytes chunks)
      = ([], map (\<lambda>m'. Incoming m' c remote) (map Request rs'), None)"
    using serve_reassembles [of "map Request rs" remote "map Request rs'" chunks "[]"] assms(1,3,4) decode_Nil
    by (simp add: stream_serve_loop_def)
  then have q: "queued_events st = map (\<lambda>r. Incoming (Request r) c remote) rs'" using assms(5) by (simp add: o_def)
  let ?st = "map_layer (\<lambda>l. l\<lparr>tl_events := []\<rparr>) (poll_timers st)"
  have eq: "ei_endpoint ?st = process_timer_round (ei_endpoint st)" "ei_env ?st = ei_env st"
    "ei_transport_inspector ?st = ei_transport_inspector st" "queued_events ?st = []" "queued_events (poll_timers st) = queued_events st"
    by (simp_all add: map_layer_def poll_timers_def queued_events_def)
  obtain ts e where "fold transport_event_step (map (\<lambda>r. Incoming (Request r) c remote) rs') ?st = ?st\<lparr>ei_endpoint := e\<rparr>"
    "ep_incoming e = ep_incoming (ei_endpoint ?st) @ ts" "all_served c e ts rs' ks"
    using drained_requests [of ?st rs' ks c remote] assms(7-10) eq by auto
  then show ?thesis
    using assms(6) q eq
    by (intro exI [of _ ts] exI [of _ "?st\<lparr>ei_endpoint := e\<rparr>"]) (simp add: poll_serve_def drain_events_def queued_events_def)
qed

definition example_serving :: endpoint_inner where
  "example_serving =
     snd (take_receiver (fst (build example_env 1 (\<lambda>_. False) (with_user_agent ''ua'' builder_new))))"

lemma example_stamped_request: "\<exists>r. stamped_from example_remote (Request example_request) = Inr (Request r) \<and> req_method r = Invite"
proof -
  have "(case stamped_from example_remote (Request example_request) of Inr (Request r) \<Rightarrow> req_method r = Invite | _ \<Rightarrow> False)"
    by code_simp
  then show ?thesis by (auto split: sum.splits sip_message.splits)
qed

lemma example_stamped_key: "\<exists>k. and_then (stamped_from example_remote (Request example_request))
    (\<lambda>m. case m of Request r \<Rightarrow> key_from_request r ServerRole | _ \<Rightarrow> Inl (Error [])) = Inr k"
proof -
  have "(case and_then (stamped_from example_remote (Request example_request))
    (\<lambda>m. case m of Request r \<Rightarrow> key_from_request r ServerRole | _ \<Rightarrow> Inl (Error [])) of Inr _ \<Rightarrow> True | Inl _ \<Rightarrow> False)"
    by code_simp
  then show ?thesis by (auto split: sum.splits)
qed

lemma example_serving_state:
  "ei_endpoint example_serving = endpoint_new ''ua'' None" "\<not> ei_cancelled example_serving"
  "env_inspector (ei_env example_serving) = None" "ei_transport_inspector example_serving = None"
  by (simp_all add: example_serving_def build_def builder_new_def with_user_agent_def build_layer_def take_receiver_def
      endpoint_inner_new_def Let_def)

lemma idle_timers: "process_timer_round (endpoint_new ua opt) = endpoint_new ua opt"
  by (simp add: process_timer_round_def endpoint_new_def wait_for_ready_round_def timer_new_def timer_poll_def next_deadline_def)

lemma wire_to_application_witness:
  "\<exists>r k ts st'. poll_serve True (map_layer (\<lambda>l. l\<lparr>tl_events := [Incoming (Request r) (example_conn_to ConnTcp) example_remote]\<rparr>)
      example_serving) = (None, st')
    \<and> ep_incoming (ei_endpoint st') = ts \<and> all_served (example_conn_to ConnTcp) (ei_endpoint st') ts [r] [k]"
proof -
  obtain r where r: "stamped_from example_remote (Request example_request) = Inr (Request r)" "req_method r = Invite"
    using example_stamped_request by blast
  then obtain k where k: "key_from_request r ServerRole = Inr k" using example_stamped_key by auto
  let ?st = "map_layer (\<lambda>l. l\<lparr>tl_events := [Incoming (Request r) (example_conn_to ConnTcp) example_remote]\<rparr>) example_serving"
  let ?chunks = "[take 30 (wire [Request example_request]), drop 30 (wire [Request example_request])]"
  have st: "ei_endpoint ?st = endpoint_new ''ua'' None" "\<not> ei_cancelled ?st" "env_inspector (ei_env ?st) = None"
    "ei_transport_inspector ?st = None"
    using example_serving_state by (simp_all add: map_layer_def)
  have whole: "concat ?chunks = wire (map Request [example_request])"
    by (simp only: concat.simps append_Nil2 append_take_drop_id list.map)
  have cut: "list_all (\<lambda>b. b \<noteq> []) ?chunks" by code_simp
  have fits: "list_all fits_stream (map Request [example_request])" using example_fits by simp
  have served: "stream_serve_loop False False (\<lambda>_. None) (example_conn_to ConnTcp) example_remote (map StreamBytes ?chunks)
      = ([], [Incoming (Request r) (example_conn_to ConnTcp) example_remote], None)"
    using serve_reassembles [OF fits, of example_remote "[Request r]" ?chunks "[]"] r(1) cut whole decode_Nil
    by (simp add: stream_serve_loop_def)
  have "\<exists>ts st'. poll_serve True ?st = (None, st') \<and> queued_events st' = []
    \<and> ep_incoming (ei_endpoint st') = ep_incoming (process_timer_round (ei_endpoint ?st)) @ ts
    \<and> all_served (example_conn_to ConnTcp) (ei_endpoint st') ts [r] [k]"
  proof (rule wire_to_application [OF fits _ cut whole])
    show "list_all2 (\<lambda>r r'. stamped_from example_remote (Request r) = Inr (Request r')) [example_request] [r]" using r(1) by simp
    show "queued_events ?st = fst (snd (stream_serve_loop False False (\<lambda>_. None) (example_conn_to ConnTcp) example_remote
        (map StreamBytes ?chunks)))"
      by (simp only: served) (simp add: queued_events_def map_layer_def)
    show "all_fresh (process_timer_round (ei_endpoint ?st)) [r] [k]"
      unfolding st(1) idle_timers using r(2) k by (simp add: fresh_request_def cached_message_def endpoint_new_def)
  qed (use st in simp_all)
  then show ?thesis unfolding st(1) idle_timers by (auto simp: endpoint_new_def)
qed

section \<open>One server, and its end\<close>

text \<open>No task gives the receiver of the transport events back.\<close>

definition keeps_receiver :: "(endpoint_inner \<Rightarrow> endpoint_inner) \<Rightarrow> bool" where
  "keeps_receiver f \<longleftrightarrow> (\<forall>st. \<not> ei_transport_receiver st \<longrightarrow> \<not> ei_transport_receiver (f st))"

lemma step_receiver [simp]:
  "ei_transport_receiver (transport_event_step ev st) = ei_transport_receiver st"
  "ei_cancelled (transport_event_step ev st) = ei_cancelled st"
  "ei_layer (transport_event_step ev st) = ei_layer st"
  by (simp_all add: transport_event_step_def react_to_event_def split: option.split transport_event.split)

lemma drained_receiver [simp]:
  "ei_transport_receiver (fold transport_event_step evs st) = ei_transport_receiver st"
  "ei_cancelled (fold transport_event_step evs st) = ei_cancelled st"
  "ei_layer (fold transport_event_step evs st) = ei_layer st"
  by (induction evs arbitrary: st) simp_all

lemma poll_receiver: "poll_serve started st = (x, st') \<Longrightarrow> \<not> ei_transport_receiver st \<Longrightarrow> \<not> ei_transport_receiver st'"
  by (auto simp: poll_serve_def Let_def take_receiver_def drop_receiver_def map_layer_def drain_events_def poll_timers_def
      split: if_splits sum.splits prod.splits)

lemma polls_receiver:
  "serve_polls started fs st = (x, st') \<Longrightarrow> list_all keeps_receiver fs \<Longrightarrow> \<not> ei_transport_receiver st \<Longrightarrow> \<not> ei_transport_receiver st'"
proof (induction started fs st rule: serve_polls.induct)
  case (2 started f fs st)
  obtain y st1 where p: "poll_serve started (f st) = (y, st1)" by (rule prod.exhaust)
  have "\<not> ei_transport_receiver st1" using poll_receiver [OF p] 2(3,4) by (auto simp: keeps_receiver_def)
  with 2 p show ?case by (cases y) auto
qed simp

lemma first_poll_takes: "poll_serve False st = (None, st') \<Longrightarrow> \<not> ei_transport_receiver st'"
  by (auto simp: poll_serve_def Let_def take_receiver_def drain_events_def map_layer_def split: if_splits)

text \<open>An endpoint is served once: after a first \<open>serve\<close> has begun, and whether or not it has
  ended, every other \<open>serve\<close> of an endpoint that is not shut down fails with an error when it is polled first,
  whatever the other tasks did meanwhile, and takes no event from the first.\<close>

theorem one_server:
  assumes "poll_serve False st = (None, st1)" and "serve_polls True fs st1 = (x, st2)"
    and "list_all keeps_receiver (fs @ [g])" and "\<not> ei_cancelled (g st2)"
  shows "\<exists>st3. endpoint_serve (g # gs) st2 = (Some (Inl (EndpointError ''transport_rx not set'')), st3)
    \<and> queued_events st3 = queued_events (g st2)"
proof -
  have "\<not> ei_transport_receiver (g st2)"
    using polls_receiver [OF assms(2)] first_poll_takes [OF assms(1)] assms(3) by (simp add: keeps_receiver_def)
  with assms(4) show ?thesis
    by (simp add: endpoint_serve_def poll_serve_def poll_timers_def take_receiver_def queued_events_def)
qed

text \<open>C32: after \<open>shutdown\<close> the next poll of \<open>serve\<close> returns, without taking the events that are
  still queued; from then on no connection can deliver a message any more, so their serve loops end at their next
  message; and the listeners and streams of a layer that shares the token are cancelled.\<close>

theorem shutdown_ends:
  assumes "stamped_from remote m = Inr m'"
  shows "\<exists>st'. serve_polls True (shutdown # fs) st = (Some (Inr ()), st') \<and> ei_endpoint st' = ei_endpoint st
    \<and> send_event ev (lh_layer (ei_layer st')) = (False, lh_layer (ei_layer st'))
    \<and> stream_items (tl_receiver_gone (lh_layer (ei_layer st'))) failure c remote (CodecMessage m # items)
        = ([], [], Some channel_closed)
    \<and> tl_root_cancelled (lh_layer (ei_layer st'))
        = (lh_token (ei_layer st) = ei_token st \<or> tl_root_cancelled (lh_layer (ei_layer st)))"
  using assms
  by (simp add: poll_serve_def shutdown_def Let_def drop_receiver_def map_layer_def send_event_def stamped_from_def)

lemma shutdown_ends_witness:
  "\<exists>st'. serve_polls True [shutdown] example_serving = (Some (Inr ()), st')
    \<and> stream_items (tl_receiver_gone (lh_layer (ei_layer st'))) (\<lambda>_. None) (example_conn_to ConnTcp) example_remote
        [CodecMessage (Request example_request)] = ([], [], Some channel_closed)"
proof -
  obtain m' where "stamped_from example_remote (Request example_request) = Inr m'" using example_stamped by blast
  from shutdown_ends [OF this, of "[]" example_serving] show ?thesis by blast
qed

text \<open>A transport inspector filters the events: what it drops is as if it had never been sent.\<close>

lemma inspected_events:
  "fold transport_event_step evs (st\<lparr>ei_transport_inspector := Some f\<rparr>)
    = (fold react_to_event (List.map_filter f evs) st)\<lparr>ei_transport_inspector := Some f\<rparr>"
proof (induction evs arbitrary: st)
  case (Cons ev evs)
  have "transport_event_step ev (st\<lparr>ei_transport_inspector := Some f\<rparr>)
    = (case f ev of Some ev \<Rightarrow> react_to_event ev st | None \<Rightarrow> st)\<lparr>ei_transport_inspector := Some f\<rparr>"
    by (simp add: transport_event_step_def react_to_event_def split: option.split transport_event.split)
  with Cons show ?case by (simp add: List.map_filter_simps split: option.split)
qed (simp add: List.map_filter_simps)

section \<open>The builder\<close>

text \<open>A builder can be used again, but \<open>build\<close> has moved most of the configuration into the first endpoint: the
  second has default timers, no inspector, no locator, a token and a layer of its own, and the same name and methods.\<close>

lemma build_again:
  assumes "build outside fresh dead b = (e1, b1)" and "build outside fresh' dead b1 = (e2, b2)"
    and "eb_transport_layer b = None" and "eb_domain_resolver b = None"
  shows "ep_option (ei_endpoint e2) = endpoint_option_default \<and> env_inspector (ei_env e2) = None \<and> env_locator (ei_env e2) = None
    \<and> ei_transport_inspector e2 = None \<and> ei_token e2 = fresh' \<and> lh_token (ei_layer e2) = fresh'
    \<and> ep_user_agent (ei_endpoint e2) = ep_user_agent (ei_endpoint e1) \<and> ei_allows e2 = ei_allows e1
    \<and> ei_timer_interval e2 = ei_timer_interval e1"
  using assms
  by (auto simp: build_def build_layer_def endpoint_inner_new_def endpoint_new_def layer_with_resolver_def Let_def)

text \<open>The layer the builder makes shares the endpoint's token, so \<open>shutdown\<close> stops it; a layer that is given is used
  with its own token and resolver, and a resolver given beside it has no effect on this endpoint.\<close>

lemma build_layer_of:
  "build outside fresh dead b = (e, b') \<Longrightarrow> eb_transport_layer b = None \<Longrightarrow> lh_token (ei_layer e) = ei_token e"
  "build outside fresh dead b = (e, b') \<Longrightarrow> eb_transport_layer b = Some l \<Longrightarrow> ei_layer e = l \<and> env_resolve (ei_env e) = lh_resolver l"
  by (auto simp: build_def build_layer_def endpoint_inner_new_def layer_with_resolver_def Let_def split: option.splits)

lemma stats_after_served:
  assumes "fresh_request e req k" and "env_inspector env = None" and "finite (dom (ep_transactions e))"
  shows "es_running (get_stats (snd (on_received_message env (Request req) c src e))) = es_running (get_stats e) + 1"
proof -
  have m: "req_method req \<notin> {Ack, Cancel}" and k: "k \<notin> dom (ep_transactions e)" using assms(1) by (auto simp: fresh_request_def)
  show ?thesis
    using new_server_made [OF m, of k c e] card_insert_disjoint [OF assms(3) k] by (auto simp: fresh_served [OF assms(1,2)] get_stats_def)
qed

lemma one_server_witness:
  "\<exists>st3. endpoint_serve [id] (snd (serve_polls True [id] (snd (poll_serve False
      (fst (build example_env 1 (\<lambda>_. False) builder_new))))))
    = (Some (Inl (EndpointError ''transport_rx not set'')), st3)"
proof -
  let ?b = "fst (build example_env 1 (\<lambda>_. False) builder_new)"
  have b: "ei_transport_receiver ?b" "\<not> ei_cancelled ?b"
    by (simp_all add: build_def builder_new_def build_layer_def endpoint_inner_new_def Let_def)
  obtain x st1 where p: "poll_serve False ?b = (x, st1)" by (rule prod.exhaust)
  with b have x: "x = None" "\<not> ei_cancelled st1" by (auto simp: poll_serve_def poll_timers_def take_receiver_def drain_events_def map_layer_def Let_def)
  obtain y st2 where q: "serve_polls True [id] st1 = (y, st2)" by (rule prod.exhaust)
  with x have "\<not> ei_cancelled st2" by (auto simp: poll_serve_def poll_timers_def drain_events_def map_layer_def Let_def)
  then show ?thesis using one_server [of ?b st1 "[id]" y st2 id "[]"] p q x by (auto simp: keeps_receiver_def)
qed

end
