(* ===== verification/Message_Access.thy ===== *)
theory Message_Access
  imports Serving_Props Header_Lists Auth_Roundtrip
begin

text \<open>
  The interface of messages and headers (\<open>sip/message.rs\<close>, \<open>sip/headers/untyped.rs\<close>, \<open>sip/uri.rs\<close>,
  \<open>sip/error.rs\<close>): the accessors of \<open>HeadersExt\<close> that select one variant, the references through which a header is
  changed, the typed value behind an untyped one, and the conversions between messages, texts and bytes.
\<close>

section \<open>Typed values\<close>

text \<open>\<open>ToTypedHeader::typed\<close>: the conversion trims the value and parses it, except that of History-Info, which
  parses the value as it is.\<close>

definition from_typed :: "string \<Rightarrow> sip_error + name_addr" where "from_typed v = from_parse (trim v)"
definition to_typed :: "string \<Rightarrow> sip_error + name_addr" where "to_typed v = to_parse (trim v)"
definition route_typed :: "string \<Rightarrow> sip_error + name_addr" where "route_typed v = route_parse (trim v)"
definition record_route_typed :: "string \<Rightarrow> sip_error + name_addr" where "record_route_typed v = record_route_parse (trim v)"
definition www_authenticate_typed :: "string \<Rightarrow> sip_error + challenge" where
  "www_authenticate_typed v = www_authenticate_parse (trim v)"
definition proxy_authenticate_typed :: "string \<Rightarrow> sip_error + challenge" where
  "proxy_authenticate_typed v = proxy_authenticate_parse (trim v)"
definition history_info_typed :: "string \<Rightarrow> sip_error + hi_entry list" where
  "history_info_typed v = history_info_parse v"

text \<open>Headers made from a number or a URI.\<close>

definition content_length_of :: "nat \<Rightarrow> header" where "content_length_of n = H_ContentLength (show_nat n)"
definition expires_of_number :: "nat \<Rightarrow> header" where "expires_of_number n = H_Expires (show_nat n)"
definition max_forwards_of :: "nat \<Rightarrow> header" where "max_forwards_of n = H_MaxForwards (show_nat n)"
definition refer_to_of_uri :: "uri \<Rightarrow> header" where "refer_to_of_uri u = H_ReferTo (''<'' @ show_uri u @ ''>'')"

section \<open>Accessors\<close>

text \<open>Changing a header through the reference \<open>header_get_mut!\<close> returns; the receiver is changed in place.\<close>

definition header_mut :: "(string \<Rightarrow> header) \<Rightarrow> string \<Rightarrow> (string \<Rightarrow> string) \<Rightarrow> header list \<Rightarrow> sip_error + header list" where
  "header_mut mk name f hs = and_then (header_get mk name hs) (\<lambda>v. Inr (header_replace mk (f v) hs))"

definition to_header_mut :: "(string \<Rightarrow> string) \<Rightarrow> header list \<Rightarrow> sip_error + header list" where
  "to_header_mut = header_mut H_To ''To''"
definition from_header_mut :: "(string \<Rightarrow> string) \<Rightarrow> header list \<Rightarrow> sip_error + header list" where
  "from_header_mut = header_mut H_From ''From''"
definition via_header_mut :: "(string \<Rightarrow> string) \<Rightarrow> header list \<Rightarrow> sip_error + header list" where
  "via_header_mut = header_mut H_Via ''Via''"
definition call_id_header_mut :: "(string \<Rightarrow> string) \<Rightarrow> header list \<Rightarrow> sip_error + header list" where
  "call_id_header_mut = header_mut H_CallId ''Call-ID''"
definition cseq_header_mut :: "(string \<Rightarrow> string) \<Rightarrow> header list \<Rightarrow> sip_error + header list" where
  "cseq_header_mut = header_mut H_CSeq ''CSeq''"
definition max_forwards_header_mut :: "(string \<Rightarrow> string) \<Rightarrow> header list \<Rightarrow> sip_error + header list" where
  "max_forwards_header_mut = header_mut H_MaxForwards ''Max-Forwards''"
definition contact_header_mut :: "(string \<Rightarrow> string) \<Rightarrow> header list \<Rightarrow> sip_error + header list" where
  "contact_header_mut = header_mut H_Contact ''Contact''"

definition all_contact_headers :: "header list \<Rightarrow> string list" where "all_contact_headers = all_headers H_Contact"
definition record_route_headers :: "header list \<Rightarrow> string list" where "record_route_headers = all_headers H_RecordRoute"
definition record_route_header :: "header list \<Rightarrow> string option" where "record_route_header = header_opt H_RecordRoute"
definition all_route_headers :: "header list \<Rightarrow> string list" where "all_route_headers = all_headers H_Route"
definition first_route_header :: "header list \<Rightarrow> string option" where "first_route_header = header_opt H_Route"
definition service_route_headers :: "header list \<Rightarrow> string list" where "service_route_headers = all_headers H_ServiceRoute"
definition first_service_route :: "header list \<Rightarrow> string option" where "first_service_route = header_opt H_ServiceRoute"
definition user_agent_header :: "header list \<Rightarrow> string option" where "user_agent_header = header_opt H_UserAgent"
definition authorization_header :: "header list \<Rightarrow> string option" where "authorization_header = header_opt H_Authorization"
definition www_authenticate_header :: "header list \<Rightarrow> string option" where
  "www_authenticate_header = header_opt H_WwwAuthenticate"
definition expires_header :: "header list \<Rightarrow> string option" where "expires_header = header_opt H_Expires"
definition min_expires_header :: "header list \<Rightarrow> string option" where "min_expires_header = header_opt H_MinExpires"
definition reason_header :: "header list \<Rightarrow> string option" where "reason_header = header_opt H_Reason"
definition refer_to_header :: "header list \<Rightarrow> string option" where "refer_to_header = header_opt H_ReferTo"
definition referred_by_header :: "header list \<Rightarrow> string option" where "referred_by_header = header_opt H_ReferredBy"
definition session_expires_header :: "header list \<Rightarrow> string option" where
  "session_expires_header = header_opt H_SessionExpires"
definition p_asserted_identity_header :: "header list \<Rightarrow> string option" where
  "p_asserted_identity_header = header_opt H_PAssertedIdentity"
definition call_info_header :: "header list \<Rightarrow> string option" where "call_info_header = header_opt H_CallInfo"
definition call_info_headers :: "header list \<Rightarrow> string list" where "call_info_headers = all_headers H_CallInfo"
definition user_to_user_header :: "header list \<Rightarrow> string option" where "user_to_user_header = header_opt H_UserToUser"
definition user_to_user_headers :: "header list \<Rightarrow> string list" where "user_to_user_headers = all_headers H_UserToUser"
definition replaces_header :: "header list \<Rightarrow> string option" where "replaces_header = header_opt H_Replaces"
definition privacy_header :: "header list \<Rightarrow> string option" where "privacy_header = header_opt H_Privacy"
definition path_headers :: "header list \<Rightarrow> string list" where "path_headers = all_headers H_Path"

section \<open>Conversions\<close>

definition request_of_bytes :: "bytes \<Rightarrow> sip_error + request" where
  "request_of_bytes b =
     and_then (parse_message b) (\<lambda>m. case m of
       Request r \<Rightarrow> Inr r
     | Response _ \<Rightarrow> Inl (Unexpected ''expected Request, got Response''))"

definition response_of_bytes :: "bytes \<Rightarrow> sip_error + response" where
  "response_of_bytes b =
     and_then (parse_message b) (\<lambda>m. case m of
       Response r \<Rightarrow> Inr r
     | Request _ \<Rightarrow> Inl (Unexpected ''expected Response, got Request''))"

text \<open>A text is read as its bytes.\<close>

definition request_of_str :: "string \<Rightarrow> sip_error + request" where "request_of_str s = request_of_bytes s"
definition response_of_str :: "string \<Rightarrow> sip_error + response" where "response_of_str s = response_of_bytes s"
definition message_of_bytes :: "bytes \<Rightarrow> sip_error + sip_message" where "message_of_bytes b = parse_message b"
definition message_of_str :: "string \<Rightarrow> sip_error + sip_message" where "message_of_str s = message_of_bytes s"

fun request_of_message :: "sip_message \<Rightarrow> sip_error + request" where
  "request_of_message (Request r) = Inr r"
| "request_of_message (Response _) = Inl (Unexpected ''expected Request'')"

fun response_of_message :: "sip_message \<Rightarrow> sip_error + response" where
  "response_of_message (Response r) = Inr r"
| "response_of_message (Request _) = Inl (Unexpected ''expected Response'')"

definition show_response :: "response \<Rightarrow> string" where
  "show_response r =
     show_version (resp_version r) @ '' '' @ show_nat (status_code_code (resp_status r)) @ '' '' @ status_code_text (resp_status r)
     @ crlf @ show_headers (resp_headers r) @ crlf @ utf8_lossy (resp_body r)"

definition show_request :: "request \<Rightarrow> string" where
  "show_request r =
     show_method (req_method r) @ '' '' @ show_uri (req_uri r) @ '' '' @ show_version (req_version r)
     @ crlf @ show_headers (req_headers r) @ crlf @ utf8_lossy (req_body r)"

fun show_message :: "sip_message \<Rightarrow> string" where
  "show_message (Request r) = show_request r"
| "show_message (Response r) = show_response r"

text \<open>Hosts and parameters.\<close>

fun ip_of_host :: "host \<Rightarrow> sip_error + ip_addr" where
  "ip_of_host (IpAddr ip) = Inr ip"
| "ip_of_host (Domain d) = ok_or (parse_ip d) addr_parse_error"

definition hwp_of_domain :: "string \<Rightarrow> host_with_port" where "hwp_of_domain d = \<lparr>hwp_host = Domain d, hwp_port = None\<rparr>"
definition hwp_of_ip :: "ip_addr \<Rightarrow> host_with_port" where "hwp_of_ip ip = \<lparr>hwp_host = IpAddr ip, hwp_port = None\<rparr>"
definition received_parse :: "string \<Rightarrow> ip_addr option" where "received_parse s = parse_ip s"

text \<open>Errors of the SIP layer.\<close>

fun show_sip_error :: "sip_error \<Rightarrow> string" where
  "show_sip_error (MissingHeader e) = ''rsip error: missing header: '' @ e"
| "show_sip_error (InvalidParam e) = ''rsip error: invalid header param: '' @ e"
| "show_sip_error (ParseError e) = ''rsip error: could not parse part: '' @ e"
| "show_sip_error (TokenizeError e) = ''Tokenizer error: '' @ e"
| "show_sip_error (Unexpected e) = ''rsip quite unexpected error: '' @ e"
| "show_sip_error (Utf8Error e) = ''rsip error: invalid utf8 ('' @ e @ '')''"

definition tokenizer_error :: "string \<Rightarrow> string \<Rightarrow> sip_error" where
  "tokenizer_error what why = TokenizeError (''failed to tokenize '' @ what @ '': '' @ why)"

section \<open>The contract of typed headers\<close>

lemma replace_first_others:
  "replace_first p v xs = Some ys \<Longrightarrow> f v = None \<Longrightarrow> (\<And>x. p x \<Longrightarrow> f x = None)
    \<Longrightarrow> List.map_filter f ys = List.map_filter f xs \<and> find_map f ys = find_map f xs"
  by (induction xs arbitrary: ys) (auto simp: map_filter_simps split: if_splits option.splits)

text \<open>
  \<open>ToTypedHeader\<close>: the text of a typed value converts back to it. Whoever puts such a header into a message, or
  writes it through a mutable reference, reads it back with the accessor, and no other header changes.
\<close>

locale typed_header = header_variant mk for mk :: "string \<Rightarrow> header" +
  fixes typed :: "string \<Rightarrow> sip_error + 'a" and print :: "'a \<Rightarrow> string" and wf :: "'a \<Rightarrow> bool"
  assumes typed_print: "wf x \<Longrightarrow> typed (print x) = Inr x"
begin

lemma pushed_typed: "wf x \<Longrightarrow> and_then (header_get mk name (unique_push (mk (print x)) hs)) typed = Inr x"
  by (simp add: header_get_def opt_unique_push typed_print)

lemma appended_typed:
  "wf x \<Longrightarrow> header_opt mk hs = None \<Longrightarrow> and_then (header_get mk name (headers_push (mk (print x)) hs)) typed = Inr x"
  by (simp add: header_get_def header_opt_def headers_push_def find_map_append variant_mk typed_print)

lemma written_typed:
  assumes "wf x" and "header_mut mk name (\<lambda>_. print x) hs = Inr hs'"
  shows "and_then (header_get mk name hs') typed = Inr x"
proof -
  obtain v where v: "header_opt mk hs = Some v" "hs' = header_replace mk (print x) hs"
    using assms(2) by (cases "header_opt mk hs") (auto simp: header_mut_def header_get_def)
  show ?thesis using replace_opt [OF v(1), of "print x"] typed_print [OF assms(1)] by (simp add: v(2) header_get_def)
qed

lemma written_others:
  assumes "header_mut mk name f hs = Inr hs'" and "discriminant (mk' []) \<noteq> discriminant (mk [])"
  shows "all_headers mk' hs' = all_headers mk' hs \<and> header_opt mk' hs' = header_opt mk' hs"
proof -
  have other: "variant mk' h = None" if "variant mk h \<noteq> None" for h
    using that assms(2) by (auto simp: variant_def split: if_splits)
  have made: "variant mk' (mk v) = None" for v using other [of "mk v"] by (simp add: variant_mk)
  obtain v where "hs' = header_replace mk (f v) hs"
    using assms(1) by (cases "header_opt mk hs") (auto simp: header_mut_def header_get_def)
  then show ?thesis
    using replace_first_others [of "\<lambda>h. variant mk h \<noteq> None" "mk (f v)" hs _ "variant mk'"] other made
    by (cases "replace_first (\<lambda>h. variant mk h \<noteq> None) (mk (f v)) hs")
      (auto simp: header_replace_def all_headers_def header_opt_def)
qed

lemma missing_header: "header_opt mk hs = None \<Longrightarrow> header_mut mk name f hs = Inl (MissingHeader name)"
  by (simp add: header_mut_def header_get_def)

end

definition cseq_wf :: "typed_cseq \<Rightarrow> bool" where
  "cseq_wf c \<longleftrightarrow> cseq_seq c < 2 ^ 32"

interpretation cseq_value: typed_header H_CSeq cseq_typed show_cseq cseq_wf
proof unfold_locales
  show "cseq_typed (show_cseq x) = Inr x" if "cseq_wf x" for x :: typed_cseq
    using cseq_parse_show [of "cseq_seq x" "cseq_method x"] that by (cases x) (simp add: cseq_wf_def)
qed

interpretation via_value: typed_header H_Via via_typed show_via via_wf
  by unfold_locales (simp add: via_typed_def trim_show_via via_parse_show)

interpretation from_value: typed_header H_From from_typed show_name_addr name_addr_wf
  by unfold_locales (simp add: from_typed_def from_parse_def trim_show_name_addr parse_show_name_addr)

interpretation to_value: typed_header H_To to_typed show_name_addr name_addr_wf
  by unfold_locales (simp add: to_typed_def to_parse_def trim_show_name_addr parse_show_name_addr)

interpretation route_value: typed_header H_Route route_typed show_name_addr name_addr_wf
  by unfold_locales (simp_all add: route_typed_def route_parse_def trim_show_name_addr parse_show_name_addr)

interpretation record_route_value: typed_header H_RecordRoute record_route_typed show_name_addr name_addr_wf
  by unfold_locales (simp_all add: record_route_typed_def record_route_parse_def trim_show_name_addr parse_show_name_addr)

interpretation history_info_value: typed_header H_HistoryInfo history_info_typed show_history_info "list_all hi_wf"
  by unfold_locales (simp_all add: history_info_typed_def history_info_parse_show)

section \<open>Reading back what was written\<close>

text \<open>A typed value written through the mutable reference to From, To, Via or CSeq is what
  the accessor and its typed value give afterwards, and the other headers of the message stay as they were; without
  such a header the message stays as it is and the error names it.\<close>

theorem header_written_read:
  assumes "to_header_mut (\<lambda>_. show_name_addr n) hs = Inr hs'" and "name_addr_wf n"
    and "via_header_mut (\<lambda>_. show_via v) hs' = Inr hs''" and "via_wf v"
    and "cseq_header_mut (\<lambda>_. show_cseq c) hs'' = Inr hs3" and "cseq_wf c"
  shows "and_then (to_header hs3) to_typed = Inr n \<and> and_then (via_header hs3) via_typed = Inr v
    \<and> and_then (cseq_header hs3) cseq_typed = Inr c
    \<and> from_header hs3 = from_header hs \<and> call_id_header hs3 = call_id_header hs \<and> all_contact_headers hs3 = all_contact_headers hs
    \<and> all_route_headers hs3 = all_route_headers hs"
proof -
  note defs = to_header_mut_def via_header_mut_def cseq_header_mut_def
  note to' = to_value.written_others [OF assms(1) [unfolded defs]]
  note via' = via_value.written_others [OF assms(3) [unfolded defs]]
  note cseq' = cseq_value.written_others [OF assms(5) [unfolded defs]]
  have "and_then (to_header hs') to_typed = Inr n"
    using to_value.written_typed [OF assms(2) assms(1) [unfolded defs]] by (simp add: to_header_def)
  moreover have "and_then (via_header hs'') via_typed = Inr v"
    using via_value.written_typed [OF assms(4) assms(3) [unfolded defs]] by (simp add: via_header_def)
  moreover have "and_then (cseq_header hs3) cseq_typed = Inr c"
    using cseq_value.written_typed [OF assms(6) assms(5) [unfolded defs]] by (simp add: cseq_header_def)
  ultimately show ?thesis
    using to' [of H_From] to' [of H_CallId] to' [of H_Contact] to' [of H_Route]
      via' [of H_To] via' [of H_From] via' [of H_CallId] via' [of H_Contact] via' [of H_Route]
      cseq' [of H_To] cseq' [of H_Via] cseq' [of H_From] cseq' [of H_CallId] cseq' [of H_Contact] cseq' [of H_Route]
    by (simp add: to_header_def from_header_def via_header_def call_id_header_def all_contact_headers_def all_route_headers_def
        header_get_def)
qed

lemma header_written_read_witness:
  "\<exists>hs. and_then (to_header hs) to_typed = Inr example_to \<and> and_then (via_header hs) via_typed = Inr example_via"
proof -
  let ?hs = "req_headers example_request"
  obtain hs1 where h1: "to_header_mut (\<lambda>_. show_name_addr example_to) ?hs = Inr hs1"
    by (simp add: to_header_mut_def header_mut_def header_get_def header_opt_def variant_def example_request_def)
  obtain hs2 where h2: "via_header_mut (\<lambda>_. show_via example_via) hs1 = Inr hs2"
    using to_value.written_others [OF h1 [unfolded to_header_mut_def], of H_Via]
    by (cases "header_opt H_Via hs1")
      (auto simp: via_header_mut_def header_mut_def header_get_def header_opt_def variant_def example_request_def)
  let ?c = "\<lparr>cseq_seq = 7, cseq_method = Invite\<rparr>"
  obtain hs3 where h3: "cseq_header_mut (\<lambda>_. show_cseq ?c) hs2 = Inr hs3"
    using to_value.written_others [OF h1 [unfolded to_header_mut_def], of H_CSeq]
      via_value.written_others [OF h2 [unfolded via_header_mut_def], of H_CSeq]
    by (cases "header_opt H_CSeq hs2")
      (auto simp: cseq_header_mut_def header_mut_def header_get_def header_opt_def variant_def example_request_def)
  show ?thesis
    using header_written_read [OF h1 example_to_wf h2 example_via_wf h3] by (auto simp: cseq_wf_def)
qed

lemma show_message_text: "show_message m = message_text m"
  by (cases m) (simp_all add: message_text_def show_request_def show_response_def request_to_bytes_def response_to_bytes_def)

text \<open>A request or response converts to bytes and back, also through its text when its body
  is UTF-8; converting it to the other kind of message fails with the error that says what it is.\<close>

theorem message_conversions:
  assumes "request_wf r" and "response_wf s" and "utf8_valid (req_body r)" and "utf8_valid (resp_body s)"
  shows "request_of_bytes (request_to_bytes r) = Inr r \<and> request_of_str (show_request r) = Inr r
    \<and> response_of_bytes (request_to_bytes r) = Inl (Unexpected ''expected Response, got Request'')
    \<and> response_of_str (show_response s)
        = Inr (s\<lparr>resp_synthetic := False, resp_received_from := None, resp_wire_reason := None\<rparr>)
    \<and> request_of_bytes (response_to_bytes s) = Inl (Unexpected ''expected Request, got Response'')
    \<and> and_then (message_of_str (show_request r)) response_of_message = Inl (Unexpected ''expected Response'')"
proof -
  have "show_request r = request_to_bytes r" "show_response s = response_to_bytes s"
    using message_text_valid [of "Request r"] message_text_valid [of "Response s"] assms(3,4)
      show_message_text [of "Request r"] show_message_text [of "Response s"]
    by (simp_all add: message_body_def)
  then show ?thesis
    using parse_request_bytes [OF assms(1)] parse_response_bytes [OF assms(2)]
    by (simp add: request_of_bytes_def response_of_bytes_def request_of_str_def response_of_str_def message_of_str_def
        message_of_bytes_def)
qed

lemma message_conversions_witness:
  "request_of_str (show_request (example_request\<lparr>req_body := ''body''\<rparr>)) = Inr (example_request\<lparr>req_body := ''body''\<rparr>)"
proof -
  have "request_wf (example_request\<lparr>req_body := ''body''\<rparr>)" by code_simp
  moreover have "response_wf (example_response\<lparr>resp_body := [], resp_headers := []\<rparr>)" by code_simp
  moreover have "utf8_valid ''body''" "utf8_valid []" by code_simp+
  ultimately show ?thesis
    using message_conversions [of "example_request\<lparr>req_body := ''body''\<rparr>" "example_response\<lparr>resp_body := [], resp_headers := []\<rparr>"]
    by simp
qed

end
