(* ===== verification/Rw_Map.thy ===== *)
theory Rw_Map
  imports Timer_Queue
begin

text \<open>
  The shared tables of the stack (\<open>RwMap\<close> of \<open>platform/sync.rs\<close>): a \<open>BTreeMap\<close> behind a lock. The endpoint keeps
  its transactions, cached answers and ACK routes in such tables, and the dialog layer its dialogs; the models of both
  treat them as maps. Here is why they may: run one after the other the operations refine those of a map, and run by
  several tasks at once they take effect one after the other.
\<close>

section \<open>Operations\<close>

type_synonym ('k, 'v) rw_map = "('k \<times> 'v) list"

definition rw_new :: "('k, 'v) rw_map" where
  "rw_new = []"

definition rw_insert :: "'k::linorder \<Rightarrow> 'v \<Rightarrow> ('k, 'v) rw_map \<Rightarrow> 'v option \<times> ('k, 'v) rw_map" where
  "rw_insert k v m = (map_of m k, btree_insert k v m)"

definition rw_remove :: "'k::linorder \<Rightarrow> ('k, 'v) rw_map \<Rightarrow> 'v option \<times> ('k, 'v) rw_map" where
  "rw_remove k m = btree_remove k m"

definition rw_get :: "'k \<Rightarrow> ('k, 'v) rw_map \<Rightarrow> 'v option" where
  "rw_get k m = map_of m k"

definition rw_len :: "('k, 'v) rw_map \<Rightarrow> nat" where
  "rw_len m = length m"

definition rw_is_empty :: "('k, 'v) rw_map \<Rightarrow> bool" where
  "rw_is_empty m \<longleftrightarrow> m = []"

definition rw_contains_key :: "'k \<Rightarrow> ('k, 'v) rw_map \<Rightarrow> bool" where
  "rw_contains_key k m \<longleftrightarrow> rw_get k m \<noteq> None"

text \<open>The closure given to \<open>retain\<close> may change the values it keeps: it returns whether to keep the entry, and the value.\<close>

definition rw_retain :: "('k \<Rightarrow> 'v \<Rightarrow> bool \<times> 'v) \<Rightarrow> ('k, 'v) rw_map \<Rightarrow> ('k, 'v) rw_map" where
  "rw_retain f m = map (\<lambda>(k, v). (k, snd (f k v))) (filter (\<lambda>(k, v). fst (f k v)) m)"

definition rw_with :: "(('k, 'v) rw_map \<Rightarrow> 'r) \<Rightarrow> ('k, 'v) rw_map \<Rightarrow> 'r" where
  "rw_with f m = f m"

definition rw_with_mut :: "(('k, 'v) rw_map \<Rightarrow> 'r \<times> ('k, 'v) rw_map) \<Rightarrow> ('k, 'v) rw_map \<Rightarrow> 'r \<times> ('k, 'v) rw_map" where
  "rw_with_mut f m = f m"

section \<open>Refinement\<close>

datatype ('k, 'v) rw_op =
    RwInsert 'k 'v | RwRemove 'k | RwGet 'k | RwLen | RwIsEmpty | RwContainsKey 'k | RwRetain "'k \<Rightarrow> 'v \<Rightarrow> bool \<times> 'v"

datatype 'v rw_answer = RwValue "'v option" | RwCount nat | RwFlag bool | RwUnit

fun rw_apply :: "('k::linorder, 'v) rw_op \<Rightarrow> ('k, 'v) rw_map \<Rightarrow> 'v rw_answer \<times> ('k, 'v) rw_map" where
  "rw_apply (RwInsert k v) m = (case rw_insert k v m of (r, m) \<Rightarrow> (RwValue r, m))"
| "rw_apply (RwRemove k) m = (case rw_remove k m of (r, m) \<Rightarrow> (RwValue r, m))"
| "rw_apply (RwGet k) m = (RwValue (rw_get k m), m)"
| "rw_apply RwLen m = (RwCount (rw_len m), m)"
| "rw_apply RwIsEmpty m = (RwFlag (rw_is_empty m), m)"
| "rw_apply (RwContainsKey k) m = (RwFlag (rw_contains_key k m), m)"
| "rw_apply (RwRetain f) m = (RwUnit, rw_retain f m)"

text \<open>What a table promises: the operations of a finite map.\<close>

fun map_apply :: "('k, 'v) rw_op \<Rightarrow> ('k \<rightharpoonup> 'v) \<Rightarrow> 'v rw_answer \<times> ('k \<rightharpoonup> 'v)" where
  "map_apply (RwInsert k v) m = (RwValue (m k), m(k \<mapsto> v))"
| "map_apply (RwRemove k) m = (RwValue (m k), m(k := None))"
| "map_apply (RwGet k) m = (RwValue (m k), m)"
| "map_apply RwLen m = (RwCount (card (dom m)), m)"
| "map_apply RwIsEmpty m = (RwFlag (m = Map.empty), m)"
| "map_apply (RwContainsKey k) m = (RwFlag (k \<in> dom m), m)"
| "map_apply (RwRetain f) m = (RwUnit, (\<lambda>k. case m k of Some v \<Rightarrow> if fst (f k v) then Some (snd (f k v)) else None | None \<Rightarrow> None))"

fun run_ops :: "('op \<Rightarrow> 's \<Rightarrow> 'a \<times> 's) \<Rightarrow> 'op list \<Rightarrow> 's \<Rightarrow> 'a list \<times> 's" where
  "run_ops step [] s = ([], s)"
| "run_ops step (x # xs) s = (case step x s of (a, s) \<Rightarrow> (case run_ops step xs s of (rs, s) \<Rightarrow> (a # rs, s)))"

lemma run_append: "run_ops step (xs @ ys) s
    = (case run_ops step xs s of (rs, s) \<Rightarrow> (case run_ops step ys s of (rs', s) \<Rightarrow> (rs @ rs', s)))"
  by (induction xs arbitrary: s) (simp_all split: prod.split)

lemma retain_keys: "fst ` set (rw_retain f m) \<subseteq> fst ` set m"
  by (force simp: rw_retain_def)

lemma retain_ok: "btree_ok m \<Longrightarrow> btree_ok (rw_retain f m)"
proof (induction m)
  case (Cons x m)
  obtain k v where x: "x = (k, v)" by (cases x)
  with Cons have ok: "btree_ok (rw_retain f m)" "\<forall>k' \<in> fst ` set m. k < k'" by (auto simp: btree_ok_Cons)
  have "rw_retain f (x # m) = (if fst (f k v) then (k, snd (f k v)) # rw_retain f m else rw_retain f m)"
    by (simp add: rw_retain_def x)
  moreover have "\<forall>k' \<in> fst ` set (rw_retain f m). k < k'" using ok(2) retain_keys [of f m] by blast
  ultimately show ?case using ok(1) by (simp add: btree_ok_Cons)
qed (simp add: rw_retain_def)

lemma retain_lookup:
  "btree_ok m \<Longrightarrow> map_of (rw_retain f m) k = (case map_of m k of Some v \<Rightarrow> if fst (f k v) then Some (snd (f k v)) else None | None \<Rightarrow> None)"
proof (induction m)
  case (Cons x m)
  obtain k' v where x: "x = (k', v)" by (cases x)
  with Cons have ok: "btree_ok m" "k' \<notin> fst ` set m" by (auto simp: btree_ok_Cons)
  then have "map_of (rw_retain f m) k' = None" using retain_keys [of f m] by (auto simp: map_of_eq_None_iff)
  moreover have "rw_retain f (x # m) = (if fst (f k' v) then (k', snd (f k' v)) # rw_retain f m else rw_retain f m)"
    by (simp add: rw_retain_def x)
  ultimately show ?case using Cons.IH [OF ok(1)] x by auto
qed (simp add: rw_retain_def)

lemma len_card: "btree_ok m \<Longrightarrow> length m = card (dom (map_of m))"
proof (induction m)
  case (Cons x m)
  obtain k v where x: "x = (k, v)" by (cases x)
  with Cons.prems have "btree_ok m" "k \<notin> fst ` set m" by (auto simp: btree_ok_Cons)
  then have ok: "btree_ok m" "k \<notin> dom (map_of m)" by (simp_all add: dom_map_of_conv_image_fst)
  have "card (insert k (dom (map_of m))) = Suc (card (dom (map_of m)))"
    using ok(2) by (rule card_insert_disjoint [OF finite_dom_map_of])
  then have "card (dom (map_of (x # m))) = Suc (length m)" using Cons.IH [OF ok(1)] x by simp
  then show ?case by (simp only: list.size(4) Nat.add_0_right One_nat_def add_Suc_right)
qed simp

lemma apply_refines:
  assumes "btree_ok m" and "rw_apply x m = (a, m')"
  shows "btree_ok m' \<and> map_apply x (map_of m) = (a, map_of m')"
proof (cases x)
  case (RwRemove k)
  with assms btree_remove_spec [OF assms(1), of k] show ?thesis by (cases "btree_remove k m") (auto simp: rw_remove_def)
next
  case (RwRetain f)
  with assms show ?thesis by (auto simp: retain_ok retain_lookup)
qed (use assms in \<open>auto simp: rw_insert_def btree_ok_insert map_of_btree_insert rw_get_def rw_len_def len_card
    rw_is_empty_def rw_contains_key_def dom_def\<close>)

lemma run_refines:
  "btree_ok m \<Longrightarrow> run_ops rw_apply xs m = (rs, m') \<Longrightarrow> run_ops map_apply xs (map_of m) = (rs, map_of m') \<and> btree_ok m'"
proof (induction xs arbitrary: m rs m')
  case (Cons x xs)
  obtain a m1 where a: "rw_apply x m = (a, m1)" by (rule prod.exhaust)
  obtain rs' m2 where r: "run_ops rw_apply xs m1 = (rs', m2)" by (rule prod.exhaust)
  from apply_refines [OF Cons.prems(1) a] Cons.IH [OF _ r] Cons.prems(2) a r show ?case by auto
qed simp

lemma new_run_refines:
  "run_ops rw_apply xs rw_new = (rs, m) \<Longrightarrow> run_ops map_apply xs Map.empty = (rs, map_of m) \<and> btree_ok m"
  using run_refines [of "[]" xs rs m] by (simp add: rw_new_def btree_ok_def)

text \<open>Run one after the other from a new table, the operations give the answers those of a map give,
  and leave the entries that map has, in the order of their keys.\<close>

theorem rw_map_refines:
  "case run_ops rw_apply xs rw_new of (rs, m) \<Rightarrow> run_ops map_apply xs Map.empty = (rs, map_of m) \<and> btree_ok m"
  using new_run_refines [of xs] by (auto split: prod.split)

section \<open>Many tasks\<close>

text \<open>
  Each task has the operations it still wants to run. To run one it takes the lock, reads the tree, and writes the
  changed tree back when it drops its guard. This is the lock of the builds without \<open>std\<close>, where a reader takes the lock
  as a writer does; the lock of the builds with \<open>std\<close> also lets readers in together, which all read the same tree. \<open>rw_log\<close> records the operations in the order they were written.
\<close>

record ('k, 'v) rw_world =
  rw_holder :: "nat option"
  rw_tree :: "('k, 'v) rw_map"
  rw_view :: "('k, 'v) rw_map option"
  rw_todo :: "nat \<Rightarrow> ('k, 'v) rw_op list"
  rw_answers :: "nat \<Rightarrow> 'v rw_answer list"
  rw_log :: "(nat \<times> ('k, 'v) rw_op) list"

definition rw_start :: "(nat \<Rightarrow> ('k, 'v) rw_op list) \<Rightarrow> ('k, 'v) rw_world" where
  "rw_start todo =
     \<lparr>rw_holder = None, rw_tree = rw_new, rw_view = None, rw_todo = todo, rw_answers = (\<lambda>_. []), rw_log = []\<rparr>"

inductive rw_step :: "('k::linorder, 'v) rw_world \<Rightarrow> ('k, 'v) rw_world \<Rightarrow> bool" where
  take_lock: "rw_holder w = None \<Longrightarrow> rw_step w (w\<lparr>rw_holder := Some t, rw_view := None\<rparr>)"
| read_tree: "rw_holder w = Some t \<Longrightarrow> rw_view w = None \<Longrightarrow> rw_step w (w\<lparr>rw_view := Some (rw_tree w)\<rparr>)"
| write_tree: "rw_holder w = Some t \<Longrightarrow> rw_view w = Some m \<Longrightarrow> rw_todo w t = x # xs \<Longrightarrow> rw_apply x m = (a, m') \<Longrightarrow>
    rw_step w (w\<lparr>rw_holder := None, rw_tree := m', rw_view := None, rw_todo := (rw_todo w)(t := xs),
      rw_answers := (rw_answers w)(t := rw_answers w t @ [a]), rw_log := rw_log w @ [(t, x)]\<rparr>)"
| give_up: "rw_holder w = Some t \<Longrightarrow> rw_step w (w\<lparr>rw_holder := None, rw_view := None\<rparr>)"

text \<open>What the log says: the operations of one task, and the answers it got.\<close>

definition ops_of :: "nat \<Rightarrow> (nat \<times> 'op) list \<Rightarrow> 'op list" where
  "ops_of t log = map snd (filter (\<lambda>e. fst e = t) log)"

definition answers_of :: "nat \<Rightarrow> (nat \<times> 'op) list \<Rightarrow> 'a list \<Rightarrow> 'a list" where
  "answers_of t log rs = map snd (filter (\<lambda>e. fst (fst e) = t) (zip log rs))"

definition rw_inv :: "(nat \<Rightarrow> ('k::linorder, 'v) rw_op list) \<Rightarrow> ('k, 'v) rw_world \<Rightarrow> bool" where
  "rw_inv todo w \<longleftrightarrow>
     (case run_ops rw_apply (map snd (rw_log w)) rw_new of (rs, m) \<Rightarrow>
        rw_tree w = m \<and> (\<forall>m'. rw_view w = Some m' \<longrightarrow> m' = m)
        \<and> (\<forall>t. ops_of t (rw_log w) @ rw_todo w t = todo t \<and> rw_answers w t = answers_of t (rw_log w) rs))"

lemma run_length: "run_ops step xs s = (rs, s') \<Longrightarrow> length rs = length xs"
  by (induction xs arbitrary: s rs) (auto split: prod.splits)

lemma rw_inv_step: "rw_step w w' \<Longrightarrow> rw_inv todo w \<Longrightarrow> rw_inv todo w'"
proof (induction rule: rw_step.induct)
  case (write_tree w t m x xs a m')
  obtain rs n where r: "run_ops rw_apply (map snd (rw_log w)) rw_new = (rs, n)" by (rule prod.exhaust)
  with write_tree have n: "m = n" "rw_tree w = n" by (auto simp: rw_inv_def)
  have l: "length rs = length (rw_log w)" using run_length [OF r] by simp
  have run: "run_ops rw_apply (map snd (rw_log w @ [(t, x)])) rw_new = (rs @ [a], m')"
    using r n write_tree.hyps(4) by (simp add: run_append)
  have "ops_of t' (rw_log w) @ rw_todo w t' = todo t'" for t' using write_tree.prems r by (simp add: rw_inv_def)
  from this [of t] this have "ops_of t' (rw_log w @ [(t, x)]) @ ((rw_todo w)(t := xs)) t' = todo t'" for t'
    using write_tree.hyps(3) by (simp add: ops_of_def)
  moreover have "((rw_answers w)(t := rw_answers w t @ [a])) t' = answers_of t' (rw_log w @ [(t, x)]) (rs @ [a])" for t'
    using write_tree.prems r l by (auto simp: rw_inv_def answers_of_def)
  ultimately show ?case using run by (simp add: rw_inv_def)
qed (auto simp: rw_inv_def split: prod.splits)



end
