(* ===== verification/Tls_Seam.thy ===== *)
theory Tls_Seam
  imports Serving_Props
begin

text \<open>
  The adapter \<open>TokioSeamStream\<close> of \<open>transport/tls.rs\<close>: it makes a byte stream that is polled out of a TLS stream whose
  operations are futures over whole buffers (the trait \<open>TlsStream\<close> of \<open>platform/tls.rs\<close>), and the stream code of
  \<open>transport/stream.rs\<close> runs on it. What a future of the TLS stream gives when it is polled is an argument: \<open>None\<close> while it
  is not ready.
\<close>

section \<open>The adapter\<close>

text \<open>An \<open>Option\<close> of a future. A future that has given its result stays in its slot when that result is an error, and to
  poll it once more is a panic.\<close>

datatype future_slot = NoFuture | FutureRunning | FutureDone

record seam_stream =
  ss_recv :: future_slot
  ss_send :: future_slot
  ss_shutdown :: future_slot
  ss_chunk :: bytes

definition seam_new :: seam_stream where
  "seam_new = \<lparr>ss_recv = NoFuture, ss_send = NoFuture, ss_shutdown = NoFuture, ss_chunk = []\<rparr>"

datatype 'a polled = PollReady 'a | PollPending | PollPanic

definition poll_slot :: "future_slot \<Rightarrow> (error + 'a) option \<Rightarrow> (error + 'a) polled \<times> future_slot" where
  "poll_slot slot answer =
     (if slot = FutureDone then (PollPanic, slot)
      else (case answer of
          None \<Rightarrow> (PollPending, FutureRunning)
        | Some (Inl e) \<Rightarrow> (PollReady (Inl e), FutureDone)
        | Some (Inr x) \<Rightarrow> (PollReady (Inr x), NoFuture)))"

text \<open>The bytes at the front of the chunk, as many as there is room for.\<close>

definition take_chunk :: "nat \<Rightarrow> seam_stream \<Rightarrow> (error + bytes) polled \<times> seam_stream" where
  "take_chunk room s = (PollReady (Inr (take room (ss_chunk s))), s\<lparr>ss_chunk := drop room (ss_chunk s)\<rparr>)"

text \<open>The loop goes round a second time only with a chunk to give away. No bytes are the end of the stream.\<close>

definition poll_read :: "nat \<Rightarrow> (error + bytes) option \<Rightarrow> seam_stream \<Rightarrow> (error + bytes) polled \<times> seam_stream" where
  "poll_read room answer s =
     (if ss_chunk s \<noteq> [] then take_chunk room s
      else (case poll_slot (ss_recv s) answer of
          (PollReady (Inr data), slot) \<Rightarrow>
            (let s = s\<lparr>ss_recv := slot\<rparr> in
             if data = [] then (PollReady (Inr []), s) else take_chunk room (s\<lparr>ss_chunk := data\<rparr>))
        | (PollReady (Inl e), slot) \<Rightarrow> (PollReady (Inl e), s\<lparr>ss_recv := slot\<rparr>)
        | (PollPending, slot) \<Rightarrow> (PollPending, s\<lparr>ss_recv := slot\<rparr>)
        | (PollPanic, slot) \<Rightarrow> (PollPanic, s\<lparr>ss_recv := slot\<rparr>)))"

text \<open>\<open>poll_write\<close> with what it hands to \<open>send_all\<close>: the buffer, when no future is in its slot. A ready future counts for
  the whole of the buffer of this call.\<close>

definition poll_write :: "bytes \<Rightarrow> (error + unit) option \<Rightarrow> seam_stream \<Rightarrow> (error + nat) polled \<times> bytes list \<times> seam_stream" where
  "poll_write buf answer s =
     (let handed = (if ss_send s = NoFuture then [buf] else []) in
      case poll_slot (ss_send s) answer of
        (PollReady (Inr _), slot) \<Rightarrow> (PollReady (Inr (length buf)), handed, s\<lparr>ss_send := slot\<rparr>)
      | (PollReady (Inl e), slot) \<Rightarrow> (PollReady (Inl e), handed, s\<lparr>ss_send := slot\<rparr>)
      | (PollPending, slot) \<Rightarrow> (PollPending, handed, s\<lparr>ss_send := slot\<rparr>)
      | (PollPanic, slot) \<Rightarrow> (PollPanic, handed, s\<lparr>ss_send := slot\<rparr>))"

definition poll_flush :: "seam_stream \<Rightarrow> (error + unit) polled \<times> seam_stream" where
  "poll_flush s = (PollReady (Inr ()), s)"

definition poll_shutdown :: "(error + unit) option \<Rightarrow> seam_stream \<Rightarrow> (error + unit) polled \<times> seam_stream" where
  "poll_shutdown answer s = (case poll_slot (ss_shutdown s) answer of (r, slot) \<Rightarrow> (r, s\<lparr>ss_shutdown := slot\<rparr>))"

section \<open>Reading\<close>

text \<open>A reader polls, each time with the room it has and the answer of the TLS stream if that is asked.\<close>

fun seam_reads :: "(nat \<times> (error + bytes) option) list \<Rightarrow> seam_stream \<Rightarrow> (error + bytes) polled list \<times> seam_stream" where
  "seam_reads [] s = ([], s)"
| "seam_reads ((room, answer) # polls) s =
     (case poll_read room answer s of (r, s) \<Rightarrow> (case seam_reads polls s of (rs, s) \<Rightarrow> (r # rs, s)))"

text \<open>The bytes the TLS stream has given in these polls.\<close>

fun seam_received :: "(nat \<times> (error + bytes) option) list \<Rightarrow> seam_stream \<Rightarrow> bytes" where
  "seam_received [] s = []"
| "seam_received ((room, answer) # polls) s =
     (if ss_chunk s = [] \<and> ss_recv s \<noteq> FutureDone then (case answer of Some (Inr data) \<Rightarrow> data | _ \<Rightarrow> []) else [])
     @ seam_received polls (snd (poll_read room answer s))"

text \<open>What the reads return, in order.\<close>

definition read_chunks :: "(error + bytes) polled list \<Rightarrow> bytes list" where
  "read_chunks rs = List.map_filter (\<lambda>r. case r of PollReady (Inr b) \<Rightarrow> Some b | _ \<Rightarrow> None) rs"

lemma read_chunks_simps [simp]:
  "read_chunks [] = []"
  "read_chunks (PollReady (Inr b) # rs) = b # read_chunks rs"
  "read_chunks (PollReady (Inl e) # rs) = read_chunks rs"
  "read_chunks (PollPending # rs) = read_chunks rs"
  "read_chunks (PollPanic # rs) = read_chunks rs"
  by (simp_all add: read_chunks_def List.map_filter_simps)

lemma poll_read_bytes:
  assumes "poll_read room answer s = (r, s')"
  shows "concat (read_chunks [r]) @ ss_chunk s' = ss_chunk s
    @ (if ss_chunk s = [] \<and> ss_recv s \<noteq> FutureDone then (case answer of Some (Inr data) \<Rightarrow> data | _ \<Rightarrow> []) else [])"
  using assms by (auto simp: poll_read_def poll_slot_def take_chunk_def Let_def split: option.splits sum.splits if_splits)

lemma read_chunks_Cons: "read_chunks (r # rs) = read_chunks [r] @ read_chunks rs"
proof (cases r)
  case (PollReady x)
  then show ?thesis by (cases x) simp_all
qed simp_all

lemma reads_keep_bytes:
  "seam_reads polls s = (rs, s') \<Longrightarrow> concat (read_chunks rs) @ ss_chunk s' = ss_chunk s @ seam_received polls s"
proof (induction polls arbitrary: s rs)
  case (Cons p polls)
  obtain room answer where p: "p = (room, answer)" by (cases p)
  obtain r s1 where r: "poll_read room answer s = (r, s1)" by (rule prod.exhaust)
  obtain rs1 s2 where rs: "seam_reads polls s1 = (rs1, s2)" by (rule prod.exhaust)
  from Cons.prems p r rs have eq: "rs = r # rs1" "s' = s2" by auto
  have "concat (read_chunks rs) @ ss_chunk s' = concat (read_chunks [r]) @ concat (read_chunks rs1) @ ss_chunk s2"
    by (simp add: eq read_chunks_Cons [of r rs1])
  also have "\<dots> = (concat (read_chunks [r]) @ ss_chunk s1) @ seam_received polls s1"
    using Cons.IH [of s1 rs1] rs eq(2) by simp
  finally show ?case unfolding poll_read_bytes [OF r] using p r by simp
qed simp

text \<open>What the reads are for the serve loop of the stream.\<close>

definition seam_inputs :: "(error + bytes) polled list \<Rightarrow> stream_input list" where
  "seam_inputs rs = List.map_filter
     (\<lambda>r. case r of PollReady (Inr b) \<Rightarrow> Some (StreamBytes b) | PollReady (Inl _) \<Rightarrow> Some StreamError | _ \<Rightarrow> None) rs"

definition poll_ok :: "nat \<times> (error + bytes) option \<Rightarrow> bool" where
  "poll_ok p \<longleftrightarrow> (case p of (room, answer) \<Rightarrow> 0 < room \<and> (case answer of None \<Rightarrow> True | Some (Inl _) \<Rightarrow> False | Some (Inr b) \<Rightarrow> b \<noteq> []))"

lemma seam_inputs_Cons: "seam_inputs (r # rs) = seam_inputs [r] @ seam_inputs rs"
  by (simp add: seam_inputs_def List.map_filter_simps split: option.split)

lemma poll_read_ok:
  assumes "poll_ok (room, answer)" and "ss_recv s \<noteq> FutureDone" and "poll_read room answer s = (r, s')"
  shows "ss_recv s' \<noteq> FutureDone \<and> seam_inputs [r] = map StreamBytes (read_chunks [r]) \<and> list_all (\<lambda>b. b \<noteq> []) (read_chunks [r])"
  using assms
  by (auto simp: poll_ok_def poll_read_def poll_slot_def take_chunk_def seam_inputs_def List.map_filter_simps Let_def
      split: option.splits sum.splits if_splits)

lemma reads_are_chunks:
  "list_all poll_ok polls \<Longrightarrow> ss_recv s \<noteq> FutureDone \<Longrightarrow> seam_reads polls s = (rs, s')
   \<Longrightarrow> seam_inputs rs = map StreamBytes (read_chunks rs) \<and> list_all (\<lambda>b. b \<noteq> []) (read_chunks rs)"
proof (induction polls arbitrary: s rs)
  case Nil
  then show ?case by (simp add: seam_inputs_def List.map_filter_simps)
next
  case (Cons p polls)
  obtain room answer where p: "p = (room, answer)" by (cases p)
  obtain r s1 where r: "poll_read room answer s = (r, s1)" by (rule prod.exhaust)
  obtain rs1 s2 where rs: "seam_reads polls s1 = (rs1, s2)" by (rule prod.exhaust)
  from Cons.prems p r rs have eq: "rs = r # rs1" "s' = s2" and ok: "poll_ok (room, answer)" "list_all poll_ok polls" by auto
  from poll_read_ok [OF ok(1) Cons.prems(2) r] Cons.IH [OF ok(2), of s1 rs1] rs eq(2)
  show ?case unfolding eq(1) seam_inputs_Cons [of r rs1] read_chunks_Cons [of r rs1] by simp
qed

text \<open>Messages that a peer writes on a TLS stream of a platform arrive one by one and in order, however
  the backend cuts the bytes into chunks, whenever it makes the reader wait and however little the reader takes at a
  time.\<close>

theorem seam_reassembly:
  assumes "list_all fits_stream ms" and "list_all2 (\<lambda>m m'. stamped_from remote m = Inr m') ms ms'"
    and "list_all poll_ok polls" and "seam_reads polls seam_new = (rs, s')" and "ss_chunk s' = []"
    and "seam_received polls seam_new = wire ms"
  shows "stream_serve_loop False False failure c remote (seam_inputs rs) = ([], map (\<lambda>m'. Incoming m' c remote) ms', None)"
proof -
  have "concat (read_chunks rs) = wire ms"
    using reads_keep_bytes [OF assms(4)] assms(5,6) by (simp add: seam_new_def)
  moreover have "seam_inputs rs = map StreamBytes (read_chunks rs)" "list_all (\<lambda>b. b \<noteq> []) (read_chunks rs)"
    using reads_are_chunks [OF assms(3) _ assms(4)] by (simp_all add: seam_new_def)
  ultimately show ?thesis
    using serve_reassembles [OF assms(1,2), of "read_chunks rs" "[]"] decode_Nil by (simp add: stream_serve_loop_def)
qed

section \<open>Writing\<close>

text \<open>\<open>send_raw_to_stream\<close> on the adapter: \<open>write_all\<close> polls until its bytes count as written, then \<open>flush\<close>. When the answers run
  out the send is still waiting, and the task that awaits it may drop it there.\<close>

fun seam_write_all :: "bytes \<Rightarrow> (error + unit) option list \<Rightarrow> seam_stream \<Rightarrow> (error + unit) polled \<times> bytes list \<times> seam_stream" where
  "seam_write_all b [] s = (PollPending, [], s)"
| "seam_write_all b (answer # answers) s =
     (case poll_write b answer s of
        (PollReady (Inr n), handed, s) \<Rightarrow>
          (case poll_flush s of (r, s) \<Rightarrow> (r, handed, s))
      | (PollReady (Inl e), handed, s) \<Rightarrow> (PollReady (Inl e), handed, s)
      | (PollPending, handed, s) \<Rightarrow> (case seam_write_all b answers s of (r, handed', s) \<Rightarrow> (r, handed @ handed', s))
      | (PollPanic, handed, s) \<Rightarrow> (PollPanic, handed, s))"

definition seam_send :: "bytes \<Rightarrow> (error + unit) option list \<Rightarrow> seam_stream \<Rightarrow> (error + unit) polled \<times> bytes list \<times> seam_stream" where
  "seam_send b answers s =
     (if b = [] then (case poll_flush s of (r, s) \<Rightarrow> (r, [], s)) else seam_write_all b answers s)"

text \<open>Sends one after the other, under the lock of the write half.\<close>

fun seam_sends :: "(bytes \<times> (error + unit) option list) list \<Rightarrow> seam_stream \<Rightarrow> (error + unit) polled list \<times> bytes list \<times> seam_stream" where
  "seam_sends [] s = ([], [], s)"
| "seam_sends ((b, answers) # xs) s =
     (case seam_send b answers s of
        (r, handed, s) \<Rightarrow> (case seam_sends xs s of (rs, handed', s) \<Rightarrow> (r # rs, handed @ handed', s)))"

lemma write_running:
  assumes "ss_send s = FutureRunning" and "seam_write_all b answers s = (r, handed, s')"
  shows "handed = [] \<and> (r = PollReady (Inr ()) \<longrightarrow> ss_send s' = NoFuture) \<and> (r = PollPending \<longrightarrow> ss_send s' = FutureRunning)
    \<and> r \<noteq> PollPanic \<and> (case r of PollReady (Inl _) \<Rightarrow> ss_send s' = FutureDone | _ \<Rightarrow> True)"
  using assms
proof (induction answers arbitrary: s)
  case (Cons answer answers)
  show ?case
  proof (cases answer)
    case None
    obtain s1 where s1: "poll_write b None s = (PollPending, [], s1)" "ss_send s1 = FutureRunning"
      using Cons.prems(1) by (simp add: poll_write_def poll_slot_def)
    with Cons.prems(2) None have "seam_write_all b answers s1 = (r, handed, s')" by (auto split: prod.splits)
    then show ?thesis by (rule Cons.IH [OF s1(2)])
  next
    case (Some x)
    with Cons.prems show ?thesis by (cases x) (auto simp: poll_write_def poll_slot_def poll_flush_def)
  qed
qed simp

lemma write_fresh:
  assumes "ss_send s = NoFuture" and "answers \<noteq> []" and "seam_write_all b answers s = (r, handed, s')"
  shows "handed = [b] \<and> (r = PollReady (Inr ()) \<longrightarrow> ss_send s' = NoFuture) \<and> (r = PollPending \<longrightarrow> ss_send s' = FutureRunning)
    \<and> r \<noteq> PollPanic \<and> (case r of PollReady (Inl _) \<Rightarrow> ss_send s' = FutureDone | _ \<Rightarrow> True)"
proof (cases answers)
  case (Cons answer answers')
  show ?thesis
  proof (cases answer)
    case None
    obtain s1 where s1: "poll_write b None s = (PollPending, [b], s1)" "ss_send s1 = FutureRunning"
      using assms(1) by (simp add: poll_write_def poll_slot_def)
    with assms(3) None Cons obtain h where "seam_write_all b answers' s1 = (r, h, s')" "handed = b # h"
      by (auto split: prod.splits)
    then show ?thesis using write_running [OF s1(2)] by blast
  next
    case (Some x)
    with assms Cons show ?thesis by (cases x) (auto simp: poll_write_def poll_slot_def poll_flush_def)
  qed
qed (use assms in simp)

lemma send_fresh:
  assumes "ss_send s = NoFuture" and "b \<noteq> []" and "answers \<noteq> []" and "seam_send b answers s = (PollReady (Inr ()), handed, s')"
  shows "handed = [b] \<and> ss_send s' = NoFuture"
  using write_fresh [OF assms(1,3)] assms(2,4) by (simp add: seam_send_def)

lemma sends_from_idle:
  "list_all (\<lambda>(b, answers). b \<noteq> [] \<and> answers \<noteq> []) xs \<Longrightarrow> ss_send s = NoFuture
   \<Longrightarrow> seam_sends xs s = (rs, handed, s') \<Longrightarrow> list_all (\<lambda>r. r = PollReady (Inr ())) rs \<Longrightarrow> handed = map fst xs"
proof (induction xs arbitrary: s rs handed)
  case (Cons x xs)
  obtain b answers where x: "x = (b, answers)" by (cases x)
  obtain r h s1 where r: "seam_send b answers s = (r, h, s1)" by (cases "seam_send b answers s") auto
  obtain rs1 h1 s2 where rs: "seam_sends xs s1 = (rs1, h1, s2)" by (cases "seam_sends xs s1") auto
  from Cons.prems x r rs have eq: "rs = r # rs1" "handed = h @ h1" "s' = s2" "r = PollReady (Inr ())"
    and ok: "b \<noteq> []" "answers \<noteq> []" "list_all (\<lambda>(b, answers). b \<noteq> [] \<and> answers \<noteq> []) xs" "list_all (\<lambda>r. r = PollReady (Inr ())) rs1"
    by auto
  from send_fresh [OF Cons.prems(2) ok(1,2)] r eq(4) have h: "h = [b]" "ss_send s1 = NoFuture" by auto
  from Cons.IH [OF ok(3) h(2) _ ok(4)] rs eq(3) have "h1 = map fst xs" by simp
  with h eq x show ?case by simp
qed simp

text \<open>Sends that are each awaited to a successful end hand their messages to the TLS stream one by one and in order,
  whenever it makes them wait.\<close>

theorem seam_sends_in_order:
  assumes "list_all (\<lambda>(b, answers). b \<noteq> [] \<and> answers \<noteq> []) xs" and "seam_sends xs seam_new = (rs, handed, s')"
    and "list_all (\<lambda>r. r = PollReady (Inr ())) rs"
  shows "handed = map fst xs"
  using sends_from_idle [OF assms(1) _ assms(2,3)] by (simp add: seam_new_def)

lemma write_waits:
  "seam_write_all b (replicate n None) (s\<lparr>ss_send := FutureRunning\<rparr>) = (PollPending, [], s\<lparr>ss_send := FutureRunning\<rparr>)"
  by (induction n) (simp_all add: poll_write_def poll_slot_def)

lemma send_dropped:
  assumes "ss_send s = NoFuture" and "b \<noteq> []"
  shows "seam_send b (replicate (Suc n) None) s = (PollPending, [b], s\<lparr>ss_send := FutureRunning\<rparr>)"
  using assms by (simp add: seam_send_def poll_write_def poll_slot_def write_waits)

text \<open>When a send is dropped while it waits, the next message is lost: the poll of the new send goes to the future of the old
  one, and when that is ready the new message counts as written, though it was never handed to the TLS stream.\<close>

theorem seam_message_lost:
  assumes "ss_send s = NoFuture" and "b1 \<noteq> []" and "b2 \<noteq> []"
  shows "seam_sends [(b1, replicate (Suc n) None), (b2, replicate m None @ [Some (Inr ())])] s
    = ([PollPending, PollReady (Inr ())], [b1], s)"
proof -
  let ?s = "s\<lparr>ss_send := FutureRunning\<rparr>"
  have "seam_write_all b2 (replicate m None @ [Some (Inr ())]) ?s = (PollReady (Inr ()), [], s)"
    using assms(1) by (induction m) (simp_all add: poll_write_def poll_slot_def poll_flush_def)
  then have "seam_send b2 (replicate m None @ [Some (Inr ())]) ?s = (PollReady (Inr ()), [], s)"
    using assms(3) by (simp add: seam_send_def)
  with send_dropped [OF assms(1,2), of n] show ?thesis by (simp del: replicate.simps)
qed

text \<open>After a send that failed, the next one panics instead of failing: the future that gave the error is still in its slot.
  The same holds for closing after a close that failed.\<close>

theorem seam_panics_after_error:
  assumes "ss_send s = NoFuture" and "b1 \<noteq> []" and "b2 \<noteq> []"
  shows "fst (seam_sends [(b1, replicate n None @ [Some (Inl e)]), (b2, [answer])] s) = [PollReady (Inl e), PollPanic]"
proof -
  have running: "seam_write_all b1 (replicate n None @ [Some (Inl e)]) (s\<lparr>ss_send := FutureRunning\<rparr>)
      = (PollReady (Inl e), [], s\<lparr>ss_send := FutureDone\<rparr>)" for n
    by (induction n) (simp_all add: poll_write_def poll_slot_def)
  have "seam_write_all b1 (replicate n None @ [Some (Inl e)]) s = (PollReady (Inl e), [b1], s\<lparr>ss_send := FutureDone\<rparr>)"
    using assms(1) running by (cases n) (simp_all add: poll_write_def poll_slot_def)
  with assms show ?thesis by (simp add: seam_send_def poll_write_def poll_slot_def)
qed

section \<open>Examples\<close>

definition example_polls :: "bytes \<Rightarrow> (nat \<times> (error + bytes) option) list" where
  "example_polls w = [(1, None), (20, Some (Inr w)), (length w, None)]"

lemma example_seam_reads:
  assumes "20 < length w"
  shows "seam_reads (example_polls w) seam_new
      = ([PollPending, PollReady (Inr (take 20 w)), PollReady (Inr (drop 20 w))], seam_new)"
    and "seam_received (example_polls w) seam_new = w" and "list_all poll_ok (example_polls w)"
proof -
  have w: "w \<noteq> []" "drop 20 w \<noteq> []" using assms by auto
  have a: "poll_read 1 None seam_new = (PollPending, seam_new\<lparr>ss_recv := FutureRunning\<rparr>)"
    by (simp add: poll_read_def seam_new_def poll_slot_def)
  have b: "poll_read 20 (Some (Inr w)) (seam_new\<lparr>ss_recv := FutureRunning\<rparr>) = (PollReady (Inr (take 20 w)), seam_new\<lparr>ss_chunk := drop 20 w\<rparr>)"
    using w by (simp add: poll_read_def seam_new_def poll_slot_def take_chunk_def)
  have c: "poll_read (length w) None (seam_new\<lparr>ss_chunk := drop 20 w\<rparr>) = (PollReady (Inr (drop 20 w)), seam_new)"
    using w by (simp add: poll_read_def seam_new_def take_chunk_def)
  show "seam_reads (example_polls w) seam_new
      = ([PollPending, PollReady (Inr (take 20 w)), PollReady (Inr (drop 20 w))], seam_new)"
    unfolding example_polls_def seam_reads.simps a prod.case b c by simp
  show "seam_received (example_polls w) seam_new = w"
    unfolding example_polls_def seam_received.simps a b c snd_conv using w by (simp add: seam_new_def)
  show "list_all poll_ok (example_polls w)" using w by (simp add: poll_ok_def example_polls_def)
qed

lemma seam_reassembly_witness:
  "\<exists>w m'. w = wire [Request example_request, Request example_request]
    \<and> stream_serve_loop False False (\<lambda>_. None) (example_conn_to ConnTls) example_remote
        (seam_inputs (fst (seam_reads (example_polls w) seam_new)))
      = ([], map (\<lambda>m'. Incoming m' (example_conn_to ConnTls) example_remote) [m', m'], None)"
proof -
  define w where "w = wire [Request example_request, Request example_request]"
  have "20 < length (wire [Request example_request, Request example_request])" by code_simp
  then have w: "20 < length w" by (simp only: w_def)
  obtain m' where m': "stamped_from example_remote (Request example_request) = Inr m'" using example_stamped by blast
  let ?rs = "fst (seam_reads (example_polls w) seam_new)"
  have run: "seam_reads (example_polls w) seam_new = (?rs, seam_new)" by (simp add: example_seam_reads(1) [OF w])
  have "stream_serve_loop False False (\<lambda>_. None) (example_conn_to ConnTls) example_remote (seam_inputs ?rs)
      = ([], map (\<lambda>m'. Incoming m' (example_conn_to ConnTls) example_remote) [m', m'], None)"
  proof (rule seam_reassembly [OF _ _ example_seam_reads(3) [OF w] run])
    show "list_all fits_stream [Request example_request, Request example_request]" using example_fits by simp
    show "list_all2 (\<lambda>m m'. stamped_from example_remote m = Inr m') [Request example_request, Request example_request] [m', m']"
      using m' by simp
    show "ss_chunk seam_new = []" by (simp add: seam_new_def)
    show "seam_received (example_polls w) seam_new = wire [Request example_request, Request example_request]"
      using example_seam_reads(2) [OF w] by (simp only: w_def)
  qed
  then show ?thesis unfolding w_def by blast
qed

lemma seam_sends_in_order_witness:
  "fst (snd (seam_sends [(''one'', [None, Some (Inr ())]), (''two'', [Some (Inr ())])] seam_new)) = [''one'', ''two'']"
proof -
  let ?xs = "[(''one'', [None, Some (Inr ())]), (''two'', [Some (Inr ())])] :: (bytes \<times> (error + unit) option list) list"
  obtain rs handed s' where r: "seam_sends ?xs seam_new = (rs, handed, s')" by (metis prod_cases3)
  then have "list_all (\<lambda>r. r = PollReady (Inr ())) rs"
    by (auto simp: seam_send_def seam_new_def poll_write_def poll_slot_def poll_flush_def)
  from seam_sends_in_order [OF _ r this] r show ?thesis by simp
qed

lemma seam_message_lost_witness:
  "seam_sends [(''one'', [None]), (''two'', [Some (Inr ())])] seam_new = ([PollPending, PollReady (Inr ())], [''one''], seam_new)"
  using seam_message_lost [of seam_new "''one''" "''two''" 0 0] by (simp add: seam_new_def)

lemma seam_panics_after_error_witness:
  "fst (seam_sends [(''one'', [Some (Inl (IoError ''reset''))]), (''two'', [Some (Inr ())])] seam_new)
    = [PollReady (Inl (IoError ''reset'')), PollPanic]"
  using seam_panics_after_error [of seam_new "''one''" "''two''" 0 "IoError ''reset''" "Some (Inr ())"] by (simp add: seam_new_def)

end
