(* ===== verification/Tls_Certs.thy ===== *)
theory Tls_Certs
  imports Tls_Reload Serving_Props
begin

text \<open>
  Keys and certificates of \<open>transport/tls.rs\<close>: which key is taken from a PEM text, how the configuration of a TLS client is
  put together, and the information a reload logs about the new certificate. Reading PEM sections, base64 and the checks
  of the TLS library are given. \<open>None\<close> is a panic where a result can be one.
\<close>

section \<open>Keys\<close>

datatype key_der = Pkcs8 bytes | Pkcs1 bytes

text \<open>The sections of each kind in a PEM text, or why they cannot be read.\<close>

record pem_reader =
  pr_certs :: "bytes \<Rightarrow> string + bytes list"
  pr_pkcs8 :: "bytes \<Rightarrow> string + bytes list"
  pr_pkcs1 :: "bytes \<Rightarrow> string + bytes list"

definition parse_private_key :: "pem_reader \<Rightarrow> bytes \<Rightarrow> error + key_der" where
  "parse_private_key pr key_data =
     and_then (map_err (\<lambda>e. Error (''Failed to parse PKCS8 key: '' @ e)) (pr_pkcs8 pr key_data)) (\<lambda>keys.
       case keys of
         k # _ \<Rightarrow> Inr (Pkcs8 k)
       | [] \<Rightarrow>
           and_then (map_err (\<lambda>e. Error (''Failed to parse RSA key: '' @ e)) (pr_pkcs1 pr key_data)) (\<lambda>keys.
             case keys of k # _ \<Rightarrow> Inr (Pkcs1 k) | [] \<Rightarrow> Inl (Error ''No valid private key found'')))"

definition create_certified_key ::
    "pem_reader \<Rightarrow> (bytes list \<Rightarrow> key_der \<Rightarrow> string + 'k) \<Rightarrow> 'k key_maker" where
  "create_certified_key pr from_der cert_data key_data =
     and_then (map_err (\<lambda>e. Error (''Failed to parse certificate: '' @ e)) (pr_certs pr cert_data)) (\<lambda>certs.
     and_then
       (and_then (map_err (\<lambda>e. Error (''Failed to parse PKCS8 key: '' @ e)) (pr_pkcs8 pr key_data)) (\<lambda>keys.
          if keys \<noteq> [] then Inr (Pkcs8 (hd keys))
          else
            and_then (map_err (\<lambda>e. Error (''Failed to parse RSA key: '' @ e)) (pr_pkcs1 pr key_data)) (\<lambda>keys.
              if keys \<noteq> [] then Inr (Pkcs1 (hd keys)) else Inl (Error ''No valid private key found''))))
       (\<lambda>key. map_err (\<lambda>e. Error (''Failed to create certified key: '' @ e)) (from_der certs key)))"

text \<open>A server's key is chosen as a client's is.\<close>

lemma certified_key_choice:
  "create_certified_key pr from_der cert key =
     and_then (map_err (\<lambda>e. Error (''Failed to parse certificate: '' @ e)) (pr_certs pr cert)) (\<lambda>certs.
     and_then (parse_private_key pr key) (\<lambda>k.
       map_err (\<lambda>e. Error (''Failed to create certified key: '' @ e)) (from_der certs k)))"
  by (cases "pr_certs pr cert"; cases "pr_pkcs8 pr key"; cases "pr_pkcs1 pr key")
    (auto simp: create_certified_key_def parse_private_key_def split: list.split)

section \<open>The configuration of a client\<close>

record tls_client =
  tcl_roots :: "bytes list"
  tcl_auth :: "(bytes list \<times> key_der) option"
  tcl_custom_verifier :: bool

fun add_roots :: "(bytes \<Rightarrow> string option) \<Rightarrow> bytes list \<Rightarrow> bytes list \<Rightarrow> error + bytes list" where
  "add_roots refuse [] store = Inr store"
| "add_roots refuse (c # cs) store =
     (case refuse c of
        Some e \<Rightarrow> Inl (Error (''Failed to add CA certificate: '' @ e))
      | None \<Rightarrow> add_roots refuse cs (store @ [c]))"

definition tls_client_config ::
    "pem_reader \<Rightarrow> (bytes \<Rightarrow> string option) \<Rightarrow> (bytes list \<Rightarrow> key_der \<Rightarrow> string option) \<Rightarrow> bool \<Rightarrow> tls_config option
     \<Rightarrow> error + tls_client" where
  "tls_client_config pr refuse_root refuse_auth custom_verifier config =
     and_then (case Option.bind config tc_ca_certs of
         None \<Rightarrow> Inr []
       | Some ca \<Rightarrow>
           and_then (map_err (\<lambda>e. Error (''Failed to parse CA certificates: '' @ e)) (pr_certs pr ca)) (\<lambda>certs.
           add_roots refuse_root certs [])) (\<lambda>roots.
     and_then (case (Option.bind config tc_client_cert, Option.bind config tc_client_key) of
         (Some cert, Some key) \<Rightarrow>
           and_then (map_err (\<lambda>e. Error (''Failed to parse client certificate: '' @ e)) (pr_certs pr cert)) (\<lambda>certs.
           and_then (parse_private_key pr key) (\<lambda>key.
             case refuse_auth certs key of
               Some e \<Rightarrow> Inl (Error (''Client auth configuration error: '' @ e))
             | None \<Rightarrow> Inr (Some (certs, key))))
       | _ \<Rightarrow> Inr None) (\<lambda>auth.
     Inr \<lparr>tcl_roots = roots, tcl_auth = auth, tcl_custom_verifier = custom_verifier\<rparr>))"

lemma add_roots_all: "add_roots refuse cs store = Inr roots \<Longrightarrow> roots = store @ cs"
  by (induction cs arbitrary: store) (fastforce split: option.splits)+

text \<open>A client trusts the certificates of \<open>ca_certs\<close> and no others: without them, and without a verifier of the
  application, it trusts no server. It presents a certificate exactly when the configuration has both certificate and
  key.\<close>

theorem client_trust:
  assumes "tls_client_config pr refuse_root refuse_auth custom config = Inr c"
  shows "Inr (tcl_roots c) = (case Option.bind config tc_ca_certs of None \<Rightarrow> Inr [] | Some ca \<Rightarrow> pr_certs pr ca)"
    and "tcl_auth c \<noteq> None \<longleftrightarrow> Option.bind config tc_client_cert \<noteq> None \<and> Option.bind config tc_client_key \<noteq> None"
    and "tcl_custom_verifier c = custom"
proof -
  from assms obtain roots auth where c: "c = \<lparr>tcl_roots = roots, tcl_auth = auth, tcl_custom_verifier = custom\<rparr>"
    and roots: "(case Option.bind config tc_ca_certs of
         None \<Rightarrow> Inr []
       | Some ca \<Rightarrow>
           and_then (map_err (\<lambda>e. Error (''Failed to parse CA certificates: '' @ e)) (pr_certs pr ca)) (\<lambda>certs.
           add_roots refuse_root certs [])) = Inr roots"
    and auth: "(case (Option.bind config tc_client_cert, Option.bind config tc_client_key) of
         (Some cert, Some key) \<Rightarrow>
           and_then (map_err (\<lambda>e. Error (''Failed to parse client certificate: '' @ e)) (pr_certs pr cert)) (\<lambda>certs.
           and_then (parse_private_key pr key) (\<lambda>key.
             case refuse_auth certs key of
               Some e \<Rightarrow> Inl (Error (''Client auth configuration error: '' @ e))
             | None \<Rightarrow> Inr (Some (certs, key))))
       | _ \<Rightarrow> Inr None) = Inr auth"
    unfolding tls_client_config_def and_then_eq_Inr by blast
  show "tcl_custom_verifier c = custom" by (simp add: c)
  show "Inr (tcl_roots c) = (case Option.bind config tc_ca_certs of None \<Rightarrow> Inr [] | Some ca \<Rightarrow> pr_certs pr ca)"
  proof (cases "Option.bind config tc_ca_certs")
    case (Some ca)
    with roots show ?thesis by (cases "pr_certs pr ca") (auto simp: c dest!: add_roots_all)
  qed (use roots c in simp)
  show "tcl_auth c \<noteq> None \<longleftrightarrow> Option.bind config tc_client_cert \<noteq> None \<and> Option.bind config tc_client_key \<noteq> None"
    using auth by (auto simp: c and_then_eq_Inr split: option.splits)
qed

section \<open>What a reload logs\<close>

text \<open>\<open>str::find\<close> for a text and for a byte that ends a field, and slicing by byte positions, which panics outside the
  text, when the ends are crossed, and inside a character.\<close>

fun find_str :: "string \<Rightarrow> string \<Rightarrow> nat option" where
  "find_str pat s =
     (if starts_with s pat then Some 0
      else (case s of [] \<Rightarrow> None | _ # s \<Rightarrow> map_option Suc (find_str pat s)))"

declare find_str.simps [simp del]

fun find_byte :: "(char \<Rightarrow> bool) \<Rightarrow> string \<Rightarrow> nat option" where
  "find_byte P [] = None"
| "find_byte P (c # s) = (if P c then Some 0 else map_option Suc (find_byte P s))"

definition char_boundary :: "nat \<Rightarrow> string \<Rightarrow> bool" where
  "char_boundary i s \<longleftrightarrow> i \<le> length s \<and> \<not> cont_at i s"

definition str_slice :: "string \<Rightarrow> nat \<Rightarrow> nat \<Rightarrow> string option" where
  "str_slice s i j = (if i \<le> j \<and> char_boundary i s \<and> char_boundary j s then Some (take (j - i) (drop i s)) else None)"

definition str_from :: "string \<Rightarrow> nat \<Rightarrow> string option" where
  "str_from s i = str_slice s i (length s)"

record cert_info =
  ci_cn :: "string option"
  ci_expires :: "string option"

definition parse_cn :: "string \<Rightarrow> string option option" where
  "parse_cn der_str =
     (case find_str ''CN='' der_str of
        None \<Rightarrow> Some None
      | Some i \<Rightarrow>
          Option.bind (str_from der_str (i + 3)) (\<lambda>rest.
          let cn = take (unwrap_or (find_byte (\<lambda>c. c = CHR '','' \<or> c = CHR ''/'' \<or> c = CHR 0x0A) rest) (length rest)) rest in
          Some (if cn \<noteq> [] \<and> length cn \<le> 64 then Some cn else None)))"

text \<open>The first blank is counted in characters, and used as a byte position.\<close>

definition time_start :: "string \<Rightarrow> nat" where
  "time_start s =
     (if find_byte (\<lambda>c. c = CHR 0x20 \<or> c = CHR 0x0A \<or> c = CHR ''Z'') s = None then 0
      else (case find_byte (\<lambda>c. c = CHR 0x20 \<or> c = CHR 0x0A) s of
          None \<Rightarrow> 0
        | Some i \<Rightarrow> length (filter (\<lambda>k. \<not> cont_at k s) [0..<i]) + 1))"

definition parse_expires :: "string \<Rightarrow> string option option" where
  "parse_expires der_str =
     (case find_str ''notAfter'' der_str of
        None \<Rightarrow> Some None
      | Some i \<Rightarrow>
          Option.bind (str_from der_str (i + 9)) (\<lambda>after.
          Option.bind (str_from after (time_start after)) (\<lambda>time.
          let time_end = unwrap_or (find_byte (\<lambda>c. \<not> is_ascii_alphanumeric c \<and> c \<noteq> CHR ''+'' \<and> c \<noteq> CHR ''-'') time)
                (min 14 (length time)) in
          if time_end > 0 then map_option (\<lambda>t. Some (trim t)) (str_slice time 0 time_end) else Some None)))"

definition parse_cert_info :: "bytes \<Rightarrow> cert_info option" where
  "parse_cert_info der =
     (let der_str = utf8_lossy der in
      Option.bind (parse_cn der_str) (\<lambda>cn.
      Option.bind (parse_expires der_str) (\<lambda>expires.
      Some \<lparr>ci_cn = cn, ci_expires = expires\<rparr>)))"

definition begin_certificate :: string where "begin_certificate = ''-----BEGIN CERTIFICATE-----''"
definition end_certificate :: string where "end_certificate = ''-----END CERTIFICATE-----''"

definition cert_info_from_pem :: "(string \<Rightarrow> bytes option) \<Rightarrow> bytes \<Rightarrow> cert_info option option" where
  "cert_info_from_pem base64 pem_data =
     (let pem = utf8_lossy pem_data in
      case find_str begin_certificate pem of
        None \<Rightarrow> Some None
      | Some start_idx \<Rightarrow>
          (case find_str end_certificate pem of
             None \<Rightarrow> Some None
           | Some end_idx \<Rightarrow>
               Option.bind (str_slice pem (start_idx + 27) end_idx) (\<lambda>cert_b64.
               case base64 (trim cert_b64) of
                 None \<Rightarrow> Some None
               | Some der \<Rightarrow> map_option Some (parse_cert_info der))))"

text \<open>\<open>reload\<close> with the line it logs.\<close>

definition reload_text :: "cert_info option \<Rightarrow> string" where
  "reload_text info =
     ''TLS certificate reloaded successfully [''
     @ (case Option.bind info ci_cn of Some cn \<Rightarrow> ''SNI/CN='' @ cn | None \<Rightarrow> ''SNI/CN=unknown'') @ '', ''
     @ (case Option.bind info ci_expires of Some e \<Rightarrow> ''expires='' @ e | None \<Rightarrow> ''expires=unknown'') @ '']''"

definition reload_logged ::
    "'k key_maker \<Rightarrow> (string \<Rightarrow> bytes option) \<Rightarrow> nat \<Rightarrow> bytes \<Rightarrow> bytes \<Rightarrow> 'k cert_store \<Rightarrow> ((error + string) \<times> 'k cert_store) option" where
  "reload_logged mk base64 a cert key st =
     (case mk cert key of
        Inl e \<Rightarrow> Some (Inl e, st)
      | Inr k \<Rightarrow>
          map_option (\<lambda>info. (Inr (reload_text info), st\<lparr>cs_cells := (cs_cells st)(a \<mapsto> k)\<rparr>)) (cert_info_from_pem base64 cert))"

text \<open>The log line aside this is the reload of \<open>Tls_Reload\<close>, unless reading the certificate for it panics: then the key is
  not replaced.\<close>

lemma reload_logged_reloads:
  "reload_logged mk base64 a cert key st = Some (r, st') \<Longrightarrow> resolver_reload mk a cert key st = (map_sum id (\<lambda>_. ()) r, st')"
  by (auto simp: reload_logged_def resolver_reload_def split: sum.splits)

lemma reload_panics:
  assumes "mk cert key = Inr k" and "cert_info_from_pem base64 cert = None"
  shows "reload_logged mk base64 a cert key st = None"
  using assms by (simp add: reload_logged_def)

section \<open>A certificate of more than one line\<close>

lemma find_str_front: "find_str pat (pat @ s) = Some 0"
  by (subst find_str.simps) simp

lemma starts_with_Cons [simp]:
  "starts_with (c # s) (d # p) \<longleftrightarrow> c = d \<and> starts_with s p" "starts_with s []" "\<not> starts_with [] (d # p)"
  by (simp_all add: starts_with_def)

lemma find_str_skip:
  "CHR ''-'' \<notin> set a \<Longrightarrow> find_str (CHR ''-'' # p) (a @ b) = map_option ((+) (length a)) (find_str (CHR ''-'' # p) b)"
proof (induction a)
  case Nil
  then show ?case by (cases "find_str (CHR ''-'' # p) b") simp_all
next
  case (Cons c a)
  then have "\<not> starts_with (c # a @ b) (CHR ''-'' # p)" by auto
  with Cons have "find_str (CHR ''-'' # p) ((c # a) @ b) = map_option Suc (find_str (CHR ''-'' # p) (a @ b))"
    by (subst find_str.simps) (simp del: starts_with_Cons)
  also have "\<dots> = map_option ((+) (length (c # a))) (find_str (CHR ''-'' # p) b)"
    using Cons by (cases "find_str (CHR ''-'' # p) b") simp_all
  finally show ?case .
qed

text \<open>The end marker is not found across the begin marker and the line break after it.\<close>

lemma find_end_after_begin:
  "find_str end_certificate (begin_certificate @ CHR 0x0A # s) = map_option ((+) 28) (find_str end_certificate s)"
proof -
  have step: "find_str (d # p) (c # r) = (if starts_with (c # r) (d # p) then Some 0 else map_option Suc (find_str (d # p) r))"
    for c d :: char and p r
    by (subst find_str.simps) simp
  show ?thesis
    unfolding begin_certificate_def end_certificate_def
    by (cases "find_str ''-----END CERTIFICATE-----'' s") (simp_all add: step)
qed

text \<open>The base64 decoder refuses line breaks, as \<open>STANDARD\<close> of the crate \<open>base64\<close> does. Then nothing is known of a certificate
  whose text has more than one line, and none of a usable size has fewer: the log line of every reload says so.\<close>

definition body_line :: "string \<Rightarrow> bool" where
  "body_line l \<longleftrightarrow> l \<noteq> [] \<and> list_all (\<lambda>c. is_ascii_alphanumeric c \<or> c \<in> set ''+/='') l"

lemma body_char:
  assumes "body_line l" and "c \<in> set l"
  shows "byte c < 128 \<and> c \<noteq> CHR ''-'' \<and> \<not> is_ws c"
proof -
  let ?P = "\<lambda>c. is_ascii_alphanumeric c \<or> c \<in> set ''+/='' \<longrightarrow> byte c < 128 \<and> c \<noteq> CHR ''-'' \<and> \<not> is_ws c"
  have "list_all ?P (map char_of [0..<256 :: nat])" by code_simp
  moreover have "c \<in> set (map char_of [0..<256 :: nat])"
    by (simp only: set_map set_upt image_iff) (rule bexI [of _ "byte c"], simp_all)
  ultimately have "?P c" unfolding list_all_iff by blast
  with assms show ?thesis by (auto simp: body_line_def list_all_iff)
qed

lemma trim_two_lines:
  assumes "body_line l1" and "body_line l2"
  shows "trim (l1 @ CHR 0x0A # l2 @ [CHR 0x0A]) = l1 @ CHR 0x0A # l2"
proof -
  have ws: "\<not> is_ws c" if "c \<in> set l1 \<or> c \<in> set l2" for c using that body_char assms by blast
  obtain a as where a: "l1 = a # as" using assms(1) by (cases l1) (auto simp: body_line_def)
  obtain bs b where b: "l2 = bs @ [b]" using assms(2) by (cases l2 rule: rev_cases) (auto simp: body_line_def)
  have "trim_start (l1 @ CHR 0x0A # l2 @ [CHR 0x0A]) = l1 @ CHR 0x0A # l2 @ [CHR 0x0A]"
    using ws [of a] by (simp add: trim_start_def a)
  moreover have "trim_end (l1 @ CHR 0x0A # l2 @ [CHR 0x0A]) = l1 @ CHR 0x0A # l2"
    using ws [of b] by (simp add: trim_end_def b is_ws_def [of "CHR 0x0A"])
  ultimately show ?thesis by (simp add: trim_def)
qed

theorem reload_info_unknown:
  assumes "\<And>x. CHR 0x0A \<in> set x \<Longrightarrow> base64 x = None" and "body_line l1" and "body_line l2" and "utf8_valid rest"
    and "cert = begin_certificate @ CHR 0x0A # l1 @ CHR 0x0A # l2 @ CHR 0x0A # end_certificate @ rest" and "mk cert key = Inr k"
  shows "reload_logged mk base64 a cert key st
    = Some (Inr ''TLS certificate reloaded successfully [SNI/CN=unknown, expires=unknown]'', st\<lparr>cs_cells := (cs_cells st)(a \<mapsto> k)\<rparr>)"
proof -
  define body where "body = l1 @ CHR 0x0A # l2 @ [CHR 0x0A]"
  have cert: "cert = begin_certificate @ CHR 0x0A # body @ end_certificate @ rest" by (simp add: assms(5) body_def)
  have chars: "byte c < 128 \<and> c \<noteq> CHR ''-''" if "c \<in> set body" for c
    using that body_char [OF assms(2)] body_char [OF assms(3)] by (auto simp: body_def)
  have valid: "utf8_valid (xs @ rest)" if "list_all (\<lambda>c. byte c < 128) xs" for xs
    using that assms(4) by (induction xs) simp_all
  have "list_all (\<lambda>c. byte c < 128) (begin_certificate @ [CHR 0x0A])" "list_all (\<lambda>c. byte c < 128) end_certificate" by code_simp+
  then have ascii: "list_all (\<lambda>c. byte c < 128) (begin_certificate @ CHR 0x0A # body @ end_certificate)"
    using chars by (auto simp: list_all_iff)
  have pem: "utf8_lossy cert = cert" using valid [OF ascii] by (simp add: utf8_lossy_id cert)
  have first: "find_str begin_certificate cert = Some 0" by (simp add: cert find_str_front)
  obtain p where p: "end_certificate = CHR ''-'' # p" by (simp add: end_certificate_def)
  have "CHR ''-'' \<notin> set body" using chars by blast
  from find_str_skip [OF this, of p "end_certificate @ rest", folded p] find_str_front [of end_certificate rest]
  have "find_str end_certificate (body @ end_certificate @ rest) = Some (length body)" by simp
  then have second: "find_str end_certificate cert = Some (28 + length body)" by (simp add: cert find_end_after_begin)
  have len: "length begin_certificate = 27" by (simp add: begin_certificate_def)
  have low: "byte (cert ! i) < 128" if "i \<le> 28 + length body" for i
  proof -
    have "i < length (begin_certificate @ CHR 0x0A # body @ end_certificate)" using that len by (simp add: end_certificate_def)
    then show ?thesis using ascii unfolding cert list_all_length by (metis append.assoc append_Cons nth_append)
  qed
  then have "char_boundary 27 cert" "char_boundary (28 + length body) cert"
    by (simp_all add: char_boundary_def cont_at_def byte_at_def cert len not_le)
  then have "str_slice cert 27 (28 + length body) = Some (CHR 0x0A # body)"
    by (simp add: str_slice_def) (simp add: cert len)
  moreover have "trim (CHR 0x0A # body) = l1 @ CHR 0x0A # l2"
    using trim_two_lines [OF assms(2,3)] by (simp add: trim_def trim_start_def body_def is_ws_def [of "CHR 0x0A"])
  ultimately have "cert_info_from_pem base64 cert = Some None"
    using assms(1) [of "l1 @ CHR 0x0A # l2"] by (simp add: cert_info_from_pem_def pem first second)
  then show ?thesis using assms(6) by (simp add: reload_logged_def reload_text_def)
qed

text \<open>Two texts that make the reading for the log panic: an end marker before the begin marker, and a certificate that holds
  the text \<open>notAfter\<close> at its end.\<close>

lemma cert_info_panics:
  "cert_info_from_pem base64 (end_certificate @ CHR 0x0A # begin_certificate) = None"
  "cert_info_from_pem (\<lambda>_. Some ''CN=a, notAfter'') (begin_certificate @ end_certificate) = None"
proof -
  have pem: "utf8_lossy (end_certificate @ CHR 0x0A # begin_certificate) = end_certificate @ CHR 0x0A # begin_certificate" by code_simp
  have at: "find_str begin_certificate (end_certificate @ CHR 0x0A # begin_certificate) = Some 26" by code_simp
  show "cert_info_from_pem base64 (end_certificate @ CHR 0x0A # begin_certificate) = None"
    by (simp add: cert_info_from_pem_def pem at find_str_front str_slice_def)
  show "cert_info_from_pem (\<lambda>_. Some ''CN=a, notAfter'') (begin_certificate @ end_certificate) = None" by code_simp
qed

section \<open>Examples\<close>

definition example_pem :: pem_reader where
  "example_pem = \<lparr>pr_certs = (\<lambda>b. Inr [b]), pr_pkcs8 = (\<lambda>_. Inr []), pr_pkcs1 = (\<lambda>b. Inr [b])\<rparr>"

definition example_client_config :: tls_config where
  "example_client_config = tls_config_default\<lparr>tc_ca_certs := Some ''root'', tc_client_cert := Some ''me''\<rparr>"

lemma client_trust_witness:
  "\<exists>c. tls_client_config example_pem (\<lambda>_. None) (\<lambda>_ _. None) False (Some example_client_config) = Inr c
    \<and> tcl_roots c = [''root''] \<and> tcl_auth c = None \<and> \<not> tcl_custom_verifier c"
proof -
  obtain c where c: "tls_client_config example_pem (\<lambda>_. None) (\<lambda>_ _. None) False (Some example_client_config) = Inr c"
    by (simp add: tls_client_config_def example_client_config_def tls_config_default_def example_pem_def)
  from client_trust [OF c] c show ?thesis
    by (cases "tcl_auth c") (auto simp: example_client_config_def tls_config_default_def example_pem_def)
qed

definition example_base64 :: "string \<Rightarrow> bytes option" where
  "example_base64 s = (if CHR 0x0A \<in> set s then None else Some s)"

definition example_certificate :: bytes where
  "example_certificate =
     begin_certificate @ CHR 0x0A # ''MIIB'' @ CHR 0x0A # ''Q04='' @ CHR 0x0A # end_certificate @ [CHR 0x0A]"

lemma reload_info_unknown_witness:
  "map_option fst (reload_logged example_make example_base64 0 example_certificate ''k'' store_new)
    = Some (Inr ''TLS certificate reloaded successfully [SNI/CN=unknown, expires=unknown]'')"
proof -
  have "body_line ''MIIB''" "body_line ''Q04=''" "utf8_valid [CHR 0x0A]" by code_simp+
  from reload_info_unknown [of example_base64, OF _ this(1,2,3) example_certificate_def, of example_make "''k''" example_certificate 0 store_new]
  show ?thesis by (simp add: example_base64_def example_make_def)
qed

end
