(* ===== verification/Connections.thy ===== *)
theory Connections
  imports Serving Transport_Props
begin

text \<open>
  How connections are made and closed: the constructors of \<open>transport/udp.rs\<close>, \<open>tcp_listener.rs\<close>, \<open>tls.rs\<close>, \<open>websocket.rs\<close> and
  \<open>channel.rs\<close>, and the operations \<open>transport/connection.rs\<close> passes on to the transport at hand. The address of a connection is
  the one it advertises, the external one when the application gives one.
\<close>

section \<open>Constructors\<close>

definition udp_attach :: "net \<Rightarrow> sip_addr \<Rightarrow> nat \<Rightarrow> socket_addr option \<Rightarrow> sip_connection" where
  "udp_attach net inner_addr inner external =
     \<lparr>conn_kind = ConnUdp, conn_inner = inner,
      conn_addr = (case external of Some a \<Rightarrow> typed_addr Udp (resolve_bind_address net a) | None \<Rightarrow> inner_addr),
      conn_remote = None\<rparr>"

text \<open>The local address is what the socket reports.\<close>

definition udp_from_socket :: "net \<Rightarrow> (error + socket_addr) \<Rightarrow> nat \<Rightarrow> socket_addr option \<Rightarrow> error + sip_connection" where
  "udp_from_socket net local_addr inner external =
     and_then local_addr (\<lambda>a. Inr
       \<lparr>conn_kind = ConnUdp, conn_inner = inner,
        conn_addr = (case external of Some a \<Rightarrow> typed_addr Udp a | None \<Rightarrow> typed_addr Udp (resolve_bind_address net a)),
        conn_remote = None\<rparr>)"

text \<open>\<open>create_connection\<close>; opening and binding the socket is given, with the address and the identity of what is bound.\<close>

definition udp_create ::
    "net \<Rightarrow> (socket_addr \<Rightarrow> error + ((error + socket_addr) \<times> nat)) \<Rightarrow> socket_addr \<Rightarrow> socket_addr option \<Rightarrow> error + sip_connection" where
  "udp_create net bind_socket local external =
     and_then (bind_socket local) (\<lambda>(local_addr, inner). udp_from_socket net local_addr inner external)"

definition listener_new :: "conn_kind \<Rightarrow> transport \<Rightarrow> nat \<Rightarrow> socket_addr \<Rightarrow> socket_addr option \<Rightarrow> sip_connection" where
  "listener_new kind t inner local external =
     \<lparr>conn_kind = kind, conn_inner = inner,
      conn_addr = (case external of Some a \<Rightarrow> typed_addr t a | None \<Rightarrow> typed_addr t local),
      conn_remote = None\<rparr>"

definition tcp_listener_new :: "nat \<Rightarrow> socket_addr \<Rightarrow> socket_addr option \<Rightarrow> sip_connection" where
  "tcp_listener_new = listener_new ConnTcpListener Tcp"

definition tls_listener_conn :: "nat \<Rightarrow> socket_addr \<Rightarrow> socket_addr option \<Rightarrow> sip_connection" where
  "tls_listener_conn = listener_new ConnTlsListener Tls"

definition ws_listener_new :: "bool \<Rightarrow> nat \<Rightarrow> socket_addr \<Rightarrow> socket_addr option \<Rightarrow> sip_connection" where
  "ws_listener_new is_secure = listener_new ConnWebSocketListener (if is_secure then Wss else Ws)"

definition channel_new :: "nat \<Rightarrow> sip_addr \<Rightarrow> sip_connection" where
  "channel_new inner addr = \<lparr>conn_kind = ConnChannel, conn_inner = inner, conn_addr = addr, conn_remote = Some addr\<rparr>"

text \<open>\<open>TcpConnection::from_stream\<close>: the peer's address is what the stream reports.\<close>

definition tcp_from_stream :: "(error + socket_addr) \<Rightarrow> sip_addr \<Rightarrow> nat \<Rightarrow> error + sip_connection" where
  "tcp_from_stream peer local_addr inner =
     and_then peer (\<lambda>a. Inr (stream_connection ConnTcp inner local_addr (typed_addr Tcp a)))"

definition tls_from_server_stream :: "sip_addr \<Rightarrow> sip_addr \<Rightarrow> nat \<Rightarrow> sip_connection" where
  "tls_from_server_stream local_addr remote_addr inner = stream_connection ConnTls inner local_addr remote_addr"

definition tls_from_client_stream :: "(error + socket_addr) \<Rightarrow> sip_addr \<Rightarrow> nat \<Rightarrow> error + sip_connection" where
  "tls_from_client_stream local_addr remote_addr inner =
     and_then local_addr (\<lambda>a. Inr (stream_connection ConnTls inner (typed_addr Tls a) remote_addr))"

section \<open>Operations on any connection\<close>

text \<open>The token a connection was made with; listeners have none.\<close>

definition conn_cancel_token :: "sip_connection \<Rightarrow> 't option \<Rightarrow> 't option" where
  "conn_cancel_token c token =
     (case conn_kind c of
        ConnTcpListener \<Rightarrow> None | ConnTlsListener \<Rightarrow> None | ConnWebSocketListener \<Rightarrow> None
      | _ \<Rightarrow> token)"

text \<open>\<open>serve_loop\<close>, with what the loop of each transport gives: for a listener it returns at once.\<close>

definition conn_serve_loop :: "(conn_kind \<Rightarrow> error + unit) \<Rightarrow> sip_connection \<Rightarrow> error + unit" where
  "conn_serve_loop loop c =
     (case conn_kind c of
        ConnTcpListener \<Rightarrow> Inr () | ConnTlsListener \<Rightarrow> Inr () | ConnWebSocketListener \<Rightarrow> Inr ()
      | kind \<Rightarrow> loop kind)"

text \<open>\<open>close\<close>, with what shutting a stream down gives: only streams have something to close.\<close>

definition conn_close :: "(conn_kind \<Rightarrow> error + unit) \<Rightarrow> sip_connection \<Rightarrow> error + unit" where
  "conn_close shut c =
     (case conn_kind c of ConnTcp \<Rightarrow> shut ConnTcp | ConnTls \<Rightarrow> shut ConnTls | ConnWebSocket \<Rightarrow> shut ConnWebSocket | _ \<Rightarrow> Inr ())"

definition stream_close :: "string option \<Rightarrow> error + unit" where
  "stream_close failure =
     (case failure of Some e \<Rightarrow> Inl (Error (''Failed to shutdown write half: '' @ e)) | None \<Rightarrow> Inr ())"

definition ws_close :: "(ws_frame \<Rightarrow> error option) \<Rightarrow> error + ws_frame" where
  "ws_close failure = (case failure WsClose of Some e \<Rightarrow> Inl e | None \<Rightarrow> Inr WsClose)"

section \<open>Properties\<close>

text \<open>The constructors are those the listeners use for the connections they accept.\<close>

lemma accepted_constructed:
  "conn_kind l = ConnTcpListener \<Longrightarrow> accepted l a = ok (tcp_from_stream (ar_peer a) (conn_addr l) (ar_inner a))"
  "conn_kind l = ConnTlsListener \<Longrightarrow>
     accepted l a = (if ar_handshake a then Some (tls_from_server_stream (conn_addr l) (typed_addr Tls (ar_remote a)) (ar_inner a)) else None)"
  by (auto simp: accepted_def tcp_from_stream_def tls_from_server_stream_def ok_def split: sum.split)

lemma accepted_address: "accepted l a = Some c \<Longrightarrow> conn_addr c = conn_addr l"
  by (auto simp: accepted_def stream_connection_def split: conn_kind.splits sum.splits if_splits)

lemma first_interface_address:
  "list_all (\<lambda>(_, ip). \<not> ip_unspecified ip) ifs \<Longrightarrow> \<not> ip_unspecified (first_interface ifs)"
  by (induction ifs rule: first_interface.induct) (auto split: ip_addr.split)

text \<open>A UDP connection bound to the wildcard address advertises the address of an interface. A listening transport bound to it
  advertises the wildcard itself, and so does every connection it accepts.\<close>

theorem wildcard_advertised:
  assumes "ip_unspecified (sa_ip a)" and "net_interfaces net = Some ifs" and "list_all (\<lambda>(_, ip). \<not> ip_unspecified ip) ifs"
  shows "\<exists>c ip. udp_from_socket net (Inr a) i None = Inr c \<and> hwp_host (sa_addr (conn_addr c)) = IpAddr ip \<and> \<not> ip_unspecified ip"
    and "conn_addr (listener_new kind t i a None) = typed_addr t a"
    and "accepted (listener_new kind t i a None) arrived = Some c \<Longrightarrow> conn_addr c = typed_addr t a"
proof -
  show "\<exists>c ip. udp_from_socket net (Inr a) i None = Inr c \<and> hwp_host (sa_addr (conn_addr c)) = IpAddr ip \<and> \<not> ip_unspecified ip"
    using assms first_interface_address [OF assms(3)]
    by (simp add: udp_from_socket_def resolve_bind_address_def typed_addr_def hwp_of_socket_addr_def)
  show listener: "conn_addr (listener_new kind t i a None) = typed_addr t a" by (simp add: listener_new_def)
  show "accepted (listener_new kind t i a None) arrived = Some c \<Longrightarrow> conn_addr c = typed_addr t a"
    using accepted_address listener by metis
qed

text \<open>What a listening transport is asked to send is dropped with success; closing it does nothing, so its accept loop goes on.\<close>

lemma listener_inert:
  assumes "conn_kind c \<in> {ConnTcpListener, ConnTlsListener, ConnWebSocketListener}"
  shows "connection_send sd c msg destination = Inr None" and "conn_serve_loop loop c = Inr ()"
    and "conn_close shut c = Inr ()" and "conn_cancel_token c token = None"
  using assms by (auto simp: connection_send_def conn_serve_loop_def conn_close_def conn_cancel_token_def Let_def)

definition example_wildcard :: socket_addr where
  "example_wildcard = \<lparr>sa_ip = V4 0 0 0 0, sa_port = 5060\<rparr>"

definition example_hosted :: net where
  "example_hosted = (example_net 1)\<lparr>net_interfaces := Some [(True, V4 127 0 0 1), (False, V4 10 0 0 2)]\<rparr>"

lemma wildcard_advertised_witness:
  "udp_from_socket example_hosted (Inr example_wildcard) 1 None
     = Inr \<lparr>conn_kind = ConnUdp, conn_inner = 1, conn_addr = typed_addr Udp \<lparr>sa_ip = V4 10 0 0 2, sa_port = 5060\<rparr>, conn_remote = None\<rparr>
   \<and> conn_addr (tcp_listener_new 1 example_wildcard None) = typed_addr Tcp example_wildcard"
proof -
  have "ip_unspecified (sa_ip example_wildcard)" "net_interfaces example_hosted = Some [(True, V4 127 0 0 1), (False, V4 10 0 0 2)]"
      "list_all (\<lambda>(_, ip). \<not> ip_unspecified ip) [(True, V4 127 0 0 1), (False, V4 10 0 0 2)]"
    by (simp_all add: example_wildcard_def example_hosted_def)
  from wildcard_advertised(1) [OF this, of 1] wildcard_advertised(2) [OF this, of ConnTcpListener Tcp 1] show ?thesis
    by (auto simp: tcp_listener_new_def udp_from_socket_def resolve_bind_address_def example_hosted_def example_wildcard_def)
qed

end
