(* ===== verification/Proxy.thy ===== *)
theory Proxy
  imports Endpoint_Props
begin

text \<open>
  The SIP proxy of \<open>examples/proxy.rs\<close>: a registrar, and a stateful proxy that forwards INVITE and BYE to the registered
  user and remembers the sessions it forwarded. It runs on the transactions of the stack. The users are a map by name,
  the sessions a set of dialog ids. A task awaits: its argument is a list of turns, each what the other tasks do to the
  endpoint until it is resumed; the end \<open>TaskWaiting\<close> says that the turns ran out first.
\<close>

section \<open>State\<close>

record proxy_user =
  pu_username :: string
  pu_destination :: sip_addr

record proxy =
  px_users :: "string \<rightharpoonup> proxy_user"
  px_sessions :: "dialog_id set"

definition proxy_new :: proxy where
  "proxy_new = \<lparr>px_users = Map.empty, px_sessions = {}\<rparr>"

datatype task_end = TaskWaiting | TaskEnded "error + unit" | TaskPanicked

section \<open>The registrar\<close>

text \<open>What a parameter of the Via says about where the user is reached.\<close>

definition user_param :: "sip_addr \<Rightarrow> param \<Rightarrow> sip_addr" where
  "user_param a p =
     (case p of
        P_Transport t \<Rightarrow> a\<lparr>sa_type := Some t\<rparr>
      | P_Received r \<Rightarrow>
          (case parse_host r of Inr h \<Rightarrow> a\<lparr>sa_addr := (sa_addr a)\<lparr>hwp_host := h\<rparr>\<rparr> | Inl _ \<Rightarrow> a)
      | P_Rport (Some port) \<Rightarrow> a\<lparr>sa_addr := (sa_addr a)\<lparr>hwp_port := Some port\<rparr>\<rparr>
      | _ \<Rightarrow> a)"

definition first_contact :: "request \<Rightarrow> error + uri" where
  "first_contact req =
     and_then (sip_try (typed_contact_headers (req_headers req))) (\<lambda>cs.
       case cs of c # _ \<Rightarrow> Inr (na_uri c) | [] \<Rightarrow> Inl (Error ''missing Contact header''))"

definition user_of_request :: "request \<Rightarrow> error + proxy_user" where
  "user_of_request req =
     and_then (first_contact req) (\<lambda>contact.
     and_then (sip_try (and_then (via_header (req_headers req)) via_typed)) (\<lambda>via.
     and_then (sip_try (and_then (from_header (req_headers req)) from_uri)) (\<lambda>from.
     Inr \<lparr>pu_username = unwrap_or (map_option auth_user (uri_auth from)) [],
          pu_destination = foldl user_param \<lparr>sa_type = Some (via_transport via), sa_addr = uri_hwp contact\<rparr> (via_params via)\<rparr>)))"

text \<open>Whether the Expires header removes the registration.\<close>

definition unregisters :: "request \<Rightarrow> bool" where
  "unregisters req \<longleftrightarrow>
     (case header_opt H_Expires (req_headers req) of
        Some v \<Rightarrow> (case parse_uint 32 v of Inr n \<Rightarrow> n = 0 | Inl _ \<Rightarrow> False)
      | None \<Rightarrow> False)"

definition handle_register :: "env \<Rightarrow> st \<Rightarrow> proxy \<Rightarrow> (error + unit) \<times> st \<times> proxy" where
  "handle_register env s px =
     (let req = tx_original (fst s) in
      case user_of_request req of
        Inl _ \<Rightarrow> (case reply env SC_BadRequest s of (r, s) \<Rightarrow> (r, s, px))
      | Inr user \<Rightarrow>
          (case first_contact req of
             Inl e \<Rightarrow> (Inl e, s, px)
           | Inr uri \<Rightarrow>
               if unregisters req then
                 (case reply env SC_OK s of
                    (r, s) \<Rightarrow> (r, s, px\<lparr>px_users := (px_users px)(pu_username user := None)\<rparr>))
               else
                 (case reply_with env SC_OK
                     [H_Contact (show_contact \<lparr>na_display = None, na_uri = uri, na_params = [P_Expires ''60'']\<rparr>), H_Expires ''60''] None s of
                    (r, s) \<Rightarrow> (r, s, px\<lparr>px_users := (px_users px)(pu_username user \<mapsto> user)\<rparr>))))"

section \<open>Forwarding\<close>

definition callee_of :: "request \<Rightarrow> error + string" where
  "callee_of req =
     and_then (sip_try (and_then (to_header (req_headers req)) to_uri)) (\<lambda>u. Inr (unwrap_or (map_option auth_user (uri_auth u)) []))"

definition caller_of :: "request \<Rightarrow> error + string" where
  "caller_of req = and_then (sip_try (and_then (from_header (req_headers req)) from_uri)) (\<lambda>u. Inr (show_uri u))"

definition with_header :: "header \<Rightarrow> request \<Rightarrow> request" where
  "with_header h req = req\<lparr>req_headers := headers_push_front h (req_headers req)\<rparr>"

definition own_route_header :: "name_addr \<Rightarrow> header" where
  "own_route_header rr = H_RecordRoute (show_name_addr rr)"

text \<open>The closure that drops the first Via header, whatever it has.\<close>

definition drop_first_via :: "header list \<Rightarrow> header list" where
  "drop_first_via hs = snd (foldl (\<lambda>(first, kept) h.
     if first \<and> discriminant h = discriminant (H_Via []) then (False, kept) else (first, kept @ [h])) (True, []) hs)"

text \<open>The response to an INVITE as it goes to the caller.\<close>

definition invite_answer :: "name_addr \<Rightarrow> response \<Rightarrow> response" where
  "invite_answer rr resp = resp\<lparr>resp_headers := headers_push_front (own_route_header rr) (drop_first_via (resp_headers resp))\<rparr>"

text \<open>A client transaction for a request that got the proxy's Via, on its way to a user; \<open>None\<close> is a panic. The Record-Route of
  an INVITE goes above the Via.\<close>

definition forwarded :: "typed_via \<Rightarrow> name_addr option \<Rightarrow> request \<Rightarrow> request" where
  "forwarded via rr req =
     (let req = with_header (H_Via (show_via via)) req in
      case rr of Some rr \<Rightarrow> with_header (own_route_header rr) req | None \<Rightarrow> req)"

definition forward_client :: "request \<Rightarrow> proxy_user \<Rightarrow> endpoint \<Rightarrow> st option" where
  "forward_client req user e =
     (case key_from_request req ClientRole of
        Inl _ \<Rightarrow> None
      | Inr k \<Rightarrow> (case new_client k req None e of (t, e) \<Rightarrow> Some (t\<lparr>tx_destination := Some (pu_destination user)\<rparr>, e)))"

section \<open>INVITE\<close>

text \<open>After a negative answer of its own the proxy waits for the ACK.\<close>

fun await_ack :: "env \<Rightarrow> (endpoint \<Rightarrow> endpoint) list \<Rightarrow> st \<Rightarrow> task_end \<times> st" where
  "await_ack env [] s = (TaskWaiting, s)"
| "await_ack env (others # turns) s =
     (case receive env (fst s, others (snd s)) of
        (Obtained (Request req), s) \<Rightarrow> (if req_method req = Ack then (TaskEnded (Inr ()), s) else await_ack env turns s)
      | (Obtained (Response _), s) \<Rightarrow> await_ack env turns s
      | (Loop_ended, s) \<Rightarrow> (TaskEnded (Inr ()), s)
      | (Blocked, s) \<Rightarrow> await_ack env turns s)"

text \<open>A response of the callee: the session of a 2xx is entered, and the response is given to the caller's transaction.\<close>

definition callee_responds :: "env \<Rightarrow> name_addr \<Rightarrow> response \<Rightarrow> st \<Rightarrow> proxy \<Rightarrow> (error + unit) \<times> st \<times> proxy" where
  "callee_responds env rr resp s px =
     (let resp = invite_answer rr resp in
      case (if status_code_kind (resp_status resp) = Successful
            then and_then (dialog_id_of_response resp ClientRole) (\<lambda>d. Inr (px\<lparr>px_sessions := insert d (px_sessions px)\<rparr>))
            else Inr px) of
        Inl e \<Rightarrow> (Inl e, s, px)
      | Inr px \<Rightarrow> (case respond env resp s of (r, s) \<Rightarrow> (r, s, px)))"

text \<open>A request of the caller: a CANCEL gets the Via of the forwarded INVITE and is sent after it.\<close>

definition caller_requests :: "env \<Rightarrow> request \<Rightarrow> st \<Rightarrow> (error + unit) \<times> st" where
  "caller_requests env req s =
     (if req_method req = Cancel then
        send_cancel env
          (case via_header (req_headers (tx_original (fst s))) of Inr via \<Rightarrow> with_header (H_Via via) req | Inl _ \<Rightarrow> req) s
      else (Inr (), s))"

text \<open>The loop over both transactions. A turn says which of the two is polled; one that is not ready leaves the loop in its
  \<open>select!\<close>, where the state of the client transaction is not looked at.\<close>

datatype call_side = CalleeSide | CallerSide

fun proxy_invite_loop ::
    "env \<Rightarrow> name_addr \<Rightarrow> (call_side \<times> (endpoint \<Rightarrow> endpoint)) list \<Rightarrow> bool \<Rightarrow> transaction \<Rightarrow> transaction \<Rightarrow> endpoint \<Rightarrow> proxy
     \<Rightarrow> task_end \<times> transaction \<times> transaction \<times> endpoint \<times> proxy" where
  "proxy_invite_loop env rr [] again fwd tx e px =
     (if again \<and> is_terminated fwd then (TaskEnded (Inr ()), fwd, tx, e, px) else (TaskWaiting, fwd, tx, e, px))"
| "proxy_invite_loop env rr ((side, others) # turns) again fwd tx e px =
     (if again \<and> is_terminated fwd then (TaskEnded (Inr ()), fwd, tx, e, px)
      else (case side of
          CalleeSide \<Rightarrow>
            (case receive env (fwd, others e) of
               (Obtained (Response resp), (fwd, e)) \<Rightarrow>
                 (case callee_responds env rr resp (tx, e) px of
                    (Inl err, (tx, e), px) \<Rightarrow> (TaskEnded (Inl err), fwd, tx, e, px)
                  | (Inr _, (tx, e), px) \<Rightarrow> proxy_invite_loop env rr turns True fwd tx e px)
             | (Blocked, (fwd, e)) \<Rightarrow> proxy_invite_loop env rr turns False fwd tx e px
             | (_, (fwd, e)) \<Rightarrow> proxy_invite_loop env rr turns True fwd tx e px)
        | CallerSide \<Rightarrow>
            (case receive env (tx, others e) of
               (Obtained (Request req), (tx, e)) \<Rightarrow>
                 (case caller_requests env req (fwd, e) of
                    (Inl err, (fwd, e)) \<Rightarrow> (TaskEnded (Inl err), fwd, tx, e, px)
                  | (Inr _, (fwd, e)) \<Rightarrow> proxy_invite_loop env rr turns True fwd tx e px)
             | (Blocked, (tx, e)) \<Rightarrow> proxy_invite_loop env rr turns False fwd tx e px
             | (_, (tx, e)) \<Rightarrow> proxy_invite_loop env rr turns True fwd tx e px)))"

text \<open>A task that ends drops its transactions, the client transaction first.\<close>

definition drop_at_end :: "env \<Rightarrow> task_end \<Rightarrow> transaction list \<Rightarrow> endpoint \<Rightarrow> endpoint" where
  "drop_at_end env r ts e = (if r = TaskWaiting then e else foldl (\<lambda>e t. drop_transaction env (t, e)) e ts)"

definition proxy_invite ::
    "env \<Rightarrow> sip_addr list \<Rightarrow> (call_side \<times> (endpoint \<Rightarrow> endpoint)) list \<Rightarrow> st \<Rightarrow> proxy \<Rightarrow> task_end \<times> endpoint \<times> proxy" where
  "proxy_invite env addrs turns s px =
     (let req = tx_original (fst s);
          ends = (\<lambda>r ts e px. (r, drop_at_end env r ts e, px)) in
      case and_then (caller_of req) (\<lambda>_. callee_of req) of
        Inl e \<Rightarrow> ends (TaskEnded (Inl e)) [fst s] (snd s) px
      | Inr callee \<Rightarrow>
      (case get_record_route addrs of
         Inl e \<Rightarrow> ends (TaskEnded (Inl e)) [fst s] (snd s) px
       | Inr rr \<Rightarrow>
      (case px_users px callee of
         None \<Rightarrow>
           (case reply_with env SC_NotFound [own_route_header rr] None s of
              (_, s) \<Rightarrow> (case await_ack env (map snd turns) s of (r, (tx, e)) \<Rightarrow> ends r [tx] e px))
       | Some user \<Rightarrow>
      (case get_via env addrs None None of
         Inl e \<Rightarrow> ends (TaskEnded (Inl e)) [fst s] (snd s) px
       | Inr via \<Rightarrow>
      (case forward_client (forwarded via (Some rr) req) user (snd s) of
         None \<Rightarrow> ends TaskPanicked [fst s] (snd s) px
       | Some client \<Rightarrow>
      (case send env client of
         (Inl err, (fwd, e)) \<Rightarrow> ends (TaskEnded (Inl err)) [fwd, fst s] e px
       | (Inr _, (fwd, e)) \<Rightarrow>
           (case proxy_invite_loop env rr turns True fwd (fst s) e px of
              (r, fwd, tx, e, px) \<Rightarrow> ends r [fwd, tx] e px)))))))"

section \<open>BYE\<close>

fun bye_loop :: "env \<Rightarrow> (endpoint \<Rightarrow> endpoint) list \<Rightarrow> transaction \<Rightarrow> transaction \<Rightarrow> endpoint \<Rightarrow> task_end \<times> transaction \<times> transaction \<times> endpoint" where
  "bye_loop env [] bye tx e = (TaskWaiting, bye, tx, e)"
| "bye_loop env (others # turns) bye tx e =
     (case receive env (bye, others e) of
        (Obtained (Response resp), (bye, e)) \<Rightarrow>
          (case respond env (resp\<lparr>resp_headers := drop_first_via (resp_headers resp)\<rparr>) (tx, e) of
             (Inl err, (tx, e)) \<Rightarrow> (TaskEnded (Inl err), bye, tx, e)
           | (Inr _, (tx, e)) \<Rightarrow> bye_loop env turns bye tx e)
      | (Obtained (Request _), (bye, e)) \<Rightarrow> bye_loop env turns bye tx e
      | (Loop_ended, (bye, e)) \<Rightarrow> (TaskEnded (Inr ()), bye, tx, e)
      | (Blocked, (bye, e)) \<Rightarrow> bye_loop env turns bye tx e)"

definition proxy_bye ::
    "env \<Rightarrow> sip_addr list \<Rightarrow> (endpoint \<Rightarrow> endpoint) list \<Rightarrow> st \<Rightarrow> proxy \<Rightarrow> task_end \<times> endpoint \<times> proxy" where
  "proxy_bye env addrs turns s px =
     (let req = tx_original (fst s);
          ends = (\<lambda>r ts e px. (r, drop_at_end env r ts e, px)) in
      case and_then (caller_of req) (\<lambda>_. callee_of req) of
        Inl e \<Rightarrow> ends (TaskEnded (Inl e)) [fst s] (snd s) px
      | Inr callee \<Rightarrow>
      (case px_users px callee of
         None \<Rightarrow> (case reply env SC_NotFound s of (r, (tx, e)) \<Rightarrow> ends (TaskEnded r) [tx] e px)
       | Some user \<Rightarrow>
      (case get_via env addrs None None of
         Inl e \<Rightarrow> ends (TaskEnded (Inl e)) [fst s] (snd s) px
       | Inr via \<Rightarrow>
      (case forward_client (forwarded via None req) user (snd s) of
         None \<Rightarrow> ends TaskPanicked [fst s] (snd s) px
       | Some client \<Rightarrow>
      (case send env client of
         (Inl err, (bye, e)) \<Rightarrow> ends (TaskEnded (Inl err)) [bye, fst s] e px
       | (Inr _, (bye, e)) \<Rightarrow>
           (case dialog_id_of_request (tx_original bye) (tx_role bye) of
              Inl err \<Rightarrow> ends (TaskEnded (Inl err)) [bye, fst s] e px
            | Inr d \<Rightarrow>
                (case bye_loop env turns bye (fst s) e of
                   (r, bye, tx, e) \<Rightarrow> ends r [bye, tx] e (px\<lparr>px_sessions := px_sessions px - {d}\<rparr>))))))))"

section \<open>The loop of the proxy\<close>

text \<open>The branch for an ACK outside of a transaction: it ends the loop with an error, goes on, or panics.\<close>

definition handle_ack :: "env \<Rightarrow> sip_addr list \<Rightarrow> st \<Rightarrow> proxy \<Rightarrow> task_end \<times> transaction list \<times> endpoint" where
  "handle_ack env addrs s px =
     (let req = tx_original (fst s);
          refuse = (case reply env SC_NotAcceptable s of (r, (tx, e)) \<Rightarrow> (TaskEnded r, [tx], e)) in
      case dialog_id_of_request req (tx_role (fst s)) of
        Inl err \<Rightarrow> (TaskEnded (Inl err), [fst s], snd s)
      | Inr d \<Rightarrow>
      (if d \<notin> px_sessions px then refuse
       else (case callee_of req of
           Inl err \<Rightarrow> (TaskEnded (Inl err), [fst s], snd s)
         | Inr callee \<Rightarrow>
      (case px_users px callee of
         None \<Rightarrow> refuse
       | Some user \<Rightarrow>
      (case get_via env addrs None None of
         Inl err \<Rightarrow> (TaskEnded (Inl err), [fst s], snd s)
       | Inr via \<Rightarrow>
      (case forward_client (forwarded via None req) user (snd s) of
         None \<Rightarrow> (TaskPanicked, [fst s], snd s)
       | Some client \<Rightarrow> (case send env client of (r, (ack, e)) \<Rightarrow> (TaskEnded r, [ack, fst s], e))))))))"

text \<open>One incoming transaction; INVITE and BYE get tasks of their own.\<close>

definition handle_incoming ::
    "env \<Rightarrow> sip_addr list \<Rightarrow> st \<Rightarrow> proxy \<Rightarrow> task_end \<times> transaction list \<times> endpoint \<times> proxy" where
  "handle_incoming env addrs s px =
     (let done = (\<lambda>r ts e px. (r, [], drop_at_end env r ts e, px)) in
      case req_method (tx_original (fst s)) of
        Invite \<Rightarrow> (TaskEnded (Inr ()), [fst s], snd s, px)
      | Bye \<Rightarrow> (TaskEnded (Inr ()), [fst s], snd s, px)
      | Register \<Rightarrow> (case handle_register env s px of (r, (tx, e), px) \<Rightarrow> done (TaskEnded r) [tx] e px)
      | Ack \<Rightarrow> (case handle_ack env addrs s px of (r, ts, e) \<Rightarrow> done r ts e px)
      | Options \<Rightarrow> done (TaskEnded (Inr ())) [fst s] (snd s) px
      | _ \<Rightarrow> (case reply env SC_NotAcceptable s of (r, (tx, e)) \<Rightarrow> done (TaskEnded r) [tx] e px))"

text \<open>Before each transaction the tasks and the endpoint run. The result has the tasks that were started.\<close>

fun process_incoming_request ::
    "env \<Rightarrow> sip_addr list \<Rightarrow> (transaction \<times> (endpoint \<times> proxy \<Rightarrow> endpoint \<times> proxy)) list \<Rightarrow> endpoint \<Rightarrow> proxy
     \<Rightarrow> task_end \<times> transaction list \<times> endpoint \<times> proxy" where
  "process_incoming_request env addrs [] e px = (TaskWaiting, [], e, px)"
| "process_incoming_request env addrs ((tx, others) # txs) e px =
     (case others (e, px) of
        (e, px) \<Rightarrow>
          (case handle_incoming env addrs (tx, e) px of
             (TaskEnded (Inr _), tasks, e, px) \<Rightarrow>
               (case process_incoming_request env addrs txs e px of (r, more_tasks, e, px) \<Rightarrow> (r, tasks @ more_tasks, e, px))
           | (r, tasks, e, px) \<Rightarrow> (r, tasks, e, px)))"

section \<open>Properties\<close>

lemma drop_first_via_pop: "drop_first_via hs = header_pop H_Via hs"
proof -
  have "foldl (\<lambda>(first, kept) h. if first \<and> discriminant h = discriminant (H_Via []) then (False, kept) else (first, kept @ [h])) (b, kept) hs
      = (let (r, hs') = (if b then remove_first_header (\<lambda>h. variant H_Via h \<noteq> None) hs else (False, hs)) in (b \<and> \<not> r, kept @ hs'))"
    for b kept
    by (induction hs arbitrary: b kept) (auto simp: Let_def via_variant.variant_None split: prod.splits)
  from this [of True "[]"] show ?thesis by (simp add: drop_first_via_def header_pop_def Let_def split: prod.splits)
qed

lemma pop_via_others: "discriminant (mk []) \<noteq> 45 \<Longrightarrow> header_opt mk (header_pop H_Via hs) = header_opt mk hs"
proof (induction hs)
  case (Cons h hs)
  have "header_pop H_Via (h # hs) = (if variant H_Via h \<noteq> None then hs else h # header_pop H_Via hs)"
    by (simp add: header_pop_def split: prod.split)
  with Cons show ?case by (auto simp: variant_def)
qed (simp add: header_pop_def)

lemma content_length_others:
  "discriminant (mk []) \<noteq> discriminant (H_ContentLength []) \<Longrightarrow>
   header_opt mk (unique_push (H_ContentLength v) hs) = header_opt mk hs"
  by (simp add: header_opt_all content_length_variant.unique_push_others)

text \<open>The answer of a callee that copies the Via headers of the request it got goes to the caller with the caller's own, and
  names the same dialog.\<close>

theorem forwarded_answer:
  assumes "all_headers H_Via (resp_headers resp) = all_headers H_Via (req_headers (forwarded via rr req))"
  shows "all_headers H_Via (resp_headers (invite_answer rr' resp)) = all_headers H_Via (req_headers req)"
    and "dialog_id_of_response (invite_answer rr' resp) role = dialog_id_of_response resp role"
proof -
  show "all_headers H_Via (resp_headers (invite_answer rr' resp)) = all_headers H_Via (req_headers req)"
    using assms
    by (cases rr) (simp_all add: invite_answer_def drop_first_via_pop via_variant.pop_all forwarded_def with_header_def
        headers_push_front_def own_route_header_def variant_def Let_def)
  show "dialog_id_of_response (invite_answer rr' resp) role = dialog_id_of_response resp role"
    by (simp add: dialog_id_of_response_def invite_answer_def headers_push_front_def own_route_header_def variant_def
        call_id_header_def from_header_def to_header_def header_get_def drop_first_via_pop pop_via_others)
qed

lemma send_keeps:
  "tx_type (fst (snd (send env s))) = tx_type (fst s)
   \<and> (tx_original (fst (snd (send env s))) = tx_original (fst s)
     \<or> tx_original (fst (snd (send env s))) = tx_original (set_content_length (fst s)))"
proof -
  have timer: "tx_original (fst (start_timer upd d v x)) = tx_original (fst x) \<and> tx_type (fst (start_timer upd d v x)) = tx_type (fst x)"
    if "\<And>f t. tx_original (upd f t) = tx_original t \<and> tx_type (upd f t) = tx_type t" for upd d v x
    using that by (simp add: start_timer_def split: prod.split)
  have calling: "tx_original (fst (snd (do_transition env Calling x))) = tx_original (fst x)
      \<and> tx_type (fst (snd (do_transition env Calling x))) = tx_type (fst x)" for x
    by (simp add: do_transition_def transition_def enter_state_def enter_calling_def set_state_def timer Let_def split: prod.split option.split)
  have written: "fst (snd (snd (write_request env x))) = fst x" for x
    by (simp add: write_request_def Let_def split: option.split prod.split)
  have noted: "tx_original (fst (note_request_written x)) = tx_original (fst x) \<and> tx_type (fst (note_request_written x)) = tx_type (fst x)" for x
    by (simp add: note_request_written_def)
  have failed: "fst (snd (on_stream_send_failure env x)) = fst x" for x
    by (auto simp: on_stream_send_failure_def inform_tu_response_def tx_send_def Let_def split: prod.split bool.split)
  have started: "tx_original (fst (snd (start_request env x))) = tx_original (set_content_length (fst x))
      \<and> tx_type (fst (snd (start_request env x))) = tx_type (fst x)" for x
  proof -
    let ?x = "(set_content_length (affinity_destination (fst x)), snd x)"
    obtain written stream_failed x1 where w: "write_request env ?x = (written, stream_failed, x1)" by (rule prod_cases3)
    with written [of ?x] have x1: "fst x1 = fst ?x" by simp
    obtain r x2 where d: "do_transition env Calling x1 = (r, x2)" by (rule prod.exhaust)
    with calling [of x1] x1 have x2: "tx_original (fst x2) = tx_original (set_content_length (affinity_destination (fst x)))"
        "tx_type (fst x2) = tx_type (set_content_length (affinity_destination (fst x)))" by simp_all
    have "tx_original (set_content_length (affinity_destination (fst x))) = tx_original (set_content_length (fst x))
        \<and> tx_type (set_content_length (affinity_destination (fst x))) = tx_type (fst x)"
      by (simp add: set_content_length_def affinity_destination_def split: option.split)
    with w d x2 noted show ?thesis by (cases r) (simp_all add: start_request_def Let_def failed)
  qed
  show ?thesis
    by (auto simp: send_def Let_def started connect_def set_content_length_def split: sum.split prod.split)
qed

lemma sent_id:
  "dialog_id_of_request (tx_original (fst (snd (send env s)))) role = dialog_id_of_request (tx_original (fst s)) role"
proof -
  have "dialog_id_of_request (tx_original (set_content_length (fst s))) role = dialog_id_of_request (tx_original (fst s)) role"
    by (simp add: dialog_id_of_request_def set_content_length_def call_id_header_def from_header_def to_header_def header_get_def
        content_length_others)
  then show ?thesis using send_keeps [of env s] by auto
qed

lemma forwarded_id: "dialog_id_of_request (forwarded via rr req) role = dialog_id_of_request req role"
  by (cases rr) (simp_all add: dialog_id_of_request_def forwarded_def with_header_def headers_push_front_def own_route_header_def
      variant_def call_id_header_def from_header_def to_header_def header_get_def Let_def)

lemma forward_client_parts:
  assumes "forward_client req user e = Some client"
  shows "tx_original (fst client) = req \<and> is_client (tx_type (fst client)) \<and> tx_destination (fst client) = Some (pu_destination user)"
  using assms
  by (auto simp: forward_client_def new_client_def tx_new_def is_client_def Let_def split: sum.splits sip_method.splits)

lemma sent_role:
  assumes "forward_client req user e = Some client"
  shows "tx_role (fst (snd (send env client))) = ClientRole"
  using forward_client_parts [OF assms] send_keeps [of env client]
  by (auto simp: tx_role_def is_client_def role_of_type_def)

lemma bye_sessions:
  assumes "proxy_bye env addrs turns s px = (r, e', px')"
  shows "px_users px' = px_users px
    \<and> (px_sessions px' = px_sessions px
      \<or> (\<exists>d. dialog_id_of_request (tx_original (fst s)) ClientRole = Inr d \<and> px_sessions px' = px_sessions px - {d}))"
proof -
  let ?req = "tx_original (fst s)"
  have id: "dialog_id_of_request (tx_original bye) (tx_role bye) = dialog_id_of_request ?req ClientRole"
    if "forward_client (forwarded via None ?req) user (snd s) = Some client" and "send env client = (x, bye, e)"
    for via user client x bye e
    using that sent_role [OF that(1), of env] sent_id [of env client ClientRole] forward_client_parts [OF that(1)]
    by (simp add: forwarded_id)
  show ?thesis
    using assms by (auto simp: proxy_bye_def Let_def dest!: id [rotated] split: sum.splits option.splits prod.splits)
qed

text \<open>The sessions of the proxy: a 2xx of the callee enters the dialog as its caller sees it. A BYE of the caller that is
  forwarded removes it, a BYE of the callee never does.\<close>

theorem session_entered:
  assumes "status_code_kind (resp_status resp) = Successful" and "callee_responds env rr resp s px = (Inr (), s', px')"
  shows "\<exists>d. dialog_id_of_response resp ClientRole = Inr d \<and> px_sessions px' = insert d (px_sessions px)"
proof -
  have "resp_status (invite_answer rr resp) = resp_status resp" by (simp add: invite_answer_def)
  moreover have "dialog_id_of_response (invite_answer rr resp) ClientRole = dialog_id_of_response resp ClientRole"
    by (simp add: dialog_id_of_response_def invite_answer_def headers_push_front_def own_route_header_def variant_def
        call_id_header_def from_header_def to_header_def header_get_def drop_first_via_pop pop_via_others)
  ultimately show ?thesis
    using assms by (cases "dialog_id_of_response resp ClientRole") (auto simp: callee_responds_def Let_def split: prod.splits)
qed

theorem callers_bye_removes:
  assumes "dialog_id_of_request (tx_original (fst s)) ClientRole = Inr d"
    and "caller_of (tx_original (fst s)) = Inr caller" and "callee_of (tx_original (fst s)) = Inr callee"
    and "px_users px callee = Some user" and "get_via env addrs None None = Inr via"
    and "forward_client (forwarded via None (tx_original (fst s))) user (snd s) = Some client" and "fst (send env client) = Inr ()"
  shows "px_sessions (snd (snd (proxy_bye env addrs turns s px))) = px_sessions px - {d}"
proof -
  obtain t e where sent: "send env client = (Inr (), (t, e))" using assms(7) by (cases "send env client") auto
  have "dialog_id_of_request (tx_original t) (tx_role t) = Inr d"
    using sent_id [of env client ClientRole] sent_role [OF assms(6), of env] forward_client_parts [OF assms(6)] sent assms(1)
    by (simp add: forwarded_id)
  with assms(2-6) sent show ?thesis by (simp add: proxy_bye_def Let_def split: prod.split)
qed

text \<open>To the callee its own tag is the local one: in the role of a client its BYE names the mirrored dialog.\<close>

theorem callees_bye_keeps:
  assumes "dialog_id_of_request (tx_original (fst s)) ServerRole = Inr d" and "did_local_tag d \<noteq> did_remote_tag d"
    and "d \<in> px_sessions px"
  shows "d \<in> px_sessions (snd (snd (proxy_bye env addrs turns s px)))"
proof -
  obtain r e' px' where h: "proxy_bye env addrs turns s px = (r, e', px')" by (rule prod_cases3)
  have "dialog_id_of_request (tx_original (fst s)) ClientRole \<noteq> Inr d"
    using assms(1,2) by (auto simp: dialog_id_of_request_def dialog_id_for_def and_then_eq_Inr)
  with bye_sessions [OF h] assms(3) h show ?thesis by auto
qed

section \<open>The registrar\<close>

lemma user_param_params: "foldl user_param a (ps @ [p]) = user_param (foldl user_param a ps) p"
  by simp

text \<open>A user is sent requests where its REGISTER came from: the received and rport values that were stamped on the Via win over
  the Contact. An earlier registration under the name is replaced, and no other user is touched.\<close>

theorem registered_destination:
  assumes "handle_register env s px = (r, s', px')" and "user_of_request (tx_original (fst s)) = Inr user"
    and "and_then (via_header (req_headers (tx_original (fst s)))) via_typed = Inr via"
    and "via_params via = ps @ [P_Received host, P_Rport (Some port)]" and "parse_host host = Inr h"
  shows "sa_addr (pu_destination user) = \<lparr>hwp_host = h, hwp_port = Some port\<rparr>"
    and "px_users px' = (px_users px)(pu_username user := (if unregisters (tx_original (fst s)) then None else Some user))"
    and "px_sessions px' = px_sessions px"
proof -
  obtain contact name where c: "first_contact (tx_original (fst s)) = Inr contact"
    and "user = \<lparr>pu_username = name, pu_destination = foldl user_param \<lparr>sa_type = Some (via_transport via), sa_addr = uri_hwp contact\<rparr> (via_params via)\<rparr>"
    using assms(2,3) by (auto simp: user_of_request_def and_then_eq_Inr)
  then show "sa_addr (pu_destination user) = \<lparr>hwp_host = h, hwp_port = Some port\<rparr>"
    using assms(4,5) by (simp add: user_param_def)
  show "px_users px' = (px_users px)(pu_username user := (if unregisters (tx_original (fst s)) then None else Some user))"
    and "px_sessions px' = px_sessions px"
    using assms(1,2) c by (auto simp: handle_register_def Let_def split: prod.splits if_splits)
qed

text \<open>A REGISTER whose answer cannot be written ends the loop, and the transactions after it are never looked at: one
  connection that breaks before its REGISTER is answered stops the proxy for everybody.\<close>

theorem broken_register_stops_proxy:
  assumes "req_method (tx_original tx) = Register" and "tx_connection tx = Some c"
    and "\<And>msg dest. env_send_error env c msg dest \<noteq> None"
  shows "\<exists>err. fst (process_incoming_request env addrs ((tx, others) # txs) e px) = TaskEnded (Inl err)"
proof -
  have broken: "conn_send env c msg dest e = (Some (the (env_send_error env c msg dest)), e)" for msg dest e
    using assms(3) [of msg dest] by (auto simp: conn_send_def)
  have responded: "\<exists>err. fst (respond env resp (t, e)) = Inl err" if "tx_connection t = Some c" for resp t e
    using that by (auto simp: respond_def broken Let_def split: sum.split)
  have replied: "\<exists>err. fst (reply_with env status hs body (tx, e)) = Inl err" for status hs body e
  proof (cases "if status_code_kind status = Provisional then Inr tx else ensure_to_tag env tx")
    case (Inr t)
    then have "tx_connection t = Some c"
      using assms(2) by (auto simp: ensure_to_tag_def and_then_eq_Inr split: if_splits)
    from responded [OF this] show ?thesis unfolding reply_with_def fst_conv snd_conv Inr sum.case Let_def by simp
  next
    case (Inl err)
    show ?thesis unfolding reply_with_def fst_conv snd_conv Inl sum.case by simp
  qed
  obtain e1 px1 where o: "others (e, px) = (e1, px1)" by (rule prod.exhaust)
  have "\<exists>err. fst (handle_register env (tx, e1) px1) = Inl err"
  proof (cases "user_of_request (tx_original tx)")
    case (Inl err)
    with replied [of SC_BadRequest "[]" None e1] show ?thesis by (auto simp: handle_register_def reply_def split: prod.split)
  next
    case (Inr user)
    then obtain uri where uri: "first_contact (tx_original tx) = Inr uri" by (auto simp: user_of_request_def and_then_eq_Inr)
    let ?hs = "[H_Contact (show_contact \<lparr>na_display = None, na_uri = uri, na_params = [P_Expires ''60'']\<rparr>), H_Expires ''60'']"
    from replied [of SC_OK "[]" None e1] replied [of SC_OK ?hs None e1] Inr uri show ?thesis
      by (auto simp: handle_register_def reply_def Let_def split: prod.split)
  qed
  then obtain err s2 px2 where "handle_register env (tx, e1) px1 = (Inl err, s2, px2)" by (metis prod_cases3 fst_conv)
  with assms(1) o show ?thesis by (cases s2) (simp add: handle_incoming_def Let_def)
qed

section \<open>Examples\<close>

definition example_registration :: request where
  "example_registration = \<lparr>req_method = Register, req_uri = req_uri example_invite, req_version = V2,
     req_headers = [H_Via ''SIP/2.0/UDP a.example:5060;branch=z9hG4bK776;received=10.0.0.7;rport=6060'', H_From ''<sip:bob@b.example>;tag=5'',
       H_To ''<sip:bob@b.example>'', H_CallId ''reg1'', H_CSeq ''1 REGISTER'', H_Contact ''<sip:bob@192.168.0.2:5060>''], req_body = []\<rparr>"

definition example_register_tx :: st where
  "example_register_tx = new_server ''r'' example_registration (Some example_conn) example_endpoint"

lemma example_user:
  "user_of_request example_registration = Inr \<lparr>pu_username = ''bob'',
     pu_destination = \<lparr>sa_type = Some Udp, sa_addr = \<lparr>hwp_host = IpAddr (V4 10 0 0 7), hwp_port = Some 6060\<rparr>\<rparr>\<rparr>"
  by code_simp

lemma example_via:
  "\<exists>via. and_then (via_header (req_headers example_registration)) via_typed = Inr via
    \<and> via_params via = [P_Branch ''z9hG4bK776''] @ [P_Received ''10.0.0.7'', P_Rport (Some 6060)]"
proof -
  have "map_sum id via_params (and_then (via_header (req_headers example_registration)) via_typed)
      = Inr [P_Branch ''z9hG4bK776'', P_Received ''10.0.0.7'', P_Rport (Some 6060)]" by code_simp
  then show ?thesis by (cases "and_then (via_header (req_headers example_registration)) via_typed") auto
qed

lemma registered_destination_witness:
  "\<exists>user r s' px'. handle_register example_env example_register_tx proxy_new = (r, s', px') \<and> px_users px' ''bob'' = Some user
    \<and> sa_addr (pu_destination user) = \<lparr>hwp_host = IpAddr (V4 10 0 0 7), hwp_port = Some 6060\<rparr>"
proof -
  obtain r s' px' where h: "handle_register example_env example_register_tx proxy_new = (r, s', px')" by (rule prod_cases3)
  obtain via where via: "and_then (via_header (req_headers example_registration)) via_typed = Inr via"
      "via_params via = [P_Branch ''z9hG4bK776''] @ [P_Received ''10.0.0.7'', P_Rport (Some 6060)]"
    using example_via by blast
  have host: "parse_host ''10.0.0.7'' = Inr (IpAddr (V4 10 0 0 7))" and not: "\<not> unregisters example_registration" by code_simp+
  have tx: "tx_original (fst example_register_tx) = example_registration"
    by (simp add: example_register_tx_def new_server_def tx_new_def Let_def)
  from registered_destination [OF h, unfolded tx, OF example_user via host] not h show ?thesis by auto
qed

definition example_proxy_via :: typed_via where
  "example_proxy_via = \<lparr>via_version = V2, via_transport = Udp, via_uri = uri_of_hwp \<lparr>hwp_host = Domain ''p.example'', hwp_port = None\<rparr>,
     via_params = [P_Branch ''z9hG4bKp'']\<rparr>"

lemma forwarded_answer_witness:
  "all_headers H_Via (resp_headers (invite_answer (get_record_route_with_addr (conn_addr example_conn))
     (example_ok\<lparr>resp_headers := H_Via ''SIP/2.0/UDP p.example;branch=z9hG4bKp'' # resp_headers example_ok\<rparr>)))
   = all_headers H_Via (req_headers example_invite)"
proof (rule forwarded_answer(1))
  show "all_headers H_Via (resp_headers (example_ok\<lparr>resp_headers := H_Via ''SIP/2.0/UDP p.example;branch=z9hG4bKp'' # resp_headers example_ok\<rparr>))
      = all_headers H_Via (req_headers (forwarded example_proxy_via None example_invite))"
    by code_simp
qed

definition example_invite_2xx :: response where
  "example_invite_2xx = example_ok\<lparr>resp_headers := H_Via ''SIP/2.0/UDP p.example;branch=z9hG4bKp'' # resp_headers example_ok\<rparr>"

lemma session_entered_witness:
  "\<exists>s' px'. callee_responds example_env (get_record_route_with_addr (conn_addr example_conn)) example_invite_2xx example_server proxy_new = (Inr (), s', px')
    \<and> px_sessions px' = {\<lparr>did_call_id = ''call1@a.example'', did_local_tag = ''88'', did_remote_tag = ''99''\<rparr>}"
proof -
  let ?r = "callee_responds example_env (get_record_route_with_addr (conn_addr example_conn)) example_invite_2xx example_server proxy_new"
  have "fst ?r = Inr ()" by code_simp
  then obtain s' px' where r: "?r = (Inr (), s', px')" by (cases ?r) auto
  have k: "status_code_kind (resp_status example_invite_2xx) = Successful" by code_simp
  have d: "dialog_id_of_response example_invite_2xx ClientRole
      = Inr \<lparr>did_call_id = ''call1@a.example'', did_local_tag = ''88'', did_remote_tag = ''99''\<rparr>" by code_simp
  from session_entered [OF k r] r d show ?thesis by (simp add: proxy_new_def)
qed

text \<open>The session of this call, and a BYE from either side.\<close>

definition example_session :: proxy where
  "example_session = \<lparr>px_users = (\<lambda>_. Some \<lparr>pu_username = ''bob'', pu_destination = conn_addr example_conn\<rparr>),
     px_sessions = {\<lparr>did_call_id = ''call1@a.example'', did_local_tag = ''88'', did_remote_tag = ''99''\<rparr>}\<rparr>"

definition example_proxy_bye :: "string \<Rightarrow> string \<Rightarrow> st" where
  "example_proxy_bye from_value to_value = new_server ''b''
     (example_invite\<lparr>req_method := Bye, req_headers := [H_Via ''SIP/2.0/UDP a.example:5060;branch=z9hG4bK777'', H_From from_value, H_To to_value,
        H_CallId ''call1@a.example'', H_CSeq ''8 BYE'']\<rparr>) (Some example_conn) example_endpoint"

lemma callers_bye_removes_witness:
  "px_sessions (snd (snd (proxy_bye example_env [conn_addr example_conn] []
     (example_proxy_bye ''<sip:alice@a.example>;tag=88'' ''<sip:bob@b.example>;tag=99'') example_session))) = {}"
proof -
  let ?s = "example_proxy_bye ''<sip:alice@a.example>;tag=88'' ''<sip:bob@b.example>;tag=99''"
  let ?req = "tx_original (fst ?s)"
  have d: "dialog_id_of_request ?req ClientRole = Inr \<lparr>did_call_id = ''call1@a.example'', did_local_tag = ''88'', did_remote_tag = ''99''\<rparr>"
    and caller: "caller_of ?req = Inr ''sip:alice@a.example''" and callee: "callee_of ?req = Inr ''bob''" by code_simp+
  have user: "px_users example_session ''bob'' = Some \<lparr>pu_username = ''bob'', pu_destination = conn_addr example_conn\<rparr>"
    by (simp add: example_session_def)
  obtain via where via: "get_via example_env [conn_addr example_conn] None None = Inr via" by (simp add: get_via_def Let_def)
  have "(case get_via example_env [conn_addr example_conn] None None of Inr via \<Rightarrow>
      (case forward_client (forwarded via None ?req) \<lparr>pu_username = ''bob'', pu_destination = conn_addr example_conn\<rparr> (snd ?s) of
         Some client \<Rightarrow> fst (send example_env client) = Inr () | None \<Rightarrow> False) | Inl _ \<Rightarrow> False)" by code_simp
  then obtain client where c: "forward_client (forwarded via None ?req) \<lparr>pu_username = ''bob'', pu_destination = conn_addr example_conn\<rparr> (snd ?s) = Some client"
      "fst (send example_env client) = Inr ()"
    by (auto simp: via split: option.splits)
  from callers_bye_removes [OF d caller callee user via c, of "[]"] show ?thesis by (simp add: example_session_def)
qed

lemma callees_bye_keeps_witness:
  "px_sessions (snd (snd (proxy_bye example_env [conn_addr example_conn] []
     (example_proxy_bye ''<sip:bob@b.example>;tag=99'' ''<sip:alice@a.example>;tag=88'') example_session))) \<noteq> {}"
proof -
  let ?s = "example_proxy_bye ''<sip:bob@b.example>;tag=99'' ''<sip:alice@a.example>;tag=88''"
  have "dialog_id_of_request (tx_original (fst ?s)) ServerRole
      = Inr \<lparr>did_call_id = ''call1@a.example'', did_local_tag = ''88'', did_remote_tag = ''99''\<rparr>" by code_simp
  from callees_bye_keeps [OF this, of example_session example_env "[conn_addr example_conn]" "[]"] show ?thesis
    by (auto simp: example_session_def)
qed

definition example_broken_env :: env where
  "example_broken_env = example_env\<lparr>env_send_error := (\<lambda>_ _ _. Some (IoError ''broken pipe''))\<rparr>"

lemma broken_register_stops_proxy_witness:
  "\<exists>err. fst (process_incoming_request example_broken_env [] [(fst example_register_tx, id), (fst example_server, id)]
     (snd example_register_tx) proxy_new) = TaskEnded (Inl err)"
proof (rule broken_register_stops_proxy)
  show "req_method (tx_original (fst example_register_tx)) = Register" "tx_connection (fst example_register_tx) = Some example_conn"
    by (simp_all add: example_register_tx_def new_server_def tx_new_def example_registration_def Let_def)
  show "env_send_error example_broken_env example_conn msg dest \<noteq> None" for msg dest by (simp add: example_broken_env_def)
qed

end
