(* ===== verification/Proxy_Bridge.thy ===== *)
theory Proxy_Bridge
  imports Connections Serving_Props
begin

text \<open>
  The WebSocket side of \<open>examples/proxy.rs\<close>: which client address the HTTP server believes, and the task that carries SIP
  messages between a browser's WebSocket and a channel connection of the transport layer.
\<close>

section \<open>The address of a client\<close>

text \<open>The first of the headers that is there and readable. \<open>get\<close> reads a header of the HTTP request as text.\<close>

fun first_readable :: "(string \<Rightarrow> string option) \<Rightarrow> string list \<Rightarrow> string option" where
  "first_readable get [] = None"
| "first_readable get (h # hs) = (case get h of Some v \<Rightarrow> Some v | None \<Rightarrow> first_readable get hs)"

text \<open>The result is the status of a refusal or the address; \<open>None\<close> is a panic, of the \<open>unwrap\<close> on what must be an IPv4 address.\<close>

definition client_addr :: "socket_addr option \<Rightarrow> (string \<Rightarrow> string option) \<Rightarrow> (nat + socket_addr) option" where
  "client_addr connected get =
     (case connected of
        None \<Rightarrow> Some (Inl 400)
      | Some a \<Rightarrow>
          (case first_readable get [''x-client-ip'', ''x-forwarded-for'', ''x-real-ip'', ''cf-connecting-ip''] of
             None \<Rightarrow> Some (Inr a)
           | Some v \<Rightarrow>
               (case parse_ip (trim (takeWhile (\<lambda>c. c \<noteq> CHR '','') v)) of
                  Some (V4 i j k l) \<Rightarrow> Some (Inr (a\<lparr>sa_ip := V4 i j k l\<rparr>))
                | _ \<Rightarrow> None)))"

section \<open>The bridge\<close>

definition bridge_addr :: "socket_addr \<Rightarrow> sip_addr" where
  "bridge_addr client = typed_addr Ws client"

definition bridge_connection :: "nat \<Rightarrow> socket_addr \<Rightarrow> sip_connection" where
  "bridge_connection inner client = channel_new inner (bridge_addr client)"

text \<open>What the \<open>select!\<close> of the loop yields: a frame, or an event of the transport layer, \<open>None\<close> when its channel is closed.\<close>

datatype bridge_input = FromSocket ws_input | FromTransport "transport_event option"

definition framed :: "ws_frame \<Rightarrow> ws_frame list \<times> transport_event list \<times> bool \<Rightarrow> ws_frame list \<times> transport_event list \<times> bool" where
  "framed f r = (case r of (out, evs, ended) \<Rightarrow> (f # out, evs, ended))"

definition handed_on :: "transport_event \<Rightarrow> ws_frame list \<times> transport_event list \<times> bool \<Rightarrow> ws_frame list \<times> transport_event list \<times> bool" where
  "handed_on ev r = (case r of (out, evs, ended) \<Rightarrow> (out, ev # evs, ended))"

text \<open>The frames written, the events sent to the transport layer, and whether the task has ended. \<open>gone\<close> says that the serve
  loop of the channel has ended, \<open>fails\<close> which frames cannot be written.\<close>

fun handle_websocket ::
    "bool \<Rightarrow> (ws_frame \<Rightarrow> bool) \<Rightarrow> sip_connection \<Rightarrow> socket_addr \<Rightarrow> bridge_input list \<Rightarrow> ws_frame list \<times> transport_event list \<times> bool" where
  "handle_websocket gone fails c client [] = ([], [], False)"
| "handle_websocket gone fails c client (FromSocket WsEnd # ins) = ([], [], True)"
| "handle_websocket gone fails c client (FromSocket WsReadError # ins) = ([], [], True)"
| "handle_websocket gone fails c client (FromSocket (WsFrame (WsText text)) # ins) =
     (case parse_message text of
        Inl _ \<Rightarrow> handle_websocket gone fails c client ins
      | Inr msg \<Rightarrow>
          (case update_msg_received msg client Ws of
             Inl _ \<Rightarrow> handle_websocket gone fails c client ins
           | Inr msg \<Rightarrow>
               if gone then ([], [], True)
               else handed_on (Incoming msg c (bridge_addr client)) (handle_websocket gone fails c client ins)))"
| "handle_websocket gone fails c client (FromSocket (WsFrame (WsBinary bin)) # ins) =
     (case parse_message bin of
        Inl _ \<Rightarrow> handle_websocket gone fails c client ins
      | Inr msg \<Rightarrow>
          if gone then ([], [], True)
          else handed_on (Incoming msg c (bridge_addr client)) (handle_websocket gone fails c client ins))"
| "handle_websocket gone fails c client (FromSocket (WsFrame WsClose) # ins) = ([], [], True)"
| "handle_websocket gone fails c client (FromSocket (WsFrame (WsPing data)) # ins) =
     (if fails (WsPong data) then ([], [], True) else framed (WsPong data) (handle_websocket gone fails c client ins))"
| "handle_websocket gone fails c client (FromSocket (WsFrame (WsPong data)) # ins) = handle_websocket gone fails c client ins"
| "handle_websocket gone fails c client (FromSocket (WsFrame WsOther) # ins) = handle_websocket gone fails c client ins"
| "handle_websocket gone fails c client (FromTransport (Some (Incoming msg c' a)) # ins) =
     (if fails (WsText (message_text msg)) then ([], [], True)
      else framed (WsText (message_text msg)) (handle_websocket gone fails c client ins))"
| "handle_websocket gone fails c client (FromTransport (Some (NewConnection c')) # ins) = handle_websocket gone fails c client ins"
| "handle_websocket gone fails c client (FromTransport (Some (ClosedConnection c')) # ins) = ([], [], True)"
| "handle_websocket gone fails c client (FromTransport None # ins) = ([], [], True)"

section \<open>Properties\<close>

text \<open>A header that a reverse proxy sets for an IPv6 client makes the request handler panic.\<close>

lemma client_header_panics:
  assumes "get ''x-client-ip'' = None" and "get ''x-forwarded-for'' = Some ''2001:db8::1''"
  shows "client_addr (Some a) get = None"
proof -
  have "parse_ip (trim (takeWhile (\<lambda>c. c \<noteq> CHR '','') ''2001:db8::1'')) = Some (V6 [8193, 3512, 0, 0, 0, 0, 0, 1])" by code_simp
  with assms show ?thesis by (simp add: client_addr_def)
qed

text \<open>A response the transport layer hands to the channel of a browser is written to it as one text frame, and parses back
  there; what the browser sends comes from its own address.\<close>

theorem bridge_carries:
  assumes "message_wf msg" and "utf8_valid (message_body msg)" and "\<not> fails (WsText (message_to_bytes msg))"
    and "update_msg_received msg client Ws = Inr msg'"
  shows "handle_websocket False fails c client [FromTransport (Some (Incoming msg c' a)), FromSocket (WsFrame (WsText (message_to_bytes msg)))]
    = ([WsText (message_to_bytes msg)], [Incoming msg' c (bridge_addr client)], False)"
  using assms by (simp add: message_text_valid parse_encoded framed_def handed_on_def)

text \<open>When the browser is gone the serve loop of the channel ends, but a channel is not a stream: its connection stays in the
  cache, and look-ups of that address go on to find it.\<close>

theorem bridge_stays_cached:
  assumes "conn_kind c = ConnChannel" and "map_of (tl_connections s) a = Some c"
  shows "map_of (tl_connections (serve_ended net c s)) a = Some c"
  using assms by (simp add: serve_ended_def retire_connection_def is_stream_def send_event_def)

section \<open>Examples\<close>

definition example_browser :: socket_addr where
  "example_browser = \<lparr>sa_ip = V4 10 0 0 9, sa_port = 40000\<rparr>"

lemma bridge_carries_witness:
  "\<exists>msg'. handle_websocket False (\<lambda>_. False) (bridge_connection 1 example_browser) example_browser
      [FromTransport (Some (Incoming text_request (bridge_connection 1 example_browser) (bridge_addr example_browser))),
       FromSocket (WsFrame (WsText (message_to_bytes text_request)))]
    = ([WsText (message_to_bytes text_request)], [Incoming msg' (bridge_connection 1 example_browser) (bridge_addr example_browser)], False)"
proof -
  have "(case update_msg_received text_request example_browser Ws of Inr _ \<Rightarrow> True | Inl _ \<Rightarrow> False)" by code_simp
  then obtain msg' where msg': "update_msg_received text_request example_browser Ws = Inr msg'" by (auto split: sum.splits)
  have wf: "message_wf text_request" by code_simp
  have "utf8_valid (message_body text_request)" by code_simp
  from bridge_carries [OF wf this _ msg', of "\<lambda>_. False"] show ?thesis by blast
qed

lemma bridge_stays_cached_witness:
  "map_of (tl_connections (serve_ended (example_net 1) (bridge_connection 1 example_browser)
     (add_connection (bridge_connection 1 example_browser) transport_layer_new))) (bridge_addr example_browser)
   = Some (bridge_connection 1 example_browser)"
  by (rule bridge_stays_cached)
    (simp_all add: bridge_connection_def channel_new_def add_connection_def get_remote_addr_def serve_started_def send_event_def
      transport_layer_new_def map_of_btree_insert)

end
