(* ===== verification/Spec2Isabelle.thy ===== *)
theory Spec2Isabelle
  imports Typed_Roundtrip Stream_Codec Timer_Queue Sip_Connection Endpoint_Props Auth_Roundtrip Legacy_Equiv Transport_Props Serving_Props Tls_Reload Platform_Props Abandoned_Call Header_Lists Refer_Notify Endpoint_Serve Message_Access Rw_Map Tls_Seam Tls_Certs Connections Proxy Proxy_Bridge
begin

text \<open>
  A model of rsipstack, a SIP user-agent and proxy stack in Rust (\<open>src/src/\<close>), and the theorems
  that make it correct. Definitions carry the names of the Rust functions; where one name has two
  owners the owner's name comes first. A \<open>Result\<close> is the sum \<open>error + 'a\<close>, an \<open>Option\<close> is \<open>option\<close>, a
  struct is a record, an enum a datatype with the variants of the source, a byte string a list of
  characters (HOL's \<open>char\<close> is a byte), a \<open>BTreeMap\<close> an association list in key order. A method on \<open>&mut self\<close>
  takes the record and returns it changed.

  \<^bold>\<open>The parts and how they interact.\<close> Bytes reach a \<^emph>\<open>connection\<close>, whose serve loop frames and parses
  them into messages and stamps where they came from. The \<^emph>\<open>endpoint\<close> hands a message to the
  \<^emph>\<open>transaction\<close> with its key, or to a new one, through a channel of events; timers from the \<^emph>\<open>timer queue\<close>
  arrive in the same channel. A transaction retransmits, acknowledges and ends by its state machine
  and asks the \<^emph>\<open>transport layer\<close> for a connection, which asks the \<^emph>\<open>resolver\<close>. A \<^emph>\<open>dialog\<close> makes the
  requests of a session, gets its responses from the transactions and its peer's requests from the
  \<^emph>\<open>dialog layer\<close>. An \<^emph>\<open>invitation\<close> places a call, a \<^emph>\<open>registration\<close> registers, both with digest
  \<^emph>\<open>authentication\<close>. The \<^emph>\<open>platform\<close> gives targets without tokio tokens, channels and locks.

  \<^bold>\<open>Which theory models what.\<close>
  \<^item> \<open>Rust_Prelude\<close>: the Rust library functions the stack uses (trimming, splitting, integer parsing
    with overflow, UTF-8, IP addresses) and the shared lemmas.
  \<^item> \<open>Sip_Basics\<close>, \<open>Sip_Status\<close>: \<open>sip/method.rs\<close>, \<open>version.rs\<close>, \<open>transport.rs\<close>, \<open>error.rs\<close>, \<open>status_code.rs\<close>.
  \<^item> \<open>Sip_Uri\<close>, \<open>Uri_Roundtrip\<close>: \<open>sip/uri.rs\<close>; parameters as a keyed store (locale \<open>param_kind\<close>).
  \<^item> \<open>Sip_Headers\<close>, \<open>Sip_Typed\<close>, \<open>Header_Lists\<close>, \<open>Typed_Roundtrip\<close>: \<open>sip/headers/\<close>; one locale \<open>header_variant\<close> states
    what the list operations do to the headers of one variant and is interpreted for each in use.
  \<^item> \<open>Sip_Message\<close>, \<open>Message_Roundtrip\<close>, \<open>Message_Access\<close>: \<open>sip/message.rs\<close>, \<open>sip/parser.rs\<close>; the contract of
    \<open>ToTypedHeader\<close> is the locale \<open>typed_header\<close>, interpreted for seven headers.
  \<^item> \<open>Sip_Auth\<close>, \<open>Digest_Auth\<close>, \<open>Auth_Roundtrip\<close>: \<open>sip/headers/auth.rs\<close>, the authorization and challenge
    headers, \<open>sip/services.rs\<close>, \<open>dialog/authenticate.rs\<close>.
  \<^item> \<open>Stack_Error\<close>: \<open>transport/sip_addr.rs\<close>, \<open>error.rs\<close> and the identifiers errors carry.
  \<^item> \<open>Stream_Codec\<close>, \<open>Sip_Connection\<close>, \<open>Connections\<close>, \<open>Serving\<close>, \<open>Serving_Props\<close>: \<open>transport/stream.rs\<close>, \<open>connection.rs\<close>,
    \<open>udp.rs\<close>, \<open>websocket.rs\<close>, \<open>channel.rs\<close>: framing, keep-alives, Via stamping, serve loops, sends.
  \<^item> \<open>Resolver\<close>: \<open>resolver/\<close>. \<open>Transport_Layer\<close>, \<open>Transport_Props\<close>: \<open>transport/transport_layer.rs\<close> and the
    \<open>connect\<close> and \<open>serve_listener\<close> functions of \<open>tcp.rs\<close>, \<open>tcp_listener.rs\<close>, \<open>tls.rs\<close>, \<open>websocket.rs\<close>.
    \<open>Tls_Reload\<close>, \<open>Tls_Certs\<close>: the certificate resolver and the keys of \<open>tls.rs\<close>; \<open>Tls_Seam\<close>: its adapter for
    the TLS streams of a platform.
  \<^item> \<open>Timer_Queue\<close>: \<open>transaction/timer.rs\<close>, with the contract \<open>timer_service\<close> the endpoint relies on.
  \<^item> \<open>Transaction_Key\<close>, \<open>Message_Factory\<close>: \<open>transaction/key.rs\<close>, \<open>transaction/message.rs\<close>, the generators of
    \<open>transaction/mod.rs\<close>, \<open>DialogId\<close> of \<open>dialog/mod.rs\<close>.
  \<^item> \<open>Transaction_State\<close>, \<open>Transaction\<close>, \<open>Transaction_Receive\<close>: \<open>transaction/transaction.rs\<close>; \<open>Endpoint\<close>,
    \<open>Endpoint_Serve\<close>: \<open>transaction/endpoint.rs\<close>. \<open>Transaction_Inv\<close>, \<open>Transaction_Steps\<close> hold the step relation and its
    invariant, \<open>Transaction_Spec\<close> the abstract state machines and the refinement,
    \<open>Transaction_Behaviour\<close> and \<open>Endpoint_Props\<close> what the operations do.
  \<^item> \<open>Dialog\<close>, \<open>Dialog_Requests\<close>: \<open>dialog/dialog.rs\<close>; \<open>Invite_Dialog\<close>, \<open>Invite_Handlers\<close>:
    \<open>dialog/invite_dialog.rs\<close>; \<open>Subscription\<close>: \<open>dialog/subscription.rs\<close>, \<open>publication.rs\<close>; \<open>Dialog_Layer\<close>:
    \<open>dialog/dialog_layer.rs\<close>; \<open>Legacy_Dialogs\<close>: \<open>dialog/client_dialog.rs\<close>, \<open>server_dialog.rs\<close>;
    \<open>Invitation\<close>, \<open>Registration\<close>: the files of these names; \<open>Abandoned_Call\<close>: the task a dropped
    \<open>do_invite\<close> leaves behind; \<open>Refer_Notify\<close>: \<open>notify_refer\<close>. \<open>Dialog_Inv\<close> holds the locale
    \<open>dialog_relation\<close>: a relation kept by the elementary changes of a dialog is kept by everything built
    from them; its interpretations \<open>life\<close> (\<open>Dialog_Inv\<close>) and \<open>identity\<close> (\<open>Dialog_Messages\<close>) give the
    invariants. \<open>Dialog_Session\<close>, \<open>Layer_Props\<close>, \<open>Legacy_Equiv\<close> hold the other properties.
  \<^item> \<open>Platform\<close>, \<open>Platform_Props\<close>, \<open>Rw_Map\<close>: \<open>platform/token.rs\<close>, \<open>mpsc.rs\<close>, \<open>select.rs\<close>, \<open>sync.rs\<close>, \<open>atomic64.rs\<close>.
  \<^item> \<open>Proxy\<close>, \<open>Proxy_Bridge\<close>: the stateful proxy of \<open>examples/proxy.rs\<close>, which uses the stack from outside.

  \<^bold>\<open>What the lemmas show.\<close> Texts: URIs, typed headers, authorizations, requests and responses parse back
  from what is printed, for well-formed values; a stream of messages is cut where it was joined,
  however the network delivers it. Transactions: every reachable transaction is in a state of its
  type with the timer armed that bounds its wait, moves only as the RFC machines allow and never
  back; retransmission intervals, lingering, ACKs and cached answers are as the RFCs say; the receive
  loop returns. Dialogs: a terminated dialog stays so, ids agree with tags on both sides, requests of
  the peer find the dialog, a BYE or a lost ACK ends it, a snapshot restores it. Transport: the
  connection cache is keyed by the peer and holds no retired stream, look-ups that overtake each
  other keep the newer one, failures change nothing, resolution returns targets of the kind asked
  for. The shared tables behave as one map under every interleaving; the adapter for TLS streams loses no byte
  it reads. The proxy gives answers back with the Vias of the caller and reaches a user where its
  REGISTER came from. Several theorems state where the code departs from what it means to do.

  \<^bold>\<open>Concurrency, bounds and fuel.\<close> A handler of a transaction runs to completion; between two of them
  the endpoint may change at will (\<open>tx_step\<close>). A dialog's operation awaits: its argument is a list of
  turns, each what the other tasks do to dialog and endpoint until it is resumed, and the result
  \<open>Waiting\<close> says that the turns ran out first; theorems quantify over all such lists. Serve loops take
  the list of their inputs. Recursion is structural on these lists, or has a measure: \<open>decode_all\<close> the
  length of the buffer, \<open>receive\<close> the events that queued timers and events can still cause,
  \<open>drain_group\<close> the records that remain. No definition has fuel. Sequence numbers of a dialog are
  \<open>32 word\<close>s and wrap as the code's; a \<open>usize\<close> has 64 bits, so the length of a frame wraps at
  \<open>2 ^ 64\<close> (\<open>total_length\<close>); nonce counts are \<open>u8\<close> values.

  \<^bold>\<open>Parameters.\<close> Code that is not in the repository is an argument: hash functions (\<open>hasher\<close>), random
  draws (\<open>draws\<close>, in the ranges asked for: \<open>in_range\<close>), DNS answers (\<open>lookup_source\<close>), socket and TLS
  calls (\<open>net\<close>, \<open>env\<close>), PEM sections and certificates (\<open>pem_reader\<close>, \<open>key_maker\<close>), base64, callbacks of the application.

  \<^bold>\<open>Not modelled.\<close> Binding and polling of sockets, what rustls and hickory make of their
  configuration (calls into other crates); the \<open>q\<close> parameter of Contact (a float); log output;
  the tokio side of \<open>platform/mod.rs\<close>; the other examples, benches and tests.
\<close>

end
